(* ===== verification/Kiyomi_Prelude.thy ===== *)
theory Kiyomi_Prelude
  imports Complex_Main "HOL-Library.Sublist" "HOL-Library.Multiset"
begin

text \<open>
  What the components of the web client share: the JavaScript values and library
  functions the source uses, with the lemmas about them.

  \<^item> A JS string is a list of UTF-16 code units; here it is a HOL \<open>string\<close>, so every code
    unit lies in \<open>U+0000 .. U+00FF\<close>. On these strings \<open>toLowerCase\<close> and \<open>trim\<close> are modelled
    exactly (Latin-1 lower case stays in Latin-1; the Latin-1 members of JS white space are
    9 to 13, 32 and 160).
  \<^item> A JS number is an exact rational (\<open>rat\<close>): comparisons, sums and differences carry no
    rounding. NaN and the infinities are not values of the model.
  \<^item> A value that may be \<open>undefined\<close> or \<open>null\<close> is an \<open>option\<close>; the operators \<open>??\<close> and \<open>||\<close>
    treat the two alike.
  \<^item> \<open>Array.prototype.sort\<close> is stable; \<open>js_sort\<close> is a stable insertion sort, and
    \<open>comparator.js_sort_unique\<close> shows that every stable sorted rearrangement is equal to it,
    so the choice of algorithm does not matter.
  \<^item> A JS \<open>Set\<close> iterates in insertion order; it is a distinct list.
\<close>

named_theorems js_simps "definitions of the JavaScript library functions"

text \<open>Introduction rules for statements of several parts.\<close>

lemma conjI2: "A \<Longrightarrow> B \<Longrightarrow> A \<and> B"
  by simp

lemma conjI3: "A \<Longrightarrow> B \<Longrightarrow> C \<Longrightarrow> A \<and> B \<and> C"
  by simp

lemma conjI4: "A \<Longrightarrow> B \<Longrightarrow> C \<Longrightarrow> D \<Longrightarrow> A \<and> B \<and> C \<and> D"
  by simp

lemma conjI5: "A \<Longrightarrow> B \<Longrightarrow> C \<Longrightarrow> D \<Longrightarrow> E \<Longrightarrow> A \<and> B \<and> C \<and> D \<and> E"
  by simp

lemma conjI6: "A \<Longrightarrow> B \<Longrightarrow> C \<Longrightarrow> D \<Longrightarrow> E \<Longrightarrow> F \<Longrightarrow> A \<and> B \<and> C \<and> D \<and> E \<and> F"
  by simp

lemma conjI7: "A \<Longrightarrow> B \<Longrightarrow> C \<Longrightarrow> D \<Longrightarrow> E \<Longrightarrow> F \<Longrightarrow> G \<Longrightarrow> A \<and> B \<and> C \<and> D \<and> E \<and> F \<and> G"
  by simp

lemma conjI8: "A \<Longrightarrow> B \<Longrightarrow> C \<Longrightarrow> D \<Longrightarrow> E \<Longrightarrow> F \<Longrightarrow> G \<Longrightarrow> H \<Longrightarrow> A \<and> B \<and> C \<and> D \<and> E \<and> F \<and> G \<and> H"
  by simp

section \<open>Values that may be absent\<close>

text \<open>\<open>coalesce [a, b, c]\<close> is \<open>a ?? b ?? c\<close>; \<open>coalesce_or [a, b] d\<close> is \<open>a ?? b ?? d\<close>.\<close>

fun coalesce :: "'a option list \<Rightarrow> 'a option" where
  "coalesce [] = None"
| "coalesce (None # xs) = coalesce xs"
| "coalesce (Some x # xs) = Some x"

fun coalesce_or :: "'a option list \<Rightarrow> 'a \<Rightarrow> 'a" where
  "coalesce_or [] d = d"
| "coalesce_or (None # xs) d = coalesce_or xs d"
| "coalesce_or (Some x # xs) d = x"

lemma coalesce_or_conv: "coalesce_or xs d = (case coalesce xs of None \<Rightarrow> d | Some x \<Rightarrow> x)"
  by (induction xs d rule: coalesce_or.induct) auto

lemma coalesce_Some_mem: "coalesce xs = Some x \<Longrightarrow> Some x \<in> set xs"
  by (induction xs rule: coalesce.induct) auto

lemma coalesce_None: "coalesce xs = None \<longleftrightarrow> (\<forall>x \<in> set xs. x = None)"
  by (induction xs rule: coalesce.induct) auto

text \<open>Truthiness, as \<open>Boolean(x)\<close>, \<open>if (x)\<close> and \<open>||\<close> read it.\<close>

definition truthy_str :: "string option \<Rightarrow> bool" where
  "truthy_str s = (case s of None \<Rightarrow> False | Some t \<Rightarrow> t \<noteq> [])"

definition truthy_num :: "rat option \<Rightarrow> bool" where
  "truthy_num n = (case n of None \<Rightarrow> False | Some q \<Rightarrow> q \<noteq> 0)"

definition truthy_bool :: "bool option \<Rightarrow> bool" where
  "truthy_bool b = (case b of None \<Rightarrow> False | Some c \<Rightarrow> c)"

text \<open>\<open>str_or [a, b] d\<close> is \<open>a || b || d\<close> on strings; \<open>num_or\<close> the same on numbers.\<close>

fun str_or :: "string option list \<Rightarrow> string \<Rightarrow> string" where
  "str_or [] d = d"
| "str_or (s # ss) d =
     (case s of None \<Rightarrow> str_or ss d | Some t \<Rightarrow> if t \<noteq> [] then t else str_or ss d)"

fun num_or :: "rat option list \<Rightarrow> rat \<Rightarrow> rat" where
  "num_or [] d = d"
| "num_or (s # ss) d =
     (case s of None \<Rightarrow> num_or ss d | Some t \<Rightarrow> if t \<noteq> 0 then t else num_or ss d)"

text \<open>\<open>(xs && xs.length > 0) ? xs : d\<close>.\<close>

definition nonempty_or :: "'a list option \<Rightarrow> 'a list \<Rightarrow> 'a list" where
  "nonempty_or xs d = (case xs of Some (y # ys) \<Rightarrow> y # ys | _ \<Rightarrow> d)"

lemma truthy_simps [simp]:
  "truthy_str None = False" "truthy_str (Some t) = (t \<noteq> [])"
  "truthy_num None = False" "truthy_num (Some q) = (q \<noteq> 0)"
  "truthy_bool None = False" "truthy_bool (Some c) = c"
  by (simp_all add: truthy_str_def truthy_num_def truthy_bool_def)

lemma str_or_empty_iff: "str_or ss [] = [] \<longleftrightarrow> (\<forall>s \<in> set ss. \<not> truthy_str s)"
  by (induction ss) (auto split: option.splits)

section \<open>Strings\<close>

definition lower_char :: "char \<Rightarrow> char" where
  "lower_char c =
     (let n = of_char c :: nat
      in if 65 \<le> n \<and> n \<le> 90 \<or> 192 \<le> n \<and> n \<le> 222 \<and> n \<noteq> 215 then char_of (n + 32) else c)"

definition js_lower :: "string \<Rightarrow> string" where
  "js_lower s = map lower_char s"

text \<open>
  \<open>toUpperCase\<close>. The sharp s becomes two letters; the micro sign and y with diaeresis, whose upper case is
  not one of the characters, stay.
\<close>

definition upper_char :: "char \<Rightarrow> string" where
  "upper_char c =
     (let n = of_char c :: nat
      in if n = 223 then ''SS''
         else if 97 \<le> n \<and> n \<le> 122 \<or> 224 \<le> n \<and> n \<le> 254 \<and> n \<noteq> 247 then [char_of (n - 32)] else [c])"

definition js_upper :: "string \<Rightarrow> string" where
  "js_upper s = concat (map upper_char s)"

definition is_ws :: "char \<Rightarrow> bool" where
  "is_ws c = (let n = of_char c :: nat in 9 \<le> n \<and> n \<le> 13 \<or> n = 32 \<or> n = 160)"

definition js_trim :: "string \<Rightarrow> string" where
  "js_trim s = rev (dropWhile is_ws (rev (dropWhile is_ws s)))"

definition js_startsWith :: "string \<Rightarrow> string \<Rightarrow> bool" where
  "js_startsWith s p = prefix p s"

fun js_includes :: "string \<Rightarrow> string \<Rightarrow> bool" where
  "js_includes [] p = (p = [])"
| "js_includes (c # s) p = (prefix p (c # s) \<or> js_includes s p)"

text \<open>\<open>s.split(',')\<close>: never empty; \<open>s.replace(p, r)\<close> with a string \<open>p\<close>: the first occurrence.\<close>

fun js_split :: "char \<Rightarrow> string \<Rightarrow> string list" where
  "js_split d [] = [[]]"
| "js_split d (c # s) =
     (if c = d then [] # js_split d s
      else case js_split d s of [] \<Rightarrow> [[c]] | p # ps \<Rightarrow> (c # p) # ps)"

fun js_replace_first :: "string \<Rightarrow> string \<Rightarrow> string \<Rightarrow> string" where
  "js_replace_first [] p r = (if p = [] then r else [])"
| "js_replace_first (c # s) p r =
     (if prefix p (c # s) then r @ drop (length p) (c # s) else c # js_replace_first s p r)"

text \<open>\<open>xs.join(d)\<close>.\<close>

fun js_join :: "string \<Rightarrow> string list \<Rightarrow> string" where
  "js_join d [] = []"
| "js_join d [x] = x"
| "js_join d (x # y # ys) = x @ d @ js_join d (y # ys)"

lemma js_split_no_delim: "d \<notin> set a \<Longrightarrow> js_split d a = [a]"
  by (induction a) auto

lemma js_split_append: "d \<notin> set a \<Longrightarrow> js_split d (a @ d # b) = a # js_split d b"
  by (induction a) auto

lemma js_split_nonempty [simp]: "js_split d s \<noteq> []"
  by (induction s) (auto split: list.splits)

lemma js_includes_sublist: "js_includes s p \<longleftrightarrow> sublist p s"
proof (induction s)
  case Nil
  show ?case by (auto simp: sublist_def)
next
  case (Cons c s)
  then show ?case by (simp add: sublist_Cons_right)
qed

lemma js_includes_empty [simp]: "js_includes s []"
  by (simp add: js_includes_sublist)

lemma of_char_char_of_nat: "n < 256 \<Longrightarrow> (of_char (char_of n :: char) :: nat) = n"
  by simp

lemma lower_char_idem [simp]: "lower_char (lower_char c) = lower_char c"
proof -
  let ?n = "of_char c :: nat"
  show ?thesis
  proof (cases "65 \<le> ?n \<and> ?n \<le> 90 \<or> 192 \<le> ?n \<and> ?n \<le> 222 \<and> ?n \<noteq> 215")
    case True
    then have "?n + 32 < 256" by auto
    then have "(of_char (char_of (?n + 32) :: char) :: nat) = ?n + 32" by (rule of_char_char_of_nat)
    with True show ?thesis by (auto simp: lower_char_def Let_def)
  next
    case False
    then have "lower_char c = c" unfolding lower_char_def Let_def by (rule if_not_P)
    then show ?thesis by simp
  qed
qed

lemma is_ws_lower_char [simp]: "is_ws (lower_char c) = is_ws c"
proof -
  let ?n = "of_char c :: nat"
  show ?thesis
  proof (cases "65 \<le> ?n \<and> ?n \<le> 90 \<or> 192 \<le> ?n \<and> ?n \<le> 222 \<and> ?n \<noteq> 215")
    case True
    then have "?n + 32 < 256" by auto
    then have "(of_char (char_of (?n + 32) :: char) :: nat) = ?n + 32" by (rule of_char_char_of_nat)
    with True show ?thesis by (auto simp: lower_char_def is_ws_def Let_def)
  next
    case False
    then have "lower_char c = c" unfolding lower_char_def Let_def by (rule if_not_P)
    then show ?thesis by simp
  qed
qed

lemma js_lower_idem [simp]: "js_lower (js_lower s) = js_lower s"
  by (simp add: js_lower_def)

lemma js_lower_Nil_iff [simp]: "js_lower s = [] \<longleftrightarrow> s = []"
  by (simp add: js_lower_def)

lemma dropWhile_ws_lower: "dropWhile is_ws (map lower_char s) = map lower_char (dropWhile is_ws s)"
  by (simp add: dropWhile_map comp_def)

lemma js_lower_trim: "js_lower (js_trim s) = js_trim (js_lower s)"
  by (simp add: js_lower_def js_trim_def dropWhile_ws_lower rev_map)

lemma js_trim_Nil [simp]: "js_trim [] = []"
  by (simp add: js_trim_def)

lemma js_trim_ends:
  assumes "js_trim s \<noteq> []"
  shows "\<not> is_ws (hd (js_trim s))" "\<not> is_ws (last (js_trim s))"
proof -
  let ?u = "dropWhile is_ws s" and ?v = "dropWhile is_ws (rev (dropWhile is_ws s))"
  have v: "?v \<noteq> []" using assms by (simp add: js_trim_def)
  have "rev ?u = takeWhile is_ws (rev ?u) @ ?v" by simp
  then have u: "?u = js_trim s @ rev (takeWhile is_ws (rev ?u))"
    unfolding js_trim_def by (metis rev_append rev_rev_ident)
  with assms have "hd (js_trim s) = hd ?u" "?u \<noteq> []" by (metis hd_append2, force)
  then show "\<not> is_ws (hd (js_trim s))" by (metis hd_dropWhile)
  show "\<not> is_ws (last (js_trim s))"
    using hd_dropWhile [OF v] by (simp add: js_trim_def last_rev)
qed

lemma js_trim_id: "s = [] \<or> \<not> is_ws (hd s) \<and> \<not> is_ws (last s) \<Longrightarrow> js_trim s = s"
proof -
  assume s: "s = [] \<or> \<not> is_ws (hd s) \<and> \<not> is_ws (last s)"
  have d: "dropWhile is_ws xs = xs" if "xs = [] \<or> \<not> is_ws (hd xs)" for xs
    using that by (cases xs) auto
  have "dropWhile is_ws s = s" by (rule d) (use s in blast)
  moreover have "dropWhile is_ws (rev s) = rev s" by (rule d) (use s in \<open>auto simp: hd_rev\<close>)
  ultimately show ?thesis by (simp add: js_trim_def)
qed

lemma js_trim_trim [simp]: "js_trim (js_trim s) = js_trim s"
  by (rule js_trim_id) (use js_trim_ends in blast)

text \<open>Number to string, exact on numbers with at most 17 digits after the point.\<close>

definition digit_char :: "nat \<Rightarrow> char" where
  "digit_char d = char_of (48 + d)"

fun nat_str :: "nat \<Rightarrow> string" where
  "nat_str n = (if n < 10 then [digit_char n] else nat_str (n div 10) @ [digit_char (n mod 10)])"

declare nat_str.simps [simp del]

fun frac_digits :: "nat \<Rightarrow> rat \<Rightarrow> string" where
  "frac_digits 0 r = []"
| "frac_digits (Suc k) r =
     (if r = 0 then []
      else let d = \<lfloor>10 * r\<rfloor> in digit_char (nat d) # frac_digits k (10 * r - of_int d))"

definition pos_str :: "rat \<Rightarrow> string" where
  "pos_str q =
     (let n = \<lfloor>q\<rfloor>; f = frac_digits 17 (q - of_int n)
      in nat_str (nat n) @ (if f = [] then [] else CHR ''.'' # f))"

definition num_str :: "rat \<Rightarrow> string" where
  "num_str q = (if q < 0 then CHR ''-'' # pos_str (- q) else pos_str q)"

lemma nat_str_nonempty [simp]: "nat_str n \<noteq> []"
  by (subst nat_str.simps) simp

lemma num_str_nonempty [simp]: "num_str q \<noteq> []"
  by (simp add: num_str_def pos_str_def Let_def)

lemma digit_char_range: "d < 10 \<Longrightarrow> (of_char (digit_char d) :: nat) = 48 + d"
  by (simp add: digit_char_def)

section \<open>Arrays\<close>

text \<open>\<open>find\<close>, \<open>findIndex\<close> (\<open>None\<close> for -1), \<open>slice\<close> on non-negative bounds.\<close>

fun find_index :: "('a \<Rightarrow> bool) \<Rightarrow> 'a list \<Rightarrow> nat option" where
  "find_index P [] = None"
| "find_index P (x # xs) = (if P x then Some 0 else map_option Suc (find_index P xs))"

definition js_slice :: "nat \<Rightarrow> nat \<Rightarrow> 'a list \<Rightarrow> 'a list" where
  "js_slice i j xs = take (j - i) (drop i xs)"

lemma find_index_Some:
  "find_index P xs = Some i \<Longrightarrow> i < length xs \<and> P (xs ! i) \<and> (\<forall>j < i. \<not> P (xs ! j))"
proof (induction xs arbitrary: i)
  case (Cons x xs)
  then show ?case by (auto simp: less_Suc_eq_0_disj nth_Cons split: if_splits nat.splits)
qed simp

lemma find_index_None: "find_index P xs = None \<longleftrightarrow> (\<forall>x \<in> set xs. \<not> P x)"
  by (induction xs) auto

lemma find_Some_mem: "List.find P xs = Some x \<Longrightarrow> x \<in> set xs \<and> P x"
  by (induction xs) (auto split: if_splits)

lemma find_None: "List.find P xs = None \<longleftrightarrow> (\<forall>x \<in> set xs. \<not> P x)"
  by (induction xs) auto

lemma find_append:
  "List.find P (xs @ ys) = (case List.find P xs of None \<Rightarrow> List.find P ys | Some x \<Rightarrow> Some x)"
  by (induction xs) auto

lemma set_js_slice_subset: "set (js_slice i j xs) \<subseteq> set xs"
  unfolding js_slice_def by (meson order_trans set_drop_subset set_take_subset)

text \<open>Stable sort with a comparator, as \<open>[...xs].sort(cmp)\<close>.\<close>

fun js_insert :: "('a \<Rightarrow> 'a \<Rightarrow> rat) \<Rightarrow> 'a \<Rightarrow> 'a list \<Rightarrow> 'a list" where
  "js_insert cmp x [] = [x]"
| "js_insert cmp x (y # ys) = (if cmp x y \<le> 0 then x # y # ys else y # js_insert cmp x ys)"

definition js_sort :: "('a \<Rightarrow> 'a \<Rightarrow> rat) \<Rightarrow> 'a list \<Rightarrow> 'a list" where
  "js_sort cmp xs = foldr (js_insert cmp) xs []"

lemma mset_js_insert [simp]: "mset (js_insert cmp x ys) = add_mset x (mset ys)"
  by (induction ys) auto

lemma js_sort_Nil [simp]: "js_sort cmp [] = []"
  by (simp add: js_sort_def)

lemma js_sort_Cons [simp]: "js_sort cmp (x # xs) = js_insert cmp x (js_sort cmp xs)"
  by (simp add: js_sort_def)

lemma mset_js_sort [simp]: "mset (js_sort cmp xs) = mset xs"
  by (induction xs) auto

lemma set_js_sort [simp]: "set (js_sort cmp xs) = set xs"
  by (metis mset_js_sort set_mset_mset)

lemma length_js_sort [simp]: "length (js_sort cmp xs) = length xs"
  by (metis mset_js_sort size_mset)

lemma js_sort_eq_Nil_iff [simp]: "js_sort cmp xs = [] \<longleftrightarrow> xs = []"
  by (metis length_0_conv length_js_sort)

text \<open>
  The contract of a comparator (ECMAScript's "consistent comparator"): the sign is
  antisymmetric and \<open>\<le> 0\<close> is transitive.
\<close>

locale comparator =
  fixes cmp :: "'a \<Rightarrow> 'a \<Rightarrow> rat"
  assumes cmp_sym: "cmp x y < 0 \<longleftrightarrow> 0 < cmp y x"
    and cmp_trans: "cmp x y \<le> 0 \<Longrightarrow> cmp y z \<le> 0 \<Longrightarrow> cmp x z \<le> 0"
begin

lemma cmp_zero_sym: "cmp x y = 0 \<longleftrightarrow> cmp y x = 0"
  using cmp_sym [of x y] cmp_sym [of y x] by force

lemma cmp_refl: "cmp x x = 0"
  using cmp_sym [of x x] by force

lemma cmp_total: "cmp x y \<le> 0 \<or> cmp y x \<le> 0"
  using cmp_sym [of x y] by force

lemma cmp_zero_trans: "cmp x y = 0 \<Longrightarrow> cmp y z = 0 \<Longrightarrow> cmp x z = 0"
  by (metis cmp_trans cmp_zero_sym cmp_sym order_antisym_conv order_refl not_less)

lemma cmp_zeroI: "cmp x y \<le> 0 \<Longrightarrow> cmp y x \<le> 0 \<Longrightarrow> cmp x y = 0"
  using cmp_sym [of x y] by force

lemma sorted_js_insert:
  "sorted_wrt (\<lambda>a b. cmp a b \<le> 0) ys \<Longrightarrow> sorted_wrt (\<lambda>a b. cmp a b \<le> 0) (js_insert cmp x ys)"
proof (induction ys)
  case (Cons y ys)
  show ?case
  proof (cases "cmp x y \<le> 0")
    case True
    with Cons.prems show ?thesis by (auto intro: cmp_trans)
  next
    case False
    then have "cmp y x \<le> 0" using cmp_total by blast
    moreover have "set (js_insert cmp x ys) = insert x (set ys)"
      by (metis mset_js_insert set_mset_add_mset_insert set_mset_mset)
    ultimately show ?thesis using Cons False by auto
  qed
qed simp

lemma sorted_js_sort: "sorted_wrt (\<lambda>a b. cmp a b \<le> 0) (js_sort cmp xs)"
  by (induction xs) (auto intro: sorted_js_insert)

lemma filter_js_insert:
  "sorted_wrt (\<lambda>a b. cmp a b \<le> 0) ys \<Longrightarrow>
    filter (\<lambda>b. cmp a b = 0) (js_insert cmp x ys) = filter (\<lambda>b. cmp a b = 0) (x # ys)"
proof (induction ys)
  case (Cons y ys)
  show ?case
  proof (cases "cmp x y \<le> 0")
    case False
    then have "\<not> (cmp a x = 0 \<and> cmp a y = 0)"
      by (metis cmp_zero_sym cmp_zero_trans order_refl)
    with Cons False show ?thesis by auto
  qed simp
qed simp

lemma js_sort_stable: "filter (\<lambda>b. cmp a b = 0) (js_sort cmp xs) = filter (\<lambda>b. cmp a b = 0) xs"
  by (induction xs) (auto simp: filter_js_insert sorted_js_sort)

lemma sorted_stable_eq:
  assumes "sorted_wrt (\<lambda>a b. cmp a b \<le> 0) ys" "sorted_wrt (\<lambda>a b. cmp a b \<le> 0) zs"
    and "\<And>a. filter (\<lambda>b. cmp a b = 0) ys = filter (\<lambda>b. cmp a b = 0) zs"
  shows "ys = zs"
  using assms
proof (induction ys arbitrary: zs)
  case Nil
  show ?case
  proof (cases zs)
    case (Cons z zs')
    with Nil.prems(3) [of z] show ?thesis by (simp add: cmp_refl)
  qed simp
next
  case (Cons y ys)
  have "y \<in> set (filter (\<lambda>b. cmp y b = 0) zs)"
    unfolding Cons.prems(3) [of y, symmetric] by (simp add: cmp_refl)
  then have "y \<in> set zs" by simp
  then obtain z zs' where zs: "zs = z # zs'" by (cases zs) auto
  with \<open>y \<in> set zs\<close> Cons.prems(2) have zy: "cmp z y \<le> 0" by (auto simp: cmp_refl)
  have "z \<in> set (filter (\<lambda>b. cmp z b = 0) (y # ys))"
    unfolding Cons.prems(3) [of z] zs by (simp add: cmp_refl)
  then have "z \<in> set (y # ys)" by (auto split: if_splits)
  with Cons.prems(1) have "cmp y z \<le> 0" by (auto simp: cmp_refl)
  then have "cmp y z = 0" using zy by (rule cmp_zeroI)
  with Cons.prems(3) [of y] zs have "y = z" by (simp add: cmp_refl)
  moreover have "filter (\<lambda>b. cmp a b = 0) ys = filter (\<lambda>b. cmp a b = 0) zs'" for a
    using Cons.prems(3) [of a] zs \<open>y = z\<close> by (auto split: if_splits)
  ultimately show ?case using Cons.IH [of zs'] Cons.prems(1,2) zs by simp
qed

text \<open>Every stable sorted rearrangement is the one \<open>js_sort\<close> computes.\<close>

lemma js_sort_unique:
  assumes "sorted_wrt (\<lambda>a b. cmp a b \<le> 0) ys"
    and "\<And>a. filter (\<lambda>b. cmp a b = 0) ys = filter (\<lambda>b. cmp a b = 0) xs"
  shows "ys = js_sort cmp xs"
  by (rule sorted_stable_eq [OF assms(1) sorted_js_sort]) (simp only: assms(2) js_sort_stable)

lemma js_sort_idem: "js_sort cmp (js_sort cmp xs) = js_sort cmp xs"
  by (rule js_sort_unique [symmetric]) (simp_all add: sorted_js_sort)

lemma js_sort_hd_least: "y \<in> set xs \<Longrightarrow> cmp (hd (js_sort cmp xs)) y \<le> 0"
proof (cases "js_sort cmp xs")
  case (Cons a as)
  assume "y \<in> set xs"
  then have "y \<in> set (a # as)" using set_js_sort [of cmp xs] Cons by auto
  with sorted_js_sort [of xs] Cons show ?thesis by (auto simp: cmp_refl)
qed auto

end

text \<open>Comparing by a numeric key, \<open>(a, b) => f(a) - f(b)\<close>, is a comparator.\<close>

definition by_key :: "('a \<Rightarrow> rat) \<Rightarrow> 'a \<Rightarrow> 'a \<Rightarrow> rat" where
  "by_key f a b = f a - f b"

interpretation by_key: comparator "by_key f" for f
  by unfold_locales (auto simp: by_key_def)

lemma comparator_flip: "comparator cmp \<Longrightarrow> comparator (\<lambda>a b. cmp b a)"
  unfolding comparator_def by blast

lemma comparator_on: "comparator cmp \<Longrightarrow> comparator (\<lambda>a b. cmp (f a) (f b))"
  unfolding comparator_def by blast

lemma comparator_neg: "comparator cmp \<Longrightarrow> comparator (\<lambda>a b. - cmp a b)"
proof -
  assume c: "comparator cmp"
  show ?thesis
  proof (rule comparator.intro)
    fix x y z
    show "- cmp x y < 0 \<longleftrightarrow> 0 < - cmp y x" using comparator.cmp_sym [OF c, of y x] by simp
    have "- cmp a b \<le> 0 \<longleftrightarrow> cmp b a \<le> 0" for a b using comparator.cmp_sym [OF c, of a b] by force
    then show "- cmp x y \<le> 0 \<Longrightarrow> - cmp y z \<le> 0 \<Longrightarrow> - cmp x z \<le> 0"
      using comparator.cmp_trans [OF c, of z y x] by simp
  qed
qed

text \<open>Comparing first by one comparator, and by a second one where the first is 0.\<close>

lemma comparator_lex:
  assumes c: "comparator c1" and d: "comparator c2"
  shows "comparator (\<lambda>a b. if c1 a b \<noteq> 0 then c1 a b else c2 a b)"
proof (rule comparator.intro)
  fix x y z
  show "(if c1 x y \<noteq> 0 then c1 x y else c2 x y) < 0 \<longleftrightarrow> 0 < (if c1 y x \<noteq> 0 then c1 y x else c2 y x)"
    using comparator.cmp_sym [OF c, of x y] comparator.cmp_sym [OF d, of x y] comparator.cmp_zero_sym [OF c, of x y]
    by auto
  assume xy: "(if c1 x y \<noteq> 0 then c1 x y else c2 x y) \<le> 0" and yz: "(if c1 y z \<noteq> 0 then c1 y z else c2 y z) \<le> 0"
  have le: "c1 x y \<le> 0" "c1 y z \<le> 0" using xy yz by (auto split: if_splits)
  have xz: "c1 x z \<le> 0" by (rule comparator.cmp_trans [OF c le])
  show "(if c1 x z \<noteq> 0 then c1 x z else c2 x z) \<le> 0"
  proof (cases "c1 x z = 0")
    case True
    then have zx: "c1 z x \<le> 0" using comparator.cmp_zero_sym [OF c, of x z] by simp
    have "c1 y x \<le> 0" "c1 z y \<le> 0"
      using comparator.cmp_trans [OF c le(2) zx] comparator.cmp_trans [OF c zx le(1)] by simp_all
    then have "c1 x y = 0" "c1 y z = 0" using le comparator.cmp_zeroI [OF c] by blast+
    then show ?thesis using xy yz True comparator.cmp_trans [OF d, of x y z] by simp
  qed (use xz in simp)
qed

text \<open>The default order of \<open>sort()\<close>: by code units.\<close>

fun code_unit_cmp :: "string \<Rightarrow> string \<Rightarrow> rat" where
  "code_unit_cmp [] [] = 0"
| "code_unit_cmp [] (b # y) = - 1"
| "code_unit_cmp (a # x) [] = 1"
| "code_unit_cmp (a # x) (b # y) =
     (if (of_char a :: nat) < of_char b then - 1 else if (of_char b :: nat) < of_char a then 1
      else code_unit_cmp x y)"

lemma code_unit_cmp_neg: "code_unit_cmp y x = - code_unit_cmp x y"
  by (induction x y rule: code_unit_cmp.induct) auto

lemma code_unit_cmp_eq_0: "code_unit_cmp x y = 0 \<longleftrightarrow> x = y"
  by (induction x y rule: code_unit_cmp.induct) (auto simp: not_less dest: antisym)

lemma code_unit_cmp_trans: "code_unit_cmp x y \<le> 0 \<Longrightarrow> code_unit_cmp y z \<le> 0 \<Longrightarrow> code_unit_cmp x z \<le> 0"
proof (induction x z arbitrary: y rule: code_unit_cmp.induct)
  case (3 a x)
  then show ?case by (cases y) auto
next
  case (4 a x b z)
  then show ?case by (cases y) (auto split: if_splits)
qed auto

interpretation code_unit: comparator code_unit_cmp
proof
  show "code_unit_cmp x y < 0 \<longleftrightarrow> 0 < code_unit_cmp y x" for x y
    using code_unit_cmp_neg [of x y] by simp
qed (rule code_unit_cmp_trans)

section \<open>Insertion-ordered sets\<close>

text \<open>A JS \<open>Set\<close>: \<open>add\<close> appends a new element, \<open>delete\<close> removes it, \<open>new Set(xs)\<close> adds in order.\<close>

definition oset_add :: "'a \<Rightarrow> 'a list \<Rightarrow> 'a list" where
  "oset_add x s = (if x \<in> set s then s else s @ [x])"

definition oset_delete :: "'a \<Rightarrow> 'a list \<Rightarrow> 'a list" where
  "oset_delete x s = filter (\<lambda>y. y \<noteq> x) s"

definition oset_has :: "'a list \<Rightarrow> 'a \<Rightarrow> bool" where
  "oset_has s x = (x \<in> set s)"

definition oset_add_all :: "'a list \<Rightarrow> 'a list \<Rightarrow> 'a list" where
  "oset_add_all xs s = foldl (\<lambda>acc x. oset_add x acc) s xs"

definition oset_of :: "'a list \<Rightarrow> 'a list" where
  "oset_of xs = oset_add_all xs []"

locale js_set =
  fixes empty :: "'s" and add :: "'a \<Rightarrow> 's \<Rightarrow> 's" and delete :: "'a \<Rightarrow> 's \<Rightarrow> 's"
    and has :: "'s \<Rightarrow> 'a \<Rightarrow> bool" and elems :: "'s \<Rightarrow> 'a list" and invar :: "'s \<Rightarrow> bool"
  assumes elems_empty: "elems empty = []"
    and invar_empty: "invar empty"
    and invar_add: "invar s \<Longrightarrow> invar (add x s)"
    and invar_delete: "invar s \<Longrightarrow> invar (delete x s)"
    and elems_distinct: "invar s \<Longrightarrow> distinct (elems s)"
    and has_iff: "has s x \<longleftrightarrow> x \<in> set (elems s)"
    and set_add: "set (elems (add x s)) = insert x (set (elems s))"
    and add_order: "x \<notin> set (elems s) \<Longrightarrow> elems (add x s) = elems s @ [x]"
    and set_delete: "set (elems (delete x s)) = set (elems s) - {x}"
begin

lemma invar_add_all: "invar s \<Longrightarrow> invar (foldl (\<lambda>acc x. add x acc) s xs)"
  by (induction xs arbitrary: s) (auto intro: invar_add)

lemma set_add_all: "set (elems (foldl (\<lambda>acc x. add x acc) s xs)) = set (elems s) \<union> set xs"
  by (induction xs arbitrary: s) (auto simp: set_add)

lemma size_card: "invar s \<Longrightarrow> length (elems s) = card (set (elems s))"
  by (simp add: distinct_card elems_distinct)

lemma set_delete_all: "set (elems (foldl (\<lambda>acc x. delete x acc) s xs)) = set (elems s) - set xs"
  by (induction xs arbitrary: s) (auto simp: set_delete)

lemma invar_delete_all: "invar s \<Longrightarrow> invar (foldl (\<lambda>acc x. delete x acc) s xs)"
  by (induction xs arbitrary: s) (auto intro: invar_delete)

end

interpretation oset: js_set "[]" oset_add oset_delete oset_has "\<lambda>s. s" distinct
  by unfold_locales (auto simp: oset_add_def oset_delete_def oset_has_def)

lemma set_oset_add_all [simp]: "set (oset_add_all xs s) = set s \<union> set xs"
  unfolding oset_add_all_def by (rule oset.set_add_all)

lemma distinct_oset_add_all: "distinct s \<Longrightarrow> distinct (oset_add_all xs s)"
  unfolding oset_add_all_def by (rule oset.invar_add_all)

lemma set_oset_of [simp]: "set (oset_of xs) = set xs"
  by (simp add: oset_of_def)

lemma distinct_oset_of [simp]: "distinct (oset_of xs)"
  by (simp add: oset_of_def distinct_oset_add_all)

lemma set_oset_delete [simp]: "set (oset_delete x s) = set s - {x}"
  by (rule oset.set_delete)

lemma set_oset_add [simp]: "set (oset_add x s) = insert x (set s)"
  by (rule oset.set_add)

lemma distinct_oset_add: "distinct s \<Longrightarrow> distinct (oset_add x s)"
  by (rule oset.invar_add)

lemma distinct_oset_delete: "distinct s \<Longrightarrow> distinct (oset_delete x s)"
  by (rule oset.invar_delete)

lemma oset_of_distinct: "distinct xs \<Longrightarrow> oset_of xs = xs"
proof -
  have "distinct (s @ xs) \<Longrightarrow> oset_add_all xs s = s @ xs" for s
    by (induction xs arbitrary: s) (auto simp: oset_add_all_def oset_add_def)
  then show "distinct xs \<Longrightarrow> oset_of xs = xs" by (simp add: oset_of_def)
qed

section \<open>Options as lists\<close>

definition option_list :: "'a option \<Rightarrow> 'a list" where
  "option_list x = (case x of Some y \<Rightarrow> [y] | None \<Rightarrow> [])"

lemma set_option_list [simp]: "set (option_list x) = set_option x"
  by (cases x) (simp_all add: option_list_def)

section \<open>State machines\<close>

text \<open>
  A hook is a state with event handlers. The shared contract: the initial state satisfies
  the invariant and every handler keeps it; then every run does.
\<close>

primrec run_events :: "('s \<Rightarrow> 'e \<Rightarrow> 's) \<Rightarrow> 's \<Rightarrow> 'e list \<Rightarrow> 's" where
  "run_events step s [] = s"
| "run_events step s (e # es) = run_events step (step s e) es"

locale machine =
  fixes step :: "'s \<Rightarrow> 'e \<Rightarrow> 's" and init :: "'s" and inv :: "'s \<Rightarrow> bool"
  assumes inv_init: "inv init"
    and inv_step: "inv s \<Longrightarrow> inv (step s e)"
begin

lemma inv_run_from: "inv s \<Longrightarrow> inv (run_events step s es)"
  by (induction es arbitrary: s) (auto intro: inv_step)

lemma inv_run: "inv (run_events step init es)"
  by (rule inv_run_from [OF inv_init])

end

text \<open>
  A machine that refines an abstract one with the same events: the abstraction of a step is the
  abstract step of the abstraction, from every state with the invariant.
\<close>

locale refinement = machine step init inv
  for step :: "'s \<Rightarrow> 'e \<Rightarrow> 's" and init :: "'s" and inv :: "'s \<Rightarrow> bool" +
  fixes abs :: "'s \<Rightarrow> 't" and astep :: "'t \<Rightarrow> 'e \<Rightarrow> 't"
  assumes abs_step: "inv s \<Longrightarrow> abs (step s e) = astep (abs s) e"
begin

lemma abs_run_from: "inv s \<Longrightarrow> abs (run_events step s es) = run_events astep (abs s) es"
  by (induction es arbitrary: s) (simp_all add: abs_step inv_step)

lemma abs_run: "abs (run_events step init es) = run_events astep (abs init) es"
  by (rule abs_run_from [OF inv_init])

end

lemma run_events_append: "run_events step s (xs @ ys) = run_events step (run_events step s xs) ys"
  by (induction xs arbitrary: s) auto

end
