(* ===== verification/Types_Api.thy ===== *)
theory Types_Api
  imports Kiyomi_Prelude
begin

text \<open>
  The records of \<open>types/api.ts\<close>, one per interface, in the order and with the field names of
  the source (each field prefixed with its record's initials, because HOL field names are
  global). A TypeScript field \<open>x?: t\<close> has the type \<open>t option\<close>. Some fields are declared as
  required but the code reads them through \<open>?.\<close> and \<open>??\<close>, because during the backend's
  migration they may be missing: the three per-concern parts of \<open>Manga\<close>, their fields, and
  the name and number of a chapter. They are options too; \<open>typed_manga\<close> says that a manga has
  the fields its interface declares. Elements of arrays have their declared type, never
  null.
\<close>

datatype content_availability = Available | Unavailable | Availability_Unknown

datatype job_status = Job_Pending | Job_Running | Job_Completed | Job_Failed

record external_link =
  el_provider :: "string"
  el_label :: "string"
  el_url :: "string"

record content_source =
  cs_provider_id :: "string"
  cs_provider_manga_id :: "string option"
  cs_chapter_ref :: "string option"
  cs_last_synced_at :: "string option"
  cs_reading_mode :: "string option"

record provider_ref =
  pr_provider_id :: "string"
  pr_provider_manga_id :: "string"
  pr_manga_title :: "string option"

record source =
  src_id :: "string"
  src_name :: "string"
  src_baseUrl :: "string option"
  src_lang :: "string option"
  src_language :: "string option"
  src_icon :: "string option"
  src_supportsLatest :: "bool option"
  src_capabilities :: "(string list) option"

record manga_meta =
  mm_title :: "string option"
  mm_aliases :: "(string list) option"
  mm_description :: "string option"
  mm_authors :: "(string list) option"
  mm_artists :: "(string list) option"
  mm_tags :: "(string list) option"
  mm_collections :: "(string list) option"
  mm_reading_direction :: "string option"
  mm_reading_mode :: "string option"
  mm_content_rating :: "string option"
  mm_publisher :: "string option"
  mm_publishers :: "(string list) option"
  mm_release_year :: "rat option"
  mm_releaseYear :: "rat option"
  mm_start_date :: "string option"
  mm_startDate :: "string option"
  mm_end_date :: "string option"
  mm_endDate :: "string option"
  mm_country :: "string option"
  mm_cover_url :: "string option"
  mm_external_links :: "(external_link list) option"
  mm_providers :: "(provider_ref list) option"
  mm_content :: "content_source option"
  mm_user_status :: "string option"
  mm_user_rating :: "rat option"
  mm_user_favorite :: "bool option"
  mm_user_notes :: "string option"
  mm_availability :: "content_availability option"
  mm_last_read_chapter_id :: "string option"
  mm_last_read_at :: "string option"
  mm_added_at :: "string option"
  mm_updated_at :: "string option"

record manga_metadata =
  md_title :: "string option"
  md_aliases :: "(string list) option"
  md_description :: "string option"
  md_authors :: "(string list) option"
  md_artists :: "(string list) option"
  md_tags :: "(string list) option"
  md_collections :: "(string list) option"
  md_publishers :: "(string list) option"
  md_release_year :: "rat option"
  md_releaseYear :: "rat option"
  md_start_date :: "string option"
  md_startDate :: "string option"
  md_end_date :: "string option"
  md_endDate :: "string option"
  md_country :: "string option"
  md_content_rating :: "string option"
  md_contentRating :: "string option"
  md_cover_url :: "string option"
  md_coverUrl :: "string option"
  md_cover :: "string option"
  md_banner :: "string option"
  md_external_links :: "(external_link list) option"
  md_externalLinks :: "(external_link list) option"

record manga_user_state =
  us_status :: "string option"
  us_rating :: "rat option"
  us_favorite :: "bool option"
  us_notes :: "string option"
  us_last_read_chapter_id :: "string option"
  us_lastReadChapterId :: "string option"
  us_last_read_at :: "string option"
  us_lastReadAt :: "string option"
  us_added_at :: "string option"
  us_addedAt :: "string option"
  us_updated_at :: "string option"
  us_updatedAt :: "string option"

record manga_bindings =
  mb_providers :: "(provider_ref list) option"
  mb_content :: "content_source option"

record manga =
  m_id :: "string"
  m_metadata :: "manga_metadata option"
  m_user_state :: "manga_user_state option"
  m_bindings :: "manga_bindings option"
  m_sourceId :: "string option"
  m_contentProviderId :: "string option"
  m_contentRemoteId :: "string option"
  m_availability :: "content_availability option"
  m_libraryMangaId :: "string option"
  m_title :: "string option"
  m_cover :: "string option"
  m_coverUrl :: "string option"
  m_coverAssetUrl :: "string option"
  m_banner :: "string option"
  m_url :: "string option"
  m_description :: "string option"
  m_author :: "string option"
  m_authors :: "(string list) option"
  m_artist :: "string option"
  m_artists :: "(string list) option"
  m_tags :: "(string list) option"
  m_genres :: "(string list) option"
  m_aliases :: "(string list) option"
  m_shelves :: "(string list) option"
  m_collections :: "(string list) option"
  m_status :: "string option"
  m_userStatus :: "string option"
  m_user_status :: "string option"
  m_userFavorite :: "bool option"
  m_user_favorite :: "bool option"
  m_userRating :: "rat option"
  m_user_rating :: "rat option"
  m_userNotes :: "string option"
  m_user_notes :: "string option"
  m_lastReadChapterId :: "string option"
  m_last_read_chapter_id :: "string option"
  m_lastReadAt :: "string option"
  m_last_read_at :: "string option"
  m_readingDirection :: "string option"
  m_reading_direction :: "string option"
  m_readingMode :: "string option"
  m_reading_mode :: "string option"
  m_contentRating :: "string option"
  m_content_rating :: "string option"
  m_publisher :: "string option"
  m_publishers :: "(string list) option"
  m_releaseYear :: "rat option"
  m_release_year :: "rat option"
  m_startDate :: "string option"
  m_start_date :: "string option"
  m_endDate :: "string option"
  m_end_date :: "string option"
  m_country :: "string option"
  m_externalLinks :: "(external_link list) option"
  m_content :: "content_source option"
  m_meta :: "manga_meta option"

record chapter_meta =
  cm_title :: "string option"
  cm_number :: "rat option"
  cm_volume :: "rat option"
  cm_language :: "string option"
  cm_upload_date :: "string option"
  cm_source_order :: "rat option"
  cm_content :: "content_source option"
  cm_page_count :: "rat option"
  cm_page_format :: "string option"
  cm_downloaded_at :: "string option"
  cm_downloaded_pages :: "rat option"
  cm_is_downloaded :: "bool option"
  cm_is_read :: "bool option"
  cm_last_read_page :: "rat option"
  cm_last_read_at :: "string option"
  cm_orphaned :: "bool option"
  cm_provider_id :: "string option"

record manga_chapter =
  c_id :: "string"
  c_manga_id :: "string option"
  c_mangaId :: "string option"
  c_name :: "string option"
  c_title :: "string option"
  c_number :: "rat option"
  c_volume :: "rat option"
  c_uploadDate :: "string option"
  c_uploadedAt :: "string option"
  c_meta :: "chapter_meta option"
  c_sourceOrder :: "rat option"
  c_is_read :: "bool option"
  c_isRead :: "bool option"
  c_last_read_page :: "rat option"
  c_lastReadPage :: "rat option"
  c_last_read_at :: "string option"
  c_lastReadAt :: "string option"
  c_provider_id :: "string option"
  c_providerId :: "string option"
  c_orphaned :: "bool option"
  c_is_downloaded :: "bool option"
  c_isDownloaded :: "bool option"
  c_downloaded_pages :: "rat option"
  c_downloadedPages :: "rat option"
  c_downloaded_at :: "string option"
  c_downloadedAt :: "string option"
  c_page_count :: "rat option"
  c_pageCount :: "rat option"

record page =
  pg_index :: "rat"
  pg_url :: "string"
  pg_assetUrl :: "string option"

record explore_response =
  xr_mangas :: "manga list"
  xr_hasNext :: "bool option"
  xr_page :: "rat option"

record chapter_list_response =
  clr_chapters :: "manga_chapter list"

record page_list_response =
  plr_pages :: "page list"

record plugin_setting_spec =
  ps_key :: "string"
  ps_label :: "string"
  ps_description :: "string option"
  ps_type :: "string"
  ps_defaultValue :: "string option"
  ps_options :: "(string list) option"

record plugin_rate_limit_spec =
  rl_requestsPerSecond :: "rat option"
  rl_maxConcurrentRequests :: "rat option"

record plugin_provider_descriptor =
  pd_id :: "string"
  pd_name :: "string"
  pd_description :: "string option"
  pd_capabilities :: "string list"
  pd_settingsSchema :: "(plugin_setting_spec list) option"
  pd_defaultRateLimit :: "plugin_rate_limit_spec option"

record plugin_item =
  pi_pluginId :: "string"
  pi_pluginName :: "string"
  pi_pluginVersion :: "string"
  pi_sdkVersion :: "string"
  pi_sdkCompatible :: "bool"
  pi_executablePath :: "string"
  pi_pid :: "rat"
  pi_state :: "string"
  pi_errorMessage :: "string option"
  pi_loadedAt :: "string"
  pi_providers :: "plugin_provider_descriptor list"
  pi_pluginSettingsSchema :: "(plugin_setting_spec list) option"
  pi_globalConfig :: "((string \<times> string) list) option"
  pi_providerConfigs :: "((string \<times> (string \<times> string) list) list) option"

record provider_candidate =
  pc_pluginId :: "string"
  pc_version :: "string"
  pc_isBuiltIn :: "bool"
  pc_selected :: "bool"

record provider_collision =
  pcol_providerId :: "string"
  pcol_selected :: "string"
  pcol_candidates :: "provider_candidate list"

record reload_plugins_response =
  rp_status :: "string"
  rp_message :: "string"
  rp_reloadedPlugins :: "string list"
  rp_activeProviders :: "rat"

record app_info =
  ai_app :: "string"
  ai_version :: "string"
  ai_go_version :: "string"
  ai_build_time :: "string"
  ai_commit :: "string"

record cache_stats =
  cst_size_bytes :: "rat"
  cst_item_count :: "rat"

record job =
  j_id :: "string"
  j_parent_id :: "string option"
  j_type :: "string"
  j_payload :: "string option"
  j_status :: "job_status"
  j_retries :: "rat"
  j_max_retries :: "rat"
  j_concurrency_group :: "string option"
  j_error :: "string option"
  j_created_at :: "string"
  j_updated_at :: "string"
  j_started_at :: "string option"
  j_completed_at :: "string option"
  j_metadata :: "((string \<times> string) list) option"
  j_child_count :: "rat option"

section \<open>Values with only the required fields\<close>

definition blank_content_source :: "string \<Rightarrow> content_source" where
  "blank_content_source provider_id0 = \<lparr>
    cs_provider_id = provider_id0, cs_provider_manga_id = None, cs_chapter_ref = None,
    cs_last_synced_at = None, cs_reading_mode = None\<rparr>"

definition blank_source :: "string \<Rightarrow> string \<Rightarrow> source" where
  "blank_source id0 name0 = \<lparr>
    src_id = id0, src_name = name0, src_baseUrl = None, src_lang = None, src_language = None,
    src_icon = None, src_supportsLatest = None, src_capabilities = None\<rparr>"

definition blank_manga_meta :: "manga_meta" where
  "blank_manga_meta = \<lparr>
    mm_title = None, mm_aliases = None, mm_description = None, mm_authors = None,
    mm_artists = None, mm_tags = None, mm_collections = None, mm_reading_direction = None,
    mm_reading_mode = None, mm_content_rating = None, mm_publisher = None, mm_publishers = None,
    mm_release_year = None, mm_releaseYear = None, mm_start_date = None, mm_startDate = None,
    mm_end_date = None, mm_endDate = None, mm_country = None, mm_cover_url = None,
    mm_external_links = None, mm_providers = None, mm_content = None, mm_user_status = None,
    mm_user_rating = None, mm_user_favorite = None, mm_user_notes = None, mm_availability = None,
    mm_last_read_chapter_id = None, mm_last_read_at = None, mm_added_at = None,
    mm_updated_at = None\<rparr>"

definition blank_manga_metadata :: "manga_metadata" where
  "blank_manga_metadata = \<lparr>
    md_title = None, md_aliases = None, md_description = None, md_authors = None,
    md_artists = None, md_tags = None, md_collections = None, md_publishers = None,
    md_release_year = None, md_releaseYear = None, md_start_date = None, md_startDate = None,
    md_end_date = None, md_endDate = None, md_country = None, md_content_rating = None,
    md_contentRating = None, md_cover_url = None, md_coverUrl = None, md_cover = None,
    md_banner = None, md_external_links = None, md_externalLinks = None\<rparr>"

definition blank_manga_user_state :: "manga_user_state" where
  "blank_manga_user_state = \<lparr>
    us_status = None, us_rating = None, us_favorite = None, us_notes = None,
    us_last_read_chapter_id = None, us_lastReadChapterId = None, us_last_read_at = None,
    us_lastReadAt = None, us_added_at = None, us_addedAt = None, us_updated_at = None,
    us_updatedAt = None\<rparr>"

definition blank_manga_bindings :: "manga_bindings" where
  "blank_manga_bindings = \<lparr>
    mb_providers = None, mb_content = None\<rparr>"

definition blank_manga :: "string \<Rightarrow> manga" where
  "blank_manga id0 = \<lparr>
    m_id = id0, m_metadata = None, m_user_state = None, m_bindings = None, m_sourceId = None,
    m_contentProviderId = None, m_contentRemoteId = None, m_availability = None,
    m_libraryMangaId = None, m_title = None, m_cover = None, m_coverUrl = None,
    m_coverAssetUrl = None, m_banner = None, m_url = None, m_description = None, m_author = None,
    m_authors = None, m_artist = None, m_artists = None, m_tags = None, m_genres = None,
    m_aliases = None, m_shelves = None, m_collections = None, m_status = None,
    m_userStatus = None, m_user_status = None, m_userFavorite = None, m_user_favorite = None,
    m_userRating = None, m_user_rating = None, m_userNotes = None, m_user_notes = None,
    m_lastReadChapterId = None, m_last_read_chapter_id = None, m_lastReadAt = None,
    m_last_read_at = None, m_readingDirection = None, m_reading_direction = None,
    m_readingMode = None, m_reading_mode = None, m_contentRating = None, m_content_rating = None,
    m_publisher = None, m_publishers = None, m_releaseYear = None, m_release_year = None,
    m_startDate = None, m_start_date = None, m_endDate = None, m_end_date = None,
    m_country = None, m_externalLinks = None, m_content = None, m_meta = None\<rparr>"

definition blank_chapter_meta :: "chapter_meta" where
  "blank_chapter_meta = \<lparr>
    cm_title = None, cm_number = None, cm_volume = None, cm_language = None,
    cm_upload_date = None, cm_source_order = None, cm_content = None, cm_page_count = None,
    cm_page_format = None, cm_downloaded_at = None, cm_downloaded_pages = None,
    cm_is_downloaded = None, cm_is_read = None, cm_last_read_page = None, cm_last_read_at = None,
    cm_orphaned = None, cm_provider_id = None\<rparr>"

definition blank_manga_chapter :: "string \<Rightarrow> manga_chapter" where
  "blank_manga_chapter id0 = \<lparr>
    c_id = id0, c_manga_id = None, c_mangaId = None, c_name = None, c_title = None,
    c_number = None, c_volume = None, c_uploadDate = None, c_uploadedAt = None, c_meta = None,
    c_sourceOrder = None, c_is_read = None, c_isRead = None, c_last_read_page = None,
    c_lastReadPage = None, c_last_read_at = None, c_lastReadAt = None, c_provider_id = None,
    c_providerId = None, c_orphaned = None, c_is_downloaded = None, c_isDownloaded = None,
    c_downloaded_pages = None, c_downloadedPages = None, c_downloaded_at = None,
    c_downloadedAt = None, c_page_count = None, c_pageCount = None\<rparr>"

text \<open>Their fields, as simplification rules, so that a blank value stays folded.\<close>

lemma blank_content_source_sel [simp]:
  "cs_provider_id (blank_content_source provider_id0) = provider_id0"
  "cs_provider_manga_id (blank_content_source provider_id0) = None"
  "cs_chapter_ref (blank_content_source provider_id0) = None"
  "cs_last_synced_at (blank_content_source provider_id0) = None"
  "cs_reading_mode (blank_content_source provider_id0) = None"
  by (simp_all add: blank_content_source_def)

lemma blank_source_sel [simp]:
  "src_id (blank_source id0 name0) = id0" "src_name (blank_source id0 name0) = name0"
  "src_baseUrl (blank_source id0 name0) = None" "src_lang (blank_source id0 name0) = None"
  "src_language (blank_source id0 name0) = None" "src_icon (blank_source id0 name0) = None"
  "src_supportsLatest (blank_source id0 name0) = None"
  "src_capabilities (blank_source id0 name0) = None"
  by (simp_all add: blank_source_def)

lemma blank_manga_meta_sel [simp]:
  "mm_title (blank_manga_meta) = None" "mm_aliases (blank_manga_meta) = None"
  "mm_description (blank_manga_meta) = None" "mm_authors (blank_manga_meta) = None"
  "mm_artists (blank_manga_meta) = None" "mm_tags (blank_manga_meta) = None"
  "mm_collections (blank_manga_meta) = None" "mm_reading_direction (blank_manga_meta) = None"
  "mm_reading_mode (blank_manga_meta) = None" "mm_content_rating (blank_manga_meta) = None"
  "mm_publisher (blank_manga_meta) = None" "mm_publishers (blank_manga_meta) = None"
  "mm_release_year (blank_manga_meta) = None" "mm_releaseYear (blank_manga_meta) = None"
  "mm_start_date (blank_manga_meta) = None" "mm_startDate (blank_manga_meta) = None"
  "mm_end_date (blank_manga_meta) = None" "mm_endDate (blank_manga_meta) = None"
  "mm_country (blank_manga_meta) = None" "mm_cover_url (blank_manga_meta) = None"
  "mm_external_links (blank_manga_meta) = None" "mm_providers (blank_manga_meta) = None"
  "mm_content (blank_manga_meta) = None" "mm_user_status (blank_manga_meta) = None"
  "mm_user_rating (blank_manga_meta) = None" "mm_user_favorite (blank_manga_meta) = None"
  "mm_user_notes (blank_manga_meta) = None" "mm_availability (blank_manga_meta) = None"
  "mm_last_read_chapter_id (blank_manga_meta) = None" "mm_last_read_at (blank_manga_meta) = None"
  "mm_added_at (blank_manga_meta) = None" "mm_updated_at (blank_manga_meta) = None"
  by (simp_all add: blank_manga_meta_def)

lemma blank_manga_metadata_sel [simp]:
  "md_title (blank_manga_metadata) = None" "md_aliases (blank_manga_metadata) = None"
  "md_description (blank_manga_metadata) = None" "md_authors (blank_manga_metadata) = None"
  "md_artists (blank_manga_metadata) = None" "md_tags (blank_manga_metadata) = None"
  "md_collections (blank_manga_metadata) = None" "md_publishers (blank_manga_metadata) = None"
  "md_release_year (blank_manga_metadata) = None" "md_releaseYear (blank_manga_metadata) = None"
  "md_start_date (blank_manga_metadata) = None" "md_startDate (blank_manga_metadata) = None"
  "md_end_date (blank_manga_metadata) = None" "md_endDate (blank_manga_metadata) = None"
  "md_country (blank_manga_metadata) = None" "md_content_rating (blank_manga_metadata) = None"
  "md_contentRating (blank_manga_metadata) = None" "md_cover_url (blank_manga_metadata) = None"
  "md_coverUrl (blank_manga_metadata) = None" "md_cover (blank_manga_metadata) = None"
  "md_banner (blank_manga_metadata) = None" "md_external_links (blank_manga_metadata) = None"
  "md_externalLinks (blank_manga_metadata) = None"
  by (simp_all add: blank_manga_metadata_def)

lemma blank_manga_user_state_sel [simp]:
  "us_status (blank_manga_user_state) = None" "us_rating (blank_manga_user_state) = None"
  "us_favorite (blank_manga_user_state) = None" "us_notes (blank_manga_user_state) = None"
  "us_last_read_chapter_id (blank_manga_user_state) = None"
  "us_lastReadChapterId (blank_manga_user_state) = None"
  "us_last_read_at (blank_manga_user_state) = None"
  "us_lastReadAt (blank_manga_user_state) = None" "us_added_at (blank_manga_user_state) = None"
  "us_addedAt (blank_manga_user_state) = None" "us_updated_at (blank_manga_user_state) = None"
  "us_updatedAt (blank_manga_user_state) = None"
  by (simp_all add: blank_manga_user_state_def)

lemma blank_manga_bindings_sel [simp]:
  "mb_providers (blank_manga_bindings) = None" "mb_content (blank_manga_bindings) = None"
  by (simp_all add: blank_manga_bindings_def)

lemma blank_manga_sel [simp]:
  "m_id (blank_manga id0) = id0" "m_metadata (blank_manga id0) = None"
  "m_user_state (blank_manga id0) = None" "m_bindings (blank_manga id0) = None"
  "m_sourceId (blank_manga id0) = None" "m_contentProviderId (blank_manga id0) = None"
  "m_contentRemoteId (blank_manga id0) = None" "m_availability (blank_manga id0) = None"
  "m_libraryMangaId (blank_manga id0) = None" "m_title (blank_manga id0) = None"
  "m_cover (blank_manga id0) = None" "m_coverUrl (blank_manga id0) = None"
  "m_coverAssetUrl (blank_manga id0) = None" "m_banner (blank_manga id0) = None"
  "m_url (blank_manga id0) = None" "m_description (blank_manga id0) = None"
  "m_author (blank_manga id0) = None" "m_authors (blank_manga id0) = None"
  "m_artist (blank_manga id0) = None" "m_artists (blank_manga id0) = None"
  "m_tags (blank_manga id0) = None" "m_genres (blank_manga id0) = None"
  "m_aliases (blank_manga id0) = None" "m_shelves (blank_manga id0) = None"
  "m_collections (blank_manga id0) = None" "m_status (blank_manga id0) = None"
  "m_userStatus (blank_manga id0) = None" "m_user_status (blank_manga id0) = None"
  "m_userFavorite (blank_manga id0) = None" "m_user_favorite (blank_manga id0) = None"
  "m_userRating (blank_manga id0) = None" "m_user_rating (blank_manga id0) = None"
  "m_userNotes (blank_manga id0) = None" "m_user_notes (blank_manga id0) = None"
  "m_lastReadChapterId (blank_manga id0) = None" "m_last_read_chapter_id (blank_manga id0) = None"
  "m_lastReadAt (blank_manga id0) = None" "m_last_read_at (blank_manga id0) = None"
  "m_readingDirection (blank_manga id0) = None" "m_reading_direction (blank_manga id0) = None"
  "m_readingMode (blank_manga id0) = None" "m_reading_mode (blank_manga id0) = None"
  "m_contentRating (blank_manga id0) = None" "m_content_rating (blank_manga id0) = None"
  "m_publisher (blank_manga id0) = None" "m_publishers (blank_manga id0) = None"
  "m_releaseYear (blank_manga id0) = None" "m_release_year (blank_manga id0) = None"
  "m_startDate (blank_manga id0) = None" "m_start_date (blank_manga id0) = None"
  "m_endDate (blank_manga id0) = None" "m_end_date (blank_manga id0) = None"
  "m_country (blank_manga id0) = None" "m_externalLinks (blank_manga id0) = None"
  "m_content (blank_manga id0) = None" "m_meta (blank_manga id0) = None"
  by (simp_all add: blank_manga_def)

lemma blank_chapter_meta_sel [simp]:
  "cm_title (blank_chapter_meta) = None" "cm_number (blank_chapter_meta) = None"
  "cm_volume (blank_chapter_meta) = None" "cm_language (blank_chapter_meta) = None"
  "cm_upload_date (blank_chapter_meta) = None" "cm_source_order (blank_chapter_meta) = None"
  "cm_content (blank_chapter_meta) = None" "cm_page_count (blank_chapter_meta) = None"
  "cm_page_format (blank_chapter_meta) = None" "cm_downloaded_at (blank_chapter_meta) = None"
  "cm_downloaded_pages (blank_chapter_meta) = None" "cm_is_downloaded (blank_chapter_meta) = None"
  "cm_is_read (blank_chapter_meta) = None" "cm_last_read_page (blank_chapter_meta) = None"
  "cm_last_read_at (blank_chapter_meta) = None" "cm_orphaned (blank_chapter_meta) = None"
  "cm_provider_id (blank_chapter_meta) = None"
  by (simp_all add: blank_chapter_meta_def)

lemma blank_manga_chapter_sel [simp]:
  "c_id (blank_manga_chapter id0) = id0" "c_manga_id (blank_manga_chapter id0) = None"
  "c_mangaId (blank_manga_chapter id0) = None" "c_name (blank_manga_chapter id0) = None"
  "c_title (blank_manga_chapter id0) = None" "c_number (blank_manga_chapter id0) = None"
  "c_volume (blank_manga_chapter id0) = None" "c_uploadDate (blank_manga_chapter id0) = None"
  "c_uploadedAt (blank_manga_chapter id0) = None" "c_meta (blank_manga_chapter id0) = None"
  "c_sourceOrder (blank_manga_chapter id0) = None" "c_is_read (blank_manga_chapter id0) = None"
  "c_isRead (blank_manga_chapter id0) = None" "c_last_read_page (blank_manga_chapter id0) = None"
  "c_lastReadPage (blank_manga_chapter id0) = None"
  "c_last_read_at (blank_manga_chapter id0) = None"
  "c_lastReadAt (blank_manga_chapter id0) = None" "c_provider_id (blank_manga_chapter id0) = None"
  "c_providerId (blank_manga_chapter id0) = None" "c_orphaned (blank_manga_chapter id0) = None"
  "c_is_downloaded (blank_manga_chapter id0) = None"
  "c_isDownloaded (blank_manga_chapter id0) = None"
  "c_downloaded_pages (blank_manga_chapter id0) = None"
  "c_downloadedPages (blank_manga_chapter id0) = None"
  "c_downloaded_at (blank_manga_chapter id0) = None"
  "c_downloadedAt (blank_manga_chapter id0) = None"
  "c_page_count (blank_manga_chapter id0) = None" "c_pageCount (blank_manga_chapter id0) = None"
  by (simp_all add: blank_manga_chapter_def)

text \<open>The fields that the interfaces \<open>MangaMetadata\<close>, \<open>MangaUserState\<close>, \<open>MangaBindings\<close> and \<open>Manga\<close> declare as required are there.\<close>

definition typed_metadata :: "manga_metadata \<Rightarrow> bool" where
  "typed_metadata d \<longleftrightarrow>
     md_title d \<noteq> None \<and> md_aliases d \<noteq> None \<and> md_description d \<noteq> None \<and> md_authors d \<noteq> None \<and>
     md_artists d \<noteq> None \<and> md_tags d \<noteq> None \<and> md_collections d \<noteq> None \<and> md_publishers d \<noteq> None"

definition typed_user_state :: "manga_user_state \<Rightarrow> bool" where
  "typed_user_state u \<longleftrightarrow>
     us_status u \<noteq> None \<and> us_rating u \<noteq> None \<and> us_favorite u \<noteq> None \<and> us_notes u \<noteq> None"

definition typed_manga :: "manga \<Rightarrow> bool" where
  "typed_manga m \<longleftrightarrow>
     (case m_metadata m of None \<Rightarrow> False | Some d \<Rightarrow> typed_metadata d) \<and>
     (case m_user_state m of None \<Rightarrow> False | Some u \<Rightarrow> typed_user_state u) \<and>
     (case m_bindings m of None \<Rightarrow> False | Some b \<Rightarrow> mb_providers b \<noteq> None)"

end
