(* ===== verification/Metadata_Compare.thy ===== *)
theory Metadata_Compare
  imports Types_Api
begin

text \<open>
  \<open>utils/metadataCompare.ts\<close>: comparing and merging the multi-valued metadata fields of two
  manga (authors, tags, aliases, ..., external links). Strings are compared after trimming
  and lower-casing, links by their URL treated the same way.

  The two merge functions share a contract, the locale \<open>keyed_merge\<close>: an item has a key or
  is skipped, the first item with a key is kept in normalised form, later ones are
  dropped. Both are interpreted below; so the order, the absence of duplicates, the
  first-wins rule and idempotence are proved once.
\<close>

section \<open>The functions\<close>

definition normalizeSet :: "string list option \<Rightarrow> string list" where
  "normalizeSet items =
     oset_of (filter (\<lambda>s. s \<noteq> []) (map (\<lambda>s. js_lower (js_trim s)) (coalesce_or [items] [])))"

definition areArraySetsEqual :: "string list option \<Rightarrow> string list option \<Rightarrow> bool" where
  "areArraySetsEqual a b =
     (let setA = normalizeSet a; setB = normalizeSet b
      in if length setA \<noteq> length setB then False
         else list_all (\<lambda>item. oset_has setB item) setA)"

text \<open>The body of the inner loop, on the pair of \<open>seen\<close> and \<open>result\<close>; the two nested loops.\<close>

definition merge_string_step :: "string list \<times> string list \<Rightarrow> string \<Rightarrow> string list \<times> string list" where
  "merge_string_step acc item =
     (let (seen, result) = acc; trimmed = js_trim item
      in if trimmed = [] then (seen, result)
         else let lower = js_lower trimmed
              in if \<not> oset_has seen lower then (oset_add lower seen, result @ [trimmed])
                 else (seen, result))"

definition loop_arrays :: "('s \<Rightarrow> 'a \<Rightarrow> 's) \<Rightarrow> 's \<Rightarrow> 'a list option list \<Rightarrow> 's" where
  "loop_arrays step acc arrays =
     foldl (\<lambda>acc arr. case arr of None \<Rightarrow> acc | Some items \<Rightarrow> foldl step acc items) acc arrays"

definition mergeStringArrays :: "string list option list \<Rightarrow> string list" where
  "mergeStringArrays arrays = snd (loop_arrays merge_string_step ([], []) arrays)"

definition valid_links :: "external_link list option \<Rightarrow> external_link list" where
  "valid_links ls = filter (\<lambda>l. js_trim (el_url l) \<noteq> []) (coalesce_or [ls] [])"

definition url_key :: "external_link \<Rightarrow> string" where
  "url_key l = js_lower (js_trim (el_url l))"

definition areExternalLinkSetsEqual :: "external_link list option \<Rightarrow> external_link list option \<Rightarrow> bool" where
  "areExternalLinkSetsEqual a b =
     (let linksA = valid_links a; linksB = valid_links b
      in if length linksA \<noteq> length linksB then False
         else let setA = oset_of (map url_key linksA); setB = oset_of (map url_key linksB)
              in if length setA \<noteq> length setB then False
                 else list_all (\<lambda>url. oset_has setB url) setA)"

definition normal_link :: "external_link \<Rightarrow> external_link" where
  "normal_link item =
     \<lparr>el_provider = str_or [Some (el_provider item)] ''custom'',
      el_label = str_or [Some (el_label item), Some (el_provider item)] ''Link'',
      el_url = js_trim (el_url item)\<rparr>"

definition merge_link_step ::
    "string list \<times> external_link list \<Rightarrow> external_link \<Rightarrow> string list \<times> external_link list" where
  "merge_link_step acc item =
     (let (seen, result) = acc
      in if js_trim (el_url item) = [] then (seen, result)
         else let key = js_lower (js_trim (el_url item))
              in if \<not> oset_has seen key then (oset_add key seen, result @ [normal_link item])
                 else (seen, result))"

definition mergeExternalLinkArrays :: "external_link list option list \<Rightarrow> external_link list" where
  "mergeExternalLinkArrays arrays = snd (loop_arrays merge_link_step ([], []) arrays)"

section \<open>The contract of a merge by key\<close>

text \<open>The items of all the arrays that are there, in order.\<close>

definition flat_items :: "'a list option list \<Rightarrow> 'a list" where
  "flat_items arrays = concat (map (\<lambda>arr. coalesce_or [arr] []) arrays)"

lemma flat_items_simps [simp]:
  "flat_items [] = []" "flat_items (None # as) = flat_items as"
  "flat_items (Some xs # as) = xs @ flat_items as"
  by (simp_all add: flat_items_def)

lemma loop_arrays_flat: "loop_arrays step acc arrays = foldl step acc (flat_items arrays)"
proof (induction arrays arbitrary: acc)
  case (Cons a as)
  then show ?case by (cases a) (simp_all add: loop_arrays_def)
qed (simp add: loop_arrays_def)

locale keyed_merge =
  fixes key :: "'a \<Rightarrow> 'k option" and norm :: "'a \<Rightarrow> 'a"
    and step :: "'k list \<times> 'a list \<Rightarrow> 'a \<Rightarrow> 'k list \<times> 'a list"
  assumes step_skip: "key x = None \<Longrightarrow> step (seen, res) x = (seen, res)"
    and step_dup: "key x = Some k \<Longrightarrow> k \<in> set seen \<Longrightarrow> step (seen, res) x = (seen, res)"
    and step_new: "key x = Some k \<Longrightarrow> k \<notin> set seen \<Longrightarrow>
      step (seen, res) x = (seen @ [k], res @ [norm x])"
    and key_norm: "key x = Some k \<Longrightarrow> key (norm x) = Some k"
    and norm_norm: "key x = Some k \<Longrightarrow> norm (norm x) = norm x"
begin

lemma seen_keys: "fst (foldl step (seen, res) xs) = oset_add_all (List.map_filter key xs) seen"
proof (induction xs arbitrary: seen res)
  case (Cons x xs)
  show ?case
  proof (cases "key x")
    case None
    with Cons show ?thesis by (simp add: step_skip map_filter_simps)
  next
    case (Some k)
    with Cons show ?thesis
      by (cases "k \<in> set seen")
        (simp_all add: step_dup step_new map_filter_simps oset_add_all_def oset_add_def)
  qed
qed (simp add: oset_add_all_def map_filter_simps)

lemma result_keys:
  "map key res = map Some seen \<Longrightarrow>
    map key (snd (foldl step (seen, res) xs)) = map Some (fst (foldl step (seen, res) xs))"
proof (induction xs arbitrary: seen res)
  case (Cons x xs)
  show ?case
  proof (cases "key x")
    case None
    with Cons show ?thesis by (simp add: step_skip)
  next
    case (Some k)
    with Cons show ?thesis
      by (cases "k \<in> set seen") (simp_all add: step_dup step_new key_norm)
  qed
qed simp

lemma merge_keys:
  "map key (snd (foldl step ([], []) xs)) = map Some (oset_of (List.map_filter key xs))"
  by (simp add: result_keys seen_keys oset_of_def)

lemma result_normal:
  "\<forall>y \<in> set res. norm y = y \<Longrightarrow> \<forall>y \<in> set (snd (foldl step (seen, res) xs)). norm y = y"
proof (induction xs arbitrary: seen res)
  case (Cons x xs)
  show ?case
  proof (cases "key x")
    case None
    with Cons show ?thesis by (simp add: step_skip)
  next
    case (Some k)
    have new: "\<forall>y \<in> set (res @ [norm x]). norm y = y"
      using Cons.prems norm_norm [OF Some] by simp
    show ?thesis
    proof (cases "k \<in> set seen")
      case True
      show ?thesis using Cons.IH [OF Cons.prems, of seen] by (simp only: foldl.simps step_dup [OF Some True])
    next
      case False
      show ?thesis using Cons.IH [OF new, of "seen @ [k]"] by (simp only: foldl.simps step_new [OF Some False])
    qed
  qed
qed simp

lemma merge_fixed:
  "map key xs = map Some ks \<Longrightarrow> distinct (seen @ ks) \<Longrightarrow> \<forall>x \<in> set xs. norm x = x \<Longrightarrow>
    foldl step (seen, res) xs = (seen @ ks, res @ xs)"
proof (induction xs arbitrary: seen res ks)
  case (Cons x xs)
  then obtain k ks' where ks: "ks = k # ks'" "key x = Some k" "map key xs = map Some ks'"
    by (cases ks) auto
  with Cons.prems have "k \<notin> set seen" by auto
  with ks Cons.prems Cons.IH [of ks' "seen @ [k]" "res @ [x]"] show ?case
    by (simp add: step_new)
qed simp

lemma merge_idem:
  "snd (foldl step ([], []) (snd (foldl step ([], []) xs))) = snd (foldl step ([], []) xs)"
proof -
  let ?r = "snd (foldl step ([], []) xs)"
  have "foldl step ([], []) ?r = ([] @ oset_of (List.map_filter key xs), [] @ ?r)"
    using result_normal [of "[]" "[]" xs] by (intro merge_fixed) (simp_all add: merge_keys)
  then show ?thesis by simp
qed

lemma result_append: "\<exists>new. snd (foldl step (seen, res) xs) = res @ new"
proof (induction xs arbitrary: seen res)
  case (Cons x xs)
  obtain seen' new where "step (seen, res) x = (seen', res @ new)"
    using step_skip step_dup step_new by (cases "key x") (metis append_Nil2)+
  with Cons [of seen' "res @ new"] show ?case by auto
qed simp

text \<open>The first item with a key wins.\<close>

lemma merge_first:
  "k \<notin> set seen \<Longrightarrow> map key res = map Some seen \<Longrightarrow>
    List.find (\<lambda>x. key x = Some k) (snd (foldl step (seen, res) xs)) =
    map_option norm (List.find (\<lambda>x. key x = Some k) xs)"
proof (induction xs arbitrary: seen res)
  case Nil
  then have "\<forall>x \<in> set res. key x \<noteq> Some k" by (metis imageE image_eqI list.set_map option.inject)
  then show ?case by (simp add: find_None)
next
  case (Cons x xs)
  show ?case
  proof (cases "key x")
    case None
    with Cons show ?thesis by (simp add: step_skip)
  next
    case (Some j)
    show ?thesis
    proof (cases "j = k")
      case False
      with Some Cons show ?thesis
        by (cases "j \<in> set seen") (simp_all add: step_dup step_new key_norm)
    next
      case True
      from Cons.prems have "\<forall>y \<in> set res. key y \<noteq> Some k"
        by (metis imageE image_eqI list.set_map option.inject)
      moreover obtain new where "snd (foldl step (seen @ [k], res @ [norm x]) xs) = (res @ [norm x]) @ new"
        using result_append by blast
      ultimately show ?thesis using Some True Cons.prems
        by (simp add: step_new key_norm find_append find_None [THEN iffD2])
    qed
  qed
qed

end

section \<open>Strings and links as instances\<close>

definition string_key :: "string \<Rightarrow> string option" where
  "string_key s = (if js_trim s = [] then None else Some (js_lower (js_trim s)))"

definition link_key :: "external_link \<Rightarrow> string option" where
  "link_key l = (if js_trim (el_url l) = [] then None else Some (url_key l))"

interpretation strings: keyed_merge string_key js_trim merge_string_step
  by unfold_locales
    (auto simp: string_key_def merge_string_step_def Let_def oset_has_def oset_add_def split: if_splits)

lemma str_or_fixed: "str_or [Some s] d = s \<or> s = []"
  by simp

interpretation links: keyed_merge link_key normal_link merge_link_step
  by unfold_locales
    (auto simp: link_key_def url_key_def merge_link_step_def normal_link_def Let_def oset_has_def
      oset_add_def split: if_splits)

lemma mergeStringArrays_foldl:
  "mergeStringArrays arrays = snd (foldl merge_string_step ([], []) (flat_items arrays))"
  by (simp add: mergeStringArrays_def loop_arrays_flat)

lemma mergeExternalLinkArrays_foldl:
  "mergeExternalLinkArrays arrays = snd (foldl merge_link_step ([], []) (flat_items arrays))"
  by (simp add: mergeExternalLinkArrays_def loop_arrays_flat)

lemma normalizeSet_map_filter:
  "normalizeSet items = oset_of (List.map_filter string_key (coalesce_or [items] []))"
proof -
  have "filter (\<lambda>s. s \<noteq> []) (map (\<lambda>s. js_lower (js_trim s)) xs) = List.map_filter string_key xs" for xs
    by (induction xs) (auto simp: string_key_def map_filter_simps)
  then show ?thesis by (simp add: normalizeSet_def)
qed

lemma merge_strings_trimmed: "s \<in> set (mergeStringArrays arrays) \<Longrightarrow> js_trim s = s \<and> s \<noteq> []"
proof -
  assume s: "s \<in> set (mergeStringArrays arrays)"
  have "string_key s \<in> set (map Some (oset_of (List.map_filter string_key (flat_items arrays))))"
    using s unfolding mergeStringArrays_foldl by (metis image_eqI list.set_map strings.merge_keys)
  then have "js_trim s \<noteq> []" by (auto simp: string_key_def split: if_splits)
  moreover have "js_trim s = s"
    using s strings.result_normal [of "[]" "[]"] unfolding mergeStringArrays_foldl by simp
  ultimately show ?thesis by auto
qed

lemma merge_strings_keys:
  "map js_lower (mergeStringArrays arrays) = oset_of (List.map_filter string_key (flat_items arrays))"
proof -
  have "map string_key (mergeStringArrays arrays) =
      map Some (oset_of (List.map_filter string_key (flat_items arrays)))"
    unfolding mergeStringArrays_foldl by (rule strings.merge_keys)
  moreover have "map string_key (mergeStringArrays arrays) = map Some (map js_lower (mergeStringArrays arrays))"
    using merge_strings_trimmed by (auto simp: string_key_def)
  ultimately show ?thesis by (metis inj_map_eq_map inj_Some)
qed

lemma lengths_subset_eq:
  assumes "distinct xs" "distinct ys"
  shows "(length xs = length ys \<and> set xs \<subseteq> set ys) \<longleftrightarrow> set xs = set ys"
proof
  assume "length xs = length ys \<and> set xs \<subseteq> set ys"
  then have "card (set xs) = card (set ys)" "set xs \<subseteq> set ys"
    using assms by (simp_all add: distinct_card)
  then show "set xs = set ys" by (simp add: card_subset_eq)
next
  assume "set xs = set ys"
  then show "length xs = length ys \<and> set xs \<subseteq> set ys"
    using assms by (metis distinct_card order_refl)
qed

lemma set_normalizeSet:
  "set (normalizeSet a) = {js_lower (js_trim s) |s. s \<in> set (coalesce_or [a] []) \<and> js_trim s \<noteq> []}"
  by (auto simp: normalizeSet_def)

lemma normalizeSet_merge: "set (normalizeSet (Some (mergeStringArrays arrays))) = set (normalizeSet (Some (flat_items arrays)))"
proof -
  have "set (normalizeSet (Some (mergeStringArrays arrays))) = set (map js_lower (mergeStringArrays arrays))"
    unfolding set_normalizeSet using merge_strings_trimmed by (auto simp: image_iff) metis+
  then show ?thesis by (simp add: merge_strings_keys normalizeSet_map_filter)
qed

lemma link_key_Some_iff: "link_key l = Some k \<longleftrightarrow> js_trim (el_url l) \<noteq> [] \<and> k = url_key l"
  by (auto simp: link_key_def)

lemma map_filter_link_key: "List.map_filter link_key ls = map url_key (valid_links (Some ls))"
  by (induction ls) (auto simp: link_key_def valid_links_def map_filter_simps)

lemma valid_links_merge: "valid_links (Some (mergeExternalLinkArrays arrays)) = mergeExternalLinkArrays arrays"
proof -
  have "js_trim (el_url l) \<noteq> []" if l: "l \<in> set (mergeExternalLinkArrays arrays)" for l
  proof -
    have "link_key l \<in> set (map Some (oset_of (List.map_filter link_key (flat_items arrays))))"
      using l unfolding mergeExternalLinkArrays_foldl by (metis image_eqI list.set_map links.merge_keys)
    then show ?thesis by (auto simp: link_key_def split: if_splits)
  qed
  then show ?thesis by (simp add: valid_links_def filter_id_conv)
qed

lemma merge_links_keys:
  "map url_key (mergeExternalLinkArrays arrays) = oset_of (map url_key (valid_links (Some (flat_items arrays))))"
proof -
  have "map link_key (mergeExternalLinkArrays arrays) =
      map Some (oset_of (map url_key (valid_links (Some (flat_items arrays)))))"
    unfolding mergeExternalLinkArrays_foldl map_filter_link_key [symmetric] by (rule links.merge_keys)
  moreover have "map link_key (mergeExternalLinkArrays arrays) = map Some (map url_key (mergeExternalLinkArrays arrays))"
    using valid_links_merge [of arrays] by (auto simp: link_key_def valid_links_def filter_id_conv)
  ultimately show ?thesis by (metis inj_map_eq_map inj_Some)
qed

lemma merge_links_find:
  "List.find (\<lambda>l. link_key l = Some k) (mergeExternalLinkArrays arrays) =
    map_option normal_link (List.find (\<lambda>l. link_key l = Some k) (flat_items arrays))"
  unfolding mergeExternalLinkArrays_foldl by (rule links.merge_first) simp_all

section \<open>Properties\<close>

text \<open>
  \<open>mergeStringArrays\<close> keeps exactly one spelling per case-insensitive value, in the
  order of first appearance over all the arrays that are present: the lower-cased result is
  the insertion-ordered set of the trimmed, lower-cased, non-blank items, and the spelling
  kept for each value is the trimmed text of its first occurrence.
\<close>

theorem mergeStringArrays_spec:
  "map js_lower (mergeStringArrays arrays) = normalizeSet (Some (flat_items arrays)) \<and>
   List.find (\<lambda>s. string_key s = Some k) (mergeStringArrays arrays) =
     map_option js_trim (List.find (\<lambda>s. string_key s = Some k) (flat_items arrays))"
  unfolding mergeStringArrays_foldl
  by (simp add: merge_strings_keys [unfolded mergeStringArrays_foldl] normalizeSet_map_filter strings.merge_first)

text \<open>
  \<open>areArraySetsEqual\<close>, which compares the sizes of two sets and then looks each element
  of one up in the other, decides equality of the sets of trimmed, lower-cased, non-blank
  values; and merging never changes that set, so an array equals its own merge.
\<close>

theorem areArraySetsEqual_iff:
  "(areArraySetsEqual a b \<longleftrightarrow>
     {js_lower (js_trim s) |s. s \<in> set (coalesce_or [a] []) \<and> js_trim s \<noteq> []} =
     {js_lower (js_trim s) |s. s \<in> set (coalesce_or [b] []) \<and> js_trim s \<noteq> []}) \<and>
   areArraySetsEqual (Some (mergeStringArrays arrays)) (Some (flat_items arrays))"
proof -
  have d: "distinct (normalizeSet x)" for x by (simp add: normalizeSet_def)
  have eq: "areArraySetsEqual x y \<longleftrightarrow> set (normalizeSet x) = set (normalizeSet y)" for x y
    unfolding lengths_subset_eq [OF d d, symmetric]
    by (auto simp: areArraySetsEqual_def Let_def oset_has_def list_all_iff)
  show ?thesis by (simp only: eq normalizeSet_merge) (simp only: set_normalizeSet)
qed

text \<open>
  \<open>mergeExternalLinkArrays\<close> keeps one link per URL (trimmed, case-insensitive), in the
  order of first appearance; the link kept is the first one with that URL, with the
  default provider and label filled in; and merging a merged list changes nothing.
\<close>

theorem mergeExternalLinkArrays_spec:
  "map url_key (mergeExternalLinkArrays arrays) = oset_of (map url_key (valid_links (Some (flat_items arrays)))) \<and>
   List.find (\<lambda>l. link_key l = Some k) (mergeExternalLinkArrays arrays) =
     map_option normal_link (List.find (\<lambda>l. link_key l = Some k) (flat_items arrays)) \<and>
   mergeExternalLinkArrays [Some (mergeExternalLinkArrays arrays)] = mergeExternalLinkArrays arrays"
  by (simp add: merge_links_keys merge_links_find)
    (simp add: mergeExternalLinkArrays_foldl links.merge_idem)

text \<open>
  \<open>areExternalLinkSetsEqual\<close> is not equality of URL sets: it also asks for the same number
  of non-blank links, so a list with a repeated URL differs from its own merge. On lists
  without repeated URLs it is equality of the URL sets.
\<close>

theorem areExternalLinkSetsEqual_iff:
  "(areExternalLinkSetsEqual a b \<longleftrightarrow>
     length (valid_links a) = length (valid_links b) \<and>
     url_key ` set (valid_links a) = url_key ` set (valid_links b)) \<and>
   \<not> areExternalLinkSetsEqual (Some [\<lparr>el_provider = ''p'', el_label = ''l'', el_url = ''u''\<rparr>,
       \<lparr>el_provider = ''p'', el_label = ''l'', el_url = ''U''\<rparr>])
     (Some (mergeExternalLinkArrays [Some [\<lparr>el_provider = ''p'', el_label = ''l'', el_url = ''u''\<rparr>,
       \<lparr>el_provider = ''p'', el_label = ''l'', el_url = ''U''\<rparr>]]))"
proof -
  have "areExternalLinkSetsEqual a b \<longleftrightarrow> length (valid_links a) = length (valid_links b) \<and>
      length (oset_of (map url_key (valid_links a))) = length (oset_of (map url_key (valid_links b))) \<and>
      set (oset_of (map url_key (valid_links a))) \<subseteq> set (oset_of (map url_key (valid_links b)))"
    by (auto simp: areExternalLinkSetsEqual_def Let_def oset_has_def list_all_iff)
  also have "\<dots> \<longleftrightarrow> length (valid_links a) = length (valid_links b) \<and>
      url_key ` set (valid_links a) = url_key ` set (valid_links b)"
    using lengths_subset_eq [OF distinct_oset_of distinct_oset_of,
      of "map url_key (valid_links a)" "map url_key (valid_links b)"] by simp
  finally show ?thesis by (rule conjI) code_simp
qed

end
