(* ===== verification/Uri.thy ===== *)
theory Uri
  imports Kiyomi_Prelude
begin

text \<open>
  The two percent-encoders of the platform that the client builds URLs with:
  \<open>encodeURIComponent\<close> and the serialiser of \<open>URLSearchParams\<close>. Both encode a string one code
  unit at a time (on \<open>U+0000 .. U+00FF\<close>, UTF-8 takes one or two bytes). The locale \<open>encoder\<close> is
  what the rest of the development uses of them: a decoder that inverts the encoder on each
  unit, and the set of characters the output is made of.
\<close>

section \<open>The encoders\<close>

definition utf8 :: "char \<Rightarrow> nat list" where
  "utf8 c = (let n = of_char c in if n < 128 then [n] else [192 + n div 64, 128 + n mod 64])"

definition hex_digit :: "nat \<Rightarrow> char" where
  "hex_digit d = (if d < 10 then char_of (48 + d) else char_of (55 + d))"

definition pct_byte :: "nat \<Rightarrow> string" where
  "pct_byte b = [CHR ''%'', hex_digit (b div 16), hex_digit (b mod 16)]"

definition is_alnum :: "char \<Rightarrow> bool" where
  "is_alnum c = (let n = of_char c :: nat in 48 \<le> n \<and> n \<le> 57 \<or> 65 \<le> n \<and> n \<le> 90 \<or> 97 \<le> n \<and> n \<le> 122)"

definition uri_unreserved :: "char \<Rightarrow> bool" where
  "uri_unreserved c = (is_alnum c \<or> c \<in> set ''-_.!~*()'' \<or> c = CHR 39)"

definition form_unreserved :: "char \<Rightarrow> bool" where
  "form_unreserved c = (is_alnum c \<or> c \<in> set ''*-._'')"

definition uri_unit :: "char \<Rightarrow> string" where
  "uri_unit c = (if uri_unreserved c then [c] else concat (map pct_byte (utf8 c)))"

definition form_unit :: "char \<Rightarrow> string" where
  "form_unit c =
     (if c = CHR '' '' then ''+'' else if form_unreserved c then [c] else concat (map pct_byte (utf8 c)))"

definition encodeURIComponent :: "string \<Rightarrow> string" where
  "encodeURIComponent s = concat (map uri_unit s)"

definition form_encode :: "string \<Rightarrow> string" where
  "form_encode s = concat (map form_unit s)"

text \<open>\<open>URLSearchParams\<close> is a list of pairs; \<open>set\<close> replaces the first pair with the name and drops the others, or appends.\<close>

type_synonym search_params = "(string \<times> string) list"

definition params_append :: "string \<Rightarrow> string \<Rightarrow> search_params \<Rightarrow> search_params" where
  "params_append k v ps = ps @ [(k, v)]"

fun params_set :: "string \<Rightarrow> string \<Rightarrow> search_params \<Rightarrow> search_params" where
  "params_set k v [] = [(k, v)]"
| "params_set k v ((k', v') # ps) =
     (if k' = k then (k, v) # filter (\<lambda>p. fst p \<noteq> k) ps else (k', v') # params_set k v ps)"

fun params_toString :: "search_params \<Rightarrow> string" where
  "params_toString [] = []"
| "params_toString [(k, v)] = form_encode k @ ''='' @ form_encode v"
| "params_toString ((k, v) # ps) = form_encode k @ ''='' @ form_encode v @ ''&'' @ params_toString ps"

section \<open>The contract of an encoder\<close>

locale encoder =
  fixes enc :: "char \<Rightarrow> string" and dec :: "string \<Rightarrow> string option" and safe :: "char \<Rightarrow> bool"
  assumes dec_Nil: "dec [] = Some []"
    and dec_unit: "dec (enc c @ s) = map_option (Cons c) (dec s)"
    and unit_safe: "x \<in> set (enc c) \<Longrightarrow> safe x"
    and unit_nonempty: "enc c \<noteq> []"
begin

lemma dec_enc: "dec (concat (map enc s)) = Some s"
  by (induction s) (simp_all add: dec_Nil dec_unit)

lemma enc_inj: "concat (map enc s) = concat (map enc t) \<longleftrightarrow> s = t"
  by (metis dec_enc option.inject)

lemma enc_safe: "x \<in> set (concat (map enc s)) \<Longrightarrow> safe x"
  by (auto intro: unit_safe)

lemma enc_Nil_iff: "concat (map enc s) = [] \<longleftrightarrow> s = []"
  by (simp add: unit_nonempty)

end

text \<open>The reference decoder: percent escapes to bytes and UTF-8 sequences of one or two bytes to code units.\<close>

definition hex_val :: "char \<Rightarrow> nat option" where
  "hex_val c =
     (let n = of_char c
      in if 48 \<le> n \<and> n \<le> 57 then Some (n - 48) else if 65 \<le> n \<and> n \<le> 70 then Some (n - 55) else None)"

fun byte_of :: "string \<Rightarrow> (nat \<times> string) option" where
  "byte_of (p # a # b # s) =
     (if p = CHR ''%'' then
        (case (hex_val a, hex_val b) of (Some x, Some y) \<Rightarrow> Some (16 * x + y, s) | _ \<Rightarrow> None)
      else None)"
| "byte_of _ = None"

text \<open>One code unit off the front; \<open>pl\<close> tells whether \<open>+\<close> stands for a space.\<close>

definition unit_of :: "bool \<Rightarrow> string \<Rightarrow> (char \<times> string) option" where
  "unit_of pl s =
     (case s of
        [] \<Rightarrow> None
      | c # r \<Rightarrow>
          if c = CHR ''%'' then
            (case byte_of s of
               None \<Rightarrow> None
             | Some (b, r1) \<Rightarrow>
                 if b < 128 then Some (char_of b, r1)
                 else (case byte_of r1 of
                         None \<Rightarrow> None
                       | Some (b2, r2) \<Rightarrow> Some (char_of ((b - 192) * 64 + (b2 - 128)), r2)))
          else if pl \<and> c = CHR ''+'' then Some (CHR '' '', r)
          else Some (c, r))"

lemma unit_of_shorter: "unit_of pl s = Some (c, r) \<Longrightarrow> length r < length s"
proof -
  have b: "byte_of t = Some (n, r) \<Longrightarrow> length r < length t" for t n r
    by (cases t rule: byte_of.cases) (auto split: if_splits option.splits)
  show "unit_of pl s = Some (c, r) \<Longrightarrow> length r < length s"
    by (auto simp: unit_of_def dest!: b split: list.splits if_splits option.splits)
qed

function uri_decode :: "bool \<Rightarrow> string \<Rightarrow> string option" where
  "uri_decode pl s =
     (if s = [] then Some []
      else case unit_of pl s of None \<Rightarrow> None | Some (c, r) \<Rightarrow> map_option (Cons c) (uri_decode pl r))"
  by pat_completeness auto
termination
  by (relation "measure (\<lambda>(_, s). length s)") (auto dest: unit_of_shorter)

declare uri_decode.simps [simp del]

lemma hex_val_digit: "d < 16 \<Longrightarrow> hex_val (hex_digit d) = Some d"
  by (simp add: hex_val_def hex_digit_def Let_def)

lemma byte_of_pct: "b < 256 \<Longrightarrow> byte_of (pct_byte b @ s) = Some (b, s)"
  by (simp add: pct_byte_def hex_val_digit)

lemma of_char_bound: "(of_char c :: nat) < 256"
  by (metis char_of_take_bit_eq of_char_mod_256 mod_less_divisor zero_less_numeral)

lemma of_char_div_64: "(of_char c :: nat) div 64 < 4"
  by (rule less_mult_imp_div_less) (use of_char_bound [of c] in simp)

lemma unit_of_pct:
  assumes "b < 256"
  shows "unit_of pl (pct_byte b @ s) =
    (if b < 128 then Some (char_of b, s)
     else case byte_of s of None \<Rightarrow> None | Some (b2, r2) \<Rightarrow> Some (char_of ((b - 192) * 64 + (b2 - 128)), r2))"
proof -
  obtain r where r: "pct_byte b @ s = CHR ''%'' # r" by (simp add: pct_byte_def)
  then have "byte_of (CHR ''%'' # r) = Some (b, s)" using byte_of_pct [OF assms, of s] by simp
  with r show ?thesis by (simp add: unit_of_def)
qed

lemma unit_of_utf8: "unit_of pl (concat (map pct_byte (utf8 c)) @ s) = Some (c, s)"
proof (cases "(of_char c :: nat) < 128")
  case True
  then show ?thesis by (simp add: utf8_def Let_def unit_of_pct)
next
  case False
  let ?n = "of_char c :: nat"
  have "?n div 64 * 64 + ?n mod 64 = ?n" by simp
  moreover have "?n div 64 < 4" by (rule of_char_div_64)
  ultimately show ?thesis using False
    by (simp add: utf8_def Let_def unit_of_pct byte_of_pct)
qed

lemma unit_of_plain: "c \<noteq> CHR ''%'' \<Longrightarrow> \<not> (pl \<and> c = CHR ''+'') \<Longrightarrow> unit_of pl (c # s) = Some (c, s)"
  by (simp add: unit_of_def)

lemma uri_decode_unit: "unit_of pl (u @ s) = Some (c, s) \<Longrightarrow> u \<noteq> [] \<Longrightarrow>
    uri_decode pl (u @ s) = map_option (Cons c) (uri_decode pl s)"
  by (simp add: uri_decode.simps [of pl "u @ s"])

definition is_hex_upper :: "char \<Rightarrow> bool" where
  "is_hex_upper c = (let n = of_char c :: nat in 48 \<le> n \<and> n \<le> 57 \<or> 65 \<le> n \<and> n \<le> 70)"

lemma hex_digit_alnum: "d < 16 \<Longrightarrow> is_alnum (hex_digit d)"
  by (simp add: is_alnum_def hex_digit_def Let_def)

lemma pct_bytes_safe: "x \<in> set (concat (map pct_byte (utf8 c))) \<Longrightarrow> is_alnum x \<or> x = CHR ''%''"
proof -
  have "b < 256" if "b \<in> set (utf8 c)" for b
    using that of_char_div_64 [of c] by (auto simp: utf8_def Let_def split: if_splits)
  then have "b div 16 < 16" "b mod 16 < 16" if "b \<in> set (utf8 c)" for b
    using that less_mult_imp_div_less [of b 16 16] by simp_all
  then have "x \<in> set (pct_byte b) \<Longrightarrow> b \<in> set (utf8 c) \<Longrightarrow> is_alnum x \<or> x = CHR ''%''" for b
    using hex_digit_alnum by (auto simp: pct_byte_def)
  then show "x \<in> set (concat (map pct_byte (utf8 c))) \<Longrightarrow> is_alnum x \<or> x = CHR ''%''" by auto
qed

lemma utf8_nonempty: "utf8 c \<noteq> []"
  by (simp add: utf8_def Let_def)

lemma pct_bytes_nonempty: "concat (map pct_byte (utf8 c)) \<noteq> []"
  by (simp add: utf8_def Let_def pct_byte_def)

definition uri_safe :: "char \<Rightarrow> bool" where
  "uri_safe c = (uri_unreserved c \<or> c = CHR ''%'')"

definition form_safe :: "char \<Rightarrow> bool" where
  "form_safe c = (form_unreserved c \<or> c = CHR ''%'' \<or> c = CHR ''+'')"

interpretation uri: encoder uri_unit "uri_decode False" uri_safe
proof
  show "uri_decode False [] = Some []" by (simp add: uri_decode.simps)
next
  fix c s
  have "uri_unreserved c \<Longrightarrow> c \<noteq> CHR ''%''" by (auto simp: uri_unreserved_def is_alnum_def)
  then have "unit_of False (uri_unit c @ s) = Some (c, s)"
    by (simp add: uri_unit_def unit_of_plain unit_of_utf8)
  then show "uri_decode False (uri_unit c @ s) = map_option (Cons c) (uri_decode False s)"
    by (rule uri_decode_unit) (use pct_bytes_nonempty in \<open>simp add: uri_unit_def\<close>)
next
  fix x c show "x \<in> set (uri_unit c) \<Longrightarrow> uri_safe x"
    using pct_bytes_safe [of x c] by (auto simp: uri_unit_def uri_safe_def uri_unreserved_def split: if_splits)
next
  fix c show "uri_unit c \<noteq> []" using pct_bytes_nonempty [of c] by (simp add: uri_unit_def)
qed

interpretation form: encoder form_unit "uri_decode True" form_safe
proof
  show "uri_decode True [] = Some []" by (simp add: uri_decode.simps)
next
  fix c s
  have "form_unreserved c \<Longrightarrow> c \<noteq> CHR ''%'' \<and> c \<noteq> CHR ''+''" by (auto simp: form_unreserved_def is_alnum_def)
  then have "unit_of True (form_unit c @ s) = Some (c, s)"
    by (auto simp: form_unit_def unit_of_plain unit_of_utf8) (simp add: unit_of_def)
  then show "uri_decode True (form_unit c @ s) = map_option (Cons c) (uri_decode True s)"
    by (rule uri_decode_unit) (use pct_bytes_nonempty in \<open>simp add: form_unit_def\<close>)
next
  fix x c show "x \<in> set (form_unit c) \<Longrightarrow> form_safe x"
    using pct_bytes_safe [of x c] by (auto simp: form_unit_def form_safe_def form_unreserved_def split: if_splits)
next
  fix c show "form_unit c \<noteq> []" using pct_bytes_nonempty [of c] by (simp add: form_unit_def)
qed

lemma encodeURIComponent_safe: "c \<in> set (encodeURIComponent s) \<Longrightarrow> uri_safe c"
  unfolding encodeURIComponent_def by (rule uri.enc_safe)

lemma encodeURIComponent_no_delim:
  "c \<in> set ''/?#&= +'' \<Longrightarrow> c \<notin> set (encodeURIComponent s)"
  using encodeURIComponent_safe [of c s]
  by (auto simp: uri_safe_def uri_unreserved_def is_alnum_def)

lemma form_encode_no_delim: "c \<in> set ''/?#&='' \<Longrightarrow> c \<notin> set (form_encode s)"
  using form.enc_safe [of c s, folded form_encode_def]
  by (auto simp: form_safe_def form_unreserved_def is_alnum_def)

lemma encodeURIComponent_inj [simp]: "encodeURIComponent s = encodeURIComponent t \<longleftrightarrow> s = t"
  unfolding encodeURIComponent_def by (rule uri.enc_inj)

lemma form_encode_inj [simp]: "form_encode s = form_encode t \<longleftrightarrow> s = t"
  unfolding form_encode_def by (rule form.enc_inj)

lemma encodeURIComponent_Nil [simp]: "encodeURIComponent s = [] \<longleftrightarrow> s = []"
  unfolding encodeURIComponent_def by (rule uri.enc_Nil_iff)

end
