(* ===== verification/Json.thy ===== *)
theory Json
  imports Kiyomi_Prelude
begin

text \<open>
  Untyped JavaScript values: request bodies, response bodies and the objects the client
  passes through without looking at all their fields. An object is the list of its own
  properties in insertion order. \<open>wire\<close> is what \<open>JSON.stringify\<close> keeps of a value: members
  that are \<open>undefined\<close> are dropped, array elements that are \<open>undefined\<close> become \<open>null\<close>.
\<close>

datatype json =
    JUndef
  | JNull
  | JBool bool
  | JNum rat
  | JStr string
  | JArr "json list"
  | JObj "(string \<times> json) list"

fun wire :: "json \<Rightarrow> json" where
  "wire (JArr js) = JArr (map (\<lambda>j. if j = JUndef then JNull else wire j) js)"
| "wire (JObj ms) = JObj (filter (\<lambda>m. snd m \<noteq> JUndef) (map (\<lambda>m. (fst m, wire (snd m))) ms))"
| "wire j = j"

text \<open>Property access \<open>o.k\<close> and \<open>k in o\<close> on an object, and assignment \<open>o.k = v\<close>.\<close>

definition members :: "json \<Rightarrow> (string \<times> json) list" where
  "members j = (case j of JObj ms \<Rightarrow> ms | _ \<Rightarrow> [])"

definition mget :: "(string \<times> json) list \<Rightarrow> string \<Rightarrow> json" where
  "mget ms k = (case map_of ms k of None \<Rightarrow> JUndef | Some v \<Rightarrow> v)"

definition jget :: "json \<Rightarrow> string \<Rightarrow> json" where
  "jget j k = mget (members j) k"

definition mhas :: "(string \<times> json) list \<Rightarrow> string \<Rightarrow> bool" where
  "mhas ms k = (k \<in> fst ` set ms)"

fun mset_key :: "string \<Rightarrow> json \<Rightarrow> (string \<times> json) list \<Rightarrow> (string \<times> json) list" where
  "mset_key k v [] = [(k, v)]"
| "mset_key k v ((k', v') # ms) = (if k' = k then (k, v) # ms else (k', v') # mset_key k v ms)"

definition truthy :: "json \<Rightarrow> bool" where
  "truthy j =
     (case j of JUndef \<Rightarrow> False | JNull \<Rightarrow> False | JBool b \<Rightarrow> b | JNum q \<Rightarrow> q \<noteq> 0
      | JStr s \<Rightarrow> s \<noteq> [] | JArr _ \<Rightarrow> True | JObj _ \<Rightarrow> True)"

definition nullish :: "json \<Rightarrow> bool" where
  "nullish j = (j = JUndef \<or> j = JNull)"

text \<open>\<open>a ?? b\<close> and \<open>a || b\<close>.\<close>

definition jcoalesce :: "json \<Rightarrow> json \<Rightarrow> json" where
  "jcoalesce a b = (if nullish a then b else a)"

definition jor :: "json \<Rightarrow> json \<Rightarrow> json" where
  "jor a b = (if truthy a then a else b)"

text \<open>\<open>String(v)\<close>.\<close>

fun join_comma :: "string list \<Rightarrow> string" where
  "join_comma [] = []"
| "join_comma [s] = s"
| "join_comma (s # ss) = s @ '','' @ join_comma ss"

fun js_string :: "json \<Rightarrow> string" where
  "js_string JUndef = ''undefined''"
| "js_string JNull = ''null''"
| "js_string (JBool b) = (if b then ''true'' else ''false'')"
| "js_string (JNum q) = num_str q"
| "js_string (JStr s) = s"
| "js_string (JArr js) = join_comma (map (\<lambda>j. if j = JUndef \<or> j = JNull then [] else js_string j) js)"
| "js_string (JObj ms) = ''[object Object]''"

definition json_of_opt :: "('a \<Rightarrow> json) \<Rightarrow> 'a option \<Rightarrow> json" where
  "json_of_opt f x = (case x of None \<Rightarrow> JUndef | Some v \<Rightarrow> f v)"

section \<open>Lemmas\<close>

lemma wire_Undef_iff [simp]: "wire j = JUndef \<longleftrightarrow> j = JUndef"
  by (cases j) auto

lemma mget_Cons: "mget ((k, v) # ms) k' = (if k' = k then v else mget ms k')"
  by (simp add: mget_def)

lemma mget_Nil [simp]: "mget [] k = JUndef"
  by (simp add: mget_def)

lemma mhas_Cons: "mhas ((k, v) # ms) k' \<longleftrightarrow> k' = k \<or> mhas ms k'"
  by (auto simp: mhas_def)

lemma mhas_Nil [simp]: "\<not> mhas [] k"
  by (simp add: mhas_def)

lemma mget_append: "mget (xs @ ys) k = (if mhas xs k then mget xs k else mget ys k)"
proof (induction xs)
  case (Cons x xs)
  then show ?case by (cases x) (simp add: mget_Cons mhas_Cons)
qed simp

lemma mget_mset_key: "mget (mset_key k v ms) k' = (if k' = k then v else mget ms k')"
proof (induction ms)
  case (Cons x ms)
  then show ?case by (cases x) (auto simp: mget_Cons)
qed (simp add: mget_Cons)

lemma mhas_mset_key: "mhas (mset_key k v ms) k' \<longleftrightarrow> k' = k \<or> mhas ms k'"
proof (induction ms)
  case (Cons x ms)
  then show ?case by (cases x) (auto simp: mhas_Cons)
qed (simp add: mhas_Cons)

lemma mget_not_mhas: "\<not> mhas ms k \<Longrightarrow> mget ms k = JUndef"
proof (induction ms)
  case (Cons x ms)
  then show ?case by (cases x) (simp add: mget_Cons mhas_Cons)
qed simp

lemma keys_mset_key: "fst ` set (mset_key k v ms) = insert k (fst ` set ms)"
proof (induction ms)
  case (Cons x ms)
  then show ?case by (cases x) auto
qed simp

lemma distinct_mset_key: "distinct (map fst ms) \<Longrightarrow> distinct (map fst (mset_key k v ms))"
proof (induction ms)
  case (Cons x ms)
  then show ?case using keys_mset_key [of k v ms] by (cases x) auto
qed simp

lemma members_JObj [simp]: "members (JObj ms) = ms"
  by (simp add: members_def)

lemma wire_members: "members (wire (JObj ms)) = filter (\<lambda>m. snd m \<noteq> JUndef) (map (\<lambda>m. (fst m, wire (snd m))) ms)"
  by simp

lemma mget_wire:
  "distinct (map fst ms) \<Longrightarrow> mget (members (wire (JObj ms))) k = wire (mget ms k)"
proof (induction ms)
  case (Cons x ms)
  obtain k' v where x: "x = (k', v)" by fastforce
  have "k' \<notin> fst ` set ms" using Cons.prems x by auto
  then have "mget ms k' = JUndef" using mget_not_mhas [of ms k'] by (simp add: mhas_def)
  with Cons x show ?case by (auto simp: wire_members mget_Cons)
qed (simp add: members_def)

end
