(* ===== verification/Api_Client.thy ===== *)
theory Api_Client
  imports Types_Api Uri Json
begin

text \<open>
  \<open>api/client.ts\<close>: the HTTP client. Each method of the object \<open>api\<close> is the request it hands to
  \<open>fetchAPI\<close> (method, path, headers, and the body as \<open>JSON.stringify\<close> keeps it), so a wrong
  path, a forgotten guard or a dropped field is visible in the model. \<open>fetchAPI\<close> itself is
  the run of a request against a parameter \<open>fetch\<close>, which stands for the network: it may
  reject or answer with any status and any body. The three methods that post-process the
  answer are functions of the answer.
\<close>

section \<open>Requests, responses and errors\<close>

datatype http_method = GET | POST | PUT | PATCH | DELETE

record request =
  rq_method :: http_method
  rq_path :: string
  rq_headers :: "(string \<times> string) list"
  rq_body :: "json option"

record response =
  rs_status :: nat
  rs_statusText :: string
  rs_json :: "json option"

text \<open>What a promise of the client can be rejected with.\<close>

datatype js_error =
    Api_Error string json json json
  | Type_Error
  | Syntax_Error
  | Network_Error string
  | Plain_Error string

type_synonym fetch = "request \<Rightarrow> string + response"

definition rs_ok :: "response \<Rightarrow> bool" where
  "rs_ok r = (200 \<le> rs_status r \<and> rs_status r \<le> 299)"

definition API_BASE :: string where
  "API_BASE = ''/api/v1''"

definition req :: "http_method \<Rightarrow> string \<Rightarrow> request" where
  "req m ep = \<lparr>rq_method = m, rq_path = API_BASE @ ep, rq_headers = [], rq_body = None\<rparr>"

definition json_req :: "http_method \<Rightarrow> string \<Rightarrow> json \<Rightarrow> request" where
  "json_req m ep body =
     \<lparr>rq_method = m, rq_path = API_BASE @ ep,
      rq_headers = [(''Content-Type'', ''application/json'')], rq_body = Some (wire body)\<rparr>"

text \<open>\<open>fetchAPI\<close>: errors become \<open>Error\<close> objects with the server's message, code, details and request id.\<close>

definition fetchAPI :: "fetch \<Rightarrow> request \<Rightarrow> js_error + json" where
  "fetchAPI fetch r =
     (case fetch r of
        Inl reason \<Rightarrow> Inl (Network_Error reason)
      | Inr res \<Rightarrow>
          if \<not> rs_ok res then
            let errorData =
                  (case rs_json res of
                     Some j \<Rightarrow> j
                   | None \<Rightarrow> JObj [(''message'', JStr (rs_statusText res)), (''code'', JStr ''UNKNOWN_ERROR'')])
            in if nullish errorData then Inl Type_Error
               else
                 let msg = jor (jor (jget errorData ''message'') (jget errorData ''error''))
                             (JStr (''HTTP '' @ nat_str (rs_status res)))
                 in Inl (Api_Error (js_string msg) (jget errorData ''code'')
                           (jget errorData ''details'') (jget errorData ''request_id''))
          else if rs_status res = 204 then Inr (JObj [])
          else (case rs_json res of None \<Rightarrow> Inl Syntax_Error | Some j \<Rightarrow> Inr j))"

section \<open>Payload types\<close>

datatype merge_scalar = Merge_Keep | Merge_Merge | Merge_Source string

fun merge_scalar_str :: "merge_scalar \<Rightarrow> string" where
  "merge_scalar_str Merge_Keep = ''keep''"
| "merge_scalar_str Merge_Merge = ''merge''"
| "merge_scalar_str (Merge_Source i) = ''source:'' @ i"

record merge_payload =
  mp_keep_manga_id :: string
  mp_source_manga_ids :: "string list"
  mp_content_provider :: "(string \<times> string) option"
  mp_title :: merge_scalar
  mp_description :: merge_scalar
  mp_release_year :: merge_scalar
  mp_cover_url :: merge_scalar

record progress =
  pg_is_read :: "bool option"
  pg_last_read_page :: "rat option"

definition strs_json :: "string list \<Rightarrow> json" where
  "strs_json ss = JArr (map JStr ss)"

definition link_json :: "external_link \<Rightarrow> json" where
  "link_json l = JObj [(''provider'', JStr (el_provider l)), (''label'', JStr (el_label l)), (''url'', JStr (el_url l))]"

definition links_json :: "external_link list \<Rightarrow> json" where
  "links_json ls = JArr (map link_json ls)"

definition progress_json :: "progress \<Rightarrow> json" where
  "progress_json p =
     JObj [(''is_read'', json_of_opt JBool (pg_is_read p)),
           (''last_read_page'', json_of_opt JNum (pg_last_read_page p))]"

definition provider_ref_members :: "provider_ref \<Rightarrow> (string \<times> json) list" where
  "provider_ref_members r =
     [(''provider_id'', JStr (pr_provider_id r)), (''provider_manga_id'', JStr (pr_provider_manga_id r)),
      (''manga_title'', json_of_opt JStr (pr_manga_title r))]"

definition merge_payload_json :: "merge_payload \<Rightarrow> json" where
  "merge_payload_json p =
     JObj [(''keep_manga_id'', JStr (mp_keep_manga_id p)),
           (''source_manga_ids'', strs_json (mp_source_manga_ids p)),
           (''content_provider'',
             json_of_opt (\<lambda>(a, b). JObj [(''provider_id'', JStr a), (''provider_manga_id'', JStr b)])
               (mp_content_provider p)),
           (''metadata'', JObj
             [(''title'', JStr (merge_scalar_str (mp_title p))),
              (''description'', JStr (merge_scalar_str (mp_description p))),
              (''aliases'', JStr ''merge''), (''tags'', JStr ''merge''), (''authors'', JStr ''merge''),
              (''artists'', JStr ''merge''), (''publishers'', JStr ''merge''),
              (''release_year'', JStr (merge_scalar_str (mp_release_year p))),
              (''cover_url'', JStr (merge_scalar_str (mp_cover_url p))),
              (''providers'', JStr ''merge'')])]"

section \<open>Providers\<close>

definition api_getInfo :: request where
  "api_getInfo = req GET ''/info''"

definition api_getSources :: request where
  "api_getSources = req GET ''/providers''"

definition api_getExplore :: "string \<Rightarrow> string \<Rightarrow> rat option \<Rightarrow> request" where
  "api_getExplore providerId mode page =
     req GET (''/providers/'' @ providerId @ ''/manga?mode='' @ mode @ ''&page='' @ num_str (coalesce_or [page] 1))"

definition api_getCatalog :: "string \<Rightarrow> string \<Rightarrow> rat option \<Rightarrow> request" where
  "api_getCatalog providerId mode page =
     req GET (''/providers/'' @ providerId @ ''/manga?mode='' @ mode @ ''&page='' @ num_str (coalesce_or [page] 1))"

definition api_searchManga :: "string \<Rightarrow> string \<Rightarrow> rat option \<Rightarrow> request" where
  "api_searchManga providerId query page =
     req GET (''/providers/'' @ providerId @ ''/manga?q='' @ encodeURIComponent query @
       ''&page='' @ num_str (coalesce_or [page] 1))"

definition api_getProviderMangaDetails_req :: "string \<Rightarrow> string \<Rightarrow> request" where
  "api_getProviderMangaDetails_req providerId remoteId =
     req GET (''/providers/'' @ encodeURIComponent providerId @ ''/manga/'' @ encodeURIComponent remoteId)"

definition is_object :: "json \<Rightarrow> bool" where
  "is_object j = (case j of JNull \<Rightarrow> True | JArr _ \<Rightarrow> True | JObj _ \<Rightarrow> True | _ \<Rightarrow> False)"

text \<open>\<open>res.xs ?? (res.x ? [res.x] : [])\<close>.\<close>

definition list_or_single :: "json \<Rightarrow> json \<Rightarrow> json" where
  "list_or_single xs x = jcoalesce xs (if truthy x then JArr [x] else JArr [])"

definition provider_manga_metadata :: "json \<Rightarrow> json" where
  "provider_manga_metadata res =
     JObj
       [(''title'', jcoalesce (jget res ''title'') (JStr [])),
        (''aliases'', jcoalesce (jget res ''aliases'') (JArr [])),
        (''description'', jcoalesce (jget res ''description'') (JStr [])),
        (''authors'', list_or_single (jget res ''authors'') (jget res ''author'')),
        (''artists'', list_or_single (jget res ''artists'') (jget res ''artist'')),
        (''tags'', jcoalesce (jcoalesce (jget res ''tags'') (jget res ''genres'')) (JArr [])),
        (''collections'', jcoalesce (jget res ''collections'') (JArr [])),
        (''publishers'', list_or_single (jget res ''publishers'') (jget res ''publisher'')),
        (''release_year'', jget res ''release_year''), (''releaseYear'', jget res ''release_year''),
        (''start_date'', jget res ''start_date''), (''startDate'', jget res ''start_date''),
        (''end_date'', jget res ''end_date''), (''endDate'', jget res ''end_date''),
        (''country'', jget res ''country''),
        (''content_rating'', jget res ''content_rating''), (''contentRating'', jget res ''content_rating''),
        (''cover_url'', jget res ''cover''), (''coverUrl'', jget res ''cover''), (''cover'', jget res ''cover''),
        (''externalLinks'', jget res ''externalLinks'')]"

definition provider_manga_user_state :: "json \<Rightarrow> json" where
  "provider_manga_user_state res =
     JObj
       [(''status'', jcoalesce (jcoalesce (jget res ''user_status'') (jget res ''userStatus'')) (JStr [])),
        (''rating'', jcoalesce (jcoalesce (jget res ''user_rating'') (jget res ''userRating'')) (JNum 0)),
        (''favorite'', jcoalesce (jcoalesce (jget res ''user_favorite'') (jget res ''userFavorite'')) (JBool False)),
        (''notes'', jcoalesce (jcoalesce (jget res ''user_notes'') (jget res ''userNotes'')) (JStr [])),
        (''last_read_chapter_id'', jcoalesce (jget res ''last_read_chapter_id'') (jget res ''lastReadChapterId'')),
        (''lastReadChapterId'', jget res ''lastReadChapterId''),
        (''last_read_at'', jcoalesce (jget res ''last_read_at'') (jget res ''lastReadAt'')),
        (''lastReadAt'', jget res ''lastReadAt'')]"

definition provider_manga_bindings :: "string \<Rightarrow> string \<Rightarrow> json \<Rightarrow> json" where
  "provider_manga_bindings providerId remoteId res =
     JObj
       [(''providers'', JArr []),
        (''content'', JObj [(''provider_id'', JStr providerId), (''provider_manga_id'', JStr remoteId),
                          (''reading_mode'', jget res ''reading_mode'')])]"

text \<open>The fields copied under their own name, before the renamed ones.\<close>

definition copied_fields :: "string list" where
  "copied_fields =
     [''coverAssetUrl'', ''banner'', ''url'', ''description'', ''author'', ''authors'', ''artist'', ''artists'',
      ''tags'', ''genres'', ''aliases'', ''status'', ''userStatus'', ''user_status'', ''userRating'', ''user_rating'',
      ''userFavorite'', ''user_favorite'', ''userNotes'', ''user_notes'', ''lastReadChapterId'',
      ''last_read_chapter_id'', ''lastReadAt'', ''last_read_at'']"

definition getProviderMangaDetails :: "string \<Rightarrow> string \<Rightarrow> json \<Rightarrow> js_error + json" where
  "getProviderMangaDetails providerId remoteId res =
     (if truthy res \<and> truthy (jget res ''metadata'') \<and> is_object (jget res ''metadata'') then Inr res
      else if nullish res then Inl Type_Error
      else Inr (JObj (
        [(''id'', jcoalesce (jget res ''id'') (JStr remoteId)), (''title'', jget res ''title''),
         (''cover'', jget res ''cover''), (''coverUrl'', jget res ''cover'')] @
        map (\<lambda>k. (k, jget res k)) copied_fields @
        [(''readingMode'', jcoalesce (jget res ''reading_mode'') (jget res ''readingMode'')),
         (''reading_mode'', jget res ''reading_mode''),
         (''contentRating'', jcoalesce (jget res ''content_rating'') (jget res ''contentRating'')),
         (''content_rating'', jget res ''content_rating''),
         (''publisher'', jget res ''publisher''), (''publishers'', jget res ''publishers''),
         (''releaseYear'', jcoalesce (jget res ''release_year'') (jget res ''releaseYear'')),
         (''release_year'', jget res ''release_year''),
         (''startDate'', jcoalesce (jget res ''start_date'') (jget res ''startDate'')),
         (''start_date'', jget res ''start_date''),
         (''endDate'', jcoalesce (jget res ''end_date'') (jget res ''endDate'')),
         (''end_date'', jget res ''end_date''), (''country'', jget res ''country''),
         (''externalLinks'', jcoalesce (jget res ''externalLinks'') (jget res ''external_links'')),
         (''availability'', jget res ''availability''),
         (''sourceId'', JStr providerId), (''contentProviderId'', JStr providerId),
         (''contentRemoteId'', JStr remoteId),
         (''libraryMangaId'', jcoalesce (jget res ''libraryMangaId'') JNull),
         (''metadata'', provider_manga_metadata res),
         (''user_state'', provider_manga_user_state res),
         (''bindings'', provider_manga_bindings providerId remoteId res)])))"

definition api_getProviderMangaChapters :: "string \<Rightarrow> string \<Rightarrow> request" where
  "api_getProviderMangaChapters providerId remoteId =
     req GET (''/providers/'' @ providerId @ ''/manga/'' @ encodeURIComponent remoteId @ ''/chapters'')"

definition api_getProviderChapterPages :: "string \<Rightarrow> string \<Rightarrow> string \<Rightarrow> request" where
  "api_getProviderChapterPages providerId remoteId chapterId =
     req GET (''/providers/'' @ encodeURIComponent providerId @ ''/manga/'' @ encodeURIComponent remoteId @
       ''/chapters/'' @ encodeURIComponent chapterId @ ''/pages'')"

section \<open>The library\<close>

definition lib_manga :: "string \<Rightarrow> string" where
  "lib_manga mangaId = ''/library/manga/'' @ mangaId"

definition lib_manga_enc :: "string \<Rightarrow> string" where
  "lib_manga_enc mangaId = ''/library/manga/'' @ encodeURIComponent mangaId"

definition lib_chapter_enc :: "string \<Rightarrow> string \<Rightarrow> string" where
  "lib_chapter_enc mangaId chapterId = lib_manga_enc mangaId @ ''/chapters/'' @ encodeURIComponent chapterId"

definition api_getLibraryMangas_req :: request where
  "api_getLibraryMangas_req = req GET ''/library/manga''"

text \<open>\<open>Array.isArray(res) ? res : (res.data ?? [])\<close>.\<close>

definition getLibraryMangas :: "json \<Rightarrow> js_error + json" where
  "getLibraryMangas res =
     (case res of JArr _ \<Rightarrow> Inr res
      | _ \<Rightarrow> if nullish res then Inl Type_Error else Inr (jcoalesce (jget res ''data'') (JArr [])))"

definition api_getMangaDetails :: "string \<Rightarrow> request" where
  "api_getMangaDetails mangaId =
     req GET (lib_manga mangaId)"

definition api_getLibraryMetadata :: "string \<Rightarrow> request" where
  "api_getLibraryMetadata mangaId =
     req GET (lib_manga mangaId @ ''/metadata'')"

definition api_patchLibraryMangaMetadata :: "string \<Rightarrow> json \<Rightarrow> request" where
  "api_patchLibraryMangaMetadata mangaId partial =
     json_req PATCH (lib_manga mangaId @ ''/metadata'') partial"

definition api_getLibraryUserState :: "string \<Rightarrow> request" where
  "api_getLibraryUserState mangaId =
     req GET (lib_manga mangaId @ ''/user_state'')"

definition api_patchLibraryMangaUserState :: "string \<Rightarrow> json \<Rightarrow> request" where
  "api_patchLibraryMangaUserState mangaId partial =
     json_req PATCH (lib_manga mangaId @ ''/user_state'') partial"

definition api_getLibraryBindings :: "string \<Rightarrow> request" where
  "api_getLibraryBindings mangaId =
     req GET (lib_manga mangaId @ ''/bindings'')"

definition api_refreshMetadata :: "string \<Rightarrow> request" where
  "api_refreshMetadata mangaId =
     req POST (lib_manga mangaId @ ''/metadata/refresh'')"

definition api_addBinding :: "string \<Rightarrow> provider_ref \<Rightarrow> bool option \<Rightarrow> request" where
  "api_addBinding mangaId ref setAsContent =
     json_req POST (lib_manga mangaId @ ''/bindings'')
       (JObj (provider_ref_members ref @ [(''set_as_content'', json_of_opt JBool setAsContent)]))"

definition api_removeBinding :: "string \<Rightarrow> string \<Rightarrow> string \<Rightarrow> request" where
  "api_removeBinding mangaId providerId providerMangaId =
     req DELETE (lib_manga mangaId @ ''/bindings/'' @ providerId @ ''/'' @ encodeURIComponent providerMangaId)"

definition api_setActiveContentSource :: "string \<Rightarrow> string \<Rightarrow> string \<Rightarrow> string option \<Rightarrow> request" where
  "api_setActiveContentSource mangaId providerId providerMangaId readingMode =
     json_req PATCH (lib_manga mangaId @ ''/bindings/content'')
       (JObj [(''provider_id'', JStr providerId), (''provider_manga_id'', JStr providerMangaId),
              (''reading_mode'', json_of_opt JStr readingMode)])"

definition api_postLibraryManga :: "json \<Rightarrow> request" where
  "api_postLibraryManga m =
     json_req POST ''/library/manga'' m"

definition api_createLibraryManga :: "json \<Rightarrow> request" where
  "api_createLibraryManga m =
     json_req POST ''/library/manga'' m"

definition api_importProviderManga :: "string \<Rightarrow> string \<Rightarrow> string option \<Rightarrow> request" where
  "api_importProviderManga providerId remoteId userStatus =
     json_req POST ''/library/manga/import''
       (JObj [(''provider_id'', JStr providerId), (''remote_id'', JStr remoteId),
              (''user_status'', JStr (coalesce_or [userStatus] ''plan_to_read''))])"

definition api_mergeLibraryManga :: "merge_payload \<Rightarrow> request" where
  "api_mergeLibraryManga payload =
     json_req POST ''/library/manga/merge'' (merge_payload_json payload)"

definition api_updateLibraryManga :: "string \<Rightarrow> json \<Rightarrow> request" where
  "api_updateLibraryManga mangaId m =
     json_req PUT (lib_manga mangaId) m"

text \<open>The camel-case aliases of \<open>patchLibraryManga\<close>, each copied unless its target is there already.\<close>

definition alias_key :: "string \<Rightarrow> string \<Rightarrow> (string \<times> json) list \<Rightarrow> (string \<times> json) list" where
  "alias_key frm target payload =
     (if mhas payload frm \<and> mget payload target = JUndef then mset_key target (mget payload frm) payload
      else payload)"

definition patch_payload :: "(string \<times> json) list \<Rightarrow> (string \<times> json) list" where
  "patch_payload flds =
     alias_key ''userNotes'' ''user_notes''
       (alias_key ''userRating'' ''user_rating''
         (alias_key ''isFavorite'' ''user_favorite''
           (alias_key ''userFavorite'' ''user_favorite''
             (alias_key ''userStatus'' ''user_status'' flds))))"

definition api_patchLibraryManga :: "string \<Rightarrow> (string \<times> json) list \<Rightarrow> request" where
  "api_patchLibraryManga mangaId flds =
     json_req PATCH (lib_manga mangaId) (JObj (patch_payload flds))"

definition api_deleteLibraryManga :: "string \<Rightarrow> request" where
  "api_deleteLibraryManga mangaId =
     req DELETE (lib_manga mangaId)"

definition api_addProvider :: "string \<Rightarrow> provider_ref \<Rightarrow> bool option \<Rightarrow> request" where
  "api_addProvider mangaId ref setAsContent =
     json_req POST (lib_manga mangaId @ ''/bindings'')
       (JObj (provider_ref_members ref @ [(''set_as_content'', json_of_opt JBool setAsContent)]))"

definition api_removeProvider :: "string \<Rightarrow> string \<Rightarrow> string \<Rightarrow> request" where
  "api_removeProvider mangaId providerId providerMangaId =
     req DELETE (lib_manga mangaId @ ''/bindings/'' @ providerId @ ''/'' @ encodeURIComponent providerMangaId)"

definition api_switchContentProvider :: "string \<Rightarrow> string \<Rightarrow> string \<Rightarrow> request" where
  "api_switchContentProvider mangaId providerId providerMangaId =
     json_req PATCH (lib_manga mangaId @ ''/bindings/content'')
       (JObj [(''provider_id'', JStr providerId), (''provider_manga_id'', JStr providerMangaId)])"

definition api_listProviders_req :: "string \<Rightarrow> request" where
  "api_listProviders_req mangaId =
     req GET (lib_manga mangaId @ ''/bindings'')"

definition listProviders :: "json \<Rightarrow> json" where
  "listProviders res = jor (jget res ''providers'') (JArr [])"

section \<open>Chapters, pages and batches\<close>

definition api_listChapters :: "string \<Rightarrow> string option \<Rightarrow> request" where
  "api_listChapters mangaId providerId =
     (let path = lib_manga_enc mangaId @ ''/chapters''
      in req GET
           (if truthy_str providerId
            then path @ ''?'' @ params_toString (params_set ''provider_id'' (the providerId) []) else path))"

definition api_getMangaChapters :: "string \<Rightarrow> request" where
  "api_getMangaChapters mangaId =
     req GET (lib_manga_enc mangaId @ ''/chapters'')"

definition api_getChapter :: "string \<Rightarrow> string \<Rightarrow> request" where
  "api_getChapter mangaId chapterId =
     req GET (lib_chapter_enc mangaId chapterId)"

definition api_saveChapter :: "string \<Rightarrow> string \<Rightarrow> json \<Rightarrow> request" where
  "api_saveChapter mangaId chapterId meta =
     json_req POST (lib_manga_enc mangaId @ ''/chapters'')
       (JObj [(''id'', JStr chapterId), (''meta'', meta)])"

definition api_getChapterPages :: "string \<Rightarrow> string \<Rightarrow> request" where
  "api_getChapterPages mangaId chapterId =
     req GET (lib_chapter_enc mangaId chapterId @ ''/pages'')"

definition api_pullChapter :: "string \<Rightarrow> string \<Rightarrow> string option \<Rightarrow> request" where
  "api_pullChapter mangaId chapterIdOrProviderId maybeChapterId =
     req POST (lib_chapter_enc mangaId (str_or [maybeChapterId] chapterIdOrProviderId) @ ''/pull'')"

definition api_deleteChapterPagesCache :: "string \<Rightarrow> request" where
  "api_deleteChapterPagesCache chapterId =
     req DELETE (''/chapters/'' @ encodeURIComponent chapterId @ ''/pages'')"

definition api_refreshLibraryManga :: "string \<Rightarrow> request" where
  "api_refreshLibraryManga mangaId =
     req POST (lib_manga_enc mangaId @ ''/refresh'')"

definition api_pullManga :: "string \<Rightarrow> string option \<Rightarrow> string option \<Rightarrow> request" where
  "api_pullManga mangaId providerId providerMangaId =
     (let path = lib_manga_enc mangaId @ ''/pull'';
          q1 = (if truthy_str providerId then params_set ''provider_id'' (the providerId) [] else []);
          q2 = (if truthy_str providerMangaId
                then params_set ''provider_manga_id'' (the providerMangaId) q1 else q1);
          queryString = params_toString q2
      in req POST (if queryString \<noteq> [] then path @ ''?'' @ queryString else path))"

definition api_deleteChapter :: "string \<Rightarrow> string \<Rightarrow> request" where
  "api_deleteChapter mangaId chapterId =
     req DELETE (lib_chapter_enc mangaId chapterId)"

definition api_deleteChapterFiles :: "string \<Rightarrow> string \<Rightarrow> string option \<Rightarrow> request" where
  "api_deleteChapterFiles mangaId chapterIdOrProviderId maybeChapterId =
     req DELETE (lib_chapter_enc mangaId (str_or [maybeChapterId] chapterIdOrProviderId) @ ''/files'')"

definition api_updateChapterProgress :: "string \<Rightarrow> string \<Rightarrow> progress \<Rightarrow> request" where
  "api_updateChapterProgress mangaId chapterId prog =
     json_req PATCH (lib_chapter_enc mangaId chapterId @ ''/progress'') (progress_json prog)"

text \<open>
  The batch methods accept the chapter ids first, or a provider id first and the ids second
  (the legacy signature): \<open>Inl\<close> is the provider id, \<open>Inr\<close> the ids.
\<close>

definition batch_ids :: "string + string list \<Rightarrow> string list option \<Rightarrow> string list" where
  "batch_ids idsOrProvider maybeIds =
     (case idsOrProvider of Inr ids \<Rightarrow> ids | Inl _ \<Rightarrow> coalesce_or [maybeIds] [])"

definition batch_req :: "string \<Rightarrow> string \<Rightarrow> json \<Rightarrow> request" where
  "batch_req mangaId op body = json_req POST (lib_manga_enc mangaId @ ''/batch/'' @ op) body"

definition chapter_ids_json :: "string list \<Rightarrow> json" where
  "chapter_ids_json ids = JObj [(''chapter_ids'', strs_json ids)]"

text \<open>
  \<open>batchUpdateChapterProgress\<close>: the second argument is the progress after an array, the ids
  after a provider id. A value of the other type is used as it is, as the casts do.
\<close>

definition api_batchUpdateChapterProgress ::
    "string \<Rightarrow> string + string list \<Rightarrow> string list + progress \<Rightarrow> progress option \<Rightarrow> request" where
  "api_batchUpdateChapterProgress mangaId idsOrProvider idsOrProgress maybeProgress =
     (let none = \<lparr>pg_is_read = None, pg_last_read_page = None\<rparr>;
          ids = (case idsOrProvider of
                   Inr is \<Rightarrow> strs_json is
                 | Inl _ \<Rightarrow> (case idsOrProgress of Inl is \<Rightarrow> strs_json is | Inr p \<Rightarrow> progress_json p));
          prog = (case idsOrProvider of
                    Inr _ \<Rightarrow> (case idsOrProgress of Inr p \<Rightarrow> p | Inl _ \<Rightarrow> none)
                  | Inl _ \<Rightarrow> coalesce_or [maybeProgress] none)
      in batch_req mangaId ''chapters/progress''
           (JObj [(''chapter_ids'', ids), (''is_read'', json_of_opt JBool (pg_is_read prog)),
                  (''last_read_page'', json_of_opt JNum (pg_last_read_page prog))]))"

definition api_batchPullChapters :: "string \<Rightarrow> string + string list \<Rightarrow> string list option \<Rightarrow> request" where
  "api_batchPullChapters mangaId idsOrProvider maybeIds =
     batch_req mangaId ''chapters/pull'' (chapter_ids_json (batch_ids idsOrProvider maybeIds))"

definition api_refreshChaptersBatch :: "string \<Rightarrow> string + string list \<Rightarrow> string list option \<Rightarrow> request" where
  "api_refreshChaptersBatch mangaId idsOrProvider maybeIds =
     batch_req mangaId ''chapters/refresh'' (chapter_ids_json (batch_ids idsOrProvider maybeIds))"

definition api_batchRefreshChapters :: "string \<Rightarrow> string + string list \<Rightarrow> string list option \<Rightarrow> request" where
  "api_batchRefreshChapters mangaId idsOrProvider maybeIds =
     api_refreshChaptersBatch mangaId idsOrProvider maybeIds"

definition api_batchDeleteChapters :: "string \<Rightarrow> string + string list \<Rightarrow> string list option \<Rightarrow> request" where
  "api_batchDeleteChapters mangaId idsOrProvider maybeIds =
     batch_req mangaId ''chapters/delete'' (chapter_ids_json (batch_ids idsOrProvider maybeIds))"

definition api_deleteChapterFilesBatch :: "string \<Rightarrow> string + string list \<Rightarrow> string list option \<Rightarrow> request" where
  "api_deleteChapterFilesBatch mangaId idsOrProvider maybeIds =
     batch_req mangaId ''chapter-files/delete'' (chapter_ids_json (batch_ids idsOrProvider maybeIds))"

definition api_batchDeleteChapterFiles :: "string \<Rightarrow> string + string list \<Rightarrow> string list option \<Rightarrow> request" where
  "api_batchDeleteChapterFiles mangaId idsOrProvider maybeIds =
     api_deleteChapterFilesBatch mangaId idsOrProvider maybeIds"

section \<open>Plugins, cache and jobs\<close>

definition api_getPlugins :: "request" where
  "api_getPlugins =
     req GET ''/plugins''"

definition api_reloadPlugins :: "request" where
  "api_reloadPlugins =
     req POST ''/plugins/reload''"

definition api_getPluginLogs :: "string \<Rightarrow> request" where
  "api_getPluginLogs pluginId =
     req GET (''/plugins/'' @ encodeURIComponent pluginId @ ''/logs'')"

definition api_updatePluginConfig :: "string \<Rightarrow> json \<Rightarrow> request" where
  "api_updatePluginConfig pluginId config =
     json_req POST (''/plugins/'' @ encodeURIComponent pluginId @ ''/config'') config"

definition api_getCollisions :: "request" where
  "api_getCollisions =
     req GET ''/plugins/collisions''"

definition api_setPluginPreference :: "string \<Rightarrow> string \<Rightarrow> request" where
  "api_setPluginPreference providerId preference =
     json_req POST ''/plugins/preference''
       (JObj [(''providerId'', JStr providerId), (''preference'', JStr preference)])"

definition api_getCacheStats :: "request" where
  "api_getCacheStats =
     req GET ''/system/cache''"

definition api_clearCache :: "request" where
  "api_clearCache =
     req POST ''/system/cache/clear''"

definition job_params :: "(string \<times> json) list \<Rightarrow> search_params" where
  "job_params filt =
     foldl (\<lambda>ps (k, v). if \<not> nullish v \<and> v \<noteq> JStr [] then params_append k (js_string v) ps else ps) [] filt"

definition api_getJobs :: "((string \<times> json) list) option \<Rightarrow> request" where
  "api_getJobs filt =
     (case filt of
        Some kvs \<Rightarrow>
          if kvs \<noteq> [] then
            let qs = params_toString (job_params kvs)
            in req GET (if qs \<noteq> [] then ''/jobs'' @ ''?'' @ qs else ''/jobs'')
          else req GET ''/jobs''
      | None \<Rightarrow> req GET ''/jobs'')"

definition api_cancelJob :: "string \<Rightarrow> request" where
  "api_cancelJob jobId =
     req POST (''/jobs/'' @ encodeURIComponent jobId @ ''/cancel'')"

definition api_deleteJob :: "string \<Rightarrow> request" where
  "api_deleteJob jobId =
     req DELETE (''/jobs/'' @ encodeURIComponent jobId)"

definition api_cleanupJobs :: "string option \<Rightarrow> request" where
  "api_cleanupJobs status =
     req DELETE
       (if truthy_str status then ''/jobs'' @ ''?status='' @ encodeURIComponent (the status) else ''/jobs'')"

section \<open>Answers and errors\<close>

lemma jor_truthy: "truthy a \<Longrightarrow> jor a b = a"
  by (simp add: jor_def)

lemma jor_falsy: "\<not> truthy a \<Longrightarrow> jor a b = b"
  by (simp add: jor_def)

lemma nat_str_HTTP: "truthy (JStr (''HTTP '' @ nat_str n))"
  by (simp add: truthy_def)

lemma fetchAPI_Inr_iff:
  "fetchAPI fetch r = Inr j \<longleftrightarrow>
    (\<exists>res. fetch r = Inr res \<and> rs_ok res \<and>
      (if rs_status res = 204 then j = JObj [] else rs_json res = Some j))"
  by (cases "fetch r") (auto simp: fetchAPI_def Let_def split: option.splits if_splits)

lemma fetchAPI_http_error:
  assumes "fetch r = Inr res" "\<not> rs_ok res" "rs_json res = Some j" "\<not> nullish j"
  shows "fetchAPI fetch r =
    Inl (Api_Error (js_string (jor (jor (jget j ''message'') (jget j ''error'')) (JStr (''HTTP '' @ nat_str (rs_status res)))))
      (jget j ''code'') (jget j ''details'') (jget j ''request_id''))"
  using assms by (simp add: fetchAPI_def Let_def)

lemma fetchAPI_no_json:
  assumes "fetch r = Inr res" "\<not> rs_ok res" "rs_json res = None"
  shows "fetchAPI fetch r =
    Inl (Api_Error (if rs_statusText res \<noteq> [] then rs_statusText res else ''HTTP '' @ nat_str (rs_status res))
      (JStr ''UNKNOWN_ERROR'') JUndef JUndef)"
  using assms by (simp add: fetchAPI_def Let_def nullish_def jget_def mget_Cons jor_def truthy_def)


definition not_found_response :: response where
  "not_found_response =
     \<lparr>rs_status = 404, rs_statusText = ''Not Found'',
      rs_json = Some (JObj [(''message'', JStr ''manga not found''), (''code'', JStr ''NOT_FOUND'')])\<rparr>"


section \<open>Paths\<close>

text \<open>The identifiers a server reads off a path: its segments, percent-decoded.\<close>

definition path_segments :: "string \<Rightarrow> string option list" where
  "path_segments p = map (uri_decode False) (js_split (CHR ''/'') p)"

lemma decode_enc [simp]: "uri_decode False (encodeURIComponent s) = Some s"
  unfolding encodeURIComponent_def by (rule uri.dec_enc)

lemma slash_not_in_enc [simp]: "CHR ''/'' \<notin> set (encodeURIComponent s)"
  by (rule encodeURIComponent_no_delim) simp

lemma split_enc [simp]: "js_split (CHR ''/'') (encodeURIComponent s) = [encodeURIComponent s]"
  by (rule js_split_no_delim) simp

lemma split_enc_append [simp]:
  "js_split (CHR ''/'') (encodeURIComponent s @ CHR ''/'' # t) = encodeURIComponent s # js_split (CHR ''/'') t"
  by (rule js_split_append) simp

lemma enc_lit: "list_all uri_unreserved s \<Longrightarrow> encodeURIComponent s = s"
  unfolding encodeURIComponent_def by (induction s) (auto simp: uri_unit_def)

lemma decode_lit: "list_all uri_unreserved s \<Longrightarrow> uri_decode False s = Some s"
  using decode_enc [of s] by (simp add: enc_lit)

lemma decode_words [simp]:
  "uri_decode False [] = Some []"
  "uri_decode False ''api'' = Some ''api''" "uri_decode False ''v1'' = Some ''v1''"
  "uri_decode False ''library'' = Some ''library''" "uri_decode False ''manga'' = Some ''manga''"
  "uri_decode False ''chapters'' = Some ''chapters''" "uri_decode False ''pages'' = Some ''pages''"
  "uri_decode False ''pull'' = Some ''pull''" "uri_decode False ''files'' = Some ''files''"
  "uri_decode False ''progress'' = Some ''progress''" "uri_decode False ''providers'' = Some ''providers''"
  by (simp_all add: decode_lit uri_unreserved_def is_alnum_def)

lemma split_prefix [simp]:
  "js_split (CHR ''/'') (CHR ''/'' # ''api/v1/library/manga/'' @ x) =
    [] # ''api'' # ''v1'' # ''library'' # ''manga'' # js_split (CHR ''/'') x"
  "js_split (CHR ''/'') (CHR ''/'' # ''api/v1/providers/'' @ x) =
    [] # ''api'' # ''v1'' # ''providers'' # js_split (CHR ''/'') x"
  by simp_all

lemma split_chapter_path:
  "js_split (CHR ''/'') (API_BASE @ lib_chapter_enc m c) =
    [[], ''api'', ''v1'', ''library'', ''manga'', encodeURIComponent m, ''chapters'', encodeURIComponent c]"
  "js_split (CHR ''/'') (API_BASE @ lib_chapter_enc m c @ CHR ''/'' # t) =
    [[], ''api'', ''v1'', ''library'', ''manga'', encodeURIComponent m, ''chapters'', encodeURIComponent c] @
    js_split (CHR ''/'') t"
  by (simp_all add: API_BASE_def lib_chapter_enc_def lib_manga_enc_def)

lemma segments_chapter_path:
  "path_segments (API_BASE @ lib_chapter_enc m c) =
    map Some [[], ''api'', ''v1'', ''library'', ''manga'', m, ''chapters'', c]"
  "path_segments (API_BASE @ lib_chapter_enc m c @ CHR ''/'' # t) =
    map Some [[], ''api'', ''v1'', ''library'', ''manga'', m, ''chapters'', c] @ path_segments t"
  by (simp_all only: path_segments_def split_chapter_path) simp_all

lemma path_segments_words:
  "path_segments ''pages'' = [Some ''pages'']" "path_segments ''progress'' = [Some ''progress'']"
  "path_segments ''pull'' = [Some ''pull'']" "path_segments ''files'' = [Some ''files'']"
  by (simp_all add: path_segments_def)

lemma chapter_paths:
  "rq_path (api_getChapter m c) = API_BASE @ lib_chapter_enc m c"
  "rq_path (api_getChapterPages m c) = API_BASE @ lib_chapter_enc m c @ CHR ''/'' # ''pages''"
  "rq_path (api_updateChapterProgress m c p) = API_BASE @ lib_chapter_enc m c @ CHR ''/'' # ''progress''"
  "rq_path (api_pullChapter m c None) = API_BASE @ lib_chapter_enc m c @ CHR ''/'' # ''pull''"
  "rq_path (api_deleteChapterFiles m c None) = API_BASE @ lib_chapter_enc m c @ CHR ''/'' # ''files''"
  by (simp_all add: api_getChapter_def api_getChapterPages_def api_updateChapterProgress_def
      api_pullChapter_def api_deleteChapterFiles_def req_def json_req_def)

lemma segments_get: "path_segments (rq_path (api_getChapter m c)) =
    map Some [[], ''api'', ''v1'', ''library'', ''manga'', m, ''chapters'', c]"
  unfolding chapter_paths segments_chapter_path path_segments_words by (simp only: list.map append.simps)

lemma segments_pages: "path_segments (rq_path (api_getChapterPages m c)) =
    map Some [[], ''api'', ''v1'', ''library'', ''manga'', m, ''chapters'', c, ''pages'']"
  unfolding chapter_paths segments_chapter_path path_segments_words by (simp only: list.map append.simps)

lemma segments_progress: "path_segments (rq_path (api_updateChapterProgress m c p)) =
    map Some [[], ''api'', ''v1'', ''library'', ''manga'', m, ''chapters'', c, ''progress'']"
  unfolding chapter_paths segments_chapter_path path_segments_words by (simp only: list.map append.simps)

lemma segments_pull: "path_segments (rq_path (api_pullChapter m c None)) =
    map Some [[], ''api'', ''v1'', ''library'', ''manga'', m, ''chapters'', c, ''pull'']"
  unfolding chapter_paths segments_chapter_path path_segments_words by (simp only: list.map append.simps)

lemma segments_files: "path_segments (rq_path (api_deleteChapterFiles m c None)) =
    map Some [[], ''api'', ''v1'', ''library'', ''manga'', m, ''chapters'', c, ''files'']"
  unfolding chapter_paths segments_chapter_path path_segments_words by (simp only: list.map append.simps)

lemma provider_path_segments:
  "path_segments (rq_path (api_getProviderChapterPages p m c)) =
    map Some [[], ''api'', ''v1'', ''providers'', p, ''manga'', m, ''chapters'', c, ''pages'']"
  by (simp add: path_segments_def api_getProviderChapterPages_def req_def API_BASE_def)

text \<open>
  Whatever characters the ids of a manga and a chapter hold (slashes, question marks,
  percent signs), the chapter requests keep them apart: the path has one segment per id, a
  server that splits and percent-decodes it reads back exactly the two ids, and no two
  different chapter operations share a path. The library requests that paste the manga id
  unencoded do not have this property: the details of the manga \<open>x/metadata\<close> and the
  metadata of the manga \<open>x\<close> are the same request.
\<close>

theorem chapter_paths_decode:
  shows "(path_segments (rq_path (api_getChapter m c)) =
      map Some [[], ''api'', ''v1'', ''library'', ''manga'', m, ''chapters'', c]) \<and>
    (path_segments (rq_path (api_updateChapterProgress m c p)) =
      map Some [[], ''api'', ''v1'', ''library'', ''manga'', m, ''chapters'', c, ''progress'']) \<and>
    (path_segments (rq_path (api_getProviderChapterPages pid m c)) =
      map Some [[], ''api'', ''v1'', ''providers'', pid, ''manga'', m, ''chapters'', c, ''pages'']) \<and>
    (rq_path (api_pullChapter m c None) = rq_path (api_pullChapter m' c' None) \<longleftrightarrow> m = m' \<and> c = c') \<and>
    (rq_path (api_pullChapter m c None) \<noteq> rq_path (api_deleteChapterFiles m' c' None)) \<and>
    (rq_path (api_getChapterPages m c) \<noteq> rq_path (api_getChapter m' c')) \<and>
    (api_getMangaDetails (x @ ''/metadata'') = api_getLibraryMetadata x)"
proof (rule conjI7; (intro impI)?)
  show "rq_path (api_pullChapter m c None) = rq_path (api_pullChapter m' c' None) \<longleftrightarrow> m = m' \<and> c = c'"
    by (rule iffI, drule arg_cong [where f = path_segments], unfold segments_pull) simp_all
  show "rq_path (api_pullChapter m c None) \<noteq> rq_path (api_deleteChapterFiles m' c' None)"
    by (rule notI, drule arg_cong [where f = path_segments], unfold segments_pull segments_files) simp
  show "rq_path (api_getChapterPages m c) \<noteq> rq_path (api_getChapter m' c')"
    by (rule notI, drule arg_cong [where f = path_segments], unfold segments_pages segments_get) simp
qed (rule segments_get, rule segments_progress, rule provider_path_segments,
     simp add: api_getMangaDetails_def api_getLibraryMetadata_def lib_manga_def)

section \<open>Bodies\<close>

lemma mget_alias_key:
  "mget (alias_key frm target p) k =
    (if k = target \<and> mhas p frm \<and> mget p target = JUndef then mget p frm else mget p k)"
  by (simp add: alias_key_def mget_mset_key)

lemma distinct_alias_key: "distinct (map fst p) \<Longrightarrow> distinct (map fst (alias_key frm target p))"
  by (simp add: alias_key_def distinct_mset_key)

lemma mget_alias_target:
  "mget (alias_key frm target p) target = (if mget p target = JUndef then mget p frm else mget p target)"
  by (auto simp: mget_alias_key mget_not_mhas)

lemma mget_alias_other: "k \<noteq> target \<Longrightarrow> mget (alias_key frm target p) k = mget p k"
  by (simp add: mget_alias_key)

lemma distinct_patch_payload: "distinct (map fst flds) \<Longrightarrow> distinct (map fst (patch_payload flds))"
  by (simp add: patch_payload_def distinct_alias_key)

text \<open>
  The body of \<open>patchLibraryManga\<close> holds, per snake-case key, the value the caller gave
  under that key, or else the one given under its camel-case alias (\<open>userFavorite\<close> before
  \<open>isFavorite\<close>); all other members are sent as they are, and a member without a value is
  not sent at all.
\<close>

theorem patchLibraryManga_body:
  assumes "distinct (map fst flds)"
  shows "\<exists>b. rq_body (api_patchLibraryManga mangaId flds) = Some b \<and>
    jget b ''user_status'' = wire (if mget flds ''user_status'' = JUndef then mget flds ''userStatus'' else mget flds ''user_status'') \<and>
    jget b ''user_favorite'' =
      wire (if mget flds ''user_favorite'' \<noteq> JUndef then mget flds ''user_favorite''
            else if mget flds ''userFavorite'' \<noteq> JUndef then mget flds ''userFavorite'' else mget flds ''isFavorite'') \<and>
    jget b ''user_rating'' = wire (if mget flds ''user_rating'' = JUndef then mget flds ''userRating'' else mget flds ''user_rating'') \<and>
    jget b ''user_notes'' = wire (if mget flds ''user_notes'' = JUndef then mget flds ''userNotes'' else mget flds ''user_notes'') \<and>
    (\<forall>k. k \<notin> {''user_status'', ''user_favorite'', ''user_rating'', ''user_notes''} \<longrightarrow> jget b k = wire (mget flds k))"
proof -
  let ?p = "patch_payload flds"
  have b: "rq_body (api_patchLibraryManga mangaId flds) = Some (wire (JObj ?p))"
    by (simp add: api_patchLibraryManga_def json_req_def)
  have w: "jget (wire (JObj ?p)) k = wire (mget ?p k)" for k
    using mget_wire [OF distinct_patch_payload [OF assms]] by (simp add: jget_def)
  have k: "mget ?p k = mget flds k" if "k \<notin> {''user_status'', ''user_favorite'', ''user_rating'', ''user_notes''}" for k
    using that by (simp add: patch_payload_def mget_alias_other)
  show ?thesis
    by (rule exI, intro conjI, rule b, unfold w)
       (simp_all add: k patch_payload_def mget_alias_target mget_alias_other)
qed

theorem patchLibraryManga_body_witness:
  "\<exists>b. rq_body (api_patchLibraryManga ''m1'' [(''userFavorite'', JBool True), (''isFavorite'', JBool False)]) = Some b \<and>
    jget b ''user_favorite'' = JBool True"
  using patchLibraryManga_body [of "[(''userFavorite'', JBool True), (''isFavorite'', JBool False)]" "''m1''"]
  by (force simp: mget_Cons)

lemma wire_strs [simp]: "wire (strs_json ss) = strs_json ss"
  by (simp add: strs_json_def map_map comp_def)

lemma strs_json_defined [simp]: "strs_json ss \<noteq> JUndef"
  by (simp add: strs_json_def)

text \<open>
  Both signatures of the batch methods send the same request: the chapter ids in order,
  duplicates included, to the manga's batch endpoint. The provider id of the legacy
  signature is ignored. A progress update names exactly the fields the caller set, and a
  legacy call without ids sends an empty list.
\<close>

theorem batch_signatures_agree:
  shows "(api_batchUpdateChapterProgress m (Inl prov) (Inl ids) (Some p) = api_batchUpdateChapterProgress m (Inr ids) (Inr p) q) \<and>
    (api_batchPullChapters m (Inl prov) (Some ids) = api_batchPullChapters m (Inr ids) x) \<and>
    (api_batchRefreshChapters m (Inl prov) (Some ids) = api_batchRefreshChapters m (Inr ids) x) \<and>
    (api_batchDeleteChapters m (Inl prov) (Some ids) = api_batchDeleteChapters m (Inr ids) x) \<and>
    (api_batchDeleteChapterFiles m (Inl prov) (Some ids) = api_batchDeleteChapterFiles m (Inr ids) x) \<and>
    (rq_body (api_batchUpdateChapterProgress m (Inr ids) (Inr p) q) =
      Some (JObj ((''chapter_ids'', strs_json ids) #
        (case pg_is_read p of None \<Rightarrow> [] | Some b \<Rightarrow> [(''is_read'', JBool b)]) @
        (case pg_last_read_page p of None \<Rightarrow> [] | Some n \<Rightarrow> [(''last_read_page'', JNum n)])))) \<and>
    (rq_body (api_batchDeleteChapterFiles m (Inl prov) None) = Some (JObj [(''chapter_ids'', JArr [])]))"
  by (simp_all add: api_batchUpdateChapterProgress_def api_batchPullChapters_def api_batchRefreshChapters_def
      api_refreshChaptersBatch_def api_batchDeleteChapters_def api_batchDeleteChapterFiles_def
      api_deleteChapterFilesBatch_def batch_ids_def batch_req_def json_req_def chapter_ids_json_def Let_def
      json_of_opt_def split: option.splits)
     (simp add: strs_json_def)

section \<open>The envelope of a provider's manga\<close>

lemma nullish_jcoalesce [simp]: "nullish (jcoalesce a b) \<longleftrightarrow> nullish a \<and> nullish b"
  by (simp add: jcoalesce_def)

lemma nullish_consts [simp]:
  "nullish JUndef" "nullish JNull" "\<not> nullish (JStr s)" "\<not> nullish (JArr js)" "\<not> nullish (JObj ms)"
  "\<not> nullish (JNum q)" "\<not> nullish (JBool b)"
  by (simp_all add: nullish_def)

lemma nullish_list_or_single [simp]: "\<not> nullish (list_or_single xs x)"
  by (simp add: list_or_single_def)

lemma jget_JObj_Cons: "jget (JObj ((k, v) # ms)) k' = (if k' = k then v else jget (JObj ms) k')"
  by (simp add: jget_def mget_Cons)

lemma jget_JObj_append: "jget (JObj (xs @ ys)) k = (if mhas xs k then jget (JObj xs) k else jget (JObj ys) k)"
  by (simp add: jget_def mget_append)

lemma mhas_copied: "mhas (map (\<lambda>k. (k, f k)) ks) k \<longleftrightarrow> k \<in> set ks"
  by (simp add: mhas_def image_image)

lemmas envelope_simps = jget_JObj_Cons jget_JObj_append mhas_Cons mhas_copied copied_fields_def

text \<open>
  C38: An answer of a provider without a \<open>metadata\<close> object is wrapped into the shape that
  the interface \<open>Manga\<close> declares: every required field of the metadata, the user state and
  the bindings is there and not null, the binding names the provider and the remote id that
  were asked for, \<open>libraryMangaId\<close> is never \<open>undefined\<close>, and wrapping the result again
  leaves it as it is. An answer that has the shape already is passed through.
\<close>

theorem getProviderMangaDetails_envelope:
  assumes "\<not> nullish res"
  shows "\<exists>j. getProviderMangaDetails p r res = Inr j \<and> getProviderMangaDetails p r j = Inr j \<and>
    (if truthy (jget res ''metadata'') \<and> is_object (jget res ''metadata'') then j = res
     else \<not> nullish (jget j ''id'') \<and> jget j ''libraryMangaId'' \<noteq> JUndef \<and>
       jget j ''title'' = jget res ''title'' \<and> jget j ''coverUrl'' = jget res ''cover'' \<and>
       list_all (\<lambda>k. \<not> nullish (jget (jget j ''metadata'') k))
         [''title'', ''aliases'', ''description'', ''authors'', ''artists'', ''tags'', ''collections'', ''publishers''] \<and>
       list_all (\<lambda>k. \<not> nullish (jget (jget j ''user_state'') k)) [''status'', ''rating'', ''favorite'', ''notes''] \<and>
       jget (jget j ''bindings'') ''providers'' = JArr [] \<and>
       jget (jget (jget j ''bindings'') ''content'') ''provider_id'' = JStr p \<and>
       jget (jget (jget j ''bindings'') ''content'') ''provider_manga_id'' = JStr r)"
proof (cases "truthy (jget res ''metadata'') \<and> is_object (jget res ''metadata'')")
  case True
  have "truthy res" using True by (auto simp: jget_def members_def truthy_def split: json.splits)
  then show ?thesis using True by (simp add: getProviderMangaDetails_def)
next
  case False
  then obtain ms where g: "getProviderMangaDetails p r res = Inr (JObj ms)"
    and m: "jget (JObj ms) ''metadata'' = provider_manga_metadata res"
      "jget (JObj ms) ''user_state'' = provider_manga_user_state res"
      "jget (JObj ms) ''bindings'' = provider_manga_bindings p r res"
      "jget (JObj ms) ''id'' = jcoalesce (jget res ''id'') (JStr r)"
      "jget (JObj ms) ''title'' = jget res ''title''"
      "jget (JObj ms) ''coverUrl'' = jget res ''cover''"
      "jget (JObj ms) ''libraryMangaId'' = jcoalesce (jget res ''libraryMangaId'') JNull"
    using assms unfolding getProviderMangaDetails_def by (auto simp: envelope_simps)
  have i: "getProviderMangaDetails p r (JObj ms) = Inr (JObj ms)"
    unfolding getProviderMangaDetails_def m by (simp add: truthy_def is_object_def provider_manga_metadata_def)
  have lm: "jcoalesce a JNull \<noteq> JUndef" for a by (simp add: jcoalesce_def nullish_def)
  show ?thesis unfolding if_not_P [OF False]
    by (rule exI [of _ "JObj ms"], unfold m, intro conjI g i lm refl)
       (simp_all add: provider_manga_metadata_def provider_manga_user_state_def provider_manga_bindings_def envelope_simps)
qed

theorem getProviderMangaDetails_envelope_witness:
  "\<exists>j. getProviderMangaDetails ''mangadex'' ''r1'' (JObj [(''title'', JStr ''Berserk''), (''author'', JStr ''Miura'')]) = Inr j \<and>
    jget (jget (jget j ''bindings'') ''content'') ''provider_id'' = JStr ''mangadex''"
proof -
  let ?res = "JObj [(''title'', JStr ''Berserk''), (''author'', JStr ''Miura'')]"
  have "\<not> nullish ?res" by simp
  moreover have "jget ?res ''metadata'' = JUndef" by (simp add: jget_def mget_def)
  then have "\<not> (truthy (jget ?res ''metadata'') \<and> is_object (jget ?res ''metadata''))" by (simp add: truthy_def)
  ultimately show ?thesis using getProviderMangaDetails_envelope [of ?res "''mangadex''" "''r1''"] by auto
qed

end
