(* ===== verification/Query_Keys.thy ===== *)
theory Query_Keys
  imports Api_Client "HOL-Library.Sublist"
begin

text \<open>
  The cache of server data: \<open>lib/queryKeys.ts\<close> (the keys), \<open>lib/queryOptions.ts\<close> and the query
  hooks of \<open>api/hooks.ts\<close> (which request fills which key, and when it may run), and
  \<open>shouldDehydrateQuery\<close> of \<open>lib/persister.ts\<close> (which entries survive a reload). React Query
  itself is outside the model: what matters here is that an entry is found by its key and
  that \<open>invalidateQueries\<close> with a key reaches the entries that the key is a \<open>prefix\<close> of.
\<close>

section \<open>Keys\<close>

datatype key_elem = KStr string | KNum rat | KObj "(string \<times> json) list"

type_synonym query_key = "key_elem list"

text \<open>\<open>...(x ? [x] : [])\<close>.\<close>

definition opt_key :: "string option \<Rightarrow> query_key" where
  "opt_key x = (if truthy_str x then [KStr (the x)] else [])"

definition sources_all :: query_key where
  "sources_all = [KStr ''sources'']"

definition library_all :: query_key where
  "library_all = [KStr ''library'']"

definition library_mangas :: query_key where
  "library_mangas = library_all @ [KStr ''manga'']"

definition library_providers :: "string \<Rightarrow> query_key" where
  "library_providers mangaId = library_all @ [KStr ''providers'', KStr mangaId]"

definition library_pull :: "string \<Rightarrow> string option \<Rightarrow> query_key" where
  "library_pull mangaId providerId = library_all @ [KStr ''pull'', KStr mangaId] @ opt_key providerId"

definition library_refresh :: "string \<Rightarrow> query_key" where
  "library_refresh mangaId = library_all @ [KStr ''refresh'', KStr mangaId]"

definition manga_all :: query_key where
  "manga_all = [KStr ''manga'']"

definition manga_details :: "string \<Rightarrow> query_key" where
  "manga_details i = manga_all @ [KStr ''detail'', KStr i]"

definition manga_providerDetails :: "string \<Rightarrow> string \<Rightarrow> query_key" where
  "manga_providerDetails providerId remoteId = manga_all @ [KStr ''provider'', KStr providerId, KStr remoteId]"

definition manga_detail :: "string \<Rightarrow> query_key" where
  "manga_detail i = manga_all @ [KStr i]"

definition manga_metadata_key :: "string \<Rightarrow> query_key" where
  "manga_metadata_key i = manga_all @ [KStr i, KStr ''metadata'']"

definition manga_userState :: "string \<Rightarrow> query_key" where
  "manga_userState i = manga_all @ [KStr i, KStr ''user_state'']"

definition manga_bindings_key :: "string \<Rightarrow> query_key" where
  "manga_bindings_key i = manga_all @ [KStr i, KStr ''bindings'']"

definition explore_all :: query_key where
  "explore_all = [KStr ''explore'']"

definition explore_catalog :: "string \<Rightarrow> string \<Rightarrow> string \<Rightarrow> rat \<Rightarrow> query_key" where
  "explore_catalog providerId mode query page =
     explore_all @ [KStr providerId, KStr mode, KStr query, KNum page]"

definition chapters_all :: query_key where
  "chapters_all = [KStr ''chapters'']"

definition chapters_list :: "string \<Rightarrow> query_key" where
  "chapters_list mangaId = chapters_all @ [KStr mangaId]"

definition chapters_providerList :: "string \<Rightarrow> string \<Rightarrow> query_key" where
  "chapters_providerList mangaId providerId =
     chapters_all @ [KStr mangaId, KStr ''provider'', KStr providerId]"

definition chapters_remoteList :: "string \<Rightarrow> string \<Rightarrow> query_key" where
  "chapters_remoteList providerId remoteId =
     chapters_all @ [KStr ''remote'', KStr providerId, KStr remoteId]"

definition chapters_remotePages :: "string \<Rightarrow> string \<Rightarrow> string \<Rightarrow> query_key" where
  "chapters_remotePages providerId remoteId chapterId =
     chapters_all @ [KStr ''remote'', KStr providerId, KStr remoteId, KStr ''chapter'', KStr chapterId, KStr ''pages'']"

definition chapters_pages :: "string \<Rightarrow> string option \<Rightarrow> string option \<Rightarrow> query_key" where
  "chapters_pages chapterId mangaId providerId =
     chapters_all @ [KStr ''pages'', KStr chapterId] @ opt_key mangaId @ opt_key providerId"

definition plugins_all :: query_key where
  "plugins_all = [KStr ''plugins'']"

definition plugins_logs :: "string \<Rightarrow> query_key" where
  "plugins_logs i = plugins_all @ [KStr ''logs'', KStr i]"

definition collisions_all :: query_key where
  "collisions_all = [KStr ''collisions'']"

definition system_all :: query_key where
  "system_all = [KStr ''system'']"

definition system_cache :: query_key where
  "system_cache = [KStr ''system'', KStr ''cache'']"

definition jobs_all :: query_key where
  "jobs_all = [KStr ''jobs'']"

definition jobs_list :: "((string \<times> json) list) option \<Rightarrow> query_key" where
  "jobs_list filt =
     (case filt of
        Some kvs \<Rightarrow> if kvs \<noteq> [] then jobs_all @ [KStr ''list'', KObj kvs] else jobs_all @ [KStr ''list'']
      | None \<Rightarrow> jobs_all @ [KStr ''list''])"

definition jobs_children :: "string \<Rightarrow> query_key" where
  "jobs_children parentId = jobs_all @ [KStr ''children'', KStr parentId]"

definition info_all :: query_key where
  "info_all = [KStr ''info'']"

lemmas key_defs = sources_all_def library_all_def library_mangas_def library_providers_def
  library_pull_def library_refresh_def manga_all_def manga_details_def manga_providerDetails_def
  manga_detail_def manga_metadata_key_def manga_userState_def manga_bindings_key_def explore_all_def
  explore_catalog_def chapters_all_def chapters_list_def chapters_providerList_def
  chapters_remoteList_def chapters_remotePages_def chapters_pages_def plugins_all_def plugins_logs_def
  collisions_all_def system_all_def system_cache_def jobs_all_def jobs_list_def jobs_children_def
  info_all_def

section \<open>Queries\<close>

record query_opts =
  qo_key :: query_key
  qo_request :: request
  qo_enabled :: bool

definition sourcesQueryOptions :: query_opts where
  "sourcesQueryOptions = \<lparr>qo_key = sources_all, qo_request = api_getSources, qo_enabled = True\<rparr>"

definition libraryMangasQueryOptions :: query_opts where
  "libraryMangasQueryOptions =
     \<lparr>qo_key = library_mangas, qo_request = api_getLibraryMangas_req, qo_enabled = True\<rparr>"

definition mangaDetailsQueryOptions :: "string \<Rightarrow> query_opts" where
  "mangaDetailsQueryOptions mangaId =
     \<lparr>qo_key = manga_details mangaId, qo_request = api_getMangaDetails mangaId, qo_enabled = (mangaId \<noteq> [])\<rparr>"

definition providerMangaDetailsQueryOptions :: "string \<Rightarrow> string \<Rightarrow> query_opts" where
  "providerMangaDetailsQueryOptions providerId remoteId =
     \<lparr>qo_key = manga_providerDetails providerId remoteId,
      qo_request = api_getProviderMangaDetails_req providerId remoteId,
      qo_enabled = (providerId \<noteq> [] \<and> remoteId \<noteq> [])\<rparr>"

definition exploreCatalogQueryOptions :: "string \<Rightarrow> string \<Rightarrow> string option \<Rightarrow> rat option \<Rightarrow> query_opts" where
  "exploreCatalogQueryOptions providerId mode query page =
     (let activeQuery = js_trim (str_or [query] []); pg = coalesce_or [page] 1
      in \<lparr>qo_key = explore_catalog providerId mode activeQuery pg,
          qo_request =
            (if activeQuery \<noteq> [] then api_searchManga providerId activeQuery (Some pg)
             else api_getExplore providerId mode (Some pg)),
          qo_enabled = (providerId \<noteq> [])\<rparr>)"

definition pluginsQueryOptions :: query_opts where
  "pluginsQueryOptions = \<lparr>qo_key = plugins_all, qo_request = api_getPlugins, qo_enabled = True\<rparr>"

definition pluginLogsQueryOptions :: "string \<Rightarrow> query_opts" where
  "pluginLogsQueryOptions pluginId =
     \<lparr>qo_key = plugins_logs pluginId, qo_request = api_getPluginLogs pluginId, qo_enabled = (pluginId \<noteq> [])\<rparr>"

definition collisionsQueryOptions :: query_opts where
  "collisionsQueryOptions = \<lparr>qo_key = collisions_all, qo_request = api_getCollisions, qo_enabled = True\<rparr>"

definition infoQueryOptions :: query_opts where
  "infoQueryOptions = \<lparr>qo_key = info_all, qo_request = api_getInfo, qo_enabled = True\<rparr>"

definition cacheStatsQueryOptions :: query_opts where
  "cacheStatsQueryOptions = \<lparr>qo_key = system_cache, qo_request = api_getCacheStats, qo_enabled = True\<rparr>"

definition jobsQueryOptions :: "((string \<times> json) list) option \<Rightarrow> query_opts" where
  "jobsQueryOptions filt =
     \<lparr>qo_key = jobs_list filt, qo_request = api_getJobs filt, qo_enabled = True\<rparr>"

text \<open>Polling, in milliseconds; \<open>None\<close> is the \<open>false\<close> of \<open>refetchInterval\<close>.\<close>

definition jobs_refetchInterval :: "job list option \<Rightarrow> nat option" where
  "jobs_refetchInterval jobs =
     (case jobs of
        Some js \<Rightarrow> if list_ex (\<lambda>j. j_status j = Job_Running \<or> j_status j = Job_Pending) js then Some 3000 else None
      | None \<Rightarrow> None)"

section \<open>The query hooks\<close>

definition set_enabled :: "bool option \<Rightarrow> query_opts \<Rightarrow> query_opts" where
  "set_enabled en q = q\<lparr>qo_enabled := coalesce_or [en] (qo_enabled q)\<rparr>"

definition useMangaDetails :: "string \<Rightarrow> bool option \<Rightarrow> query_opts" where
  "useMangaDetails i en = set_enabled en (mangaDetailsQueryOptions i)"

definition useMetadata :: "string \<Rightarrow> bool option \<Rightarrow> query_opts" where
  "useMetadata i en =
     \<lparr>qo_key = manga_metadata_key i, qo_request = api_getLibraryMetadata i,
      qo_enabled = coalesce_or [en] (i \<noteq> [])\<rparr>"

definition useUserState :: "string \<Rightarrow> bool option \<Rightarrow> query_opts" where
  "useUserState i en =
     \<lparr>qo_key = manga_userState i, qo_request = api_getLibraryUserState i,
      qo_enabled = coalesce_or [en] (i \<noteq> [])\<rparr>"

definition useBindings :: "string \<Rightarrow> bool option \<Rightarrow> query_opts" where
  "useBindings i en =
     \<lparr>qo_key = manga_bindings_key i, qo_request = api_getLibraryBindings i,
      qo_enabled = coalesce_or [en] (i \<noteq> [])\<rparr>"

definition useProviderMangaDetails :: "string \<Rightarrow> string \<Rightarrow> bool option \<Rightarrow> query_opts" where
  "useProviderMangaDetails providerId remoteId en =
     set_enabled en (providerMangaDetailsQueryOptions providerId remoteId)"

definition useExploreCatalog :: "string \<Rightarrow> string \<Rightarrow> string \<Rightarrow> rat \<Rightarrow> bool option \<Rightarrow> query_opts" where
  "useExploreCatalog providerId mode query page en =
     set_enabled en
       (exploreCatalogQueryOptions providerId (str_or [Some mode] ''popular'') (Some query) (Some page))"

definition useChapterList :: "string \<Rightarrow> string option \<Rightarrow> bool option \<Rightarrow> query_opts" where
  "useChapterList mangaId providerId en =
     \<lparr>qo_key =
        (if truthy_str providerId then chapters_providerList mangaId (the providerId) else chapters_list mangaId),
      qo_request =
        (if truthy_str providerId then api_listChapters mangaId providerId else api_getMangaChapters mangaId),
      qo_enabled = coalesce_or [en] (mangaId \<noteq> [])\<rparr>"

definition chapter_downloading :: "manga_chapter \<Rightarrow> bool" where
  "chapter_downloading c =
     (let isDownloaded = truthy_bool (coalesce [c_is_downloaded c, c_isDownloaded c, Option.bind (c_meta c) cm_is_downloaded]);
          downloadedPages = coalesce_or [c_downloaded_pages c, c_downloadedPages c, Option.bind (c_meta c) cm_downloaded_pages] 0
      in downloadedPages > 0 \<and> \<not> isDownloaded)"

definition chapters_refetchInterval :: "bool option \<Rightarrow> manga_chapter list option \<Rightarrow> nat option" where
  "chapters_refetchInterval hasActivePullJobs chapters =
     (if truthy_bool hasActivePullJobs then Some 3000
      else case chapters of
             Some cs \<Rightarrow> if list_ex chapter_downloading cs then Some 3000 else None
           | None \<Rightarrow> None)"

definition useProviderChapterList :: "string \<Rightarrow> string \<Rightarrow> bool option \<Rightarrow> query_opts" where
  "useProviderChapterList providerId remoteId en =
     \<lparr>qo_key = chapters_remoteList providerId remoteId,
      qo_request = api_getProviderMangaChapters providerId remoteId,
      qo_enabled = coalesce_or [en] (providerId \<noteq> [] \<and> remoteId \<noteq> [])\<rparr>"

definition useProviderChapterPages :: "string \<Rightarrow> string \<Rightarrow> string \<Rightarrow> bool option \<Rightarrow> query_opts" where
  "useProviderChapterPages providerId remoteId chapterId en =
     \<lparr>qo_key = chapters_remotePages providerId remoteId chapterId,
      qo_request = api_getProviderChapterPages providerId remoteId chapterId,
      qo_enabled = coalesce_or [en] (providerId \<noteq> [] \<and> remoteId \<noteq> [] \<and> chapterId \<noteq> [])\<rparr>"

text \<open>\<open>useChapterPages\<close>: \<open>Inl\<close> is the chapter id of the standard signature, \<open>Inr\<close> the options of the legacy one.\<close>

definition useChapterPages ::
    "string \<Rightarrow> string + (string option \<times> bool option) option \<Rightarrow> bool option \<Rightarrow> query_opts" where
  "useChapterPages mangaIdOrChapterId chapterIdOrOptions options =
     (let (mangaId, chapterId, en) =
        (case chapterIdOrOptions of
           Inl chapterId \<Rightarrow> (mangaIdOrChapterId, chapterId, options)
         | Inr opts \<Rightarrow> (str_or [Option.bind opts fst] [], mangaIdOrChapterId, Option.bind opts snd))
      in \<lparr>qo_key = chapters_pages chapterId (Some mangaId) None,
          qo_request = api_getChapterPages mangaId chapterId,
          qo_enabled = coalesce_or [en] (chapterId \<noteq> [] \<and> mangaId \<noteq> [])\<rparr>)"

section \<open>Persistence\<close>

datatype query_status = Query_Pending | Query_Error | Query_Success

definition key_at :: "query_key \<Rightarrow> nat \<Rightarrow> key_elem option" where
  "key_at k i = (if i < length k then Some (k ! i) else None)"

definition shouldDehydrateQuery :: "query_status \<Rightarrow> query_key \<Rightarrow> bool" where
  "shouldDehydrateQuery status queryKey =
     (if status \<noteq> Query_Success then False
      else if key_at queryKey 0 = Some (KStr ''plugins'') \<and> key_at queryKey 1 = Some (KStr ''logs'') then False
      else if key_at queryKey 0 = Some (KStr ''collisions'') then False
      else if key_at queryKey 0 = Some (KStr ''system'') \<and> key_at queryKey 1 = Some (KStr ''cache'') then False
      else if key_at queryKey 0 = Some (KStr ''jobs'') then False
      else True)"

section \<open>A key determines its request\<close>

text \<open>Every query the application makes, as the hook call that makes it.\<close>

datatype app_query =
    Q_Sources
  | Q_Library
  | Q_Details string
  | Q_Metadata string
  | Q_User_State string
  | Q_Bindings string
  | Q_Provider_Details string string
  | Q_Explore string string string rat
  | Q_Chapters string "string option"
  | Q_Remote_Chapters string string
  | Q_Remote_Pages string string string
  | Q_Pages string string
  | Q_Plugins
  | Q_Plugin_Logs string
  | Q_Collisions
  | Q_Info
  | Q_Cache_Stats
  | Q_Jobs "((string \<times> json) list) option"

fun query_of :: "app_query \<Rightarrow> query_opts" where
  "query_of Q_Sources = sourcesQueryOptions"
| "query_of Q_Library = libraryMangasQueryOptions"
| "query_of (Q_Details i) = useMangaDetails i None"
| "query_of (Q_Metadata i) = useMetadata i None"
| "query_of (Q_User_State i) = useUserState i None"
| "query_of (Q_Bindings i) = useBindings i None"
| "query_of (Q_Provider_Details p r) = useProviderMangaDetails p r None"
| "query_of (Q_Explore p mode query pg) = useExploreCatalog p mode query pg None"
| "query_of (Q_Chapters m p) = useChapterList m p None"
| "query_of (Q_Remote_Chapters p r) = useProviderChapterList p r None"
| "query_of (Q_Remote_Pages p r c) = useProviderChapterPages p r c None"
| "query_of (Q_Pages m c) = useChapterPages m (Inl c) None"
| "query_of Q_Plugins = pluginsQueryOptions"
| "query_of (Q_Plugin_Logs p) = pluginLogsQueryOptions p"
| "query_of Q_Collisions = collisionsQueryOptions"
| "query_of Q_Info = infoQueryOptions"
| "query_of Q_Cache_Stats = cacheStatsQueryOptions"
| "query_of (Q_Jobs filt) = jobsQueryOptions filt"

text \<open>The library's manga ids are not the words that the keys use as tags.\<close>

fun untagged :: "app_query \<Rightarrow> bool" where
  "untagged (Q_Metadata i) = (i \<noteq> ''detail'' \<and> i \<noteq> ''provider'')"
| "untagged (Q_User_State i) = (i \<noteq> ''detail'' \<and> i \<noteq> ''provider'')"
| "untagged (Q_Bindings i) = (i \<noteq> ''detail'' \<and> i \<noteq> ''provider'')"
| "untagged (Q_Chapters m p) = (m \<noteq> ''remote'' \<and> m \<noteq> ''pages'')"
| "untagged q = True"

lemmas query_hook_defs = sourcesQueryOptions_def libraryMangasQueryOptions_def useMangaDetails_def
  mangaDetailsQueryOptions_def useMetadata_def useUserState_def useBindings_def
  useProviderMangaDetails_def providerMangaDetailsQueryOptions_def useExploreCatalog_def
  exploreCatalogQueryOptions_def useChapterList_def useProviderChapterList_def
  useProviderChapterPages_def useChapterPages_def pluginsQueryOptions_def pluginLogsQueryOptions_def
  collisionsQueryOptions_def infoQueryOptions_def cacheStatsQueryOptions_def jobsQueryOptions_def
  set_enabled_def

lemma truthy_str_the: "truthy_str x \<Longrightarrow> x = Some (the x)"
  by (cases x) auto

lemma chapters_key_request:
  "qo_key (useChapterList m p en) = qo_key (useChapterList m' p' en') \<Longrightarrow>
    qo_request (useChapterList m p en) = qo_request (useChapterList m' p' en')"
  using truthy_str_the [of p] truthy_str_the [of p']
  by (auto simp: useChapterList_def key_defs split: if_splits)

lemma explore_key_request:
  "qo_key (useExploreCatalog p mode query pg en) = qo_key (useExploreCatalog p' mode' query' pg' en') \<Longrightarrow>
    qo_request (useExploreCatalog p mode query pg en) = qo_request (useExploreCatalog p' mode' query' pg' en')"
  by (auto simp: query_hook_defs key_defs Let_def split: if_splits)

lemma pages_key_request:
  "qo_key (useChapterPages m (Inl c) en) = qo_key (useChapterPages m' (Inl c') en') \<Longrightarrow>
    qo_request (useChapterPages m (Inl c) en) = qo_request (useChapterPages m' (Inl c') en')"
  by (auto simp: useChapterPages_def key_defs opt_key_def split: if_splits)

lemma jobs_key_request:
  "qo_key (jobsQueryOptions f) = qo_key (jobsQueryOptions f') \<Longrightarrow>
    qo_request (jobsQueryOptions f) = qo_request (jobsQueryOptions f')"
  by (auto simp: jobsQueryOptions_def key_defs api_getJobs_def split: option.splits if_splits)

definition same_family :: "app_query \<Rightarrow> app_query \<Rightarrow> bool" where
  "same_family q q' =
     (case (q, q') of
        (Q_Explore _ _ _ _, Q_Explore _ _ _ _) \<Rightarrow> True
      | (Q_Chapters _ _, Q_Chapters _ _) \<Rightarrow> True
      | (Q_Pages _ _, Q_Pages _ _) \<Rightarrow> True
      | (Q_Jobs _, Q_Jobs _) \<Rightarrow> True
      | _ \<Rightarrow> False)"

lemma key_request_same_family:
  "same_family q q' \<Longrightarrow> qo_key (query_of q) = qo_key (query_of q') \<Longrightarrow>
    qo_request (query_of q) = qo_request (query_of q')"
  unfolding same_family_def
  by (auto split: app_query.splits simp del: query_opts.simps
      intro: explore_key_request chapters_key_request pages_key_request jobs_key_request)

lemma qo_key_of:
  "qo_key (query_of Q_Sources) = sources_all"
  "qo_key (query_of Q_Library) = library_mangas"
  "qo_key (query_of (Q_Details i)) = manga_details i"
  "qo_key (query_of (Q_Metadata i)) = manga_metadata_key i"
  "qo_key (query_of (Q_User_State i)) = manga_userState i"
  "qo_key (query_of (Q_Bindings i)) = manga_bindings_key i"
  "qo_key (query_of (Q_Provider_Details p r)) = manga_providerDetails p r"
  "qo_key (query_of (Q_Explore p mode qu pg)) = explore_catalog p (str_or [Some mode] ''popular'') (js_trim qu) pg"
  "qo_key (query_of (Q_Chapters m pr)) =
    (if truthy_str pr then chapters_providerList m (the pr) else chapters_list m)"
  "qo_key (query_of (Q_Remote_Chapters p r)) = chapters_remoteList p r"
  "qo_key (query_of (Q_Remote_Pages p r c)) = chapters_remotePages p r c"
  "qo_key (query_of (Q_Pages m c)) = chapters_pages c (Some m) None"
  "qo_key (query_of Q_Plugins) = plugins_all"
  "qo_key (query_of (Q_Plugin_Logs p)) = plugins_logs p"
  "qo_key (query_of Q_Collisions) = collisions_all"
  "qo_key (query_of Q_Info) = info_all"
  "qo_key (query_of Q_Cache_Stats) = system_cache"
  "qo_key (query_of (Q_Jobs filt)) = jobs_list filt"
  by (auto simp: query_hook_defs Let_def)

lemma key_request_other:
  assumes "untagged q" "untagged q'" "\<not> same_family q q'" "qo_key (query_of q) = qo_key (query_of q')"
  shows "q = q'"
  using assms
  by (cases q; cases q')
     (simp_all only: qo_key_of, auto simp: key_defs opt_key_def same_family_def split: if_splits option.splits)

text \<open>
  C25: The cache cannot mix up answers: two hook calls with the same key send the same
  request, whatever hooks they are (manga ids that are the words \<open>detail\<close>, \<open>provider\<close>,
  \<open>remote\<close> or \<open>pages\<close> excepted, which share a place in the keys with tags). In particular a
  search is cached under its trimmed text and a missing provider id shares its entry with
  the empty one.
\<close>

theorem key_determines_request:
  assumes "untagged q" "untagged q'" "qo_key (query_of q) = qo_key (query_of q')"
  shows "qo_request (query_of q) = qo_request (query_of q')"
proof (cases "same_family q q'")
  case True
  then show ?thesis using assms(3) by (rule key_request_same_family)
next
  case False
  with assms have "q = q'" by (intro key_request_other)
  then show ?thesis by simp
qed

theorem key_determines_request_witness:
  "qo_request (query_of (Q_Explore ''mangadex'' ''popular'' '' berserk '' 1)) =
    qo_request (query_of (Q_Explore ''mangadex'' [] ''berserk'' 1))"
proof (rule key_determines_request)
  show "qo_key (query_of (Q_Explore ''mangadex'' ''popular'' '' berserk '' 1)) =
      qo_key (query_of (Q_Explore ''mangadex'' [] ''berserk'' 1))"
    unfolding qo_key_of by (simp add: js_trim_def is_ws_def)
qed simp_all

text \<open>
  What is stored for offline use: successful queries only, and of the application's
  queries never the jobs, the collision alerts, the cache statistics or the plugin logs;
  every other successful query is stored. The list of plugins is stored, their logs are not.
\<close>

theorem shouldDehydrate_app_query:
  shows "(shouldDehydrateQuery st (qo_key (query_of q)) \<longleftrightarrow>
      st = Query_Success \<and>
      \<not> (case q of Q_Jobs _ \<Rightarrow> True | Q_Collisions \<Rightarrow> True | Q_Cache_Stats \<Rightarrow> True | Q_Plugin_Logs _ \<Rightarrow> True | _ \<Rightarrow> False)) \<and>
    (\<not> shouldDehydrateQuery st (jobs_children i))"
  by (rule conjI, (cases q; simp only: qo_key_of, auto simp: shouldDehydrateQuery_def key_at_def key_defs split: option.splits))
     (simp add: shouldDehydrateQuery_def key_at_def key_defs)

end
