(* ===== verification/Api_Hooks.thy ===== *)
theory Api_Hooks
  imports Query_Keys
begin

text \<open>
  The mutation hooks of \<open>api/hooks.ts\<close>: the request a mutation sends and the keys it
  invalidates once it has succeeded, in the order of the calls. \<open>covers ks q\<close> says that one
  of the keys reaches the cache entry \<open>q\<close>.
\<close>

record mutation =
  mu_request :: request
  mu_invalidates :: "query_key list"

definition covers :: "query_key list \<Rightarrow> query_key \<Rightarrow> bool" where
  "covers ks q = list_ex (\<lambda>k. prefix k q) ks"

text \<open>\<open>if (providerId) invalidate(providerList(mangaId, providerId))\<close>.\<close>

definition provider_list_keys :: "string \<Rightarrow> string option \<Rightarrow> query_key list" where
  "provider_list_keys mangaId providerId =
     (if truthy_str providerId then [chapters_providerList mangaId (the providerId)] else [])"

section \<open>Library\<close>

definition useSaveLibraryMangaMutation :: "json \<Rightarrow> mutation" where
  "useSaveLibraryMangaMutation m =
     \<lparr>mu_request = api_postLibraryManga m, mu_invalidates = [library_mangas]\<rparr>"

definition useUpdateLibraryMangaMutation :: "string \<Rightarrow> (string \<times> json) list \<Rightarrow> mutation" where
  "useUpdateLibraryMangaMutation mangaId flds =
     \<lparr>mu_request = api_patchLibraryManga mangaId flds,
      mu_invalidates = [manga_details mangaId, library_all, library_mangas]\<rparr>"

definition useUpdateMetadataMutation :: "string \<Rightarrow> json \<Rightarrow> mutation" where
  "useUpdateMetadataMutation mangaId partial =
     \<lparr>mu_request = api_patchLibraryMangaMetadata mangaId partial,
      mu_invalidates = [manga_metadata_key mangaId, manga_details mangaId, library_all, library_mangas]\<rparr>"

definition useUpdateUserStateMutation :: "string \<Rightarrow> json \<Rightarrow> mutation" where
  "useUpdateUserStateMutation mangaId partial =
     \<lparr>mu_request = api_patchLibraryMangaUserState mangaId partial,
      mu_invalidates =
        [manga_userState mangaId, manga_detail mangaId, manga_details mangaId, library_all, library_mangas]\<rparr>"

definition useAddBindingMutation :: "string \<Rightarrow> provider_ref \<Rightarrow> bool option \<Rightarrow> mutation" where
  "useAddBindingMutation mangaId ref setAsContent =
     \<lparr>mu_request = api_addBinding mangaId ref setAsContent,
      mu_invalidates = [manga_bindings_key mangaId, manga_details mangaId, library_all, library_mangas]\<rparr>"

definition useRemoveBindingMutation :: "string \<Rightarrow> string \<Rightarrow> string \<Rightarrow> mutation" where
  "useRemoveBindingMutation mangaId providerId providerMangaId =
     \<lparr>mu_request = api_removeBinding mangaId providerId providerMangaId,
      mu_invalidates = [manga_bindings_key mangaId, manga_details mangaId, library_all, library_mangas]\<rparr>"

definition useSwitchContentProviderMutation :: "string \<Rightarrow> string \<Rightarrow> string \<Rightarrow> mutation" where
  "useSwitchContentProviderMutation mangaId providerId providerMangaId =
     \<lparr>mu_request = api_switchContentProvider mangaId providerId providerMangaId,
      mu_invalidates = [manga_bindings_key mangaId, manga_details mangaId, library_all, library_mangas]\<rparr>"

definition useSetActiveContentSourceMutation ::
    "string \<Rightarrow> string \<Rightarrow> string \<Rightarrow> string option \<Rightarrow> mutation" where
  "useSetActiveContentSourceMutation mangaId providerId providerMangaId readingMode =
     \<lparr>mu_request = api_setActiveContentSource mangaId providerId providerMangaId readingMode,
      mu_invalidates = [manga_bindings_key mangaId, manga_details mangaId, library_all, library_mangas]\<rparr>"

definition useRefreshMetadataMutation :: "string \<Rightarrow> mutation" where
  "useRefreshMetadataMutation mangaId =
     \<lparr>mu_request = api_refreshMetadata mangaId,
      mu_invalidates = [manga_metadata_key mangaId, manga_details mangaId, jobs_all]\<rparr>"

definition useDeleteLibraryMangaMutation :: "string \<Rightarrow> mutation" where
  "useDeleteLibraryMangaMutation mangaId =
     \<lparr>mu_request = api_deleteLibraryManga mangaId, mu_invalidates = [library_mangas]\<rparr>"

definition useMergeLibraryMangaMutation :: "merge_payload \<Rightarrow> mutation" where
  "useMergeLibraryMangaMutation payload =
     \<lparr>mu_request = api_mergeLibraryManga payload,
      mu_invalidates = [library_all, manga_all, chapters_all]\<rparr>"

section \<open>Chapters\<close>

definition useDeleteChapterPagesCacheMutation :: "string \<Rightarrow> mutation" where
  "useDeleteChapterPagesCacheMutation chapterId =
     \<lparr>mu_request = api_deleteChapterPagesCache chapterId,
      mu_invalidates = [chapters_pages chapterId None None]\<rparr>"

definition useDeleteChapterFilesMutation :: "string \<Rightarrow> string \<Rightarrow> string option \<Rightarrow> mutation" where
  "useDeleteChapterFilesMutation mangaId chapterId providerId =
     \<lparr>mu_request = api_deleteChapterFiles mangaId chapterId None,
      mu_invalidates =
        [chapters_pages chapterId (Some mangaId) None, chapters_list mangaId] @
        provider_list_keys mangaId providerId @ [manga_details mangaId, system_all]\<rparr>"

definition usePullChapterMutation :: "string \<Rightarrow> string \<Rightarrow> string option \<Rightarrow> mutation" where
  "usePullChapterMutation mangaId chapterId providerId =
     \<lparr>mu_request = api_pullChapter mangaId chapterId None,
      mu_invalidates =
        [chapters_pages chapterId (Some mangaId) providerId, chapters_list mangaId] @
        provider_list_keys mangaId providerId @ [manga_details mangaId, jobs_all]\<rparr>"

definition usePullMangaMutation :: "string \<Rightarrow> string option \<Rightarrow> string option \<Rightarrow> mutation" where
  "usePullMangaMutation mangaId providerId providerMangaId =
     \<lparr>mu_request = api_pullManga mangaId providerId providerMangaId,
      mu_invalidates =
        [library_pull mangaId providerId, chapters_list mangaId] @
        provider_list_keys mangaId providerId @ [manga_details mangaId, library_all, jobs_all]\<rparr>"

definition useRefreshLibraryMangaMutation :: "string \<Rightarrow> mutation" where
  "useRefreshLibraryMangaMutation mangaId =
     \<lparr>mu_request = api_refreshLibraryManga mangaId,
      mu_invalidates = [library_refresh mangaId, chapters_list mangaId, manga_details mangaId]\<rparr>"

text \<open>The progress arguments: the value itself, its snake-case alias, then the two fields of \<open>progress\<close>.\<close>

record progress_input =
  pi_isRead :: "bool option"
  pi_lastReadPage :: "rat option"
  pi_is_read :: "bool option"
  pi_last_read_page :: "rat option"
  pi_progress :: "((bool option \<times> rat option) \<times> (bool option \<times> rat option)) option"

text \<open>\<open>pi_progress\<close> is \<open>((is_read, last_read_page), (isRead, lastReadPage))\<close>.\<close>

definition progress_payload :: "progress_input \<Rightarrow> progress" where
  "progress_payload p =
     \<lparr>pg_is_read =
        coalesce [pi_isRead p, pi_is_read p, Option.bind (pi_progress p) (\<lambda>q. fst (fst q)),
          Option.bind (pi_progress p) (\<lambda>q. fst (snd q))],
      pg_last_read_page =
        coalesce [pi_lastReadPage p, pi_last_read_page p, Option.bind (pi_progress p) (\<lambda>q. snd (fst q)),
          Option.bind (pi_progress p) (\<lambda>q. snd (snd q))]\<rparr>"

definition useUpdateChapterProgressMutation ::
    "string \<Rightarrow> string \<Rightarrow> progress_input \<Rightarrow> string option \<Rightarrow> mutation" where
  "useUpdateChapterProgressMutation mangaId chapterId p providerId =
     \<lparr>mu_request = api_updateChapterProgress mangaId chapterId (progress_payload p),
      mu_invalidates =
        [chapters_list mangaId] @ provider_list_keys mangaId providerId @
        [manga_details mangaId, library_mangas]\<rparr>"

definition useBatchUpdateChapterProgressMutation ::
    "string \<Rightarrow> string list \<Rightarrow> progress_input \<Rightarrow> string option \<Rightarrow> mutation" where
  "useBatchUpdateChapterProgressMutation mangaId chapterIds p providerId =
     \<lparr>mu_request = api_batchUpdateChapterProgress mangaId (Inr chapterIds) (Inr (progress_payload p)) None,
      mu_invalidates =
        [chapters_list mangaId] @ provider_list_keys mangaId providerId @
        [manga_details mangaId, library_all, library_mangas, jobs_all]\<rparr>"

definition useBatchPullChaptersMutation :: "string \<Rightarrow> string list \<Rightarrow> string option \<Rightarrow> mutation" where
  "useBatchPullChaptersMutation mangaId chapterIds providerId =
     \<lparr>mu_request = api_batchPullChapters mangaId (Inr chapterIds) None,
      mu_invalidates =
        [chapters_list mangaId] @ provider_list_keys mangaId providerId @
        [manga_details mangaId, library_all, jobs_all]\<rparr>"

definition useBatchRefreshChaptersMutation :: "string \<Rightarrow> string list \<Rightarrow> string option \<Rightarrow> mutation" where
  "useBatchRefreshChaptersMutation mangaId chapterIds providerId =
     \<lparr>mu_request = api_batchRefreshChapters mangaId (Inr chapterIds) None,
      mu_invalidates =
        [chapters_list mangaId] @ provider_list_keys mangaId providerId @ [manga_details mangaId]\<rparr>"

definition useBatchDeleteChapterFilesMutation :: "string \<Rightarrow> string list \<Rightarrow> string option \<Rightarrow> mutation" where
  "useBatchDeleteChapterFilesMutation mangaId chapterIds providerId =
     \<lparr>mu_request = api_batchDeleteChapterFiles mangaId (Inr chapterIds) None,
      mu_invalidates =
        [chapters_all, chapters_list mangaId] @ provider_list_keys mangaId providerId @
        [manga_details mangaId, library_all, system_all, jobs_all]\<rparr>"

definition useBatchDeleteChaptersMutation :: "string \<Rightarrow> string list \<Rightarrow> string option \<Rightarrow> mutation" where
  "useBatchDeleteChaptersMutation mangaId chapterIds providerId =
     \<lparr>mu_request = api_batchDeleteChapters mangaId (Inr chapterIds) None,
      mu_invalidates =
        [chapters_list mangaId] @ provider_list_keys mangaId providerId @
        [manga_details mangaId, library_all, library_mangas, jobs_all]\<rparr>"

section \<open>What a mutation reaches\<close>

lemmas library_mutation_defs = useUpdateMetadataMutation_def useUpdateUserStateMutation_def
  useAddBindingMutation_def useRemoveBindingMutation_def useSwitchContentProviderMutation_def
  useSetActiveContentSourceMutation_def useRefreshMetadataMutation_def useUpdateLibraryMangaMutation_def

lemmas chapter_mutation_defs = useDeleteChapterFilesMutation_def usePullChapterMutation_def
  usePullMangaMutation_def useRefreshLibraryMangaMutation_def useUpdateChapterProgressMutation_def
  useBatchUpdateChapterProgressMutation_def useBatchPullChaptersMutation_def
  useBatchRefreshChaptersMutation_def useBatchDeleteChapterFilesMutation_def
  useBatchDeleteChaptersMutation_def

lemma covers_Nil [simp]: "\<not> covers [] q"
  by (simp add: covers_def)

lemma covers_Cons [simp]: "covers (k # ks) q \<longleftrightarrow> prefix k q \<or> covers ks q"
  by (simp add: covers_def)

lemma covers_append [simp]: "covers (ks @ ks') q \<longleftrightarrow> covers ks q \<or> covers ks' q"
  by (simp add: covers_def)

lemma covers_provider_list [simp]:
  "covers (provider_list_keys m p) q \<longleftrightarrow> truthy_str p \<and> prefix (chapters_providerList m (the p)) q"
  by (simp add: provider_list_keys_def)

text \<open>Every mutation of the chapters of one manga, by its hook.\<close>

definition chapter_mutations :: "string \<Rightarrow> string \<Rightarrow> string list \<Rightarrow> progress_input \<Rightarrow> string option \<Rightarrow> mutation list" where
  "chapter_mutations m c cs p prov =
     [useDeleteChapterFilesMutation m c prov, usePullChapterMutation m c prov,
      usePullMangaMutation m prov None, useRefreshLibraryMangaMutation m,
      useUpdateChapterProgressMutation m c p prov, useBatchUpdateChapterProgressMutation m cs p prov,
      useBatchPullChaptersMutation m cs prov, useBatchRefreshChaptersMutation m cs prov,
      useBatchDeleteChapterFilesMutation m cs prov, useBatchDeleteChaptersMutation m cs prov]"

text \<open>
  Each of the ten mutations of a manga's chapters refreshes what shows them: the chapter
  list of that manga, with or without a provider, and the manga's details, whether or not
  the caller passed a provider id.
\<close>

theorem chapter_mutations_refresh_lists:
  assumes "mu \<in> set (chapter_mutations m c cs p prov)"
  shows "(covers (mu_invalidates mu) (qo_key (useChapterList m prov' en))) \<and>
    (covers (mu_invalidates mu) (qo_key (useMangaDetails m en)))"
proof (rule conjI2; (intro impI)?)
  have "chapters_list m \<in> set (mu_invalidates mu)" "manga_details m \<in> set (mu_invalidates mu)"
    using assms unfolding chapter_mutations_def by (auto simp: chapter_mutation_defs)
  moreover have "prefix (chapters_list m) (qo_key (useChapterList m prov' en))"
    by (simp add: useChapterList_def key_defs)
  moreover have "prefix (manga_details m) (qo_key (useMangaDetails m en))"
    by (simp add: useMangaDetails_def mangaDetailsQueryOptions_def set_enabled_def)
  ultimately show "covers (mu_invalidates mu) (qo_key (useChapterList m prov' en))"
    "covers (mu_invalidates mu) (qo_key (useMangaDetails m en))"
    unfolding covers_def list_ex_iff by blast+
qed

definition blank_progress_input :: progress_input where
  "blank_progress_input =
     \<lparr>pi_isRead = None, pi_lastReadPage = None, pi_is_read = None, pi_last_read_page = None, pi_progress = None\<rparr>"

theorem chapter_mutations_refresh_lists_witness:
  "covers (mu_invalidates (useBatchDeleteChaptersMutation ''m1'' [''c1''] None))
     (qo_key (useChapterList ''m1'' (Some ''mangadex'') None))"
  by (rule conjunct1 [OF chapter_mutations_refresh_lists [where c = "''c1''" and cs = "[''c1'']"
        and p = blank_progress_input and prov = None]])
     (simp add: chapter_mutations_def)

text \<open>
  Deleting a chapter's files, deleting its page cache and deleting the files of a batch
  drop the pages the reader shows. Pulling a chapter drops them exactly when the caller
  passes no provider id: with one, the invalidated key is longer than the key under which
  the reader's pages are cached, so the reader keeps the pages from before the pull.
\<close>

theorem pages_refresh:
  assumes "m \<noteq> []"
  shows "(covers (mu_invalidates (useDeleteChapterFilesMutation m c prov)) (qo_key (useChapterPages m (Inl c) en))) \<and>
    (covers (mu_invalidates (useDeleteChapterPagesCacheMutation c)) (qo_key (useChapterPages m (Inl c) en))) \<and>
    (covers (mu_invalidates (useBatchDeleteChapterFilesMutation m' cs prov)) (qo_key (useChapterPages m (Inl c) en))) \<and>
    (m \<noteq> ''pages'' \<longrightarrow>
      covers (mu_invalidates (usePullChapterMutation m c prov)) (qo_key (useChapterPages m (Inl c) en)) \<longleftrightarrow>
      \<not> truthy_str prov)"
  using assms
  by (auto simp: chapter_mutation_defs useDeleteChapterPagesCacheMutation_def useChapterPages_def key_defs opt_key_def)

theorem pages_refresh_witness:
  "\<not> covers (mu_invalidates (usePullChapterMutation ''m1'' ''c1'' (Some ''mangadex'')))
      (qo_key (useChapterPages ''m1'' (Inl ''c1'') None))"
  using pages_refresh [of "''m1''" "''c1''" "Some ''mangadex''" None] by simp

lemma concern_prefixes:
  assumes "m' \<notin> {''detail'', ''provider''}" "q \<in> {manga_metadata_key m', manga_userState m', manga_bindings_key m'}"
  shows "prefix (manga_metadata_key m) q \<longleftrightarrow> q = manga_metadata_key m"
    and "prefix (manga_userState m) q \<longleftrightarrow> q = manga_userState m"
    and "prefix (manga_bindings_key m) q \<longleftrightarrow> q = manga_bindings_key m"
    and "prefix (manga_detail m) q \<longleftrightarrow> m = m'"
    and "\<not> prefix (manga_details m) q" "\<not> prefix library_all q" "\<not> prefix library_mangas q" "\<not> prefix jobs_all q"
    and "q = manga_userState m \<Longrightarrow> m = m'"
  using assms by (auto simp: key_defs)

text \<open>
  Which cached concern of a manga a mutation of its metadata, user state or bindings
  drops. Metadata and bindings mutations drop their own concern and leave the others;
  a user-state mutation drops all three, because the key of the joined view is a prefix of
  each concern's key. All of them drop the manga's details and the library, and none touches
  the concerns of another manga.
\<close>

theorem concern_mutations_reach:
  assumes "m \<notin> {''detail'', ''provider''}" "m' \<notin> {''detail'', ''provider''}"
    and "q \<in> {manga_metadata_key m', manga_userState m', manga_bindings_key m'}"
  shows "(covers (mu_invalidates (useUpdateMetadataMutation m x)) q \<longleftrightarrow> q = manga_metadata_key m) \<and>
    (covers (mu_invalidates (useRefreshMetadataMutation m)) q \<longleftrightarrow> q = manga_metadata_key m) \<and>
    (covers (mu_invalidates (useAddBindingMutation m ref b)) q \<longleftrightarrow> q = manga_bindings_key m) \<and>
    (covers (mu_invalidates (useRemoveBindingMutation m pid rid)) q \<longleftrightarrow> q = manga_bindings_key m) \<and>
    (covers (mu_invalidates (useSwitchContentProviderMutation m pid rid)) q \<longleftrightarrow> q = manga_bindings_key m) \<and>
    (covers (mu_invalidates (useSetActiveContentSourceMutation m pid rid mode)) q \<longleftrightarrow> q = manga_bindings_key m) \<and>
    (covers (mu_invalidates (useUpdateUserStateMutation m x)) q \<longleftrightarrow> m = m') \<and>
    (covers (mu_invalidates (useUpdateLibraryMangaMutation m flds)) q \<longleftrightarrow> False)"
  using concern_prefixes(9) [OF assms(2,3)]
  by (auto simp only: library_mutation_defs covers_Cons covers_Nil mutation.simps simp_thms
      concern_prefixes(1-8) [OF assms(2,3)])

theorem concern_mutations_reach_witness:
  "covers (mu_invalidates (useUpdateUserStateMutation ''m1'' (JObj []))) (manga_bindings_key ''m1'')"
  using concern_mutations_reach [of "''m1''" "''m1''" "manga_bindings_key ''m1''" "JObj []"] by simp

lemma coalesce_first: "coalesce (Some x # xs) = Some x"
  by simp

text \<open>
  The body of a progress update holds the fields the caller gave a value, \<open>false\<close> and
  \<open>0\<close> included, and no others; the camel-case argument wins over the snake-case one and both
  over the fields of \<open>progress\<close>. The single and the batch mutation compute the same
  progress.
\<close>

theorem progress_mutation_body:
  shows "(pi_isRead p = Some b \<longrightarrow> pi_lastReadPage p = Some n \<longrightarrow>
      rq_body (mu_request (useUpdateChapterProgressMutation m c p prov)) =
        Some (JObj [(''is_read'', JBool b), (''last_read_page'', JNum n)])) \<and>
    (pi_isRead p = None \<longrightarrow> pi_is_read p = Some b \<longrightarrow> pg_is_read (progress_payload p) = Some b) \<and>
    (jget (the (rq_body (mu_request (useUpdateChapterProgressMutation m c p prov)))) ''is_read'' = JUndef \<longleftrightarrow>
      pi_isRead p = None \<and> pi_is_read p = None \<and>
      (\<forall>r. pi_progress p = Some r \<longrightarrow> fst (fst r) = None \<and> fst (snd r) = None)) \<and>
    (rq_body (mu_request (useBatchUpdateChapterProgressMutation m cs p prov)) =
      Some (JObj ((''chapter_ids'', strs_json cs) #
        members (the (rq_body (mu_request (useUpdateChapterProgressMutation m c p prov)))))))"
proof (rule conjI4; (intro impI)?)
  have body: "rq_body (mu_request (useUpdateChapterProgressMutation m c p prov)) =
      Some (JObj ((case pg_is_read (progress_payload p) of None \<Rightarrow> [] | Some b \<Rightarrow> [(''is_read'', JBool b)]) @
        (case pg_last_read_page (progress_payload p) of None \<Rightarrow> [] | Some n \<Rightarrow> [(''last_read_page'', JNum n)])))"
    by (simp add: useUpdateChapterProgressMutation_def api_updateChapterProgress_def json_req_def progress_json_def
        json_of_opt_def split: option.splits)
  show "rq_body (mu_request (useUpdateChapterProgressMutation m c p prov)) =
        Some (JObj [(''is_read'', JBool b), (''last_read_page'', JNum n)])"
    if "pi_isRead p = Some b" "pi_lastReadPage p = Some n"
    using that unfolding body by (simp add: progress_payload_def)
  show "pg_is_read (progress_payload p) = Some b" if "pi_isRead p = None" "pi_is_read p = Some b"
    using that by (simp add: progress_payload_def)
  have "jget (the (rq_body (mu_request (useUpdateChapterProgressMutation m c p prov)))) ''is_read'' = JUndef \<longleftrightarrow>
      pg_is_read (progress_payload p) = None"
    unfolding body by (simp add: jget_def mget_Cons split: option.splits)
  moreover have "pg_is_read (progress_payload p) = None \<longleftrightarrow>
      pi_isRead p = None \<and> pi_is_read p = None \<and>
      (\<forall>r. pi_progress p = Some r \<longrightarrow> fst (fst r) = None \<and> fst (snd r) = None)"
    by (cases "pi_progress p") (auto simp: progress_payload_def coalesce_None)
  ultimately show "jget (the (rq_body (mu_request (useUpdateChapterProgressMutation m c p prov)))) ''is_read'' = JUndef \<longleftrightarrow>
      pi_isRead p = None \<and> pi_is_read p = None \<and>
      (\<forall>r. pi_progress p = Some r \<longrightarrow> fst (fst r) = None \<and> fst (snd r) = None)"
    by simp
  show "rq_body (mu_request (useBatchUpdateChapterProgressMutation m cs p prov)) =
      Some (JObj ((''chapter_ids'', strs_json cs) #
        members (the (rq_body (mu_request (useUpdateChapterProgressMutation m c p prov))))))"
    unfolding body
    by (simp add: useBatchUpdateChapterProgressMutation_def api_batchUpdateChapterProgress_def batch_req_def
        json_req_def json_of_opt_def Let_def split: option.splits)
qed

theorem progress_mutation_body_witness:
  "rq_body (mu_request (useUpdateChapterProgressMutation ''m1'' ''c1''
      (blank_progress_input\<lparr>pi_isRead := Some False, pi_lastReadPage := Some 0\<rparr>) None)) =
    Some (JObj [(''is_read'', JBool False), (''last_read_page'', JNum 0)])"
  using progress_mutation_body by simp

end
