(* ===== verification/Metadata_Comparison.thy ===== *)
theory Metadata_Comparison
  imports Metadata_Compare Api_Hooks
begin

text \<open>
  \<open>components/import-metadata/hooks/useMetadataComparison.ts\<close>: comparing a library manga with
  a provider's manga (or with the manga to be merged into it), choosing field by field, and
  the requests that carry out the choice. \<open>current_values\<close> is defined on a manga that has the
  required fields of its interface (\<open>None\<close> where the code would throw a \<open>TypeError\<close>).
\<close>

section \<open>The two sides\<close>

datatype choice = Current | Incoming

datatype multi_choice = Multi_Current | Multi_Incoming | Multi_Merged

record metadata_values =
  mv_title :: string
  mv_coverUrl :: string
  mv_description :: string
  mv_authors :: "string list"
  mv_artists :: "string list"
  mv_publishers :: "string list"
  mv_tags :: "string list"
  mv_aliases :: "string list"
  mv_publisher :: string
  mv_releaseYear :: rat
  mv_startDate :: string
  mv_endDate :: string
  mv_contentRating :: string
  mv_country :: string
  mv_readingMode :: string
  mv_externalLinks :: "external_link list"
  mv_providers :: "provider_ref list"

text \<open>\<open>x ? [x] : []\<close>.\<close>

definition opt_single :: "string option \<Rightarrow> string list option" where
  "opt_single x = Some (if truthy_str x then [the x] else [])"

definition current_values :: "manga \<Rightarrow> metadata_values option" where
  "current_values m =
     (case (m_metadata m, m_bindings m) of
        (Some d, Some b) \<Rightarrow>
          (case (md_title d, md_description d, mb_providers b) of
             (Some title, Some description, Some providers) \<Rightarrow>
               Some
                 \<lparr>mv_title = title,
                  mv_coverUrl =
                    coalesce_or [md_cover_url d, md_coverUrl d, m_coverUrl m, m_cover m, m_coverAssetUrl m] [],
                  mv_description = description,
                  mv_authors = mergeStringArrays [md_authors d, m_authors m, opt_single (m_author m)],
                  mv_artists = mergeStringArrays [md_artists d, m_artists m, opt_single (m_artist m)],
                  mv_publishers = mergeStringArrays [md_publishers d, m_publishers m, opt_single (m_publisher m)],
                  mv_tags = mergeStringArrays [md_tags d, m_tags m, m_genres m],
                  mv_aliases = coalesce_or [md_aliases d, m_aliases m] [],
                  mv_publisher =
                    coalesce_or [case md_publishers d of Some (p # ps) \<Rightarrow> Some p | _ \<Rightarrow> m_publisher m] [],
                  mv_releaseYear =
                    coalesce_or [md_releaseYear d, md_release_year d, m_releaseYear m, m_release_year m] 0,
                  mv_startDate = coalesce_or [md_startDate d, md_start_date d, m_startDate m, m_start_date m] [],
                  mv_endDate = coalesce_or [md_endDate d, md_end_date d, m_endDate m, m_end_date m] [],
                  mv_contentRating = coalesce_or [md_content_rating d, md_contentRating d, m_contentRating m] [],
                  mv_country = coalesce_or [md_country d, m_country m] [],
                  mv_readingMode =
                    coalesce_or [Option.bind (mb_content b) cs_reading_mode, m_readingMode m, m_reading_mode m,
                      m_readingDirection m] [],
                  mv_externalLinks = nonempty_or (md_externalLinks d) (nonempty_or (m_externalLinks m) []),
                  mv_providers = providers\<rparr>
           | _ \<Rightarrow> None)
      | _ \<Rightarrow> None)"

definition no_values :: metadata_values where
  "no_values =
     \<lparr>mv_title = [], mv_coverUrl = [], mv_description = [], mv_authors = [], mv_artists = [], mv_publishers = [],
      mv_tags = [], mv_aliases = [], mv_publisher = [], mv_releaseYear = 0, mv_startDate = [], mv_endDate = [],
      mv_contentRating = [], mv_country = [], mv_readingMode = [], mv_externalLinks = [], mv_providers = []\<rparr>"

definition add_link :: "external_link list \<Rightarrow> external_link \<Rightarrow> external_link list" where
  "add_link acc l =
     (if js_trim (el_url l) \<noteq> [] \<and>
         \<not> list_ex (\<lambda>k. js_lower (js_trim (el_url k)) = js_lower (js_trim (el_url l))) acc
      then acc @ [l] else acc)"

definition incoming_links :: "source list \<Rightarrow> string \<Rightarrow> manga \<Rightarrow> external_link list" where
  "incoming_links sources pid r =
     (let provider = List.find (\<lambda>s. src_id s = pid) sources;
          url = str_or [map_option js_trim (m_url r)]
                  (if js_startsWith (m_id r) ''http'' then js_trim (m_id r) else []);
          first = (if url \<noteq> []
                   then [\<lparr>el_provider = pid, el_label = str_or [map_option src_name provider] pid, el_url = url\<rparr>]
                   else [])
      in foldl add_link first (coalesce_or [m_externalLinks r] []))"

definition incoming_values :: "source list \<Rightarrow> string \<Rightarrow> manga option \<Rightarrow> metadata_values" where
  "incoming_values sources pid remote =
     (case remote of
        None \<Rightarrow> no_values
      | Some r \<Rightarrow>
          \<lparr>mv_title = str_or [map_option js_trim (m_title r)] [],
           mv_coverUrl = str_or [m_coverUrl r, m_cover r, m_coverAssetUrl r] [],
           mv_description = str_or [map_option js_trim (m_description r)] [],
           mv_authors = mergeStringArrays [m_authors r, opt_single (m_author r)],
           mv_artists = mergeStringArrays [m_artists r, opt_single (m_artist r)],
           mv_publishers = mergeStringArrays [m_publishers r, opt_single (m_publisher r)],
           mv_tags = mergeStringArrays [m_tags r, m_genres r],
           mv_aliases = coalesce_or [m_aliases r] [],
           mv_publisher = str_or [map_option js_trim (m_publisher r)] [],
           mv_releaseYear = num_or [m_releaseYear r, m_release_year r] 0,
           mv_startDate = str_or [m_startDate r, m_start_date r] [],
           mv_endDate = str_or [m_endDate r, m_end_date r] [],
           mv_contentRating = str_or [m_contentRating r] [],
           mv_country = str_or [m_country r] [],
           mv_readingMode = str_or [m_readingMode r, m_reading_mode r, m_readingDirection r] [],
           mv_externalLinks = incoming_links sources pid r,
           mv_providers = coalesce_or [Option.bind (m_bindings r) mb_providers] []\<rparr>)"

section \<open>Differences\<close>

record metadata_diffs =
  df_cover :: bool
  df_title :: bool
  df_description :: bool
  df_authors :: bool
  df_artists :: bool
  df_publishers :: bool
  df_tags :: bool
  df_aliases :: bool
  df_publisher :: bool
  df_releaseYear :: bool
  df_startDate :: bool
  df_endDate :: bool
  df_contentRating :: bool
  df_country :: bool
  df_readingMode :: bool
  df_externalLinks :: bool
  df_providers :: bool

definition text_diff :: "string \<Rightarrow> string \<Rightarrow> bool" where
  "text_diff cur inc = (inc \<noteq> [] \<and> js_lower inc \<noteq> js_lower cur)"

definition list_diff :: "string list \<Rightarrow> string list \<Rightarrow> bool" where
  "list_diff cur inc = (inc \<noteq> [] \<and> \<not> areArraySetsEqual (Some cur) (Some inc))"

definition provider_key :: "provider_ref \<Rightarrow> string" where
  "provider_key p = pr_provider_id p @ '':'' @ pr_provider_manga_id p"

datatype compare_mode = Import_Mode | Merge_Mode

definition diffs :: "compare_mode \<Rightarrow> metadata_values \<Rightarrow> metadata_values \<Rightarrow> metadata_diffs" where
  "diffs mode cur inc =
     \<lparr>df_cover = (mv_coverUrl inc \<noteq> [] \<and> mv_coverUrl inc \<noteq> mv_coverUrl cur),
      df_title = text_diff (mv_title cur) (mv_title inc),
      df_description = (mv_description inc \<noteq> [] \<and> js_trim (mv_description inc) \<noteq> js_trim (mv_description cur)),
      df_authors = list_diff (mv_authors cur) (mv_authors inc),
      df_artists = list_diff (mv_artists cur) (mv_artists inc),
      df_publishers = list_diff (mv_publishers cur) (mv_publishers inc),
      df_tags = list_diff (mv_tags cur) (mv_tags inc),
      df_aliases = list_diff (mv_aliases cur) (mv_aliases inc),
      df_publisher = text_diff (mv_publisher cur) (mv_publisher inc),
      df_releaseYear = (mv_releaseYear inc > 0 \<and> mv_releaseYear inc \<noteq> mv_releaseYear cur),
      df_startDate = text_diff (mv_startDate cur) (mv_startDate inc),
      df_endDate = text_diff (mv_endDate cur) (mv_endDate inc),
      df_contentRating = text_diff (mv_contentRating cur) (mv_contentRating inc),
      df_country = text_diff (mv_country cur) (mv_country inc),
      df_readingMode = text_diff (mv_readingMode cur) (mv_readingMode inc),
      df_externalLinks =
        (mv_externalLinks inc \<noteq> [] \<and>
         \<not> areExternalLinkSetsEqual (Some (mv_externalLinks cur)) (Some (mv_externalLinks inc))),
      df_providers =
        (mode = Merge_Mode \<and> mv_providers inc \<noteq> [] \<and>
         \<not> areArraySetsEqual (Some (map provider_key (mv_providers cur))) (Some (map provider_key (mv_providers inc))))\<rparr>"

section \<open>The selection\<close>

record comparison =
  mc_title :: choice
  mc_cover :: choice
  mc_description :: choice
  mc_authors :: multi_choice
  mc_artists :: multi_choice
  mc_publishers :: multi_choice
  mc_externalLinks :: multi_choice
  mc_tags :: "string list"
  mc_aliases :: "string list"
  mc_publisher :: choice
  mc_releaseYear :: choice
  mc_startDate :: choice
  mc_endDate :: choice
  mc_contentRating :: choice
  mc_country :: choice
  mc_readingMode :: choice
  mc_providers :: multi_choice

definition choice_if :: "bool \<Rightarrow> choice" where
  "choice_if b = (if b then Incoming else Current)"

definition choice_list :: "string list \<Rightarrow> string list \<Rightarrow> multi_choice" where
  "choice_list cur inc =
     (if inc \<noteq> [] then if areArraySetsEqual (Some cur) (Some inc) then Multi_Current else Multi_Incoming
      else Multi_Current)"

text \<open>
  \<open>initComparisonState\<close> recomputes the two sides for the remote manga it is given; they are
  \<open>current_values\<close> and \<open>incoming_values\<close> of it. It leaves the providers mode as it was.
\<close>

definition initComparisonState :: "metadata_values \<Rightarrow> metadata_values \<Rightarrow> comparison \<Rightarrow> comparison" where
  "initComparisonState cur inc s =
     \<lparr>mc_title = choice_if (mv_title inc \<noteq> [] \<and> mv_title inc \<noteq> mv_title cur),
      mc_cover = choice_if (mv_coverUrl inc \<noteq> [] \<and> mv_coverUrl inc \<noteq> mv_coverUrl cur),
      mc_description = choice_if (mv_description inc \<noteq> [] \<and> mv_description inc \<noteq> mv_description cur),
      mc_authors = choice_list (mv_authors cur) (mv_authors inc),
      mc_artists = choice_list (mv_artists cur) (mv_artists inc),
      mc_publishers = choice_list (mv_publishers cur) (mv_publishers inc),
      mc_externalLinks =
        (if mv_externalLinks inc \<noteq> []
         then if areExternalLinkSetsEqual (Some (mv_externalLinks cur)) (Some (mv_externalLinks inc))
              then Multi_Current else Multi_Merged
         else Multi_Current),
      mc_tags = mergeStringArrays [Some (mv_tags cur), Some (mv_tags inc)],
      mc_aliases = mergeStringArrays [Some (mv_aliases cur), Some (mv_aliases inc)],
      mc_publisher = choice_if (mv_publisher inc \<noteq> []),
      mc_releaseYear = choice_if (mv_releaseYear inc \<noteq> 0),
      mc_startDate = choice_if (mv_startDate inc \<noteq> []),
      mc_endDate = choice_if (mv_endDate inc \<noteq> []),
      mc_contentRating = choice_if (mv_contentRating inc \<noteq> []),
      mc_country = choice_if (mv_country inc \<noteq> []),
      mc_readingMode = choice_if (mv_readingMode inc \<noteq> []),
      mc_providers = mc_providers s\<rparr>"

definition accept_list :: "'a list \<Rightarrow> multi_choice" where
  "accept_list inc = (if inc \<noteq> [] then Multi_Incoming else Multi_Current)"

definition handleAcceptIncoming :: "metadata_values \<Rightarrow> metadata_values \<Rightarrow> comparison" where
  "handleAcceptIncoming cur inc =
     \<lparr>mc_title = choice_if (mv_title inc \<noteq> []),
      mc_cover = choice_if (mv_coverUrl inc \<noteq> []),
      mc_description = choice_if (mv_description inc \<noteq> []),
      mc_authors = accept_list (mv_authors inc),
      mc_artists = accept_list (mv_artists inc),
      mc_publishers = accept_list (mv_publishers inc),
      mc_externalLinks = accept_list (mv_externalLinks inc),
      mc_tags = (if mv_tags inc \<noteq> [] then mv_tags inc else mv_tags cur),
      mc_aliases = mergeStringArrays [Some (mv_aliases cur), Some (mv_aliases inc)],
      mc_publisher = choice_if (mv_publisher inc \<noteq> []),
      mc_releaseYear = choice_if (mv_releaseYear inc \<noteq> 0),
      mc_startDate = choice_if (mv_startDate inc \<noteq> []),
      mc_endDate = choice_if (mv_endDate inc \<noteq> []),
      mc_contentRating = choice_if (mv_contentRating inc \<noteq> []),
      mc_country = choice_if (mv_country inc \<noteq> []),
      mc_readingMode = choice_if (mv_readingMode inc \<noteq> []),
      mc_providers = Multi_Merged\<rparr>"

definition handleKeepCurrent :: "metadata_values \<Rightarrow> comparison" where
  "handleKeepCurrent cur =
     \<lparr>mc_title = Current, mc_cover = Current, mc_description = Current, mc_authors = Multi_Current,
      mc_artists = Multi_Current, mc_publishers = Multi_Current, mc_externalLinks = Multi_Current,
      mc_tags = mv_tags cur, mc_aliases = mv_aliases cur, mc_publisher = Current, mc_releaseYear = Current,
      mc_startDate = Current, mc_endDate = Current, mc_contentRating = Current, mc_country = Current,
      mc_readingMode = Current, mc_providers = Multi_Merged\<rparr>"

section \<open>Tags and aliases\<close>

definition same_ci :: "string \<Rightarrow> string \<Rightarrow> bool" where
  "same_ci a b = (js_lower a = js_lower b)"

text \<open>
  \<open>addTag\<close> and \<open>addAlias\<close>: the test reads the list of the rendering (\<open>shown\<close>), the update
  appends to the newest list.
\<close>

definition add_item :: "string list \<Rightarrow> string \<Rightarrow> string list \<Rightarrow> string list" where
  "add_item shown item xs =
     (let trimmed = js_trim item
      in if trimmed = [] then xs else if \<not> list_ex (\<lambda>a. same_ci a trimmed) shown then xs @ [trimmed] else xs)"

definition remove_item :: "string \<Rightarrow> string list \<Rightarrow> string list" where
  "remove_item item xs = filter (\<lambda>a. \<not> same_ci a item) xs"

text \<open>\<open>handleTagInputChange\<close> and \<open>handleAliasInputChange\<close>: the new list and the new input.\<close>

definition input_change :: "string \<Rightarrow> string list \<Rightarrow> string list \<times> string" where
  "input_change val xs =
     (if CHR '','' \<in> set val then
        let parts = js_split (CHR '','') val
        in (foldl (\<lambda>acc part. add_item xs part acc) xs (butlast parts), last parts)
      else (xs, val))"

text \<open>\<open>handleTagInputKeyDown\<close> on Enter and comma.\<close>

definition input_enter :: "string \<Rightarrow> string list \<Rightarrow> string list \<times> string" where
  "input_enter inp xs = (if js_trim inp \<noteq> [] then (add_item xs inp xs, []) else (xs, inp))"

definition allAvailableTags :: "metadata_values \<Rightarrow> metadata_values \<Rightarrow> string list" where
  "allAvailableTags cur inc = mergeStringArrays [Some (mv_tags cur), Some (mv_tags inc)]"

definition allAvailableAliases :: "metadata_values \<Rightarrow> metadata_values \<Rightarrow> string list" where
  "allAvailableAliases cur inc =
     mergeStringArrays
       [Some (mv_aliases cur), Some (mv_aliases inc),
        Some (if mv_title inc \<noteq> [] \<and> js_lower (mv_title inc) \<noteq> js_lower (mv_title cur) then [mv_title inc] else []),
        Some (if mv_title cur \<noteq> [] \<and> js_lower (mv_title inc) \<noteq> js_lower (mv_title inc) then [mv_title cur] else [])]"

definition unselected :: "string list \<Rightarrow> string list \<Rightarrow> string list" where
  "unselected available chosen = filter (\<lambda>a. \<not> list_ex (\<lambda>b. same_ci b a) chosen) available"

section \<open>The requests\<close>

definition field_if :: "bool \<Rightarrow> string \<Rightarrow> json \<Rightarrow> (string \<times> json) list" where
  "field_if c k v = (if c then [(k, v)] else [])"

definition strings_field :: "string \<Rightarrow> multi_choice \<Rightarrow> string list \<Rightarrow> string list \<Rightarrow> (string \<times> json) list" where
  "strings_field k c cur inc =
     (case c of
        Multi_Incoming \<Rightarrow> [(k, strs_json inc)]
      | Multi_Merged \<Rightarrow> [(k, strs_json (mergeStringArrays [Some cur, Some inc]))]
      | Multi_Current \<Rightarrow> [])"

definition links_field :: "multi_choice \<Rightarrow> external_link list \<Rightarrow> external_link list \<Rightarrow> (string \<times> json) list" where
  "links_field c cur inc =
     (case c of
        Multi_Incoming \<Rightarrow> [(''external_links'', links_json inc)]
      | Multi_Merged \<Rightarrow> [(''external_links'', links_json (mergeExternalLinkArrays [Some cur, Some inc]))]
      | Multi_Current \<Rightarrow> [])"

definition fieldsToPatch :: "metadata_values \<Rightarrow> metadata_values \<Rightarrow> comparison \<Rightarrow> (string \<times> json) list" where
  "fieldsToPatch cur inc s =
     field_if (mc_title s = Incoming \<and> mv_title inc \<noteq> [] \<and> mv_title inc \<noteq> mv_title cur) ''title'' (JStr (mv_title inc)) @
     field_if (mc_cover s = Incoming \<and> mv_coverUrl inc \<noteq> []) ''cover_url'' (JStr (mv_coverUrl inc)) @
     field_if (mc_description s = Incoming \<and> mv_description inc \<noteq> []) ''description'' (JStr (mv_description inc)) @
     strings_field ''authors'' (mc_authors s) (mv_authors cur) (mv_authors inc) @
     strings_field ''artists'' (mc_artists s) (mv_artists cur) (mv_artists inc) @
     strings_field ''publishers'' (mc_publishers s) (mv_publishers cur) (mv_publishers inc) @
     [(''tags'', strs_json (mc_tags s)), (''aliases'', strs_json (mc_aliases s))] @
     field_if (mc_releaseYear s = Incoming \<and> mv_releaseYear inc \<noteq> 0) ''release_year'' (JNum (mv_releaseYear inc)) @
     field_if (mc_startDate s = Incoming \<and> mv_startDate inc \<noteq> []) ''start_date'' (JStr (mv_startDate inc)) @
     field_if (mc_endDate s = Incoming \<and> mv_endDate inc \<noteq> []) ''end_date'' (JStr (mv_endDate inc)) @
     field_if (mc_contentRating s = Incoming \<and> mv_contentRating inc \<noteq> []) ''content_rating'' (JStr (mv_contentRating inc)) @
     field_if (mc_country s = Incoming \<and> mv_country inc \<noteq> []) ''country'' (JStr (mv_country inc)) @
     links_field (mc_externalLinks s) (mv_externalLinks cur) (mv_externalLinks inc)"

text \<open>What the mutation does: reject, one merge request, or a sequence of requests that stops at the first failure.\<close>

datatype import_plan = Plan_Error string | Plan_Requests "request list"

definition merge_choice :: "string \<Rightarrow> choice \<Rightarrow> merge_scalar" where
  "merge_choice incomingId c = (case c of Current \<Rightarrow> Merge_Keep | Incoming \<Rightarrow> Merge_Source incomingId)"

definition merge_plan :: "manga \<Rightarrow> manga option \<Rightarrow> string list option \<Rightarrow> comparison \<Rightarrow> import_plan" where
  "merge_plan m incoming sourceMangaIds s =
     (case incoming of
        None \<Rightarrow> Plan_Error ''No incoming manga''
      | Some i \<Rightarrow>
          Plan_Requests [api_mergeLibraryManga
            \<lparr>mp_keep_manga_id = m_id m,
             mp_source_manga_ids = nonempty_or sourceMangaIds [m_id i],
             mp_content_provider = None,
             mp_title = merge_choice (m_id i) (mc_title s),
             mp_description = merge_choice (m_id i) (mc_description s),
             mp_release_year = merge_choice (m_id i) (mc_releaseYear s),
             mp_cover_url = merge_choice (m_id i) (mc_cover s)\<rparr>])"

definition import_plan ::
    "compare_mode \<Rightarrow> manga \<Rightarrow> string \<Rightarrow> manga option \<Rightarrow> manga option \<Rightarrow> string list option \<Rightarrow>
     metadata_values \<Rightarrow> metadata_values \<Rightarrow> comparison \<Rightarrow> import_plan" where
  "import_plan mode m pid selectedRemote incomingManga sourceMangaIds cur inc s =
     (case mode of
        Merge_Mode \<Rightarrow> merge_plan m (coalesce [selectedRemote, incomingManga]) sourceMangaIds s
      | Import_Mode \<Rightarrow>
          (case selectedRemote of
             None \<Rightarrow> Plan_Error ''No selection''
           | Some r \<Rightarrow>
               if pid = [] then Plan_Error ''No selection''
               else
                 let patch = fieldsToPatch cur inc s;
                     providerMangaId = str_or [Some (m_id r), m_contentRemoteId r, m_url r] [];
                     ref = \<lparr>pr_provider_id = pid, pr_provider_manga_id = providerMangaId,
                            pr_manga_title = Some (str_or [m_title r] (mv_title inc))\<rparr>
                 in Plan_Requests
                      ((if patch \<noteq> [] then [api_patchLibraryMangaMetadata (m_id m) (JObj patch)] else []) @
                       (if mc_readingMode s = Incoming \<and> mv_readingMode inc \<noteq> [] \<and>
                           js_lower (mv_readingMode inc) \<noteq> js_lower (mv_readingMode cur)
                        then [api_setActiveContentSource (m_id m) pid providerMangaId (Some (mv_readingMode inc))]
                        else []) @
                       [api_addBinding (m_id m) ref None])))"

definition import_invalidates :: "string \<Rightarrow> query_key list" where
  "import_invalidates mangaId =
     [manga_metadata_key mangaId, manga_bindings_key mangaId, manga_details mangaId, manga_all, library_all,
      chapters_list mangaId, library_providers mangaId]"

section \<open>No selection offered erases a field\<close>

definition blank_json :: "json \<Rightarrow> bool" where
  "blank_json v = (v = JStr [] \<or> v = JNum 0 \<or> v = JArr [])"

text \<open>No member but tags and aliases has a blank value.\<close>

definition keeps_fields :: "(string \<times> json) list \<Rightarrow> bool" where
  "keeps_fields ms = (\<forall>(k, v) \<in> set ms. k \<noteq> ''tags'' \<and> k \<noteq> ''aliases'' \<longrightarrow> \<not> blank_json v)"

lemma keeps_fields_append [simp]: "keeps_fields (xs @ ys) \<longleftrightarrow> keeps_fields xs \<and> keeps_fields ys"
  by (auto simp: keeps_fields_def)

lemma keeps_fields_Nil [simp]: "keeps_fields []"
  by (simp add: keeps_fields_def)

lemma keeps_field_if: "(c \<Longrightarrow> \<not> blank_json v) \<Longrightarrow> keeps_fields (field_if c k v)"
  by (simp add: field_if_def keeps_fields_def)

lemma keeps_tags_aliases: "keeps_fields [(''tags'', v), (''aliases'', w)]"
  by (simp add: keeps_fields_def)

lemma strs_json_blank [simp]: "blank_json (strs_json xs) \<longleftrightarrow> xs = []"
  by (simp add: blank_json_def strs_json_def)

lemma links_json_blank [simp]: "blank_json (links_json xs) \<longleftrightarrow> xs = []"
  by (simp add: blank_json_def links_json_def)

lemma blank_JStr [simp]: "blank_json (JStr s) \<longleftrightarrow> s = []" "blank_json (JNum q) \<longleftrightarrow> q = 0"
  by (simp_all add: blank_json_def)

lemma choice_if_iff [simp]: "choice_if b = Incoming \<longleftrightarrow> b" "choice_if b = Current \<longleftrightarrow> \<not> b"
  by (simp_all add: choice_if_def)

lemma keeps_strings_field:
  "keeps_fields (strings_field k (choice_list cur inc) cur inc)"
  "keeps_fields (strings_field k (accept_list inc) cur inc)"
  by (auto simp: keeps_fields_def strings_field_def choice_list_def accept_list_def)

lemma merge_links_nonempty:
  assumes "l \<in> set inc" "js_trim (el_url l) \<noteq> []"
  shows "mergeExternalLinkArrays [Some cur, Some inc] \<noteq> []"
proof
  assume e: "mergeExternalLinkArrays [Some cur, Some inc] = []"
  have "set (map url_key (mergeExternalLinkArrays [Some cur, Some inc])) = url_key ` set (valid_links (Some (cur @ inc)))"
    unfolding merge_links_keys by simp
  then have "valid_links (Some (cur @ inc)) = []" using e by simp
  with assms show False by (auto simp: valid_links_def filter_empty_conv)
qed

lemma add_links_valid:
  "\<forall>l \<in> set acc. js_trim (el_url l) \<noteq> [] \<Longrightarrow> \<forall>l \<in> set (foldl add_link acc ls). js_trim (el_url l) \<noteq> []"
proof (induction ls arbitrary: acc)
  case (Cons l ls)
  have "\<forall>k \<in> set (add_link acc l). js_trim (el_url k) \<noteq> []"
    using Cons.prems by (simp add: add_link_def)
  from Cons.IH [OF this] show ?case by simp
qed simp

lemma incoming_links_valid: "l \<in> set (incoming_links sources pid r) \<Longrightarrow> js_trim (el_url l) \<noteq> []"
proof -
  have "js_trim (str_or [map_option js_trim (m_url r)] (if js_startsWith (m_id r) ''http'' then js_trim (m_id r) else [])) =
      str_or [map_option js_trim (m_url r)] (if js_startsWith (m_id r) ''http'' then js_trim (m_id r) else [])"
    by (simp split: option.split)
  then have "\<forall>l \<in> set (incoming_links sources pid r). js_trim (el_url l) \<noteq> []"
    unfolding incoming_links_def Let_def by (intro add_links_valid) simp
  then show "l \<in> set (incoming_links sources pid r) \<Longrightarrow> js_trim (el_url l) \<noteq> []" by blast
qed

lemma keeps_links_field:
  assumes "\<And>l. l \<in> set inc \<Longrightarrow> js_trim (el_url l) \<noteq> []"
  shows "keeps_fields (links_field (if inc \<noteq> [] then if b then Multi_Current else Multi_Merged else Multi_Current) cur inc)"
    and "keeps_fields (links_field (accept_list inc) cur inc)"
proof -
  show "keeps_fields (links_field (if inc \<noteq> [] then if b then Multi_Current else Multi_Merged else Multi_Current) cur inc)"
  proof (cases inc)
    case (Cons l ls)
    with assms have "mergeExternalLinkArrays [Some cur, Some inc] \<noteq> []"
      by (intro merge_links_nonempty [of l]) auto
    with Cons show ?thesis by (simp add: links_field_def keeps_fields_def)
  qed (simp add: links_field_def)
qed (simp add: links_field_def accept_list_def keeps_fields_def)

lemma keeps_patch:
  assumes "keeps_fields (strings_field ''authors'' (mc_authors s) (mv_authors cur) (mv_authors inc))"
    and "keeps_fields (strings_field ''artists'' (mc_artists s) (mv_artists cur) (mv_artists inc))"
    and "keeps_fields (strings_field ''publishers'' (mc_publishers s) (mv_publishers cur) (mv_publishers inc))"
    and "keeps_fields (links_field (mc_externalLinks s) (mv_externalLinks cur) (mv_externalLinks inc))"
  shows "keeps_fields (fieldsToPatch cur inc s)"
  unfolding fieldsToPatch_def keeps_fields_append
  by (intro conjI assms keeps_tags_aliases keeps_field_if; simp)

lemma keep_fields [simp]: "strings_field k Multi_Current cur inc = []" "links_field Multi_Current lcur linc = []"
  by (simp_all add: strings_field_def links_field_def)

lemma init_lists:
  "mc_authors (initComparisonState cur inc s) = choice_list (mv_authors cur) (mv_authors inc)"
  "mc_artists (initComparisonState cur inc s) = choice_list (mv_artists cur) (mv_artists inc)"
  "mc_publishers (initComparisonState cur inc s) = choice_list (mv_publishers cur) (mv_publishers inc)"
  "mc_externalLinks (initComparisonState cur inc s) =
     (if mv_externalLinks inc \<noteq> []
      then if areExternalLinkSetsEqual (Some (mv_externalLinks cur)) (Some (mv_externalLinks inc))
           then Multi_Current else Multi_Merged
      else Multi_Current)"
  by (simp_all add: initComparisonState_def)

lemma accept_lists:
  "mc_authors (handleAcceptIncoming cur inc) = accept_list (mv_authors inc)"
  "mc_artists (handleAcceptIncoming cur inc) = accept_list (mv_artists inc)"
  "mc_publishers (handleAcceptIncoming cur inc) = accept_list (mv_publishers inc)"
  "mc_externalLinks (handleAcceptIncoming cur inc) = accept_list (mv_externalLinks inc)"
  by (simp_all add: handleAcceptIncoming_def)

lemma incoming_values_links: "mv_externalLinks (incoming_values sources pid (Some r)) = incoming_links sources pid r"
  by (simp add: incoming_values_def)

lemma merge_keeps_left:
  "set (normalizeSet (Some xs)) \<subseteq> set (normalizeSet (Some (mergeStringArrays [Some xs, Some ys])))"
  unfolding normalizeSet_merge by (auto simp: set_normalizeSet)

definition offered_selections ::
    "metadata_values \<Rightarrow> metadata_values \<Rightarrow> comparison \<Rightarrow> comparison list" where
  "offered_selections cur inc s0 =
     [initComparisonState cur inc s0, handleAcceptIncoming cur inc, handleKeepCurrent cur]"

lemma offered_keeps_fields:
  assumes inc: "inc = incoming_values sources pid (Some r)"
    and s: "s \<in> set (offered_selections cur inc s0)"
  shows "keeps_fields (fieldsToPatch cur inc s)"
proof -
  have links: "js_trim (el_url l) \<noteq> []" if "l \<in> set (mv_externalLinks inc)" for l
    using that unfolding inc incoming_values_links by (rule incoming_links_valid)
  note lists = keeps_strings_field keeps_links_field [OF links]
  from s consider "s = initComparisonState cur inc s0" | "s = handleAcceptIncoming cur inc" | "s = handleKeepCurrent cur"
    unfolding offered_selections_def by auto
  then show ?thesis
  proof cases
    case 1
    show ?thesis unfolding 1 by (rule keeps_patch; unfold init_lists; rule lists)
  next
    case 2
    show ?thesis unfolding 2 by (rule keeps_patch; unfold accept_lists; rule lists)
  next
    case 3
    then show ?thesis by (intro keeps_patch) (simp_all add: handleKeepCurrent_def)
  qed
qed

text \<open>
  C21: No selection the dialog offers on its own (the initial one, "accept incoming", "keep current") sends an empty value
  for a member other than tags and aliases, so an import never erases a field. The aliases sent
  contain every alias of the manga, and so do the tags, except that "accept incoming" replaces them
  by the incoming tags when there are any.
\<close>

theorem import_never_erases:
  fixes cur :: metadata_values
  assumes "inc = incoming_values sources pid (Some r)"
  shows "(\<forall>s \<in> set (offered_selections cur inc s0). \<forall>(k, v) \<in> set (fieldsToPatch cur inc s).
          k \<noteq> ''tags'' \<and> k \<noteq> ''aliases'' \<longrightarrow> \<not> blank_json v) \<and>
      (\<forall>s \<in> set (offered_selections cur inc s0).
          set (normalizeSet (Some (mv_aliases cur))) \<subseteq> set (normalizeSet (Some (mc_aliases s)))) \<and>
      (\<forall>s \<in> set (offered_selections cur inc s0).
          set (normalizeSet (Some (mv_tags cur))) \<subseteq> set (normalizeSet (Some (mc_tags s))) \<or>
          (mc_tags s = mv_tags inc \<and> mv_tags inc \<noteq> []))"
proof (rule conjI3)
  show "\<forall>s \<in> set (offered_selections cur inc s0). \<forall>(k, v) \<in> set (fieldsToPatch cur inc s).
          k \<noteq> ''tags'' \<and> k \<noteq> ''aliases'' \<longrightarrow> \<not> blank_json v"
    using offered_keeps_fields [OF assms] unfolding keeps_fields_def by blast
  show "\<forall>s \<in> set (offered_selections cur inc s0).
          set (normalizeSet (Some (mv_aliases cur))) \<subseteq> set (normalizeSet (Some (mc_aliases s)))"
    by (simp add: offered_selections_def initComparisonState_def handleAcceptIncoming_def handleKeepCurrent_def
        merge_keeps_left)
  show "\<forall>s \<in> set (offered_selections cur inc s0).
          set (normalizeSet (Some (mv_tags cur))) \<subseteq> set (normalizeSet (Some (mc_tags s))) \<or>
          (mc_tags s = mv_tags inc \<and> mv_tags inc \<noteq> [])"
    by (simp add: offered_selections_def initComparisonState_def handleAcceptIncoming_def handleKeepCurrent_def
        merge_keeps_left)
qed

text \<open>\<open>import_never_erases\<close> for a manga "A" and a remote manga with a title and a URL.\<close>

theorem import_never_erases_witness:
  "let r = blank_manga ''r''\<lparr>m_title := Some ''B'', m_url := Some ''u''\<rparr>;
       inc = incoming_values [] ''p'' (Some r);
       cur = no_values\<lparr>mv_title := ''A''\<rparr>;
       s0 = handleKeepCurrent cur
   in \<forall>s \<in> set (offered_selections cur inc s0). \<forall>(k, v) \<in> set (fieldsToPatch cur inc s).
        k \<noteq> ''tags'' \<and> k \<noteq> ''aliases'' \<longrightarrow> \<not> blank_json v"
  unfolding Let_def by (rule conjunct1 [OF import_never_erases [OF refl]])

text \<open>
  "Keep current" followed by an import sends the tags and aliases as they are and binds the
  provider, and nothing else; without a selected remote manga or provider nothing is sent.
\<close>

theorem keep_current_plan:
  "import_plan Import_Mode m pid sel im ids cur inc (handleKeepCurrent cur) =
     (case sel of
        None \<Rightarrow> Plan_Error ''No selection''
      | Some r \<Rightarrow>
          if pid = [] then Plan_Error ''No selection''
          else Plan_Requests
            [api_patchLibraryMangaMetadata (m_id m)
               (JObj [(''tags'', strs_json (mv_tags cur)), (''aliases'', strs_json (mv_aliases cur))]),
             api_addBinding (m_id m)
               \<lparr>pr_provider_id = pid,
                pr_provider_manga_id = str_or [Some (m_id r), m_contentRemoteId r, m_url r] [],
                pr_manga_title = Some (str_or [m_title r] (mv_title inc))\<rparr> None])"
proof -
  have "fieldsToPatch cur inc (handleKeepCurrent cur) =
      [(''tags'', strs_json (mv_tags cur)), (''aliases'', strs_json (mv_aliases cur))]"
    by (simp add: fieldsToPatch_def handleKeepCurrent_def field_if_def)
  moreover have "mc_readingMode (handleKeepCurrent cur) = Current"
    by (simp add: handleKeepCurrent_def)
  ultimately show ?thesis
    by (simp add: import_plan_def Let_def split: option.split)
qed

text \<open>
  The suggested aliases: the test that should add the current title compares the incoming title
  with itself, so the current title is suggested only when it is an alias already or is the incoming
  title up to case; the incoming title is suggested exactly when it differs from the current one.
\<close>

theorem aliases_suggested:
  "allAvailableAliases cur inc =
     mergeStringArrays
       [Some (mv_aliases cur), Some (mv_aliases inc), Some (if df_title (diffs mode cur inc) then [mv_title inc] else [])]"
  by (simp add: allAvailableAliases_def diffs_def text_diff_def mergeStringArrays_def loop_arrays_def)

text \<open>
  A remote title that differs from the current one in case only: the dialog reports no difference,
  yet the initial selection takes the remote title and the import sends it.
\<close>

theorem case_only_title_imported:
  "mv_title inc \<noteq> [] \<and> mv_title inc \<noteq> mv_title cur \<and> js_lower (mv_title inc) = js_lower (mv_title cur) \<longrightarrow>
     \<not> df_title (diffs mode cur inc) \<and>
     (''title'', JStr (mv_title inc)) \<in> set (fieldsToPatch cur inc (initComparisonState cur inc s))"
  by (simp add: diffs_def text_diff_def fieldsToPatch_def initComparisonState_def field_if_def)

text \<open>\<open>case_only_title_imported\<close> for the titles "ab" and "AB".\<close>

theorem case_only_title_imported_witness:
  "\<not> df_title (diffs Import_Mode (no_values\<lparr>mv_title := ''ab''\<rparr>) (no_values\<lparr>mv_title := ''AB''\<rparr>))"
proof -
  have "js_lower ''AB'' = js_lower ''ab''" by code_simp
  then show ?thesis
    using case_only_title_imported
      [of "no_values\<lparr>mv_title := ''AB''\<rparr>" "no_values\<lparr>mv_title := ''ab''\<rparr>" Import_Mode]
    by simp
qed

end
