(* ===== verification/Lib_Utils.thy ===== *)
theory Lib_Utils
  imports Types_Api Uri
begin

text \<open>
  \<open>lib/utils.ts\<close> and \<open>utils/image.ts\<close>: the URLs that images are loaded from and the chapter
  title with its page indicator. The title pattern
  \<^verbatim>\<open>/^((?:Vol\.\s*\d+\s+)?(?:Chapter|Ch\.)\s*[\d.]+|\d+)(.*)$/i\<close> is translated by hand:
  its pieces start with different characters, so the greedy match is the only one and no
  backtracking is needed.
\<close>

section \<open>Image URLs\<close>

definition getProxyImageUrl :: "string option \<Rightarrow> string option \<Rightarrow> string" where
  "getProxyImageUrl url referer =
     (if \<not> truthy_str url then []
      else let u = the url
      in if js_startsWith u ''/'' \<or> js_startsWith u ''data:'' \<or> js_startsWith u ''blob:'' then u
         else let proxyUrl = ''/api/v1/proxy/image?url='' @ encodeURIComponent u
              in if truthy_str referer
                 then proxyUrl @ ''&referer='' @ encodeURIComponent (the referer) else proxyUrl)"

definition getPageImageUrl ::
    "page option \<Rightarrow> string option \<Rightarrow> string option \<Rightarrow> string option \<Rightarrow> string option \<Rightarrow> string" where
  "getPageImageUrl page mangaId chapterId providerId referer =
     (case page of
        None \<Rightarrow> []
      | Some p \<Rightarrow>
          if truthy_str (pg_assetUrl p) then the (pg_assetUrl p)
          else if truthy_str mangaId \<and> truthy_str chapterId \<and> 0 < pg_index p then
            let pageUrl = ''/api/v1/library/manga/'' @ encodeURIComponent (the mangaId) @
                  ''/chapters/'' @ encodeURIComponent (the chapterId) @
                  ''/pages/'' @ num_str (pg_index p);
                ps1 = (if pg_url p \<noteq> [] then params_set ''url'' (pg_url p) [] else []);
                ps2 = (if truthy_str providerId \<and> the providerId \<noteq> ''chapters''
                       then params_set ''provider_id'' (the providerId) ps1 else ps1);
                query = params_toString ps2
            in if query \<noteq> [] then pageUrl @ ''?'' @ query else pageUrl
          else getProxyImageUrl (Some (pg_url p)) referer)"

text \<open>\<open>getProxyImageUrl\<close> of \<open>utils/image.ts\<close>.\<close>

definition image_getProxyImageUrl :: "string option \<Rightarrow> string option" where
  "image_getProxyImageUrl url =
     (if \<not> truthy_str url then None
      else let u = the url
      in if js_startsWith u ''http://'' \<or> js_startsWith u ''https://''
         then Some (''/api/v1/proxy/image?url='' @ encodeURIComponent u) else Some u)"

section \<open>Chapter titles\<close>

definition is_digit :: "char \<Rightarrow> bool" where
  "is_digit c = (let n = of_char c :: nat in 48 \<le> n \<and> n \<le> 57)"

text \<open>A case-insensitive literal at the front, as the flag \<open>i\<close> reads it (the literal in lower case).\<close>

definition strip_ci :: "string \<Rightarrow> string \<Rightarrow> string option" where
  "strip_ci p s = (if js_lower (take (length p) s) = p then Some (drop (length p) s) else None)"

definition strip_volume :: "string \<Rightarrow> string" where
  "strip_volume s =
     (case strip_ci ''vol.'' s of
        None \<Rightarrow> s
      | Some r \<Rightarrow>
          let r1 = dropWhile is_ws r; r2 = dropWhile is_digit r1; r3 = dropWhile is_ws r2
          in if r2 \<noteq> r1 \<and> r3 \<noteq> r2 then r3 else s)"

definition strip_chapter :: "string \<Rightarrow> string option" where
  "strip_chapter s =
     (case (case strip_ci ''chapter'' s of Some r \<Rightarrow> Some r | None \<Rightarrow> strip_ci ''ch.'' s) of
        None \<Rightarrow> None
      | Some r \<Rightarrow>
          let r1 = dropWhile is_ws r; r2 = dropWhile (\<lambda>c. is_digit c \<or> c = CHR ''.'') r1
          in if r2 \<noteq> r1 then Some r2 else None)"

definition chapter_match :: "string \<Rightarrow> (string \<times> string) option" where
  "chapter_match s =
     (let rest =
        (case strip_chapter (strip_volume s) of
           Some r \<Rightarrow> Some r
         | None \<Rightarrow> if dropWhile is_digit s \<noteq> s then Some (dropWhile is_digit s) else None)
      in case rest of
           None \<Rightarrow> None
         | Some r \<Rightarrow>
             if CHR 10 \<in> set r \<or> CHR 13 \<in> set r then None
             else Some (take (length s - length r) s, r))"

definition page_indicator :: "rat \<Rightarrow> rat option \<Rightarrow> string" where
  "page_indicator cur tot =
     (if truthy_num tot \<and> 0 < the tot
      then ''('' @ num_str cur @ ''/'' @ num_str (the tot) @ '')''
      else ''(p. '' @ num_str cur @ '')'')"

definition formatChapterTitleWithPage ::
    "string option \<Rightarrow> rat option \<Rightarrow> rat option \<Rightarrow> rat option \<Rightarrow> string" where
  "formatChapterTitleWithPage chapterTitle currentPage totalPages chapterNumber =
     (if \<not> truthy_str chapterTitle \<and> chapterNumber = None then []
      else
        let baseTitle = str_or [chapterTitle]
              (case chapterNumber of Some n \<Rightarrow> ''Chapter '' @ num_str n | None \<Rightarrow> [])
        in if \<not> truthy_num currentPage \<or> the currentPage < 1 then baseTitle
           else
             let pageStr = page_indicator (the currentPage) totalPages
             in case chapter_match baseTitle of
                  Some (chapterPart, restPart) \<Rightarrow> chapterPart @ '' '' @ pageStr @ restPart
                | None \<Rightarrow>
                    (case chapterNumber of
                       Some n \<Rightarrow>
                         if \<not> js_includes (js_lower baseTitle) (''chapter '' @ num_str n)
                         then ''Chapter '' @ num_str n @ '' '' @ pageStr @ '': '' @ baseTitle
                         else baseTitle @ '' '' @ pageStr
                     | None \<Rightarrow> baseTitle @ '' '' @ pageStr))"

section \<open>Lemmas\<close>

lemma dropWhile_suffix: "\<exists>p. s = p @ dropWhile P s"
  by (metis takeWhile_dropWhile_id)

lemma strip_ci_suffix: "strip_ci p s = Some r \<Longrightarrow> \<exists>q. s = q @ r"
  by (metis append_take_drop_id option.distinct(1) option.inject strip_ci_def)

lemma strip_volume_suffix: "\<exists>q. s = q @ strip_volume s"
proof (cases "strip_ci ''vol.'' s")
  case None
  then show ?thesis by (simp add: strip_volume_def)
next
  case (Some r)
  from strip_ci_suffix [OF Some] obtain q where q: "s = q @ r" by blast
  obtain a b c where "r = a @ dropWhile is_ws r"
      "dropWhile is_ws r = b @ dropWhile is_digit (dropWhile is_ws r)"
      "dropWhile is_digit (dropWhile is_ws r) = c @ dropWhile is_ws (dropWhile is_digit (dropWhile is_ws r))"
    using dropWhile_suffix by metis
  with q have "s = (q @ a @ b @ c) @ dropWhile is_ws (dropWhile is_digit (dropWhile is_ws r))"
    by (metis append.assoc)
  then show ?thesis using Some by (auto simp: strip_volume_def Let_def)
qed

lemma strip_chapter_suffix: "strip_chapter s = Some r \<Longrightarrow> \<exists>q. s = q @ r"
proof -
  assume *: "strip_chapter s = Some r"
  then obtain t where t: "strip_ci ''chapter'' s = Some t \<or> strip_ci ''ch.'' s = Some t"
      and r: "r = dropWhile (\<lambda>c. is_digit c \<or> c = CHR ''.'') (dropWhile is_ws t)"
    by (auto simp: strip_chapter_def Let_def split: option.splits if_splits)
  obtain q where "s = q @ t" using t strip_ci_suffix by blast
  moreover obtain a b where "t = a @ dropWhile is_ws t" "dropWhile is_ws t = b @ r"
    unfolding r using dropWhile_suffix by metis
  ultimately have "s = (q @ a @ b) @ r" by simp
  then show ?thesis by blast
qed

lemma chapter_match_append: "chapter_match s = Some (a, b) \<Longrightarrow> s = a @ b"
proof -
  assume *: "chapter_match s = Some (a, b)"
  have "\<exists>q. s = q @ b"
    using * strip_volume_suffix [of s] strip_chapter_suffix [of "strip_volume s" b] dropWhile_suffix [of s is_digit]
    by (auto simp: chapter_match_def Let_def split: option.splits if_splits)
  then obtain q where q: "s = q @ b" by blast
  moreover have "a = take (length s - length b) s"
    using * by (auto simp: chapter_match_def Let_def split: option.splits if_splits)
  ultimately show ?thesis by simp
qed

lemma uri_decode_encode: "uri_decode False (encodeURIComponent s) = Some s"
  unfolding encodeURIComponent_def by (rule uri.dec_enc)

lemma form_decode_encode: "uri_decode True (form_encode s) = Some s"
  unfolding form_encode_def by (rule form.dec_enc)

lemma no_amp_uri: "CHR ''&'' \<notin> set (encodeURIComponent s)"
  by (rule encodeURIComponent_no_delim) simp

lemma no_slash_uri: "CHR ''/'' \<notin> set (encodeURIComponent s)"
  by (rule encodeURIComponent_no_delim) simp

lemma no_amp_form: "CHR ''&'' \<notin> set (form_encode s)"
  by (rule form_encode_no_delim) simp

section \<open>Properties\<close>

text \<open>
  The image proxy URL carries exactly what it was built from. A local, data or blob URL is
  passed through; of any other URL the query string has one parameter \<open>url\<close> that decodes to
  it, and a second one \<open>referer\<close> exactly when a referer is given, whatever characters the two
  contain.
\<close>

theorem getProxyImageUrl_query:
  assumes url: "u \<noteq> []"
    and remote: "\<not> prefix ''/'' u" "\<not> prefix ''data:'' u" "\<not> prefix ''blob:'' u"
  shows "\<exists>q eu er. getProxyImageUrl (Some u) referer = ''/api/v1/proxy/image?'' @ q \<and>
    js_split (CHR ''&'') q =
      (if truthy_str referer then [''url='' @ eu, ''referer='' @ er] else [''url='' @ eu]) \<and>
    uri_decode False eu = Some u \<and>
    (truthy_str referer \<longrightarrow> uri_decode False er = referer)"
proof -
  let ?eu = "encodeURIComponent u" and ?er = "encodeURIComponent (the referer)"
  have eu: "CHR ''&'' \<notin> set (''url='' @ ?eu)" using no_amp_uri [of u] by simp
  have er: "CHR ''&'' \<notin> set (''referer='' @ ?er)" using no_amp_uri [of "the referer"] by simp
  let ?q = "''url='' @ ?eu @ (if truthy_str referer then CHR ''&'' # (''referer='' @ ?er) else [])"
  have "js_split (CHR ''&'') ?q =
      (if truthy_str referer then [''url='' @ ?eu, ''referer='' @ ?er] else [''url='' @ ?eu])"
    using js_split_append [OF eu, of "''referer='' @ ?er"] js_split_no_delim [OF eu] js_split_no_delim [OF er]
    by auto
  moreover have "getProxyImageUrl (Some u) referer = ''/api/v1/proxy/image?'' @ ?q"
    using url remote by (simp add: getProxyImageUrl_def js_startsWith_def Let_def)
  ultimately show ?thesis
    by (intro exI [of _ ?q] exI [of _ ?eu] exI [of _ ?er]) (auto simp: uri_decode_encode truthy_str_def split: option.splits)
qed

theorem getProxyImageUrl_query_witness:
  "\<exists>q eu er. getProxyImageUrl (Some ''http://x/a&b'') (Some ''r'') = ''/api/v1/proxy/image?'' @ q \<and>
    js_split (CHR ''&'') q = [''url='' @ eu, ''referer='' @ er] \<and>
    uri_decode False eu = Some ''http://x/a&b''"
  using getProxyImageUrl_query [of "''http://x/a&b''" "Some ''r''"] by auto

text \<open>
  The URL of a library page names its manga and chapter unambiguously. Without an asset
  URL, the path is \<open>manga/.../chapters/.../pages/<index>\<close> with two segments that contain no
  slash and decode to the two ids; the query string, if any, passes the page's own URL and
  the provider, each recoverable, and the pseudo provider \<open>chapters\<close> is left out.
\<close>

theorem getPageImageUrl_library:
  assumes "\<not> truthy_str (pg_assetUrl p)" "mid \<noteq> []" "cid \<noteq> []" "0 < pg_index p"
  shows "\<exists>em ec q ps. getPageImageUrl (Some p) (Some mid) (Some cid) prov referer =
      ''/api/v1/library/manga/'' @ em @ ''/chapters/'' @ ec @ ''/pages/'' @ num_str (pg_index p) @ q \<and>
    uri_decode False em = Some mid \<and> CHR ''/'' \<notin> set em \<and>
    uri_decode False ec = Some cid \<and> CHR ''/'' \<notin> set ec \<and>
    ps = (if pg_url p \<noteq> [] then [(''url'', pg_url p)] else []) @
      (if truthy_str prov \<and> prov \<noteq> Some ''chapters'' then [(''provider_id'', the prov)] else []) \<and>
    (if ps = [] then q = [] else q = CHR ''?'' # params_toString ps)"
proof -
  let ?ps1 = "if pg_url p \<noteq> [] then params_set ''url'' (pg_url p) [] else []"
  let ?ps2 = "if truthy_str prov \<and> the prov \<noteq> ''chapters'' then params_set ''provider_id'' (the prov) ?ps1 else ?ps1"
  let ?ps = "(if pg_url p \<noteq> [] then [(''url'', pg_url p)] else []) @
      (if truthy_str prov \<and> prov \<noteq> Some ''chapters'' then [(''provider_id'', the prov)] else [])"
  have ps: "?ps2 = ?ps" by (cases prov) auto
  have ne: "params_toString ?ps \<noteq> [] \<longleftrightarrow> ?ps \<noteq> []" by auto
  let ?q = "if ?ps = [] then [] else CHR ''?'' # params_toString ?ps"
  have "getPageImageUrl (Some p) (Some mid) (Some cid) prov referer =
      ''/api/v1/library/manga/'' @ encodeURIComponent mid @ ''/chapters/'' @ encodeURIComponent cid @
      ''/pages/'' @ num_str (pg_index p) @ ?q"
    using assms ne ps by (cases prov) (auto simp: getPageImageUrl_def Let_def)
  then show ?thesis
    by (intro exI [of _ "encodeURIComponent mid"] exI [of _ "encodeURIComponent cid"] exI [of _ ?q] exI [of _ ?ps])
      (simp add: uri_decode_encode no_slash_uri)
qed

theorem getPageImageUrl_library_witness:
  "\<exists>em. uri_decode False em = Some ''m/1'' \<and> CHR ''/'' \<notin> set em"
  using getPageImageUrl_library [of "\<lparr>pg_index = 2, pg_url = ''http://x'', pg_assetUrl = None\<rparr>" "''m/1''" "''c 1''"
      "Some ''chapters''" None] by auto

text \<open>
  the page indicator is inserted into the chapter title and nothing of the title is lost:
  the result is the title itself before page 1, otherwise the title cut in two around
  the indicator, or the indicator after the chapter number in front of the title.
\<close>

theorem formatChapterTitle_inserts:
  "(t \<noteq> [] \<and> \<not> (truthy_num cur \<and> 1 \<le> the cur) \<longrightarrow>
     formatChapterTitleWithPage (Some t) cur tot num = t) \<and>
   (t \<noteq> [] \<and> truthy_num cur \<and> 1 \<le> the cur \<longrightarrow>
     (\<exists>a b. t = a @ b \<and> formatChapterTitleWithPage (Some t) cur tot num =
        a @ '' '' @ page_indicator (the cur) tot @ b) \<or>
     (\<exists>n. num = Some n \<and> formatChapterTitleWithPage (Some t) cur tot num =
        ''Chapter '' @ num_str n @ '' '' @ page_indicator (the cur) tot @ '': '' @ t))"
proof (intro conjI impI)
  assume "t \<noteq> [] \<and> \<not> (truthy_num cur \<and> 1 \<le> the cur)"
  then show "formatChapterTitleWithPage (Some t) cur tot num = t"
    by (auto simp: formatChapterTitleWithPage_def)
next
  assume t: "t \<noteq> [] \<and> truthy_num cur \<and> 1 \<le> the cur"
  let ?f = "formatChapterTitleWithPage (Some t) cur tot num" and ?p = "page_indicator (the cur) tot"
  show "(\<exists>a b. t = a @ b \<and> ?f = a @ '' '' @ ?p @ b) \<or>
    (\<exists>n. num = Some n \<and> ?f = ''Chapter '' @ num_str n @ '' '' @ ?p @ '': '' @ t)"
  proof (cases "chapter_match t")
    case (Some ab)
    obtain a b where ab: "ab = (a, b)" by fastforce
    then have "t = a @ b" using chapter_match_append Some by blast
    then show ?thesis using Some ab t by (auto simp: formatChapterTitleWithPage_def Let_def)
  next
    case None
    have "?f = t @ '' '' @ ?p @ [] \<or> (\<exists>n. num = Some n \<and> ?f = ''Chapter '' @ num_str n @ '' '' @ ?p @ '': '' @ t)"
      using None t by (auto simp: formatChapterTitleWithPage_def Let_def split: option.splits)
    then show ?thesis by (metis append.right_neutral)
  qed
qed

theorem formatChapterTitle_inserts_witness:
  "formatChapterTitleWithPage (Some ''Vol. 2 Ch. 10.5: End'') (Some 3) (Some 20) (Some (21/2)) =
     ''Vol. 2 Ch. 10.5 (3/20): End'' \<and>
   (\<exists>a b. ''Vol. 2 Ch. 10.5: End'' = a @ b) "
proof -
  have "formatChapterTitleWithPage (Some ''Vol. 2 Ch. 10.5: End'') (Some 3) (Some 20) (Some (21/2)) =
     ''Vol. 2 Ch. 10.5 (3/20): End''" by code_simp
  then show ?thesis
    using formatChapterTitle_inserts [of "''Vol. 2 Ch. 10.5: End''" "Some 3" "Some 20" "Some (21/2)"] by blast
qed

end
