(* ===== verification/Edit_Form.thy ===== *)
theory Edit_Form
  imports Api_Hooks
begin

text \<open>
  \<open>components/hooks/useEditMetadataForm.ts\<close>: the form that edits the metadata of a library manga:
  its initial values, the effect that resets it when it is opened, the edits of the link list, and
  the payload of \<open>handleSubmit\<close>.
\<close>

section \<open>State\<close>

record edit_form =
  ef_title :: string
  ef_aliases :: "string list"
  ef_description :: string
  ef_authors :: "string list"
  ef_artists :: "string list"
  ef_publishers :: "string list"
  ef_readingMode :: string
  ef_contentRating :: string
  ef_releaseYear :: rat
  ef_startDate :: string
  ef_endDate :: string
  ef_country :: string
  ef_tags :: "string list"
  ef_shelves :: "string list"
  ef_externalLinks :: "external_link list"

definition getInitialReadingMode :: "manga \<Rightarrow> string" where
  "getInitialReadingMode m =
     str_or [Option.bind (Option.bind (m_bindings m) mb_content) cs_reading_mode,
             Option.bind (m_content m) cs_reading_mode, m_readingMode m, m_reading_mode m, m_readingDirection m]
       ''rtl''"

text \<open>\<open>manga.metadata?.x\<close>, and the fallback of a list to the joined list and to a single name.\<close>

definition of_meta :: "manga \<Rightarrow> (manga_metadata \<Rightarrow> 'a option) \<Rightarrow> 'a option" where
  "of_meta m f = Option.bind (m_metadata m) f"

definition names_or_single :: "string list option \<Rightarrow> string list option \<Rightarrow> string option \<Rightarrow> string list" where
  "names_or_single inner joined single =
     nonempty_or inner (nonempty_or joined (if truthy_str single then [the single] else []))"

definition initial_form :: "manga \<Rightarrow> edit_form" where
  "initial_form m =
     \<lparr>ef_title = str_or [m_title m] [],
      ef_aliases = nonempty_or (of_meta m md_aliases) (coalesce_or [m_aliases m] []),
      ef_description = coalesce_or [of_meta m md_description, m_description m] [],
      ef_authors = names_or_single (of_meta m md_authors) (m_authors m) (m_author m),
      ef_artists = names_or_single (of_meta m md_artists) (m_artists m) (m_artist m),
      ef_publishers = names_or_single (of_meta m md_publishers) (m_publishers m) (m_publisher m),
      ef_readingMode = getInitialReadingMode m,
      ef_contentRating = coalesce_or [of_meta m md_content_rating, m_contentRating m] ''safe'',
      ef_releaseYear =
        coalesce_or [of_meta m md_releaseYear, of_meta m md_release_year, m_releaseYear m, m_release_year m] 0,
      ef_startDate =
        coalesce_or [of_meta m md_startDate, of_meta m md_start_date, m_startDate m, m_start_date m] [],
      ef_endDate = coalesce_or [of_meta m md_endDate, of_meta m md_end_date, m_endDate m, m_end_date m] [],
      ef_country = coalesce_or [of_meta m md_country, m_country m] ''JP'',
      ef_tags = nonempty_or (of_meta m md_tags) (nonempty_or (m_tags m) (coalesce_or [m_genres m] [])),
      ef_shelves = coalesce_or [m_shelves m, m_collections m, of_meta m md_collections] [],
      ef_externalLinks = nonempty_or (of_meta m md_externalLinks) (coalesce_or [m_externalLinks m] [])\<rparr>"

text \<open>The effect on \<open>[open, manga]\<close>: an open dialog starts from the manga, a closed one keeps its values.\<close>

definition open_effect :: "bool \<Rightarrow> manga \<Rightarrow> edit_form \<Rightarrow> edit_form" where
  "open_effect is_open m f = (if is_open then initial_form m else f)"

section \<open>The link list\<close>

definition handleAddLink :: "edit_form \<Rightarrow> edit_form" where
  "handleAddLink f =
     f\<lparr>ef_externalLinks :=
         ef_externalLinks f @ [\<lparr>el_provider = ''custom'', el_label = ''Custom Link'', el_url = []\<rparr>]\<rparr>"

fun remove_at :: "nat \<Rightarrow> 'a list \<Rightarrow> 'a list" where
  "remove_at i [] = []"
| "remove_at 0 (x # xs) = xs"
| "remove_at (Suc i) (x # xs) = x # remove_at i xs"

definition handleRemoveLink :: "nat \<Rightarrow> edit_form \<Rightarrow> edit_form" where
  "handleRemoveLink i f = f\<lparr>ef_externalLinks := remove_at i (ef_externalLinks f)\<rparr>"

datatype link_member = Link_Provider | Link_Label | Link_Url

definition set_link :: "link_member \<Rightarrow> string \<Rightarrow> external_link \<Rightarrow> external_link" where
  "set_link k v l =
     (case k of Link_Provider \<Rightarrow> l\<lparr>el_provider := v\<rparr> | Link_Label \<Rightarrow> l\<lparr>el_label := v\<rparr>
      | Link_Url \<Rightarrow> l\<lparr>el_url := v\<rparr>)"

text \<open>
  The index is that of a rendered row. Past the end of the list the assignment would make an
  incomplete link, which has no \<open>external_link\<close>: \<open>None\<close>.
\<close>

definition handleLinkChange :: "nat \<Rightarrow> link_member \<Rightarrow> string \<Rightarrow> edit_form \<Rightarrow> edit_form option" where
  "handleLinkChange i k v f =
     (if i < length (ef_externalLinks f)
      then Some (f\<lparr>ef_externalLinks := (ef_externalLinks f)[i := set_link k v (ef_externalLinks f ! i)]\<rparr>)
      else None)"

section \<open>Submitting\<close>

definition sent_links :: "edit_form \<Rightarrow> external_link list" where
  "sent_links f = filter (\<lambda>l. js_trim (el_url l) \<noteq> []) (ef_externalLinks f)"

definition metadata_payload :: "edit_form \<Rightarrow> (string \<times> json) list" where
  "metadata_payload f =
     [(''title'', JStr (ef_title f)),
      (''aliases'', strs_json (ef_aliases f)),
      (''description'', JStr (ef_description f)),
      (''authors'', strs_json (ef_authors f)),
      (''artists'', strs_json (ef_artists f)),
      (''publishers'', strs_json (ef_publishers f)),
      (''publisher'', JStr (case ef_publishers f of p # ps \<Rightarrow> p | [] \<Rightarrow> [])),
      (''contentRating'', JStr (ef_contentRating f)),
      (''content_rating'', JStr (ef_contentRating f)),
      (''releaseYear'', JNum (ef_releaseYear f)),
      (''release_year'', JNum (ef_releaseYear f)),
      (''startDate'', JStr (ef_startDate f)),
      (''start_date'', JStr (ef_startDate f)),
      (''endDate'', JStr (ef_endDate f)),
      (''end_date'', JStr (ef_endDate f)),
      (''country'', JStr (ef_country f)),
      (''tags'', strs_json (ef_tags f)),
      (''shelves'', strs_json (ef_shelves f)),
      (''collections'', strs_json (ef_shelves f)),
      (''externalLinks'', links_json (sent_links f)),
      (''external_links'', links_json (sent_links f))]"

definition content_members :: "content_source \<Rightarrow> (string \<times> json) list" where
  "content_members c =
     [(''provider_id'', JStr (cs_provider_id c)),
      (''provider_manga_id'', json_of_opt JStr (cs_provider_manga_id c)),
      (''chapter_ref'', json_of_opt JStr (cs_chapter_ref c)),
      (''last_synced_at'', json_of_opt JStr (cs_last_synced_at c)),
      (''reading_mode'', json_of_opt JStr (cs_reading_mode c))]"

definition bindings_members :: "manga_bindings \<Rightarrow> (string \<times> json) list" where
  "bindings_members b =
     [(''providers'', json_of_opt (\<lambda>ps. JArr (map (\<lambda>p. JObj (provider_ref_members p)) ps)) (mb_providers b)),
      (''content'', json_of_opt (\<lambda>c. JObj (content_members c)) (mb_content b))]"

text \<open>\<open>manga.bindings?.content || manga.content || {}\<close>, with the provider and the reading mode set.\<close>

definition active_content :: "manga \<Rightarrow> content_source option" where
  "active_content m = coalesce [Option.bind (m_bindings m) mb_content, m_content m]"

definition content_provider_id :: "manga \<Rightarrow> string" where
  "content_provider_id m =
     str_or [map_option cs_provider_id (Option.bind (m_bindings m) mb_content),
             map_option cs_provider_id (m_content m), m_contentProviderId m, m_sourceId m] []"

definition content_payload :: "manga \<Rightarrow> edit_form \<Rightarrow> (string \<times> json) list" where
  "content_payload m f =
     mset_key ''reading_mode'' (JStr (ef_readingMode f))
       (mset_key ''provider_id'' (JStr (content_provider_id m))
         (case active_content m of None \<Rightarrow> [] | Some c \<Rightarrow> content_members c))"

definition bindings_payload :: "manga \<Rightarrow> edit_form \<Rightarrow> (string \<times> json) list" where
  "bindings_payload m f =
     mset_key ''content'' (JObj (content_payload m f))
       (case m_bindings m of None \<Rightarrow> [] | Some b \<Rightarrow> bindings_members b)"

definition edit_payload :: "manga \<Rightarrow> edit_form \<Rightarrow> (string \<times> json) list" where
  "edit_payload m f =
     [(''metadata'', JObj (metadata_payload f)), (''bindings'', JObj (bindings_payload m f))]"

definition handleSubmit :: "manga \<Rightarrow> edit_form \<Rightarrow> mutation" where
  "handleSubmit m f = useUpdateLibraryMangaMutation (m_id m) (edit_payload m f)"

section \<open>Properties\<close>

lemma edit_payload_unaliased: "patch_payload (edit_payload m f) = edit_payload m f"
proof -
  have "\<not> mhas (edit_payload m f) k" if "k \<noteq> ''metadata''" "k \<noteq> ''bindings''" for k
    using that by (simp add: mhas_def edit_payload_def)
  then show ?thesis by (simp add: patch_payload_def alias_key_def)
qed

lemma handleSubmit_request:
  "mu_request (handleSubmit m f) = json_req PATCH (lib_manga (m_id m)) (JObj (edit_payload m f))"
  by (simp add: handleSubmit_def useUpdateLibraryMangaMutation_def api_patchLibraryManga_def edit_payload_unaliased)

lemma nonempty_or_Some [simp]: "xs \<noteq> [] \<Longrightarrow> nonempty_or (Some xs) d = xs"
  by (cases xs) (simp_all add: nonempty_or_def)

lemma names_or_single_Some [simp]: "xs \<noteq> [] \<Longrightarrow> names_or_single (Some xs) j s = xs"
  by (simp add: names_or_single_def)

text \<open>The members of the metadata a form edits, as the request has them.\<close>

definition sent_metadata :: "manga \<Rightarrow> edit_form \<Rightarrow> string \<Rightarrow> json" where
  "sent_metadata m f k = jget (jget (JObj (edit_payload m f)) ''metadata'') k"

lemma sent_metadata_eq: "sent_metadata m f k = mget (metadata_payload f) k"
  by (simp add: sent_metadata_def jget_def edit_payload_def mget_Cons)

text \<open>
  The metadata of a manga are complete: every member the form edits is there, and the lists and the
  URLs of the links are not empty.
\<close>

definition complete_metadata :: "manga_metadata \<Rightarrow> bool" where
  "complete_metadata d =
     (md_title d \<noteq> None \<and> md_description d \<noteq> None \<and> md_content_rating d \<noteq> None \<and> md_release_year d \<noteq> None \<and>
      md_start_date d \<noteq> None \<and> md_end_date d \<noteq> None \<and> md_country d \<noteq> None \<and>
      md_releaseYear d \<in> {None, md_release_year d} \<and> md_startDate d \<in> {None, md_start_date d} \<and>
      md_endDate d \<in> {None, md_end_date d} \<and>
      list_all (\<lambda>xs. xs \<noteq> None \<and> xs \<noteq> Some []) [md_aliases d, md_authors d, md_artists d, md_publishers d, md_tags d] \<and>
      (case md_externalLinks d of None \<Rightarrow> False | Some ls \<Rightarrow> ls \<noteq> [] \<and> list_all (\<lambda>l. js_trim (el_url l) \<noteq> []) ls))"

lemma coalesce_or_alias: "x \<in> {None, Some y} \<Longrightarrow> coalesce_or (x # Some y # zs) d = y"
  by auto


text \<open>\<open>edit_roundtrip\<close> for a manga with complete metadata.\<close>

definition sample_metadata :: manga_metadata where
  "sample_metadata =
     blank_manga_metadata\<lparr>md_title := Some ''T'', md_description := Some ''D'', md_content_rating := Some ''safe'',
       md_release_year := Some 1999, md_start_date := Some ''1999'', md_end_date := Some [], md_country := Some ''JP'',
       md_aliases := Some [''A''], md_authors := Some [''B''], md_artists := Some [''C''], md_publishers := Some [''P''],
       md_tags := Some [''G''],
       md_externalLinks := Some [\<lparr>el_provider = ''x'', el_label = ''y'', el_url = ''u''\<rparr>]\<rparr>"

lemma sample_complete: "complete_metadata sample_metadata" "md_title sample_metadata = Some ''T''"
proof -
  have "js_trim ''u'' \<noteq> []" by code_simp
  then show "complete_metadata sample_metadata"
    by (simp add: complete_metadata_def sample_metadata_def)
qed (simp add: sample_metadata_def)


text \<open>
  The title the form starts from is the joined one only: for a manga whose title is in its
  metadata alone, saving the unchanged form sends an empty title.
\<close>

theorem edit_title_from_joined:
  "sent_metadata m (open_effect True m f) ''title'' = JStr (coalesce_or [m_title m] []) \<and>
   (m_title m = None \<longrightarrow> sent_metadata m (open_effect True m f) ''title'' = JStr [])"
  by (simp add: open_effect_def sent_metadata_eq metadata_payload_def mget_Cons initial_form_def split: option.split)

text \<open>
  The bindings a save sends keep the provider list, and the content source of the manga but for
  its reading mode, which is the one chosen; the provider is one the manga names. Links without a
  URL are left out, and removing the link that \<open>handleAddLink\<close> adds gives the form back.
\<close>

theorem edit_bindings:
  fixes m :: manga
  assumes "m_bindings m = Some b"
  shows "(mget (bindings_payload m f) ''providers'' = mget (bindings_members b) ''providers'') \<and>
    (mget (members (mget (bindings_payload m f) ''content'')) ''reading_mode'' = JStr (ef_readingMode f)) \<and>
    (\<forall>c. mb_content b = Some c \<and> cs_provider_id c \<noteq> [] \<longrightarrow>
       (\<forall>k. k \<noteq> ''reading_mode'' \<longrightarrow>
          mget (members (mget (bindings_payload m f) ''content'')) k = mget (content_members c) k)) \<and>
    (\<forall>l \<in> set (sent_links f). js_trim (el_url l) \<noteq> []) \<and>
    handleRemoveLink (length (ef_externalLinks f)) (handleAddLink f) = f"
proof (rule conjI5)
  show "mget (bindings_payload m f) ''providers'' = mget (bindings_members b) ''providers''"
    by (simp add: bindings_payload_def assms mget_mset_key)
  show "mget (members (mget (bindings_payload m f) ''content'')) ''reading_mode'' = JStr (ef_readingMode f)"
    by (simp add: bindings_payload_def content_payload_def mget_mset_key)
  show "\<forall>c. mb_content b = Some c \<and> cs_provider_id c \<noteq> [] \<longrightarrow>
       (\<forall>k. k \<noteq> ''reading_mode'' \<longrightarrow>
          mget (members (mget (bindings_payload m f) ''content'')) k = mget (content_members c) k)"
    by (auto simp: bindings_payload_def content_payload_def mget_mset_key assms active_content_def
        content_provider_id_def content_members_def mget_Cons)
  show "\<forall>l \<in> set (sent_links f). js_trim (el_url l) \<noteq> []"
    by (simp add: sent_links_def)
  have "remove_at (length xs) (xs @ [x]) = xs" for x :: external_link and xs
    by (induction xs) simp_all
  then show "handleRemoveLink (length (ef_externalLinks f)) (handleAddLink f) = f"
    by (simp add: handleRemoveLink_def handleAddLink_def)
qed

text \<open>\<open>edit_bindings\<close> for a manga without a content source.\<close>

theorem edit_bindings_witness:
  "let m = (blank_manga ''m'')\<lparr>m_bindings := Some blank_manga_bindings\<rparr>; f = initial_form m
   in mget (bindings_payload m f) ''providers'' = mget (bindings_members blank_manga_bindings) ''providers''"
  unfolding Let_def by (rule conjunct1 [OF edit_bindings]) simp

end
