(* ===== verification/Library_Filters.thy ===== *)
theory Library_Filters
  imports Types_Api
begin

text \<open>
  \<open>components/library/hooks/useLibraryFilters.ts\<close>: shelves, tags, counts, filtering and sorting
  of the library, and \<open>components/merge-manga/hooks/useMergeFlow.ts\<close>. Two parameters stand for
  the platform: \<open>collate\<close> for \<open>localeCompare\<close> and \<open>time\<close> for \<open>new Date(s).getTime()\<close>. The
  counts object is a map; a status that names a member of \<open>Object.prototype\<close> is outside the
  model.
\<close>

section \<open>Reading a manga\<close>

definition manga_status :: "manga \<Rightarrow> string" where
  "manga_status m =
     coalesce_or [Option.bind (m_user_state m) us_status, m_userStatus m, m_user_status m,
       Option.bind (m_meta m) mm_user_status] ''unread''"

definition manga_favorite :: "manga \<Rightarrow> bool" where
  "manga_favorite m =
     truthy_bool (coalesce [Option.bind (m_user_state m) us_favorite, m_userFavorite m, m_user_favorite m,
       Option.bind (m_meta m) mm_user_favorite])"

definition manga_shelves :: "manga \<Rightarrow> string list" where
  "manga_shelves m = coalesce_or [m_shelves m] []"

definition manga_tags :: "manga \<Rightarrow> string list" where
  "manga_tags m = coalesce_or [Option.bind (m_metadata m) md_tags, m_tags m, m_genres m] []"

definition manga_title :: "manga \<Rightarrow> string" where
  "manga_title m = coalesce_or [Option.bind (m_metadata m) md_title, m_title m] []"

definition manga_authors :: "manga \<Rightarrow> string list" where
  "manga_authors m =
     coalesce_or [Option.bind (m_metadata m) md_authors, m_authors m]
       (if truthy_str (m_author m) then [the (m_author m)] else [])"

definition manga_rating :: "manga \<Rightarrow> rat" where
  "manga_rating m =
     coalesce_or [Option.bind (m_user_state m) us_rating, m_userRating m, m_user_rating m,
       Option.bind (m_meta m) mm_user_rating] 0"

definition manga_time ::
    "(string \<Rightarrow> rat) \<Rightarrow> (manga_user_state \<Rightarrow> string option) \<Rightarrow> (manga_meta \<Rightarrow> string option) \<Rightarrow> manga \<Rightarrow> rat" where
  "manga_time time f g m =
     (let u = Option.bind (m_user_state m) f; v = Option.bind (m_meta m) g
      in if truthy_str u then time (the u) else if truthy_str v then time (the v) else 0)"

section \<open>Shelves, tags and counts\<close>

record shelf_item =
  sh_id :: string
  sh_label :: string
  sh_isFavorite :: "bool option"

definition shelf :: "string \<Rightarrow> string \<Rightarrow> shelf_item" where
  "shelf i l = \<lparr>sh_id = i, sh_label = l, sh_isFavorite = None\<rparr>"

definition DEFAULT_SHELVES :: "shelf_item list" where
  "DEFAULT_SHELVES =
     [shelf ''all'' ''All'', shelf ''reading'' ''Reading'',
      \<lparr>sh_id = ''favorites'', sh_label = ''Favorites'', sh_isFavorite = Some True\<rparr>,
      shelf ''plan_to_read'' ''Plan to Read'', shelf ''completed'' ''Completed'', shelf ''on_hold'' ''On Hold'',
      shelf ''dropped'' ''Dropped'', shelf ''unread'' ''Unread'']"

definition customShelves :: "manga list \<Rightarrow> string list" where
  "customShelves lib = filter (\<lambda>s. s \<noteq> []) (oset_of (concat (map manga_shelves lib)))"

definition allTags :: "manga list \<Rightarrow> string list" where
  "allTags lib = js_sort code_unit_cmp (oset_of (concat (map manga_tags lib)))"

definition custom_id :: "string \<Rightarrow> string" where
  "custom_id s = ''custom:'' @ s"

definition allShelves :: "manga list \<Rightarrow> shelf_item list" where
  "allShelves lib = DEFAULT_SHELVES @ map (\<lambda>s. shelf (custom_id s) s) (customShelves lib)"

type_synonym counts = "string \<rightharpoonup> nat"

definition initial_counts :: "nat \<Rightarrow> counts" where
  "initial_counts n =
     [''all'' \<mapsto> n, ''reading'' \<mapsto> 0, ''favorites'' \<mapsto> 0, ''plan_to_read'' \<mapsto> 0, ''completed'' \<mapsto> 0,
      ''on_hold'' \<mapsto> 0, ''dropped'' \<mapsto> 0, ''unread'' \<mapsto> 0]"

definition count_shelf :: "counts \<Rightarrow> string \<Rightarrow> counts" where
  "count_shelf res s = res(custom_id s \<mapsto> coalesce_or [res (custom_id s)] 0 + 1)"

definition count_step :: "counts \<Rightarrow> manga \<Rightarrow> counts" where
  "count_step res m =
     (let st = manga_status m;
          res1 = (case res st of Some n \<Rightarrow> res(st \<mapsto> n + 1) | None \<Rightarrow> res);
          res2 = (if manga_favorite m
                  then res1(''favorites'' \<mapsto> coalesce_or [res1 ''favorites''] 0 + 1) else res1)
      in foldl count_shelf res2 (manga_shelves m))"

definition counts :: "manga list \<Rightarrow> counts" where
  "counts lib = foldl count_step (initial_counts (length lib)) lib"

section \<open>Filtering and sorting\<close>

definition library_keep :: "string \<Rightarrow> string \<Rightarrow> string \<Rightarrow> manga \<Rightarrow> bool" where
  "library_keep activeShelf selectedTag search m =
     (let uStatus = manga_status m; isFav = manga_favorite m
      in if activeShelf = ''reading'' \<and> uStatus \<noteq> ''reading'' then False
         else if activeShelf = ''favorites'' \<and> \<not> isFav then False
         else if activeShelf = ''plan_to_read'' \<and> uStatus \<noteq> ''plan_to_read'' then False
         else if activeShelf = ''completed'' \<and> uStatus \<noteq> ''completed'' then False
         else if activeShelf = ''on_hold'' \<and> uStatus \<noteq> ''on_hold'' then False
         else if activeShelf = ''dropped'' \<and> uStatus \<noteq> ''dropped'' then False
         else if activeShelf = ''unread'' \<and> uStatus \<noteq> ''unread'' then False
         else if js_startsWith activeShelf ''custom:'' \<and>
             js_replace_first activeShelf ''custom:'' [] \<notin> set (manga_shelves m) then False
         else if selectedTag \<noteq> [] \<and> selectedTag \<notin> set (manga_tags m) then False
         else if js_trim search \<noteq> [] \<and>
             \<not> (let q = js_lower search
                in js_includes (js_lower (manga_title m)) q \<or>
                   list_ex (\<lambda>a. js_includes (js_lower a) q) (manga_authors m)) then False
         else True)"

definition library_cmp :: "(string \<Rightarrow> string \<Rightarrow> rat) \<Rightarrow> (string \<Rightarrow> rat) \<Rightarrow> string \<Rightarrow> manga \<Rightarrow> manga \<Rightarrow> rat" where
  "library_cmp collate time sortBy a b =
     (if sortBy = ''title_asc'' then collate (manga_title a) (manga_title b)
      else if sortBy = ''title_desc'' then collate (manga_title b) (manga_title a)
      else if sortBy = ''rating_desc'' then
        (if manga_rating b \<noteq> manga_rating a then manga_rating b - manga_rating a
         else collate (manga_title a) (manga_title b))
      else if sortBy = ''rating_asc'' then
        (if manga_rating a \<noteq> manga_rating b then manga_rating a - manga_rating b
         else collate (manga_title a) (manga_title b))
      else if sortBy = ''added_desc'' then
        manga_time time us_added_at mm_added_at b - manga_time time us_added_at mm_added_at a
      else if sortBy = ''updated_desc'' then
        manga_time time us_updated_at mm_updated_at b - manga_time time us_updated_at mm_updated_at a
      else 0)"

definition filteredManga ::
    "(string \<Rightarrow> string \<Rightarrow> rat) \<Rightarrow> (string \<Rightarrow> rat) \<Rightarrow> manga list \<Rightarrow> string \<Rightarrow> string \<Rightarrow> string \<Rightarrow> string \<Rightarrow> manga list" where
  "filteredManga collate time lib activeShelf selectedTag search sortBy =
     js_sort (library_cmp collate time sortBy) (filter (library_keep activeShelf selectedTag search) lib)"

text \<open>The four pieces of state, and \<open>clearFilters\<close>, which keeps the order.\<close>

record library_filters =
  lf_activeShelf :: string
  lf_selectedTag :: string
  lf_filterSearch :: string
  lf_sortBy :: string

definition initial_library_filters ::
    "string option \<Rightarrow> string option \<Rightarrow> string option \<Rightarrow> string option \<Rightarrow> library_filters" where
  "initial_library_filters sortBy shelf0 tag search =
     \<lparr>lf_activeShelf = coalesce_or [shelf0] ''all'', lf_selectedTag = coalesce_or [tag] [],
      lf_filterSearch = coalesce_or [search] [], lf_sortBy = coalesce_or [sortBy] ''title_asc''\<rparr>"

definition clearFilters :: "library_filters \<Rightarrow> library_filters" where
  "clearFilters s = s\<lparr>lf_activeShelf := ''all'', lf_selectedTag := [], lf_filterSearch := []\<rparr>"

definition shown_manga ::
    "(string \<Rightarrow> string \<Rightarrow> rat) \<Rightarrow> (string \<Rightarrow> rat) \<Rightarrow> manga list \<Rightarrow> library_filters \<Rightarrow> manga list" where
  "shown_manga collate time lib s =
     filteredManga collate time lib (lf_activeShelf s) (lf_selectedTag s) (lf_filterSearch s) (lf_sortBy s)"

section \<open>The comparators\<close>

lemma comparator_const: "comparator (\<lambda>a b. 0)"
  by (rule comparator.intro) auto

lemma comparator_if: "comparator f \<Longrightarrow> comparator g \<Longrightarrow> comparator (\<lambda>a b. if P then f a b else g a b)"
  by (cases P) simp_all

lemma comparator_key_desc: "comparator (\<lambda>a b. f b - f a :: rat)"
  using comparator_flip [OF by_key.comparator_axioms [of f]] by (simp add: by_key_def)

lemma comparator_key_asc: "comparator (\<lambda>a b. f a - f b :: rat)"
  using by_key.comparator_axioms [of f] by (simp add: by_key_def [abs_def])

lemma comparator_library_cmp:
  assumes "comparator collate"
  shows "comparator (library_cmp collate time sortBy)"
proof -
  note t = comparator_on [OF assms, of manga_title]
  have rd: "comparator (\<lambda>a b. if manga_rating b \<noteq> manga_rating a then manga_rating b - manga_rating a
      else collate (manga_title a) (manga_title b))"
    using comparator_lex [OF comparator_key_desc [of manga_rating] t] by simp
  have ra: "comparator (\<lambda>a b. if manga_rating a \<noteq> manga_rating b then manga_rating a - manga_rating b
      else collate (manga_title a) (manga_title b))"
    using comparator_lex [OF comparator_key_asc [of manga_rating] t] by simp
  show ?thesis
    unfolding library_cmp_def [abs_def]
    by (intro comparator_if t comparator_flip [OF t] rd ra comparator_key_desc comparator_const)
qed

section \<open>Counting\<close>

definition count_of :: "counts \<Rightarrow> string \<Rightarrow> nat" where
  "count_of res k = (case res k of None \<Rightarrow> 0 | Some n \<Rightarrow> n)"

lemma custom_id_inj [simp]: "custom_id s = custom_id t \<longleftrightarrow> s = t"
  by (simp add: custom_id_def)

lemma count_of_count_shelf: "count_of (count_shelf res s) k = count_of res k + (if custom_id s = k then 1 else 0)"
  by (auto simp: count_shelf_def count_of_def split: option.splits)

lemma count_shelves:
  "count_of (foldl count_shelf res ss) k =
    count_of res k + (if prefix ''custom:'' k then count_list ss (drop 7 k) else 0)"
proof (induction ss arbitrary: res)
  case (Cons s ss)
  have "custom_id s = k \<longleftrightarrow> prefix ''custom:'' k \<and> drop 7 k = s"
    by (auto simp: custom_id_def prefix_def)
  then show ?case by (auto simp: Cons.IH count_of_count_shelf)
qed simp

lemma dom_count_shelves: "dom (foldl count_shelf res ss) = dom res \<union> custom_id ` set ss"
  by (induction ss arbitrary: res) (auto simp: count_shelf_def)

definition tally :: "manga \<Rightarrow> string \<Rightarrow> nat" where
  "tally m k =
     (if manga_status m = k then 1 else 0) + (if manga_favorite m \<and> k = ''favorites'' then 1 else 0) +
     (if prefix ''custom:'' k then count_list (manga_shelves m) (drop 7 k) else 0)"

definition default_ids :: "string list" where
  "default_ids = map sh_id DEFAULT_SHELVES"

lemma default_ids_simp:
  "default_ids = [''all'', ''reading'', ''favorites'', ''plan_to_read'', ''completed'', ''on_hold'', ''dropped'', ''unread'']"
  by (simp add: default_ids_def DEFAULT_SHELVES_def shelf_def)

lemma count_step_of:
  assumes "\<not> prefix ''custom:'' (manga_status m)" "k \<in> set default_ids \<or> prefix ''custom:'' k"
    and "set default_ids \<subseteq> dom res"
  shows "count_of (count_step res m) k = count_of res k + tally m k"
    and "set default_ids \<subseteq> dom (count_step res m)"
proof -
  show "count_of (count_step res m) k = count_of res k + tally m k"
    unfolding count_step_def Let_def count_shelves using assms
    by (auto simp: tally_def count_of_def split: option.splits)
  have "dom res \<subseteq> dom (count_step res m)"
    unfolding count_step_def Let_def dom_count_shelves by (auto split: option.splits)
  with assms(3) show "set default_ids \<subseteq> dom (count_step res m)" by blast
qed

lemma count_fold_of:
  assumes "\<forall>m \<in> set ms. \<not> prefix ''custom:'' (manga_status m)" "k \<in> set default_ids \<or> prefix ''custom:'' k"
    and "set default_ids \<subseteq> dom res"
  shows "count_of (foldl count_step res ms) k = count_of res k + (\<Sum>m\<leftarrow>ms. tally m k)"
  using assms(1,3)
proof (induction ms arbitrary: res)
  case (Cons m ms)
  then show ?case using count_step_of [of m k res] assms(2) by auto
qed simp

lemma length_filter_sum: "length (filter P xs) = (\<Sum>x\<leftarrow>xs. if P x then 1 else 0)"
  by (induction xs) auto

lemma count_list_distinct: "distinct xs \<Longrightarrow> count_list xs x = (if x \<in> set xs then 1 else 0)"
  by (induction xs) auto

lemma js_replace_prefix: "p \<noteq> [] \<Longrightarrow> js_replace_first (p @ s) p r = r @ s"
  by (cases p) auto

lemma keep_custom: "library_keep (custom_id s) [] [] m \<longleftrightarrow> s \<in> set (manga_shelves m)"
  using js_replace_prefix [of "''custom:''" s "[]"]
  by (simp add: library_keep_def custom_id_def js_startsWith_def)

lemma keep_default:
  "k \<in> set default_ids \<Longrightarrow> library_keep k [] [] m \<longleftrightarrow>
    k = ''all'' \<or> k = ''favorites'' \<and> manga_favorite m \<or> k \<noteq> ''favorites'' \<and> manga_status m = k"
  unfolding default_ids_simp list.set insert_iff
  by (elim disjE emptyE) (simp_all add: library_keep_def js_startsWith_def Let_def)

lemma default_not_custom: "k \<in> set default_ids \<Longrightarrow> \<not> prefix ''custom:'' k"
  unfolding default_ids_simp list.set insert_iff by (elim disjE emptyE) simp_all

text \<open>The shelf a manga's tally belongs to, against the filter of that shelf.\<close>

lemma tally_keep:
  assumes "manga_status m \<notin> {''all'', ''favorites''}" "\<not> prefix ''custom:'' (manga_status m)"
    and "distinct (manga_shelves m)"
  shows "k \<in> set default_ids \<Longrightarrow> k \<noteq> ''all'' \<Longrightarrow> tally m k = (if library_keep k [] [] m then 1 else 0)"
    and "tally m ''all'' = 0" and "library_keep ''all'' [] [] m"
    and "tally m (custom_id s) = (if library_keep (custom_id s) [] [] m then 1 else 0)"
proof -
  show "tally m k = (if library_keep k [] [] m then 1 else 0)" if k: "k \<in> set default_ids" "k \<noteq> ''all''"
    unfolding keep_default [OF k(1)] tally_def using assms(1) k default_not_custom [OF k(1)] by auto
  have all: "''all'' \<in> set default_ids" by (simp add: default_ids_simp)
  then show "tally m ''all'' = 0" "library_keep ''all'' [] [] m"
    unfolding keep_default [OF all] tally_def using assms(1) default_not_custom [OF all] by simp_all
  have "manga_status m \<noteq> custom_id s" using assms(2) by (auto simp: custom_id_def)
  then show "tally m (custom_id s) = (if library_keep (custom_id s) [] [] m then 1 else 0)"
    using assms(3) unfolding keep_custom by (simp add: tally_def custom_id_def count_list_distinct)
qed

lemma set_customShelves: "s \<in> set (customShelves lib) \<longleftrightarrow> s \<noteq> [] \<and> (\<exists>m \<in> set lib. s \<in> set (manga_shelves m))"
  by (auto simp: customShelves_def)

lemma default_ids_initial: "set default_ids \<subseteq> dom (initial_counts n)"
  by (auto simp: default_ids_simp initial_counts_def)

text \<open>
  The number shown next to a shelf is the number of manga the shelf holds: for every
  shelf the page offers, \<open>counts\<close> agrees with the length of the list that choosing the shelf
  would show, as long as no manga names a shelf twice and no user status is called \<open>all\<close>,
  \<open>favorites\<close> or \<open>custom:...\<close>. With a repeated shelf the two differ.
\<close>

theorem counts_are_lengths:
  assumes "\<forall>m \<in> set lib. distinct (manga_shelves m) \<and> manga_status m \<notin> {''all'', ''favorites''} \<and>
      \<not> prefix ''custom:'' (manga_status m)"
    and "sh \<in> set (allShelves lib)"
  shows "count_of (counts lib) (sh_id sh) = length (filteredManga collate time lib (sh_id sh) [] [] sortBy)"
proof -
  have k: "sh_id sh \<in> set default_ids \<or> (\<exists>s. sh_id sh = custom_id s)"
    using assms(2) by (auto simp: allShelves_def default_ids_def shelf_def)
  have "count_of (counts lib) (sh_id sh) =
      count_of (initial_counts (length lib)) (sh_id sh) + (\<Sum>m\<leftarrow>lib. tally m (sh_id sh))"
    unfolding counts_def using assms(1) k
    by (intro count_fold_of) (auto simp: custom_id_def default_ids_initial)
  also have "\<dots> = length (filter (library_keep (sh_id sh) [] []) lib)"
  proof (cases "sh_id sh = ''all''")
    case True
    have "filter (library_keep ''all'' [] []) lib = lib" "(\<Sum>m\<leftarrow>lib. tally m ''all'') = 0"
      using assms(1) tally_keep by (auto simp: filter_id_conv sum_list_eq_0_iff)
    then show ?thesis using True by (simp add: count_of_def initial_counts_def)
  next
    case False
    have "count_of (initial_counts (length lib)) (sh_id sh) = 0"
      using k False by (auto simp: count_of_def initial_counts_def default_ids_simp custom_id_def)
    moreover have "\<forall>m \<in> set lib. tally m (sh_id sh) = (if library_keep (sh_id sh) [] [] m then 1 else 0)"
      using k False assms(1) tally_keep by metis
    ultimately show ?thesis unfolding length_filter_sum by (simp cong: map_cong)
  qed
  finally show ?thesis by (simp add: filteredManga_def)
qed

definition sample_library :: "manga list" where
  "sample_library =
     [blank_manga ''a''\<lparr>m_title := Some ''Akira'', m_shelves := Some [''best'']\<rparr>,
      blank_manga ''b''\<lparr>m_title := Some ''Berserk'', m_userStatus := Some ''reading'',
        m_shelves := Some [''best'', ''dark'']\<rparr>]"

lemma sample_simps:
  "manga_shelves (blank_manga i\<lparr>m_title := t, m_shelves := Some ss\<rparr>) = ss"
  "manga_status (blank_manga i\<lparr>m_title := t, m_shelves := ss'\<rparr>) = ''unread''"
  "manga_shelves (blank_manga i\<lparr>m_title := t, m_userStatus := Some st, m_shelves := Some ss\<rparr>) = ss"
  "manga_status (blank_manga i\<lparr>m_title := t, m_userStatus := Some st, m_shelves := ss'\<rparr>) = st"
  by (simp_all add: manga_shelves_def manga_status_def)

theorem counts_are_lengths_witness:
  "count_of (counts sample_library) (custom_id ''best'') =
    length (filteredManga (\<lambda>a b. 0) (\<lambda>s. 0) sample_library (custom_id ''best'') [] [] ''title_asc'')"
proof -
  have "shelf (custom_id ''best'') ''best'' \<in> set (allShelves sample_library)"
    by (simp add: allShelves_def set_customShelves sample_library_def sample_simps)
  moreover have "\<forall>m \<in> set sample_library. distinct (manga_shelves m) \<and> manga_status m \<notin> {''all'', ''favorites''} \<and>
      \<not> prefix ''custom:'' (manga_status m)"
    by (simp add: sample_library_def sample_simps)
  ultimately show ?thesis
    using counts_are_lengths [of sample_library "shelf (custom_id ''best'') ''best''"] by (simp add: shelf_def)
qed

lemma repeated_shelf_counts_twice:
  "count_of (counts [blank_manga ''a''\<lparr>m_title := None, m_shelves := Some [''x'', ''x'']\<rparr>]) (custom_id ''x'') = 2"
  by (simp add: counts_def count_step_def Let_def sample_simps manga_favorite_def count_of_count_shelf
      initial_counts_def) (simp add: count_of_def custom_id_def)

section \<open>The list that is shown\<close>

lemma set_filteredManga:
  "m \<in> set (filteredManga collate time lib sh tag search sortBy) \<longleftrightarrow> m \<in> set lib \<and> library_keep sh tag search m"
  by (simp add: filteredManga_def)

lemma keep_iff:
  "library_keep sh tag search m \<longleftrightarrow> library_keep sh [] [] m \<and> (tag = [] \<or> tag \<in> set (manga_tags m)) \<and>
    (js_trim search = [] \<or> js_includes (js_lower (manga_title m)) (js_lower search) \<or>
     (\<exists>a \<in> set (manga_authors m). js_includes (js_lower a) (js_lower search)))"
  unfolding library_keep_def Let_def list_ex_iff by simp



text \<open>After \<open>clearFilters\<close> the whole library is shown, in the order chosen before.\<close>

lemma clearFilters_shows_all:
  "mset (shown_manga collate time lib (clearFilters s)) = mset lib" "lf_sortBy (clearFilters s) = lf_sortBy s"
  by (simp_all add: shown_manga_def clearFilters_def filteredManga_def library_keep_def js_startsWith_def)

lemma search_not_trimmed:
  "\<not> library_keep ''all'' [] '' akira'' (blank_manga ''a''\<lparr>m_title := Some ''Akira''\<rparr>)"
  "library_keep ''all'' [] ''akira'' (blank_manga ''a''\<lparr>m_title := Some ''Akira''\<rparr>)"
proof -
  have "js_lower ''Akira'' = ''akira''" "js_lower '' akira'' = '' akira''" "js_lower ''akira'' = ''akira''"
    "js_trim '' akira'' = ''akira''" "js_trim ''akira'' = ''akira''" by code_simp+
  then show "\<not> library_keep ''all'' [] '' akira'' (blank_manga ''a''\<lparr>m_title := Some ''Akira''\<rparr>)"
    "library_keep ''all'' [] ''akira'' (blank_manga ''a''\<lparr>m_title := Some ''Akira''\<rparr>)"
    by (simp_all add: library_keep_def js_startsWith_def manga_title_def manga_authors_def)
qed

section \<open>The merge dialog\<close>

definition availableSources :: "manga list option \<Rightarrow> string \<Rightarrow> manga list" where
  "availableSources libraryMangas keepMangaId =
     filter (\<lambda>m. m_id m \<noteq> keepMangaId) (coalesce_or [libraryMangas] [])"

definition sourceManga :: "manga list option \<Rightarrow> string \<Rightarrow> string option \<Rightarrow> manga option" where
  "sourceManga libraryMangas keepMangaId sourceMangaId =
     List.find (\<lambda>m. Some (m_id m) = sourceMangaId) (availableSources libraryMangas keepMangaId)"

lemma sourceManga_sound:
  "sourceManga lib keep src = Some m \<Longrightarrow> m_id m \<noteq> keep \<and> src = Some (m_id m) \<and> m \<in> set (coalesce_or [lib] [])"
  using find_Some_mem [of "\<lambda>m. Some (m_id m) = src" "availableSources lib keep" m]
  by (auto simp: sourceManga_def availableSources_def)

end
