(* ===== verification/Chapter_Filters.thy ===== *)
theory Chapter_Filters
  imports Types_Api
begin

text \<open>
  \<open>components/chapter-list/hooks/useChapterFilters.ts\<close>: the filter box, the order and the pages
  of the chapter list. The page number is an \<open>int\<close> (the page buttons may ask for any), the
  page size a positive \<open>nat\<close>; \<open>collate\<close> stands for \<open>localeCompare\<close>.
\<close>

section \<open>Filtering and sorting\<close>

definition with_source_order :: "manga_chapter list \<Rightarrow> manga_chapter list" where
  "with_source_order cs =
     map (\<lambda>(i, c). c\<lparr>c_sourceOrder := Some (coalesce_or [c_sourceOrder c] (of_nat i))\<rparr>) (enumerate 0 cs)"

text \<open>\<open>String(c.number)\<close>.\<close>

definition number_text :: "manga_chapter \<Rightarrow> string" where
  "number_text c = (case c_number c of None \<Rightarrow> ''undefined'' | Some n \<Rightarrow> num_str n)"

definition chapter_matches :: "string \<Rightarrow> manga_chapter \<Rightarrow> bool" where
  "chapter_matches q c =
     (js_includes (js_lower (str_or [c_title c, c_name c] [])) q \<or> js_includes (number_text c) q)"

definition upload_date :: "manga_chapter \<Rightarrow> string" where
  "upload_date c = str_or [c_uploadDate c, c_uploadedAt c, Option.bind (c_meta c) cm_upload_date] []"

definition chapter_comparison :: "(string \<Rightarrow> string \<Rightarrow> rat) \<Rightarrow> string \<Rightarrow> manga_chapter \<Rightarrow> manga_chapter \<Rightarrow> rat" where
  "chapter_comparison collate sortBy a b =
     (if sortBy = ''number'' then coalesce_or [c_number a] 0 - coalesce_or [c_number b] 0
      else if sortBy = ''date'' then collate (upload_date a) (upload_date b)
      else coalesce_or [c_sourceOrder a] 0 - coalesce_or [c_sourceOrder b] 0)"

definition chapter_cmp :: "(string \<Rightarrow> string \<Rightarrow> rat) \<Rightarrow> string \<Rightarrow> string \<Rightarrow> manga_chapter \<Rightarrow> manga_chapter \<Rightarrow> rat" where
  "chapter_cmp collate sortBy order a b =
     (if order = ''asc'' then chapter_comparison collate sortBy a b else - chapter_comparison collate sortBy a b)"

definition filteredChapters ::
    "(string \<Rightarrow> string \<Rightarrow> rat) \<Rightarrow> manga_chapter list \<Rightarrow> string \<Rightarrow> string \<Rightarrow> string \<Rightarrow> manga_chapter list" where
  "filteredChapters collate chapters filterQuery sortBy order =
     (let result = with_source_order chapters;
          q = js_trim (js_lower filterQuery);
          kept = (if js_trim filterQuery \<noteq> [] then filter (chapter_matches q) result else result)
      in js_sort (chapter_cmp collate sortBy order) kept)"

definition chapter_is_downloaded :: "manga_chapter \<Rightarrow> bool" where
  "chapter_is_downloaded c =
     truthy_bool (coalesce [c_is_downloaded c, c_isDownloaded c, Option.bind (c_meta c) cm_is_downloaded, c_isDownloaded c])"

definition downloadedCount :: "manga_chapter list \<Rightarrow> nat" where
  "downloadedCount cs = foldl (\<lambda>count c. if chapter_is_downloaded c then count + 1 else count) 0 cs"

section \<open>Pages\<close>

definition totalPages :: "nat \<Rightarrow> nat \<Rightarrow> int" where
  "totalPages pageSize n = \<lceil>of_nat n / of_nat pageSize :: rat\<rceil>"

definition safePage :: "nat \<Rightarrow> nat \<Rightarrow> int \<Rightarrow> int" where
  "safePage pageSize n pg =
     (let t = totalPages pageSize n in min (max 1 pg) (if t \<noteq> 0 then t else 1))"

definition paginatedChapters :: "nat \<Rightarrow> int \<Rightarrow> 'a list \<Rightarrow> 'a list" where
  "paginatedChapters pageSize pg xs =
     (let s = safePage pageSize (length xs) pg
      in js_slice (nat (s - 1) * pageSize) (nat s * pageSize) xs)"

text \<open>
  The state of the hook. A new query goes back to page 1, and so does a change of the order,
  through the effect on \<open>sortBy\<close> and \<open>order\<close>.
\<close>

record chapter_filters =
  cf_filterQuery :: string
  cf_page :: int
  cf_sortBy :: string
  cf_order :: string

datatype chapter_filter_event =
    Set_Query string
  | Set_Page int
  | Set_Order string string

definition initial_chapter_filters :: "string \<Rightarrow> string \<Rightarrow> chapter_filters" where
  "initial_chapter_filters sortBy order =
     \<lparr>cf_filterQuery = [], cf_page = 1, cf_sortBy = sortBy, cf_order = order\<rparr>"

fun chapter_filter_step :: "chapter_filters \<Rightarrow> chapter_filter_event \<Rightarrow> chapter_filters" where
  "chapter_filter_step s (Set_Query q) = s\<lparr>cf_filterQuery := q, cf_page := 1\<rparr>"
| "chapter_filter_step s (Set_Page p) = s\<lparr>cf_page := p\<rparr>"
| "chapter_filter_step s (Set_Order sortBy order) =
     (if sortBy \<noteq> cf_sortBy s \<or> order \<noteq> cf_order s
      then s\<lparr>cf_sortBy := sortBy, cf_order := order, cf_page := 1\<rparr> else s)"

definition shown_chapters ::
    "(string \<Rightarrow> string \<Rightarrow> rat) \<Rightarrow> nat \<Rightarrow> manga_chapter list \<Rightarrow> chapter_filters \<Rightarrow> manga_chapter list" where
  "shown_chapters collate pageSize cs s =
     paginatedChapters pageSize (cf_page s) (filteredChapters collate cs (cf_filterQuery s) (cf_sortBy s) (cf_order s))"

section \<open>Lemmas on slices and pages\<close>

lemma totalPages_div:
  assumes "0 < ps"
  shows "totalPages ps n = int ((n + ps - 1) div ps)"
proof -
  let ?t = "(n + ps - 1) div ps"
  have "?t * ps \<le> n + ps - 1" "n + ps - 1 < ?t * ps + ps"
    using assms div_times_less_eq_dividend [of "n + ps - 1" ps] dividend_less_div_times [of ps "n + ps - 1"] by simp_all
  then have b: "n \<le> ?t * ps" "?t * ps < n + ps" using assms by linarith+
  have "(of_nat n / of_nat ps :: rat) \<le> of_nat ?t"
    using assms of_nat_mono [OF b(1), where 'a = rat] by (simp add: pos_divide_le_eq)
  moreover have "of_nat ?t - 1 < (of_nat n / of_nat ps :: rat)"
  proof -
    have "(of_nat (?t * ps) :: rat) < of_nat (n + ps)" using b(2) by (simp only: of_nat_less_iff)
    then have "(of_nat ?t - 1) * of_nat ps < (of_nat n :: rat)" by (simp add: left_diff_distrib)
    then show ?thesis using assms by (subst pos_less_divide_eq) simp_all
  qed
  ultimately show ?thesis unfolding totalPages_def by (intro ceiling_unique) simp_all
qed

lemma totalPages_pos: "0 < ps \<Longrightarrow> 0 < n \<Longrightarrow> 1 \<le> totalPages ps n"
  by (simp add: totalPages_div div_greater_zero_iff Suc_le_eq)

lemma totalPages_0: "0 < ps \<Longrightarrow> totalPages ps n = 0 \<longleftrightarrow> n = 0"
  using totalPages_pos [of ps n] by (cases "n = 0") (auto simp: totalPages_div)

lemma totalPages_bounds:
  assumes "0 < ps" "0 < n"
  shows "nat (totalPages ps n - 1) * ps < n" "n \<le> nat (totalPages ps n) * ps"
proof -
  let ?t = "(n + ps - 1) div ps"
  have t: "0 < ?t" using assms by (simp add: div_greater_zero_iff)
  have "?t * ps \<le> n + ps - 1" "n + ps - 1 < ?t * ps + ps"
    using assms div_times_less_eq_dividend [of "n + ps - 1" ps] dividend_less_div_times [of ps "n + ps - 1"] by simp_all
  moreover have "?t * ps = (?t - 1) * ps + ps" using t by (cases ?t) auto
  ultimately have "(?t - 1) * ps < n" "n \<le> ?t * ps" using assms by linarith+
  then show "nat (totalPages ps n - 1) * ps < n" "n \<le> nat (totalPages ps n) * ps"
    using t by (simp_all add: totalPages_div [OF assms(1)] nat_diff_distrib)
qed

lemma safePage_range:
  "0 < ps \<Longrightarrow> 1 \<le> safePage ps n pg \<and> safePage ps n pg \<le> max 1 (totalPages ps n)"
  using totalPages_pos [of ps n] totalPages_0 [of ps n] by (cases "n = 0") (auto simp: safePage_def Let_def)

lemma safePage_id: "0 < ps \<Longrightarrow> 1 \<le> pg \<Longrightarrow> pg \<le> totalPages ps n \<Longrightarrow> safePage ps n pg = pg"
  by (auto simp: safePage_def Let_def)

lemma length_slice: "length (js_slice i j xs) = min (j - i) (length xs - i)"
  by (simp add: js_slice_def)

lemma slice_append: "i \<le> j \<Longrightarrow> take i xs @ js_slice i j xs = take j xs"
  by (simp add: js_slice_def) (metis le_add_diff_inverse take_add)

lemma pages_prefix: "concat (map (\<lambda>i. js_slice (i * ps) (Suc i * ps) xs) [0..<k]) = take (k * ps) xs"
proof (induction k)
  case (Suc k)
  have "k * ps \<le> Suc k * ps" by simp
  from slice_append [OF this, of xs] Suc.IH show ?case by simp
qed simp

lemma paginated_in_range:
  assumes "0 < ps" "1 \<le> pg" "pg \<le> totalPages ps (length xs)"
  shows "paginatedChapters ps pg xs = js_slice (nat (pg - 1) * ps) (nat pg * ps) xs"
  by (simp add: paginatedChapters_def safePage_id [OF assms])

lemma concat_pages:
  assumes "0 < ps"
  shows "concat (map (\<lambda>i. paginatedChapters ps (int i + 1) xs) [0..<nat (totalPages ps (length xs))]) = xs"
proof (cases "xs = []")
  case False
  let ?t = "nat (totalPages ps (length xs))"
  have "paginatedChapters ps (int i + 1) xs = js_slice (i * ps) (Suc i * ps) xs" if "i < ?t" for i
    using that paginated_in_range [OF assms, of "int i + 1" xs] by (simp add: nat_add_distrib)
  then have "map (\<lambda>i. paginatedChapters ps (int i + 1) xs) [0..<?t] =
      map (\<lambda>i. js_slice (i * ps) (Suc i * ps) xs) [0..<?t]"
    by (intro map_cong refl) simp
  then show ?thesis
    using totalPages_bounds(2) [OF assms, of "length xs"] False by (simp only: pages_prefix) simp
qed (use assms in \<open>simp add: totalPages_div\<close>)

lemma pages_first: "0 < ps \<Longrightarrow> paginatedChapters ps 1 xs = take ps xs"
  using totalPages_pos [of ps "length xs"] totalPages_0 [of ps "length xs"]
  by (cases "xs = []") (auto simp: paginatedChapters_def safePage_def Let_def js_slice_def)

text \<open>
  C35: The pages of the chapter list partition it: put one after the other, pages 1 to
  \<open>totalPages\<close> are the filtered list, each holds at most \<open>pageSize\<close> chapters and none is
  empty. Whatever page number is stored, the page shown is one of them: a number below 1
  shows the first page and one beyond the end (after the list has shrunk) the last.
\<close>

theorem pages_partition:
  assumes "0 < ps"
  shows "(concat (map (\<lambda>i. paginatedChapters ps (int i + 1) xs) [0..<nat (totalPages ps (length xs))]) = xs) \<and>
    (length (paginatedChapters ps pg xs) \<le> ps) \<and>
    (xs \<noteq> [] \<longrightarrow> paginatedChapters ps pg xs \<noteq> []) \<and>
    (1 \<le> safePage ps (length xs) pg \<and> safePage ps (length xs) pg \<le> max 1 (totalPages ps (length xs))) \<and>
    (pg \<le> 1 \<longrightarrow> paginatedChapters ps pg xs = take ps xs) \<and>
    (totalPages ps (length xs) \<le> pg \<longrightarrow> xs \<noteq> [] \<longrightarrow> last (paginatedChapters ps pg xs) = last xs)"
proof (rule conjI6; (intro impI)?)
  let ?s = "safePage ps (length xs) pg"
  have s: "1 \<le> ?s" "?s \<le> max 1 (totalPages ps (length xs))" using safePage_range [OF assms] by auto
  have p: "paginatedChapters ps pg xs = js_slice (nat (?s - 1) * ps) (nat ?s * ps) xs"
    by (simp add: paginatedChapters_def Let_def)
  have w: "nat ?s * ps = nat (?s - 1) * ps + ps" using s(1) by (metis add.commute mult_Suc Suc_nat_eq_nat_zadd1 add_diff_cancel_left' diff_ge_0_iff_ge diff_add_cancel)
  show "concat (map (\<lambda>i. paginatedChapters ps (int i + 1) xs) [0..<nat (totalPages ps (length xs))]) = xs"
    by (rule concat_pages [OF assms])
  show "length (paginatedChapters ps pg xs) \<le> ps" unfolding p w length_slice by simp
  show "1 \<le> ?s \<and> ?s \<le> max 1 (totalPages ps (length xs))" using s by simp
  show "paginatedChapters ps pg xs \<noteq> []" if "xs \<noteq> []"
  proof -
    have t: "nat (totalPages ps (length xs) - 1) * ps < length xs" using totalPages_bounds(1) [OF assms] that by simp
    have "?s \<le> totalPages ps (length xs)" using s(2) totalPages_pos [OF assms] that by (simp add: Suc_le_eq)
    then have "nat (?s - 1) * ps \<le> nat (totalPages ps (length xs) - 1) * ps" by (intro mult_right_mono) auto
    then have "nat (?s - 1) * ps < length xs" using t by (rule le_less_trans)
    then have "0 < length (paginatedChapters ps pg xs)" unfolding p w length_slice using assms by simp
    then show ?thesis by simp
  qed
  show "paginatedChapters ps pg xs = take ps xs" if "pg \<le> 1"
  proof -
    have "?s = 1" using that s by (auto simp: safePage_def Let_def)
    then show ?thesis unfolding p by (simp add: js_slice_def)
  qed
  show "last (paginatedChapters ps pg xs) = last xs" if "totalPages ps (length xs) \<le> pg" "xs \<noteq> []"
  proof -
    have "1 \<le> totalPages ps (length xs)" using totalPages_pos [OF assms] that(2) by simp
    then have "?s = totalPages ps (length xs)" using that(1) by (auto simp: safePage_def Let_def)
    then have "paginatedChapters ps pg xs = drop (nat (?s - 1) * ps) xs" "nat (?s - 1) * ps < length xs"
      using totalPages_bounds [OF assms, of "length xs"] that(2) w unfolding p js_slice_def by auto
    then show ?thesis by simp
  qed
qed

theorem pages_partition_witness:
  "paginatedChapters 2 7 [10, 20, 30 :: nat] \<noteq> [] \<and> last (paginatedChapters 2 7 [10, 20, 30 :: nat]) = 30"
  using pages_partition [of 2 "[10, 20, 30 :: nat]" 7]
  by (simp add: totalPages_div)

text \<open>A new query or order shows the first page.\<close>

lemma query_shows_first_page:
  "0 < ps \<Longrightarrow> shown_chapters collate ps cs (chapter_filter_step s (Set_Query q)) =
    take ps (filteredChapters collate cs q (cf_sortBy s) (cf_order s))"
  "0 < ps \<Longrightarrow> (sortBy, order) \<noteq> (cf_sortBy s, cf_order s) \<Longrightarrow>
    shown_chapters collate ps cs (chapter_filter_step s (Set_Order sortBy order)) =
    take ps (filteredChapters collate cs (cf_filterQuery s) sortBy order)"
  by (auto simp: shown_chapters_def pages_first)

section \<open>The filtered list\<close>

lemma comparator_chapter_cmp:
  assumes "comparator collate"
  shows "comparator (chapter_cmp collate sortBy order)"
proof -
  have c: "comparator (chapter_comparison collate sortBy)"
    using comparator_on [OF assms, of upload_date]
      by_key.comparator_axioms [of "\<lambda>c. coalesce_or [c_number c] 0"]
      by_key.comparator_axioms [of "\<lambda>c. coalesce_or [c_sourceOrder c] 0"]
    unfolding chapter_comparison_def [abs_def] by_key_def [abs_def] by (cases "sortBy = ''number''"; cases "sortBy = ''date''") simp_all
  show ?thesis
    unfolding chapter_cmp_def [abs_def] using c comparator_neg [OF c] by (cases "order = ''asc''") simp_all
qed

lemma ids_with_source_order: "map c_id (with_source_order cs) = map c_id cs"
  by (rule nth_equalityI) (simp_all add: with_source_order_def nth_enumerate_eq case_prod_beta)

lemma matches_with_source_order:
  "chapter_matches q (c\<lparr>c_sourceOrder := x\<rparr>) = chapter_matches q c"
  by (simp add: chapter_matches_def number_text_def)

lemma ids_filter_source_order:
  "map c_id (filter (chapter_matches q) (with_source_order cs)) = map c_id (filter (chapter_matches q) cs)"
proof -
  have "map c_id (filter (chapter_matches q) (map (\<lambda>(i, c). c\<lparr>c_sourceOrder := f i c\<rparr>) (enumerate n cs))) =
      map c_id (filter (chapter_matches q) cs)" for n f
    by (induction cs arbitrary: n) (simp_all add: matches_with_source_order)
  from this [of "\<lambda>i c. Some (coalesce_or [c_sourceOrder c] (of_nat i))" 0] show ?thesis
    by (simp add: with_source_order_def)
qed

text \<open>
  The list that is paged: for each order offered, the chapters that match the query
  (title, else name, ignoring letter case and surrounding blanks, or the number's text) and
  no others, sorted in that order; chapters that compare equal keep their order in the
  source in both directions, so descending is not the reversal of ascending where chapters
  tie. A blank query keeps every chapter.
\<close>

theorem filteredChapters_spec:
  assumes "comparator collate"
  shows "(sorted_wrt (\<lambda>a b. chapter_cmp collate sortBy order a b \<le> 0) (filteredChapters collate cs query sortBy order)) \<and>
    (mset (map c_id (filteredChapters collate cs query sortBy order)) =
      mset (map c_id (filter (\<lambda>c. js_trim query = [] \<or> chapter_matches (js_trim (js_lower query)) c) cs))) \<and>
    (filter (\<lambda>b. chapter_cmp collate sortBy order a b = 0) (filteredChapters collate cs query sortBy order) =
      filter (\<lambda>b. (js_trim query = [] \<or> chapter_matches (js_trim (js_lower query)) b) \<and>
        chapter_cmp collate sortBy order a b = 0) (with_source_order cs)) \<and>
    (c \<in> set (filteredChapters collate cs query sortBy order) \<longrightarrow> c_sourceOrder c \<noteq> None)"
proof (rule conjI4; (intro impI)?)
  note cmp = comparator_chapter_cmp [OF assms]
  let ?q = "js_trim (js_lower query)"
  let ?kept = "filter (\<lambda>c. js_trim query = [] \<or> chapter_matches ?q c) (with_source_order cs)"
  have f: "filteredChapters collate cs query sortBy order = js_sort (chapter_cmp collate sortBy order) ?kept"
    by (simp add: filteredChapters_def Let_def)
  show "sorted_wrt (\<lambda>a b. chapter_cmp collate sortBy order a b \<le> 0) (filteredChapters collate cs query sortBy order)"
    unfolding f by (rule comparator.sorted_js_sort [OF cmp])
  have "mset (map c_id (filteredChapters collate cs query sortBy order)) = mset (map c_id ?kept)"
    unfolding f by (simp only: mset_map mset_js_sort)
  also have "map c_id ?kept = map c_id (filter (\<lambda>c. js_trim query = [] \<or> chapter_matches ?q c) cs)"
    by (cases "js_trim query = []") (simp_all add: ids_with_source_order ids_filter_source_order)
  finally show "mset (map c_id (filteredChapters collate cs query sortBy order)) =
      mset (map c_id (filter (\<lambda>c. js_trim query = [] \<or> chapter_matches ?q c) cs))" .
  show "filter (\<lambda>b. chapter_cmp collate sortBy order a b = 0) (filteredChapters collate cs query sortBy order) =
      filter (\<lambda>b. (js_trim query = [] \<or> chapter_matches ?q b) \<and> chapter_cmp collate sortBy order a b = 0) (with_source_order cs)"
    unfolding f comparator.js_sort_stable [OF cmp] by (simp add: conj_commute)
  show "c_sourceOrder c \<noteq> None" if "c \<in> set (filteredChapters collate cs query sortBy order)"
    using that unfolding f by (auto simp: with_source_order_def)
qed

theorem filteredChapters_spec_witness:
  "sorted_wrt (\<lambda>a b. chapter_cmp code_unit_cmp ''number'' ''desc'' a b \<le> 0)
     (filteredChapters code_unit_cmp [blank_manga_chapter ''c1''] [] ''number'' ''desc'')"
  by (rule conjunct1 [OF filteredChapters_spec]) (rule code_unit.comparator_axioms)

lemma downloadedCount_filter: "downloadedCount cs = length (filter chapter_is_downloaded cs)"
proof -
  have "foldl (\<lambda>count c. if chapter_is_downloaded c then count + 1 else count) n cs =
      n + length (filter chapter_is_downloaded cs)" for n :: nat
    by (induction cs arbitrary: n) auto
  then show ?thesis by (simp add: downloadedCount_def)
qed

end
