(* ===== verification/Chapter_Selection.thy ===== *)
theory Chapter_Selection
  imports Chapter_Filters
begin

text \<open>
  \<open>components/chapter-list/hooks/useChapterSelection.ts\<close>: the selection mode of the chapter
  list as a state machine. The handlers close over the filtered list of the current
  rendering, which is therefore an argument of each step; \<open>handleConfirmRemove\<close> also
  returns the ids it hands to \<open>onBatchRemove\<close>.
\<close>

record selection_state =
  sel_mode :: bool
  sel_ids :: "string list"
  sel_last :: "string option"
  sel_confirm :: bool

datatype selection_event =
    Manga_Changed
  | Set_Selection_Mode bool
  | Select_All
  | Select_None
  | Invert_Selection
  | Exit_Selection_Mode
  | Toggle_Row string bool
  | Open_Confirm bool
  | Confirm_Remove bool

definition initial_selection :: selection_state where
  "initial_selection = \<lparr>sel_mode = False, sel_ids = [], sel_last = None, sel_confirm = False\<rparr>"

definition row_index :: "manga_chapter list \<Rightarrow> string \<Rightarrow> nat option" where
  "row_index filtered i = find_index (\<lambda>c. c_id c = i) filtered"

definition handleSelectAll :: "manga_chapter list \<Rightarrow> selection_state \<Rightarrow> selection_state" where
  "handleSelectAll filtered s = s\<lparr>sel_ids := oset_of (map c_id filtered)\<rparr>"

definition handleSelectNone :: "selection_state \<Rightarrow> selection_state" where
  "handleSelectNone s = s\<lparr>sel_ids := [], sel_last := None\<rparr>"

definition handleInvertSelection :: "manga_chapter list \<Rightarrow> selection_state \<Rightarrow> selection_state" where
  "handleInvertSelection filtered s =
     s\<lparr>sel_ids := foldl (\<lambda>nxt c. if \<not> oset_has (sel_ids s) (c_id c) then oset_add (c_id c) nxt else nxt) [] filtered\<rparr>"

definition handleExitSelectionMode :: "selection_state \<Rightarrow> selection_state" where
  "handleExitSelectionMode s = s\<lparr>sel_mode := False, sel_ids := [], sel_last := None\<rparr>"

definition toggle_one :: "string \<Rightarrow> selection_state \<Rightarrow> selection_state" where
  "toggle_one i s =
     s\<lparr>sel_ids := (if oset_has (sel_ids s) i then oset_delete i (sel_ids s) else oset_add i (sel_ids s)),
       sel_last := Some i\<rparr>"

definition handleToggleRow :: "manga_chapter list \<Rightarrow> string \<Rightarrow> bool \<Rightarrow> selection_state \<Rightarrow> selection_state" where
  "handleToggleRow filtered chapterId shiftKey s =
     (case sel_last s of
        Some lastId \<Rightarrow>
          if shiftKey then
            (case (row_index filtered lastId, row_index filtered chapterId) of
               (Some idx1, Some idx2) \<Rightarrow>
                 let start = min idx1 idx2; stop = max idx1 idx2;
                     rangeIds = map c_id (js_slice start (stop + 1) filtered)
                 in s\<lparr>sel_ids := oset_add_all rangeIds (sel_ids s), sel_last := Some chapterId\<rparr>
             | _ \<Rightarrow> toggle_one chapterId s)
          else toggle_one chapterId s
      | None \<Rightarrow> toggle_one chapterId s)"

text \<open>\<open>hasHandler\<close> tells whether \<open>onBatchRemove\<close> is given.\<close>

definition handleConfirmRemove :: "bool \<Rightarrow> selection_state \<Rightarrow> selection_state \<times> string list option" where
  "handleConfirmRemove hasHandler s =
     (if \<not> hasHandler then (s, None)
      else (s\<lparr>sel_confirm := False, sel_ids := [], sel_last := None\<rparr>, Some (sel_ids s)))"

fun selection_step :: "selection_state \<Rightarrow> manga_chapter list \<times> selection_event \<Rightarrow> selection_state" where
  "selection_step s (filtered, Manga_Changed) = s\<lparr>sel_mode := False, sel_ids := [], sel_last := None\<rparr>"
| "selection_step s (filtered, Set_Selection_Mode b) = s\<lparr>sel_mode := b\<rparr>"
| "selection_step s (filtered, Select_All) = handleSelectAll filtered s"
| "selection_step s (filtered, Select_None) = handleSelectNone s"
| "selection_step s (filtered, Invert_Selection) = handleInvertSelection filtered s"
| "selection_step s (filtered, Exit_Selection_Mode) = handleExitSelectionMode s"
| "selection_step s (filtered, Toggle_Row i shift) = handleToggleRow filtered i shift s"
| "selection_step s (filtered, Open_Confirm b) = s\<lparr>sel_confirm := b\<rparr>"
| "selection_step s (filtered, Confirm_Remove h) = fst (handleConfirmRemove h s)"

definition hasDownloadedInSelection :: "manga_chapter list \<Rightarrow> selection_state \<Rightarrow> bool" where
  "hasDownloadedInSelection chapters s =
     (if sel_ids s = [] then False
      else list_ex (\<lambda>c.
        if \<not> oset_has (sel_ids s) (c_id c) then False
        else
          let downloadedPages = coalesce_or [c_downloaded_pages c, c_downloadedPages c,
                Option.bind (c_meta c) cm_downloaded_pages, c_downloadedPages c] 0
          in chapter_is_downloaded c \<or> downloadedPages > 0 \<or>
             truthy_str (Option.bind (c_meta c) cm_downloaded_at)) chapters)"

section \<open>The invariant\<close>

text \<open>
  The selection is a set; and outside a run of plain clicks, a remembered last row is a row
  that was clicked. What is kept: no duplicates, and no remembered row without a click since
  the last clearing.
\<close>

lemma invert_fold:
  "foldl (\<lambda>nxt c. if \<not> oset_has sel (c_id c) then oset_add (c_id c) nxt else nxt) acc cs =
    oset_add_all (filter (\<lambda>i. i \<notin> set sel) (map c_id cs)) acc"
  by (induction cs arbitrary: acc) (auto simp: oset_add_all_def oset_has_def)

lemma invert_eq: "handleInvertSelection filtered s = s\<lparr>sel_ids := oset_of (filter (\<lambda>i. i \<notin> set (sel_ids s)) (map c_id filtered))\<rparr>"
  unfolding handleInvertSelection_def invert_fold oset_of_def by simp

lemma distinct_toggle_one: "distinct (sel_ids s) \<Longrightarrow> distinct (sel_ids (toggle_one i s))"
  by (simp add: toggle_one_def distinct_oset_add distinct_oset_delete)

lemma distinct_toggle_row: "distinct (sel_ids s) \<Longrightarrow> distinct (sel_ids (handleToggleRow f i sh s))"
  by (auto simp: handleToggleRow_def Let_def distinct_toggle_one distinct_oset_add_all split: option.splits)

interpretation selection: machine selection_step initial_selection "\<lambda>s. distinct (sel_ids s)"
proof
  show "distinct (sel_ids initial_selection)" by (simp add: initial_selection_def)
next
  fix s :: selection_state and e :: "manga_chapter list \<times> selection_event"
  assume s: "distinct (sel_ids s)"
  obtain f ev where e: "e = (f, ev)" by fastforce
  show "distinct (sel_ids (selection_step s e))"
    unfolding e using s
    by (cases ev) (simp_all add: handleSelectAll_def handleSelectNone_def invert_eq handleExitSelectionMode_def
        distinct_toggle_row handleConfirmRemove_def)
qed

text \<open>
  After any sequence of clicks, mode changes and filter changes the selection has no
  chapter twice, so \<open>selectedCount\<close> counts chapters; what a confirmed removal hands to the
  batch handler is exactly that set, once each, and it leaves nothing selected.
\<close>

theorem selection_no_duplicates:
  fixes es :: "(manga_chapter list \<times> selection_event) list"
  defines "s \<equiv> run_events selection_step initial_selection es"
  shows "(distinct (sel_ids s)) \<and>
    (length (sel_ids s) = card (set (sel_ids s))) \<and>
    (snd (handleConfirmRemove True s) = Some (sel_ids s) \<and>
      sel_ids (fst (handleConfirmRemove True s)) = [] \<and> sel_last (fst (handleConfirmRemove True s)) = None)"
proof (rule conjI3; (intro impI)?)
  show d: "distinct (sel_ids s)" unfolding s_def by (rule selection.inv_run)
  then show "length (sel_ids s) = card (set (sel_ids s))" by (rule oset.size_card)
  show "snd (handleConfirmRemove True s) = Some (sel_ids s) \<and>
      sel_ids (fst (handleConfirmRemove True s)) = [] \<and> sel_last (fst (handleConfirmRemove True s)) = None"
    by (simp add: handleConfirmRemove_def)
qed

section \<open>What the handlers do\<close>

lemma set_toggle_one:
  "set (sel_ids (toggle_one i s)) = (if i \<in> set (sel_ids s) then set (sel_ids s) - {i} else insert i (set (sel_ids s)))"
  by (simp add: toggle_one_def oset_has_def)

lemma slice_nth: "x \<in> set (js_slice i (j + 1) xs) \<longleftrightarrow> (\<exists>k. i \<le> k \<and> k \<le> j \<and> k < length xs \<and> xs ! k = x)"
proof
  assume "x \<in> set (js_slice i (j + 1) xs)"
  then obtain n where "n < min (Suc j - i) (length xs - i)" "xs ! (i + n) = x"
    by (auto simp: js_slice_def in_set_conv_nth)
  then show "\<exists>k. i \<le> k \<and> k \<le> j \<and> k < length xs \<and> xs ! k = x"
    by (intro exI [of _ "i + n"]) auto
next
  assume "\<exists>k. i \<le> k \<and> k \<le> j \<and> k < length xs \<and> xs ! k = x"
  then obtain k where k: "i \<le> k" "k \<le> j" "k < length xs" "xs ! k = x" by blast
  then have "js_slice i (j + 1) xs ! (k - i) = x" "k - i < length (js_slice i (j + 1) xs)"
    by (auto simp: js_slice_def)
  then show "x \<in> set (js_slice i (j + 1) xs)" using nth_mem by blast
qed

lemma range_slice:
  assumes "j < length xs"
  shows "set (js_slice i (j + 1) xs) = {xs ! k | k. i \<le> k \<and> k \<le> j}"
  unfolding set_eq_iff slice_nth mem_Collect_eq using assms by (blast intro: le_less_trans)

text \<open>
  Shift-click selects, in the order shown, every row between the last row clicked and
  this one, both included, whichever comes first, and deselects nothing; without shift, or
  when one of the two rows is filtered away, exactly the clicked row flips. Toggling the
  same row twice restores the selection.
\<close>

theorem toggle_row_selects_range:
  shows "(sel_last s = Some a \<longrightarrow> row_index f a = Some i \<longrightarrow> row_index f b = Some j \<longrightarrow>
      set (sel_ids (handleToggleRow f b True s)) =
        set (sel_ids s) \<union> {c_id (f ! k) | k. min i j \<le> k \<and> k \<le> max i j}) \<and>
    (sel_last s = Some a \<longrightarrow> row_index f a = None \<or> row_index f b = None \<longrightarrow>
      handleToggleRow f b True s = toggle_one b s) \<and>
    (handleToggleRow f b False s = toggle_one b s) \<and>
    (set (sel_ids (toggle_one b (toggle_one b s))) = set (sel_ids s)) \<and>
    (sel_last (handleToggleRow f b sh s) = Some b)"
proof (rule conjI5; (intro impI)?)
  show "set (sel_ids (handleToggleRow f b True s)) = set (sel_ids s) \<union> {c_id (f ! k) | k. min i j \<le> k \<and> k \<le> max i j}"
    if last: "sel_last s = Some a" and i: "row_index f a = Some i" and j: "row_index f b = Some j"
  proof -
    have l: "i < length f" "j < length f"
      using i j find_index_Some unfolding row_index_def by blast+
    then have "max i j < length f" by simp
    then have "c_id ` set (js_slice (min i j) (max i j + 1) f) = {c_id (f ! k) | k. min i j \<le> k \<and> k \<le> max i j}"
      unfolding range_slice [OF \<open>max i j < length f\<close>, of "min i j"] by auto
    then show ?thesis by (simp add: handleToggleRow_def last i j Let_def del: One_nat_def)
  qed
  show "handleToggleRow f b True s = toggle_one b s"
    if "sel_last s = Some a" "row_index f a = None \<or> row_index f b = None"
    using that by (auto simp: handleToggleRow_def split: option.splits)
  show "handleToggleRow f b False s = toggle_one b s"
    by (simp add: handleToggleRow_def split: option.splits)
  show "set (sel_ids (toggle_one b (toggle_one b s))) = set (sel_ids s)"
    unfolding set_toggle_one by auto
  show "sel_last (handleToggleRow f b sh s) = Some b"
    by (auto simp: handleToggleRow_def toggle_one_def Let_def split: option.splits)
qed

theorem toggle_row_selects_range_witness:
  "set (sel_ids (handleToggleRow [blank_manga_chapter ''a'', blank_manga_chapter ''b'', blank_manga_chapter ''c''] ''a'' True
      (toggle_one ''c'' initial_selection))) =
    set (sel_ids (toggle_one ''c'' initial_selection)) \<union>
    {c_id ([blank_manga_chapter ''a'', blank_manga_chapter ''b'', blank_manga_chapter ''c''] ! k) | k. min 2 0 \<le> k \<and> k \<le> max 2 0}"
  by (rule conjunct1 [OF toggle_row_selects_range, of _ "''c''", rule_format])
     (simp_all add: toggle_one_def row_index_def)

text \<open>
  Select-all selects the filtered chapters, invert selects exactly the filtered chapters
  that were not selected; so a chapter that the filter hides is dropped from the selection by
  both, and inverting twice leaves the selected chapters that are still shown.
\<close>

theorem invert_and_select_all:
  shows "(set (sel_ids (handleInvertSelection f s)) = c_id ` set f - set (sel_ids s)) \<and>
    (set (sel_ids (handleInvertSelection f (handleInvertSelection f s))) = c_id ` set f \<inter> set (sel_ids s)) \<and>
    (set (sel_ids (handleSelectAll f s)) = c_id ` set f) \<and>
    (sel_ids (handleInvertSelection f (handleSelectAll f s)) = []) \<and>
    (set (sel_ids (handleInvertSelection f (handleSelectNone s))) = c_id ` set f)"
proof (rule conjI5; (intro impI)?)
  have inv: "set (sel_ids (handleInvertSelection f t)) = c_id ` set f - set (sel_ids t)" for t
    unfolding invert_eq by auto
  then show "set (sel_ids (handleInvertSelection f s)) = c_id ` set f - set (sel_ids s)"
    "set (sel_ids (handleInvertSelection f (handleInvertSelection f s))) = c_id ` set f \<inter> set (sel_ids s)"
    by auto
  show "set (sel_ids (handleSelectAll f s)) = c_id ` set f"
    by (simp add: handleSelectAll_def)
  then have "set (sel_ids (handleInvertSelection f (handleSelectAll f s))) = {}" unfolding inv by simp
  then show "sel_ids (handleInvertSelection f (handleSelectAll f s)) = []" by simp
  show "set (sel_ids (handleInvertSelection f (handleSelectNone s))) = c_id ` set f"
    unfolding inv by (simp add: handleSelectNone_def)
qed

end
