(* ===== verification/Reader_Gesture.thy ===== *)
theory Reader_Gesture
  imports Kiyomi_Prelude
begin

text \<open>
  \<open>hooks/useReaderGesture.ts\<close>: the swipe and drag gesture of the paged reader, as a state
  machine. The React state and the refs are one record; each handler is a function of the
  options of the current rendering (the state has been rendered between two events), and
  returns the callbacks it fires. A timer is an entry of \<open>g_timers\<close> until it fires or is
  cleared; \<open>animTimeoutRef\<close> remembers the last one set. Timers may fire at any moment and in
  any order, which includes every real schedule.
\<close>

section \<open>State and options\<close>

datatype timer_kind = Spring_Timer | Cancel_Timer

record gesture =
  g_dragOffset :: rat
  g_isDragging :: bool
  g_isAnimating :: bool
  g_didDrag :: bool
  g_startPos :: "(rat \<times> rat \<times> rat) option"
  g_animTimeout :: "nat option"
  g_timers :: "(nat \<times> timer_kind) list"
  g_nextTimer :: nat

datatype container_width = Width_Function rat | Width_Number rat | Width_Missing

record gesture_opts =
  go_readingMode :: string
  go_isPaged :: bool
  go_currentPage :: rat
  go_totalPages :: rat
  go_hasNextChapter :: bool
  go_hasPrevChapter :: bool
  go_containerWidth :: container_width
  go_innerWidth :: "rat option"
  go_disabled :: bool

datatype page_action = Next_Page | Prev_Page

datatype gesture_event =
    Touch_Start "(rat \<times> rat) list" rat
  | Touch_Move "(rat \<times> rat) list"
  | Touch_End rat
  | Touch_Cancel
  | Mouse_Down nat rat rat rat
  | Mouse_Move rat rat
  | Mouse_Up rat
  | Mouse_Leave rat
  | Timer_Fired nat
  | Reset_Gesture

definition initial_gesture :: gesture where
  "initial_gesture =
     \<lparr>g_dragOffset = 0, g_isDragging = False, g_isAnimating = False, g_didDrag = False, g_startPos = None,
      g_animTimeout = None, g_timers = [], g_nextTimer = 0\<rparr>"

section \<open>Handlers\<close>

definition getWidth :: "gesture_opts \<Rightarrow> rat" where
  "getWidth opts =
     (case go_containerWidth opts of
        Width_Function w \<Rightarrow> w
      | Width_Number w \<Rightarrow> if w > 0 then w else coalesce_or [go_innerWidth opts] 800
      | Width_Missing \<Rightarrow> coalesce_or [go_innerWidth opts] 800)"

definition clear_timer :: "nat option \<Rightarrow> gesture \<Rightarrow> gesture" where
  "clear_timer t s = (case t of None \<Rightarrow> s | Some i \<Rightarrow> s\<lparr>g_timers := filter (\<lambda>(j, _). j \<noteq> i) (g_timers s)\<rparr>)"

definition set_anim_timer :: "timer_kind \<Rightarrow> gesture \<Rightarrow> gesture" where
  "set_anim_timer k s =
     s\<lparr>g_timers := g_timers s @ [(g_nextTimer s, k)], g_animTimeout := Some (g_nextTimer s),
       g_nextTimer := g_nextTimer s + 1\<rparr>"

definition resetGesture :: "gesture \<Rightarrow> gesture" where
  "resetGesture s =
     (clear_timer (g_animTimeout s) s)\<lparr>g_startPos := None, g_didDrag := False, g_dragOffset := 0,
       g_isDragging := False, g_isAnimating := False, g_animTimeout := None\<rparr>"

definition handleStart :: "gesture_opts \<Rightarrow> rat \<Rightarrow> rat \<Rightarrow> rat \<Rightarrow> gesture \<Rightarrow> gesture" where
  "handleStart opts clientX clientY now s =
     (if \<not> go_isPaged opts \<or> go_disabled opts \<or> g_isAnimating s then s
      else s\<lparr>g_startPos := Some (clientX, clientY, now), g_didDrag := False, g_isDragging := False,
             g_dragOffset := 0\<rparr>)"

definition handleMove :: "gesture_opts \<Rightarrow> rat \<Rightarrow> rat \<Rightarrow> gesture \<Rightarrow> gesture" where
  "handleMove opts clientX clientY s =
     (case g_startPos s of
        None \<Rightarrow> s
      | Some (x, y, t) \<Rightarrow>
          if \<not> go_isPaged opts \<or> go_disabled opts \<or> g_isAnimating s then s
          else
            let deltaX = clientX - x; deltaY = clientY - y
            in if \<bar>deltaX\<bar> > 10 \<and> \<bar>deltaX\<bar> > \<bar>deltaY\<bar>
               then s\<lparr>g_didDrag := True, g_isDragging := True, g_dragOffset := deltaX\<rparr> else s)"

definition meets_threshold :: "rat \<Rightarrow> rat \<Rightarrow> rat \<Rightarrow> bool" where
  "meets_threshold width currentDrag elapsed =
     (let velocity = currentDrag / elapsed; distanceThreshold = max 50 (width * (15 / 100));
          isFlick = \<bar>velocity\<bar> > 4 / 10 \<and> \<bar>currentDrag\<bar> > 20
      in \<bar>currentDrag\<bar> \<ge> distanceThreshold \<or> isFlick)"

definition spring_back :: "gesture \<Rightarrow> gesture" where
  "spring_back s = set_anim_timer Spring_Timer (s\<lparr>g_isAnimating := True, g_dragOffset := 0\<rparr>)"

definition handleEnd :: "gesture_opts \<Rightarrow> rat \<Rightarrow> gesture \<Rightarrow> gesture \<times> page_action list" where
  "handleEnd opts now s =
     (case g_startPos s of
        None \<Rightarrow> (s, [])
      | Some (x, y, t) \<Rightarrow>
          if \<not> go_isPaged opts \<or> go_disabled opts then (s, [])
          else
            let currentDrag = g_dragOffset s; wasDragging = g_didDrag s; elapsed = max 1 (now - t);
                s1 = s\<lparr>g_startPos := None, g_isDragging := False\<rparr>
            in if \<not> wasDragging \<or> g_isAnimating s then (s1\<lparr>g_dragOffset := 0\<rparr>, [])
               else if meets_threshold (getWidth opts) currentDrag elapsed then
                 let isNext = (if go_readingMode opts = ''rtl'' then currentDrag > 0 else currentDrag < 0)
                 in if isNext then
                      (if go_currentPage opts < go_totalPages opts \<or> go_hasNextChapter opts
                       then (s1, [Next_Page]) else (spring_back s1, []))
                    else
                      (if go_currentPage opts > 1 \<or> go_hasPrevChapter opts
                       then (s1, [Prev_Page]) else (spring_back s1, []))
               else (spring_back s1, []))"

definition handleCancel :: "gesture \<Rightarrow> gesture" where
  "handleCancel s =
     set_anim_timer Cancel_Timer (s\<lparr>g_startPos := None, g_isDragging := False, g_dragOffset := 0\<rparr>)"

definition fire_timer :: "nat \<Rightarrow> gesture \<Rightarrow> gesture" where
  "fire_timer i s =
     (case map_of (g_timers s) i of
        None \<Rightarrow> s
      | Some k \<Rightarrow>
          let s1 = clear_timer (Some i) s
          in (case k of
                Spring_Timer \<Rightarrow> s1\<lparr>g_isAnimating := False, g_didDrag := False\<rparr>
              | Cancel_Timer \<Rightarrow> s1\<lparr>g_didDrag := False\<rparr>))"

fun gesture_step :: "gesture \<Rightarrow> gesture_opts \<times> gesture_event \<Rightarrow> gesture \<times> page_action list" where
  "gesture_step s (opts, Touch_Start touches now) =
     (case touches of [(x, y)] \<Rightarrow> (handleStart opts x y now s, []) | _ \<Rightarrow> (s, []))"
| "gesture_step s (opts, Touch_Move touches) =
     (case touches of [(x, y)] \<Rightarrow> (handleMove opts x y s, []) | _ \<Rightarrow> (s, []))"
| "gesture_step s (opts, Touch_End now) = handleEnd opts now s"
| "gesture_step s (opts, Touch_Cancel) = (handleCancel s, [])"
| "gesture_step s (opts, Mouse_Down button x y now) =
     (if button = 0 then (handleStart opts x y now s, []) else (s, []))"
| "gesture_step s (opts, Mouse_Move x y) = (if g_startPos s \<noteq> None then (handleMove opts x y s, []) else (s, []))"
| "gesture_step s (opts, Mouse_Up now) = handleEnd opts now s"
| "gesture_step s (opts, Mouse_Leave now) = (if g_startPos s \<noteq> None then handleEnd opts now s else (s, []))"
| "gesture_step s (opts, Timer_Fired i) = (fire_timer i s, [])"
| "gesture_step s (opts, Reset_Gesture) = (resetGesture s, [])"

definition gesture_next :: "gesture \<Rightarrow> gesture_opts \<times> gesture_event \<Rightarrow> gesture" where
  "gesture_next s e = fst (gesture_step s e)"

definition transitionStyle :: "gesture \<Rightarrow> string" where
  "transitionStyle s =
     (if g_isDragging s then ''none''
      else if g_isAnimating s then ''transform 220ms cubic-bezier(0.16, 1, 0.3, 1)'' else ''none'')"

text \<open>The callbacks of a run, in order.\<close>

primrec gesture_actions :: "gesture \<Rightarrow> (gesture_opts \<times> gesture_event) list \<Rightarrow> page_action list" where
  "gesture_actions s [] = []"
| "gesture_actions s (e # es) = snd (gesture_step s e) @ gesture_actions (fst (gesture_step s e)) es"

section \<open>The invariant\<close>

text \<open>
  A drag has a start and more than 10 pixels; timers have distinct ids below the next one;
  and while the hook animates, the timer that ends the animation is pending and is the one
  \<open>animTimeoutRef\<close> names unless a cancel came later.
\<close>

definition gesture_inv :: "gesture \<Rightarrow> bool" where
  "gesture_inv s \<longleftrightarrow>
     (g_isDragging s \<longrightarrow> g_startPos s \<noteq> None \<and> \<bar>g_dragOffset s\<bar> > 10) \<and>
     distinct (map fst (g_timers s)) \<and> (\<forall>(i, k) \<in> set (g_timers s). i < g_nextTimer s) \<and>
     (g_isAnimating s \<longrightarrow> (\<exists>i. (i, Spring_Timer) \<in> set (g_timers s)))"

lemma inv_initial: "gesture_inv initial_gesture"
  by (simp add: gesture_inv_def initial_gesture_def)

lemma distinct_fst_filter: "distinct (map fst xs) \<Longrightarrow> distinct (map fst (filter P xs))"
  by (induction xs) auto

lemma inv_start: "gesture_inv s \<Longrightarrow> gesture_inv (handleStart opts x y now s)"
  by (auto simp: gesture_inv_def handleStart_def)

lemma inv_move: "gesture_inv s \<Longrightarrow> gesture_inv (handleMove opts x y s)"
  by (auto simp: gesture_inv_def handleMove_def Let_def split: option.splits)

lemma inv_set_timer:
  assumes "gesture_inv (s\<lparr>g_isAnimating := False\<rparr>)" "g_isAnimating s \<Longrightarrow> k = Spring_Timer \<or> (\<exists>i. (i, Spring_Timer) \<in> set (g_timers s))"
  shows "gesture_inv (set_anim_timer k s)"
  using assms by (auto simp: gesture_inv_def set_anim_timer_def less_Suc_eq)

lemma inv_spring: "gesture_inv s \<Longrightarrow> \<not> g_isDragging s \<Longrightarrow> gesture_inv (spring_back s)"
  unfolding spring_back_def by (rule inv_set_timer) (simp_all add: gesture_inv_def)

lemma inv_end: "gesture_inv s \<Longrightarrow> gesture_inv (fst (handleEnd opts now s))"
proof -
  assume s: "gesture_inv s"
  have s1: "gesture_inv (s\<lparr>g_startPos := None, g_isDragging := False\<rparr>)"
    "gesture_inv (s\<lparr>g_startPos := None, g_isDragging := False, g_dragOffset := 0\<rparr>)"
    using s by (simp_all add: gesture_inv_def)
  then have "gesture_inv (spring_back (s\<lparr>g_startPos := None, g_isDragging := False\<rparr>))"
    by (intro inv_spring) simp_all
  with s s1 show ?thesis by (simp add: handleEnd_def Let_def split: option.split prod.split)
qed

lemma inv_cancel: "gesture_inv s \<Longrightarrow> gesture_inv (handleCancel s)"
  unfolding handleCancel_def by (rule inv_set_timer) (simp_all add: gesture_inv_def)

lemma inv_reset: "gesture_inv s \<Longrightarrow> gesture_inv (resetGesture s)"
  by (cases "g_animTimeout s")
     (auto simp: gesture_inv_def resetGesture_def clear_timer_def distinct_fst_filter)

lemma inv_fire: "gesture_inv s \<Longrightarrow> gesture_inv (fire_timer i s)"
proof (cases "map_of (g_timers s) i")
  case (Some k)
  assume s: "gesture_inv s"
  have "j \<noteq> i" if j: "(j, Spring_Timer) \<in> set (g_timers s)" "k = Cancel_Timer" for j
  proof
    assume "j = i"
    then have "map_of (g_timers s) i = Some Spring_Timer" using j s by (simp add: gesture_inv_def)
    with Some j show False by simp
  qed
  with s Some show ?thesis
    by (cases k) (auto simp: gesture_inv_def fire_timer_def clear_timer_def Let_def distinct_fst_filter)
qed (simp add: fire_timer_def)

lemma inv_gesture_step: "gesture_inv s \<Longrightarrow> gesture_inv (fst (gesture_step s (opts, ev)))"
  by (cases ev)
     (auto simp: inv_start inv_move inv_end inv_cancel inv_reset inv_fire split: list.split)

interpretation gesture: machine gesture_next initial_gesture gesture_inv
proof
  show "gesture_inv initial_gesture" by (rule inv_initial)
next
  fix s :: gesture and e :: "gesture_opts \<times> gesture_event"
  show "gesture_inv s \<Longrightarrow> gesture_inv (gesture_next s e)"
    using inv_gesture_step [of s "fst e" "snd e"] by (simp add: gesture_next_def)
qed

section \<open>What a gesture does\<close>

text \<open>
  C13: In every state that any sequence of touches, mouse events, timers and resets can reach,
  a drag in progress has a start and is more than 10 pixels wide, and an animation in
  progress has a pending timer that ends it when it fires: the reader cannot get stuck
  animating, a state in which it ignores all input.
\<close>

theorem gesture_never_stuck:
  fixes es :: "(gesture_opts \<times> gesture_event) list"
  defines "s \<equiv> run_events gesture_next initial_gesture es"
  shows "(g_isDragging s \<longrightarrow> g_startPos s \<noteq> None \<and> \<bar>g_dragOffset s\<bar> > 10) \<and>
    (g_isAnimating s \<longrightarrow> (\<exists>i. (i, Spring_Timer) \<in> set (g_timers s) \<and>
      \<not> g_isAnimating (gesture_next s (opts, Timer_Fired i))))"
proof (rule conjI2; (intro impI)?)
  have inv: "gesture_inv s" unfolding s_def by (rule gesture.inv_run)
  then show "g_isDragging s \<Longrightarrow> g_startPos s \<noteq> None \<and> \<bar>g_dragOffset s\<bar> > 10"
    by (simp add: gesture_inv_def)
  assume "g_isAnimating s"
  with inv obtain i where i: "(i, Spring_Timer) \<in> set (g_timers s)" "distinct (map fst (g_timers s))"
    by (auto simp: gesture_inv_def)
  then have "map_of (g_timers s) i = Some Spring_Timer" by simp
  then have "\<not> g_isAnimating (gesture_next s (opts, Timer_Fired i))"
    by (simp add: gesture_next_def fire_timer_def clear_timer_def Let_def)
  with i show "\<exists>i. (i, Spring_Timer) \<in> set (g_timers s) \<and> \<not> g_isAnimating (gesture_next s (opts, Timer_Fired i))"
    by blast
qed

definition sample_opts :: "string \<Rightarrow> rat \<Rightarrow> gesture_opts" where
  "sample_opts mode pg =
     \<lparr>go_readingMode = mode, go_isPaged = True, go_currentPage = pg, go_totalPages = 10, go_hasNextChapter = False,
      go_hasPrevChapter = False, go_containerWidth = Width_Number 400, go_innerWidth = None, go_disabled = False\<rparr>"

definition short_drag :: "(gesture_opts \<times> gesture_event) list" where
  "short_drag =
     [(sample_opts ''ltr'' 3, Touch_Start [(200, 0)] 0), (sample_opts ''ltr'' 3, Touch_Move [(180, 5)]),
      (sample_opts ''ltr'' 3, Touch_End 500)]"

lemma short_drag_animates: "g_isAnimating (run_events gesture_next initial_gesture short_drag)"
  by code_simp

theorem gesture_never_stuck_witness:
  "\<exists>i. (i, Spring_Timer) \<in> set (g_timers (run_events gesture_next initial_gesture short_drag)) \<and>
    \<not> g_isAnimating (gesture_next (run_events gesture_next initial_gesture short_drag) (sample_opts ''ltr'' 3, Timer_Fired i))"
  using gesture_never_stuck [of short_drag] short_drag_animates by blast

definition swipe :: "gesture_opts \<Rightarrow> rat \<times> rat \<Rightarrow> rat \<Rightarrow> rat \<times> rat \<Rightarrow> rat \<Rightarrow> gesture \<Rightarrow> gesture \<times> page_action list" where
  "swipe opts p0 t0 p1 t1 s =
     handleEnd opts t1 (handleMove opts (fst p1) (snd p1) (handleStart opts (fst p0) (snd p0) t0 s))"

lemma swipe_dragged:
  assumes "go_isPaged opts" "\<not> go_disabled opts" "\<not> g_isAnimating s" "\<bar>x1 - x0\<bar> > 10" "\<bar>x1 - x0\<bar> > \<bar>y1 - y0\<bar>"
  shows "swipe opts (x0, y0) t0 (x1, y1) t1 s =
    (let s1 = s\<lparr>g_didDrag := True, g_dragOffset := x1 - x0, g_startPos := None, g_isDragging := False\<rparr>
     in if meets_threshold (getWidth opts) (x1 - x0) (max 1 (t1 - t0)) then
          (if (if go_readingMode opts = ''rtl'' then x1 - x0 > 0 else x1 - x0 < 0) then
             (if go_currentPage opts < go_totalPages opts \<or> go_hasNextChapter opts
              then (s1, [Next_Page]) else (spring_back s1, []))
           else
             (if go_currentPage opts > 1 \<or> go_hasPrevChapter opts
              then (s1, [Prev_Page]) else (spring_back s1, [])))
        else (spring_back s1, []))"
  using assms by (simp add: swipe_def handleStart_def handleMove_def handleEnd_def Let_def)

text \<open>
  What a swipe from \<open>(x0, y0)\<close> to \<open>(x1, y1)\<close> does. It turns the page exactly when it is
  mainly horizontal, longer than 10 pixels, and either covers 15% of the width (at least 50
  pixels) or is a flick (more than 20 pixels at more than 0.4 px/ms); the direction is next
  for a leftward swipe, rightward in RTL mode; and it never turns beyond the last or before
  the first page unless there is a chapter there. Every dragged swipe that turns no page
  springs back to offset 0 with the timer set, and a tap leaves no offset.
\<close>

theorem swipe_turns_page:
  fixes x0 x1 y0 y1 t0 t1 :: rat and opts :: gesture_opts and s :: gesture
  assumes "go_isPaged opts" "\<not> go_disabled opts" "\<not> g_isAnimating s"
  defines "d \<equiv> x1 - x0"
  defines "horizontal \<equiv> \<bar>d\<bar> > 10 \<and> \<bar>d\<bar> > \<bar>y1 - y0\<bar>"
  defines "far \<equiv> \<bar>d\<bar> \<ge> max 50 (getWidth opts * (15 / 100)) \<or>
    \<bar>d / max 1 (t1 - t0)\<bar> > 4 / 10 \<and> \<bar>d\<bar> > 20"
  defines "forward \<equiv> (if go_readingMode opts = ''rtl'' then d > 0 else d < 0)"
  defines "r \<equiv> swipe opts (x0, y0) t0 (x1, y1) t1 s"
  shows "(snd r = [Next_Page] \<longleftrightarrow>
      horizontal \<and> far \<and> forward \<and> (go_currentPage opts < go_totalPages opts \<or> go_hasNextChapter opts)) \<and>
    (snd r = [Prev_Page] \<longleftrightarrow>
      horizontal \<and> far \<and> \<not> forward \<and> (go_currentPage opts > 1 \<or> go_hasPrevChapter opts)) \<and>
    (snd r \<in> {[], [Next_Page], [Prev_Page]}) \<and>
    (snd r = [] \<longrightarrow> g_dragOffset (fst r) = 0 \<and> \<not> g_isDragging (fst r) \<and> g_isAnimating (fst r) = horizontal)"
proof (rule conjI4; (intro impI)?)
  have far: "far = meets_threshold (getWidth opts) d (max 1 (t1 - t0))"
    by (simp add: far_def meets_threshold_def Let_def)
  have all: "(snd r = [Next_Page] \<longleftrightarrow>
      horizontal \<and> far \<and> forward \<and> (go_currentPage opts < go_totalPages opts \<or> go_hasNextChapter opts)) \<and>
    (snd r = [Prev_Page] \<longleftrightarrow>
      horizontal \<and> far \<and> \<not> forward \<and> (go_currentPage opts > 1 \<or> go_hasPrevChapter opts)) \<and>
    snd r \<in> {[], [Next_Page], [Prev_Page]} \<and>
    (snd r = [] \<longrightarrow> g_dragOffset (fst r) = 0 \<and> \<not> g_isDragging (fst r) \<and> g_isAnimating (fst r) = horizontal)"
  proof (cases horizontal)
    case True
    then have h: "\<bar>x1 - x0\<bar> > 10" "\<bar>x1 - x0\<bar> > \<bar>y1 - y0\<bar>" by (simp_all add: horizontal_def d_def)
    show ?thesis
      unfolding r_def swipe_dragged [OF assms(1-3) h] far forward_def d_def Let_def
      using True by (simp add: spring_back_def set_anim_timer_def)
  next
    case False
    then have "r = (s\<lparr>g_startPos := None, g_didDrag := False, g_isDragging := False, g_dragOffset := 0\<rparr>, [])"
      using assms(1-3) unfolding r_def horizontal_def d_def
      by (auto simp: swipe_def handleStart_def handleMove_def handleEnd_def Let_def)
    then show ?thesis using False assms(3) by simp
  qed
  from all show "snd r = [Next_Page] \<longleftrightarrow>
      horizontal \<and> far \<and> forward \<and> (go_currentPage opts < go_totalPages opts \<or> go_hasNextChapter opts)" by (elim conjE)
  from all show "snd r = [Prev_Page] \<longleftrightarrow>
      horizontal \<and> far \<and> \<not> forward \<and> (go_currentPage opts > 1 \<or> go_hasPrevChapter opts)" by (elim conjE)
  from all show "snd r \<in> {[], [Next_Page], [Prev_Page]}" by (elim conjE)
  from all show "g_dragOffset (fst r) = 0 \<and> \<not> g_isDragging (fst r) \<and> g_isAnimating (fst r) = horizontal" if "snd r = []"
    using that by (elim conjE) simp
qed

theorem swipe_turns_page_witness:
  "snd (swipe (sample_opts ''ltr'' 3) (300, 0) 0 (200, 10) 100 initial_gesture) = [Next_Page]"
proof -
  have "\<bar>(200 :: rat) - 300\<bar> = 100" "\<bar>(10 :: rat) - 0\<bar> = 10" by simp_all
  then show ?thesis
    using swipe_turns_page [where opts = "sample_opts ''ltr'' 3" and s = initial_gesture
        and ?x0.0 = 300 and ?x1.0 = 200 and ?y0.0 = 0 and ?y1.0 = 10 and ?t0.0 = 0 and ?t1.0 = 100]
    by (simp add: sample_opts_def initial_gesture_def getWidth_def)
qed

section \<open>Right-to-left is the mirror image\<close>

definition mirror_opts :: "gesture_opts \<Rightarrow> gesture_opts" where
  "mirror_opts opts =
     opts\<lparr>go_readingMode := (if go_readingMode opts = ''rtl'' then ''ltr'' else ''rtl'')\<rparr>"

fun mirror_event :: "gesture_event \<Rightarrow> gesture_event" where
  "mirror_event (Touch_Start ts now) = Touch_Start (map (\<lambda>(x, y). (- x, y)) ts) now"
| "mirror_event (Touch_Move ts) = Touch_Move (map (\<lambda>(x, y). (- x, y)) ts)"
| "mirror_event (Mouse_Down b x y now) = Mouse_Down b (- x) y now"
| "mirror_event (Mouse_Move x y) = Mouse_Move (- x) y"
| "mirror_event ev = ev"

definition mirror :: "gesture \<Rightarrow> gesture" where
  "mirror s =
     s\<lparr>g_dragOffset := - g_dragOffset s, g_startPos := map_option (\<lambda>(x, y, t). (- x, y, t)) (g_startPos s)\<rparr>"

lemma mirror_simps [simp]:
  "g_dragOffset (mirror s) = - g_dragOffset s" "g_isDragging (mirror s) = g_isDragging s"
  "g_isAnimating (mirror s) = g_isAnimating s" "g_didDrag (mirror s) = g_didDrag s"
  "g_startPos (mirror s) = map_option (\<lambda>(x, y, t). (- x, y, t)) (g_startPos s)"
  "g_timers (mirror s) = g_timers s" "g_animTimeout (mirror s) = g_animTimeout s"
  "g_nextTimer (mirror s) = g_nextTimer s"
  by (simp_all add: mirror_def)

lemma mirror_initial: "mirror initial_gesture = initial_gesture"
  by (simp add: mirror_def initial_gesture_def)

lemma mirror_start: "handleStart (mirror_opts opts) (- x) y now (mirror s) = mirror (handleStart opts x y now s)"
  by (simp add: handleStart_def mirror_opts_def mirror_def)

lemma mirror_move: "handleMove (mirror_opts opts) (- x) y (mirror s) = mirror (handleMove opts x y s)"
proof (cases "g_startPos s")
  case (Some p)
  obtain x0 y0 t where p: "p = (x0, y0, t)" by (cases p)
  have "\<bar>x0 - x\<bar> = \<bar>x - x0\<bar>" by (rule abs_minus_commute)
  then show ?thesis using Some
    by (simp add: p handleMove_def mirror_opts_def Let_def mirror_def)
qed (simp add: handleMove_def)

lemma meets_threshold_neg: "meets_threshold w (- d) e = meets_threshold w d e"
  by (simp add: meets_threshold_def Let_def)

lemma meets_threshold_nonzero: "meets_threshold w d e \<Longrightarrow> d \<noteq> 0"
  by (auto simp: meets_threshold_def Let_def)

lemma mirror_spring: "spring_back (mirror s) = mirror (spring_back s)"
  by (simp add: spring_back_def set_anim_timer_def mirror_def)

lemma mirror_end:
  "handleEnd (mirror_opts opts) now (mirror s) = (mirror (fst (handleEnd opts now s)), snd (handleEnd opts now s))"
proof (cases "g_startPos s")
  case (Some p)
  obtain x0 y0 t where p: "p = (x0, y0, t)" by (cases p)
  let ?s1 = "s\<lparr>g_startPos := None, g_isDragging := False\<rparr>"
  have m: "(mirror s)\<lparr>g_startPos := None, g_isDragging := False\<rparr> = mirror ?s1"
    "(mirror s)\<lparr>g_startPos := None, g_isDragging := False, g_dragOffset := 0\<rparr> = mirror (?s1\<lparr>g_dragOffset := 0\<rparr>)"
    by (simp_all add: mirror_def)
  have o: "go_isPaged (mirror_opts opts) = go_isPaged opts" "go_disabled (mirror_opts opts) = go_disabled opts"
    "getWidth (mirror_opts opts) = getWidth opts" "go_currentPage (mirror_opts opts) = go_currentPage opts"
    "go_totalPages (mirror_opts opts) = go_totalPages opts" "go_hasNextChapter (mirror_opts opts) = go_hasNextChapter opts"
    "go_hasPrevChapter (mirror_opts opts) = go_hasPrevChapter opts"
    "(go_readingMode (mirror_opts opts) = ''rtl'') = (go_readingMode opts \<noteq> ''rtl'')"
    by (simp_all add: mirror_opts_def getWidth_def split: container_width.split)
  show ?thesis
    using Some meets_threshold_nonzero [of "getWidth opts" "g_dragOffset s" "max 1 (now - t)"]
    by (auto simp: handleEnd_def p o m mirror_spring meets_threshold_neg Let_def)
qed (simp add: handleEnd_def)

lemma mirror_cancel: "handleCancel (mirror s) = mirror (handleCancel s)"
  by (simp add: handleCancel_def set_anim_timer_def mirror_def)

lemma mirror_reset: "resetGesture (mirror s) = mirror (resetGesture s)"
  by (simp add: resetGesture_def clear_timer_def mirror_def split: option.split)

lemma mirror_fire: "fire_timer i (mirror s) = mirror (fire_timer i s)"
  by (simp add: fire_timer_def clear_timer_def Let_def mirror_def split: option.split timer_kind.split)

lemma mirror_step:
  "gesture_step (mirror s) (mirror_opts opts, mirror_event ev) =
    (mirror (fst (gesture_step s (opts, ev))), snd (gesture_step s (opts, ev)))"
  by (cases ev)
     (auto simp: mirror_start mirror_move mirror_end mirror_cancel mirror_reset mirror_fire split: list.split)

text \<open>
  Reading right to left is the mirror image of reading left to right: playing the mirrored
  input (every horizontal coordinate negated) with the other reading direction turns the
  same pages at the same moments, through any sequence of events.
\<close>

theorem rtl_mirrors_ltr:
  "gesture_actions initial_gesture (map (\<lambda>(opts, ev). (mirror_opts opts, mirror_event ev)) es) =
    gesture_actions initial_gesture es"
proof -
  have "gesture_actions (mirror s) (map (\<lambda>(opts, ev). (mirror_opts opts, mirror_event ev)) es) = gesture_actions s es" for s
    by (induction es arbitrary: s) (auto simp: mirror_step simp del: gesture_step.simps)
  from this [of initial_gesture] show ?thesis by (simp add: mirror_initial)
qed

end
