(* ===== verification/Reader_Input.thy ===== *)
theory Reader_Input
  imports Reader_Gesture
begin

text \<open>
  The inputs of the reader besides the gesture: the keys (\<open>hooks/useReaderKeyboard.ts\<close>), the click
  zones and the three slots of the paged view (\<open>components/reader/ReaderPagedView.tsx\<close>) with the
  way its touch events bubble to the gesture handlers, the chapter cards of the continuous view, the
  slider of the footer (\<open>components/ReaderFooter.tsx\<close>), and the scroll tracker of the continuous
  view (\<open>hooks/useReaderScrollTracker.ts\<close>).
\<close>

section \<open>Keys\<close>

datatype key_action = Key_Next | Key_Prev | Key_First | Key_Last | Key_Overlays | Key_Fullscreen

datatype key_effect = Call key_action | Enter_Fullscreen | Exit_Fullscreen

record key_target =
  kt_tagName :: string
  kt_contentEditable :: bool
  kt_inDialog :: bool

record key_event =
  ke_key :: string
  ke_code :: string
  ke_ctrl :: bool
  ke_meta :: bool
  ke_alt :: bool
  ke_shift :: bool
  ke_target :: "key_target option"

text \<open>\<open>ko_handlers\<close> are the optional callbacks that are passed.\<close>

record key_opts =
  ko_readingMode :: string
  ko_enabled :: "bool option"
  ko_handlers :: "key_action list"
  ko_fullscreenElement :: bool

definition typing_target :: "key_event \<Rightarrow> bool" where
  "typing_target e =
     (case ke_target e of
        None \<Rightarrow> False
      | Some t \<Rightarrow> kt_tagName t = ''INPUT'' \<or> kt_tagName t = ''TEXTAREA'' \<or> kt_contentEditable t \<or> kt_inDialog t)"

definition call_if :: "key_opts \<Rightarrow> key_action \<Rightarrow> key_effect option" where
  "call_if opts a = (if a \<in> set (ko_handlers opts) then Some (Call a) else None)"

text \<open>Whether the default is prevented, and the effect.\<close>

definition handleKeyDown :: "key_opts \<Rightarrow> key_event \<Rightarrow> bool \<times> key_effect option" where
  "handleKeyDown opts e =
     (if \<not> coalesce_or [ko_enabled opts] True then (False, None)
      else if typing_target e then (False, None)
      else if ke_ctrl e \<or> ke_meta e \<or> ke_alt e then (False, None)
      else
        let isRTL = (ko_readingMode opts = ''rtl''); k = ke_key e
        in if k = ''f'' \<or> k = ''F'' then
             (True,
              if Key_Fullscreen \<in> set (ko_handlers opts) then Some (Call Key_Fullscreen)
              else if \<not> ko_fullscreenElement opts then Some Enter_Fullscreen else Some Exit_Fullscreen)
           else if k = ''m'' \<or> k = ''M'' then (True, call_if opts Key_Overlays)
           else if k = ''Home'' then (True, call_if opts Key_First)
           else if k = ''End'' then (True, call_if opts Key_Last)
           else if k = ''PageUp'' then (True, call_if opts Key_Prev)
           else if k = ''PageDown'' then (True, call_if opts Key_Next)
           else if k = '' '' \<or> ke_code e = ''Space'' then
             (True, call_if opts (if ke_shift e then Key_Prev else Key_Next))
           else if k = ''ArrowLeft'' then (True, call_if opts (if isRTL then Key_Next else Key_Prev))
           else if k = ''ArrowRight'' then (True, call_if opts (if isRTL then Key_Prev else Key_Next))
           else (False, None))"

section \<open>The click zones and the touch events of the paged view\<close>

datatype zone = Zone_Left | Zone_Center | Zone_Right

datatype zone_action = Zone_Next | Zone_Prev | Zone_Overlays

definition zone_action_of :: "string \<Rightarrow> zone \<Rightarrow> zone_action" where
  "zone_action_of readingMode z =
     (let isRTL = (readingMode = ''rtl'')
      in case z of
           Zone_Left \<Rightarrow> if isRTL then Zone_Next else Zone_Prev
         | Zone_Center \<Rightarrow> Zone_Overlays
         | Zone_Right \<Rightarrow> if isRTL then Zone_Prev else Zone_Next)"

text \<open>\<open>onClick\<close> and \<open>onTouchEnd\<close> of a zone: nothing after a drag or during an animation.\<close>

definition zone_fire :: "string \<Rightarrow> gesture \<Rightarrow> zone \<Rightarrow> zone_action option" where
  "zone_fire readingMode s z =
     (if g_didDrag s \<or> g_isAnimating s then None else Some (zone_action_of readingMode z))"

text \<open>
  An event on a zone. The zones cover the container that has the gesture handlers, so every event
  of a finger or a mouse starts on one. It bubbles to the container, except that the zone's
  \<open>onTouchEnd\<close> stops it.
\<close>

datatype paged_event =
    Zone_Touch_Start zone "(rat \<times> rat) list" rat
  | Zone_Touch_Move zone "(rat \<times> rat) list"
  | Zone_Touch_End zone rat
  | Zone_Touch_Cancel zone
  | Zone_Mouse_Down zone nat rat rat rat
  | Zone_Mouse_Move zone rat rat
  | Zone_Mouse_Up zone rat
  | Zone_Click zone
  | Container_Mouse_Leave rat
  | Container_Timer nat

datatype paged_output = Page_Action page_action | Zone_Action zone_action

definition to_gesture :: "gesture_opts \<Rightarrow> gesture_event \<Rightarrow> gesture \<Rightarrow> gesture \<times> paged_output list" where
  "to_gesture opts e s = (let (s', as) = gesture_step s (opts, e) in (s', map Page_Action as))"

definition zone_output :: "gesture_opts \<Rightarrow> gesture \<Rightarrow> zone \<Rightarrow> paged_output list" where
  "zone_output opts s z =
     (case zone_fire (go_readingMode opts) s z of None \<Rightarrow> [] | Some a \<Rightarrow> [Zone_Action a])"

fun paged_step :: "gesture_opts \<Rightarrow> gesture \<Rightarrow> paged_event \<Rightarrow> gesture \<times> paged_output list" where
  "paged_step opts s (Zone_Touch_Start z touches now) = to_gesture opts (Touch_Start touches now) s"
| "paged_step opts s (Zone_Touch_Move z touches) = to_gesture opts (Touch_Move touches) s"
| "paged_step opts s (Zone_Touch_End z now) = (s, zone_output opts s z)"
| "paged_step opts s (Zone_Touch_Cancel z) = to_gesture opts Touch_Cancel s"
| "paged_step opts s (Zone_Mouse_Down z b x y now) = to_gesture opts (Mouse_Down b x y now) s"
| "paged_step opts s (Zone_Mouse_Move z x y) = to_gesture opts (Mouse_Move x y) s"
| "paged_step opts s (Zone_Mouse_Up z now) = to_gesture opts (Mouse_Up now) s"
| "paged_step opts s (Zone_Click z) = (s, zone_output opts s z)"
| "paged_step opts s (Container_Mouse_Leave now) = to_gesture opts (Mouse_Leave now) s"
| "paged_step opts s (Container_Timer i) = to_gesture opts (Timer_Fired i) s"

primrec paged_run :: "gesture_opts \<Rightarrow> gesture \<Rightarrow> paged_event list \<Rightarrow> gesture \<times> paged_output list" where
  "paged_run opts s [] = (s, [])"
| "paged_run opts s (e # es) =
     (let (s1, o1) = paged_step opts s e; (s2, o2) = paged_run opts s1 es in (s2, o1 @ o2))"

section \<open>The slots of the paged view\<close>

datatype slot = Slot_Page rat | Slot_Prev_Boundary | Slot_Next_Boundary | Slot_Empty

text \<open>\<open>xs[q]\<close> for a number \<open>q\<close>: \<open>undefined\<close> unless \<open>q\<close> is an index.\<close>

definition js_at :: "'a list \<Rightarrow> rat \<Rightarrow> 'a option" where
  "js_at xs q =
     (if q = of_int \<lfloor>q\<rfloor> \<and> 0 \<le> q \<and> nat \<lfloor>q\<rfloor> < length xs then Some (xs ! nat \<lfloor>q\<rfloor>) else None)"

definition before_slot :: "'p list \<Rightarrow> rat \<Rightarrow> slot" where
  "before_slot pages currentPage =
     (if currentPage > 1 then
        (case js_at pages (currentPage - 2) of None \<Rightarrow> Slot_Empty | Some p \<Rightarrow> Slot_Page (currentPage - 1))
      else Slot_Prev_Boundary)"

definition after_slot :: "'p list \<Rightarrow> rat \<Rightarrow> slot" where
  "after_slot pages currentPage =
     (if currentPage < of_nat (length pages) then
        (case js_at pages currentPage of None \<Rightarrow> Slot_Empty | Some p \<Rightarrow> Slot_Page (currentPage + 1))
      else Slot_Next_Boundary)"

definition center_slot :: "'p list \<Rightarrow> rat \<Rightarrow> slot" where
  "center_slot pages currentPage =
     (case js_at pages (currentPage - 1) of None \<Rightarrow> Slot_Empty | Some p \<Rightarrow> Slot_Page currentPage)"

definition left_slot :: "string \<Rightarrow> 'p list \<Rightarrow> rat \<Rightarrow> slot" where
  "left_slot readingMode pages currentPage =
     (if readingMode = ''rtl'' then after_slot pages currentPage else before_slot pages currentPage)"

definition right_slot :: "string \<Rightarrow> 'p list \<Rightarrow> rat \<Rightarrow> slot" where
  "right_slot readingMode pages currentPage =
     (if readingMode = ''rtl'' then before_slot pages currentPage else after_slot pages currentPage)"

section \<open>The chapter cards of the continuous view\<close>

text \<open>
  A click on the card runs the card's \<open>onNavigate\<close>, then bubbles to the wrapping element, which calls
  the same handler again before it stops the event; a click beside the card reaches the wrapper only.
  Without a chapter both ignore it, and it bubbles on and toggles the overlays.
\<close>

datatype boundary_output = Boundary_Navigate | Boundary_Overlays

definition boundary_click :: "bool \<Rightarrow> bool \<Rightarrow> bool \<Rightarrow> boundary_output list" where
  "boundary_click has_handler has_chapter on_card =
     (let navigates = has_handler \<and> has_chapter
      in (if on_card \<and> navigates then [Boundary_Navigate] else []) @
         (if navigates then [Boundary_Navigate] else [Boundary_Overlays]))"

section \<open>The slider of the footer\<close>

definition slider_max :: "rat \<Rightarrow> rat" where
  "slider_max totalPages = (if totalPages = 0 then 1 else totalPages)"

definition slider_value :: "rat \<Rightarrow> rat" where
  "slider_value currentPage = currentPage"

text \<open>\<open>onValueChange\<close>: the page handed to \<open>onPageChange\<close> for the value the slider reports.\<close>

definition slider_page :: "string \<Rightarrow> rat \<Rightarrow> rat \<Rightarrow> rat" where
  "slider_page readingMode totalPages val =
     (if readingMode = ''rtl'' then totalPages - val + 1 else val)"

definition scroll_label :: "string \<Rightarrow> string" where
  "scroll_label readingMode = (if readingMode = ''rtl'' then ''Scroll to End'' else ''Scroll to Top'')"

section \<open>The scroll tracker of the continuous view\<close>

record scroll_state =
  sc_lastReported :: rat
  sc_rafPending :: bool

definition initial_scroll :: "rat option \<Rightarrow> scroll_state" where
  "initial_scroll initialPage = \<lparr>sc_lastReported = coalesce_or [initialPage] 1, sc_rafPending = False\<rparr>"

definition setReportedPage :: "rat \<Rightarrow> scroll_state \<Rightarrow> scroll_state" where
  "setReportedPage page s = s\<lparr>sc_lastReported := page\<rparr>"

text \<open>The scroll event; the second component says that an animation frame is requested.\<close>

definition handleScroll :: "bool \<Rightarrow> scroll_state \<Rightarrow> scroll_state \<times> bool" where
  "handleScroll isPaged s =
     (if isPaged \<or> sc_rafPending s then (s, False) else (s\<lparr>sc_rafPending := True\<rparr>, True))"

text \<open>
  \<open>tops\<close> are the tops of the page elements relative to the viewport, \<open>None\<close> where none is mounted;
  the middle of the viewport is half the height of the window, 400 without one.
\<close>

definition viewport_mid :: "rat option \<Rightarrow> rat" where
  "viewport_mid innerHeight = (case innerHeight of None \<Rightarrow> 400 | Some h \<Rightarrow> h * (1 / 2))"

definition visible_page :: "rat \<Rightarrow> rat option list \<Rightarrow> rat" where
  "visible_page mid tops =
     foldl (\<lambda>v (idx, top). case top of None \<Rightarrow> v | Some t \<Rightarrow> if t \<le> mid then of_nat idx + 1 else v) 1
       (zip [0..<length tops] tops)"

definition scroll_frame :: "rat \<Rightarrow> rat \<Rightarrow> rat option list \<Rightarrow> scroll_state \<Rightarrow> scroll_state \<times> rat option" where
  "scroll_frame pagesCount mid tops s =
     (let s1 = s\<lparr>sc_rafPending := False\<rparr>
      in if pagesCount = 0 then (s1, None)
         else
           let v = visible_page mid tops
           in if v \<noteq> sc_lastReported s1 then (s1\<lparr>sc_lastReported := v\<rparr>, Some v) else (s1, None))"

text \<open>The element \<open>scrollToPage\<close> scrolls into view, by its index.\<close>

definition scrollToPage :: "rat \<Rightarrow> rat option list \<Rightarrow> nat option" where
  "scrollToPage page tops =
     (case js_at tops (page - 1) of Some (Some t) \<Rightarrow> Some (nat \<lfloor>page - 1\<rfloor>) | _ \<Rightarrow> None)"

section \<open>One direction for every input\<close>

text \<open>
  Every input agrees on which side is forward. For a plain arrow key with its handler passed, the click
  zone of that side and a long drag that pulls that side's slot in: each means "next" on the left in
  right-to-left mode and on the right in the other modes, and "previous" on the other side; the slot on
  the forward side holds the page (or chapter card) that comes next.
\<close>

theorem inputs_agree_on_direction:
  fixes opts :: key_opts and go :: gesture_opts and xa xb ya ta tb :: rat
  assumes "ko_enabled opts \<noteq> Some False" "set (ko_handlers opts) \<supseteq> {Key_Next, Key_Prev}"
    and "\<not> typing_target e" "\<not> ke_ctrl e" "\<not> ke_meta e" "\<not> ke_alt e" "ke_code e \<noteq> ''Space''"
    and "go_isPaged go" "\<not> go_disabled go" "\<not> g_isAnimating g" "go_readingMode go = ko_readingMode opts"
    and "go_currentPage go < go_totalPages go" "go_currentPage go > 1"
    and "xb - xa \<ge> max 50 (getWidth go * (15 / 100))"
  shows "(ke_key e = ''ArrowLeft'' \<longrightarrow> handleKeyDown opts e =
        (True, Some (Call (if ko_readingMode opts = ''rtl'' then Key_Next else Key_Prev)))) \<and>
    (ke_key e = ''ArrowRight'' \<longrightarrow> handleKeyDown opts e =
        (True, Some (Call (if ko_readingMode opts = ''rtl'' then Key_Prev else Key_Next)))) \<and>
    (zone_action_of (ko_readingMode opts) Zone_Left = (if ko_readingMode opts = ''rtl'' then Zone_Next else Zone_Prev)) \<and>
    (zone_action_of (ko_readingMode opts) Zone_Right = (if ko_readingMode opts = ''rtl'' then Zone_Prev else Zone_Next)) \<and>
    (snd (swipe go (xa, ya) ta (xb, ya) tb g) = [if ko_readingMode opts = ''rtl'' then Next_Page else Prev_Page]) \<and>
    (snd (swipe go (xb, ya) ta (xa, ya) tb g) = [if ko_readingMode opts = ''rtl'' then Prev_Page else Next_Page])"
proof -
  have en: "coalesce_or [ko_enabled opts] True" using assms(1) by (cases "ko_enabled opts") auto
  have handlers: "Key_Next \<in> set (ko_handlers opts)" "Key_Prev \<in> set (ko_handlers opts)" using assms(2) by auto
  have d: "xb - xa \<ge> 50" "xb - xa \<ge> getWidth go * (15 / 100)" using assms(14) by simp_all
  have far: "meets_threshold (getWidth go) (xb - xa) n" "meets_threshold (getWidth go) (xa - xb) n" for n
    using d by (simp_all add: meets_threshold_def Let_def)
  have key: "handleKeyDown opts e = (True, Some (Call (if ko_readingMode opts = ''rtl'' then Key_Next else Key_Prev)))"
    if "ke_key e = ''ArrowLeft''"
    unfolding handleKeyDown_def Let_def that using en assms(3-7) by (simp add: call_if_def handlers)
  have key': "handleKeyDown opts e = (True, Some (Call (if ko_readingMode opts = ''rtl'' then Key_Prev else Key_Next)))"
    if "ke_key e = ''ArrowRight''"
    unfolding handleKeyDown_def Let_def that using en assms(3-7) by (simp add: call_if_def handlers)
  have right: "snd (swipe go (xa, ya) ta (xb, ya) tb g) = [if ko_readingMode opts = ''rtl'' then Next_Page else Prev_Page]"
    using d assms(12,13) by (simp add: swipe_dragged [OF assms(8-10)] far Let_def assms(11))
  have left: "snd (swipe go (xb, ya) ta (xa, ya) tb g) = [if ko_readingMode opts = ''rtl'' then Prev_Page else Next_Page]"
    using d assms(12,13) by (simp add: swipe_dragged [OF assms(8-10)] far Let_def assms(11))
  show ?thesis using key key' right left by (simp add: zone_action_of_def)
qed

text \<open>\<open>inputs_agree_on_direction\<close> for the left arrow in right-to-left mode on a screen of 1000 pixels.\<close>

theorem inputs_agree_on_direction_witness:
  "handleKeyDown
     \<lparr>ko_readingMode = ''rtl'', ko_enabled = None, ko_handlers = [Key_Next, Key_Prev], ko_fullscreenElement = False\<rparr>
     \<lparr>ke_key = ''ArrowLeft'', ke_code = ''ArrowLeft'', ke_ctrl = False, ke_meta = False, ke_alt = False,
      ke_shift = False, ke_target = None\<rparr> = (True, Some (Call Key_Next))"
proof -
  let ?go = "\<lparr>go_readingMode = ''rtl'', go_isPaged = True, go_currentPage = 2, go_totalPages = 3,
    go_hasNextChapter = False, go_hasPrevChapter = False, go_containerWidth = Width_Number 1000,
    go_innerWidth = None, go_disabled = False\<rparr> :: gesture_opts"
  let ?ko = "\<lparr>ko_readingMode = ''rtl'', ko_enabled = None, ko_handlers = [Key_Next, Key_Prev],
    ko_fullscreenElement = False\<rparr>"
  let ?e = "\<lparr>ke_key = ''ArrowLeft'', ke_code = ''ArrowLeft'', ke_ctrl = False, ke_meta = False, ke_alt = False,
    ke_shift = False, ke_target = None\<rparr>"
  have "handleKeyDown ?ko ?e = (True, Some (Call (if ko_readingMode ?ko = ''rtl'' then Key_Next else Key_Prev)))"
    by (rule inputs_agree_on_direction
          [where opts = ?ko and e = ?e and go = ?go and g = initial_gesture and xa = 0 and xb = 200,
            THEN conjunct1, THEN mp])
      (simp_all add: typing_target_def initial_gesture_def getWidth_def)
  then show ?thesis by simp
qed

section \<open>Touch swipes\<close>

lemma far_move: "\<bar>dx\<bar> > 10 \<Longrightarrow> \<bar>dx\<bar> > \<bar>dy\<bar> \<Longrightarrow> go_isPaged opts \<Longrightarrow> \<not> go_disabled opts \<Longrightarrow> \<not> g_isAnimating s \<Longrightarrow>
   handleMove opts (x + dx) (y + dy) (handleStart opts x y t s) =
     s\<lparr>g_startPos := Some (x, y, t), g_didDrag := True, g_isDragging := True, g_dragOffset := dx\<rparr>"
  by (simp add: handleMove_def handleStart_def Let_def)

text \<open>
  A touch swipe never turns the page. The zone under the finger stops the event of the finger leaving
  the screen, so the gesture does not see its end: whatever the length and the speed of the swipe, no
  callback is fired, the view stays dragged by the length of the swipe, and the gesture still waits for
  the end of the drag. The same movement of a mouse ends the drag and does what the gesture decides.
\<close>

theorem touch_swipe_never_ends:
  fixes opts :: gesture_opts and s :: gesture and x y dx dy t t' :: rat
  assumes "go_isPaged opts" "\<not> go_disabled opts" "\<not> g_isAnimating s" "\<bar>dx\<bar> > 10" "\<bar>dx\<bar> > \<bar>dy\<bar>"
  shows "(paged_run opts s [Zone_Touch_Start z [(x, y)] t, Zone_Touch_Move z' [(x + dx, y + dy)], Zone_Touch_End z t'] =
        (s\<lparr>g_startPos := Some (x, y, t), g_didDrag := True, g_isDragging := True, g_dragOffset := dx\<rparr>, [])) \<and>
    (paged_run opts s [Zone_Mouse_Down z 0 x y t, Zone_Mouse_Move z' (x + dx) (y + dy), Zone_Mouse_Up z t'] =
        (let r = swipe opts (x, y) t (x + dx, y + dy) t' s in (fst r, map Page_Action (snd r))))"
proof (rule conjI2)
  show "paged_run opts s [Zone_Touch_Start z [(x, y)] t, Zone_Touch_Move z' [(x + dx, y + dy)], Zone_Touch_End z t'] =
      (s\<lparr>g_startPos := Some (x, y, t), g_didDrag := True, g_isDragging := True, g_dragOffset := dx\<rparr>, [])"
    by (simp add: to_gesture_def far_move [OF assms(4,5,1,2,3)] zone_output_def zone_fire_def)
  have "g_startPos (handleStart opts x y t s) \<noteq> None" using assms by (simp add: handleStart_def)
  then show "paged_run opts s [Zone_Mouse_Down z 0 x y t, Zone_Mouse_Move z' (x + dx) (y + dy), Zone_Mouse_Up z t'] =
      (let r = swipe opts (x, y) t (x + dx, y + dy) t' s in (fst r, map Page_Action (snd r)))"
    by (simp add: to_gesture_def swipe_def Let_def split_beta)
qed

text \<open>\<open>touch_swipe_never_ends\<close> for a swipe of 300 pixels to the left within 100 ms.\<close>

theorem touch_swipe_never_ends_witness:
  "snd (paged_run (sample_opts ''ltr'' 2) initial_gesture
     [Zone_Touch_Start Zone_Right [(500, 100)] 0, Zone_Touch_Move Zone_Center [(200, 100)], Zone_Touch_End Zone_Right 100]) = []"
proof -
  have "go_isPaged (sample_opts ''ltr'' 2)" "\<not> go_disabled (sample_opts ''ltr'' 2)" "\<not> g_isAnimating initial_gesture"
    by code_simp+
  from conjunct1 [OF touch_swipe_never_ends [OF this, of "- 300" 0 Zone_Right 500 100 0 Zone_Center 100]]
  show ?thesis by simp
qed

section \<open>The scroll tracker\<close>

lemma visible_page_snoc:
  "visible_page mid (tops @ [el]) =
     (case el of None \<Rightarrow> visible_page mid tops
      | Some t \<Rightarrow> if t \<le> mid then of_nat (length tops) + 1 else visible_page mid tops)"
proof -
  have "zip [0..<Suc (length tops)] (tops @ [el]) = zip [0..<length tops] tops @ [(length tops, el)]"
    by (simp add: zip_append)
  then show ?thesis by (cases el) (simp_all add: visible_page_def)
qed

text \<open>
  The scroll tracker. The page it finds is the last one whose top is at or above the middle of the
  viewport, page 1 when there is none; a frame reports it when it differs from the last one reported, and
  remembers it; and of the scroll events between two frames only the first requests a frame.
\<close>

theorem scroll_tracker_spec:
  fixes tops :: "rat option list"
  shows "(\<forall>i < length tops. (\<exists>t. tops ! i = Some t \<and> t \<le> mid) \<and>
        (\<forall>j. i < j \<and> j < length tops \<longrightarrow> \<not> (\<exists>t. tops ! j = Some t \<and> t \<le> mid)) \<longrightarrow> visible_page mid tops = of_nat i + 1) \<and>
    ((\<forall>i < length tops. \<not> (\<exists>t. tops ! i = Some t \<and> t \<le> mid)) \<longrightarrow> visible_page mid tops = 1) \<and>
    (n \<noteq> 0 \<longrightarrow> snd (scroll_frame n mid tops s) =
        (if visible_page mid tops = sc_lastReported s then None else Some (visible_page mid tops)) \<and>
        sc_lastReported (fst (scroll_frame n mid tops s)) = visible_page mid tops) \<and>
    (\<not> snd (handleScroll p (fst (handleScroll p s))))"
proof (rule conjI4; (intro impI)?)
  show "\<forall>i < length tops. (\<exists>t. tops ! i = Some t \<and> t \<le> mid) \<and>
      (\<forall>j. i < j \<and> j < length tops \<longrightarrow> \<not> (\<exists>t. tops ! j = Some t \<and> t \<le> mid)) \<longrightarrow> visible_page mid tops = of_nat i + 1"
  proof (induction tops rule: rev_induct)
    case (snoc el tops)
    show ?case
    proof (intro allI impI, elim conjE)
      fix i
      assume i: "i < length (tops @ [el])" and e: "\<exists>t. (tops @ [el]) ! i = Some t \<and> t \<le> mid"
        and a: "\<forall>j. i < j \<and> j < length (tops @ [el]) \<longrightarrow> \<not> (\<exists>t. (tops @ [el]) ! j = Some t \<and> t \<le> mid)"
      show "visible_page mid (tops @ [el]) = of_nat i + 1"
      proof (cases "i = length tops")
        case True
        with e show ?thesis by (auto simp: visible_page_snoc)
      next
        case False
        with i have i': "i < length tops" by simp
        from a i' have "\<not> (\<exists>t. el = Some t \<and> t \<le> mid)" by (auto dest: spec [of _ "length tops"])
        then have "visible_page mid (tops @ [el]) = visible_page mid tops"
          by (auto simp: visible_page_snoc split: option.split)
        moreover have "\<forall>j. i < j \<and> j < length tops \<longrightarrow> \<not> (\<exists>t. tops ! j = Some t \<and> t \<le> mid)"
        proof (intro allI impI)
          fix j assume "i < j \<and> j < length tops"
          with a [rule_format, of j] show "\<not> (\<exists>t. tops ! j = Some t \<and> t \<le> mid)" by (simp add: nth_append)
        qed
        moreover have "\<exists>t. tops ! i = Some t \<and> t \<le> mid" using e i' by (simp add: nth_append)
        ultimately show ?thesis using snoc.IH i' by simp
      qed
    qed
  qed simp
  show "visible_page mid tops = 1" if "\<forall>i < length tops. \<not> (\<exists>t. tops ! i = Some t \<and> t \<le> mid)"
    using that
  proof (induction tops rule: rev_induct)
    case (snoc el tops)
    from snoc.prems [rule_format, of "length tops"] have "\<not> (\<exists>t. el = Some t \<and> t \<le> mid)" by simp
    moreover have "visible_page mid tops = 1"
    proof (rule snoc.IH, intro allI impI)
      fix i assume "i < length tops"
      with snoc.prems [rule_format, of i] show "\<not> (\<exists>t. tops ! i = Some t \<and> t \<le> mid)" by (simp add: nth_append)
    qed
    ultimately show ?case by (auto simp: visible_page_snoc split: option.split)
  qed (simp add: visible_page_def)
  show "snd (scroll_frame n mid tops s) =
        (if visible_page mid tops = sc_lastReported s then None else Some (visible_page mid tops)) \<and>
        sc_lastReported (fst (scroll_frame n mid tops s)) = visible_page mid tops" if "n \<noteq> 0"
    using that by (simp add: scroll_frame_def Let_def)
  show "\<not> snd (handleScroll p (fst (handleScroll p s)))"
    by (simp add: handleScroll_def)
qed

text \<open>\<open>scroll_tracker_spec\<close> for three mounted pages of which the second is the last one above the middle.\<close>

theorem scroll_tracker_spec_witness:
  "visible_page 400 [Some (- 900), Some 100, Some 1100] = 2 \<and>
   snd (scroll_frame 3 400 [Some (- 900), Some 100, Some 1100] (initial_scroll None)) = Some 2"
proof -
  have v: "visible_page 400 [Some (- 900), Some 100, Some 1100] = 2"
    by (rule scroll_tracker_spec [of "[Some (- 900), Some 100, Some 1100]" 400 3 "initial_scroll None" False,
          THEN conjunct1, rule_format, of 1, simplified of_nat_simps, simplified])
  then show ?thesis by (simp add: scroll_frame_def initial_scroll_def Let_def)
qed

section \<open>The slider and the chapter cards\<close>

text \<open>
  The slider shows the page and reports the mirrored one in right-to-left mode: after the reader has gone
  to the page for the reported value \<open>v\<close>, the slider stands at \<open>v\<close> in the other modes, but in
  right-to-left mode at the mirror image of \<open>v\<close>, so only the middle keeps its place.
\<close>

theorem slider_rtl_jumps:
  "(readingMode \<noteq> ''rtl'' \<longrightarrow> slider_value (slider_page readingMode n v) = v) \<and>
   (slider_value (slider_page ''rtl'' n v) = v \<longleftrightarrow> 2 * v = n + 1) \<and>
   slider_value (slider_page ''rtl'' n (slider_value 1)) = n"
  by (auto simp: slider_value_def slider_page_def)

text \<open>\<open>slider_rtl_jumps\<close> in left-to-right mode.\<close>

theorem slider_rtl_jumps_witness: "slider_value (slider_page ''ltr'' 20 7) = 7"
  by (rule slider_rtl_jumps [THEN conjunct1, rule_format]) simp

text \<open>A click on the card of a chapter changes chapter twice, a click beside it once.\<close>

lemma boundary_card_navigates_twice:
  "boundary_click True True True = [Boundary_Navigate, Boundary_Navigate]"
  "boundary_click True True False = [Boundary_Navigate]"
  by (simp_all add: boundary_click_def)

end
