(* ===== verification/Reader_Navigation.thy ===== *)
theory Reader_Navigation
  imports Reader_Input Types_Api
begin

text \<open>
  The navigation of \<open>routes/ReaderPage.tsx\<close>: what the reader shows for a route and its data, the page
  turns with their animation timers, the jumps, the chapter changes, and how the inputs reach them. The
  animation flag, the drag offset and the drag ref belong to the gesture hook, so the state holds a
  \<open>gesture\<close>; the current page is the one of the progress tracker. An event is handled with the
  closures of the last rendering, which has the state before the event.
\<close>

section \<open>What is shown\<close>

record reader_route =
  rr_chapterId :: "string option"
  rr_mangaId :: "string option"
  rr_providerId :: "string option"
  rr_remoteId :: "string option"
  rr_searchMangaId :: "string option"

definition route_chapterId :: "reader_route \<Rightarrow> string" where
  "route_chapterId r = str_or [rr_chapterId r] []"

definition route_mangaId :: "reader_route \<Rightarrow> string option" where
  "route_mangaId r = (if truthy_str (rr_mangaId r) then rr_mangaId r else rr_searchMangaId r)"

definition route_providerId :: "reader_route \<Rightarrow> string option" where
  "route_providerId r =
     (if truthy_str (rr_providerId r) \<and> rr_providerId r \<noteq> Some ''chapters'' then rr_providerId r else None)"

definition meta_content :: "manga \<Rightarrow> content_source option" where
  "meta_content m = Option.bind (m_meta m) mm_content"

definition library_entry :: "reader_route \<Rightarrow> manga list \<Rightarrow> manga option" where
  "library_entry r library =
     (if truthy_str (route_mangaId r) then List.find (\<lambda>m. Some (m_id m) = route_mangaId r) library
      else if truthy_str (route_providerId r) \<and> truthy_str (rr_remoteId r) then
        List.find
          (\<lambda>m. (m_contentProviderId m = route_providerId r \<or> m_sourceId m = route_providerId r \<or>
                 map_option cs_provider_id (meta_content m) = route_providerId r) \<and>
               (m_contentRemoteId m = rr_remoteId r \<or> m_url m = rr_remoteId r \<or> Some (m_id m) = rr_remoteId r \<or>
                 Option.bind (meta_content m) cs_provider_manga_id = rr_remoteId r)) library
      else None)"

definition effectiveMangaId :: "reader_route \<Rightarrow> manga list \<Rightarrow> string option" where
  "effectiveMangaId r library =
     (if truthy_str (route_mangaId r) then route_mangaId r else map_option m_id (library_entry r library))"

text \<open>\<open>manga\<close> is the local or the remote one.\<close>

definition shown_manga_of :: "reader_route \<Rightarrow> manga list \<Rightarrow> manga option \<Rightarrow> manga option \<Rightarrow> manga option" where
  "shown_manga_of r library localManga remoteManga =
     (if truthy_str (effectiveMangaId r library) then localManga else remoteManga)"

definition chapterProviderId :: "reader_route \<Rightarrow> manga option \<Rightarrow> string" where
  "chapterProviderId r m =
     (let raw = str_or [Option.bind m m_contentProviderId,
                        map_option cs_provider_id (Option.bind m meta_content), route_providerId r] []
      in if raw \<noteq> ''chapters'' then raw else [])"

definition currentChapterIndex :: "manga_chapter list \<Rightarrow> string \<Rightarrow> nat option" where
  "currentChapterIndex chapters chapterId = find_index (\<lambda>c. c_id c = chapterId) chapters"

definition prevChapter :: "manga_chapter list \<Rightarrow> string \<Rightarrow> manga_chapter option" where
  "prevChapter chapters chapterId =
     (case currentChapterIndex chapters chapterId of
        Some (Suc i) \<Rightarrow> Some (chapters ! i) | _ \<Rightarrow> None)"

definition nextChapter :: "manga_chapter list \<Rightarrow> string \<Rightarrow> manga_chapter option" where
  "nextChapter chapters chapterId =
     (case currentChapterIndex chapters chapterId of
        Some i \<Rightarrow> if Suc i < length chapters then Some (chapters ! Suc i) else None | None \<Rightarrow> None)"

definition rawReadingMode :: "manga option \<Rightarrow> string" where
  "rawReadingMode m =
     js_lower (js_trim
       (str_or [Option.bind (Option.bind m m_content) cs_reading_mode,
                Option.bind (Option.bind m meta_content) cs_reading_mode,
                Option.bind m m_readingMode, Option.bind m m_reading_mode, Option.bind m m_readingDirection,
                Option.bind (Option.bind m m_meta) mm_reading_direction] []))"

definition readingMode :: "manga option \<Rightarrow> string" where
  "readingMode m =
     (if rawReadingMode m \<in> set [''rtl'', ''ltr'', ''vertical'', ''longstrip''] then rawReadingMode m else ''rtl'')"

definition isPaged :: "string \<Rightarrow> bool" where
  "isPaged mode = (mode = ''rtl'' \<or> mode = ''ltr'')"

definition isChapterRead :: "manga_chapter option \<Rightarrow> bool" where
  "isChapterRead c = truthy_bool (coalesce [Option.bind (Option.bind c c_meta) cm_is_read, Option.bind c c_is_read])"

definition chapterLastReadPage :: "manga_chapter option \<Rightarrow> rat" where
  "chapterLastReadPage c =
     coalesce_or [Option.bind (Option.bind c c_meta) cm_last_read_page, Option.bind c c_last_read_page] 0"

section \<open>Outputs and state\<close>

datatype page_target = Target_Last | Target_Page rat

datatype nav_route =
    Route_Manga string string
  | Route_Provider string string string
  | Route_Reader string

datatype nav_output =
    Out_Mark rat
  | Out_Chapter string "page_target option"
  | Out_Search rat
  | Out_Scroll rat
  | Out_Scroll_Top
  | Out_Overlays

text \<open>Where \<open>handleSelectChapter\<close> navigates for an \<open>Out_Chapter\<close>.\<close>

definition handleSelectChapter :: "reader_route \<Rightarrow> string \<Rightarrow> nav_route" where
  "handleSelectChapter r target =
     (if truthy_str (route_mangaId r) then Route_Manga (the (route_mangaId r)) target
      else if truthy_str (route_providerId r) \<and> truthy_str (rr_remoteId r)
      then Route_Provider (the (route_providerId r)) (the (rr_remoteId r)) target
      else Route_Reader target)"

record reader_opts =
  ro_pages :: nat
  ro_readingMode :: string
  ro_prev :: "string option"
  ro_next :: "string option"
  ro_width :: rat
  ro_innerWidth :: "rat option"

datatype nav_timer = Turn_Timer rat | Chapter_Timer "nav_output list" | Drag_Timer

record reader =
  rd_gesture :: gesture
  rd_page :: rat
  rd_timers :: "(nat \<times> nav_timer) list"
  rd_nextTimer :: nat

definition ro_total :: "reader_opts \<Rightarrow> rat" where
  "ro_total o' = of_nat (ro_pages o')"

definition gesture_opts_of :: "reader_opts \<Rightarrow> reader \<Rightarrow> gesture_opts" where
  "gesture_opts_of o' s =
     \<lparr>go_readingMode = ro_readingMode o', go_isPaged = isPaged (ro_readingMode o'), go_currentPage = rd_page s,
      go_totalPages = ro_total o', go_hasNextChapter = (ro_next o' \<noteq> None),
      go_hasPrevChapter = (ro_prev o' \<noteq> None), go_containerWidth = Width_Function (ro_width o'),
      go_innerWidth = ro_innerWidth o', go_disabled = False\<rparr>"

section \<open>Turning pages\<close>

definition set_nav_timer :: "nav_timer \<Rightarrow> reader \<Rightarrow> reader" where
  "set_nav_timer t s =
     s\<lparr>rd_timers := rd_timers s @ [(rd_nextTimer s, t)], rd_nextTimer := rd_nextTimer s + 1\<rparr>"

definition slide :: "rat \<Rightarrow> reader \<Rightarrow> reader" where
  "slide offset s = s\<lparr>rd_gesture := (rd_gesture s)\<lparr>g_isAnimating := True, g_dragOffset := offset\<rparr>\<rparr>"

definition settle :: "reader \<Rightarrow> reader" where
  "settle s = s\<lparr>rd_gesture := (rd_gesture s)\<lparr>g_isAnimating := False, g_dragOffset := 0\<rparr>\<rparr>"

definition handlePrevChapter :: "reader_opts \<Rightarrow> nav_output list" where
  "handlePrevChapter o' = (case ro_prev o' of None \<Rightarrow> [] | Some c \<Rightarrow> [Out_Chapter c (Some Target_Last)])"

definition handleNextChapter :: "reader_opts \<Rightarrow> nav_output list" where
  "handleNextChapter o' =
     Out_Mark (ro_total o') # (case ro_next o' of None \<Rightarrow> [] | Some c \<Rightarrow> [Out_Chapter c None])"

definition goToNextPage :: "reader_opts \<Rightarrow> reader \<Rightarrow> reader \<times> nav_output list" where
  "goToNextPage o' s =
     (if g_isAnimating (rd_gesture s) then (s, [])
      else
        let targetOffset = (if ro_readingMode o' = ''rtl'' then ro_width o' else - ro_width o')
        in if rd_page s < ro_total o' then (set_nav_timer (Turn_Timer 1) (slide targetOffset s), [])
           else if ro_next o' \<noteq> None then
             (set_nav_timer (Chapter_Timer (handleNextChapter o')) (slide targetOffset s), [Out_Mark (ro_total o')])
           else (s, [Out_Mark (ro_total o')]))"

definition goToPrevPage :: "reader_opts \<Rightarrow> reader \<Rightarrow> reader \<times> nav_output list" where
  "goToPrevPage o' s =
     (if g_isAnimating (rd_gesture s) then (s, [])
      else
        let targetOffset = (if ro_readingMode o' = ''rtl'' then - ro_width o' else ro_width o')
        in if rd_page s > 1 then (set_nav_timer (Turn_Timer (- 1)) (slide targetOffset s), [])
           else if ro_prev o' \<noteq> None then
             (set_nav_timer (Chapter_Timer (handlePrevChapter o')) (slide targetOffset s), [])
           else (s, []))"

text \<open>A timer that runs out: the end of the animation, then 50 ms later the reset of the drag ref.\<close>

definition fire_nav_timer :: "nat \<Rightarrow> reader \<Rightarrow> reader \<times> nav_output list" where
  "fire_nav_timer i s =
     (case map_of (rd_timers s) i of
        None \<Rightarrow> (s, [])
      | Some t \<Rightarrow>
          let s1 = s\<lparr>rd_timers := filter (\<lambda>(j, _). j \<noteq> i) (rd_timers s)\<rparr>
          in (case t of
                Turn_Timer d \<Rightarrow> (set_nav_timer Drag_Timer ((settle s1)\<lparr>rd_page := rd_page s1 + d\<rparr>), [])
              | Chapter_Timer os \<Rightarrow> (set_nav_timer Drag_Timer (settle s1), os)
              | Drag_Timer \<Rightarrow> (s1\<lparr>rd_gesture := (rd_gesture s1)\<lparr>g_didDrag := False\<rparr>\<rparr>, [])))"

definition handlePageChange :: "reader_opts \<Rightarrow> rat \<Rightarrow> reader \<Rightarrow> reader \<times> nav_output list" where
  "handlePageChange o' targetPage s =
     (if targetPage \<noteq> rd_page s then (settle s)\<lparr>rd_page := targetPage\<rparr> else s,
      (if \<not> isPaged (ro_readingMode o') then [Out_Scroll targetPage] else []) @ [Out_Search targetPage])"

definition handleScrollTop :: "reader_opts \<Rightarrow> reader \<Rightarrow> reader \<times> nav_output list" where
  "handleScrollTop o' s =
     (if isPaged (ro_readingMode o')
      then (if rd_page s \<noteq> 1 then (settle s)\<lparr>rd_page := 1\<rparr> else s, [])
      else (s, [Out_Scroll_Top]))"

section \<open>Inputs\<close>

datatype reader_event =
    Pointer paged_event
  | Key key_event
  | Slider rat
  | Scroll_Button
  | Page_Set rat
  | Nav_Timer nat

definition reader_keys :: "reader_opts \<Rightarrow> key_opts" where
  "reader_keys o' =
     \<lparr>ko_readingMode = ro_readingMode o', ko_enabled = None,
      ko_handlers = [Key_Next, Key_Prev, Key_First, Key_Last, Key_Overlays], ko_fullscreenElement = False\<rparr>"

definition do_key :: "reader_opts \<Rightarrow> key_effect option \<Rightarrow> reader \<Rightarrow> reader \<times> nav_output list" where
  "do_key o' e s =
     (case e of
        Some (Call a) \<Rightarrow>
          (case a of
             Key_Next \<Rightarrow> goToNextPage o' s
           | Key_Prev \<Rightarrow> goToPrevPage o' s
           | Key_First \<Rightarrow> handlePageChange o' 1 s
           | Key_Last \<Rightarrow> handlePageChange o' (ro_total o') s
           | Key_Overlays \<Rightarrow> (s, [Out_Overlays])
           | Key_Fullscreen \<Rightarrow> (s, []))
      | _ \<Rightarrow> (s, []))"

definition do_paged :: "reader_opts \<Rightarrow> paged_output \<Rightarrow> reader \<Rightarrow> reader \<times> nav_output list" where
  "do_paged o' p s =
     (case p of
        Page_Action Next_Page \<Rightarrow> goToNextPage o' s
      | Page_Action Prev_Page \<Rightarrow> goToPrevPage o' s
      | Zone_Action Zone_Next \<Rightarrow> goToNextPage o' s
      | Zone_Action Zone_Prev \<Rightarrow> goToPrevPage o' s
      | Zone_Action Zone_Overlays \<Rightarrow> (s, [Out_Overlays]))"

text \<open>A pointer event calls at most one of the callbacks.\<close>

definition pointer :: "reader_opts \<Rightarrow> paged_event \<Rightarrow> reader \<Rightarrow> reader \<times> nav_output list" where
  "pointer o' e s =
     (let (g, os) = paged_step (gesture_opts_of o' s) (rd_gesture s) e; s1 = s\<lparr>rd_gesture := g\<rparr>
      in case os of [] \<Rightarrow> (s1, []) | p # _ \<Rightarrow> do_paged o' p s1)"

definition reader_step :: "reader_opts \<Rightarrow> reader \<Rightarrow> reader_event \<Rightarrow> reader \<times> nav_output list" where
  "reader_step o' s e =
     (case e of
        Pointer p \<Rightarrow> pointer o' p s
      | Key k \<Rightarrow> do_key o' (snd (handleKeyDown (reader_keys o') k)) s
      | Slider v \<Rightarrow> handlePageChange o' (slider_page (ro_readingMode o') (ro_total o') v) s
      | Scroll_Button \<Rightarrow> handleScrollTop o' s
      | Page_Set q \<Rightarrow> (s\<lparr>rd_page := q\<rparr>, [])
      | Nav_Timer i \<Rightarrow> fire_nav_timer i s)"

definition reader_next :: "reader_opts \<Rightarrow> reader \<Rightarrow> reader_event \<Rightarrow> reader" where
  "reader_next o' s e = fst (reader_step o' s e)"

primrec reader_outputs :: "reader_opts \<Rightarrow> reader \<Rightarrow> reader_event list \<Rightarrow> nav_output list" where
  "reader_outputs o' s [] = []"
| "reader_outputs o' s (e # es) = snd (reader_step o' s e) @ reader_outputs o' (reader_next o' s e) es"

definition initial_reader :: "rat \<Rightarrow> reader" where
  "initial_reader page = \<lparr>rd_gesture = initial_gesture, rd_page = page, rd_timers = [], rd_nextTimer = 0\<rparr>"

section \<open>Timers\<close>

definition turning :: "nav_timer \<Rightarrow> bool" where
  "turning t = (t \<noteq> Drag_Timer)"

definition pending :: "('k \<Rightarrow> bool) \<Rightarrow> (nat \<times> 'k) list \<Rightarrow> nat" where
  "pending P ts = length (filter (\<lambda>t. P (snd t)) ts)"

definition timers_ok :: "(nat \<times> 'k) list \<Rightarrow> nat \<Rightarrow> bool" where
  "timers_ok ts n = (distinct (map fst ts) \<and> (\<forall>t \<in> set ts. fst t < n))"

lemma pending_simps [simp]: "pending P [] = 0" "pending P (ts @ [(i, k)]) = pending P ts + (if P k then 1 else 0)"
  by (simp_all add: pending_def)

lemma timers_ok_add: "timers_ok ts n \<Longrightarrow> timers_ok (ts @ [(n, k)]) (Suc n)"
  by (auto simp: timers_ok_def less_Suc_eq)

lemma timers_ok_filter: "timers_ok ts n \<Longrightarrow> timers_ok (filter P ts) n"
  unfolding timers_ok_def by (auto simp: distinct_map_filter)

lemma pending_remove:
  "timers_ok ts n \<Longrightarrow> map_of ts i = Some k \<Longrightarrow>
     pending P ts = pending P (filter (\<lambda>(j, _). j \<noteq> i) ts) + (if P k then 1 else 0)"
proof (induction ts)
  case (Cons t ts)
  obtain j l where t: "t = (j, l)" by fastforce
  show ?case
  proof (cases "j = i")
    case True
    then have "filter (\<lambda>(j, _). j \<noteq> i) ts = ts"
      using Cons.prems(1) t by (intro filter_True) (force simp: timers_ok_def)
    with Cons.prems t True show ?thesis by (simp add: pending_def)
  next
    case False
    with Cons t show ?thesis by (simp add: pending_def timers_ok_def)
  qed
qed simp

lemma pending_pos: "0 < pending P ts \<longleftrightarrow> (\<exists>t \<in> set ts. P (snd t))"
  by (auto simp: pending_def filter_empty_conv)

definition spring :: "timer_kind \<Rightarrow> bool" where
  "spring k = (k = Spring_Timer)"

text \<open>How many timers are pending that end an animation, those of the gesture and those of the page.\<close>

definition ending :: "reader \<Rightarrow> nat" where
  "ending s = pending spring (g_timers (rd_gesture s)) + pending turning (rd_timers s)"

definition reader_timers_ok :: "reader \<Rightarrow> bool" where
  "reader_timers_ok s =
     (timers_ok (g_timers (rd_gesture s)) (g_nextTimer (rd_gesture s)) \<and> timers_ok (rd_timers s) (rd_nextTimer s))"

text \<open>An animation has a pending timer that ends it.\<close>

definition animation_inv :: "reader \<Rightarrow> bool" where
  "animation_inv s = (reader_timers_ok s \<and> (g_isAnimating (rd_gesture s) \<longrightarrow> 0 < ending s))"

text \<open>
  Without jumps there is exactly one such timer during an animation and none otherwise, and the page stays
  in the chapter, also after the pending turn.
\<close>

definition turn_inv :: "reader_opts \<Rightarrow> reader \<Rightarrow> bool" where
  "turn_inv o' s =
     (reader_timers_ok s \<and> ending s = (if g_isAnimating (rd_gesture s) then 1 else 0) \<and>
      rd_page s \<in> \<int> \<and> 1 \<le> rd_page s \<and> rd_page s \<le> ro_total o' \<and>
      (\<forall>d. Turn_Timer d \<in> snd ` set (rd_timers s) \<longrightarrow>
         d \<in> \<int> \<and> 1 \<le> rd_page s + d \<and> rd_page s + d \<le> ro_total o'))"

subsection \<open>The gesture's part\<close>

text \<open>What a pointer event does to the gesture, as far as the page is concerned.\<close>

definition gesture_change :: "gesture \<Rightarrow> gesture \<Rightarrow> bool" where
  "gesture_change g g' =
     (timers_ok (g_timers g) (g_nextTimer g) \<longrightarrow> timers_ok (g_timers g') (g_nextTimer g') \<and>
        (g_isAnimating g' = g_isAnimating g \<and> pending spring (g_timers g') = pending spring (g_timers g) \<or>
         \<not> g_isAnimating g \<and> g_isAnimating g' \<and> pending spring (g_timers g') = pending spring (g_timers g) + 1 \<or>
         \<not> g_isAnimating g' \<and> pending spring (g_timers g) = pending spring (g_timers g') + 1))"

lemma change_same [simp]: "gesture_change g g"
  by (simp add: gesture_change_def)

lemma change_quiet: "g_timers g' = g_timers g \<Longrightarrow> g_nextTimer g' = g_nextTimer g \<Longrightarrow>
   g_isAnimating g' = g_isAnimating g \<Longrightarrow> gesture_change g g'"
  by (simp add: gesture_change_def)

lemma change_start: "gesture_change g (handleStart opts x y t g)"
  by (rule change_quiet) (simp_all add: handleStart_def)

lemma change_move: "gesture_change g (handleMove opts x y g)"
  by (rule change_quiet) (simp_all add: handleMove_def Let_def split: option.split prod.split)

lemma change_spring:
  "\<not> g_isAnimating g \<Longrightarrow> gesture_change g (spring_back (g\<lparr>g_startPos := p, g_isDragging := d\<rparr>))"
  by (simp add: gesture_change_def spring_back_def set_anim_timer_def timers_ok_add spring_def)

lemma change_end: "gesture_change g (fst (handleEnd opts t g))"
proof (cases "g_startPos g")
  case (Some p)
  obtain x y u where p: "p = (x, y, u)" by (cases p) auto
  let ?s1 = "g\<lparr>g_startPos := None, g_isDragging := False\<rparr>"
  have quiet: "gesture_change g ?s1" "gesture_change g (?s1\<lparr>g_dragOffset := 0\<rparr>)" by (simp_all add: change_quiet)
  show ?thesis
  proof (cases "\<not> go_isPaged opts \<or> go_disabled opts")
    case False
    show ?thesis
    proof (cases "\<not> g_didDrag g \<or> g_isAnimating g")
      case True
      with False Some p quiet show ?thesis by (simp add: handleEnd_def)
    next
      case drag: False
      then have "gesture_change g (spring_back ?s1)" by (simp add: change_spring)
      with False drag Some p quiet show ?thesis
        by (simp only: handleEnd_def option.case prod.case Let_def if_False split: if_split) simp
    qed
  qed (simp add: handleEnd_def Some p)
qed (simp add: handleEnd_def)

lemma change_cancel: "gesture_change g (handleCancel g)"
  by (simp add: gesture_change_def handleCancel_def set_anim_timer_def timers_ok_add spring_def)

lemma change_fire: "gesture_change g (fire_timer i g)"
proof (cases "map_of (g_timers g) i")
  case (Some k)
  show ?thesis unfolding gesture_change_def
  proof
    assume ok: "timers_ok (g_timers g) (g_nextTimer g)"
    from pending_remove [OF ok Some, of spring] timers_ok_filter [OF ok] Some
    show "timers_ok (g_timers (fire_timer i g)) (g_nextTimer (fire_timer i g)) \<and>
       (g_isAnimating (fire_timer i g) = g_isAnimating g \<and>
        pending spring (g_timers (fire_timer i g)) = pending spring (g_timers g) \<or>
        \<not> g_isAnimating g \<and> g_isAnimating (fire_timer i g) \<and>
        pending spring (g_timers (fire_timer i g)) = pending spring (g_timers g) + 1 \<or>
        \<not> g_isAnimating (fire_timer i g) \<and>
        pending spring (g_timers g) = pending spring (g_timers (fire_timer i g)) + 1)"
      by (cases k) (simp_all add: fire_timer_def clear_timer_def Let_def spring_def)
  qed
qed (simp add: fire_timer_def)

lemma change_paged: "gesture_change g (fst (paged_step opts g e))"
  by (cases e)
    (simp_all add: to_gesture_def split_beta change_start change_move change_end change_cancel change_fire
      split: list.split)

subsection \<open>The page's part\<close>

lemma goToNextPage_ok: "reader_timers_ok s \<Longrightarrow> reader_timers_ok (fst (goToNextPage o' s))"
  by (simp add: goToNextPage_def Let_def set_nav_timer_def slide_def reader_timers_ok_def timers_ok_add)

lemma goToPrevPage_ok: "reader_timers_ok s \<Longrightarrow> reader_timers_ok (fst (goToPrevPage o' s))"
  by (simp add: goToPrevPage_def Let_def set_nav_timer_def slide_def reader_timers_ok_def timers_ok_add)

lemma settle_sel [simp]: "rd_timers (settle s) = rd_timers s" "rd_nextTimer (settle s) = rd_nextTimer s"
  "g_timers (rd_gesture (settle s)) = g_timers (rd_gesture s)"
  "g_nextTimer (rd_gesture (settle s)) = g_nextTimer (rd_gesture s)"
  "g_isAnimating (rd_gesture (settle s)) = False" "rd_page (settle s) = rd_page s"
  by (simp_all add: settle_def)

lemma fire_nav_ok: "reader_timers_ok s \<Longrightarrow> reader_timers_ok (fst (fire_nav_timer i s))"
  by (simp add: fire_nav_timer_def Let_def set_nav_timer_def reader_timers_ok_def timers_ok_add timers_ok_filter
      split: option.split nav_timer.split)

lemma change_inv:
  assumes "animation_inv s" "gesture_change (rd_gesture s) g"
  shows "animation_inv (s\<lparr>rd_gesture := g\<rparr>)"
  using assms by (auto simp: animation_inv_def reader_timers_ok_def gesture_change_def ending_def)

lemma next_inv: "animation_inv s \<Longrightarrow> animation_inv (fst (goToNextPage o' s))"
  unfolding animation_inv_def
  by (simp add: goToNextPage_ok) (simp add: goToNextPage_def Let_def set_nav_timer_def slide_def ending_def turning_def)

lemma prev_inv: "animation_inv s \<Longrightarrow> animation_inv (fst (goToPrevPage o' s))"
  unfolding animation_inv_def
  by (simp add: goToPrevPage_ok) (simp add: goToPrevPage_def Let_def set_nav_timer_def slide_def ending_def turning_def)

lemma fire_nav_inv:
  assumes "animation_inv s" shows "animation_inv (fst (fire_nav_timer i s))"
proof (cases "map_of (rd_timers s) i")
  case (Some t)
  have ok: "timers_ok (rd_timers s) (rd_nextTimer s)" using assms by (simp add: animation_inv_def reader_timers_ok_def)
  from pending_remove [OF ok Some, of turning] fire_nav_ok [of s i] assms Some show ?thesis
    by (cases t) (simp_all add: animation_inv_def fire_nav_timer_def Let_def ending_def set_nav_timer_def turning_def)
qed (use assms in \<open>simp add: fire_nav_timer_def\<close>)

lemma settle_inv: "animation_inv s \<Longrightarrow> animation_inv ((settle s)\<lparr>rd_page := q\<rparr>)"
  by (simp add: animation_inv_def reader_timers_ok_def)

lemma pageChange_inv: "animation_inv s \<Longrightarrow> animation_inv (fst (handlePageChange o' q s))"
  by (simp add: handlePageChange_def settle_inv)

lemma do_key_inv: "animation_inv s \<Longrightarrow> animation_inv (fst (do_key o' e s))"
  by (simp add: do_key_def next_inv prev_inv pageChange_inv split: option.split key_effect.split key_action.split)

lemma do_paged_inv: "animation_inv s \<Longrightarrow> animation_inv (fst (do_paged o' p s))"
  by (simp add: do_paged_def next_inv prev_inv split: paged_output.split page_action.split zone_action.split)

lemma pointer_inv: "animation_inv s \<Longrightarrow> animation_inv (fst (pointer o' e s))"
proof -
  assume inv: "animation_inv s"
  have "animation_inv (s\<lparr>rd_gesture := fst (paged_step (gesture_opts_of o' s) (rd_gesture s) e)\<rparr>)"
    by (rule change_inv [OF inv change_paged])
  then show ?thesis by (simp add: pointer_def Let_def split_beta do_paged_inv split: list.split)
qed

interpretation animation: machine "reader_next o'" "initial_reader page" animation_inv for o' page
proof
  show "animation_inv (initial_reader page)"
    by (simp add: animation_inv_def initial_reader_def reader_timers_ok_def timers_ok_def initial_gesture_def)
  show "animation_inv s \<Longrightarrow> animation_inv (reader_next o' s e)" for s e
    by (cases e) (simp_all add: reader_next_def reader_step_def pointer_inv do_key_inv pageChange_inv fire_nav_inv
        handleScrollTop_def settle_inv, simp_all add: animation_inv_def reader_timers_ok_def ending_def)
qed

text \<open>
  C9: The animation of the reader always ends. In every state that clicks, drags, keys, jumps and timers
  in any order lead to, a running animation, whether of a page turn or of a drag springing back, has a
  pending timer, and when that timer fires the animation is over; during it no page turn starts.
\<close>

theorem animation_ends:
  fixes es :: "reader_event list" and page :: rat and o' :: reader_opts
  assumes "s = run_events (reader_next o') (initial_reader page) es" "g_isAnimating (rd_gesture s)"
  shows "((\<exists>i. map_of (g_timers (rd_gesture s)) i = Some Spring_Timer \<and>
        \<not> g_isAnimating (rd_gesture (reader_next o' s (Pointer (Container_Timer i))))) \<or>
    (\<exists>i t. map_of (rd_timers s) i = Some t \<and> turning t \<and>
        \<not> g_isAnimating (rd_gesture (reader_next o' s (Nav_Timer i))))) \<and>
    (goToNextPage o' s = (s, []) \<and> goToPrevPage o' s = (s, []))"
proof (rule conjI2)
  have inv: "animation_inv s" unfolding assms(1) by (rule animation.inv_run)
  then consider "0 < pending spring (g_timers (rd_gesture s))" | "0 < pending turning (rd_timers s)"
    using assms(2) by (auto simp: animation_inv_def ending_def)
  then show "(\<exists>i. map_of (g_timers (rd_gesture s)) i = Some Spring_Timer \<and>
        \<not> g_isAnimating (rd_gesture (reader_next o' s (Pointer (Container_Timer i))))) \<or>
    (\<exists>i t. map_of (rd_timers s) i = Some t \<and> turning t \<and>
        \<not> g_isAnimating (rd_gesture (reader_next o' s (Nav_Timer i))))"
  proof cases
    case 1
    then obtain i where "(i, Spring_Timer) \<in> set (g_timers (rd_gesture s))"
      by (auto simp: pending_pos spring_def)
    then have m: "map_of (g_timers (rd_gesture s)) i = Some Spring_Timer"
      using inv by (simp add: animation_inv_def reader_timers_ok_def timers_ok_def)
    then have "\<not> g_isAnimating (rd_gesture (reader_next o' s (Pointer (Container_Timer i))))"
      by (simp add: reader_next_def reader_step_def pointer_def to_gesture_def fire_timer_def Let_def)
    with m show ?thesis by blast
  next
    case 2
    then obtain i t where t: "(i, t) \<in> set (rd_timers s)" "turning t" by (auto simp: pending_pos)
    then have m: "map_of (rd_timers s) i = Some t"
      using inv by (simp add: animation_inv_def reader_timers_ok_def timers_ok_def)
    with t(2) have "\<not> g_isAnimating (rd_gesture (reader_next o' s (Nav_Timer i)))"
      by (simp add: reader_next_def reader_step_def fire_nav_timer_def Let_def set_nav_timer_def turning_def
          split: nav_timer.split)
    with m t(2) show ?thesis by blast
  qed
  show "goToNextPage o' s = (s, []) \<and> goToPrevPage o' s = (s, [])"
    using assms(2) by (simp add: goToNextPage_def goToPrevPage_def)
qed

definition plain_key :: "string \<Rightarrow> key_event" where
  "plain_key k =
     \<lparr>ke_key = k, ke_code = k, ke_ctrl = False, ke_meta = False, ke_alt = False, ke_shift = False, ke_target = None\<rparr>"

definition sample_reader_opts :: "nat \<Rightarrow> reader_opts" where
  "sample_reader_opts n =
     \<lparr>ro_pages = n, ro_readingMode = ''ltr'', ro_prev = None, ro_next = Some ''c2'', ro_width = 800,
      ro_innerWidth = Some 800\<rparr>"

lemma plain_keys:
  "handleKeyDown (reader_keys o') (plain_key ''PageDown'') = (True, Some (Call Key_Next))"
  "handleKeyDown (reader_keys o') (plain_key ''PageUp'') = (True, Some (Call Key_Prev))"
  "handleKeyDown (reader_keys o') (plain_key ''End'') = (True, Some (Call Key_Last))"
  "handleKeyDown (reader_keys o') (plain_key ''Home'') = (True, Some (Call Key_First))"
  by (simp_all add: handleKeyDown_def reader_keys_def plain_key_def typing_target_def call_if_def)

lemma key_steps:
  "reader_step o' s (Key (plain_key ''PageDown'')) = goToNextPage o' s"
  "reader_step o' s (Key (plain_key ''PageUp'')) = goToPrevPage o' s"
  "reader_step o' s (Key (plain_key ''End'')) = handlePageChange o' (ro_total o') s"
  "reader_step o' s (Key (plain_key ''Home'')) = handlePageChange o' 1 s"
  by (simp_all add: reader_step_def plain_keys do_key_def)

lemma timer_step: "reader_step o' s (Nav_Timer i) = fire_nav_timer i s"
  by (simp add: reader_step_def)

text \<open>\<open>animation_ends\<close> after one press of PageDown in a chapter of three pages.\<close>

theorem animation_ends_witness:
  "let s = run_events (reader_next (sample_reader_opts 3)) (initial_reader 1) [Key (plain_key ''PageDown'')]
   in goToNextPage (sample_reader_opts 3) s = (s, [])"
proof -
  let ?s = "run_events (reader_next (sample_reader_opts 3)) (initial_reader 1) [Key (plain_key ''PageDown'')]"
  have "g_isAnimating (rd_gesture ?s)"
    by (simp add: reader_next_def key_steps goToNextPage_def initial_reader_def initial_gesture_def
        sample_reader_opts_def ro_total_def Let_def set_nav_timer_def slide_def)
  from conjunct1 [OF conjunct2 [OF animation_ends [OF refl this]]] show ?thesis by (simp only: Let_def)
qed

section \<open>The page stays in the chapter, without jumps\<close>

definition jump :: "reader_opts \<Rightarrow> reader_event \<Rightarrow> bool" where
  "jump o' e =
     (case e of
        Pointer p \<Rightarrow> False
      | Key k \<Rightarrow> snd (handleKeyDown (reader_keys o') k) \<in> {Some (Call Key_First), Some (Call Key_Last)}
      | Slider v \<Rightarrow> True
      | Scroll_Button \<Rightarrow> True
      | Page_Set q \<Rightarrow> True
      | Nav_Timer i \<Rightarrow> False)"

lemma no_turns: "pending turning ts = 0 \<Longrightarrow> Turn_Timer d \<notin> snd ` set ts"
  by (force simp: pending_def filter_empty_conv turning_def)

lemma turn_idle: "turn_inv o' s \<Longrightarrow> \<not> g_isAnimating (rd_gesture s) \<Longrightarrow> Turn_Timer d \<notin> snd ` set (rd_timers s)"
  by (rule no_turns) (simp add: turn_inv_def ending_def)

lemma int_step_up: "(p::rat) \<in> \<int> \<Longrightarrow> p < of_nat n \<Longrightarrow> p + 1 \<le> of_nat n"
proof -
  assume "p \<in> \<int>" "p < of_nat n"
  then obtain z :: int where z: "p = of_int z" by (auto elim: Ints_cases)
  with \<open>p < of_nat n\<close> have "(of_int z :: rat) < of_int (int n)" by simp
  then have "z + 1 \<le> int n" by simp
  then have "(of_int (z + 1) :: rat) \<le> of_int (int n)" by (simp only: of_int_le_iff)
  with z show "p + 1 \<le> of_nat n" by simp
qed

lemma int_step_down: "(p::rat) \<in> \<int> \<Longrightarrow> 1 < p \<Longrightarrow> 1 \<le> p - 1"
proof -
  assume "p \<in> \<int>" "1 < p"
  then obtain z :: int where z: "p = of_int z" by (auto elim: Ints_cases)
  with \<open>1 < p\<close> have "2 \<le> z" by simp
  then have "(of_int 2 :: rat) \<le> of_int z" by (simp only: of_int_le_iff)
  with z show "1 \<le> p - 1" by simp
qed

lemma turn_change:
  assumes "turn_inv o' s" "gesture_change (rd_gesture s) g"
  shows "turn_inv o' (s\<lparr>rd_gesture := g\<rparr>)"
proof -
  have "pending spring (g_timers g) + pending turning (rd_timers s) = (if g_isAnimating g then 1 else 0)"
    using assms by (auto simp: turn_inv_def gesture_change_def ending_def reader_timers_ok_def split: if_splits)
  with assms show ?thesis by (simp add: turn_inv_def gesture_change_def ending_def reader_timers_ok_def)
qed

lemma turn_next: assumes "turn_inv o' s" shows "turn_inv o' (fst (goToNextPage o' s))"
proof (cases "g_isAnimating (rd_gesture s)")
  case False
  from turn_idle [OF assms False] assms False goToNextPage_ok [of s o'] int_step_up [of "rd_page s" "ro_pages o'"]
  show ?thesis
    by (simp add: turn_inv_def goToNextPage_def Let_def set_nav_timer_def slide_def ending_def turning_def ro_total_def
        image_Un)
qed (use assms in \<open>simp add: goToNextPage_def\<close>)

lemma turn_prev: assumes "turn_inv o' s" shows "turn_inv o' (fst (goToPrevPage o' s))"
proof (cases "g_isAnimating (rd_gesture s)")
  case False
  from turn_idle [OF assms False] assms False goToPrevPage_ok [of s o'] int_step_down [of "rd_page s"]
  show ?thesis
    by (simp add: turn_inv_def goToPrevPage_def Let_def set_nav_timer_def slide_def ending_def turning_def ro_total_def
        image_Un)
qed (use assms in \<open>simp add: goToPrevPage_def\<close>)

lemma turn_fire: assumes inv: "turn_inv o' s" shows "turn_inv o' (fst (fire_nav_timer i s))"
proof (cases "map_of (rd_timers s) i")
  case (Some t)
  let ?rest = "filter (\<lambda>(j, _). j \<noteq> i) (rd_timers s)"
  have ok: "timers_ok (rd_timers s) (rd_nextTimer s)" using inv by (simp add: turn_inv_def reader_timers_ok_def)
  note rem = pending_remove [OF ok Some, of turning]
  have mem: "t \<in> snd ` set (rd_timers s)" using map_of_SomeD [OF Some] by force
  have sub: "snd ` set ?rest \<subseteq> snd ` set (rd_timers s)" by auto
  show ?thesis
  proof (cases "turning t")
    case True
    with rem inv have z: "pending turning ?rest = 0" and sp: "pending spring (g_timers (rd_gesture s)) = 0"
      by (auto simp: turn_inv_def ending_def split: if_splits)
    from z have rest: "Turn_Timer d \<notin> snd ` set ?rest" for d by (rule no_turns)
    show ?thesis
    proof (cases t)
      case (Turn_Timer d)
      with mem inv have "d \<in> \<int>" "1 \<le> rd_page s + d" "rd_page s + d \<le> ro_total o'" by (auto simp: turn_inv_def)
      with inv Turn_Timer Some rest z sp fire_nav_ok [of s i] show ?thesis
        by (simp add: turn_inv_def fire_nav_timer_def Let_def set_nav_timer_def ending_def turning_def image_Un)
    next
      case (Chapter_Timer os)
      with inv Some rest z sp fire_nav_ok [of s i] show ?thesis
        by (simp add: turn_inv_def fire_nav_timer_def Let_def set_nav_timer_def ending_def turning_def image_Un)
    next
      case Drag_Timer
      with True show ?thesis by (simp add: turning_def)
    qed
  next
    case False
    then have t: "t = Drag_Timer" by (simp add: turning_def)
    with rem inv Some sub fire_nav_ok [of s i] show ?thesis
      by (simp add: turn_inv_def fire_nav_timer_def Let_def ending_def turning_def) blast
  qed
qed (use inv in \<open>simp add: fire_nav_timer_def\<close>)

lemma turn_paged: "turn_inv o' s \<Longrightarrow> turn_inv o' (fst (do_paged o' p s))"
  by (simp add: do_paged_def turn_next turn_prev split: paged_output.split page_action.split zone_action.split)

lemma turn_pointer: assumes "turn_inv o' s" shows "turn_inv o' (fst (pointer o' e s))"
proof -
  have "turn_inv o' (s\<lparr>rd_gesture := fst (paged_step (gesture_opts_of o' s) (rd_gesture s) e)\<rparr>)"
    by (rule turn_change [OF assms change_paged])
  then show ?thesis by (simp add: pointer_def Let_def split_beta turn_paged split: list.split)
qed

lemma turn_step: assumes "turn_inv o' s" "\<not> jump o' e" shows "turn_inv o' (reader_next o' s e)"
proof (cases e)
  case (Key k)
  with assms show ?thesis
    by (auto simp: reader_next_def reader_step_def do_key_def jump_def turn_next turn_prev
        split: option.split key_effect.split key_action.split)
qed (use assms in \<open>simp_all add: reader_next_def reader_step_def jump_def turn_pointer turn_fire\<close>)

lemma turn_run: "turn_inv o' s \<Longrightarrow> list_all (\<lambda>e. \<not> jump o' e) es \<Longrightarrow> turn_inv o' (run_events (reader_next o') s es)"
  by (induction es arbitrary: s) (simp_all add: turn_step)

lemma js_at_int: "0 \<le> z \<Longrightarrow> nat z < length xs \<Longrightarrow> js_at xs (of_int z) = Some (xs ! nat z)"
  by (simp add: js_at_def)

lemma center_slot_shown:
  assumes "page \<in> \<int>" "1 \<le> page" "page \<le> of_nat (length pages)"
  shows "center_slot pages page = Slot_Page page"
proof -
  from assms(1) obtain z :: int where z: "page = of_int z" by (auto elim: Ints_cases)
  with assms(3) have "(of_int z :: rat) \<le> of_int (int (length pages))" by simp
  then have "z \<le> int (length pages)" by (simp only: of_int_le_iff)
  moreover from z assms(2) have "1 \<le> z" by simp
  ultimately have "js_at pages (of_int (z - 1)) = Some (pages ! nat (z - 1))" by (intro js_at_int) auto
  with z show ?thesis by (simp add: center_slot_def)
qed

text \<open>
  C4: As long as nobody jumps (with Home, End, the slider or the button), the reader never leaves the
  chapter: from any page of it, whatever is clicked, dragged and typed and in whatever order the timers
  fire, the current page is a page of the chapter and is the one shown, also after a pending turn.
\<close>

theorem page_stays_in_chapter:
  fixes es :: "reader_event list" and pages :: "page list"
  assumes "length pages = ro_pages o'" "p \<in> {1..ro_pages o'}" "list_all (\<lambda>e. \<not> jump o' e) es"
  shows "center_slot pages (rd_page (run_events (reader_next o') (initial_reader (of_nat p)) es)) =
      Slot_Page (rd_page (run_events (reader_next o') (initial_reader (of_nat p)) es)) \<and>
    (\<forall>d. Turn_Timer d \<in> snd ` set (rd_timers (run_events (reader_next o') (initial_reader (of_nat p)) es)) \<longrightarrow>
       center_slot pages (rd_page (run_events (reader_next o') (initial_reader (of_nat p)) es) + d) =
       Slot_Page (rd_page (run_events (reader_next o') (initial_reader (of_nat p)) es) + d))"
proof -
  have "turn_inv o' (initial_reader (of_nat p))"
    using assms(2) by (simp add: turn_inv_def initial_reader_def reader_timers_ok_def timers_ok_def
        initial_gesture_def ending_def ro_total_def)
  from turn_run [OF this assms(3)] show ?thesis
    unfolding turn_inv_def ro_total_def assms(1) [symmetric]
    by (auto intro!: center_slot_shown)
qed

text \<open>\<open>page_stays_in_chapter\<close> for two presses of PageDown and a timer in a chapter of two pages.\<close>

theorem page_stays_in_chapter_witness:
  "let es = [Key (plain_key ''PageDown''), Key (plain_key ''PageDown''), Nav_Timer 0];
       s = run_events (reader_next (sample_reader_opts 2)) (initial_reader (of_nat 1)) es
   in center_slot [\<lparr>pg_index = 0, pg_url = ''a'', pg_assetUrl = None\<rparr>, \<lparr>pg_index = 1, pg_url = ''b'', pg_assetUrl = None\<rparr>]
        (rd_page s) = Slot_Page (rd_page s)"
  unfolding Let_def
  by (rule conjunct1 [OF page_stays_in_chapter]) (simp_all add: sample_reader_opts_def jump_def plain_keys)

section \<open>Jumps during a turn, and reading through\<close>

lemma own_timer:
  assumes "reader_timers_ok s"
  shows "map_of (rd_timers s @ [(rd_nextTimer s, t)]) (rd_nextTimer s) = Some t"
proof -
  have "map_of (rd_timers s) (rd_nextTimer s) = None"
    using assms by (force simp: reader_timers_ok_def timers_ok_def map_of_eq_None_iff)
  then show ?thesis by (simp add: map_add_def)
qed

lemma end_during_turn:
  assumes "reader_timers_ok s" "\<not> g_isAnimating (rd_gesture s)" "rd_page s = ro_total o' - 1"
  shows "rd_page (run_events (reader_next o') s
      [Key (plain_key ''PageDown''), Key (plain_key ''End''), Nav_Timer (rd_nextTimer s)]) = ro_total o' + 1"
  using assms(2,3) own_timer [OF assms(1)]
  by (simp add: reader_next_def key_steps timer_step goToNextPage_def Let_def set_nav_timer_def slide_def
      handlePageChange_def fire_nav_timer_def)

lemma home_during_turn:
  assumes "reader_timers_ok s" "\<not> g_isAnimating (rd_gesture s)" "rd_page s = 2"
  shows "rd_page (run_events (reader_next o') s
      [Key (plain_key ''PageUp''), Key (plain_key ''Home''), Nav_Timer (rd_nextTimer s)]) = 0"
  using assms(2,3) own_timer [OF assms(1)]
  by (simp add: reader_next_def key_steps timer_step goToPrevPage_def Let_def set_nav_timer_def slide_def
      handlePageChange_def fire_nav_timer_def)

text \<open>
  A jump does not stop the timer of a turn under way. In a chapter of at least two pages, on the last
  page but one, PageDown followed by End before the 220 ms are over leaves the reader one page past the
  last one, with nothing to show; PageUp followed by Home on the second page leaves it on page 0.
\<close>

theorem jump_during_turn_leaves_chapter:
  fixes s :: reader and o' :: reader_opts and pages :: "page list"
  assumes "reader_timers_ok s" "\<not> g_isAnimating (rd_gesture s)" "2 \<le> ro_pages o'" "length pages = ro_pages o'"
  defines "i \<equiv> rd_nextTimer s"
  shows "(rd_page s = ro_total o' - 1 \<longrightarrow>
      (let s' = run_events (reader_next o') s [Key (plain_key ''PageDown''), Key (plain_key ''End''), Nav_Timer i]
       in rd_page s' = ro_total o' + 1 \<and> center_slot pages (rd_page s') = Slot_Empty)) \<and>
    (rd_page s = 2 \<longrightarrow>
      (let s' = run_events (reader_next o') s [Key (plain_key ''PageUp''), Key (plain_key ''Home''), Nav_Timer i]
       in rd_page s' = 0 \<and> center_slot pages (rd_page s') = Slot_Empty))"
proof -
  have "center_slot pages (ro_total o' + 1) = Slot_Empty" "center_slot pages 0 = Slot_Empty"
    using assms(4) by (simp_all add: center_slot_def js_at_def ro_total_def)
  with end_during_turn [OF assms(1,2)] home_during_turn [OF assms(1,2)] show ?thesis
    unfolding Let_def i_def by metis
qed

text \<open>\<open>jump_during_turn_leaves_chapter\<close> on the second of two pages, going back.\<close>

theorem jump_during_turn_leaves_chapter_witness:
  "rd_page (run_events (reader_next (sample_reader_opts 2)) (initial_reader 2)
     [Key (plain_key ''PageUp''), Key (plain_key ''Home''), Nav_Timer 0]) = 0"
proof -
  have "reader_timers_ok (initial_reader 2)" "\<not> g_isAnimating (rd_gesture (initial_reader 2))"
    "2 \<le> ro_pages (sample_reader_opts 2)"
    by (simp_all add: reader_timers_ok_def timers_ok_def initial_reader_def initial_gesture_def sample_reader_opts_def)
  from jump_during_turn_leaves_chapter [OF this,
      of "[\<lparr>pg_index = 0, pg_url = ''a'', pg_assetUrl = None\<rparr>, \<lparr>pg_index = 1, pg_url = ''b'', pg_assetUrl = None\<rparr>]"]
  show ?thesis by (simp add: Let_def initial_reader_def sample_reader_opts_def)
qed

text \<open>\<open>k\<close> page turns with PageDown, each animation run to its end.\<close>

definition turns :: "nat \<Rightarrow> reader_event list" where
  "turns k = concat (map (\<lambda>j. [Key (plain_key ''PageDown''), Nav_Timer (2 * j)]) [0..<k])"

lemma turns_simps [simp]: "turns 0 = []" "turns (Suc k) = turns k @ [Key (plain_key ''PageDown''), Nav_Timer (2 * k)]"
  by (simp_all add: turns_def)

lemma reader_outputs_append:
  "reader_outputs o' s (xs @ ys) = reader_outputs o' s xs @ reader_outputs o' (run_events (reader_next o') s xs) ys"
  by (induction xs arbitrary: s) simp_all

definition resting :: "nat \<Rightarrow> rat \<Rightarrow> reader \<Rightarrow> bool" where
  "resting k page s =
     (rd_page s = page \<and> \<not> g_isAnimating (rd_gesture s) \<and> rd_nextTimer s = 2 * k \<and> (\<forall>t \<in> set (rd_timers s). fst t < 2 * k))"

lemma one_turn:
  assumes "resting k page s" "page < ro_total o'"
  shows "resting (Suc k) (page + 1) (run_events (reader_next o') s [Key (plain_key ''PageDown''), Nav_Timer (2 * k)]) \<and>
    reader_outputs o' s [Key (plain_key ''PageDown''), Nav_Timer (2 * k)] = []"
proof -
  have "map_of (rd_timers s) (2 * k) = None"
    using assms(1) by (force simp: resting_def map_of_eq_None_iff)
  then have "map_of (rd_timers s @ [(2 * k, t)]) (2 * k) = Some t" for t by (simp add: map_add_def)
  with assms show ?thesis
    by (auto simp: resting_def reader_next_def key_steps timer_step goToNextPage_def Let_def set_nav_timer_def
        slide_def fire_nav_timer_def settle_def less_Suc_eq)
qed

lemma turns_rest:
  "k < ro_pages o' \<Longrightarrow> resting k (of_nat k + 1) (run_events (reader_next o') (initial_reader 1) (turns k)) \<and>
     reader_outputs o' (initial_reader 1) (turns k) = []"
proof (induction k)
  case 0
  show ?case by (simp add: resting_def initial_reader_def initial_gesture_def)
next
  case (Suc k)
  have "of_nat k + 1 < ro_total o'"
  proof -
    from Suc.prems have "(of_nat (Suc k) :: rat) < of_nat (ro_pages o')" by (simp only: of_nat_less_iff)
    then show ?thesis by (simp add: ro_total_def add.commute)
  qed
  from one_turn [OF _ this] Suc show ?case
    by (simp add: run_events_append reader_outputs_append del: run_events.simps reader_outputs.simps)
qed

text \<open>
  C20: Reading straight through. From page 1, after \<open>k\<close> turns the reader is on page \<open>k + 1\<close> and has reported
  nothing; the turn from the last page marks the chapter as read, when it starts and again when its
  animation ends, and then opens the next chapter, if there is one; otherwise it only marks it.
\<close>

theorem reading_through:
  assumes "0 < ro_pages o'"
  shows "(\<forall>k < ro_pages o'. rd_page (run_events (reader_next o') (initial_reader 1) (turns k)) = of_nat k + 1) \<and>
    reader_outputs o' (initial_reader 1) (turns (ro_pages o')) =
      (case ro_next o' of
         None \<Rightarrow> [Out_Mark (ro_total o')]
       | Some c \<Rightarrow> [Out_Mark (ro_total o'), Out_Mark (ro_total o'), Out_Chapter c None])"
proof (rule conjI2)
  show "\<forall>k < ro_pages o'. rd_page (run_events (reader_next o') (initial_reader 1) (turns k)) = of_nat k + 1"
    using turns_rest by (auto simp: resting_def)
  obtain k where k: "ro_pages o' = Suc k" using assms by (cases "ro_pages o'") auto
  let ?s = "run_events (reader_next o') (initial_reader 1) (turns k)"
  have rest: "resting k (of_nat k + 1) ?s" and none: "reader_outputs o' (initial_reader 1) (turns k) = []"
    using turns_rest [of k o'] k by simp_all
  have "map_of (rd_timers ?s) (2 * k) = None"
    using rest by (force simp: resting_def map_of_eq_None_iff)
  then have timer: "map_of (rd_timers ?s @ [(2 * k, t)]) (2 * k) = Some t" for t by (simp add: map_add_def)
  have last: "\<not> rd_page ?s < ro_total o'" using rest k by (simp add: resting_def ro_total_def)
  have "reader_outputs o' ?s [Key (plain_key ''PageDown''), Nav_Timer (2 * k)] =
      (case ro_next o' of
         None \<Rightarrow> [Out_Mark (ro_total o')]
       | Some c \<Rightarrow> [Out_Mark (ro_total o'), Out_Mark (ro_total o'), Out_Chapter c None])"
    using rest last timer \<open>map_of (rd_timers ?s) (2 * k) = None\<close>
    by (cases "ro_next o'")
      (simp_all add: resting_def reader_next_def key_steps timer_step goToNextPage_def Let_def set_nav_timer_def
        slide_def fire_nav_timer_def handleNextChapter_def)
  then show "reader_outputs o' (initial_reader 1) (turns (ro_pages o')) =
      (case ro_next o' of
         None \<Rightarrow> [Out_Mark (ro_total o')]
       | Some c \<Rightarrow> [Out_Mark (ro_total o'), Out_Mark (ro_total o'), Out_Chapter c None])"
    unfolding k turns_simps reader_outputs_append none by simp
qed

text \<open>\<open>reading_through\<close> for a chapter of two pages.\<close>

theorem reading_through_witness:
  "reader_outputs (sample_reader_opts 2) (initial_reader 1) (turns 2) = [Out_Mark 2, Out_Mark 2, Out_Chapter ''c2'' None]"
  using reading_through [of "sample_reader_opts 2"] by (simp add: sample_reader_opts_def ro_total_def)

end
