(* ===== verification/Reader_Progress.thy ===== *)
theory Reader_Progress
  imports Kiyomi_Prelude
begin

text \<open>
  \<open>hooks/useReaderProgressTracker.ts\<close>: where the reader resumes, when it saves the page and
  when it marks a chapter as read. The hook is three effects over React state and refs. The
  model keeps the state, the refs, the pending save timer and the props and page of the last
  commit; \<open>run_effects\<close> runs, as React does, the cleanup of an effect whose dependencies
  changed and then the effects whose dependencies changed, in the order of the source, each
  seeing the page of the rendering it belongs to. \<open>commit\<close> renders again when an effect
  changed the page. Callbacks that the caller recreates on every rendering are compared by
  an identity token. \<open>number\<close> stands for \<open>Number(s)\<close> (\<open>None\<close> is NaN).
\<close>

section \<open>State\<close>

datatype search_page = Page_Undefined | Page_Null | Page_String string | Page_Number rat

record tracker_props =
  tp_mangaId :: "string option"
  tp_chapterId :: string
  tp_providerId :: "string option"
  tp_pagesCount :: rat
  tp_isPaged :: bool
  tp_isChapterRead :: bool
  tp_lastReadPage :: rat
  tp_searchPage :: search_page
  tp_hasNextChapter :: bool
  tp_userStatus :: "string option"
  tp_onScrollToPage :: nat
  tp_onUpdateProgress :: nat

record progress_update =
  pu_mangaId :: string
  pu_chapterId :: string
  pu_providerId :: "string option"
  pu_is_read :: "bool option"
  pu_last_read_page :: "rat option"

datatype tracker_output = Update progress_update | Scroll_To rat | Scroll_Top

record tracker =
  t_currentPage :: rat
  t_showDialog :: bool
  t_activeChapter :: "string option"
  t_hasMarkedRead :: bool
  t_hasResumed :: bool
  t_dismissed :: bool
  t_saveTimeout :: "nat option"
  t_timers :: "(nat \<times> progress_update) list"
  t_nextTimer :: nat
  t_cleanup :: bool
  t_prev :: "(tracker_props \<times> rat) option"

definition initial_tracker :: tracker where
  "initial_tracker =
     \<lparr>t_currentPage = 1, t_showDialog = False, t_activeChapter = None, t_hasMarkedRead = False,
      t_hasResumed = False, t_dismissed = False, t_saveTimeout = None, t_timers = [], t_nextTimer = 0,
      t_cleanup = False, t_prev = None\<rparr>"

section \<open>The effects\<close>

definition clear_save :: "tracker \<Rightarrow> tracker" where
  "clear_save s =
     (case t_saveTimeout s of None \<Rightarrow> s | Some i \<Rightarrow> s\<lparr>t_timers := filter (\<lambda>(j, _). j \<noteq> i) (t_timers s)\<rparr>)"

definition effect_reset :: "tracker_props \<Rightarrow> tracker \<Rightarrow> tracker" where
  "effect_reset p s =
     (if t_activeChapter s \<noteq> Some (tp_chapterId p)
      then (clear_save s)\<lparr>t_activeChapter := Some (tp_chapterId p), t_hasMarkedRead := tp_isChapterRead p,
             t_hasResumed := False, t_dismissed := False, t_saveTimeout := None\<rparr>
      else s)"

definition search_number :: "(string \<Rightarrow> rat option) \<Rightarrow> search_page \<Rightarrow> rat option" where
  "search_number number sp =
     (case sp of
        Page_Undefined \<Rightarrow> None
      | Page_Null \<Rightarrow> None
      | Page_String str \<Rightarrow> if str = [] then None else number str
      | Page_Number q \<Rightarrow> Some q)"

definition resume_page :: "(string \<Rightarrow> rat option) \<Rightarrow> tracker_props \<Rightarrow> rat" where
  "resume_page number p =
     (if tp_searchPage p = Page_String ''last'' then tp_pagesCount p
      else case search_number number (tp_searchPage p) of
             Some parsedPage \<Rightarrow> min (max 1 parsedPage) (tp_pagesCount p)
           | None \<Rightarrow>
               if \<not> tp_isChapterRead p \<and> tp_lastReadPage p > 1
               then min (max 1 (tp_lastReadPage p)) (tp_pagesCount p) else 1)"

definition effect_resume ::
    "(string \<Rightarrow> rat option) \<Rightarrow> tracker_props \<Rightarrow> tracker \<Rightarrow> tracker \<times> tracker_output list" where
  "effect_resume number p s =
     (if tp_chapterId p = [] \<or> tp_pagesCount p = 0 \<or> t_hasResumed s then (s, [])
      else
        let target = resume_page number p
        in (s\<lparr>t_hasResumed := True, t_currentPage := target\<rparr>,
            if tp_isPaged p then [] else if target > 1 then [Scroll_To target] else [Scroll_Top]))"

definition effect_save :: "tracker_props \<Rightarrow> rat \<Rightarrow> tracker \<Rightarrow> tracker \<times> tracker_output list" where
  "effect_save p currentPage s =
     (if \<not> truthy_str (tp_mangaId p) \<or> tp_chapterId p = [] \<or> tp_pagesCount p = 0 \<or> \<not> t_hasResumed s then (s, [])
      else
        let upd = \<lparr>pu_mangaId = the (tp_mangaId p), pu_chapterId = tp_chapterId p,
                   pu_providerId = tp_providerId p, pu_is_read = None, pu_last_read_page = Some currentPage\<rparr>
        in if currentPage = tp_pagesCount p then
             let s1 = (clear_save s)\<lparr>t_saveTimeout := None\<rparr>
             in if \<not> t_hasMarkedRead s1 then
                  let s2 = s1\<lparr>t_hasMarkedRead := True\<rparr>;
                      s3 = (if \<not> tp_hasNextChapter p \<and> \<not> t_dismissed s2 \<and> tp_userStatus p = Some ''reading''
                            then s2\<lparr>t_dismissed := True, t_showDialog := True\<rparr> else s2)
                  in (s3, [Update (upd\<lparr>pu_is_read := Some True\<rparr>)])
                else (s1, [])
           else
             let s1 = clear_save s
             in (s1\<lparr>t_timers := t_timers s1 @ [(t_nextTimer s1, upd)], t_saveTimeout := Some (t_nextTimer s1),
                   t_nextTimer := t_nextTimer s1 + 1, t_cleanup := True\<rparr>, []))"

text \<open>The dependency lists.\<close>

definition reset_deps :: "tracker_props \<Rightarrow> string \<times> bool" where
  "reset_deps p = (tp_chapterId p, tp_isChapterRead p)"

definition resume_deps :: "tracker_props \<Rightarrow> string \<times> rat \<times> search_page \<times> bool \<times> rat \<times> bool \<times> nat" where
  "resume_deps p =
     (tp_chapterId p, tp_pagesCount p, tp_searchPage p, tp_isChapterRead p, tp_lastReadPage p, tp_isPaged p,
      tp_onScrollToPage p)"

definition save_deps ::
    "tracker_props \<Rightarrow> rat \<Rightarrow> rat \<times> string option \<times> string \<times> string option \<times> rat \<times> bool \<times> string option \<times> nat" where
  "save_deps p currentPage =
     (currentPage, tp_mangaId p, tp_chapterId p, tp_providerId p, tp_pagesCount p, tp_hasNextChapter p,
      tp_userStatus p, tp_onUpdateProgress p)"

definition changed :: "(tracker_props \<times> rat \<Rightarrow> 'd) \<Rightarrow> tracker \<Rightarrow> tracker_props \<Rightarrow> rat \<Rightarrow> bool" where
  "changed deps s p pg = (case t_prev s of None \<Rightarrow> True | Some q \<Rightarrow> deps q \<noteq> deps (p, pg))"

definition run_effects ::
    "(string \<Rightarrow> rat option) \<Rightarrow> tracker_props \<Rightarrow> tracker \<Rightarrow> tracker \<times> tracker_output list" where
  "run_effects number p s =
     (let pg = t_currentPage s;
          ch1 = changed (\<lambda>(q, _). reset_deps q) s p pg;
          ch2 = changed (\<lambda>(q, _). resume_deps q) s p pg;
          ch3 = changed (\<lambda>(q, r). save_deps q r) s p pg;
          s0 = (if ch3 then (if t_cleanup s then clear_save s else s)\<lparr>t_cleanup := False\<rparr> else s);
          s1 = (if ch1 then effect_reset p s0 else s0);
          (s2, o2) = (if ch2 then effect_resume number p s1 else (s1, []));
          (s3, o3) = (if ch3 then effect_save p pg s2 else (s2, []))
      in (s3\<lparr>t_prev := Some (p, pg)\<rparr>, o2 @ o3))"

definition commit ::
    "(string \<Rightarrow> rat option) \<Rightarrow> tracker_props \<Rightarrow> tracker \<Rightarrow> tracker \<times> tracker_output list" where
  "commit number p s =
     (let (s1, o1) = run_effects number p s
      in if t_currentPage s1 \<noteq> t_currentPage s
         then let (s2, o2) = run_effects number p s1 in (s2, o1 @ o2) else (s1, o1))"

definition markChapterRead :: "tracker_props \<Rightarrow> rat option \<Rightarrow> tracker \<Rightarrow> tracker \<times> tracker_output list" where
  "markChapterRead p lastReadPage s =
     (if truthy_str (tp_mangaId p) \<and> tp_chapterId p \<noteq> []
      then (s\<lparr>t_hasMarkedRead := True\<rparr>,
            [Update \<lparr>pu_mangaId = the (tp_mangaId p), pu_chapterId = tp_chapterId p,
                     pu_providerId = tp_providerId p, pu_is_read = Some True, pu_last_read_page = lastReadPage\<rparr>])
      else (s, []))"

section \<open>Steps and reachable states\<close>

datatype tracker_event =
    Render tracker_props
  | Set_Page rat
  | Mark_Read "rat option"
  | Save_Timer nat
  | Set_Dialog bool

inductive tracker_step ::
    "(string \<Rightarrow> rat option) \<Rightarrow> tracker \<Rightarrow> tracker_event \<Rightarrow> tracker_output list \<Rightarrow> tracker \<Rightarrow> bool"
  for number :: "string \<Rightarrow> rat option" where
  render: "commit number p s = (s', os) \<Longrightarrow> tracker_step number s (Render p) os s'"
| set_page: "t_prev s = Some (p, pg) \<Longrightarrow> commit number p (s\<lparr>t_currentPage := n\<rparr>) = (s', os) \<Longrightarrow>
    tracker_step number s (Set_Page n) os s'"
| set_page_first: "t_prev s = None \<Longrightarrow> tracker_step number s (Set_Page n) [] (s\<lparr>t_currentPage := n\<rparr>)"
| mark: "t_prev s = Some (p, pg) \<Longrightarrow> markChapterRead p n s = (s', os) \<Longrightarrow>
    tracker_step number s (Mark_Read n) os s'"
| timer: "(i, u) \<in> set (t_timers s) \<Longrightarrow>
    tracker_step number s (Save_Timer i) [Update u] (s\<lparr>t_timers := filter (\<lambda>(j, _). j \<noteq> i) (t_timers s)\<rparr>)"
| dialog: "tracker_step number s (Set_Dialog b) [] (s\<lparr>t_showDialog := b\<rparr>)"

inductive_cases tracker_stepE: "tracker_step number s e os s'"

inductive_simps tracker_step_render [simp]: "tracker_step number s (Render p) os s'"

text \<open>\<open>tracker_reach number s os\<close>: a mounted reader has come to \<open>s\<close>, having produced \<open>os\<close>.\<close>

inductive tracker_reach :: "(string \<Rightarrow> rat option) \<Rightarrow> tracker \<Rightarrow> tracker_output list \<Rightarrow> bool"
  for number :: "string \<Rightarrow> rat option" where
  start: "tracker_reach number initial_tracker []"
| step: "tracker_reach number s os \<Longrightarrow> tracker_step number s e os' s' \<Longrightarrow> tracker_reach number s' (os @ os')"

definition unmount :: "tracker \<Rightarrow> tracker" where
  "unmount s = (if t_cleanup s then clear_save s else s)"

section \<open>The save timer\<close>

text \<open>
  At most one save is pending, \<open>saveTimeoutRef\<close> names it, the effect that set it has its
  cleanup registered, and it was set for the rendering that is on screen.
\<close>

definition timer_inv :: "tracker \<Rightarrow> bool" where
  "timer_inv s \<longleftrightarrow>
     (t_timers s = [] \<or>
      (\<exists>i u. t_timers s = [(i, u)] \<and> t_saveTimeout s = Some i \<and> t_cleanup s))"

definition pending_for :: "tracker_props \<Rightarrow> rat \<Rightarrow> progress_update \<Rightarrow> bool" where
  "pending_for p pg u \<longleftrightarrow>
     tp_mangaId p = Some (pu_mangaId u) \<and> pu_mangaId u \<noteq> [] \<and> pu_chapterId u = tp_chapterId p \<and>
     pu_providerId u = tp_providerId p \<and> pu_is_read u = None \<and> pu_last_read_page u = Some pg \<and>
     pg \<noteq> tp_pagesCount p \<and> tp_pagesCount p \<noteq> 0"

definition pending_inv :: "tracker \<Rightarrow> bool" where
  "pending_inv s \<longleftrightarrow>
     timer_inv s \<and>
     (case t_prev s of None \<Rightarrow> t_timers s = [] | Some (p, pg) \<Rightarrow> \<forall>(i, u) \<in> set (t_timers s). pending_for p pg u)"

definition shown_inv :: "tracker \<Rightarrow> bool" where
  "shown_inv s \<longleftrightarrow> pending_inv s \<and> (case t_prev s of None \<Rightarrow> True | Some (p, pg) \<Rightarrow> pg = t_currentPage s)"

lemma clear_save_empty: "timer_inv s \<Longrightarrow> t_timers (clear_save s) = []"
  by (auto simp: timer_inv_def clear_save_def split: option.splits)

lemma clear_save_sel [simp]:
  "t_currentPage (clear_save s) = t_currentPage s" "t_showDialog (clear_save s) = t_showDialog s"
  "t_activeChapter (clear_save s) = t_activeChapter s" "t_hasMarkedRead (clear_save s) = t_hasMarkedRead s"
  "t_hasResumed (clear_save s) = t_hasResumed s" "t_dismissed (clear_save s) = t_dismissed s"
  "t_cleanup (clear_save s) = t_cleanup s" "t_prev (clear_save s) = t_prev s"
  "t_saveTimeout (clear_save s) = t_saveTimeout s" "t_nextTimer (clear_save s) = t_nextTimer s"
  by (simp_all add: clear_save_def split: option.split)

lemma reset_sel [simp]:
  "t_currentPage (effect_reset p s) = t_currentPage s" "t_cleanup (effect_reset p s) = t_cleanup s"
  "t_showDialog (effect_reset p s) = t_showDialog s" "t_prev (effect_reset p s) = t_prev s"
  "t_activeChapter (effect_reset p s) = Some (tp_chapterId p)"
  by (simp_all add: effect_reset_def)

lemma resume_sel [simp]:
  "t_timers (fst (effect_resume number p s)) = t_timers s"
  "t_saveTimeout (fst (effect_resume number p s)) = t_saveTimeout s"
  "t_cleanup (fst (effect_resume number p s)) = t_cleanup s" "t_prev (fst (effect_resume number p s)) = t_prev s"
  "t_hasMarkedRead (fst (effect_resume number p s)) = t_hasMarkedRead s"
  "t_activeChapter (fst (effect_resume number p s)) = t_activeChapter s"
  "t_dismissed (fst (effect_resume number p s)) = t_dismissed s"
  "t_showDialog (fst (effect_resume number p s)) = t_showDialog s"
  by (simp_all add: effect_resume_def Let_def)

lemma save_sel [simp]:
  "t_currentPage (fst (effect_save p pg s)) = t_currentPage s" "t_prev (fst (effect_save p pg s)) = t_prev s"
  "t_activeChapter (fst (effect_save p pg s)) = t_activeChapter s"
  "t_hasResumed (fst (effect_save p pg s)) = t_hasResumed s"
  by (simp_all add: effect_save_def Let_def)

lemma timers_reset: "timer_inv s \<Longrightarrow> t_timers (effect_reset p s) = [] \<or> t_timers (effect_reset p s) = t_timers s \<and>
    t_saveTimeout (effect_reset p s) = t_saveTimeout s"
  by (auto simp: effect_reset_def clear_save_empty)

lemma timers_save:
  assumes "t_timers s = []"
  shows "timer_inv (fst (effect_save p pg s))"
    and "(i, u) \<in> set (t_timers (fst (effect_save p pg s))) \<Longrightarrow> pending_for p pg u"
proof -
  have c: "t_timers (clear_save s) = []" using assms by (simp add: clear_save_def split: option.split)
  show "timer_inv (fst (effect_save p pg s))"
    using assms c by (simp add: effect_save_def Let_def timer_inv_def)
  show "(i, u) \<in> set (t_timers (fst (effect_save p pg s))) \<Longrightarrow> pending_for p pg u"
    using assms c by (cases "tp_mangaId p") (auto simp: effect_save_def Let_def pending_for_def split: if_splits)
qed

lemma pending_for_deps: "save_deps p pg = save_deps q pg' \<Longrightarrow> pending_for p pg u = pending_for q pg' u"
  by (simp add: save_deps_def pending_for_def)

lemma run_effects_unfold:
  "run_effects number p s =
    (let pg = t_currentPage s;
         s0 = (if changed (\<lambda>(q, r). save_deps q r) s p pg
               then (if t_cleanup s then clear_save s else s)\<lparr>t_cleanup := False\<rparr> else s);
         s1 = (if changed (\<lambda>(q, _). reset_deps q) s p pg then effect_reset p s0 else s0);
         r2 = (if changed (\<lambda>(q, _). resume_deps q) s p pg then effect_resume number p s1 else (s1, []));
         r3 = (if changed (\<lambda>(q, r). save_deps q r) s p pg then effect_save p pg (fst r2) else (fst r2, []))
     in ((fst r3)\<lparr>t_prev := Some (p, pg)\<rparr>, snd r2 @ snd r3))"
  unfolding run_effects_def Let_def by (simp add: case_prod_beta)

lemma prev_run_effects [simp]: "t_prev (fst (run_effects number p s)) = Some (p, t_currentPage s)"
  by (simp add: run_effects_unfold Let_def)

lemma reset_empty: "t_timers s = [] \<Longrightarrow> t_timers (effect_reset p s) = []"
  by (simp add: effect_reset_def clear_save_def split: option.split)

lemma pending_run_effects:
  assumes "pending_inv s"
  shows "pending_inv (fst (run_effects number p s))"
proof -
  let ?pg = "t_currentPage s"
  let ?ch1 = "changed (\<lambda>(q, _). reset_deps q) s p ?pg" and ?ch2 = "changed (\<lambda>(q, _). resume_deps q) s p ?pg"
  let ?ch3 = "changed (\<lambda>(q, r). save_deps q r) s p ?pg"
  let ?s0 = "if ?ch3 then (if t_cleanup s then clear_save s else s)\<lparr>t_cleanup := False\<rparr> else s"
  let ?s1 = "if ?ch1 then effect_reset p ?s0 else ?s0"
  let ?s2 = "fst (if ?ch2 then effect_resume number p ?s1 else (?s1, []))"
  let ?s3 = "fst (if ?ch3 then effect_save p ?pg ?s2 else (?s2, []))"
  have t: "timer_inv s" using assms by (simp add: pending_inv_def)
  have run: "fst (run_effects number p s) = ?s3\<lparr>t_prev := Some (p, ?pg)\<rparr>"
    by (simp only: run_effects_unfold Let_def fst_conv)
  have s2: "t_timers ?s2 = t_timers ?s1" "t_saveTimeout ?s2 = t_saveTimeout ?s1" "t_cleanup ?s2 = t_cleanup ?s1"
    by simp_all
  have "timer_inv ?s3 \<and> (\<forall>(i, u) \<in> set (t_timers ?s3). pending_for p ?pg u)"
  proof (cases ?ch3)
    case True
    have "t_timers (if t_cleanup s then clear_save s else s) = []"
      using t clear_save_empty [OF t] by (auto simp: timer_inv_def)
    then have "t_timers ?s0 = []" using True by simp
    then have "t_timers ?s1 = []"
      using reset_empty [of ?s0 p] by simp
    then have "t_timers ?s2 = []" using s2 by simp
    from timers_save [OF this, where p = p and pg = ?pg] show ?thesis using True by auto
  next
    case False
    then obtain q r where q: "t_prev s = Some (q, r)" "save_deps q r = save_deps p ?pg"
      by (auto simp: changed_def split: option.splits)
    then have pend: "\<forall>(i, u) \<in> set (t_timers s). pending_for p ?pg u"
      using assms pending_for_deps [OF q(2)] by (auto simp: pending_inv_def)
    have s3: "?s3 = ?s2" and s0: "?s0 = s" using False by simp_all
    have s1: "t_cleanup ?s1 = t_cleanup s" unfolding s0 by simp
    have "t_timers ?s1 = [] \<or> t_timers ?s1 = t_timers s \<and> t_saveTimeout ?s1 = t_saveTimeout s"
      unfolding s0 using timers_reset [OF t, of p] by auto
    then show ?thesis using pend t s1 unfolding s3 timer_inv_def s2 by (elim disjE) simp_all
  qed
  then show ?thesis unfolding run by (simp add: pending_inv_def timer_inv_def)
qed

lemma page_second_pass:
  "t_prev s = Some (p, pg) \<Longrightarrow> t_currentPage (fst (run_effects number p s)) = t_currentPage s"
  by (simp add: run_effects_unfold Let_def changed_def)

lemma commit_unfold:
  "commit number p s =
    (let r1 = run_effects number p s
     in if t_currentPage (fst r1) \<noteq> t_currentPage s
        then (fst (run_effects number p (fst r1)), snd r1 @ snd (run_effects number p (fst r1))) else r1)"
  by (simp add: commit_def Let_def case_prod_beta)

lemma shown_commit: "pending_inv s \<Longrightarrow> shown_inv (fst (commit number p s))"
  using pending_run_effects [of s number p] pending_run_effects [of "fst (run_effects number p s)" number p]
    page_second_pass [of "fst (run_effects number p s)" p "t_currentPage s" number]
  by (auto simp: commit_unfold Let_def shown_inv_def)

lemma shown_step: "tracker_step number s e os s' \<Longrightarrow> shown_inv s \<Longrightarrow> shown_inv s'"
proof (induction rule: tracker_step.induct)
  case (render p s s' os)
  then show ?case using shown_commit [of s number p] by (simp add: shown_inv_def)
next
  case (set_page s p pg n s' os)
  have "pending_inv (s\<lparr>t_currentPage := n\<rparr>)"
    using set_page.prems set_page.hyps(1) by (auto simp: shown_inv_def pending_inv_def timer_inv_def)
  then show ?case using shown_commit [of "s\<lparr>t_currentPage := n\<rparr>" number p] set_page.hyps by simp
next
  case (set_page_first s n)
  then show ?case by (simp add: shown_inv_def pending_inv_def timer_inv_def)
next
  case (mark s p pg n s' os)
  then show ?case by (auto simp: markChapterRead_def shown_inv_def pending_inv_def timer_inv_def split: if_splits)
next
  case (timer i u s)
  have "t_timers s = [(i, u)]" using timer by (auto simp: shown_inv_def pending_inv_def timer_inv_def)
  then show ?case using timer by (auto simp: shown_inv_def pending_inv_def timer_inv_def split: option.splits)
next
  case (dialog s b)
  then show ?case by (simp add: shown_inv_def pending_inv_def timer_inv_def split: option.splits prod.splits)
qed

lemma shown_reach: "tracker_reach number s os \<Longrightarrow> shown_inv s"
proof (induction rule: tracker_reach.induct)
  case start
  show ?case by (simp add: initial_tracker_def shown_inv_def pending_inv_def timer_inv_def)
qed (rule shown_step)


definition sample_props :: "string \<Rightarrow> rat \<Rightarrow> rat \<Rightarrow> nat \<Rightarrow> tracker_props" where
  "sample_props ch npages lastRead token =
     \<lparr>tp_mangaId = Some ''m1'', tp_chapterId = ch, tp_providerId = None, tp_pagesCount = npages, tp_isPaged = True,
      tp_isChapterRead = False, tp_lastReadPage = lastRead, tp_searchPage = Page_Undefined,
      tp_hasNextChapter = True, tp_userStatus = Some ''reading'', tp_onScrollToPage = token,
      tp_onUpdateProgress = token\<rparr>"

definition opened :: "tracker" where
  "opened = fst (commit (\<lambda>s. None) (sample_props ''a'' 20 7 0) initial_tracker)"

lemma reach_commit: "tracker_reach number s os \<Longrightarrow>
    tracker_reach number (fst (commit number p s)) (os @ snd (commit number p s))"
  by (rule tracker_reach.step [where e = "Render p"]) simp_all


section \<open>Marking a chapter as read\<close>

lemma mark_keeps_save:
  "t_hasMarkedRead s \<Longrightarrow> t_hasMarkedRead (fst (effect_save p pg s)) \<and>
    (\<forall>u. Update u \<notin> set (snd (effect_save p pg s)))"
  by (simp add: effect_save_def Let_def)

lemma save_updates:
  "Update u \<in> set (snd (effect_save p pg s)) \<Longrightarrow>
    \<not> t_hasMarkedRead s \<and> t_hasMarkedRead (fst (effect_save p pg s)) \<and> pg = tp_pagesCount p \<and>
    tp_pagesCount p \<noteq> 0 \<and> snd (effect_save p pg s) = [Update u] \<and>
    u = \<lparr>pu_mangaId = the (tp_mangaId p), pu_chapterId = tp_chapterId p, pu_providerId = tp_providerId p,
      pu_is_read = Some True, pu_last_read_page = Some (tp_pagesCount p)\<rparr>"
  by (auto simp: effect_save_def Let_def split: if_splits)

lemma resume_no_update: "Update u \<notin> set (snd (effect_resume number p s))"
  by (simp add: effect_resume_def Let_def)

lemma marked_reset:
  "t_activeChapter s = Some (tp_chapterId p) \<Longrightarrow> effect_reset p s = s"
  by (simp add: effect_reset_def)

lemma run_effects_marked:
  assumes "t_activeChapter s = Some (tp_chapterId p)" "t_hasMarkedRead s"
  shows "t_hasMarkedRead (fst (run_effects number p s))" "Update u \<notin> set (snd (run_effects number p s))"
  using assms mark_keeps_save resume_no_update
  by (auto simp: run_effects_unfold Let_def marked_reset)

lemma active_run_effects:
  assumes "t_activeChapter s = (case t_prev s of None \<Rightarrow> None | Some (q, _) \<Rightarrow> Some (tp_chapterId q))"
  shows "t_activeChapter (fst (run_effects number p s)) = Some (tp_chapterId p)"
  using assms by (auto simp: run_effects_unfold Let_def changed_def reset_deps_def split: option.splits)

definition active_inv :: "tracker \<Rightarrow> bool" where
  "active_inv s \<longleftrightarrow> t_activeChapter s = (case t_prev s of None \<Rightarrow> None | Some (q, _) \<Rightarrow> Some (tp_chapterId q))"

lemma active_commit: "active_inv s \<Longrightarrow> active_inv (fst (commit number p s)) \<and>
    t_activeChapter (fst (commit number p s)) = Some (tp_chapterId p)"
  using active_run_effects [of s number p] active_run_effects [of "fst (run_effects number p s)" number p]
  by (simp add: active_inv_def commit_unfold Let_def)

lemma active_step: "tracker_step number s e os s' \<Longrightarrow> active_inv s \<Longrightarrow> active_inv s'"
proof (induction rule: tracker_step.induct)
  case (render p s s' os)
  then show ?case using active_commit [of s number p] by simp
next
  case (set_page s p pg n s' os)
  then show ?case using active_commit [of "s\<lparr>t_currentPage := n\<rparr>" number p] by (simp add: active_inv_def)
next
  case (mark s p pg n s' os)
  then show ?case by (auto simp: markChapterRead_def active_inv_def split: if_splits)
qed (simp_all add: active_inv_def)

lemma active_reach: "tracker_reach number s os \<Longrightarrow> active_inv s"
proof (induction rule: tracker_reach.induct)
  case start
  show ?case by (simp add: initial_tracker_def active_inv_def)
qed (rule active_step)

lemma run_effects_decomp:
  "\<exists>s2 o2 o3. (\<forall>v. Update v \<notin> set o2) \<and> snd (run_effects number p s) = o2 @ o3 \<and>
    (o3 = [] \<or> o3 = snd (effect_save p (t_currentPage s) s2) \<and>
      fst (run_effects number p s) = (fst (effect_save p (t_currentPage s) s2))\<lparr>t_prev := Some (p, t_currentPage s)\<rparr>)"
proof -
  let ?pg = "t_currentPage s"
  let ?ch2 = "changed (\<lambda>(q, _). resume_deps q) s p ?pg" and ?ch3 = "changed (\<lambda>(q, r). save_deps q r) s p ?pg"
  obtain s1 where r: "run_effects number p s =
      (let r2 = (if ?ch2 then effect_resume number p s1 else (s1, []));
           r3 = (if ?ch3 then effect_save p ?pg (fst r2) else (fst r2, []))
       in ((fst r3)\<lparr>t_prev := Some (p, ?pg)\<rparr>, snd r2 @ snd r3))"
    unfolding run_effects_unfold Let_def by blast
  let ?r2 = "if ?ch2 then effect_resume number p s1 else (s1, [])"
  have o2: "\<forall>v. Update v \<notin> set (snd ?r2)" using resume_no_update by simp
  show ?thesis
  proof (cases ?ch3)
    case True
    show ?thesis
      by (rule exI [of _ "fst ?r2"], rule exI [of _ "snd ?r2"], rule exI [of _ "snd (effect_save p ?pg (fst ?r2))"])
         (use o2 True in \<open>simp add: r Let_def\<close>)
  next
    case False
    show ?thesis
      by (rule exI [of _ s], rule exI [of _ "snd ?r2"], rule exI [of _ "[]"]) (use o2 False in \<open>simp add: r Let_def\<close>)
  qed
qed

lemma run_effects_updates:
  assumes "Update u \<in> set (snd (run_effects number p s))"
  shows "t_currentPage s = tp_pagesCount p" and "tp_pagesCount p \<noteq> 0"
    and "t_hasMarkedRead (fst (run_effects number p s))"
    and "filter (\<lambda>x. \<exists>v. x = Update v) (snd (run_effects number p s)) = [Update u]"
    and "u = \<lparr>pu_mangaId = the (tp_mangaId p), pu_chapterId = tp_chapterId p, pu_providerId = tp_providerId p,
      pu_is_read = Some True, pu_last_read_page = Some (tp_pagesCount p)\<rparr>"
proof -
  obtain s2 o2 o3 where d: "\<forall>v. Update v \<notin> set o2" "snd (run_effects number p s) = o2 @ o3"
    "o3 = [] \<or> o3 = snd (effect_save p (t_currentPage s) s2) \<and>
      fst (run_effects number p s) = (fst (effect_save p (t_currentPage s) s2))\<lparr>t_prev := Some (p, t_currentPage s)\<rparr>"
    using run_effects_decomp by blast
  then have e: "o3 = snd (effect_save p (t_currentPage s) s2)" "Update u \<in> set o3"
    and f: "fst (run_effects number p s) = (fst (effect_save p (t_currentPage s) s2))\<lparr>t_prev := Some (p, t_currentPage s)\<rparr>"
    using assms by auto
  note u = save_updates [OF e(2) [unfolded e(1)]]
  have "filter (\<lambda>x. \<exists>v. x = Update v) o2 = []" using d(1) by (auto simp: filter_empty_conv)
  then show "filter (\<lambda>x. \<exists>v. x = Update v) (snd (run_effects number p s)) = [Update u]"
    unfolding d(2) e(1) using conjunct1 [OF conjunct2 [OF conjunct2 [OF conjunct2 [OF conjunct2 [OF u]]]]] by simp
  have "t_hasMarkedRead (fst (effect_save p (t_currentPage s) s2))" by (use u in \<open>elim conjE\<close>)
  then show "t_hasMarkedRead (fst (run_effects number p s))" unfolding f by simp
  show "t_currentPage s = tp_pagesCount p" by (use u in \<open>elim conjE\<close>)
  show "tp_pagesCount p \<noteq> 0" by (use u in \<open>elim conjE\<close>)
  show "u = \<lparr>pu_mangaId = the (tp_mangaId p), pu_chapterId = tp_chapterId p, pu_providerId = tp_providerId p,
      pu_is_read = Some True, pu_last_read_page = Some (tp_pagesCount p)\<rparr>"
    by (use u in \<open>elim conjE\<close>)
qed

lemma no_update_filter: "\<forall>u. Update u \<notin> set os \<Longrightarrow> filter (\<lambda>x. \<exists>v. x = Update v) os = []"
  by (auto simp: filter_empty_conv)

lemma run_effects_resumed:
  assumes "t_activeChapter s = Some (tp_chapterId p)" "t_hasResumed s" "t_currentPage s \<noteq> tp_pagesCount p"
  shows "Update u \<notin> set (snd (run_effects number p s))"
  using assms run_effects_updates(1) by blast

lemma page_resumed:
  assumes "t_activeChapter s = Some (tp_chapterId p)" "t_hasResumed s"
  shows "t_currentPage (fst (run_effects number p s)) = t_currentPage s"
proof -
  have r: "effect_reset p t = t" "fst (effect_resume number p t) = t"
    if "t_activeChapter t = Some (tp_chapterId p)" "t_hasResumed t" for t
    using that by (simp_all add: marked_reset effect_resume_def)
  show ?thesis using assms by (simp add: run_effects_unfold Let_def r)
qed

text \<open>
  C7: A commit marks the shown chapter as read at most once, with its last page as the last
  page read and for the manga, chapter and provider on screen, and never for a chapter
  without pages; once a chapter is marked, no later commit marks it again while it stays
  open; and while the reader is on any page of a resumed chapter but the last, nothing is
  marked.
\<close>

theorem auto_mark_read:
  fixes p :: tracker_props and u :: progress_update
  assumes "tracker_reach number s os0"
  defines "r \<equiv> commit number p s"
  shows "(Update u \<in> set (snd r) \<longrightarrow>
      u = \<lparr>pu_mangaId = the (tp_mangaId p), pu_chapterId = tp_chapterId p, pu_providerId = tp_providerId p,
        pu_is_read = Some True, pu_last_read_page = Some (tp_pagesCount p)\<rparr> \<and>
      tp_pagesCount p \<noteq> 0 \<and> t_hasMarkedRead (fst r)) \<and>
    (length (filter (\<lambda>x. \<exists>v. x = Update v) (snd r)) \<le> 1) \<and>
    (t_activeChapter s = Some (tp_chapterId p) \<longrightarrow> t_hasMarkedRead s \<longrightarrow>
      Update u \<notin> set (snd r) \<and> t_hasMarkedRead (fst r)) \<and>
    (t_activeChapter s = Some (tp_chapterId p) \<longrightarrow> t_hasResumed s \<longrightarrow> t_currentPage s \<noteq> tp_pagesCount p \<longrightarrow>
      Update u \<notin> set (snd r))"
proof (rule conjI4; (intro impI)?)
  let ?r1 = "run_effects number p s"
  let ?r2 = "run_effects number p (fst ?r1)"
  have act: "t_activeChapter (fst ?r1) = Some (tp_chapterId p)"
    using active_run_effects active_reach [OF assms(1)] by (simp add: active_inv_def)
  have rr: "r = ?r1 \<or> r = (fst ?r2, snd ?r1 @ snd ?r2)"
    unfolding r_def commit_unfold Let_def by simp
  have keep: "Update v \<notin> set (snd ?r2) \<and> t_hasMarkedRead (fst ?r2)" if "t_hasMarkedRead (fst ?r1)" for v
    using run_effects_marked [OF act that] by blast
  show "u = \<lparr>pu_mangaId = the (tp_mangaId p), pu_chapterId = tp_chapterId p, pu_providerId = tp_providerId p,
        pu_is_read = Some True, pu_last_read_page = Some (tp_pagesCount p)\<rparr> \<and>
      tp_pagesCount p \<noteq> 0 \<and> t_hasMarkedRead (fst r)" if "Update u \<in> set (snd r)"
    using rr that keep run_effects_updates(2,3,5) by fastforce
  show "length (filter (\<lambda>x. \<exists>v. x = Update v) (snd r)) \<le> 1"
  proof -
    have le: "length (filter (\<lambda>x. \<exists>v. x = Update v) (snd (run_effects number p t))) \<le> 1" for t
    proof (cases "\<exists>v. Update v \<in> set (snd (run_effects number p t))")
      case True
      then obtain v where "Update v \<in> set (snd (run_effects number p t))" by blast
      from run_effects_updates(4) [OF this] show ?thesis by simp
    qed (simp add: no_update_filter)
    show ?thesis
    proof (cases "\<exists>v. Update v \<in> set (snd ?r1)")
      case True
      then have "t_hasMarkedRead (fst ?r1)" using run_effects_updates(3) by blast
      then have "filter (\<lambda>x. \<exists>v. x = Update v) (snd ?r2) = []" using keep by (intro no_update_filter) blast
      then show ?thesis using rr le [of s] by auto
    next
      case False
      then have "filter (\<lambda>x. \<exists>v. x = Update v) (snd ?r1) = []" by (intro no_update_filter) blast
      then show ?thesis using rr le [of "fst ?r1"] by auto
    qed
  qed
  show "Update u \<notin> set (snd r) \<and> t_hasMarkedRead (fst r)"
    if "t_activeChapter s = Some (tp_chapterId p)" "t_hasMarkedRead s"
    using rr run_effects_marked [OF that] keep by auto
  show "Update u \<notin> set (snd r)"
    if "t_activeChapter s = Some (tp_chapterId p)" "t_hasResumed s" "t_currentPage s \<noteq> tp_pagesCount p"
    using run_effects_resumed [OF that] page_resumed [OF that(1,2)] unfolding r_def commit_unfold Let_def by simp
qed

theorem auto_mark_read_witness:
  "length (filter (\<lambda>x. \<exists>v. x = Update v) (snd (commit (\<lambda>s. None) (sample_props ''a'' 1 0 0) initial_tracker))) \<le> 1"
  using auto_mark_read [OF tracker_reach.start] by blast

section \<open>Resuming\<close>

lemma resume_page_bounds: "1 \<le> tp_pagesCount p \<Longrightarrow> 1 \<le> resume_page number p \<and> resume_page number p \<le> tp_pagesCount p"
  by (auto simp: resume_page_def split: option.split)

lemma run_effects_new_chapter:
  assumes "active_inv s" "t_activeChapter s \<noteq> Some (tp_chapterId p)" "tp_chapterId p \<noteq> []" "tp_pagesCount p \<noteq> 0"
  shows "t_currentPage (fst (run_effects number p s)) = resume_page number p"
    and "t_hasResumed (fst (run_effects number p s))"
proof -
  let ?pg = "t_currentPage s"
  have ch: "changed (\<lambda>(q, _). reset_deps q) s p ?pg" "changed (\<lambda>(q, _). resume_deps q) s p ?pg"
    using assms(1,2) by (auto simp: active_inv_def changed_def reset_deps_def resume_deps_def split: option.splits)
  have "t_hasResumed (effect_reset p t) = False" if "t_activeChapter t \<noteq> Some (tp_chapterId p)" for t
    using that by (simp add: effect_reset_def)
  then have res: "t_currentPage (fst (effect_resume number p (effect_reset p t))) = resume_page number p \<and>
      t_hasResumed (fst (effect_resume number p (effect_reset p t)))"
    if "t_activeChapter t = t_activeChapter s" for t
    using that assms(2-4) by (simp add: effect_resume_def Let_def)
  show "t_currentPage (fst (run_effects number p s)) = resume_page number p"
    "t_hasResumed (fst (run_effects number p s))"
    using ch by (simp_all add: run_effects_unfold Let_def res)
qed

lemma opens_on_resume_page:
  assumes "tracker_reach number s os" "t_activeChapter s \<noteq> Some (tp_chapterId p)"
    and "tp_chapterId p \<noteq> []" "1 \<le> tp_pagesCount p"
  shows "t_currentPage (fst (commit number p s)) = resume_page number p"
proof -
  let ?s1 = "fst (run_effects number p s)"
  have act: "active_inv s" by (rule active_reach [OF assms(1)])
  have n: "tp_pagesCount p \<noteq> 0" using assms(4) by simp
  note r = run_effects_new_chapter [OF act assms(2,3) n, of number]
  have act1: "t_activeChapter ?s1 = Some (tp_chapterId p)"
    using act active_run_effects by (simp add: active_inv_def)
  show ?thesis using r(1) page_resumed [OF act1 r(2), of number] by (simp add: commit_unfold Let_def)
qed

text \<open>
  Opening a chapter whose pages are known puts the reader, in the same commit, on a page
  of that chapter: the last one when coming back from the next chapter, the one asked for in
  the address (clamped to the chapter), else the saved page of an unread chapter, else the
  first. From then on the saved position no longer moves the reader.
\<close>

theorem open_chapter_resumes:
  assumes "tracker_reach number s os" "t_activeChapter s \<noteq> Some (tp_chapterId p)"
    and "tp_chapterId p \<noteq> []" "1 \<le> tp_pagesCount p"
  shows "(t_currentPage (fst (commit number p s)) = resume_page number p) \<and>
    (1 \<le> resume_page number p \<and> resume_page number p \<le> tp_pagesCount p) \<and>
    (tp_chapterId q = tp_chapterId p \<longrightarrow>
      t_currentPage (fst (commit number q (fst (commit number p s)))) = resume_page number p)"
proof (rule conjI3; (intro impI)?)
  let ?s1 = "fst (run_effects number p s)" and ?c = "fst (commit number p s)"
  have act: "active_inv s" by (rule active_reach [OF assms(1)])
  have n: "tp_pagesCount p \<noteq> 0" using assms(4) by simp
  note r = run_effects_new_chapter [OF act assms(2,3) n, of number]
  have act1: "t_activeChapter ?s1 = Some (tp_chapterId p)"
    using act active_run_effects by (simp add: active_inv_def)
  have page: "t_currentPage ?c = resume_page number p" by (rule opens_on_resume_page [OF assms])
  then show "t_currentPage ?c = resume_page number p" .
  show "1 \<le> resume_page number p \<and> resume_page number p \<le> tp_pagesCount p"
    by (rule resume_page_bounds [OF assms(4)])
  assume q: "tp_chapterId q = tp_chapterId p"
  have keep: "t_hasResumed (fst (run_effects number p' t))"
    if "t_activeChapter t = Some (tp_chapterId p')" "t_hasResumed t" for p' t
    using that by (simp add: run_effects_unfold Let_def effect_reset_def effect_resume_def)
  have res: "t_hasResumed ?c" using r(2) keep [OF act1 r(2)] by (simp add: commit_unfold Let_def)
  have "t_activeChapter ?c = Some (tp_chapterId q)" using active_commit [OF act, of number p] q by simp
  from page_resumed [OF this res, of number] show "t_currentPage (fst (commit number q ?c)) = resume_page number p"
    using page by (simp add: commit_unfold Let_def)
qed

theorem open_chapter_resumes_witness:
  "t_currentPage (fst (commit (\<lambda>s. None) (sample_props ''a'' 20 7 0) initial_tracker)) =
    resume_page (\<lambda>s. None) (sample_props ''a'' 20 7 0)"
  by (rule conjunct1 [OF open_chapter_resumes [OF tracker_reach.start]]) (simp_all add: sample_props_def initial_tracker_def)

section \<open>What the order of the effects and of the data lets through\<close>

text \<open>
  Two schedules in which the tracker reports a wrong position. (1) Leaving chapter \<open>a\<close> on
  its last page for the cached chapter \<open>b\<close> with as many pages marks \<open>b\<close> as read on opening,
  although the reader then shows its first page: the save effect still sees the page of the
  rendering before the reset. (2) When the pages arrive before the chapter list, the saved
  page 7 is not yet known: the reader opens page 1, does not move when the list brings the
  saved page, and the pending save overwrites page 7 with page 1.
\<close>

theorem stale_position_schedules:
  shows "(let number = \<lambda>_. None;
           at_end = fst (commit number (sample_props ''a'' 2 2 0) initial_tracker);
           r = commit number (sample_props ''b'' 2 0 1) at_end
         in t_currentPage at_end = 2 \<and> t_currentPage (fst r) = 1 \<and> \<not> tp_isChapterRead (sample_props ''b'' 2 0 1) \<and>
           snd r = [Update \<lparr>pu_mangaId = ''m1'', pu_chapterId = ''b'', pu_providerId = None,
                      pu_is_read = Some True, pu_last_read_page = Some 2\<rparr>]) \<and>
    (let number = \<lambda>_. None;
           pages_first = fst (commit number (sample_props ''a'' 20 0 0) initial_tracker);
           s = fst (commit number (sample_props ''a'' 20 7 1) pages_first)
         in t_currentPage s = 1 \<and>
           map snd (t_timers s) = [\<lparr>pu_mangaId = ''m1'', pu_chapterId = ''a'', pu_providerId = None,
                                    pu_is_read = None, pu_last_read_page = Some 1\<rparr>])"
  by (rule conjI; code_simp)

end
