(* ===== verification/Toasts.thy ===== *)
theory Toasts
  imports Json
begin

text \<open>
  \<open>context/ToastContext.tsx\<close>: the list of toasts, \<open>showToast\<close> with its default arguments and the timer
  that removes the toast, and the detail text the mutation hooks make of an error. The random id
  of a toast is a parameter. \<open>JSON.stringify(details, null, 2)\<close> is a parameter too.
\<close>

datatype toast_type = Toast_Info | Toast_Error | Toast_Success

datatype toast_mode = Toast_Default | Toast_Subtle

record toast =
  t_id :: string
  t_message :: string
  t_type :: toast_type
  t_details :: "string option"
  t_mode :: toast_mode
  t_action :: "string option"

record toast_state =
  ts_toasts :: "toast list"
  ts_timers :: "(string \<times> rat) list"

definition no_toasts :: toast_state where
  "no_toasts = \<lparr>ts_toasts = [], ts_timers = []\<rparr>"

definition removeToast :: "string \<Rightarrow> toast_state \<Rightarrow> toast_state" where
  "removeToast i s = s\<lparr>ts_toasts := filter (\<lambda>t. t_id t \<noteq> i) (ts_toasts s)\<rparr>"

text \<open>\<open>t_action\<close> is the label of the action. The timer is the id with the delay in milliseconds.\<close>

definition showToast ::
    "string \<Rightarrow> string \<Rightarrow> toast_type option \<Rightarrow> string option \<Rightarrow> toast_mode option \<Rightarrow> string option \<Rightarrow> rat option \<Rightarrow>
     toast_state \<Rightarrow> toast_state" where
  "showToast i message ty details mode action durationMs s =
     s\<lparr>ts_toasts := ts_toasts s @
         [\<lparr>t_id = i, t_message = message, t_type = coalesce_or [ty] Toast_Info, t_details = details,
           t_mode = coalesce_or [mode] Toast_Default, t_action = action\<rparr>],
       ts_timers := ts_timers s @ [(i, coalesce_or [durationMs] (if action \<noteq> None then 10000 else 3200))]\<rparr>"

text \<open>A timer that has run out.\<close>

definition toast_timer :: "string \<times> rat \<Rightarrow> toast_state \<Rightarrow> toast_state" where
  "toast_timer t s = removeToast (fst t) (s\<lparr>ts_timers := remove1 t (ts_timers s)\<rparr>)"

section \<open>Errors shown by the mutations\<close>

text \<open>The fields of a thrown value that the handlers look at, and \<open>String(err)\<close>.\<close>

record shown_error =
  se_message :: "string option"
  se_details :: json
  se_stack :: "string option"
  se_string :: string

definition error_detail :: "(json \<Rightarrow> string) \<Rightarrow> shown_error \<Rightarrow> string" where
  "error_detail stringify e =
     (if truthy (se_details e)
      then (case se_details e of JStr s \<Rightarrow> s | d \<Rightarrow> stringify d)
      else str_or [se_stack e] (se_string e))"

text \<open>\<open>`${label}: ${err.message || 'An error occurred'}`\<close>, an error toast with that detail.\<close>

type_synonym notice = "string \<times> toast_type \<times> string option"

definition failure_notice :: "(json \<Rightarrow> string) \<Rightarrow> string \<Rightarrow> shown_error \<Rightarrow> notice" where
  "failure_notice stringify label e =
     (label @ '': '' @ str_or [se_message e] ''An error occurred'', Toast_Error, Some (error_detail stringify e))"

definition success_notice :: "string \<Rightarrow> notice" where
  "success_notice message = (message, Toast_Success, None)"

section \<open>Every toast goes away\<close>

text \<open>Each toast on the screen has a timer that will remove it.\<close>

definition toasts_timed :: "toast_state \<Rightarrow> bool" where
  "toasts_timed s = list_all (\<lambda>t. t_id t \<in> fst ` set (ts_timers s)) (ts_toasts s)"

datatype toast_event =
    Show_Toast string string "toast_type option" "string option" "toast_mode option" "string option" "rat option"
  | Dismiss_Toast string
  | Toast_Timer "string \<times> rat"

definition toast_step :: "toast_state \<Rightarrow> toast_event \<Rightarrow> toast_state" where
  "toast_step s e =
     (case e of
        Show_Toast i message ty details mode action d \<Rightarrow> showToast i message ty details mode action d s
      | Dismiss_Toast i \<Rightarrow> removeToast i s
      | Toast_Timer t \<Rightarrow> if t \<in> set (ts_timers s) then toast_timer t s else s)"

lemma toasts_timed_show: "toasts_timed s \<Longrightarrow> toasts_timed (showToast i m ty d mode a n s)"
  by (auto simp: toasts_timed_def showToast_def list_all_iff)

lemma toasts_timed_remove: "toasts_timed s \<Longrightarrow> toasts_timed (removeToast i s)"
  by (auto simp: toasts_timed_def removeToast_def list_all_iff)

lemma toasts_timed_timer: "toasts_timed s \<Longrightarrow> toasts_timed (toast_timer t s)"
proof -
  assume a: "toasts_timed s"
  have "x \<in> fst ` set (remove1 t (ts_timers s))" if "x \<in> fst ` set (ts_timers s)" "x \<noteq> fst t" for x
  proof -
    from that(1) obtain u where u: "u \<in> set (ts_timers s)" "x = fst u" by auto
    with that(2) have "u \<in> set (remove1 t (ts_timers s))" by (cases "u = t") auto
    with u(2) show ?thesis by simp
  qed
  with a show ?thesis
    by (auto simp: toasts_timed_def toast_timer_def removeToast_def list_all_iff)
qed

interpretation toasts: machine toast_step no_toasts toasts_timed
proof
  show "toasts_timed no_toasts" by (simp add: toasts_timed_def no_toasts_def)
  show "toasts_timed s \<Longrightarrow> toasts_timed (toast_step s e)" for s e
    by (simp add: toast_step_def toasts_timed_show toasts_timed_remove toasts_timed_timer split: toast_event.split)
qed

lemma toast_step_timer:
  "toast_step s (Toast_Timer t) = (if t \<in> set (ts_timers s) then toast_timer t s else s)"
  by (simp add: toast_step_def)

lemma toast_timers_remove:
  "set ts \<subseteq> set (ts_timers s) \<Longrightarrow> distinct ts \<Longrightarrow>
     fst ` set ts \<inter> t_id ` set (ts_toasts (run_events toast_step s (map Toast_Timer ts))) = {}"
proof (induction ts arbitrary: s)
  case (Cons t ts)
  let ?s = "toast_timer t s"
  have ts: "set ts \<subseteq> set (ts_timers ?s)"
  proof
    fix u assume "u \<in> set ts"
    with Cons.prems have "u \<in> set (ts_timers s)" "u \<noteq> t" by auto
    then show "u \<in> set (ts_timers ?s)" by (simp add: toast_timer_def removeToast_def)
  qed
  have gone: "fst t \<notin> t_id ` set (ts_toasts (run_events toast_step u (map Toast_Timer us)))"
    if "fst t \<notin> t_id ` set (ts_toasts u)" for u us
    using that
  proof (induction us arbitrary: u)
    case (Cons v us)
    have "fst t \<notin> t_id ` set (ts_toasts (toast_step u (Toast_Timer v)))"
      using Cons.prems by (auto simp: toast_step_def toast_timer_def removeToast_def)
    from Cons.IH [OF this] show ?case by simp
  qed simp
  have "fst t \<notin> t_id ` set (ts_toasts ?s)"
    by (auto simp: toast_timer_def removeToast_def)
  from gone [OF this, of ts] Cons.IH [OF ts] Cons.prems show ?case
    by (simp add: toast_step_timer)
qed simp

text \<open>
  After any sequence of toasts shown, dismissed and timed out, each pending timer that runs out
  (in any order, different timers) has removed its toasts; once all have, no toast is left.
\<close>

theorem toasts_go_away:
  fixes es :: "toast_event list"
  assumes "set ts = set (ts_timers (run_events toast_step no_toasts es))" "distinct ts"
  shows "ts_toasts (run_events toast_step (run_events toast_step no_toasts es) (map Toast_Timer ts)) = []"
proof -
  let ?s = "run_events toast_step no_toasts es"
  let ?e = "run_events toast_step ?s (map Toast_Timer ts)"
  have sub: "t_id ` set (ts_toasts (run_events toast_step u (map Toast_Timer us))) \<subseteq> t_id ` set (ts_toasts u)" for u us
  proof (induction us arbitrary: u)
    case (Cons v us)
    have "t_id ` set (ts_toasts (toast_step u (Toast_Timer v))) \<subseteq> t_id ` set (ts_toasts u)"
      by (auto simp: toast_step_def toast_timer_def removeToast_def)
    from subset_trans [OF Cons.IH this] show ?case by simp
  qed simp
  have timed: "t_id ` set (ts_toasts ?s) \<subseteq> fst ` set ts"
    using toasts.inv_run [of es] unfolding assms(1) toasts_timed_def list_all_iff by blast
  have gone: "fst ` set ts \<inter> t_id ` set (ts_toasts ?e) = {}"
    by (rule toast_timers_remove) (simp_all add: assms)
  have "X \<subseteq> Y \<Longrightarrow> Y \<inter> X = {} \<Longrightarrow> X = {}" for X Y :: "string set"
    by blast
  from this [OF subset_trans [OF sub timed] gone] have "t_id ` set (ts_toasts ?e) = {}" .
  then show ?thesis by simp
qed

text \<open>\<open>toasts_go_away\<close> for two toasts, the second with an action.\<close>

theorem toasts_go_away_witness:
  "ts_toasts (run_events toast_step
     (run_events toast_step no_toasts
       [Show_Toast ''a'' ''m'' None None None None None, Show_Toast ''b'' ''n'' None None None (Some ''Undo'') None])
     (map Toast_Timer [(''b'', 10000), (''a'', 3200)])) = []"
  by (rule toasts_go_away) (auto simp: toast_step_def showToast_def no_toasts_def)

end
