(* ===== verification/Reader_Page.thy ===== *)
theory Reader_Page
  imports Reader_Navigation Reader_Progress Api_Hooks Lib_Utils Toasts
begin

text \<open>
  The rest of \<open>routes/ReaderPage.tsx\<close>: the queries of the reader, the request behind a progress report,
  the chapter toast, the document title, the preloaded images and the change of the reading mode; and how
  the navigation, the progress tracker and the requests work together.
\<close>

section \<open>Queries\<close>

record reader_queries =
  rq_localManga :: query_opts
  rq_remoteManga :: query_opts
  rq_localPages :: query_opts
  rq_remotePages :: query_opts
  rq_localChapters :: query_opts
  rq_remoteChapters :: query_opts

definition reader_queries_of :: "reader_route \<Rightarrow> manga list \<Rightarrow> reader_queries" where
  "reader_queries_of r library =
     (let eff = effectiveMangaId r library; ch = route_chapterId r; pid = route_providerId r; rid = rr_remoteId r;
          local_on = truthy_str eff; remote_on = (\<not> truthy_str eff \<and> truthy_str pid \<and> truthy_str rid);
          m = str_or [eff] []; p = str_or [pid] []; q = str_or [rid] []
      in \<lparr>rq_localManga = useMangaDetails m (Some local_on),
          rq_remoteManga = useProviderMangaDetails p q (Some remote_on),
          rq_localPages = useChapterPages m (Inl ch) (Some (ch \<noteq> [] \<and> local_on)),
          rq_remotePages = useProviderChapterPages p q ch (Some (remote_on \<and> ch \<noteq> [])),
          rq_localChapters = useChapterList m None (Some local_on),
          rq_remoteChapters = useProviderChapterList p q (Some remote_on)\<rparr>)"

section \<open>Progress reports\<close>

text \<open>\<open>onUpdateProgress\<close>: the provider id of the report is not passed on.\<close>

definition progress_mutation :: "progress_update \<Rightarrow> mutation" where
  "progress_mutation u =
     useUpdateChapterProgressMutation (pu_mangaId u) (pu_chapterId u)
       \<lparr>pi_isRead = pu_is_read u, pi_lastReadPage = pu_last_read_page u, pi_is_read = None, pi_last_read_page = None,
        pi_progress = None\<rparr> None"

section \<open>Toast, title, images, reading mode\<close>

definition template_num :: "rat option \<Rightarrow> string" where
  "template_num n = (case n of None \<Rightarrow> ''undefined'' | Some q \<Rightarrow> num_str q)"

text \<open>The toast effect: its message, when the chapter is known and is not the one announced last.\<close>

definition chapter_toast :: "string \<Rightarrow> manga_chapter option \<Rightarrow> string option \<Rightarrow> string option" where
  "chapter_toast chapterId current announced =
     (case current of
        None \<Rightarrow> None
      | Some c \<Rightarrow>
          if chapterId = [] \<or> announced = Some chapterId then None
          else
            let chNum = coalesce [Option.bind (c_meta c) cm_number, c_number c];
                chTitle = coalesce [Option.bind (c_meta c) cm_title, c_title c]
            in Some (if truthy_str chTitle then ''Chapter '' @ template_num chNum @ '': '' @ the chTitle
                     else ''Chapter '' @ template_num chNum))"

definition document_title :: "manga option \<Rightarrow> manga_chapter option \<Rightarrow> rat \<Rightarrow> nat \<Rightarrow> string option" where
  "document_title m current currentPage pagesCount =
     (if truthy_str (Option.bind m m_title) \<or> current \<noteq> None then
        let rawChTitle = str_or [Option.bind current c_title, Option.bind current c_name] ''Chapter View'';
            chNum = coalesce [Option.bind current c_number, Option.bind (Option.bind current c_meta) cm_number];
            formattedCh =
              formatChapterTitleWithPage (Some rawChTitle) (Some currentPage) (Some (of_nat pagesCount)) chNum;
            mTitle = str_or [Option.bind m m_title] ''Kiyomi''
        in Some (mTitle @ '' - '' @ formattedCh)
      else None)"

text \<open>The images loaded ahead, as indices of pages; an index that is no number of a page loads nothing.\<close>

definition preload :: "bool \<Rightarrow> page list \<Rightarrow> rat \<Rightarrow> page option list" where
  "preload paged pages currentPage =
     (if \<not> paged \<or> pages = [] then []
      else
        (if currentPage < of_nat (length pages) then [js_at pages currentPage] else []) @
        (if currentPage + 1 < of_nat (length pages) then [js_at pages (currentPage + 1)] else []) @
        (if currentPage - 2 \<ge> 0 then [js_at pages (currentPage - 2)] else []))"

definition handleReadingModeChange :: "string option \<Rightarrow> string \<Rightarrow> mutation option" where
  "handleReadingModeChange effectiveId mode =
     (if truthy_str effectiveId then
        Some (useUpdateLibraryMangaMutation (the effectiveId)
          [(''reading_mode'', JStr mode), (''readingDirection'', JStr mode),
           (''content'', JObj [(''reading_mode'', JStr mode)])])
      else None)"

section \<open>One source of data\<close>

lemma set_enabled_sel [simp]: "qo_enabled (set_enabled (Some b) q) = b"
  by (simp add: set_enabled_def)

text \<open>
  The reader reads from one source. The queries for a library manga and those for a provider's manga
  are never enabled together; a library manga's are enabled exactly when its id is known, from the route
  or because the provider's manga is in the library; the manga shown is the answer of an enabled query or
  nothing is enabled at all; and pages are asked for only with a chapter id.
\<close>

theorem reader_one_source:
  "(qo_enabled (rq_localManga (reader_queries_of r library)) \<longleftrightarrow> truthy_str (effectiveMangaId r library)) \<and>
   (qo_enabled (rq_remoteManga (reader_queries_of r library)) \<longrightarrow>
      \<not> qo_enabled (rq_localManga (reader_queries_of r library)) \<and>
      \<not> qo_enabled (rq_localPages (reader_queries_of r library)) \<and>
      \<not> qo_enabled (rq_localChapters (reader_queries_of r library)) \<and>
      shown_manga_of r library l m = m) \<and>
   (qo_enabled (rq_localManga (reader_queries_of r library)) \<longrightarrow>
      \<not> qo_enabled (rq_remoteManga (reader_queries_of r library)) \<and>
      \<not> qo_enabled (rq_remotePages (reader_queries_of r library)) \<and>
      \<not> qo_enabled (rq_remoteChapters (reader_queries_of r library)) \<and>
      shown_manga_of r library l m = l) \<and>
   (qo_enabled (rq_localPages (reader_queries_of r library)) \<or> qo_enabled (rq_remotePages (reader_queries_of r library)) \<longrightarrow>
      route_chapterId r \<noteq> []) \<and>
   (truthy_str (route_mangaId r) \<longrightarrow> effectiveMangaId r library = route_mangaId r)"
  by (simp add: reader_queries_of_def Let_def useMangaDetails_def useProviderMangaDetails_def useChapterPages_def
      useProviderChapterPages_def useChapterList_def useProviderChapterList_def shown_manga_of_def effectiveMangaId_def)

text \<open>\<open>reader_one_source\<close> for a chapter of a provider's manga that is not in the library.\<close>

theorem reader_one_source_witness:
  "let r = \<lparr>rr_chapterId = Some ''c'', rr_mangaId = None, rr_providerId = Some ''p'', rr_remoteId = Some ''x'',
           rr_searchMangaId = None\<rparr>
   in \<not> qo_enabled (rq_localManga (reader_queries_of r []))"
  using reader_one_source [of "\<lparr>rr_chapterId = Some ''c'', rr_mangaId = None, rr_providerId = Some ''p'',
      rr_remoteId = Some ''x'', rr_searchMangaId = None\<rparr>" "[]" None None]
  by (simp add: Let_def reader_queries_of_def useMangaDetails_def useProviderMangaDetails_def effectiveMangaId_def
      route_mangaId_def library_entry_def route_providerId_def)

section \<open>Navigation and progress together\<close>

text \<open>Setting the page of a rendered, resumed reader runs the save effect alone, for the new page.\<close>

lemma set_page_saves:
  assumes prev: "t_prev s = Some (p, pg)" and new: "pg = t_currentPage s" "q \<noteq> pg"
    and ready: "truthy_str (tp_mangaId p)" "tp_chapterId p \<noteq> []" "tp_pagesCount p \<noteq> 0" "t_hasResumed s"
    and other: "q \<noteq> tp_pagesCount p"
  shows "\<exists>i. (i, \<lparr>pu_mangaId = the (tp_mangaId p), pu_chapterId = tp_chapterId p, pu_providerId = tp_providerId p,
      pu_is_read = None, pu_last_read_page = Some q\<rparr>) \<in> set (t_timers (fst (commit number p (s\<lparr>t_currentPage := q\<rparr>))))"
proof -
  let ?s = "s\<lparr>t_currentPage := q\<rparr>"
  have save: "changed (\<lambda>(q, r). save_deps q r) ?s p q"
    using prev new by (simp add: changed_def save_deps_def)
  let ?base = "(if t_cleanup ?s then clear_save ?s else ?s)\<lparr>t_cleanup := False\<rparr>"
  have same: "\<not> changed (\<lambda>(q, _). reset_deps q) ?s p q" "\<not> changed (\<lambda>(q, _). resume_deps q) ?s p q"
    using prev by (simp_all add: changed_def)
  have page_q: "t_currentPage ?s = q" by simp
  have run: "fst (run_effects number p ?s) = (fst (effect_save p q ?base))\<lparr>t_prev := Some (p, q)\<rparr>"
    by (simp only: run_effects_unfold Let_def save same page_q if_True if_False fst_conv)
  have "t_currentPage ?base = q" by simp
  then have page: "t_currentPage (fst (run_effects number p ?s)) = q" using run by simp
  have "commit number p ?s = run_effects number p ?s" unfolding commit_unfold Let_def using page by simp
  moreover have "t_hasResumed ?base" using ready by simp
  ultimately show ?thesis using run ready other by (auto simp: effect_save_def Let_def)
qed

text \<open>
  The page past the end is saved. When a jump during a page turn has left the reader on page \<open>n + 1\<close> of a
  chapter of \<open>n\<close> pages, the progress tracker schedules a save of that page, and the request it
  sends stores \<open>last_read_page = n + 1\<close>; the chapter is not marked as read by it.
\<close>

theorem page_past_end_is_saved:
  fixes s :: reader and o' :: reader_opts and t :: tracker
  assumes "reader_timers_ok s" "\<not> g_isAnimating (rd_gesture s)" "2 \<le> ro_pages o'" "rd_page s = ro_total o' - 1"
    and "t_prev t = Some (p, pg)" "pg = t_currentPage t" "pg \<noteq> ro_total o' + 1" "truthy_str (tp_mangaId p)"
    and "tp_chapterId p \<noteq> []" "tp_pagesCount p = ro_total o'" "t_hasResumed t"
  shows "\<exists>q i u. q = ro_total o' + 1 \<and>
    q = rd_page (run_events (reader_next o') s
          [Key (plain_key ''PageDown''), Key (plain_key ''End''), Nav_Timer (rd_nextTimer s)]) \<and>
    (i, u) \<in> set (t_timers (fst (commit number p (t\<lparr>t_currentPage := q\<rparr>)))) \<and>
    pu_last_read_page u = Some (ro_total o' + 1) \<and>
    rq_body (mu_request (progress_mutation u)) = Some (JObj [(''last_read_page'', JNum (ro_total o' + 1))])"
proof -
  let ?q = "ro_total o' + 1"
  have page: "rd_page (run_events (reader_next o') s
      [Key (plain_key ''PageDown''), Key (plain_key ''End''), Nav_Timer (rd_nextTimer s)]) = ?q"
    by (rule end_during_turn [OF assms(1,2,4)])
  have pos: "tp_pagesCount p \<noteq> 0" using assms(3,10) by (simp add: ro_total_def)
  obtain i where "(i, \<lparr>pu_mangaId = the (tp_mangaId p), pu_chapterId = tp_chapterId p, pu_providerId = tp_providerId p,
      pu_is_read = None, pu_last_read_page = Some ?q\<rparr>) \<in> set (t_timers (fst (commit number p (t\<lparr>t_currentPage := ?q\<rparr>))))"
    using set_page_saves [OF assms(5,6) _ assms(8,9) pos assms(11), of ?q number] assms(7,10) by auto
  moreover have "rq_body (mu_request (progress_mutation
      \<lparr>pu_mangaId = the (tp_mangaId p), pu_chapterId = tp_chapterId p, pu_providerId = tp_providerId p,
       pu_is_read = None, pu_last_read_page = Some ?q\<rparr>)) = Some (JObj [(''last_read_page'', JNum ?q)])"
    by (simp add: progress_mutation_def useUpdateChapterProgressMutation_def api_updateChapterProgress_def
        json_req_def progress_json_def progress_payload_def json_of_opt_def)
  ultimately show ?thesis
    unfolding page
    by (intro exI [of _ ?q] exI [of _ i] exI [of _ "\<lparr>pu_mangaId = the (tp_mangaId p), pu_chapterId = tp_chapterId p,
        pu_providerId = tp_providerId p, pu_is_read = None, pu_last_read_page = Some ?q\<rparr>"]) simp
qed

text \<open>\<open>page_past_end_is_saved\<close> on the first of two pages, in a reader that has just been opened.\<close>

theorem page_past_end_is_saved_witness:
  "let t = fst (commit (\<lambda>s. None) (sample_props ''a'' 2 0 0) initial_tracker) in
   \<exists>i u. (i, u) \<in> set (t_timers (fst (commit (\<lambda>s. None) (sample_props ''a'' 2 0 0) (t\<lparr>t_currentPage := 3\<rparr>)))) \<and>
     pu_last_read_page u = Some 3"
proof -
  let ?p = "sample_props ''a'' 2 0 0" and ?t = "fst (commit (\<lambda>s. None) (sample_props ''a'' 2 0 0) initial_tracker)"
  have t: "t_prev ?t = Some (?p, 1) \<and> t_currentPage ?t = 1 \<and> t_hasResumed ?t" by code_simp
  have "reader_timers_ok (initial_reader 1)" "\<not> g_isAnimating (rd_gesture (initial_reader 1))"
    "2 \<le> ro_pages (sample_reader_opts 2)" "rd_page (initial_reader 1) = ro_total (sample_reader_opts 2) - 1"
    by (simp_all add: reader_timers_ok_def timers_ok_def initial_reader_def initial_gesture_def sample_reader_opts_def
        ro_total_def)
  from page_past_end_is_saved [OF this, of ?t ?p 1 "\<lambda>s. None"] t
  obtain i u where "(i, u) \<in> set (t_timers (fst (commit (\<lambda>s. None) ?p (?t\<lparr>t_currentPage := 3\<rparr>))))"
    "pu_last_read_page u = Some 3"
    by (auto simp: sample_reader_opts_def sample_props_def ro_total_def)
  then show ?thesis unfolding Let_def by blast
qed

end
