(* ===== verification/Reader_Hint.thy ===== *)
theory Reader_Hint
  imports Kiyomi_Prelude
begin

text \<open>
  The reading hint: the hook \<open>hooks/useReadingHint.ts\<close> with its dismiss timer, and the overlay
  \<open>components/ReaderHint.tsx\<close>, mounted while there is a hint, with a timer of its own. Then the stored fit
  mode (\<open>hooks/useReaderFitMode.ts\<close>) and its classes (\<open>components/reader/readerUtils.ts\<close>).
\<close>

section \<open>State\<close>

record reading_hint =
  rh_readingMode :: string
  rh_message :: string

datatype hint_timer = Hook_Timer | Card_Timer

text \<open>
  \<open>hs_ref\<close> is \<open>dismissTimerRef\<close>, \<open>hs_cleanup\<close> says that the last run of the effect returned a cleanup, and
  \<open>hs_card\<close> is the timer of the mounted overlay. The storage is that of the browser session.
\<close>

record hint_state =
  hs_hint :: "reading_hint option"
  hs_ref :: "nat option"
  hs_prevMode :: "string option"
  hs_deps :: "(string option \<times> string) option"
  hs_cleanup :: bool
  hs_card :: "nat option"
  hs_timers :: "(nat \<times> hint_timer) list"
  hs_nextTimer :: nat
  hs_storage :: "string \<Rightarrow> string option"

definition no_hint :: "(string \<Rightarrow> string option) \<Rightarrow> hint_state" where
  "no_hint storage =
     \<lparr>hs_hint = None, hs_ref = None, hs_prevMode = None, hs_deps = None, hs_cleanup = False, hs_card = None,
      hs_timers = [], hs_nextTimer = 0, hs_storage = storage\<rparr>"

definition hint_key :: "string \<Rightarrow> string \<Rightarrow> string" where
  "hint_key mangaId mode = ''kiyomi_reading_hint_'' @ mangaId @ ''_'' @ mode"

section \<open>The hook\<close>

definition clear_hint_timer :: "nat option \<Rightarrow> hint_state \<Rightarrow> hint_state" where
  "clear_hint_timer r s =
     (case r of None \<Rightarrow> s | Some i \<Rightarrow> s\<lparr>hs_timers := filter (\<lambda>(j, _). j \<noteq> i) (hs_timers s)\<rparr>)"

definition dismissHint :: "hint_state \<Rightarrow> hint_state" where
  "dismissHint s = (clear_hint_timer (hs_ref s) s)\<lparr>hs_ref := None, hs_hint := None\<rparr>"

definition hint_message :: "string \<Rightarrow> string" where
  "hint_message readingMode =
     (if readingMode = ''rtl'' then ''Tap left/right to navigate''
      else if readingMode = ''ltr'' then ''Tap left/right to navigate''
      else if readingMode = ''vertical'' then ''Scroll to navigate''
      else if readingMode = ''longstrip'' then ''Scroll to navigate''
      else ''Tap left/right to navigate'')"

definition showHint :: "string \<Rightarrow> string option \<Rightarrow> hint_state \<Rightarrow> hint_state" where
  "showHint readingMode customMessage s =
     (let s1 = clear_hint_timer (hs_ref s) s; i = hs_nextTimer s1
      in s1\<lparr>hs_hint := Some \<lparr>rh_readingMode = readingMode,
               rh_message = str_or [customMessage] (hint_message readingMode)\<rparr>,
            hs_ref := Some i, hs_timers := hs_timers s1 @ [(i, Hook_Timer)], hs_nextTimer := i + 1\<rparr>)"

text \<open>The effect, for new dependencies; the cleanup of its last run comes first and leaves the ref as it is.\<close>

definition hint_effect :: "string option \<Rightarrow> string \<Rightarrow> hint_state \<Rightarrow> hint_state" where
  "hint_effect mangaId readingMode s =
     (if hs_deps s = Some (mangaId, readingMode) then s
      else
        let s1 = (if hs_cleanup s then clear_hint_timer (hs_ref s) s else s)
                   \<lparr>hs_deps := Some (mangaId, readingMode), hs_cleanup := False\<rparr>
        in if \<not> truthy_str mangaId \<or> readingMode = [] then s1
           else
             let key = hint_key (the mangaId) readingMode;
                 s2 = (if \<not> truthy_str (hs_storage s1 key) \<or> hs_prevMode s1 \<noteq> Some readingMode
                       then showHint readingMode None
                              (s1\<lparr>hs_storage := (hs_storage s1)(key \<mapsto> ''true''), hs_prevMode := Some readingMode\<rparr>)
                       else s1)
             in s2\<lparr>hs_cleanup := True\<rparr>)"

section \<open>The overlay\<close>

text \<open>
  The effect of the overlay depends on \<open>hint?.visible\<close> and the stable \<open>dismissHint\<close>: it sets its timer when the
  overlay appears and clears it when the overlay goes, and does not run when one hint replaces another.
\<close>

definition card_effect :: "hint_state \<Rightarrow> hint_state" where
  "card_effect s =
     (case (hs_hint s, hs_card s) of
        (Some h, None) \<Rightarrow>
          s\<lparr>hs_card := Some (hs_nextTimer s), hs_timers := hs_timers s @ [(hs_nextTimer s, Card_Timer)],
            hs_nextTimer := hs_nextTimer s + 1\<rparr>
      | (None, Some i) \<Rightarrow> (clear_hint_timer (Some i) s)\<lparr>hs_card := None\<rparr>
      | _ \<Rightarrow> s)"

text \<open>
  \<open>Hint_Render\<close> is a rendering with the manga and the mode, \<open>Hint_Show\<close> a call of the returned \<open>showHint\<close>
  and \<open>Hint_Click\<close> a click on the overlay or a change of the reading mode, which dismisses it.
\<close>

datatype hint_event =
    Hint_Render "string option" string
  | Hint_Show string "string option"
  | Hint_Click
  | Hint_Timer nat

definition fire_hint_timer :: "nat \<Rightarrow> hint_state \<Rightarrow> hint_state" where
  "fire_hint_timer i s =
     (case map_of (hs_timers s) i of
        None \<Rightarrow> s
      | Some k \<Rightarrow>
          let s1 = s\<lparr>hs_timers := filter (\<lambda>(j, _). j \<noteq> i) (hs_timers s)\<rparr>
          in (case k of Hook_Timer \<Rightarrow> s1\<lparr>hs_hint := None, hs_ref := None\<rparr> | Card_Timer \<Rightarrow> dismissHint s1))"

definition hint_step :: "hint_state \<Rightarrow> hint_event \<Rightarrow> hint_state" where
  "hint_step s e =
     card_effect
       (case e of
          Hint_Render m mode \<Rightarrow> hint_effect m mode s
        | Hint_Show mode msg \<Rightarrow> showHint mode msg s
        | Hint_Click \<Rightarrow> dismissHint s
        | Hint_Timer i \<Rightarrow> fire_hint_timer i s)"

section \<open>The fit mode\<close>

datatype fit_mode = Fit_Width | Fit_Height | Fit_Original

definition fit_mode_text :: "fit_mode \<Rightarrow> string" where
  "fit_mode_text m =
     (case m of Fit_Width \<Rightarrow> ''fit-width'' | Fit_Height \<Rightarrow> ''fit-height'' | Fit_Original \<Rightarrow> ''fit-original'')"

definition fit_storage_key :: string where
  "fit_storage_key = ''kiyomi_reader_fit_mode''"

text \<open>The local storage is \<open>None\<close> where there is no window.\<close>

definition getStoredFitMode :: "(string \<Rightarrow> string option) option \<Rightarrow> fit_mode" where
  "getStoredFitMode storage =
     (case storage of
        None \<Rightarrow> Fit_Height
      | Some st \<Rightarrow>
          if st fit_storage_key = Some ''fit-width'' then Fit_Width
          else if st fit_storage_key = Some ''fit-height'' then Fit_Height
          else if st fit_storage_key = Some ''fit-original'' then Fit_Original
          else Fit_Height)"

definition storeFitMode :: "fit_mode \<Rightarrow> (string \<Rightarrow> string option) option \<Rightarrow> (string \<Rightarrow> string option) option" where
  "storeFitMode m storage = map_option (\<lambda>st. st(fit_storage_key \<mapsto> fit_mode_text m)) storage"

text \<open>\<open>replace(/a|b/g, '''')\<close> for literals, and \<open>replace(/\s+/g, '' '')\<close>.\<close>

definition matching :: "string list \<Rightarrow> string \<Rightarrow> nat option" where
  "matching ps s = map_option length (List.find (\<lambda>p. p \<noteq> [] \<and> take (length p) s = p) ps)"

function remove_all :: "string list \<Rightarrow> string \<Rightarrow> string" where
  "remove_all ps [] = []"
| "remove_all ps (c # s) =
     (case matching ps (c # s) of None \<Rightarrow> c # remove_all ps s | Some n \<Rightarrow> remove_all ps (drop n (c # s)))"
  by pat_completeness auto

lemma matching_pos: "matching ps s = Some n \<Longrightarrow> 0 < n \<and> n \<le> length s"
  by (auto simp: matching_def find_Some_iff) (metis length_take min.cobounded1)

termination remove_all
  by (relation "measure (\<lambda>(ps, s). length s)") (auto dest!: matching_pos)

fun collapse_ws :: "string \<Rightarrow> string" where
  "collapse_ws [] = []"
| "collapse_ws (c # s) =
     (if is_ws c then (case s of [] \<Rightarrow> '' '' | d # t \<Rightarrow> if is_ws d then collapse_ws s else CHR 0x20 # collapse_ws s)
      else c # collapse_ws s)"

definition fit_class :: "fit_mode \<Rightarrow> string" where
  "fit_class m =
     (case m of
        Fit_Width \<Rightarrow> ''max-w-full h-auto''
      | Fit_Original \<Rightarrow> ''max-w-none h-auto''
      | Fit_Height \<Rightarrow> ''max-h-[calc(100vh-7.5rem)] w-auto max-w-full object-contain'')"

definition getFitModeClasses :: "fit_mode \<Rightarrow> string \<Rightarrow> string" where
  "getFitModeClasses m base =
     (let withoutFit =
            js_trim (collapse_ws (remove_all [''object-contain''] (remove_all [''w-auto'', ''h-auto'']
              (remove_all [''max-h-[calc(100vh-7.5rem)]''] (remove_all [''max-w-full'', ''max-w-none''] base)))))
      in js_trim (withoutFit @ '' '' @ fit_class m))"

section \<open>The timers of the hint\<close>

definition hint_ids :: "hint_timer \<Rightarrow> hint_state \<Rightarrow> nat list" where
  "hint_ids k s = map fst (filter (\<lambda>t. snd t = k) (hs_timers s))"

text \<open>
  Before the effect of the overlay runs: the hook's timer, if pending, is the one of its ref, the overlay's
  the one it remembers, and the two are different.
\<close>

definition ids_ok :: "bool \<Rightarrow> nat option \<Rightarrow> nat option \<Rightarrow> nat list \<Rightarrow> nat list \<Rightarrow> nat \<Rightarrow> bool" where
  "ids_ok visible r c hooks cards n =
     ((hooks = [] \<or> visible \<and> (\<exists>i. r = Some i \<and> hooks = [i])) \<and>
      (\<forall>i. r = Some i \<longrightarrow> i < n \<and> i \<notin> set cards) \<and>
      (\<forall>i. c = Some i \<longrightarrow> i < n) \<and>
      (cards = [] \<or> (\<exists>i. c = Some i \<and> cards = [i])) \<and> (visible \<and> c \<noteq> None \<longrightarrow> cards \<noteq> []))"

definition hint_timers_ok :: "hint_state \<Rightarrow> bool" where
  "hint_timers_ok s =
     ids_ok (hs_hint s \<noteq> None) (hs_ref s) (hs_card s) (hint_ids Hook_Timer s) (hint_ids Card_Timer s) (hs_nextTimer s)"

definition hint_inv :: "hint_state \<Rightarrow> bool" where
  "hint_inv s = (hint_timers_ok s \<and> (hs_hint s = None \<longleftrightarrow> hs_card s = None))"

lemma clear_ids: "hint_ids k (clear_hint_timer r s) = filter (\<lambda>j. r \<noteq> Some j) (hint_ids k s)"
  by (cases r) (auto simp: hint_ids_def clear_hint_timer_def filter_map o_def split_beta intro!: arg_cong [where f = "map fst"] filter_cong)

lemma hint_ids_update [simp]:
  "hint_ids k (s\<lparr>hs_hint := h\<rparr>) = hint_ids k s" "hint_ids k (s\<lparr>hs_ref := r\<rparr>) = hint_ids k s"
  "hint_ids k (s\<lparr>hs_card := c\<rparr>) = hint_ids k s" "hint_ids k (s\<lparr>hs_nextTimer := n\<rparr>) = hint_ids k s"
  "hint_ids k (s\<lparr>hs_prevMode := p\<rparr>) = hint_ids k s" "hint_ids k (s\<lparr>hs_deps := d\<rparr>) = hint_ids k s"
  "hint_ids k (s\<lparr>hs_cleanup := b\<rparr>) = hint_ids k s" "hint_ids k (s\<lparr>hs_storage := st\<rparr>) = hint_ids k s"
  "hint_ids k (s\<lparr>hs_timers := hs_timers s' @ [(i, k')]\<rparr>) = hint_ids k s' @ (if k' = k then [i] else [])"
  by (simp_all add: hint_ids_def)

lemma clear_sel [simp]:
  "hs_hint (clear_hint_timer r s) = hs_hint s" "hs_ref (clear_hint_timer r s) = hs_ref s"
  "hs_card (clear_hint_timer r s) = hs_card s" "hs_nextTimer (clear_hint_timer r s) = hs_nextTimer s"
  "hs_storage (clear_hint_timer r s) = hs_storage s" "hs_prevMode (clear_hint_timer r s) = hs_prevMode s"
  "hs_deps (clear_hint_timer r s) = hs_deps s" "clear_hint_timer None s = s"
  by (simp_all add: clear_hint_timer_def split: option.split)

lemma clear_ref:
  assumes "hint_timers_ok s"
  shows "hint_ids Hook_Timer (clear_hint_timer (hs_ref s) s) = []"
    and "hint_ids Card_Timer (clear_hint_timer (hs_ref s) s) = hint_ids Card_Timer s"
  using assms by (auto simp: clear_ids hint_timers_ok_def ids_ok_def filter_id_conv)

lemma ids_ok_clear: "ids_ok v r c hs cs n \<Longrightarrow> ids_ok v r c [] cs n"
  by (simp add: ids_ok_def)

lemma ids_ok_dismiss: "ids_ok v r c hs cs n \<Longrightarrow> ids_ok False None c [] cs n"
  by (simp add: ids_ok_def)

lemma ids_ok_show: "ids_ok v r c hs cs n \<Longrightarrow> v \<or> c = None \<Longrightarrow> ids_ok True (Some n) c [n] cs (Suc n)"
  by (auto simp: ids_ok_def)

lemma ids_ok_mount: "ids_ok True r None hs cs n \<Longrightarrow> ids_ok True r (Some n) hs (cs @ [n]) (Suc n)"
  by (auto simp: ids_ok_def)

lemma ids_ok_unmount: "ids_ok False r (Some i) hs cs n \<Longrightarrow> 
    ids_ok False r None (filter ((\<noteq>) i) hs) (filter ((\<noteq>) i) cs) n"
  by (auto simp: ids_ok_def)

lemma clear_ok: "hint_timers_ok s \<Longrightarrow> hint_timers_ok (clear_hint_timer (hs_ref s) s)"
  using clear_ref [of s] by (simp add: hint_timers_ok_def ids_ok_clear)

lemma dismiss_ok: "hint_timers_ok s \<Longrightarrow> hint_timers_ok (dismissHint s)"
  using clear_ref [of s] by (simp add: hint_timers_ok_def dismissHint_def ids_ok_dismiss)

lemma show_ok: "hint_timers_ok s \<Longrightarrow> hs_hint s \<noteq> None \<or> hs_card s = None \<Longrightarrow> hint_timers_ok (showHint mode msg s)"
  using clear_ref [of s] by (simp add: hint_timers_ok_def showHint_def Let_def ids_ok_show)

lemma card_inv: "hint_timers_ok s \<Longrightarrow> hint_inv (card_effect s)"
  by (cases "hs_hint s"; cases "hs_card s")
    (auto simp: card_effect_def hint_inv_def hint_timers_ok_def clear_ids ids_ok_mount dest: ids_ok_unmount)

lemma ok_update [simp]:
  "hint_timers_ok (s\<lparr>hs_prevMode := p\<rparr>) = hint_timers_ok s" "hint_timers_ok (s\<lparr>hs_deps := d\<rparr>) = hint_timers_ok s"
  "hint_timers_ok (s\<lparr>hs_cleanup := b\<rparr>) = hint_timers_ok s" "hint_timers_ok (s\<lparr>hs_storage := st\<rparr>) = hint_timers_ok s"
  by (simp_all add: hint_timers_ok_def)

lemma effect_ok:
  assumes "hint_inv s"
  shows "hint_timers_ok (hint_effect m mode s)"
proof -
  let ?b = "if hs_cleanup s then clear_hint_timer (hs_ref s) s else s"
  have ok: "hint_timers_ok ?b" using assms clear_ok by (simp add: hint_inv_def)
  moreover have shown: "hs_hint ?b \<noteq> None \<or> hs_card ?b = None" using assms by (auto simp: hint_inv_def)
  ultimately show ?thesis using assms
    by (simp only: hint_effect_def Let_def hint_inv_def split: if_split) (auto intro!: show_ok)
qed

lemma fire_ok:
  assumes "hint_inv s"
  shows "hint_timers_ok (fire_hint_timer i s)"
proof (cases "map_of (hs_timers s) i")
  case None
  with assms show ?thesis by (simp add: fire_hint_timer_def hint_inv_def)
next
  case (Some k)
  then have mem: "i \<in> set (hint_ids k s)" by (force simp: hint_ids_def dest: map_of_SomeD)
  have removed: "s\<lparr>hs_timers := filter (\<lambda>(j, _). j \<noteq> i) (hs_timers s)\<rparr> = clear_hint_timer (Some i) s"
    by (simp add: clear_hint_timer_def)
  show ?thesis
    using assms mem
    by (cases k) (auto simp: fire_hint_timer_def Some Let_def removed hint_inv_def hint_timers_ok_def dismissHint_def
        clear_ids ids_ok_def split: option.splits)
qed

lemma hint_step_inv: "hint_inv s \<Longrightarrow> hint_inv (hint_step s e)"
  by (cases e) (auto simp: hint_step_def hint_inv_def intro!: card_inv [unfolded hint_inv_def] dismiss_ok show_ok
      effect_ok [unfolded hint_inv_def] fire_ok [unfolded hint_inv_def])

interpretation hints: machine hint_step "no_hint storage" hint_inv for storage
proof unfold_locales
  show "hint_inv (no_hint storage)"
    by (simp add: hint_inv_def hint_timers_ok_def no_hint_def ids_ok_def hint_ids_def)
qed (rule hint_step_inv)

section \<open>The hint goes away, and comes back\<close>

lemma hint_ids_empty: "hs_timers s = [] \<longleftrightarrow> hint_ids Hook_Timer s = [] \<and> hint_ids Card_Timer s = []"
proof
  assume e: "hint_ids Hook_Timer s = [] \<and> hint_ids Card_Timer s = []"
  show "hs_timers s = []"
  proof (cases "hs_timers s")
    case (Cons t ts)
    then have "fst t \<in> set (hint_ids (snd t) s)" by (simp add: hint_ids_def)
    with e show ?thesis by (cases "snd t") auto
  qed
qed (simp add: hint_ids_def)

lemma hidden_idle: "hint_inv s \<Longrightarrow> hs_hint s = None \<Longrightarrow> hs_timers s = []"
  by (auto simp: hint_inv_def hint_timers_ok_def ids_ok_def hint_ids_empty)

lemma timer_hides: "(i, k) \<in> set (hs_timers s) \<Longrightarrow> hs_hint (hint_step s (Hint_Timer i)) = None"
proof -
  assume "(i, k) \<in> set (hs_timers s)"
  then obtain k' where "map_of (hs_timers s) i = Some k'"
    by (metis map_of_eq_None_iff image_eqI fst_conv not_None_eq)
  then have "hs_hint (fire_hint_timer i s) = None"
    by (cases k') (simp_all add: fire_hint_timer_def dismissHint_def Let_def)
  then show ?thesis by (auto simp: hint_step_def card_effect_def split: option.split)
qed

text \<open>
  The reading hint goes away. After any sequence of renderings (whatever the manga and the mode),
  clicks, calls of \<open>showHint\<close> and timers, a visible hint has the pending timer of its overlay; whichever
  timer runs out first hides it and leaves no timer behind; and without a hint no timer is pending. The
  hook alone would not do: the cleanup of its effect drops its timer when the manga changes, and then
  only the overlay's timer is left.
\<close>

theorem hint_goes_away:
  "(let s = run_events hint_step (no_hint storage) es in
     (hs_hint s \<noteq> None \<longrightarrow> (\<exists>i. hs_card s = Some i \<and> (i, Card_Timer) \<in> set (hs_timers s))) \<and>
     (\<forall>i k. (i, k) \<in> set (hs_timers s) \<longrightarrow>
        hs_hint (hint_step s (Hint_Timer i)) = None \<and> hs_timers (hint_step s (Hint_Timer i)) = []) \<and>
     (hs_hint s = None \<longrightarrow> hs_timers s = []))"
proof -
  define s where "s = run_events hint_step (no_hint storage) es"
  have inv: "hint_inv s" unfolding s_def by (rule hints.inv_run)
  have "\<exists>i. hs_card s = Some i \<and> (i, Card_Timer) \<in> set (hs_timers s)" if "hs_hint s \<noteq> None"
  proof -
    from that inv obtain i where "hs_card s = Some i" "hint_ids Card_Timer s = [i]"
      by (auto simp: hint_inv_def hint_timers_ok_def ids_ok_def)
    moreover from this have "i \<in> fst ` set (filter (\<lambda>t. snd t = Card_Timer) (hs_timers s))"
      by (metis hint_ids_def list.set_intros(1) set_map)
    ultimately show ?thesis by auto
  qed
  moreover have "hs_hint (hint_step s (Hint_Timer i)) = None \<and> hs_timers (hint_step s (Hint_Timer i)) = []"
    if "(i, k) \<in> set (hs_timers s)" for i k
    using timer_hides [OF that] hidden_idle [OF hint_step_inv [OF inv]] by blast
  ultimately show ?thesis using hidden_idle [OF inv] unfolding Let_def s_def by blast
qed

text \<open>\<open>hint_goes_away\<close> when the manga changes to one already seen while the hint is visible.\<close>

theorem hint_goes_away_witness:
  "hs_hint (run_events hint_step (no_hint ((\<lambda>_. None)(hint_key ''b'' ''rtl'' \<mapsto> ''true'')))
     [Hint_Render (Some ''a'') ''rtl'', Hint_Render (Some ''b'') ''rtl'', Hint_Timer 1]) = None"
proof -
  let ?st = "(\<lambda>_. None)(hint_key ''b'' ''rtl'' \<mapsto> ''true'') :: string \<Rightarrow> string option"
  let ?es = "[Hint_Render (Some ''a'') ''rtl'', Hint_Render (Some ''b'') ''rtl'']"
  have "(1, Card_Timer) \<in> set (hs_timers (run_events hint_step (no_hint ?st) ?es))" by code_simp
  with hint_goes_away [of ?st ?es]
  have "hs_hint (hint_step (run_events hint_step (no_hint ?st) ?es) (Hint_Timer 1)) = None"
    unfolding Let_def by blast
  then show ?thesis by simp
qed

text \<open>
  When the hint appears. Opening the reader for a manga and a mode shows the hint of that mode whatever
  the session storage says, also when it says that the hint was seen: the comparison with the
  previous mode always holds on opening. The same rendering again does nothing. A change of the mode
  shows the hint of the new mode, and when the old hint is still visible the overlay keeps its timer,
  so that the time of the new hint is what was left of the old one's. A change of the manga alone shows a
  hint exactly when the storage does not say that the hint was seen.
\<close>

theorem when_the_hint_appears:
  fixes m m' mode mode' :: string
  assumes "m \<noteq> []" "m' \<noteq> []" "m' \<noteq> m" "mode \<noteq> []" "mode' \<noteq> []" "mode' \<noteq> mode"
  shows "(let s = hint_step (no_hint storage) (Hint_Render (Some m) mode);
              t = hint_step s (Hint_Render (Some m) mode');
              u = hint_step s (Hint_Render (Some m') mode)
          in (hs_hint s = Some \<lparr>rh_readingMode = mode, rh_message = hint_message mode\<rparr>) \<and>
             (hs_storage s (hint_key m mode) = Some ''true'') \<and>
             (hint_step s (Hint_Render (Some m) mode) = s) \<and>
             (hs_hint t = Some \<lparr>rh_readingMode = mode', rh_message = hint_message mode'\<rparr>) \<and>
             (hs_card t = hs_card s \<and> hs_card s \<noteq> None) \<and>
             (hs_hint (hint_step t (Hint_Timer (the (hs_card s)))) = None) \<and>
             (truthy_str (storage (hint_key m' mode)) \<longrightarrow> hs_ref u = hs_ref s \<and> map snd (hs_timers u) = [Card_Timer]) \<and>
             (\<not> truthy_str (storage (hint_key m' mode)) \<longrightarrow> map snd (hs_timers u) = [Card_Timer, Hook_Timer]))"
proof -
  let ?h = "\<lambda>md. \<lparr>rh_readingMode = md, rh_message = hint_message md\<rparr>"
  let ?st = "storage(hint_key m mode \<mapsto> ''true'')"
  define s where "s = hint_step (no_hint storage) (Hint_Render (Some m) mode)"
  have s: "s = \<lparr>hs_hint = Some (?h mode), hs_ref = Some 0, hs_prevMode = Some mode, hs_deps = Some (Some m, mode),
      hs_cleanup = True, hs_card = Some 1, hs_timers = [(0, Hook_Timer), (1, Card_Timer)], hs_nextTimer = 2,
      hs_storage = ?st\<rparr>"
    using assms(1,4) by (simp add: s_def hint_step_def hint_effect_def no_hint_def Let_def showHint_def card_effect_def)
  have same: "hint_step s (Hint_Render (Some m) mode) = s"
    by (simp add: s hint_step_def hint_effect_def card_effect_def)
  define t where "t = hint_step s (Hint_Render (Some m) mode')"
  have t: "t = \<lparr>hs_hint = Some (?h mode'), hs_ref = Some 2, hs_prevMode = Some mode', hs_deps = Some (Some m, mode'),
      hs_cleanup = True, hs_card = Some 1, hs_timers = [(1, Card_Timer), (2, Hook_Timer)], hs_nextTimer = 3,
      hs_storage = ?st(hint_key m mode' \<mapsto> ''true'')\<rparr>"
    using assms by (simp add: t_def s hint_step_def hint_effect_def Let_def showHint_def card_effect_def
        clear_hint_timer_def)
  have late: "hs_hint (hint_step t (Hint_Timer 1)) = None" by (rule timer_hides [of _ Card_Timer]) (simp add: t)
  define u where "u = hint_step s (Hint_Render (Some m') mode)"
  have other: "hint_key m' mode \<noteq> hint_key m mode" using assms(3) by (simp add: hint_key_def)
  have seen: "hs_ref u = hs_ref s \<and> map snd (hs_timers u) = [Card_Timer]" if "truthy_str (storage (hint_key m' mode))"
    using that assms other
    by (simp add: u_def s hint_step_def hint_effect_def Let_def card_effect_def clear_hint_timer_def)
  have unseen: "map snd (hs_timers u) = [Card_Timer, Hook_Timer]" if "\<not> truthy_str (storage (hint_key m' mode))"
    using that assms other
    by (simp add: u_def s hint_step_def hint_effect_def Let_def card_effect_def clear_hint_timer_def showHint_def)
  show ?thesis
    using same late seen unseen by (simp add: Let_def flip: s_def t_def u_def) (simp add: s t)
qed

text \<open>\<open>when_the_hint_appears\<close> for a manga whose hint was seen before in this session.\<close>

theorem when_the_hint_appears_witness:
  "hs_hint (hint_step (no_hint ((\<lambda>_. None)(hint_key ''a'' ''rtl'' \<mapsto> ''true''))) (Hint_Render (Some ''a'') ''rtl'')) =
     Some \<lparr>rh_readingMode = ''rtl'', rh_message = ''Tap left/right to navigate''\<rparr>"
  using when_the_hint_appears [of "''a''" "''b''" "''rtl''" "''ltr''" "(\<lambda>_. None)(hint_key ''a'' ''rtl'' \<mapsto> ''true'')"]
  by (simp add: Let_def hint_message_def)

section \<open>The fit mode\<close>

text \<open>
  What is stored is what is read back, in every mode; anything else in the storage means \<open>fit-height\<close>. A
  change of the mode leaves no class of the old mode.
\<close>

lemma fit_mode_roundtrip: "getStoredFitMode (storeFitMode m (Some storage)) = m"
  by (cases m) (simp_all add: getStoredFitMode_def storeFitMode_def fit_mode_text_def)

lemma fit_mode_default:
  "(\<And>m. storage fit_storage_key \<noteq> Some (fit_mode_text m)) \<Longrightarrow> getStoredFitMode (Some storage) = Fit_Height"
  using fit_mode_text_def by (fastforce simp: getStoredFitMode_def split: fit_mode.splits)

lemma fit_mode_switch:
  "getFitModeClasses Fit_Width (getFitModeClasses Fit_Height ''select-none'') = ''select-none max-w-full h-auto''"
  by code_simp

end
