(* ===== verification/Chapter_Operations.thy ===== *)
theory Chapter_Operations
  imports Api_Hooks Toasts
begin

text \<open>
  \<open>components/details/hooks/useChapterOperations.ts\<close>: the mutations of the details page, the guards of its
  batch handlers, and the set of chapters that a pull was started for (\<open>optimisticPullIds\<close>), which
  an effect cleans up when the chapter list or the job list changes. An \<open>operation\<close> is what a
  mutation sends, what it invalidates once it has succeeded, and the toast it then shows.
\<close>

section \<open>Mutations\<close>

record operation =
  op_request :: "request option"
  op_invalidates :: "query_key list"
  op_success :: notice

text \<open>\<open>if (!targetMangaId) throw new Error('No manga ID')\<close>: the mutation fails without a request.\<close>

type_synonym op_result = "string + operation"

definition with_manga_id :: "string \<Rightarrow> operation \<Rightarrow> op_result" where
  "with_manga_id targetMangaId op = (if targetMangaId = [] then Inl ''No manga ID'' else Inr op)"

definition provider_keys :: "string \<Rightarrow> string \<Rightarrow> query_key list" where
  "provider_keys targetMangaId providerId =
     (if providerId \<noteq> [] then [chapters_providerList targetMangaId providerId] else [])"

definition addToLibraryMutation :: "string \<Rightarrow> string \<Rightarrow> manga option \<Rightarrow> operation" where
  "addToLibraryMutation providerIdParam remoteIdParam m =
     \<lparr>op_request =
        (case m of
           None \<Rightarrow> None
         | Some x \<Rightarrow>
             Some (api_importProviderManga (str_or [Some providerIdParam, m_sourceId x] ''mangafox'')
                (str_or [Some remoteIdParam, m_contentRemoteId x] (m_id x)) (Some ''plan_to_read''))),
      op_invalidates = [library_all, manga_all, chapters_all],
      op_success = success_notice ''Series added to library''\<rparr>"

text \<open>\<open>added\<close> is the field of the answer.\<close>

definition refreshChaptersMutation :: "string \<Rightarrow> rat \<Rightarrow> op_result" where
  "refreshChaptersMutation targetMangaId added =
     with_manga_id targetMangaId
       \<lparr>op_request = Some (api_refreshLibraryManga targetMangaId),
        op_invalidates = [chapters_list targetMangaId, manga_details targetMangaId, library_refresh targetMangaId],
        op_success =
          success_notice
            (if added = 0 then ''Up to date''
             else ''Refresh complete: '' @ num_str added @ '' chapter(s)'')\<rparr>"

definition removeChapterMutation :: "string \<Rightarrow> string \<Rightarrow> string \<Rightarrow> op_result" where
  "removeChapterMutation targetMangaId chapterId providerId =
     with_manga_id targetMangaId
       \<lparr>op_request = Some (api_deleteChapter targetMangaId chapterId),
        op_invalidates = [chapters_list targetMangaId] @ provider_keys targetMangaId providerId,
        op_success = success_notice ''Chapter removed from library''\<rparr>"

definition deleteChapterFilesMutation :: "string \<Rightarrow> string \<Rightarrow> string \<Rightarrow> op_result" where
  "deleteChapterFilesMutation targetMangaId chapterId providerId =
     with_manga_id targetMangaId
       \<lparr>op_request = Some (api_deleteChapterFiles targetMangaId providerId (Some chapterId)),
        op_invalidates = [chapters_list targetMangaId] @ provider_keys targetMangaId providerId,
        op_success = success_notice ''Files deleted (chapter entry preserved)''\<rparr>"

definition pullChapterMutation :: "string \<Rightarrow> string \<Rightarrow> string \<Rightarrow> op_result" where
  "pullChapterMutation targetMangaId chapterId providerId =
     with_manga_id targetMangaId
       \<lparr>op_request = Some (api_pullChapter targetMangaId providerId (Some chapterId)),
        op_invalidates =
          [chapters_pages chapterId (Some targetMangaId) (Some providerId), chapters_list targetMangaId] @
          provider_keys targetMangaId providerId @ [jobs_all],
        op_success = success_notice ''Chapter pulled from provider''\<rparr>"

definition removeProviderMutation :: "string \<Rightarrow> provider_ref \<Rightarrow> op_result" where
  "removeProviderMutation targetMangaId p =
     with_manga_id targetMangaId
       \<lparr>op_request = Some (api_removeBinding targetMangaId (pr_provider_id p) (pr_provider_manga_id p)),
        op_invalidates = [manga_bindings_key targetMangaId, manga_details targetMangaId, library_all],
        op_success = success_notice ''Provider removed''\<rparr>"

definition switchToMutation :: "string \<Rightarrow> provider_ref \<Rightarrow> op_result" where
  "switchToMutation targetMangaId p =
     with_manga_id targetMangaId
       \<lparr>op_request =
          Some (api_setActiveContentSource targetMangaId (pr_provider_id p) (pr_provider_manga_id p) None),
        op_invalidates =
          [manga_bindings_key targetMangaId, manga_details targetMangaId, library_all, chapters_all,
           chapters_list targetMangaId] @ provider_keys targetMangaId (pr_provider_id p),
        op_success = success_notice ''Switched content provider''\<rparr>"

text \<open>The labels of the error toasts, \<open>onError\<close> of each.\<close>

datatype op_kind = Op_Add | Op_Refresh | Op_Remove_Chapter | Op_Delete_Files | Op_Pull | Op_Remove_Provider | Op_Switch

definition op_failure_label :: "op_kind \<Rightarrow> string" where
  "op_failure_label k =
     (case k of Op_Add \<Rightarrow> ''Failed to add to library'' | Op_Refresh \<Rightarrow> ''Refresh failed''
      | Op_Remove_Chapter \<Rightarrow> ''Remove failed'' | Op_Delete_Files \<Rightarrow> ''Delete files failed''
      | Op_Pull \<Rightarrow> ''Pull failed'' | Op_Remove_Provider \<Rightarrow> ''Remove failed'' | Op_Switch \<Rightarrow> ''Switch failed'')"

definition op_failure :: "(json \<Rightarrow> string) \<Rightarrow> op_kind \<Rightarrow> shown_error \<Rightarrow> notice" where
  "op_failure stringify k e = failure_notice stringify (op_failure_label k) e"

section \<open>Batch handlers\<close>

text \<open>
  The arguments of the handlers: the manga and its content provider; a handler returns without
  doing anything when either is missing. The number in the toast comes from the answer.
\<close>

definition batch_guard :: "string \<Rightarrow> string option \<Rightarrow> bool" where
  "batch_guard targetMangaId activeContentProviderId = (targetMangaId \<noteq> [] \<and> truthy_str activeContentProviderId)"

record batch_op =
  bo_mutation :: mutation
  bo_success :: "rat option \<Rightarrow> string"
  bo_extra_keys :: "query_key list"
  bo_failure_label :: string

definition counted :: "string \<Rightarrow> string list \<Rightarrow> string \<Rightarrow> rat option \<Rightarrow> string" where
  "counted before chapterIds after n =
     before @ num_str (coalesce_or [n] (of_nat (length chapterIds))) @ after"

definition only_snake :: "bool option \<Rightarrow> rat option \<Rightarrow> progress_input" where
  "only_snake is_read last_read_page =
     \<lparr>pi_isRead = None, pi_lastReadPage = None, pi_is_read = None, pi_last_read_page = None,
      pi_progress = Some ((is_read, last_read_page), (None, None))\<rparr>"

definition handleBatchUpdateProgress ::
    "string \<Rightarrow> string option \<Rightarrow> string list \<Rightarrow> bool option \<Rightarrow> rat option \<Rightarrow> batch_op option" where
  "handleBatchUpdateProgress targetMangaId provider chapterIds is_read last_read_page =
     (if \<not> batch_guard targetMangaId provider then None
      else Some
        \<lparr>bo_mutation =
           useBatchUpdateChapterProgressMutation targetMangaId chapterIds (only_snake is_read last_read_page) provider,
         bo_success =
           counted ''Marked '' chapterIds
             (if truthy_bool is_read then '' chapter(s) as read'' else '' chapter(s) as unread''),
         bo_extra_keys = [],
         bo_failure_label = ''Failed to update chapter progress''\<rparr>)"

definition handleBatchPull_op :: "string \<Rightarrow> string option \<Rightarrow> string list \<Rightarrow> batch_op option" where
  "handleBatchPull_op targetMangaId provider chapterIds =
     (if \<not> batch_guard targetMangaId provider then None
      else Some
        \<lparr>bo_mutation = useBatchPullChaptersMutation targetMangaId chapterIds provider,
         bo_success = counted ''Pull enqueued for '' chapterIds '' chapter(s)'',
         bo_extra_keys = [jobs_all],
         bo_failure_label = ''Failed to pull chapters''\<rparr>)"

text \<open>\<open>data?.refreshed || chapterIds.length\<close>: an answer of 0 counts as the number of chapters asked for.\<close>

definition handleBatchRefresh :: "string \<Rightarrow> string option \<Rightarrow> string list \<Rightarrow> batch_op option" where
  "handleBatchRefresh targetMangaId provider chapterIds =
     (if \<not> batch_guard targetMangaId provider then None
      else Some
        \<lparr>bo_mutation = useBatchRefreshChaptersMutation targetMangaId chapterIds provider,
         bo_success =
           (\<lambda>n. ''Refreshed metadata for '' @ num_str (num_or [n] (of_nat (length chapterIds))) @ '' chapter(s)''),
         bo_extra_keys = [],
         bo_failure_label = ''Failed to refresh chapter metadata''\<rparr>)"

definition handleBatchDeleteFiles :: "string \<Rightarrow> string option \<Rightarrow> string list \<Rightarrow> batch_op option" where
  "handleBatchDeleteFiles targetMangaId provider chapterIds =
     (if \<not> batch_guard targetMangaId provider then None
      else Some
        \<lparr>bo_mutation = useBatchDeleteChapterFilesMutation targetMangaId chapterIds provider,
         bo_success = counted ''Deleted files for '' chapterIds '' chapter(s)'',
         bo_extra_keys = [],
         bo_failure_label = ''Failed to delete files''\<rparr>)"

definition handleBatchRemove :: "string \<Rightarrow> string option \<Rightarrow> string list \<Rightarrow> batch_op option" where
  "handleBatchRemove targetMangaId provider chapterIds =
     (if \<not> batch_guard targetMangaId provider then None
      else Some
        \<lparr>bo_mutation = useBatchDeleteChaptersMutation targetMangaId chapterIds provider,
         bo_success = counted ''Removed '' chapterIds '' chapter(s) from library'',
         bo_extra_keys = [],
         bo_failure_label = ''Failed to remove chapters''\<rparr>)"

definition handleUserMetadataChange :: "string \<Rightarrow> (string \<times> json) list \<Rightarrow> mutation option" where
  "handleUserMetadataChange targetMangaId updatedFields =
     (if targetMangaId = [] then None else Some (useUpdateLibraryMangaMutation targetMangaId updatedFields))"

section \<open>The chapters being pulled\<close>

definition is_downloaded :: "manga_chapter list \<Rightarrow> string \<Rightarrow> bool" where
  "is_downloaded chapters i =
     (case List.find (\<lambda>c. c_id c = i) chapters of
        None \<Rightarrow> False
      | Some c \<Rightarrow>
          truthy_bool (coalesce [c_is_downloaded c, c_isDownloaded c, Option.bind (c_meta c) cm_is_downloaded]))"

definition job_meta :: "job \<Rightarrow> string \<Rightarrow> string option" where
  "job_meta j k = Option.bind (j_metadata j) (\<lambda>ms. map_of ms k)"

definition pull_job :: "string \<Rightarrow> job \<Rightarrow> bool" where
  "pull_job i j = (j_type j = ''pull_chapter'' \<and> job_meta j ''chapter_id'' = Some i)"

definition pull_finished :: "job list \<Rightarrow> string \<Rightarrow> bool" where
  "pull_finished jobs i =
     (case List.find (pull_job i) jobs of
        None \<Rightarrow> False
      | Some j \<Rightarrow> j_status j = Job_Completed \<or> j_status j = Job_Failed)"

text \<open>The effect on \<open>[chapters, mangaJobs]\<close>: it deletes the finished ids from a copy of the set.\<close>

definition cleanup_optimistic :: "manga_chapter list \<Rightarrow> job list \<Rightarrow> string list \<Rightarrow> string list" where
  "cleanup_optimistic chapters jobs prev =
     foldl (\<lambda>acc i. if is_downloaded chapters i \<or> pull_finished jobs i then oset_delete i acc else acc) prev prev"

text \<open>\<open>activeJobChapterIds\<close> of \<open>useDetailsManga.ts\<close>.\<close>

definition activeJobChapterIds :: "job list \<Rightarrow> string list" where
  "activeJobChapterIds jobs =
     map (\<lambda>j. the (job_meta j ''chapter_id''))
       (filter (\<lambda>j. j_type j = ''pull_chapter'' \<and> (j_status j = Job_Pending \<or> j_status j = Job_Running) \<and>
                  truthy_str (job_meta j ''chapter_id'')) jobs)"

text \<open>
  The state of the hook with the data its queries have. \<open>ps_pulling\<close> and \<open>ps_batch\<close> are the variables of the
  two pull mutations while their latest call is pending.
\<close>

record pull_state =
  ps_optimistic :: "string list"
  ps_pulling :: "string option"
  ps_batch :: "string list option"
  ps_chapters :: "manga_chapter list"
  ps_jobs :: "job list"

definition pull_init :: pull_state where
  "pull_init = \<lparr>ps_optimistic = [], ps_pulling = None, ps_batch = None, ps_chapters = [], ps_jobs = []\<rparr>"

definition handlePullChapter :: "string \<Rightarrow> pull_state \<Rightarrow> pull_state" where
  "handlePullChapter i s = s\<lparr>ps_optimistic := oset_add i (ps_optimistic s), ps_pulling := Some i\<rparr>"

definition handleBatchPull :: "string \<Rightarrow> string option \<Rightarrow> string list \<Rightarrow> pull_state \<Rightarrow> pull_state" where
  "handleBatchPull targetMangaId provider ids s =
     (if \<not> batch_guard targetMangaId provider then s
      else s\<lparr>ps_optimistic := oset_add_all ids (ps_optimistic s), ps_batch := Some ids\<rparr>)"

text \<open>New query data, and the effect that follows.\<close>

definition pull_data :: "manga_chapter list \<Rightarrow> job list \<Rightarrow> pull_state \<Rightarrow> pull_state" where
  "pull_data chapters jobs s =
     s\<lparr>ps_chapters := chapters, ps_jobs := jobs,
       ps_optimistic := cleanup_optimistic chapters jobs (ps_optimistic s)\<rparr>"

datatype pull_event =
    Pull_One string
  | Pull_Batch string "string option" "string list"
  | Pull_Settled bool
  | Batch_Settled bool
  | Pull_Data "manga_chapter list" "job list"

definition pull_step :: "pull_state \<Rightarrow> pull_event \<Rightarrow> pull_state" where
  "pull_step s e =
     (case e of
        Pull_One i \<Rightarrow> handlePullChapter i s
      | Pull_Batch m p ids \<Rightarrow> handleBatchPull m p ids s
      | Pull_Settled ok \<Rightarrow> s\<lparr>ps_pulling := None\<rparr>
      | Batch_Settled ok \<Rightarrow> s\<lparr>ps_batch := None\<rparr>
      | Pull_Data chapters jobs \<Rightarrow> pull_data chapters jobs s)"

definition pullingChapterIds :: "pull_state \<Rightarrow> string list" where
  "pullingChapterIds s =
     (let active = oset_of (activeJobChapterIds (ps_jobs s));
          waiting = oset_add_all (filter (\<lambda>i. \<not> is_downloaded (ps_chapters s) i) (ps_optimistic s)) active;
          one = (if truthy_str (ps_pulling s) then oset_add (the (ps_pulling s)) waiting else waiting)
      in case ps_batch s of None \<Rightarrow> one | Some ids \<Rightarrow> oset_add_all ids one)"

text \<open>\<open>deletingFilesChapterIds\<close> and \<open>removingChapterIds\<close>: the pending single id, then the pending batch.\<close>

definition pending_ids :: "string option \<Rightarrow> string list option \<Rightarrow> string list" where
  "pending_ids one batch = (if truthy_str one then [the one] else []) @ coalesce_or [batch] []"

section \<open>Which chapters are shown as being pulled\<close>

lemma foldl_delete:
  "foldl (\<lambda>acc i. if P i then oset_delete i acc else acc) acc xs = filter (\<lambda>i. \<not> (P i \<and> i \<in> set xs)) acc"
proof (induction xs arbitrary: acc)
  case (Cons x xs)
  have "filter (\<lambda>i. \<not> (P i \<and> i \<in> set xs)) (if P x then oset_delete x acc else acc) =
      filter (\<lambda>i. \<not> (P i \<and> i \<in> set (x # xs))) acc"
    by (auto simp: oset_delete_def intro!: filter_cong)
  with Cons show ?case by simp
qed simp

lemma cleanup_filter:
  "cleanup_optimistic chapters jobs prev = filter (\<lambda>i. \<not> is_downloaded chapters i \<and> \<not> pull_finished jobs i) prev"
  unfolding cleanup_optimistic_def foldl_delete by (auto intro: filter_cong)

interpretation pulls: machine pull_step pull_init "\<lambda>s. distinct (ps_optimistic s)"
proof
  show "distinct (ps_optimistic pull_init)" by (simp add: pull_init_def)
  show "distinct (ps_optimistic s) \<Longrightarrow> distinct (ps_optimistic (pull_step s e))" for s e
    by (simp add: pull_step_def handlePullChapter_def handleBatchPull_def pull_data_def cleanup_filter
        distinct_oset_add distinct_oset_add_all split: pull_event.split)
qed

lemma distinct_pulling: "distinct (pullingChapterIds s)"
  by (simp add: pullingChapterIds_def Let_def oset_of_def distinct_oset_add_all distinct_oset_add split: option.split)

lemma set_pulling:
  "set (pullingChapterIds s) =
     set (activeJobChapterIds (ps_jobs s)) \<union>
     {i \<in> set (ps_optimistic s). \<not> is_downloaded (ps_chapters s) i} \<union>
     {i. ps_pulling s = Some i \<and> i \<noteq> []} \<union> set (coalesce_or [ps_batch s] [])"
  by (cases "ps_pulling s") (auto simp: pullingChapterIds_def Let_def oset_of_def split: option.splits)

text \<open>
  The chapters shown as being pulled: without repetition, those with a pending or running pull
  job, those pulled here and not downloaded yet, and those of the pending requests.
\<close>

theorem pullingChapterIds_spec:
  "distinct (pullingChapterIds s) \<and>
   (i \<in> set (pullingChapterIds s) \<longleftrightarrow>
      (\<exists>j \<in> set (ps_jobs s). pull_job i j \<and> i \<noteq> [] \<and> (j_status j = Job_Pending \<or> j_status j = Job_Running)) \<or>
      (i \<in> set (ps_optimistic s) \<and> \<not> is_downloaded (ps_chapters s) i) \<or>
      (i \<noteq> [] \<and> ps_pulling s = Some i) \<or> i \<in> set (coalesce_or [ps_batch s] []))"
proof -
  have "i \<in> set (activeJobChapterIds js) \<longleftrightarrow>
      (\<exists>j \<in> set js. pull_job i j \<and> i \<noteq> [] \<and> (j_status j = Job_Pending \<or> j_status j = Job_Running))" for js
    by (auto simp: activeJobChapterIds_def pull_job_def truthy_str_def image_iff split: option.splits)
  then show ?thesis using distinct_pulling by (auto simp: set_pulling)
qed

text \<open>
  Whether a pull of chapter \<open>i\<close> is awaited, told from the events alone: it is from a pull of \<open>i\<close> on, until
  data arrive in which the chapter is downloaded or its first pull job has ended.
\<close>

definition awaits :: "string \<Rightarrow> bool \<Rightarrow> pull_event \<Rightarrow> bool" where
  "awaits i w e =
     (case e of
        Pull_One j \<Rightarrow> w \<or> j = i
      | Pull_Batch m p ids \<Rightarrow> w \<or> (batch_guard m p \<and> i \<in> set ids)
      | Pull_Data chapters jobs \<Rightarrow> w \<and> \<not> is_downloaded chapters i \<and> \<not> pull_finished jobs i
      | _ \<Rightarrow> w)"

lemma awaits_step: "i \<in> set (ps_optimistic (pull_step s e)) \<longleftrightarrow> awaits i (i \<in> set (ps_optimistic s)) e"
  by (auto simp: pull_step_def awaits_def handlePullChapter_def handleBatchPull_def pull_data_def cleanup_filter
      split: pull_event.split)

interpretation awaited: refinement pull_step pull_init "\<lambda>s. distinct (ps_optimistic s)"
    "\<lambda>s. i \<in> set (ps_optimistic s)" "awaits i" for i
  by unfold_locales (rule awaits_step)

text \<open>
  C10: The optimistic set refines that specification over every run: it has \<open>i\<close> exactly while a pull of \<open>i\<close>
  is awaited. The outcome of the request is not among the events that end the wait: a pull whose
  request fails is awaited, and shown, as long as the data do not change for that chapter.
\<close>

theorem optimistic_refines_awaits:
  "(i \<in> set (ps_optimistic (run_events pull_step pull_init es)) \<longleftrightarrow> run_events (awaits i) False es) \<and>
   (list_all (\<lambda>e. case e of Pull_Data chapters jobs \<Rightarrow> \<not> is_downloaded chapters i \<and> \<not> pull_finished jobs i | _ \<Rightarrow> True) es
      \<longrightarrow> i \<in> set (pullingChapterIds (run_events pull_step pull_init ([Pull_One i, Pull_Settled False] @ es))))"
proof (rule conjI2; (intro impI)?)
  show "i \<in> set (ps_optimistic (run_events pull_step pull_init es)) \<longleftrightarrow> run_events (awaits i) False es"
    unfolding awaited.abs_run by (simp add: pull_init_def)
next
  let ?quiet = "\<lambda>e. case e of Pull_Data chapters jobs \<Rightarrow> \<not> is_downloaded chapters i \<and> \<not> pull_finished jobs i | _ \<Rightarrow> True"
  let ?shown = "\<lambda>s. i \<in> set (ps_optimistic s) \<and> \<not> is_downloaded (ps_chapters s) i"
  assume quiet: "list_all ?quiet es"
  have step: "?shown (pull_step s e)" if "?shown s" "?quiet e" for s e
    using that awaits_step [of i s e]
    by (auto simp: awaits_def pull_step_def pull_data_def handlePullChapter_def handleBatchPull_def
        split: pull_event.splits)
  have "?shown (run_events pull_step s es)" if "?shown s" "list_all ?quiet es" for s
    using that
  proof (induction es arbitrary: s)
    case (Cons e es)
    then show ?case using step [of s e] by simp
  qed simp
  moreover have "?shown (pull_step (pull_step pull_init (Pull_One i)) (Pull_Settled False))"
    by (simp add: pull_step_def handlePullChapter_def pull_init_def is_downloaded_def)
  ultimately have "?shown (run_events pull_step pull_init ([Pull_One i, Pull_Settled False] @ es))"
    using quiet by simp
  then show "i \<in> set (pullingChapterIds (run_events pull_step pull_init ([Pull_One i, Pull_Settled False] @ es)))"
    by (simp only: set_pulling) blast
qed

text \<open>The second part of \<open>optimistic_refines_awaits\<close> for a chapter whose data come once, unchanged.\<close>

theorem optimistic_refines_awaits_witness:
  "''c'' \<in> set (pullingChapterIds (run_events pull_step pull_init
     ([Pull_One ''c'', Pull_Settled False] @ [Pull_Data [blank_manga_chapter ''c''] []])))"
  using optimistic_refines_awaits [of "''c''" "[Pull_Data [blank_manga_chapter ''c''] []]"]
  by (simp add: is_downloaded_def pull_finished_def)

text \<open>
  Without a manga no request is sent: the single mutations fail with "No manga ID" and the batch
  handlers do nothing; without a content provider the batch handlers do nothing, and leave the set of
  awaited pulls alone.
\<close>

lemma operations_guarded:
  "(refreshChaptersMutation [] n = Inl ''No manga ID'' \<and> removeChapterMutation [] c p = Inl ''No manga ID'' \<and>
    deleteChapterFilesMutation [] c p = Inl ''No manga ID'' \<and> pullChapterMutation [] c p = Inl ''No manga ID'' \<and>
    removeProviderMutation [] r = Inl ''No manga ID'' \<and> switchToMutation [] r = Inl ''No manga ID'') \<and>
   (\<not> batch_guard m provider \<longrightarrow>
      handleBatchUpdateProgress m provider ids rd pg = None \<and> handleBatchPull_op m provider ids = None \<and>
      handleBatchRefresh m provider ids = None \<and> handleBatchDeleteFiles m provider ids = None \<and>
      handleBatchRemove m provider ids = None \<and> handleBatchPull m provider ids s = s) \<and>
   (batch_guard m provider \<longleftrightarrow> m \<noteq> [] \<and> provider \<noteq> None \<and> provider \<noteq> Some [])"
  by (cases provider)
    (simp_all add: refreshChaptersMutation_def removeChapterMutation_def deleteChapterFilesMutation_def
      pullChapterMutation_def removeProviderMutation_def switchToMutation_def with_manga_id_def
      handleBatchUpdateProgress_def handleBatchPull_op_def handleBatchRefresh_def handleBatchDeleteFiles_def
      handleBatchRemove_def handleBatchPull_def batch_guard_def)

text \<open>
  Adding to the library before the manga is loaded sends nothing, yet ends in success: the caches are
  invalidated and the toast says that the series was added.
\<close>

lemma add_without_manga:
  "op_request (addToLibraryMutation p r None) = None"
  "op_success (addToLibraryMutation p r None) = op_success (addToLibraryMutation p r (Some m))"
  by (simp_all add: addToLibraryMutation_def)

end
