(* ===== verification/Reading_Cta.thy ===== *)
theory Reading_Cta
  imports Types_Api
begin

text \<open>
  \<open>utils/readingCta.ts\<close>: the call to action of a manga's page ("Start Reading", "Resume",
  "Read", "Re-read"), from the chapter list and what the user read last. Chapters are put in
  the order of their numbers with a stable sort; the decision then runs through the cases of
  the source in its order.
\<close>

section \<open>The decision\<close>

datatype cta_type = Cta_Start | Cta_Resume | Cta_Next | Cta_Reread

record reading_cta_info =
  cta_label :: string
  cta_chapterId :: string
  cta_page :: rat
  cta_isResume :: bool
  cta_isCompleted :: bool
  cta_type :: cta_type

text \<open>The second argument is a chapter id or a manga.\<close>

datatype cta_arg = Arg_Id string | Arg_Manga manga

definition getIsRead :: "manga_chapter \<Rightarrow> bool" where
  "getIsRead c =
     (truthy_bool (c_is_read c) \<or> truthy_bool (c_isRead c) \<or>
      truthy_bool (Option.bind (c_meta c) cm_is_read))"

definition getLastPage :: "manga_chapter \<Rightarrow> rat" where
  "getLastPage c =
     coalesce_or [c_last_read_page c, c_lastReadPage c, Option.bind (c_meta c) cm_last_read_page] 0"

definition chapter_key :: "manga_chapter \<Rightarrow> rat" where
  "chapter_key c = coalesce_or [c_number c] 0"

definition sort_chapters :: "manga_chapter list \<Rightarrow> manga_chapter list" where
  "sort_chapters cs = js_sort (by_key chapter_key) cs"

definition last_read_id :: "cta_arg option \<Rightarrow> string option" where
  "last_read_id arg =
     (case arg of None \<Rightarrow> None
      | Some (Arg_Id s) \<Rightarrow> Some s
      | Some (Arg_Manga m) \<Rightarrow>
          coalesce [Option.bind (m_user_state m) us_last_read_chapter_id,
                    m_lastReadChapterId m, m_last_read_chapter_id m])"

definition last_read_chapter :: "manga_chapter list \<Rightarrow> cta_arg option \<Rightarrow> manga_chapter option" where
  "last_read_chapter cs arg =
     (if truthy_str (last_read_id arg)
      then List.find (\<lambda>c. Some (c_id c) = last_read_id arg) cs else None)"

definition in_progress :: "manga_chapter \<Rightarrow> bool" where
  "in_progress c = (\<not> getIsRead c \<and> 1 < getLastPage c)"

definition in_progress_chapter ::
    "manga_chapter list \<Rightarrow> manga_chapter option \<Rightarrow> manga_chapter option" where
  "in_progress_chapter srt lastRead =
     (case lastRead of
        Some c \<Rightarrow> if in_progress c then Some c
          else (let l = filter in_progress srt in if l = [] then None else Some (last l))
      | None \<Rightarrow> (let l = filter in_progress srt in if l = [] then None else Some (last l)))"

text \<open>The first unread chapter after the one with the given id, in the sorted list.\<close>

definition unread_after :: "manga_chapter list \<Rightarrow> string \<Rightarrow> manga_chapter option" where
  "unread_after srt cid =
     (case find_index (\<lambda>c. c_id c = cid) srt of
        None \<Rightarrow> None
      | Some i \<Rightarrow> List.find (\<lambda>c. \<not> getIsRead c) (drop (Suc i) srt))"

definition next_chapter :: "manga_chapter list \<Rightarrow> manga_chapter option \<Rightarrow> manga_chapter option" where
  "next_chapter srt lastRead =
     (let readChapters = filter getIsRead srt
      in coalesce
           [case lastRead of None \<Rightarrow> None
            | Some lr \<Rightarrow> if getIsRead lr then unread_after srt (c_id lr) else None,
            unread_after srt (c_id (last readChapters)),
            List.find (\<lambda>c. \<not> getIsRead c) srt])"

definition cta_simple :: "cta_type \<Rightarrow> string \<Rightarrow> manga_chapter \<Rightarrow> bool \<Rightarrow> reading_cta_info" where
  "cta_simple t label c completed =
     \<lparr>cta_label = label, cta_chapterId = c_id c, cta_page = 1, cta_isResume = False,
      cta_isCompleted = completed, cta_type = t\<rparr>"

definition getReadingCtaInfo ::
    "manga_chapter list option \<Rightarrow> cta_arg option \<Rightarrow> reading_cta_info option" where
  "getReadingCtaInfo chapters arg =
     (case chapters of
        None \<Rightarrow> None
      | Some cs \<Rightarrow>
          if cs = [] then None
          else
            let srt = sort_chapters cs;
                firstChapter = hd srt;
                lastRead = last_read_chapter cs arg;
                readChapters = filter getIsRead srt
            in Some
              (case in_progress_chapter srt lastRead of
                 Some c \<Rightarrow>
                   let lastPage = num_or [Some (getLastPage c)] 1;
                       chNum = coalesce_or [c_number c] 1
                   in \<lparr>cta_label = ''Resume Ch. '' @ num_str chNum @ '' (p. '' @ num_str lastPage @ '')'',
                       cta_chapterId = c_id c, cta_page = lastPage, cta_isResume = True,
                       cta_isCompleted = False, cta_type = Cta_Resume\<rparr>
               | None \<Rightarrow>
                   if length readChapters = 0
                   then cta_simple Cta_Start ''Start Reading'' firstChapter False
                   else if length readChapters = length srt
                   then cta_simple Cta_Reread
                          (''Re-read Ch. '' @ num_str (coalesce_or [c_number firstChapter] 1))
                          firstChapter True
                   else (case next_chapter srt lastRead of
                           Some c \<Rightarrow> cta_simple Cta_Next
                             (''Read Ch. '' @ num_str (coalesce_or [c_number c] 1)) c False
                         | None \<Rightarrow> cta_simple Cta_Start ''Start Reading'' firstChapter False)))"

section \<open>Lemmas\<close>

lemma set_sort_chapters [simp]: "set (sort_chapters cs) = set cs"
  by (simp add: sort_chapters_def)

lemma sort_chapters_Nil [simp]: "sort_chapters cs = [] \<longleftrightarrow> cs = []"
  by (simp add: sort_chapters_def)

lemma length_sort_chapters [simp]: "length (sort_chapters cs) = length cs"
  by (simp add: sort_chapters_def)

lemma hd_sort_chapters: "cs \<noteq> [] \<Longrightarrow> hd (sort_chapters cs) \<in> set cs"
  by (metis hd_in_set set_sort_chapters sort_chapters_Nil)

lemma sorted_sort_chapters: "sorted_wrt (\<lambda>a b. chapter_key a \<le> chapter_key b) (sort_chapters cs)"
  using by_key.sorted_js_sort [of chapter_key cs] by (simp add: sort_chapters_def by_key_def)

lemma last_read_chapter_mem: "last_read_chapter cs arg = Some c \<Longrightarrow> c \<in> set cs"
  by (auto simp: last_read_chapter_def dest: find_Some_mem split: if_splits)

lemma in_progress_chapter_Some:
  "in_progress_chapter ss lr = Some c \<Longrightarrow> in_progress c \<and> (lr = Some c \<or> c \<in> set ss)"
proof -
  assume *: "in_progress_chapter ss lr = Some c"
  have "last l \<in> set ss \<and> in_progress (last l)" if "l = filter in_progress ss" "l \<noteq> []" for l
    using last_in_set [OF that(2)] that(1) by auto
  with * show ?thesis by (auto simp: in_progress_chapter_def Let_def split: option.splits if_splits)
qed

lemma in_progress_chapter_None:
  "in_progress_chapter ss lr = None \<Longrightarrow> (\<forall>c \<in> set ss. \<not> in_progress c)"
  by (auto simp: in_progress_chapter_def Let_def filter_empty_conv split: option.splits if_splits)

lemma unread_after_Some: "unread_after ss i = Some c \<Longrightarrow> c \<in> set ss \<and> \<not> getIsRead c"
  by (auto simp: unread_after_def dest!: find_Some_mem dest: in_set_dropD split: option.splits)

lemma next_chapter_Some: "next_chapter ss lr = Some c \<Longrightarrow> c \<in> set ss \<and> \<not> getIsRead c"
  unfolding next_chapter_def Let_def
  by (drule coalesce_Some_mem) (auto dest: unread_after_Some [OF sym] find_Some_mem [OF sym] split: option.splits if_splits)

lemma next_chapter_None: "next_chapter ss lr = None \<Longrightarrow> \<forall>c \<in> set ss. getIsRead c"
proof -
  assume "next_chapter ss lr = None"
  then have "List.find (\<lambda>c. \<not> getIsRead c) ss = None"
    unfolding next_chapter_def Let_def
    by (simp add: coalesce_None)
  then show ?thesis by (simp add: find_None)
qed

lemma length_filter_eq_iff: "length (filter P xs) = length xs \<longleftrightarrow> (\<forall>x \<in> set xs. P x)"
  by (metis filter_id_conv filter_True length_filter_less linorder_neq_iff)

lemma getReadingCtaInfo_cases:
  assumes "getReadingCtaInfo (Some cs) arg = Some info"
  obtains (resume) c where "c \<in> set cs" "in_progress c" "cta_type info = Cta_Resume"
      "cta_chapterId info = c_id c" "cta_page info = getLastPage c" "cta_isResume info"
      "\<not> cta_isCompleted info"
  | (start) "\<forall>c \<in> set cs. \<not> getIsRead c \<and> \<not> in_progress c" "cs \<noteq> []"
      "info = cta_simple Cta_Start ''Start Reading'' (hd (sort_chapters cs)) False"
  | (reread) "\<forall>c \<in> set cs. getIsRead c" "cs \<noteq> []"
      "info = cta_simple Cta_Reread
        (''Re-read Ch. '' @ num_str (coalesce_or [c_number (hd (sort_chapters cs))] 1))
        (hd (sort_chapters cs)) True"
  | (later) c where "next_chapter (sort_chapters cs) (last_read_chapter cs arg) = Some c"
      "\<forall>c \<in> set cs. \<not> in_progress c" "\<exists>c \<in> set cs. getIsRead c"
      "info = cta_simple Cta_Next (''Read Ch. '' @ num_str (coalesce_or [c_number c] 1)) c False"
proof (cases "in_progress_chapter (sort_chapters cs) (last_read_chapter cs arg)")
  case (Some c)
  note ip = in_progress_chapter_Some [OF Some]
  then have "c \<in> set cs" using last_read_chapter_mem [of cs arg c] by auto
  moreover have "cs \<noteq> []" using \<open>c \<in> set cs\<close> by auto
  moreover have "getLastPage c \<noteq> 0" using ip by (auto simp: in_progress_def)
  ultimately show thesis using assms Some ip
    by (intro resume [of c]) (auto simp: getReadingCtaInfo_def Let_def)
next
  case None
  then have np: "\<forall>c \<in> set cs. \<not> in_progress c" using in_progress_chapter_None [OF None] by simp
  have ne: "cs \<noteq> []" using assms by (auto simp: getReadingCtaInfo_def)
  let ?ss = "sort_chapters cs"
  consider (none) "filter getIsRead ?ss = []"
    | (all) "filter getIsRead ?ss \<noteq> []" "length (filter getIsRead ?ss) = length ?ss"
    | (some) "filter getIsRead ?ss \<noteq> []" "length (filter getIsRead ?ss) \<noteq> length ?ss" by blast
  then show thesis
  proof cases
    case none
    with assms None ne np show thesis
      by (intro start) (auto simp: getReadingCtaInfo_def Let_def filter_empty_conv)
  next
    case all
    then have "\<forall>c \<in> set cs. getIsRead c" using length_filter_eq_iff [of getIsRead ?ss] by simp
    with assms None ne all show thesis by (intro reread) (auto simp: getReadingCtaInfo_def Let_def)
  next
    case some
    then have "next_chapter ?ss (last_read_chapter cs arg) \<noteq> None"
      using next_chapter_None [of ?ss] length_filter_eq_iff [of getIsRead ?ss] by blast
    then obtain c where c: "next_chapter ?ss (last_read_chapter cs arg) = Some c" by blast
    have "\<exists>c \<in> set cs. getIsRead c" using some(1) by (auto simp: filter_empty_conv)
    with assms None ne np some c show thesis
      by (intro later [of c]) (auto simp: getReadingCtaInfo_def Let_def)
  qed
qed

section \<open>Properties\<close>

text \<open>
  The call to action always leads to a chapter of the list and is the right kind of
  action for it. "Resume" goes to an unread chapter at the page last read, which is past the
  first; "Read" goes to an unread chapter, with some other chapter read; "Start" means that
  no chapter is read, and "Re-read" that all are. Every other action opens page 1. So the last
  branch of the source, after all the searches, is never taken.
\<close>

theorem getReadingCtaInfo_sound:
  assumes "getReadingCtaInfo (Some cs) arg = Some info"
  shows "\<exists>c \<in> set cs. cta_chapterId info = c_id c \<and>
    (case cta_type info of
       Cta_Resume \<Rightarrow> \<not> getIsRead c \<and> 1 < getLastPage c \<and> cta_page info = getLastPage c
     | Cta_Next \<Rightarrow> \<not> getIsRead c \<and> (\<exists>d \<in> set cs. getIsRead d) \<and> cta_page info = 1
     | Cta_Start \<Rightarrow> (\<forall>d \<in> set cs. \<not> getIsRead d) \<and> cta_page info = 1
     | Cta_Reread \<Rightarrow> (\<forall>d \<in> set cs. getIsRead d) \<and> cta_page info = 1) \<and>
    cta_isResume info = (cta_type info = Cta_Resume) \<and>
    cta_isCompleted info = (cta_type info = Cta_Reread)"
  using assms
proof (cases rule: getReadingCtaInfo_cases)
  case (resume c)
  then show ?thesis by (auto simp: in_progress_def)
next
  case start
  then show ?thesis using hd_sort_chapters [OF start(2)]
    by (intro bexI [of _ "hd (sort_chapters cs)"]) (simp_all add: cta_simple_def)
next
  case reread
  then show ?thesis using hd_sort_chapters [OF reread(2)]
    by (intro bexI [of _ "hd (sort_chapters cs)"]) (simp_all add: cta_simple_def)
next
  case (later c)
  then show ?thesis using next_chapter_Some [OF later(1)] by (auto simp: cta_simple_def)
qed

theorem getReadingCtaInfo_sound_witness:
  "\<exists>c \<in> set [(blank_manga_chapter ''a'')\<lparr>c_number := Some 1, c_is_read := Some True\<rparr>,
      (blank_manga_chapter ''b'')\<lparr>c_number := Some 2, c_last_read_page := Some 7\<rparr>]. c_id c = ''b''"
proof -
  let ?cs = "[(blank_manga_chapter ''a'')\<lparr>c_number := Some 1, c_is_read := Some True\<rparr>,
      (blank_manga_chapter ''b'')\<lparr>c_number := Some 2, c_last_read_page := Some 7\<rparr>]"
  let ?info = "\<lparr>cta_label = ''Resume Ch. 2 (p. 7)'', cta_chapterId = ''b'', cta_page = 7,
    cta_isResume = True, cta_isCompleted = False, cta_type = Cta_Resume\<rparr>"
  have "getReadingCtaInfo (Some ?cs) None = Some ?info" by code_simp
  from getReadingCtaInfo_sound [OF this] show ?thesis by auto
qed

text \<open>
  Which action it is. There is an action exactly when there are chapters. It is "Re-read"
  exactly when every chapter is read, whatever the second argument; and an unread chapter
  with a page past the first makes it "Resume". The chapter started or re-read has the least
  number of all.
\<close>

theorem getReadingCtaInfo_complete:
  "(getReadingCtaInfo chapters arg = None \<longleftrightarrow> chapters = None \<or> chapters = Some []) \<and>
   (\<forall>cs info. getReadingCtaInfo (Some cs) arg = Some info \<longrightarrow>
     (cta_type info = Cta_Reread \<longleftrightarrow> (\<forall>c \<in> set cs. getIsRead c)) \<and>
     (cta_type info = Cta_Resume \<longleftrightarrow> (\<exists>c \<in> set cs. \<not> getIsRead c \<and> 1 < getLastPage c)) \<and>
     (cta_type info \<in> {Cta_Start, Cta_Reread} \<longrightarrow>
       (\<exists>c \<in> set cs. c_id c = cta_chapterId info \<and> (\<forall>d \<in> set cs. chapter_key c \<le> chapter_key d))))"
proof (intro conjI allI impI)
  show "getReadingCtaInfo chapters arg = None \<longleftrightarrow> chapters = None \<or> chapters = Some []"
    by (auto simp: getReadingCtaInfo_def Let_def split: option.splits)
next
  fix cs info
  assume i: "getReadingCtaInfo (Some cs) arg = Some info"
  from i show "cta_type info = Cta_Reread \<longleftrightarrow> (\<forall>c \<in> set cs. getIsRead c)"
    by (cases rule: getReadingCtaInfo_cases)
      (auto simp: in_progress_def cta_simple_def dest!: next_chapter_Some)
  from i show "cta_type info = Cta_Resume \<longleftrightarrow> (\<exists>c \<in> set cs. \<not> getIsRead c \<and> 1 < getLastPage c)"
    by (cases rule: getReadingCtaInfo_cases) (auto simp: in_progress_def cta_simple_def)
  have least: "\<forall>d \<in> set cs. chapter_key (hd (sort_chapters cs)) \<le> chapter_key d"
    using by_key.js_sort_hd_least [of _ cs chapter_key] by (simp add: sort_chapters_def by_key_def)
  assume t: "cta_type info \<in> {Cta_Start, Cta_Reread}"
  from i t have "cta_chapterId info = c_id (hd (sort_chapters cs)) \<and> cs \<noteq> []"
    by (cases rule: getReadingCtaInfo_cases) (auto simp: cta_simple_def)
  with least hd_sort_chapters
  show "\<exists>c \<in> set cs. c_id c = cta_chapterId info \<and> (\<forall>d \<in> set cs. chapter_key c \<le> chapter_key d)"
    by metis
qed

theorem getReadingCtaInfo_complete_witness:
  "getReadingCtaInfo None None = None"
  using getReadingCtaInfo_complete [of None None] by blast

text \<open>A list for the concrete instance of the next property.\<close>

definition sample_chapters :: "manga_chapter list" where
  "sample_chapters =
     [(blank_manga_chapter ''c'')\<lparr>c_number := Some 3\<rparr>, (blank_manga_chapter ''a'')\<lparr>c_number := Some 1\<rparr>,
      (blank_manga_chapter ''b'')\<lparr>c_number := Some 2, c_is_read := Some True\<rparr>]"

lemma unread_after_first:
  assumes "find_index (\<lambda>c. c_id c = i) ss = Some k"
  shows "unread_after ss i = None \<longleftrightarrow> (\<forall>c \<in> set (drop (Suc k) ss). getIsRead c)"
  using assms by (simp add: unread_after_def find_None)

lemma unread_after_last_read:
  assumes dist: "distinct (map c_id ss)" and k: "k < length ss" and read: "getIsRead (ss ! k)"
    and rest: "\<forall>d \<in> set (drop (Suc k) ss). getIsRead d"
  shows "unread_after ss (c_id (last (filter getIsRead ss))) = None"
proof -
  have ne: "ss \<noteq> []" using k by auto
  have "drop k ss = ss ! k # drop (Suc k) ss" using k by (simp add: Cons_nth_drop_Suc)
  with read rest have "\<forall>d \<in> set (drop k ss). getIsRead d" by simp
  moreover have "last ss \<in> set (drop k ss)"
    using k by (metis drop_eq_Nil last_drop last_in_set leD)
  ultimately have read_last: "getIsRead (last ss)" by blast
  have "filter getIsRead (butlast ss @ [last ss]) = filter getIsRead (butlast ss) @ [last ss]"
    using read_last by simp
  then have last: "last (filter getIsRead ss) = last ss" using ne by simp
  show ?thesis
  proof (cases "find_index (\<lambda>c. c_id c = c_id (last ss)) ss")
    case None
    with last show ?thesis by (simp add: unread_after_def)
  next
    case (Some j)
    note fi = find_index_Some [OF Some]
    then have "map c_id ss ! j = map c_id ss ! (length ss - 1)"
      using ne by (simp add: last_conv_nth)
    then have "j = length ss - 1"
      using fi dist ne by (simp add: nth_eq_iff_index_eq del: nth_map)
    with last Some show ?thesis by (simp add: unread_after_def)
  qed
qed

text \<open>
  Reading goes forward. When the chapter the user read last is in the list and read, a
  "Read" action goes to the first unread chapter after it in number order, if there is one;
  only if all later chapters are read does it go back, to the first unread chapter of all.
\<close>

theorem getReadingCtaInfo_forward:
  assumes info: "getReadingCtaInfo (Some cs) (Some (Arg_Id cid)) = Some info"
    and type: "cta_type info = Cta_Next"
    and ids: "distinct (map c_id cs)"
    and lr: "lr \<in> set cs" "c_id lr = cid" "cid \<noteq> []" "getIsRead lr"
    and pos: "k < length cs" "sort_chapters cs ! k = lr"
  shows "\<exists>c. cta_chapterId info = c_id c \<and>
    List.find (\<lambda>c. \<not> getIsRead c)
      (if \<forall>d \<in> set (drop (Suc k) (sort_chapters cs)). getIsRead d
       then sort_chapters cs else drop (Suc k) (sort_chapters cs)) = Some c"
proof -
  let ?ss = "sort_chapters cs"
  have dist: "distinct (map c_id ?ss)"
    using ids mset_js_sort [of "by_key chapter_key" cs] unfolding sort_chapters_def
    by (metis mset_eq_imp_distinct_iff mset_map)
  have last: "last_read_chapter cs (Some (Arg_Id cid)) = Some lr"
  proof -
    obtain c where c: "List.find (\<lambda>c. Some (c_id c) = Some cid) cs = Some c"
      using lr find_None [of "\<lambda>c. Some (c_id c) = Some cid" cs] by fastforce
    then have "c = lr" using find_Some_mem [OF c] ids lr by (metis option.inject distinct_map inj_onD)
    with c lr show ?thesis by (simp add: last_read_chapter_def last_read_id_def)
  qed
  have fi: "find_index (\<lambda>c. c_id c = cid) ?ss = Some k"
  proof -
    obtain j where j: "find_index (\<lambda>c. c_id c = cid) ?ss = Some j"
      using lr find_index_None [of "\<lambda>c. c_id c = cid" ?ss] by fastforce
    have "j < length ?ss" "map c_id ?ss ! j = map c_id ?ss ! k"
      using find_index_Some [OF j] pos lr by simp_all
    then have "j = k" using dist pos by (simp add: nth_eq_iff_index_eq del: nth_map)
    with j show ?thesis by simp
  qed
  obtain c where nxt: "next_chapter ?ss (Some lr) = Some c" and cid: "cta_chapterId info = c_id c"
    using info type last by (cases rule: getReadingCtaInfo_cases) (auto simp: cta_simple_def)
  show ?thesis
  proof (cases "unread_after ?ss cid")
    case (Some d)
    with nxt lr have "c = d" by (simp add: next_chapter_def Let_def)
    moreover have "\<not> (\<forall>d \<in> set (drop (Suc k) ?ss). getIsRead d)"
      using Some unread_after_first [OF fi] by auto
    ultimately show ?thesis using Some fi cid by (auto simp: unread_after_def)
  next
    case None
    then have all: "\<forall>d \<in> set (drop (Suc k) ?ss). getIsRead d" using unread_after_first [OF fi] by simp
    have "unread_after ?ss (c_id (last (filter getIsRead ?ss))) = None"
      by (rule unread_after_last_read [OF dist]) (use pos lr all in auto)
    with None nxt lr have "List.find (\<lambda>c. \<not> getIsRead c) ?ss = Some c"
      by (cases "List.find (\<lambda>c. \<not> getIsRead c) ?ss") (simp_all add: next_chapter_def Let_def)
    with all cid show ?thesis by simp
  qed
qed

theorem getReadingCtaInfo_forward_witness:
  "\<exists>c. ''c'' = c_id c \<and>
    List.find (\<lambda>c. \<not> getIsRead c) (drop 2 (sort_chapters sample_chapters)) = Some c"
proof -
  let ?a = "(blank_manga_chapter ''a'')\<lparr>c_number := Some 1\<rparr>"
  let ?b = "(blank_manga_chapter ''b'')\<lparr>c_number := Some 2, c_is_read := Some True\<rparr>"
  let ?c = "(blank_manga_chapter ''c'')\<lparr>c_number := Some 3\<rparr>"
  have info: "getReadingCtaInfo (Some sample_chapters) (Some (Arg_Id ''b'')) =
      Some (cta_simple Cta_Next ''Read Ch. 3'' ?c False)" by code_simp
  have ss: "sort_chapters sample_chapters = [?a, ?b, ?c]" by code_simp
  have facts: "distinct (map c_id sample_chapters)" "?b \<in> set sample_chapters" "length sample_chapters = 3"
    by (simp_all add: sample_chapters_def)
  have "\<exists>c. cta_chapterId (cta_simple Cta_Next ''Read Ch. 3'' ?c False) = c_id c \<and>
    List.find (\<lambda>c. \<not> getIsRead c)
      (if \<forall>d \<in> set (drop (Suc 1) (sort_chapters sample_chapters)). getIsRead d
       then sort_chapters sample_chapters else drop (Suc 1) (sort_chapters sample_chapters)) = Some c"
    by (rule getReadingCtaInfo_forward [OF info, where lr = ?b])
      (simp_all add: facts ss cta_simple_def getIsRead_def)
  then show ?thesis by (simp add: ss getIsRead_def cta_simple_def)
qed

end
