(* ===== verification/Details_Manga.thy ===== *)
theory Details_Manga
  imports Chapter_Operations Reading_Cta
begin

text \<open>
  The data of the details page: \<open>components/details/hooks/useDetailsManga.ts\<close>, with its queries, and the
  handlers of \<open>routes/DetailsPage.tsx\<close> that leave the page. Manga, chapters and jobs are what the
  queries have delivered so far.
\<close>

section \<open>The route and the queries\<close>

record details_route =
  dr_pathname :: string
  dr_mangaId :: "string option"
  dr_providerId :: "string option"
  dr_remoteId :: "string option"

definition isRemoteRoute :: "details_route \<Rightarrow> bool" where
  "isRemoteRoute r =
     (js_startsWith (dr_pathname r) ''/explore/'' \<or> js_startsWith (dr_pathname r) ''/providers/'' \<or>
      truthy_str (dr_providerId r) \<and> truthy_str (dr_remoteId r))"

definition providerIdParam :: "details_route \<Rightarrow> string" where
  "providerIdParam r = str_or [dr_providerId r] []"

definition remoteIdParam :: "details_route \<Rightarrow> string" where
  "remoteIdParam r = str_or [dr_remoteId r] []"

text \<open>What the queries have answered, and which are still loading.\<close>

record details_data =
  dd_library :: "manga list"
  dd_remote :: "manga option"
  dd_local :: "manga option"
  dd_provider :: "manga option"
  dd_sources :: "source list"
  dd_localChapters :: "chapter_list_response option"
  dd_remoteChapters :: "chapter_list_response option"
  dd_jobs :: "job list"
  dd_localLoading :: bool
  dd_remoteLoading :: bool

text \<open>The library entry, of which the page uses the id only.\<close>

definition libraryEntry :: "details_route \<Rightarrow> details_data \<Rightarrow> string option" where
  "libraryEntry r d =
     (if isRemoteRoute r then
        (let i = Option.bind (dd_remote d) m_libraryMangaId in if truthy_str i then i else None)
      else map_option m_id (List.find (\<lambda>m. Some (m_id m) = dr_mangaId r) (dd_library d)))"

definition isInLibrary :: "details_route \<Rightarrow> details_data \<Rightarrow> bool" where
  "isInLibrary r d = (libraryEntry r d \<noteq> None)"

definition targetMangaId :: "details_route \<Rightarrow> details_data \<Rightarrow> string" where
  "targetMangaId r d = str_or [libraryEntry r d, dr_mangaId r] []"

definition details_manga :: "details_route \<Rightarrow> details_data \<Rightarrow> manga option" where
  "details_manga r d = (if isRemoteRoute r then dd_remote d else dd_local d)"

definition hasActivePullJobs :: "details_data \<Rightarrow> string list \<Rightarrow> bool" where
  "hasActivePullJobs d optimisticPullIds = (activeJobChapterIds (dd_jobs d) \<noteq> [] \<or> optimisticPullIds \<noteq> [])"

record details_queries =
  dq_remote :: query_opts
  dq_local :: query_opts
  dq_provider :: query_opts
  dq_jobs :: query_opts
  dq_localChapters :: query_opts
  dq_remoteChapters :: query_opts

definition details_queries_of :: "details_route \<Rightarrow> details_data \<Rightarrow> details_queries" where
  "details_queries_of r d =
     (let remote = isRemoteRoute r; p = providerIdParam r; q = remoteIdParam r; t = targetMangaId r d;
          m = details_manga r d;
          pr = str_or [Option.bind m m_contentProviderId, Option.bind m m_sourceId] [];
          rr = str_or [Option.bind m m_contentRemoteId] []
      in \<lparr>dq_remote = useProviderMangaDetails p q (Some (remote \<and> p \<noteq> [] \<and> q \<noteq> [])),
          dq_local = useMangaDetails t (Some (\<not> remote \<and> t \<noteq> [])),
          dq_provider = useProviderMangaDetails pr rr (Some (\<not> remote \<and> pr \<noteq> [] \<and> rr \<noteq> [])),
          dq_jobs = set_enabled (Some (t \<noteq> [] \<and> isInLibrary r d))
            (jobsQueryOptions (Some [(''metadata.manga_id'', JStr t), (''all'', JBool True)])),
          dq_localChapters = useChapterList t None (Some ((\<not> remote \<or> isInLibrary r d) \<and> t \<noteq> [])),
          dq_remoteChapters = useProviderChapterList p q (Some (remote \<and> \<not> isInLibrary r d \<and> p \<noteq> [] \<and> q \<noteq> []))\<rparr>)"

section \<open>What is shown\<close>

definition uses_remote_chapters :: "details_route \<Rightarrow> details_data \<Rightarrow> bool" where
  "uses_remote_chapters r d = (isRemoteRoute r \<and> \<not> isInLibrary r d)"

definition chaptersData :: "details_route \<Rightarrow> details_data \<Rightarrow> chapter_list_response option" where
  "chaptersData r d = (if uses_remote_chapters r d then dd_remoteChapters d else dd_localChapters d)"

definition details_chapters :: "details_route \<Rightarrow> details_data \<Rightarrow> manga_chapter list" where
  "details_chapters r d = (case chaptersData r d of None \<Rightarrow> [] | Some c \<Rightarrow> clr_chapters c)"

definition activeContentProviderId :: "details_route \<Rightarrow> details_data \<Rightarrow> string option" where
  "activeContentProviderId r d =
     (if isRemoteRoute r then Some (providerIdParam r)
      else
        let m = details_manga r d
        in coalesce
             [map_option cs_provider_id (Option.bind (Option.bind m m_bindings) mb_content),
              Option.bind m m_contentProviderId, Option.bind m m_sourceId,
              map_option cs_provider_id (Option.bind (Option.bind m m_meta) mm_content)])"

definition activeProvider :: "details_route \<Rightarrow> details_data \<Rightarrow> source option" where
  "activeProvider r d = List.find (\<lambda>s. Some (src_id s) = activeContentProviderId r d) (dd_sources d)"

definition contentProviderName :: "details_route \<Rightarrow> details_data \<Rightarrow> string option" where
  "contentProviderName r d =
     (case activeProvider r d of
        Some s \<Rightarrow>
          let lang = str_or [src_language s, src_lang s] []
          in Some (src_name s @ (if lang \<noteq> [] then '' ('' @ js_upper lang @ '')'' else []))
      | None \<Rightarrow> if truthy_str (activeContentProviderId r d) then activeContentProviderId r d else None)"

definition readingCta :: "details_route \<Rightarrow> details_data \<Rightarrow> reading_cta_info option" where
  "readingCta r d = getReadingCtaInfo (Some (details_chapters r d)) (map_option Arg_Manga (details_manga r d))"

definition isUnavailable :: "details_route \<Rightarrow> details_data \<Rightarrow> bool" where
  "isUnavailable r d =
     (Option.bind (details_manga r d) m_availability = Some Unavailable \<or>
      Option.bind (dd_provider d) m_availability = Some Unavailable \<or>
      Option.bind (Option.bind (details_manga r d) m_meta) mm_availability = Some Unavailable)"

definition hasZeroChapters :: "details_route \<Rightarrow> details_data \<Rightarrow> bool" where
  "hasZeroChapters r d =
     (if uses_remote_chapters r d
      then \<not> dd_remoteLoading d \<and> dd_remoteChapters d \<noteq> None \<and> length (details_chapters r d) = 0
      else \<not> dd_localLoading d \<and> dd_localChapters d \<noteq> None \<and> length (details_chapters r d) = 0)"

section \<open>Leaving the page\<close>

datatype details_target =
    To_Provider_Reader string string string "rat option"
  | To_Reader string string "rat option"

definition cta_search :: "reading_cta_info \<Rightarrow> rat option" where
  "cta_search info = (if cta_page info > 1 then Some (cta_page info) else None)"

definition handlePrimaryCta :: "details_route \<Rightarrow> details_data \<Rightarrow> details_target option" where
  "handlePrimaryCta r d =
     (case readingCta r d of
        None \<Rightarrow> None
      | Some info \<Rightarrow>
          let m = details_manga r d
          in Some
               (if uses_remote_chapters r d then
                  To_Provider_Reader
                    (str_or [Some (providerIdParam r), Option.bind m m_sourceId] ''mangafox'')
                    (str_or [Some (remoteIdParam r), Option.bind m m_contentRemoteId, map_option m_id m] [])
                    (cta_chapterId info) (cta_search info)
                else
                  To_Reader (str_or [Some (targetMangaId r d), map_option m_id m] []) (cta_chapterId info)
                    (cta_search info)))"

text \<open>The request of the removal, when the user confirms it.\<close>

definition handleConfirmRemoveFromLibrary :: "bool \<Rightarrow> details_route \<Rightarrow> details_data \<Rightarrow> mutation option" where
  "handleConfirmRemoveFromLibrary confirmed r d =
     (if confirmed \<and> isInLibrary r d \<and> targetMangaId r d \<noteq> []
      then Some (useDeleteLibraryMangaMutation (targetMangaId r d)) else None)"

section \<open>Properties\<close>

lemma set_enabled_some [simp]: "qo_enabled (set_enabled (Some b) q) = b"
  by (simp add: set_enabled_def)

lemma libraryEntry_local:
  assumes "\<not> isRemoteRoute r" "libraryEntry r d = Some i"
  shows "dr_mangaId r = Some i"
  using assms by (auto simp: libraryEntry_def find_Some_iff)

text \<open>
  The details page asks one source for each thing. The details of a library manga and of a provider's are
  never asked for together, nor are the two chapter lists; the chapters shown come from the list whose
  query can be enabled; no enabled query has an empty id; a route of the library asks for the id it
  names; and on a provider's route the local list is read only under the id the provider's answer gives.
\<close>

theorem details_one_source:
  "\<not> (qo_enabled (dq_local (details_queries_of r d)) \<and> qo_enabled (dq_remote (details_queries_of r d))) \<and>
   \<not> (qo_enabled (dq_localChapters (details_queries_of r d)) \<and> qo_enabled (dq_remoteChapters (details_queries_of r d))) \<and>
   (qo_enabled (dq_localChapters (details_queries_of r d)) \<longrightarrow>
      chaptersData r d = dd_localChapters d \<and> targetMangaId r d \<noteq> []) \<and>
   (qo_enabled (dq_remoteChapters (details_queries_of r d)) \<longrightarrow>
      chaptersData r d = dd_remoteChapters d \<and> providerIdParam r \<noteq> [] \<and> remoteIdParam r \<noteq> []) \<and>
   (qo_enabled (dq_jobs (details_queries_of r d)) \<longleftrightarrow> isInLibrary r d \<and> targetMangaId r d \<noteq> []) \<and>
   (\<not> isRemoteRoute r \<longrightarrow> targetMangaId r d = str_or [dr_mangaId r] []) \<and>
   (isRemoteRoute r \<and> qo_enabled (dq_localChapters (details_queries_of r d)) \<longrightarrow>
      Option.bind (dd_remote d) m_libraryMangaId = Some (targetMangaId r d))"
proof (rule conjI7; (intro impI)?)
  show "targetMangaId r d = str_or [dr_mangaId r] []" if "\<not> isRemoteRoute r"
    using libraryEntry_local [OF that, of d] by (cases "libraryEntry r d") (auto simp: targetMangaId_def)
  show "Option.bind (dd_remote d) m_libraryMangaId = Some (targetMangaId r d)"
    if "isRemoteRoute r \<and> qo_enabled (dq_localChapters (details_queries_of r d))"
    using that by (auto simp: details_queries_of_def Let_def useChapterList_def isInLibrary_def libraryEntry_def
        targetMangaId_def truthy_str_def split: option.splits if_splits)
qed (auto simp: details_queries_of_def Let_def useChapterList_def useProviderChapterList_def useMangaDetails_def
    useProviderMangaDetails_def chaptersData_def uses_remote_chapters_def)

text \<open>\<open>details_one_source\<close> for a provider's manga that is in the library as \<open>m1\<close>.\<close>

definition sample_remote_route :: details_route where
  "sample_remote_route =
     \<lparr>dr_pathname = ''/providers/p/manga/x'', dr_mangaId = None, dr_providerId = Some ''p'', dr_remoteId = Some ''x''\<rparr>"

definition sample_details :: "manga_chapter list \<Rightarrow> details_data" where
  "sample_details cs =
     \<lparr>dd_library = [], dd_remote = Some ((blank_manga ''x'')\<lparr>m_libraryMangaId := Some ''m1''\<rparr>), dd_local = None,
      dd_provider = None, dd_sources = [], dd_localChapters = Some \<lparr>clr_chapters = cs\<rparr>, dd_remoteChapters = None,
      dd_jobs = [], dd_localLoading = False, dd_remoteLoading = False\<rparr>"

theorem details_one_source_witness:
  "chaptersData sample_remote_route (sample_details []) = Some \<lparr>clr_chapters = []\<rparr> \<and>
   targetMangaId sample_remote_route (sample_details []) \<noteq> []"
proof -
  have "qo_enabled (dq_localChapters (details_queries_of sample_remote_route (sample_details [])))" by code_simp
  with details_one_source [of sample_remote_route "sample_details []"] show ?thesis
    by (simp add: sample_details_def)
qed

lemma getReadingCtaInfo_page:
  assumes "getReadingCtaInfo (Some cs) arg = Some info"
  shows "\<exists>c \<in> set cs. cta_chapterId info = c_id c \<and> (cta_page info = 1 \<or> cta_page info = getLastPage c \<and> 1 < getLastPage c)"
  using assms
proof (cases rule: getReadingCtaInfo_cases)
  case (later c)
  then show ?thesis using next_chapter_Some [OF later(1)] by (auto simp: cta_simple_def)
next
  case start
  then show ?thesis using hd_sort_chapters [OF start(2)] by (auto simp: cta_simple_def)
next
  case reread
  then show ?thesis using hd_sort_chapters [OF reread(2)] by (auto simp: cta_simple_def)
qed (auto simp: in_progress_def)

text \<open>
  The button of the details page opens a chapter the page shows, in the reader of the source the page
  reads: a provider's reader exactly when the provider's chapters are shown. It asks for a page only past
  the first, the one that chapter was left at. It does nothing exactly when no chapter is shown, in
  particular while \<open>hasZeroChapters\<close> holds. And while a chapter is being pulled, by a job or optimistically,
  the chapter list is fetched again every three seconds.
\<close>

theorem details_cta:
  "(\<forall>p q ch s. handlePrimaryCta r d = Some (To_Provider_Reader p q ch s) \<longrightarrow> uses_remote_chapters r d \<and>
      (\<exists>c \<in> set (details_chapters r d). ch = c_id c \<and> (s = None \<or> s = Some (getLastPage c) \<and> 1 < getLastPage c)) \<and>
      (providerIdParam r \<noteq> [] \<and> remoteIdParam r \<noteq> [] \<longrightarrow> p = providerIdParam r \<and> q = remoteIdParam r)) \<and>
   (\<forall>m ch s. handlePrimaryCta r d = Some (To_Reader m ch s) \<longrightarrow> \<not> uses_remote_chapters r d \<and>
      (\<exists>c \<in> set (details_chapters r d). ch = c_id c \<and> (s = None \<or> s = Some (getLastPage c) \<and> 1 < getLastPage c)) \<and>
      (targetMangaId r d \<noteq> [] \<longrightarrow> m = targetMangaId r d)) \<and>
   (handlePrimaryCta r d = None \<longleftrightarrow> details_chapters r d = []) \<and>
   (hasZeroChapters r d \<longrightarrow> handlePrimaryCta r d = None) \<and>
   (hasActivePullJobs d optimistic \<longrightarrow>
      chapters_refetchInterval (Some (hasActivePullJobs d optimistic)) (Some (details_chapters r d)) = Some 3000)"
proof -
  let ?cs = "details_chapters r d"
  have none: "readingCta r d = None \<longleftrightarrow> ?cs = []"
    by (simp add: readingCta_def getReadingCtaInfo_def Let_def)
  have page: "\<exists>c \<in> set ?cs. cta_chapterId info = c_id c \<and>
      (cta_search info = None \<or> cta_search info = Some (getLastPage c) \<and> 1 < getLastPage c)"
    if "readingCta r d = Some info" for info
    using getReadingCtaInfo_page [OF that [unfolded readingCta_def]] by (auto simp: cta_search_def)
  show ?thesis
  proof (rule conjI5)
    show "\<forall>p q ch s. handlePrimaryCta r d = Some (To_Provider_Reader p q ch s) \<longrightarrow> uses_remote_chapters r d \<and>
        (\<exists>c \<in> set ?cs. ch = c_id c \<and> (s = None \<or> s = Some (getLastPage c) \<and> 1 < getLastPage c)) \<and>
        (providerIdParam r \<noteq> [] \<and> remoteIdParam r \<noteq> [] \<longrightarrow> p = providerIdParam r \<and> q = remoteIdParam r)"
      using page by (auto simp: handlePrimaryCta_def Let_def truthy_str_def split: option.splits if_splits)
    show "\<forall>m ch s. handlePrimaryCta r d = Some (To_Reader m ch s) \<longrightarrow> \<not> uses_remote_chapters r d \<and>
        (\<exists>c \<in> set ?cs. ch = c_id c \<and> (s = None \<or> s = Some (getLastPage c) \<and> 1 < getLastPage c)) \<and>
        (targetMangaId r d \<noteq> [] \<longrightarrow> m = targetMangaId r d)"
      using page by (auto simp: handlePrimaryCta_def Let_def truthy_str_def split: option.splits if_splits)
    show "handlePrimaryCta r d = None \<longleftrightarrow> ?cs = []"
      using none by (auto simp: handlePrimaryCta_def Let_def split: option.split)
    show "hasZeroChapters r d \<longrightarrow> handlePrimaryCta r d = None"
      using none by (auto simp: hasZeroChapters_def handlePrimaryCta_def split: if_splits)
    show "hasActivePullJobs d optimistic \<longrightarrow>
        chapters_refetchInterval (Some (hasActivePullJobs d optimistic)) (Some ?cs) = Some 3000"
      by (simp add: chapters_refetchInterval_def)
  qed
qed

text \<open>\<open>details_cta\<close> for a chapter left at page 7 of a provider's manga in the library.\<close>

theorem details_cta_witness:
  "let d = sample_details [(blank_manga_chapter ''c1'')\<lparr>c_last_read_page := Some 7\<rparr>]
   in \<exists>c \<in> set (details_chapters sample_remote_route d). ''c1'' = c_id c"
proof -
  let ?d = "sample_details [(blank_manga_chapter ''c1'')\<lparr>c_last_read_page := Some 7\<rparr>]"
  have "handlePrimaryCta sample_remote_route ?d = Some (To_Reader ''m1'' ''c1'' (Some 7))" by code_simp
  with details_cta [of sample_remote_route ?d] show ?thesis unfolding Let_def by blast
qed

end
