(* ===== verification/Routing.thy ===== *)
theory Routing
  imports Types_Api Json Reader_Progress
begin

text \<open>
  The search parameters and the redirects of \<open>src/router.tsx\<close>, and the search box of
  \<open>routes/ExplorePage.tsx\<close> with its debounce. A search parameter is a JSON value, \<open>JUndef\<close> when it
  is missing; \<open>number\<close> is the conversion of a string by \<open>Number\<close>, \<open>None\<close> for \<open>NaN\<close>.
\<close>

section \<open>Search parameters\<close>

definition to_number :: "(string \<Rightarrow> rat option) \<Rightarrow> json \<Rightarrow> rat option" where
  "to_number number v =
     (case v of
        JUndef \<Rightarrow> None | JNull \<Rightarrow> Some 0 | JBool b \<Rightarrow> Some (if b then 1 else 0) | JNum q \<Rightarrow> Some q
      | JStr s \<Rightarrow> number s | JArr xs \<Rightarrow> number (js_string v) | JObj kvs \<Rightarrow> number (js_string v))"

record explore_search =
  es_mode :: string
  es_q :: "string option"
  es_page :: rat

definition validateExploreSearch :: "(string \<Rightarrow> rat option) \<Rightarrow> json \<Rightarrow> explore_search" where
  "validateExploreSearch number search =
     \<lparr>es_mode = (if jget search ''mode'' = JStr ''latest'' then ''latest'' else ''popular''),
      es_q = (case jget search ''q'' of JStr s \<Rightarrow> if js_trim s \<noteq> [] then Some s else None | _ \<Rightarrow> None),
      es_page =
        (let converted = num_or [to_number number (jget search ''page'')] 1
         in case jget search ''page'' of JNum q \<Rightarrow> if q > 0 then q else converted | _ \<Rightarrow> converted)\<rparr>"

record reader_search =
  rs_mangaId :: "string option"
  rs_page :: search_page

definition validateReaderSearch :: "json \<Rightarrow> reader_search" where
  "validateReaderSearch search =
     \<lparr>rs_mangaId = (case jget search ''mangaId'' of JStr s \<Rightarrow> Some s | _ \<Rightarrow> None),
      rs_page =
        (case jget search ''page'' of
           JStr s \<Rightarrow> if s = ''last'' then Page_String ''last'' else if js_trim s \<noteq> [] then Page_String (js_trim s) else Page_Undefined
         | JNum q \<Rightarrow> if q > 0 then Page_Number q else Page_Undefined
         | _ \<Rightarrow> Page_Undefined)\<rparr>"

section \<open>Redirects\<close>

definition landing_provider :: "source list option \<Rightarrow> string" where
  "landing_provider sources =
     (case sources of
        Some (s # _) \<Rightarrow> if src_id s \<noteq> [] then src_id s else ''mangafox''
      | _ \<Rightarrow> ''mangafox'')"

datatype tab_load = Tab_Redirect string | Tab_Loads string

definition settings_tab :: "string \<Rightarrow> tab_load" where
  "settings_tab tab =
     (if tab \<in> set [''plugins'', ''cache'', ''jobs'', ''about''] then Tab_Loads tab else Tab_Redirect ''plugins'')"

section \<open>The search box of the explore page\<close>

text \<open>
  The state of the page: the search of the address, the text in the box, the dependencies of the two
  effects when they last ran, and the pending debounce. The navigations the page asks for are outputs: the
  provider and the members laid over the search of the address; an \<open>undefined\<close> one is dropped.
\<close>

datatype explore_nav = Explore_Nav string "(string \<times> json) list"

record explore =
  ex_search :: explore_search
  ex_term :: string
  ex_provider :: string
  ex_synced :: "string option"
  ex_deps :: "(string \<times> string \<times> string) option"
  ex_timer :: "nat option"
  ex_nextTimer :: nat

definition ex_query :: "explore \<Rightarrow> string" where
  "ex_query s = coalesce_or [es_q (ex_search s)] []"

definition search_members :: "explore_search \<Rightarrow> (string \<times> json) list" where
  "search_members s =
     [(''mode'', JStr (es_mode s)), (''q'', json_of_opt JStr (es_q s)), (''page'', JNum (es_page s))]"

text \<open>The search the page gets for a navigation from the search \<open>prev\<close>.\<close>

definition navigated ::
    "(string \<Rightarrow> rat option) \<Rightarrow> explore_search \<Rightarrow> (string \<times> json) list \<Rightarrow> explore_search" where
  "navigated number prev patch =
     validateExploreSearch number (JObj (foldl (\<lambda>ms (k, v). mset_key k v ms) (search_members prev) patch))"

definition q_member :: "string \<Rightarrow> json" where
  "q_member term = (if term = [] then JUndef else JStr term)"

definition or_mangafox :: "string \<Rightarrow> string" where
  "or_mangafox p = str_or [Some p] ''mangafox''"

text \<open>The two effects: the box follows the query, then the debounce of 500 ms.\<close>

definition sync_effect :: "explore \<Rightarrow> explore" where
  "sync_effect s =
     (if ex_synced s = Some (ex_query s) then s
      else s\<lparr>ex_synced := Some (ex_query s), ex_term := ex_query s\<rparr>)"

definition debounce_effect :: "string \<Rightarrow> explore \<Rightarrow> explore" where
  "debounce_effect term s =
     (let deps = (term, ex_query s, ex_provider s)
      in if ex_deps s = Some deps then s
         else if term = ex_query s then s\<lparr>ex_deps := Some deps, ex_timer := None\<rparr>
         else s\<lparr>ex_deps := Some deps, ex_timer := Some (ex_nextTimer s), ex_nextTimer := ex_nextTimer s + 1\<rparr>)"

text \<open>A commit: the effects of the rendering, and of the next one when the box has changed.\<close>

definition explore_commit :: "explore \<Rightarrow> explore" where
  "explore_commit s =
     (let s1 = debounce_effect (ex_term s) (sync_effect s)
      in if ex_term s1 \<noteq> ex_term s then debounce_effect (ex_term s1) (sync_effect s1) else s1)"

datatype explore_event =
    Arrive explore_search string
  | Type_Term string
  | Enter_Key
  | Debounce nat
  | Source_Change string
  | Mode_Change string
  | Clear_Search
  | Previous_Page bool
  | Following_Page bool bool

definition explore_step :: "explore \<Rightarrow> explore_event \<Rightarrow> explore \<times> explore_nav list" where
  "explore_step s e =
     (let here = or_mangafox (ex_provider s); page = es_page (ex_search s); first = (''page'', JNum 1)
      in case e of
           Arrive new p \<Rightarrow> (explore_commit (s\<lparr>ex_search := new, ex_provider := p\<rparr>), [])
         | Type_Term t \<Rightarrow> (explore_commit (s\<lparr>ex_term := t\<rparr>), [])
         | Enter_Key \<Rightarrow> (s, [Explore_Nav here [(''q'', q_member (ex_term s)), first]])
         | Debounce i \<Rightarrow>
             if ex_timer s = Some i
             then (s\<lparr>ex_timer := None\<rparr>, [Explore_Nav here [(''q'', q_member (ex_term s)), first]])
             else (s, [])
         | Source_Change p \<Rightarrow> (s, [Explore_Nav p [first]])
         | Mode_Change m \<Rightarrow>
             (explore_commit (s\<lparr>ex_term := []\<rparr>), [Explore_Nav here [(''mode'', JStr m), (''q'', JUndef), first]])
         | Clear_Search \<Rightarrow> (explore_commit (s\<lparr>ex_term := []\<rparr>), [Explore_Nav here [(''q'', JUndef), first]])
         | Previous_Page isLoading \<Rightarrow>
             (s, if page \<le> 1 \<or> isLoading then [] else [Explore_Nav here [(''page'', JNum (max 1 (page - 1)))]])
         | Following_Page hasNext isLoading \<Rightarrow>
             (s, if \<not> hasNext \<or> isLoading then [] else [Explore_Nav here [(''page'', JNum (page + 1))]]))"

definition initial_explore :: "explore_search \<Rightarrow> string \<Rightarrow> explore" where
  "initial_explore srch p =
     explore_commit
       \<lparr>ex_search = srch, ex_term = coalesce_or [es_q srch] [], ex_provider = p, ex_synced = None, ex_deps = None,
        ex_timer = None, ex_nextTimer = 0\<rparr>"

section \<open>Search parameters\<close>

definition reader_search_json :: "reader_search \<Rightarrow> json" where
  "reader_search_json s =
     JObj [(''mangaId'', json_of_opt JStr (rs_mangaId s)),
           (''page'', case rs_page s of Page_String t \<Rightarrow> JStr t | Page_Number q \<Rightarrow> JNum q | _ \<Rightarrow> JUndef)]"

lemma trim_last [simp]: "js_trim ''last'' = ''last''"
  by code_simp

text \<open>
  What the pages get from an address is in order, whatever the address holds. The reader's page is
  missing, a positive number, or a text that is not blank and not padded; the query of the explore page is missing or not
  blank, its mode is one of the two, and its page is a positive number or a nonzero one the address
  asked for, so a negative page is passed on. Validating again what was validated changes nothing, so a link the page
  makes from its own parameters leads back to them.
\<close>

theorem search_params_valid:
  "(case rs_page (validateReaderSearch j) of
      Page_Undefined \<Rightarrow> True | Page_Null \<Rightarrow> False | Page_Number q \<Rightarrow> 0 < q
    | Page_String t \<Rightarrow> t \<noteq> [] \<and> js_trim t = t) \<and>
   (es_q (validateExploreSearch number j) \<noteq> Some [] \<and>
      (\<forall>q. es_q (validateExploreSearch number j) = Some q \<longrightarrow> js_trim q \<noteq> []) \<and>
      es_mode (validateExploreSearch number j) \<in> {''popular'', ''latest''} \<and>
      es_page (validateExploreSearch number j) \<noteq> 0) \<and>
   (jget j ''page'' = JNum p \<and> p \<noteq> 0 \<longrightarrow> es_page (validateExploreSearch number j) = p) \<and>
   (validateReaderSearch (reader_search_json (validateReaderSearch j)) = validateReaderSearch j) \<and>
   (navigated number (validateExploreSearch number j) [] = validateExploreSearch number j)"
proof (rule conjI5; (intro impI)?)
  show "case rs_page (validateReaderSearch j) of
      Page_Undefined \<Rightarrow> True | Page_Null \<Rightarrow> False | Page_Number q \<Rightarrow> 0 < q
    | Page_String t \<Rightarrow> t \<noteq> [] \<and> js_trim t = t"
    by (simp add: validateReaderSearch_def split: json.split)
  let ?e = "validateExploreSearch number j"
  have mode: "es_mode ?e \<in> {''popular'', ''latest''}" by (simp add: validateExploreSearch_def)
  have q: "es_q ?e = None \<or> (\<exists>t. es_q ?e = Some t \<and> js_trim t \<noteq> [])"
    by (simp add: validateExploreSearch_def split: json.split)
  have page: "es_page ?e \<noteq> 0"
    by (simp add: validateExploreSearch_def Let_def split: json.split option.split)
  show "es_q ?e \<noteq> Some [] \<and> (\<forall>q. es_q ?e = Some q \<longrightarrow> js_trim q \<noteq> []) \<and>
      es_mode ?e \<in> {''popular'', ''latest''} \<and> es_page ?e \<noteq> 0"
    using mode q page by auto
  show "es_page ?e = p" if "jget j ''page'' = JNum p \<and> p \<noteq> 0"
    using that by (simp add: validateExploreSearch_def Let_def to_number_def)
  have get: "jget (JObj ms) k = mget ms k" for ms k by (simp add: jget_def members_def)
  show "validateReaderSearch (reader_search_json (validateReaderSearch j)) = validateReaderSearch j"
    by (simp add: validateReaderSearch_def reader_search_json_def get mget_Cons json_of_opt_def split: json.split)
  have again: "validateExploreSearch number (JObj (search_members e)) = e"
    if "es_mode e \<in> {''popular'', ''latest''}" "es_q e = None \<or> (\<exists>t. es_q e = Some t \<and> js_trim t \<noteq> [])"
      "es_page e \<noteq> 0" for e
    using that by (cases e) (auto simp: validateExploreSearch_def search_members_def get mget_Cons json_of_opt_def
        to_number_def Let_def)
  show "navigated number ?e [] = ?e" using again [OF mode q page] by (simp add: navigated_def)
qed

text \<open>\<open>search_params_valid\<close> for an address with the page -3: the explore page asks for it.\<close>

theorem search_params_valid_witness:
  "es_page (validateExploreSearch (\<lambda>_. None) (JObj [(''page'', JNum (- 3))])) = - 3"
  by (rule search_params_valid [of "JObj [(''page'', JNum (- 3))]" "\<lambda>_. None" "- 3", THEN conjunct2, THEN conjunct2,
        THEN conjunct1, THEN mp]) (simp add: jget_def members_def mget_Cons)

section \<open>Typing in the search box\<close>

text \<open>The page when its effects have run for what it shows.\<close>

definition explore_settled :: "explore \<Rightarrow> bool" where
  "explore_settled s =
     (ex_synced s = Some (ex_query s) \<and> ex_deps s = Some (ex_term s, ex_query s, ex_provider s) \<and>
      (\<forall>i. ex_timer s = Some i \<longrightarrow> i < ex_nextTimer s \<and> ex_term s \<noteq> ex_query s))"

lemma commit_settled:
  assumes "\<forall>i. ex_timer s = Some i \<longrightarrow> i < ex_nextTimer s"
    and "ex_deps s = Some (ex_term s, ex_query s, ex_provider s) \<Longrightarrow> \<forall>i. ex_timer s = Some i \<longrightarrow> ex_term s \<noteq> ex_query s"
  shows "explore_settled (explore_commit s)"
  using assms
  by (auto simp: explore_settled_def explore_commit_def Let_def debounce_effect_def sync_effect_def ex_query_def)

definition explore_next :: "explore \<Rightarrow> explore_event \<Rightarrow> explore" where
  "explore_next s e = fst (explore_step s e)"

lemma explore_next_settled:
  assumes "explore_settled s"
  shows "explore_settled (explore_next s e)"
proof -
  have ids: "\<forall>i. ex_timer s = Some i \<longrightarrow> i < ex_nextTimer s" using assms by (simp add: explore_settled_def)
  have arrive: "explore_settled (explore_commit (s\<lparr>ex_search := new, ex_provider := p\<rparr>))" for new p
    by (rule commit_settled) (use assms ids in \<open>auto simp: explore_settled_def ex_query_def\<close>)
  have type: "explore_settled (explore_commit (s\<lparr>ex_term := t\<rparr>))" for t
    by (rule commit_settled) (use assms ids in \<open>auto simp: explore_settled_def ex_query_def\<close>)
  have fire: "explore_settled (s\<lparr>ex_timer := None\<rparr>)" using assms by (simp add: explore_settled_def ex_query_def)
  show ?thesis using assms arrive type fire
    by (cases e) (simp_all add: explore_next_def explore_step_def Let_def)
qed

interpretation explore_page: machine explore_next "initial_explore srch p" explore_settled for srch p
proof unfold_locales
  show "explore_settled (initial_explore srch p)"
    unfolding initial_explore_def by (rule commit_settled) simp_all
qed (rule explore_next_settled)

lemma type_term:
  assumes "explore_settled s" "t \<noteq> ex_term s" "t \<noteq> ex_query s"
  shows "explore_next s (Type_Term t) =
    s\<lparr>ex_term := t, ex_deps := Some (t, ex_query s, ex_provider s), ex_timer := Some (ex_nextTimer s),
      ex_nextTimer := ex_nextTimer s + 1\<rparr>"
  using assms
  by (simp add: explore_next_def explore_step_def explore_commit_def debounce_effect_def sync_effect_def
      explore_settled_def Let_def ex_query_def)

lemma arrive_query:
  assumes "explore_settled s" "ex_query s \<noteq> t" "es_q new = Some t"
  shows "ex_term (explore_next s (Arrive new p)) = t" "ex_query (explore_next s (Arrive new p)) = t"
    "ex_timer (explore_next s (Arrive new p)) = None"
  using assms
  by (auto simp: explore_next_def explore_step_def explore_commit_def debounce_effect_def sync_effect_def Let_def
      ex_query_def explore_settled_def)

lemma navigated_query:
  assumes "js_trim t \<noteq> []" "es_mode prev \<in> {''popular'', ''latest''}"
  shows "navigated number prev [(''q'', q_member t), (''page'', JNum 1)] = \<lparr>es_mode = es_mode prev, es_q = Some t, es_page = 1\<rparr>"
  using assms
  by (auto simp: navigated_def validateExploreSearch_def jget_def members_def mget_mset_key search_members_def mget_Cons
      q_member_def Let_def)

text \<open>
  Typing in the search box. From any state the explore page can reach, typing a new, not blank text
  sets one debounce, and every debounce set before is dropped. When it runs out the page navigates to
  that text on page 1 of the same mode, and when the navigation has arrived the box shows the text
  searched for and nothing is pending. But a text typed after the debounce has run out and before the
  navigation arrives is lost: the box goes back to the text searched for, and nothing is pending.
\<close>

theorem explore_typing:
  assumes "s = run_events explore_next (initial_explore srch p) es"
    and "t \<noteq> ex_term s" "t \<noteq> ex_query s" "js_trim t \<noteq> []" "t' \<noteq> t" "t' \<noteq> ex_query s"
    and "es_mode prev \<in> {''popular'', ''latest''}"
  shows "(let n = ex_nextTimer s; typed = explore_next s (Type_Term t); fired = explore_next typed (Debounce n);
              patch = [(''q'', q_member t), (''page'', JNum 1)]; found = navigated number prev patch;
              done = explore_next fired (Arrive found (ex_provider s));
              late = explore_next (explore_next fired (Type_Term t')) (Arrive found (ex_provider s))
          in (ex_timer typed = Some n \<and> (\<forall>i. i \<noteq> n \<longrightarrow> explore_step typed (Debounce i) = (typed, []))) \<and>
             (snd (explore_step typed (Debounce n)) = [Explore_Nav (or_mangafox (ex_provider s)) patch]) \<and>
             (found = \<lparr>es_mode = es_mode prev, es_q = Some t, es_page = 1\<rparr>) \<and>
             (ex_term done = t \<and> ex_query done = t \<and> ex_timer done = None) \<and>
             (ex_term late = t \<and> ex_query late = t \<and> ex_timer late = None))"
proof -
  have st: "explore_settled s" unfolding assms(1) by (rule explore_page.inv_run)
  let ?n = "ex_nextTimer s" and ?typed = "explore_next s (Type_Term t)"
  let ?fired = "explore_next ?typed (Debounce ?n)"
  note typed = type_term [OF st assms(2,3)]
  have fired: "?fired = ?typed\<lparr>ex_timer := None\<rparr>" unfolding typed by (simp add: explore_next_def explore_step_def)
  have fs: "explore_settled ?fired" by (intro explore_next_settled st)
  have q: "ex_query ?fired = ex_query s" "ex_term ?fired = t"
    unfolding fired unfolding typed by (simp_all add: ex_query_def)
  have ls: "explore_settled (explore_next ?fired (Type_Term t'))" by (rule explore_next_settled [OF fs])
  have lq: "ex_query (explore_next ?fired (Type_Term t')) = ex_query s"
    using type_term [OF fs, of t'] assms(5,6) q by (simp add: ex_query_def)
  let ?new = "\<lparr>es_mode = es_mode prev, es_q = Some t, es_page = 1\<rparr>"
  have t: "es_q ?new = Some t" by simp
  have ne: "ex_query ?fired \<noteq> t" "ex_query (explore_next ?fired (Type_Term t')) \<noteq> t"
    using assms(3) q(1) lq by simp_all
  note fin = arrive_query [OF fs ne(1) t, of "ex_provider s"] and late = arrive_query [OF ls ne(2) t, of "ex_provider s"]
  have out: "explore_step ?typed (Debounce i) = (?typed, [])" if "i \<noteq> ?n" for i
    using that by (simp add: explore_step_def typed)
  have nav: "snd (explore_step ?typed (Debounce ?n)) =
      [Explore_Nav (or_mangafox (ex_provider s)) [(''q'', q_member t), (''page'', JNum 1)]]"
    unfolding typed by (simp add: explore_step_def)
  have set: "ex_timer ?typed = Some ?n" unfolding typed by simp
  show ?thesis
    unfolding Let_def navigated_query [OF assms(4,7)]
    by (intro conjI5 conjI allI impI refl out nav set fin late)
qed

text \<open>\<open>explore_typing\<close> when "nar" is typed on a page just opened and "naru" before the answer.\<close>

theorem explore_typing_witness:
  "let s = initial_explore \<lparr>es_mode = ''popular'', es_q = None, es_page = 1\<rparr> ''p'';
       found = navigated (\<lambda>_. None) (ex_search s) [(''q'', JStr ''nar''), (''page'', JNum 1)]
   in ex_term (run_events explore_next s
        [Type_Term ''nar'', Debounce 0, Type_Term ''naru'', Arrive found ''p'']) = ''nar''"
proof -
  let ?q = "\<lparr>es_mode = ''popular'', es_q = None, es_page = 1\<rparr>"
  have i: "initial_explore ?q ''p'' = \<lparr>ex_search = ?q, ex_term = [], ex_provider = ''p'', ex_synced = Some [],
      ex_deps = Some ([], [], ''p''), ex_timer = None, ex_nextTimer = 0\<rparr>"
    by code_simp
  have nar: "js_trim ''nar'' \<noteq> []" by code_simp
  have "ex_term (explore_next (explore_next (explore_next (explore_next (initial_explore ?q ''p'') (Type_Term ''nar''))
      (Debounce (ex_nextTimer (initial_explore ?q ''p'')))) (Type_Term ''naru''))
      (Arrive (navigated (\<lambda>_. None) ?q [(''q'', q_member ''nar''), (''page'', JNum 1)])
        (ex_provider (initial_explore ?q ''p'')))) = ''nar''"
    by (rule explore_typing [unfolded Let_def, of "initial_explore ?q ''p''" ?q "''p''" "[]" "''nar''" "''naru''" ?q
          "\<lambda>_. None", THEN conjunct2, THEN conjunct2, THEN conjunct2, THEN conjunct2, THEN conjunct1])
      (simp_all add: i ex_query_def nar)
  then show ?thesis by (simp add: i Let_def q_member_def)
qed

end
