(* ===== verification/Jobs_Manager.thy ===== *)
theory Jobs_Manager
  imports Api_Hooks Toasts "HOL-Library.Multiset"
begin

text \<open>
  The jobs tab of the settings, \<open>components/settings/hooks/useJobsManager.ts\<close>: the query, the three mutations
  with their toasts, the filtered list and the statistics. \<open>time\<close> is \<open>new Date(s).getTime()\<close>, \<open>None\<close> for
  \<open>NaN\<close>; a comparator that answers \<open>NaN\<close> leaves the order.
\<close>

section \<open>The query and the mutations\<close>

datatype view_mode = Hierarchical | Flat

definition jobFilter :: "view_mode \<Rightarrow> ((string \<times> json) list) option" where
  "jobFilter v = (if v = Flat then Some [(''all'', JBool True)] else None)"

definition jobs_query :: "view_mode \<Rightarrow> bool option \<Rightarrow> query_opts" where
  "jobs_query v enabled = set_enabled (Some (coalesce_or [enabled] True)) (jobsQueryOptions (jobFilter v))"

definition cancelJobMutation :: "string \<Rightarrow> mutation" where
  "cancelJobMutation i = \<lparr>mu_request = api_cancelJob i, mu_invalidates = [jobs_all]\<rparr>"

definition deleteJobMutation :: "string \<Rightarrow> mutation" where
  "deleteJobMutation i = \<lparr>mu_request = api_deleteJob i, mu_invalidates = [jobs_all]\<rparr>"

definition cleanupJobsMutation :: "string \<Rightarrow> mutation" where
  "cleanupJobsMutation status = \<lparr>mu_request = api_cleanupJobs (Some status), mu_invalidates = [jobs_all]\<rparr>"

definition cleanupJobs :: "string option \<Rightarrow> mutation" where
  "cleanupJobs status = cleanupJobsMutation (coalesce_or [status] ''completed'')"

text \<open>The toast of a cleanup; it does not know the status that was cleaned up.\<close>

definition cleanup_notice :: "rat \<Rightarrow> notice" where
  "cleanup_notice deleted =
     success_notice (''Removed '' @ num_str deleted @ '' completed job'' @ (if deleted = 1 then [] else ''s''))"

definition job_error_detail :: "(json \<Rightarrow> string) \<Rightarrow> shown_error \<Rightarrow> string" where
  "job_error_detail stringify e =
     (if truthy (se_details e)
      then (case se_details e of JArr _ \<Rightarrow> stringify (se_details e) | JObj _ \<Rightarrow> stringify (se_details e) | d \<Rightarrow> js_string d)
      else str_or [se_stack e] [])"

definition job_failure :: "(json \<Rightarrow> string) \<Rightarrow> string \<Rightarrow> shown_error \<Rightarrow> notice" where
  "job_failure stringify label e =
     (str_or [se_message e] label, Toast_Error, Some (job_error_detail stringify e))"

section \<open>The list and the statistics\<close>

definition status_text :: "job_status \<Rightarrow> string" where
  "status_text s =
     (case s of Job_Pending \<Rightarrow> ''pending'' | Job_Running \<Rightarrow> ''running'' | Job_Completed \<Rightarrow> ''completed''
      | Job_Failed \<Rightarrow> ''failed'')"

definition job_keep :: "string \<Rightarrow> string \<Rightarrow> job \<Rightarrow> bool" where
  "job_keep statusFilter typeFilter j =
     ((statusFilter = ''all'' \<or> status_text (j_status j) = statusFilter) \<and>
      (js_trim typeFilter = [] \<or> js_includes (js_lower (j_type j)) (js_trim (js_lower typeFilter))))"

definition job_cmp :: "(string \<Rightarrow> rat option) \<Rightarrow> job \<Rightarrow> job \<Rightarrow> rat" where
  "job_cmp time a b =
     (case (time (j_created_at b), time (j_created_at a)) of (Some x, Some y) \<Rightarrow> x - y | _ \<Rightarrow> 0)"

definition filteredJobs :: "(string \<Rightarrow> rat option) \<Rightarrow> job list \<Rightarrow> string \<Rightarrow> string \<Rightarrow> job list" where
  "filteredJobs time allJobs statusFilter typeFilter =
     js_sort (job_cmp time) (filter (job_keep statusFilter typeFilter) allJobs)"

record jobs_stats =
  js_active :: nat
  js_pending :: nat
  js_completed :: nat
  js_failed :: nat

definition stats_step :: "jobs_stats \<Rightarrow> job \<Rightarrow> jobs_stats" where
  "stats_step s j =
     (case j_status j of
        Job_Running \<Rightarrow> s\<lparr>js_active := js_active s + 1\<rparr>
      | Job_Pending \<Rightarrow> s\<lparr>js_pending := js_pending s + 1\<rparr>
      | Job_Completed \<Rightarrow> s\<lparr>js_completed := js_completed s + 1\<rparr>
      | Job_Failed \<Rightarrow> s\<lparr>js_failed := js_failed s + 1\<rparr>)"

definition stats :: "job list \<Rightarrow> jobs_stats" where
  "stats allJobs = foldl stats_step \<lparr>js_active = 0, js_pending = 0, js_completed = 0, js_failed = 0\<rparr> allJobs"

section \<open>Properties\<close>

definition status_count :: "jobs_stats \<Rightarrow> job_status \<Rightarrow> nat" where
  "status_count s st =
     (case st of Job_Running \<Rightarrow> js_active s | Job_Pending \<Rightarrow> js_pending s | Job_Completed \<Rightarrow> js_completed s
      | Job_Failed \<Rightarrow> js_failed s)"

lemma status_count_foldl:
  "status_count (foldl stats_step s jobs) st = status_count s st + length (filter (\<lambda>j. j_status j = st) jobs)"
proof (induction jobs arbitrary: s)
  case (Cons j jobs)
  have "status_count (stats_step s j) st = status_count s st + (if j_status j = st then 1 else 0)"
    by (cases st; cases "j_status j") (simp_all add: status_count_def stats_step_def)
  with Cons show ?case by simp
qed simp

lemma status_count_stats: "status_count (stats jobs) st = length (filter (\<lambda>j. j_status j = st) jobs)"
  unfolding stats_def status_count_foldl by (cases st) (simp_all add: status_count_def)

lemma status_text_inj [simp]: "status_text s = status_text t \<longleftrightarrow> s = t"
  by (cases s; cases t) (simp_all add: status_text_def)

lemma status_text_not_all [simp]: "status_text s \<noteq> ''all''"
  by (cases s) (simp_all add: status_text_def)

text \<open>
  The numbers of the jobs tab. The four counts add up to the number of jobs; the count of a status is the
  length of the list that status filters; and the list is polled exactly while one of the jobs is
  active or pending.
\<close>

theorem job_stats_agree:
  "(js_active (stats jobs) + js_pending (stats jobs) + js_completed (stats jobs) + js_failed (stats jobs) = length jobs) \<and>
   (status_count (stats jobs) st = length (filteredJobs time jobs (status_text st) [])) \<and>
   (length (filteredJobs time jobs ''all'' []) = length jobs) \<and>
   (jobs_refetchInterval (Some jobs) = (if 0 < js_active (stats jobs) + js_pending (stats jobs) then Some 3000 else None))"
proof (rule conjI4)
  have n: "js_active s = status_count s Job_Running" "js_pending s = status_count s Job_Pending"
    "js_completed s = status_count s Job_Completed" "js_failed s = status_count s Job_Failed" for s
    by (simp_all add: status_count_def)
  show "js_active (stats jobs) + js_pending (stats jobs) + js_completed (stats jobs) + js_failed (stats jobs) = length jobs"
    unfolding n status_count_stats by (induction jobs) (auto, metis job_status.exhaust)
  show "status_count (stats jobs) st = length (filteredJobs time jobs (status_text st) [])"
    unfolding status_count_stats filteredJobs_def length_js_sort
    by (intro arg_cong [where f = length] filter_cong refl) (simp add: job_keep_def)
  show "length (filteredJobs time jobs ''all'' []) = length jobs"
    by (simp add: filteredJobs_def job_keep_def)
  show "jobs_refetchInterval (Some jobs) = (if 0 < js_active (stats jobs) + js_pending (stats jobs) then Some 3000 else None)"
    unfolding n status_count_stats by (auto simp: jobs_refetchInterval_def list_ex_iff filter_empty_conv)
qed

lemma js_insert_cong:
  "(\<And>y. y \<in> set ys \<Longrightarrow> c x y = c' x y) \<Longrightarrow> js_insert c x ys = js_insert c' x ys"
  by (induction ys) auto

lemma js_sort_cong: "(\<And>x y. x \<in> set xs \<Longrightarrow> y \<in> set xs \<Longrightarrow> c x y = c' x y) \<Longrightarrow> js_sort c xs = js_sort c' xs"
proof (induction xs)
  case (Cons x xs)
  have "js_sort c xs = js_sort c' xs" using Cons by simp
  with js_insert_cong [of "js_sort c' xs" c x c'] Cons.prems show ?case by simp
qed simp

text \<open>
  The list of the jobs tab. When the dates of the jobs can be read, the list holds exactly the jobs of the
  chosen status whose type contains the text asked for (letter case and surrounding space ignored),
  the newest first, and jobs of the same instant in the order of the answer.
\<close>

theorem filteredJobs_spec:
  assumes "\<forall>j \<in> set jobs. time (j_created_at j) \<noteq> None"
  shows "(mset (filteredJobs time jobs st ty) = filter_mset (\<lambda>j. (st = ''all'' \<or> status_text (j_status j) = st) \<and>
        (js_trim ty = [] \<or> js_includes (js_lower (j_type j)) (js_lower (js_trim ty)))) (mset jobs)) \<and>
    (sorted_wrt (\<lambda>a b. the (time (j_created_at b)) \<le> the (time (j_created_at a))) (filteredJobs time jobs st ty)) \<and>
    (filter (\<lambda>j. time (j_created_at j) = Some q) (filteredJobs time jobs st ty) =
      filter (\<lambda>j. time (j_created_at j) = Some q \<and> job_keep st ty j) jobs)"
proof -
  let ?at = "\<lambda>j :: job. coalesce_or [time (j_created_at j)] 0"
  let ?shown = "filteredJobs time jobs st ty"
  have at: "\<exists>t. time (j_created_at j) = Some t" if "j \<in> set jobs" for j using assms that by auto
  note c = comparator_flip [OF by_key.comparator_axioms [of ?at]]
  have shown: "?shown = js_sort (\<lambda>a b. by_key ?at b a) (filter (job_keep st ty) jobs)"
    unfolding filteredJobs_def by (rule js_sort_cong) (auto simp: job_cmp_def by_key_def dest!: at)
  have mem: "j \<in> set jobs" if "j \<in> set ?shown" for j using that by (simp add: filteredJobs_def)
  show ?thesis
  proof (rule conjI3)
    show "mset ?shown = filter_mset (\<lambda>j. (st = ''all'' \<or> status_text (j_status j) = st) \<and>
        (js_trim ty = [] \<or> js_includes (js_lower (j_type j)) (js_lower (js_trim ty)))) (mset jobs)"
      unfolding filteredJobs_def mset_js_sort mset_filter
      by (rule arg_cong2 [where f = filter_mset, OF _ refl], rule ext) (simp add: job_keep_def js_lower_trim)
    have the_at: "the (time (j_created_at j)) = ?at j" if "j \<in> set ?shown" for j using at [OF mem [OF that]] by auto
    have srt: "sorted_wrt (\<lambda>a b. ?at b \<le> ?at a) ?shown"
      using comparator.sorted_js_sort [OF c, of "filter (job_keep st ty) jobs"] unfolding shown by (simp add: by_key_def)
    show "sorted_wrt (\<lambda>a b. the (time (j_created_at b)) \<le> the (time (j_created_at a))) ?shown"
      by (rule sorted_wrt_mono_rel [OF _ srt]) (simp only: the_at)
    show "filter (\<lambda>j. time (j_created_at j) = Some q) ?shown =
        filter (\<lambda>j. time (j_created_at j) = Some q \<and> job_keep st ty j) jobs"
    proof (cases "\<exists>a \<in> set jobs. time (j_created_at a) = Some q")
      case True
      then obtain a where a: "a \<in> set jobs" "?at a = q" by auto
      have eq: "time (j_created_at j) = Some q \<longleftrightarrow> by_key ?at j a = 0" if "j \<in> set jobs" for j
        using at [OF that] a by (auto simp: by_key_def)
      have "filter (\<lambda>j. time (j_created_at j) = Some q) ?shown = filter (\<lambda>j. by_key ?at j a = 0) ?shown"
        by (rule filter_cong [OF refl]) (use eq mem in blast)
      also have "\<dots> = filter (\<lambda>j. by_key ?at j a = 0) (filter (job_keep st ty) jobs)"
        unfolding shown by (rule comparator.js_sort_stable [OF c])
      also have "\<dots> = filter (\<lambda>j. time (j_created_at j) = Some q \<and> job_keep st ty j) jobs"
        using eq by (auto intro: filter_cong)
      finally show ?thesis .
    next
      case False
      then show ?thesis using mem by (auto simp: filter_empty_conv)
    qed
  qed
qed

text \<open>\<open>filteredJobs_spec\<close> on two failed jobs, the later one last in the answer.\<close>

definition sample_job :: "string \<Rightarrow> string \<Rightarrow> job" where
  "sample_job i created =
     \<lparr>j_id = i, j_parent_id = None, j_type = ''pull_chapter'', j_payload = None, j_status = Job_Failed, j_retries = 0,
      j_max_retries = 3, j_concurrency_group = None, j_error = None, j_created_at = created, j_updated_at = created,
      j_started_at = None, j_completed_at = None, j_metadata = None, j_child_count = None\<rparr>"

theorem filteredJobs_spec_witness:
  "mset (filteredJobs (\<lambda>s. Some (of_nat (length s))) [sample_job ''a'' ''1'', sample_job ''b'' ''12''] ''failed'' []) =
     {#sample_job ''a'' ''1'', sample_job ''b'' ''12''#}"
  using conjunct1 [OF filteredJobs_spec [of "[sample_job ''a'' ''1'', sample_job ''b'' ''12'']"
      "\<lambda>s. Some (of_nat (length s))" "''failed''" "[]"]]
  by (simp add: sample_job_def status_text_def)

end
