(* ===== verification/Add_Provider.thy ===== *)
theory Add_Provider
  imports Api_Hooks Toasts
begin

text \<open>
  The dialog that binds a manga of the library to one more provider, \<open>components/hooks/useAddProviderSearch.ts\<close>
  with \<open>components/AddProviderDialog.tsx\<close>: the search with its debounce, the choice of a result and the
  request of the binding. \<open>remote i p q\<close> is what the search with number \<open>i\<close>, sent to provider \<open>p\<close> with the
  text \<open>q\<close>, answers if it answers.
\<close>

record add_opts =
  ao_mangaId :: string
  ao_sources :: "source list"
  ao_existing :: "provider_ref list"
  ao_mangaTitle :: "string option"

datatype add_provider_step = Step_Pick | Step_Confirm

text \<open>
  \<open>ap_deps\<close> are the dependencies of the search effect when it last ran, \<open>ap_timer\<close> its pending debounce with the text,
  \<open>ap_inflight\<close> the searches not answered yet and \<open>ap_searching\<close> the latest of them while it is pending.
\<close>

record add_provider =
  ap_open :: bool
  ap_step :: add_provider_step
  ap_provider :: "string option"
  ap_query :: string
  ap_results :: "manga list"
  ap_selected :: "manga option"
  ap_error :: "string option"
  ap_deps :: "(string \<times> add_provider_step \<times> string option \<times> bool) option"
  ap_timer :: "(nat \<times> string) option"
  ap_inflight :: "(nat \<times> string \<times> string) list"
  ap_searching :: "nat option"
  ap_adding :: bool
  ap_next :: nat

definition getInitialProviderId :: "add_opts \<Rightarrow> string" where
  "getInitialProviderId o' =
     coalesce_or
       [map_option src_id (List.find (\<lambda>s. src_id s \<notin> set (map pr_provider_id (ao_existing o'))) (ao_sources o')),
        (case ao_sources o' of [] \<Rightarrow> None | s # _ \<Rightarrow> Some (src_id s))] []"

definition resetState :: "add_opts \<Rightarrow> add_provider \<Rightarrow> add_provider" where
  "resetState o' s =
     s\<lparr>ap_step := Step_Pick, ap_provider := Some (getInitialProviderId o'), ap_query := coalesce_or [ao_mangaTitle o'] [],
       ap_results := [], ap_selected := None, ap_error := None\<rparr>"

definition handleOpenChange :: "add_opts \<Rightarrow> bool \<Rightarrow> add_provider \<Rightarrow> add_provider" where
  "handleOpenChange o' b s = (if b then s else resetState o' s)\<lparr>ap_open := b\<rparr>"

text \<open>The effect; a change of its dependencies drops the pending debounce.\<close>

definition search_effect :: "add_provider \<Rightarrow> add_provider" where
  "search_effect s =
     (let deps = (ap_query s, ap_step s, ap_provider s, ap_open s); q = js_trim (ap_query s)
      in if ap_deps s = Some deps then s
         else
           let s1 = s\<lparr>ap_deps := Some deps, ap_timer := None\<rparr>
           in if ap_step s \<noteq> Step_Pick \<or> \<not> truthy_str (ap_provider s) \<or> \<not> ap_open s then s1
              else if q = [] then s1\<lparr>ap_results := [], ap_error := None\<rparr>
              else s1\<lparr>ap_timer := Some (ap_next s, q), ap_next := ap_next s + 1\<rparr>)"

definition initial_add_provider :: "add_opts \<Rightarrow> add_provider" where
  "initial_add_provider o' =
     search_effect
       \<lparr>ap_open = False, ap_step = Step_Pick, ap_provider = Some (getInitialProviderId o'),
        ap_query = coalesce_or [ao_mangaTitle o'] [], ap_results = [], ap_selected = None, ap_error = None,
        ap_deps = None, ap_timer = None, ap_inflight = [], ap_searching = None, ap_adding = False,
        ap_next = 0\<rparr>"

datatype add_output = Search_Request request | Binding_Request mutation | Add_Notice notice

text \<open>\<open>searchMutation.mutate(q)\<close>: without a provider it fails at once.\<close>

definition searchMutation :: "string \<Rightarrow> add_provider \<Rightarrow> add_provider \<times> add_output list" where
  "searchMutation q s =
     (if \<not> truthy_str (ap_provider s) then (s\<lparr>ap_error := Some ''No provider selected'', ap_results := []\<rparr>, [])
      else
        (s\<lparr>ap_inflight := ap_inflight s @ [(ap_next s, the (ap_provider s), q)], ap_searching := Some (ap_next s),
           ap_next := ap_next s + 1\<rparr>,
         [Search_Request (api_searchManga (the (ap_provider s)) q None)]))"

text \<open>The answer to a search, or its failure; either ends the search.\<close>

definition end_search :: "nat \<Rightarrow> add_provider \<Rightarrow> add_provider" where
  "end_search i s =
     s\<lparr>ap_inflight := filter (\<lambda>(j, _). j \<noteq> i) (ap_inflight s),
       ap_searching := (if ap_searching s = Some i then None else ap_searching s)\<rparr>"

definition binding_ref :: "manga \<Rightarrow> string \<Rightarrow> provider_ref" where
  "binding_ref m p =
     \<lparr>pr_provider_id = p, pr_provider_manga_id = str_or [Some (m_id m), m_contentRemoteId m] [],
      pr_manga_title = m_title m\<rparr>"

definition add_keys :: "string \<Rightarrow> query_key list" where
  "add_keys mangaId = [manga_details mangaId, manga_all, library_all, chapters_list mangaId]"

definition handleConfirm :: "add_opts \<Rightarrow> add_provider \<Rightarrow> add_output list" where
  "handleConfirm o' s =
     (if ap_selected s = None \<or> \<not> truthy_str (ap_provider s)
      then [Add_Notice (''Failed to add provider: No selection'', Toast_Error, None)]
      else [Binding_Request
              \<lparr>mu_request = api_addBinding (ao_mangaId o') (binding_ref (the (ap_selected s)) (the (ap_provider s))) None,
               mu_invalidates = add_keys (ao_mangaId o')\<rparr>])"

definition added_notice :: "add_opts \<Rightarrow> add_provider \<Rightarrow> notice" where
  "added_notice o' s =
     success_notice (''Provider \"'' @
       coalesce_or [map_option src_name (List.find (\<lambda>p. Some (src_id p) = ap_provider s) (ao_sources o'))] ''undefined'' @
       ''\" added'')"

text \<open>
  What can happen: typing and choosing a provider in the first step, the debounce, the answer or the failure
  of a search, a click on a result of the list, which is shown while no search is pending, going back, the
  confirmation, enabled while no binding is being added, the answer to the request of the binding, and the dialog being
  opened or closed.
\<close>

datatype add_event =
    Set_Query string
  | Select_Provider "string option"
  | Search_Timer nat
  | Search_Answer nat
  | Search_Failure nat "string option"
  | Click_Result nat
  | Back_To_Pick
  | Confirm_Binding
  | Binding_Added
  | Binding_Failed string
  | Set_Open bool

definition picking :: "add_provider \<Rightarrow> bool" where
  "picking s = (ap_open s \<and> ap_step s = Step_Pick)"

definition add_handler ::
    "add_opts \<Rightarrow> (nat \<Rightarrow> string \<Rightarrow> string \<Rightarrow> manga list) \<Rightarrow> add_provider \<Rightarrow> add_event \<Rightarrow> add_provider \<times> add_output list" where
  "add_handler o' remote s e =
     (case e of
        Set_Query q \<Rightarrow> (if picking s then s\<lparr>ap_query := q\<rparr> else s, [])
      | Select_Provider p \<Rightarrow> (if picking s then s\<lparr>ap_provider := p\<rparr> else s, [])
      | Search_Timer i \<Rightarrow>
          (case ap_timer s of
             Some (j, q) \<Rightarrow> if j = i then searchMutation q (s\<lparr>ap_timer := None\<rparr>) else (s, [])
           | None \<Rightarrow> (s, []))
      | Search_Answer i \<Rightarrow>
          (case map_of (ap_inflight s) i of
             Some (p, q) \<Rightarrow> ((end_search i s)\<lparr>ap_results := remote i p q, ap_error := None\<rparr>, [])
           | None \<Rightarrow> (s, []))
      | Search_Failure i msg \<Rightarrow>
          (case map_of (ap_inflight s) i of
             Some _ \<Rightarrow> ((end_search i s)\<lparr>ap_error := Some (str_or [msg] ''Search failed''), ap_results := []\<rparr>, [])
           | None \<Rightarrow> (s, []))
      | Click_Result k \<Rightarrow>
          if picking s \<and> ap_searching s = None \<and> k < length (ap_results s)
          then (s\<lparr>ap_selected := Some (ap_results s ! k), ap_step := Step_Confirm\<rparr>, []) else (s, [])
      | Back_To_Pick \<Rightarrow> (s\<lparr>ap_step := Step_Pick\<rparr>, [])
      | Confirm_Binding \<Rightarrow>
          if ap_open s \<and> ap_step s = Step_Confirm \<and> \<not> ap_adding s
          then (s\<lparr>ap_adding := ap_selected s \<noteq> None \<and> truthy_str (ap_provider s)\<rparr>, handleConfirm o' s) else (s, [])
      | Binding_Added \<Rightarrow>
          if ap_adding s
          then (handleOpenChange o' False (s\<lparr>ap_adding := False\<rparr>), [Add_Notice (added_notice o' s)]) else (s, [])
      | Binding_Failed msg \<Rightarrow>
          if ap_adding s
          then (s\<lparr>ap_adding := False\<rparr>, [Add_Notice (''Failed to add provider: '' @ msg, Toast_Error, None)]) else (s, [])
      | Set_Open b \<Rightarrow> (handleOpenChange o' b s, []))"

definition add_step ::
    "add_opts \<Rightarrow> (nat \<Rightarrow> string \<Rightarrow> string \<Rightarrow> manga list) \<Rightarrow> add_provider \<Rightarrow> add_event \<Rightarrow> add_provider \<times> add_output list" where
  "add_step o' remote s e = (let (s1, os) = add_handler o' remote s e in (search_effect s1, os))"

definition add_next :: "add_opts \<Rightarrow> (nat \<Rightarrow> string \<Rightarrow> string \<Rightarrow> manga list) \<Rightarrow> add_provider \<Rightarrow> add_event \<Rightarrow> add_provider" where
  "add_next o' remote s e = fst (add_step o' remote s e)"

section \<open>Searches\<close>

text \<open>A pending debounce is for the provider and the text that are shown.\<close>

definition debounce_ok :: "add_provider \<Rightarrow> bool" where
  "debounce_ok s =
     (\<forall>i q. ap_timer s = Some (i, q) \<longrightarrow>
        picking s \<and> truthy_str (ap_provider s) \<and> q = js_trim (ap_query s) \<and> q \<noteq> [])"

definition add_inv :: "add_provider \<Rightarrow> bool" where
  "add_inv s = (ap_deps s = Some (ap_query s, ap_step s, ap_provider s, ap_open s) \<and> debounce_ok s)"

lemma effect_inv:
  "(ap_deps s = Some (ap_query s, ap_step s, ap_provider s, ap_open s) \<Longrightarrow> debounce_ok s) \<Longrightarrow> add_inv (search_effect s)"
proof (cases "ap_deps s = Some (ap_query s, ap_step s, ap_provider s, ap_open s)")
  case True
  assume "ap_deps s = Some (ap_query s, ap_step s, ap_provider s, ap_open s) \<Longrightarrow> debounce_ok s"
  with True show ?thesis by (simp add: search_effect_def add_inv_def)
next
  case False
  then show ?thesis by (simp add: search_effect_def add_inv_def debounce_ok_def picking_def Let_def)
qed

text \<open>No handler sets a debounce, and none touches the dependencies.\<close>

lemma searchMutation_timer:
  "ap_timer (fst (searchMutation q s)) = ap_timer s" "ap_deps (fst (searchMutation q s)) = ap_deps s"
  by (simp_all add: searchMutation_def)

lemma open_change_timer:
  "ap_timer (handleOpenChange o' b s) = ap_timer s" "ap_deps (handleOpenChange o' b s) = ap_deps s"
  by (simp_all add: handleOpenChange_def resetState_def)

lemma end_search_timer: "ap_timer (end_search i s) = ap_timer s" "ap_deps (end_search i s) = ap_deps s"
  by (simp_all add: end_search_def)

lemma handler_timer:
  "ap_timer (fst (add_handler o' remote s e)) \<in> {None, ap_timer s} \<and> ap_deps (fst (add_handler o' remote s e)) = ap_deps s"
  unfolding add_handler_def
  by (cases e) (simp_all only: add_event.case open_change_timer end_search_timer searchMutation_timer fst_conv
      split: option.split prod.split if_split, auto simp: open_change_timer end_search_timer searchMutation_timer)

lemma add_next_inv:
  assumes "add_inv s"
  shows "add_inv (add_next o' remote s e)"
proof -
  let ?t = "fst (add_handler o' remote s e)"
  have "add_inv (search_effect ?t)"
  proof (rule effect_inv)
    assume "ap_deps ?t = Some (ap_query ?t, ap_step ?t, ap_provider ?t, ap_open ?t)"
    with assms handler_timer [of o' remote s e]
    have "ap_query ?t = ap_query s" "ap_step ?t = ap_step s" "ap_provider ?t = ap_provider s" "ap_open ?t = ap_open s"
      by (simp_all add: add_inv_def)
    with assms handler_timer [of o' remote s e] show "debounce_ok ?t"
      by (auto simp: add_inv_def debounce_ok_def picking_def)
  qed
  then show ?thesis by (simp add: add_next_def add_step_def split_beta)
qed

interpretation add_dialog: machine "add_next o' remote" "initial_add_provider o'" add_inv for o' remote
proof unfold_locales
  show "add_inv (initial_add_provider o')"
    unfolding initial_add_provider_def by (rule effect_inv) (simp add: debounce_ok_def)
qed (rule add_next_inv)

lemma search_output:
  assumes "add_inv s" "Search_Request r \<in> set (snd (add_step o' remote s e))"
  shows "picking s \<and> truthy_str (ap_provider s) \<and> js_trim (ap_query s) \<noteq> [] \<and>
    r = api_searchManga (the (ap_provider s)) (js_trim (ap_query s)) None \<and> ap_timer s \<noteq> None \<and>
    ap_timer (add_next o' remote s e) = None"
proof -
  have out: "Search_Request r \<in> set (snd (add_handler o' remote s e))"
    using assms(2) by (simp add: add_step_def split_beta)
  then obtain i where e: "e = Search_Timer i"
    by (cases e) (auto simp: add_handler_def handleConfirm_def split: option.splits if_splits)
  with out obtain q where t: "ap_timer s = Some (i, q)"
    by (auto simp: add_handler_def split: option.splits if_splits)
  with assms(1) have ok: "picking s" "truthy_str (ap_provider s)" "q = js_trim (ap_query s)" "q \<noteq> []"
    by (auto simp: add_inv_def debounce_ok_def)
  have "search_effect (fst (searchMutation q (s\<lparr>ap_timer := None\<rparr>))) = fst (searchMutation q (s\<lparr>ap_timer := None\<rparr>))"
    using assms(1) ok by (simp add: search_effect_def searchMutation_def add_inv_def Let_def)
  then show ?thesis using out t ok
    by (auto simp: e add_next_def add_step_def add_handler_def searchMutation_def split_beta)
qed

text \<open>
  What the dialog searches for. In every state it can reach, a search is sent only by the debounce, to the provider
  that is chosen and for the trimmed text in the box, which is not blank, while the dialog is open on
  its first step; and a search sent leaves no debounce. Closing the dialog, leaving the first step or a blank text drop the debounce.
\<close>

theorem add_searches:
  assumes "s = run_events (add_next o' remote) (initial_add_provider o') es"
  shows "(Search_Request r \<in> set (snd (add_step o' remote s e)) \<longrightarrow>
      picking s \<and> truthy_str (ap_provider s) \<and> js_trim (ap_query s) \<noteq> [] \<and>
      r = api_searchManga (the (ap_provider s)) (js_trim (ap_query s)) None \<and>
      ap_timer (add_next o' remote s e) = None) \<and>
    (\<not> picking s \<or> js_trim (ap_query s) = [] \<or> \<not> truthy_str (ap_provider s) \<longrightarrow> ap_timer s = None) \<and>
    (ap_timer s = Some (i, q) \<longrightarrow> snd (add_step o' remote s (Search_Timer i)) =
      [Search_Request (api_searchManga (the (ap_provider s)) (js_trim (ap_query s)) None)])"
proof (rule conjI3; (intro impI)?)
  have inv: "add_inv s" unfolding assms by (rule add_dialog.inv_run)
  note ok = inv [unfolded add_inv_def debounce_ok_def]
  show "picking s \<and> truthy_str (ap_provider s) \<and> js_trim (ap_query s) \<noteq> [] \<and>
      r = api_searchManga (the (ap_provider s)) (js_trim (ap_query s)) None \<and> ap_timer (add_next o' remote s e) = None"
    if "Search_Request r \<in> set (snd (add_step o' remote s e))"
    using search_output [OF inv that] by blast
  show "ap_timer s = None" if "\<not> picking s \<or> js_trim (ap_query s) = [] \<or> \<not> truthy_str (ap_provider s)"
    using that ok by (cases "ap_timer s") auto
  show "snd (add_step o' remote s (Search_Timer i)) =
      [Search_Request (api_searchManga (the (ap_provider s)) (js_trim (ap_query s)) None)]" if "ap_timer s = Some (i, q)"
    using that ok by (simp add: add_step_def add_handler_def searchMutation_def split_beta)
qed

section \<open>Bindings\<close>

text \<open>What the dialog holds when the provider was never changed: results of the provider it opened with.\<close>

definition from_provider :: "(nat \<Rightarrow> string \<Rightarrow> string \<Rightarrow> manga list) \<Rightarrow> string \<Rightarrow> manga \<Rightarrow> bool" where
  "from_provider remote p m = (\<exists>i q. m \<in> set (remote i p q))"

definition paired :: "(nat \<Rightarrow> string \<Rightarrow> string \<Rightarrow> manga list) \<Rightarrow> string \<Rightarrow> add_provider \<Rightarrow> bool" where
  "paired remote p s =
     (ap_provider s = Some p \<and> (\<forall>t \<in> set (ap_inflight s). fst (snd t) = p) \<and>
      (\<forall>m \<in> set (ap_results s). from_provider remote p m) \<and>
      (\<forall>m. ap_selected s = Some m \<longrightarrow> from_provider remote p m))"

lemma paired_effectI: "paired remote p s \<Longrightarrow> paired remote p (search_effect s)"
  by (simp add: paired_def search_effect_def Let_def)

lemma paired_open: "paired remote (getInitialProviderId o') s \<Longrightarrow> paired remote (getInitialProviderId o') (handleOpenChange o' b s)"
  by (simp add: paired_def handleOpenChange_def resetState_def)

lemma paired_handler:
  assumes "paired remote (getInitialProviderId o') s" "\<And>p. e \<noteq> Select_Provider p"
  shows "paired remote (getInitialProviderId o') (fst (add_handler o' remote s e))"
proof (cases e)
  case (Search_Timer i)
  with assms show ?thesis
    by (cases "ap_timer s") (auto simp: add_handler_def paired_def searchMutation_def split: if_splits)
next
  case (Search_Answer i)
  show ?thesis
  proof (cases "map_of (ap_inflight s) i")
    case None
    with Search_Answer assms show ?thesis by (simp add: add_handler_def)
  next
    case (Some t)
    then have "fst t = getInitialProviderId o'" using assms(1) by (auto simp: paired_def dest!: map_of_SomeD)
    then have "\<forall>m \<in> set (remote i (fst t) (snd t)). from_provider remote (getInitialProviderId o') m"
      by (auto simp: from_provider_def)
    with Some Search_Answer assms show ?thesis by (auto simp: add_handler_def paired_def end_search_def split_beta)
  qed
next
  case (Search_Failure i msg)
  with assms show ?thesis
    by (cases "map_of (ap_inflight s) i") (auto simp: add_handler_def paired_def end_search_def)
next
  case (Click_Result k)
  with assms show ?thesis by (simp add: add_handler_def paired_def)
next
  case (Select_Provider p)
  with assms(2) show ?thesis by blast
next
  case Binding_Added
  with assms paired_open [of remote o' "s\<lparr>ap_adding := False\<rparr>" False] show ?thesis
    by (simp add: add_handler_def paired_def)
next
  case (Set_Open b)
  with assms paired_open [of remote o' s b] show ?thesis by (simp add: add_handler_def)
qed (use assms in \<open>simp_all add: add_handler_def paired_def\<close>)

lemma paired_run:
  assumes "list_all (\<lambda>e. \<forall>p. e \<noteq> Select_Provider p) es"
  shows "paired remote (getInitialProviderId o') (run_events (add_next o' remote) (initial_add_provider o') es)"
proof -
  have "paired remote (getInitialProviderId o') (run_events (add_next o' remote) s es)"
    if "paired remote (getInitialProviderId o') s" for s
    using that assms
    by (induction es arbitrary: s)
      (simp_all add: add_next_def add_step_def split_beta paired_effectI paired_handler)
  moreover have "paired remote (getInitialProviderId o') (initial_add_provider o')"
    unfolding initial_add_provider_def by (rule paired_effectI) (simp add: paired_def)
  ultimately show ?thesis by blast
qed

text \<open>
  What is bound. As long as the provider the dialog chose on opening is kept, a confirmation binds a manga that this
  very provider returned in a search, under its own id, to the manga of the dialog. When the provider is
  changed, the results of the other one stay on the screen until the next search starts; a click on one then binds
  the new provider to a manga id of the old one.
\<close>

theorem add_binding_pairs:
  assumes "s = run_events (add_next o' remote) (initial_add_provider o') es"
  shows "(list_all (\<lambda>e. \<forall>p. e \<noteq> Select_Provider p) es \<and> Binding_Request mu \<in> set (snd (add_step o' remote s e)) \<longrightarrow>
      (\<exists>i q m. m \<in> set (remote i (getInitialProviderId o') q) \<and>
         mu_request mu = api_addBinding (ao_mangaId o') (binding_ref m (getInitialProviderId o')) None \<and>
         covers (mu_invalidates mu) (manga_details (ao_mangaId o')))) \<and>
    (ao_mangaTitle o' = None \<and> getInitialProviderId o' \<noteq> [] \<and> p \<noteq> getInitialProviderId o' \<and> p \<noteq> [] \<and>
       js_trim t \<noteq> [] \<and> remote 1 (getInitialProviderId o') (js_trim t) = [m] \<longrightarrow>
      (let u = run_events (add_next o' remote) (initial_add_provider o')
                 [Set_Open True, Set_Query t, Search_Timer 0, Search_Answer 1, Select_Provider (Some p), Click_Result 0]
       in snd (add_step o' remote u Confirm_Binding) =
            [Binding_Request \<lparr>mu_request = api_addBinding (ao_mangaId o') (binding_ref m p) None,
               mu_invalidates = add_keys (ao_mangaId o')\<rparr>]))"
proof (rule conjI2; intro impI; (elim conjE)?)
  assume keep: "list_all (\<lambda>e. \<forall>p. e \<noteq> Select_Provider p) es"
    and out: "Binding_Request mu \<in> set (snd (add_step o' remote s e))"
  have p: "paired remote (getInitialProviderId o') s" unfolding assms by (rule paired_run [OF keep])
  from out obtain m where m: "ap_selected s = Some m"
    and mu: "mu = \<lparr>mu_request = api_addBinding (ao_mangaId o') (binding_ref m (the (ap_provider s))) None,
      mu_invalidates = add_keys (ao_mangaId o')\<rparr>"
    by (cases e) (auto simp: add_step_def add_handler_def split_beta handleConfirm_def searchMutation_def
        split: option.splits if_splits)
  with p obtain i q where "m \<in> set (remote i (getInitialProviderId o') q)" by (auto simp: paired_def from_provider_def)
  with mu p show "\<exists>i q m. m \<in> set (remote i (getInitialProviderId o') q) \<and>
      mu_request mu = api_addBinding (ao_mangaId o') (binding_ref m (getInitialProviderId o')) None \<and>
      covers (mu_invalidates mu) (manga_details (ao_mangaId o'))"
    by (auto simp: paired_def add_keys_def covers_def)
next
  let ?a = "getInitialProviderId o'"
  assume o: "ao_mangaTitle o' = None" "?a \<noteq> []" "p \<noteq> ?a" "p \<noteq> []" "js_trim t \<noteq> []" "remote 1 ?a (js_trim t) = [m]"
  show "let u = run_events (add_next o' remote) (initial_add_provider o')
      [Set_Open True, Set_Query t, Search_Timer 0, Search_Answer 1, Select_Provider (Some p), Click_Result 0]
    in snd (add_step o' remote u Confirm_Binding) =
      [Binding_Request \<lparr>mu_request = api_addBinding (ao_mangaId o') (binding_ref m p) None,
         mu_invalidates = add_keys (ao_mangaId o')\<rparr>]"
  proof -
    let ?q = "js_trim t"
    let ?s = "\<lambda>q pv res tm fl n. \<lparr>ap_open = True, ap_step = Step_Pick, ap_provider = Some pv, ap_query = q,
      ap_results = res, ap_selected = None, ap_error = None, ap_deps = Some (q, Step_Pick, Some pv, True),
      ap_timer = tm, ap_inflight = fl, ap_searching = (if fl = [] then None else Some 1), ap_adding = False, ap_next = n\<rparr>"
    let ?n = "add_next o' remote"
    note steps = add_next_def add_step_def add_handler_def search_effect_def picking_def Let_def
    have start: "?n (initial_add_provider o') (Set_Open True) = ?s [] ?a [] None [] 0"
      using o by (simp add: initial_add_provider_def steps handleOpenChange_def)
    have typed: "?n (?s [] ?a [] None [] 0) (Set_Query t) = ?s t ?a [] (Some (0, ?q)) [] 1"
      using o by (auto simp: steps)
    have sent: "?n (?s t ?a [] (Some (0, ?q)) [] 1) (Search_Timer 0) = ?s t ?a [] None [(1, ?a, ?q)] 2"
      using o by (simp add: steps searchMutation_def)
    have got: "?n (?s t ?a [] None [(1, ?a, ?q)] 2) (Search_Answer 1) = ?s t ?a [m] None [] 2"
      using o by (simp add: steps end_search_def)
    have chosen: "?n (?s t ?a [m] None [] 2) (Select_Provider (Some p)) = ?s t p [m] (Some (2, ?q)) [] 3"
      using o by (simp add: steps)
    have clicked: "ap_selected u = Some m \<and> ap_provider u = Some p \<and> ap_step u = Step_Confirm \<and> ap_open u \<and> \<not> ap_adding u"
      if "u = ?n (?s t p [m] (Some (2, ?q)) [] 3) (Click_Result 0)" for u
      unfolding that by (simp add: steps)
    show ?thesis
      using clicked [OF refl] o(4)
      by (simp only: run_events.simps Let_def start typed sent got chosen)
        (simp add: add_step_def add_handler_def handleConfirm_def)
  qed
qed

text \<open>\<open>add_searches\<close> for a text typed in the open dialog.\<close>

definition sample_add_opts :: add_opts where
  "sample_add_opts =
     \<lparr>ao_mangaId = ''m1'',
      ao_sources = map (\<lambda>i. \<lparr>src_id = i, src_name = i, src_baseUrl = None, src_lang = None, src_language = None,
        src_icon = None, src_supportsLatest = None, src_capabilities = None\<rparr>) [''a'', ''b''],
      ao_existing = [], ao_mangaTitle = None\<rparr>"

theorem add_searches_witness:
  "snd (add_step sample_add_opts (\<lambda>i p q. [])
     (run_events (add_next sample_add_opts (\<lambda>i p q. [])) (initial_add_provider sample_add_opts)
       [Set_Open True, Set_Query '' x'']) (Search_Timer 0)) =
   [Search_Request (api_searchManga ''a'' ''x'' None)]"
proof -
  let ?s = "run_events (add_next sample_add_opts (\<lambda>i p q. [])) (initial_add_provider sample_add_opts)
    [Set_Open True, Set_Query '' x'']"
  have s: "ap_timer ?s = Some (0, ''x'') \<and> ap_provider ?s = Some ''a'' \<and> js_trim (ap_query ?s) = ''x''" by code_simp
  from add_searches [OF refl, where o' = sample_add_opts and remote = "\<lambda>i p q. []"
      and es = "[Set_Open True, Set_Query '' x'']"] s show ?thesis
    by (metis option.sel)
qed

text \<open>\<open>add_binding_pairs\<close> for a manga found on provider a, with provider b chosen afterwards.\<close>

theorem add_binding_pairs_witness:
  "let remote = \<lambda>i p q. [blank_manga ''x'']; o' = sample_add_opts;
       u = run_events (add_next o' remote) (initial_add_provider o')
             [Set_Open True, Set_Query ''x'', Search_Timer 0, Search_Answer 1, Select_Provider (Some ''b''), Click_Result 0]
   in snd (add_step o' remote u Confirm_Binding) =
      [Binding_Request \<lparr>mu_request = api_addBinding ''m1'' (binding_ref (blank_manga ''x'') ''b'') None,
         mu_invalidates = add_keys ''m1''\<rparr>]"
proof -
  have "getInitialProviderId sample_add_opts = ''a'' \<and> js_trim ''x'' = ''x''" by code_simp
  with conjunct2 [OF add_binding_pairs [OF refl, where o' = sample_add_opts and remote = "\<lambda>i p q. [blank_manga ''x'']"
      and es = "[]" and p = "''b''" and t = "''x''" and m = "blank_manga ''x''"]]
  show ?thesis by (simp add: Let_def sample_add_opts_def)
qed

end
