(* ===== verification/Metadata_Search.thy ===== *)
theory Metadata_Search
  imports Api_Client
begin

text \<open>
  The search step of the metadata import, \<open>components/import-metadata/hooks/useMetadataSearch.ts\<close>. An
  asynchronous call is split into the part up to the request and the continuation for its outcome,
  \<open>Inl\<close> the message of the error (\<open>None\<close> when it has none), \<open>Inr\<close> the answer.
\<close>

record search_opts =
  so_manga :: manga
  so_sources :: "source list"
  so_initialProviderId :: "string option"
  so_initialRemoteId :: "string option"

datatype search_output =
    Ask_Details string string
  | Ask_Search string string
  | Select_Remote manga
  | Fallback_To_Search

record metadata_search =
  ms_provider :: string
  ms_query :: string
  ms_direct :: string
  ms_results :: "manga list"
  ms_error :: "string option"
  ms_loading :: bool

definition boundProviders :: "search_opts \<Rightarrow> provider_ref list" where
  "boundProviders o' = coalesce_or [Option.bind (m_bindings (so_manga o')) mb_providers] []"

definition known_source :: "search_opts \<Rightarrow> string \<Rightarrow> bool" where
  "known_source o' i = list_ex (\<lambda>s. src_id s = i) (so_sources o')"

definition initial_known :: "search_opts \<Rightarrow> bool" where
  "initial_known o' = (truthy_str (so_initialProviderId o') \<and> known_source o' (the (so_initialProviderId o')))"

definition defaultProviderId :: "search_opts \<Rightarrow> string" where
  "defaultProviderId o' =
     (if initial_known o' then the (so_initialProviderId o')
      else
        str_or
          [map_option src_id
             (List.find (\<lambda>s. list_ex (\<lambda>p. pr_provider_id p = src_id s) (boundProviders o')) (so_sources o')),
           (case so_sources o' of [] \<Rightarrow> None | s # _ \<Rightarrow> Some (src_id s))] [])"

definition start_query :: "search_opts \<Rightarrow> string" where
  "start_query o' = coalesce_or [Option.bind (m_metadata (so_manga o')) md_title, m_title (so_manga o')] []"

text \<open>The effect when the dialog opens or its input changes.\<close>

definition loadMangaDetails :: "string \<Rightarrow> string \<Rightarrow> metadata_search \<Rightarrow> metadata_search \<times> search_output list" where
  "loadMangaDetails providerId remoteId s = (s\<lparr>ms_loading := True, ms_error := None\<rparr>, [Ask_Details providerId remoteId])"

definition details_loaded ::
    "manga option \<Rightarrow> string option + manga \<Rightarrow> metadata_search \<Rightarrow> metadata_search \<times> search_output list" where
  "details_loaded fallbackManga outcome s =
     (let s1 = s\<lparr>ms_loading := False\<rparr>
      in case outcome of
           Inr m \<Rightarrow> (s1, [Select_Remote m])
         | Inl msg \<Rightarrow>
             (case fallbackManga of
                Some f \<Rightarrow> (s1, [Select_Remote f])
              | None \<Rightarrow>
                  (s1\<lparr>ms_error := Some (str_or [msg] ''Failed to fetch manga details from provider'')\<rparr>,
                   [Fallback_To_Search])))"

definition open_search :: "search_opts \<Rightarrow> metadata_search \<Rightarrow> metadata_search \<times> search_output list" where
  "open_search o' s =
     (let pid = (if initial_known o' then the (so_initialProviderId o') else defaultProviderId o');
          s1 = s\<lparr>ms_provider := pid, ms_query := start_query o', ms_direct := str_or [so_initialRemoteId o'] [],
                 ms_results := [], ms_error := None\<rparr>
      in if truthy_str (so_initialProviderId o') \<and> truthy_str (so_initialRemoteId o')
         then loadMangaDetails (the (so_initialProviderId o')) (the (so_initialRemoteId o')) s1
         else (s1, []))"

section \<open>The search\<close>

definition search_failed :: "string option \<Rightarrow> metadata_search \<Rightarrow> metadata_search" where
  "search_failed msg s = s\<lparr>ms_error := Some (str_or [msg] ''Search failed''), ms_results := []\<rparr>"

definition handleSearch :: "metadata_search \<Rightarrow> metadata_search \<times> search_output list" where
  "handleSearch s =
     (let q = js_trim (ms_query s)
      in if q = [] then (s, [])
         else if ms_provider s = [] then (search_failed (Some ''No provider selected'') s, [])
         else (s, [Ask_Search (ms_provider s) q]))"

definition searched :: "string option + manga list option \<Rightarrow> metadata_search \<Rightarrow> metadata_search" where
  "searched outcome s =
     (case outcome of
        Inr ms \<Rightarrow> s\<lparr>ms_results := coalesce_or [ms] [], ms_error := None\<rparr>
      | Inl msg \<Rightarrow> search_failed msg s)"

section \<open>The direct lookup\<close>

definition looks_like_url :: "string \<Rightarrow> bool" where
  "looks_like_url s = (js_startsWith (js_lower s) ''http://'' \<or> js_startsWith (js_lower s) ''https://'')"

definition lookup_failed :: "string option \<Rightarrow> metadata_search \<Rightarrow> metadata_search" where
  "lookup_failed msg s = s\<lparr>ms_error := Some (str_or [msg] ''Remote ID/URL lookup failed'')\<rparr>"

definition handleDirectLookup :: "metadata_search \<Rightarrow> metadata_search \<times> search_output list" where
  "handleDirectLookup s =
     (let v = js_trim (ms_direct s)
      in if v = [] then (s, [])
         else if ms_provider s = [] then (lookup_failed (Some ''No provider selected'') s, [])
         else if looks_like_url v then (s, [Ask_Search (ms_provider s) v])
         else (s, [Ask_Details (ms_provider s) v]))"

text \<open>The outcome of either request: the first result of the search, or the details.\<close>

definition url_looked_up ::
    "string option + manga list option \<Rightarrow> metadata_search \<Rightarrow> metadata_search \<times> search_output list" where
  "url_looked_up outcome s =
     (case outcome of
        Inr (Some (m # _)) \<Rightarrow> (s\<lparr>ms_error := None\<rparr>, [Select_Remote m])
      | Inr _ \<Rightarrow> (lookup_failed (Some ''No results found for URL'') s, [])
      | Inl msg \<Rightarrow> (lookup_failed msg s, []))"

definition id_looked_up :: "string option + manga \<Rightarrow> metadata_search \<Rightarrow> metadata_search \<times> search_output list" where
  "id_looked_up outcome s =
     (case outcome of
        Inr m \<Rightarrow> (s\<lparr>ms_error := None\<rparr>, [Select_Remote m])
      | Inl msg \<Rightarrow> (lookup_failed msg s, []))"

definition handleSelectSearchResult :: "manga \<Rightarrow> metadata_search \<Rightarrow> metadata_search \<times> search_output list" where
  "handleSelectSearchResult m s =
     (let remoteId = str_or [Some (m_id m), m_contentRemoteId m, m_url m] []
      in if ms_provider s \<noteq> [] \<and> remoteId \<noteq> [] then loadMangaDetails (ms_provider s) remoteId s
         else (s, [Select_Remote m]))"

section \<open>Properties\<close>

lemma default_known:
  assumes "so_sources o' \<noteq> []" "\<forall>s \<in> set (so_sources o'). src_id s \<noteq> []"
  shows "known_source o' (defaultProviderId o') \<and>
    ((\<exists>p \<in> set (boundProviders o'). known_source o' (pr_provider_id p)) \<and> \<not> initial_known o' \<longrightarrow>
       (\<exists>p \<in> set (boundProviders o'). pr_provider_id p = defaultProviderId o'))"
proof (cases "initial_known o'")
  case True
  then show ?thesis by (simp add: defaultProviderId_def) (simp add: initial_known_def)
next
  case False
  let ?bound = "\<lambda>s. list_ex (\<lambda>p. pr_provider_id p = src_id s) (boundProviders o')"
  show ?thesis
  proof (cases "List.find ?bound (so_sources o')")
    case (Some s)
    then have s: "s \<in> set (so_sources o')" "?bound s" by (auto simp: find_Some_iff)
    then have "defaultProviderId o' = src_id s"
      using assms False Some by (simp add: defaultProviderId_def truthy_str_def)
    with s show ?thesis by (auto simp: known_source_def list_ex_iff)
  next
    case None
    obtain s ss where cons: "so_sources o' = s # ss" using assms(1) by (cases "so_sources o'") auto
    have "defaultProviderId o' = src_id s"
      using assms False None cons by (simp add: defaultProviderId_def truthy_str_def)
    moreover have "\<not> known_source o' (pr_provider_id p)" if "p \<in> set (boundProviders o')" for p
      using None that unfolding find_None_iff known_source_def list_ex_iff by metis
    ultimately show ?thesis using cons by (auto simp: known_source_def)
  qed
qed

text \<open>
  The search step of the import. The provider it starts with is the one asked for when that is installed,
  else an installed one the manga is bound to, else the first installed one: always an installed one when
  there is any. A search and a direct lookup ask only that provider, with trimmed, not blank text; what looks like
  an address is searched for, anything else is taken as an id. Choosing a result always leads to a
  comparison: with the details when they can be loaded, with the result itself otherwise. A lookup that
  fails leaves a message and changes nothing else.
\<close>

theorem metadata_search_spec:
  "(so_sources o' \<noteq> [] \<and> (\<forall>s \<in> set (so_sources o'). src_id s \<noteq> []) \<longrightarrow>
      known_source o' (defaultProviderId o') \<and>
      ((\<exists>p \<in> set (boundProviders o'). known_source o' (pr_provider_id p)) \<and> \<not> initial_known o' \<longrightarrow>
         (\<exists>p \<in> set (boundProviders o'). pr_provider_id p = defaultProviderId o'))) \<and>
   (ms_provider (fst (open_search o' s)) = defaultProviderId o') \<and>
   (snd (handleSearch s) \<in> {[], [Ask_Search (ms_provider s) (js_trim (ms_query s))]} \<and>
      (snd (handleSearch s) \<noteq> [] \<longrightarrow> js_trim (ms_query s) \<noteq> [] \<and> ms_provider s \<noteq> [])) \<and>
   (snd (handleDirectLookup s) \<noteq> [] \<longrightarrow> js_trim (ms_direct s) \<noteq> [] \<and> ms_provider s \<noteq> [] \<and>
      snd (handleDirectLookup s) =
        (if looks_like_url (js_trim (ms_direct s)) then [Ask_Search (ms_provider s) (js_trim (ms_direct s))]
         else [Ask_Details (ms_provider s) (js_trim (ms_direct s))])) \<and>
   (snd (handleSelectSearchResult m s) = [Select_Remote m] \<or>
      (\<exists>r. snd (handleSelectSearchResult m s) = [Ask_Details (ms_provider s) r] \<and>
         snd (details_loaded (Some m) outcome s') = [Select_Remote (case outcome of Inr d \<Rightarrow> d | Inl msg \<Rightarrow> m)])) \<and>
   (ms_results (fst (url_looked_up outcomes s)) = ms_results s \<and> ms_provider (fst (url_looked_up outcomes s)) = ms_provider s \<and>
      (snd (url_looked_up outcomes s) = [] \<longrightarrow> ms_error (fst (url_looked_up outcomes s)) \<noteq> None))"
proof (rule conjI6; (intro impI)?)
  show "known_source o' (defaultProviderId o') \<and>
      ((\<exists>p \<in> set (boundProviders o'). known_source o' (pr_provider_id p)) \<and> \<not> initial_known o' \<longrightarrow>
         (\<exists>p \<in> set (boundProviders o'). pr_provider_id p = defaultProviderId o'))"
    if "so_sources o' \<noteq> [] \<and> (\<forall>s \<in> set (so_sources o'). src_id s \<noteq> [])"
    using default_known that by blast
  show "ms_provider (fst (open_search o' s)) = defaultProviderId o'"
    by (simp add: open_search_def Let_def loadMangaDetails_def defaultProviderId_def)
  show "snd (handleSearch s) \<in> {[], [Ask_Search (ms_provider s) (js_trim (ms_query s))]} \<and>
      (snd (handleSearch s) \<noteq> [] \<longrightarrow> js_trim (ms_query s) \<noteq> [] \<and> ms_provider s \<noteq> [])"
    by (simp add: handleSearch_def Let_def)
  show "js_trim (ms_direct s) \<noteq> [] \<and> ms_provider s \<noteq> [] \<and>
      snd (handleDirectLookup s) =
        (if looks_like_url (js_trim (ms_direct s)) then [Ask_Search (ms_provider s) (js_trim (ms_direct s))]
         else [Ask_Details (ms_provider s) (js_trim (ms_direct s))])" if "snd (handleDirectLookup s) \<noteq> []"
    using that by (simp add: handleDirectLookup_def Let_def split: if_splits)
  show "snd (handleSelectSearchResult m s) = [Select_Remote m] \<or>
      (\<exists>r. snd (handleSelectSearchResult m s) = [Ask_Details (ms_provider s) r] \<and>
         snd (details_loaded (Some m) outcome s') = [Select_Remote (case outcome of Inr d \<Rightarrow> d | Inl msg \<Rightarrow> m)])"
    by (simp add: handleSelectSearchResult_def Let_def loadMangaDetails_def details_loaded_def split: sum.split)
  show "ms_results (fst (url_looked_up outcomes s)) = ms_results s \<and> ms_provider (fst (url_looked_up outcomes s)) = ms_provider s \<and>
      (snd (url_looked_up outcomes s) = [] \<longrightarrow> ms_error (fst (url_looked_up outcomes s)) \<noteq> None)"
    by (simp add: url_looked_up_def lookup_failed_def split: sum.split option.split list.split)
qed

text \<open>\<open>metadata_search_spec\<close> for a manga bound to the second of two installed providers.\<close>

definition sample_source :: "string \<Rightarrow> source" where
  "sample_source i =
     \<lparr>src_id = i, src_name = i, src_baseUrl = None, src_lang = None, src_language = None, src_icon = None,
      src_supportsLatest = None, src_capabilities = None\<rparr>"

definition sample_search_opts :: search_opts where
  "sample_search_opts =
     \<lparr>so_manga = (blank_manga ''m'')\<lparr>m_bindings := Some \<lparr>mb_providers =
        Some [\<lparr>pr_provider_id = ''b'', pr_provider_manga_id = ''x'', pr_manga_title = None\<rparr>], mb_content = None\<rparr>\<rparr>,
      so_sources = [sample_source ''a'', sample_source ''b''], so_initialProviderId = Some ''gone'',
      so_initialRemoteId = None\<rparr>"

theorem metadata_search_spec_witness: "known_source sample_search_opts (defaultProviderId sample_search_opts)"
  by (rule metadata_search_spec [THEN conjunct1, THEN mp, THEN conjunct1])
    (simp add: sample_search_opts_def sample_source_def)

end
