(* ===== verification/Chapter_Row.thy ===== *)
theory Chapter_Row
  imports Details_Manga Chapter_Filters Chapter_Selection Reader_Navigation
begin

text \<open>
  One row of the chapter list, \<open>components/chapter-list/ChapterRow.tsx\<close>, with its badge
  (\<open>ChapterDownloadBadge.tsx\<close>), as \<open>components/ChapterList.tsx\<close> and \<open>routes/DetailsPage.tsx\<close> set it up; the batch
  handlers of the list; and the number of unread chapters on \<open>components/LibraryMangaCard.tsx\<close>. A callback is a
  flag that says whether it is passed; calling it is an action.
\<close>

section \<open>What a row shows\<close>

definition row_title :: "manga_chapter \<Rightarrow> string" where
  "row_title c = str_or [c_title c, c_name c] (''Chapter '' @ number_text c)"

definition row_isRead :: "manga_chapter \<Rightarrow> bool" where
  "row_isRead c =
     truthy_bool (coalesce [Option.bind (c_meta c) cm_is_read, c_is_read c, c_is_read c, c_isRead c])"

definition row_lastReadPage :: "manga_chapter \<Rightarrow> rat" where
  "row_lastReadPage c =
     coalesce_or [Option.bind (c_meta c) cm_last_read_page, c_last_read_page c, c_last_read_page c, c_lastReadPage c] 0"

definition row_pageCount :: "manga_chapter \<Rightarrow> rat" where
  "row_pageCount c = coalesce_or [c_page_count c, c_pageCount c, Option.bind (c_meta c) cm_page_count] 0"

definition row_isInProgress :: "manga_chapter \<Rightarrow> bool" where
  "row_isInProgress c = (\<not> row_isRead c \<and> row_lastReadPage c > 1)"

definition row_isOrphaned :: "manga_chapter \<Rightarrow> bool" where
  "row_isOrphaned c = truthy_bool (coalesce [Option.bind (c_meta c) cm_orphaned, c_orphaned c])"

definition row_chapterProviderId :: "manga_chapter \<Rightarrow> string" where
  "row_chapterProviderId c =
     coalesce_or [c_providerId c, c_provider_id c, Option.bind (c_meta c) cm_provider_id] []"

definition row_isDownloaded :: "manga_chapter \<Rightarrow> bool" where
  "row_isDownloaded c =
     truthy_bool (coalesce [c_is_downloaded c, c_isDownloaded c, Option.bind (c_meta c) cm_is_downloaded, c_isDownloaded c])"

definition row_downloadedPages :: "manga_chapter \<Rightarrow> rat" where
  "row_downloadedPages c =
     coalesce_or [c_downloaded_pages c, c_downloadedPages c, Option.bind (c_meta c) cm_downloaded_pages, c_downloadedPages c] 0"

definition row_isPartial :: "manga_chapter \<Rightarrow> bool" where
  "row_isPartial c = (row_downloadedPages c > 0 \<and> \<not> row_isDownloaded c)"

text \<open>\<open>Math.round\<close>.\<close>

definition js_round :: "rat \<Rightarrow> int" where
  "js_round q = \<lfloor>q + 1 / 2\<rfloor>"

definition page_percent :: "rat \<Rightarrow> rat \<Rightarrow> int" where
  "page_percent downloaded allPages = js_round (downloaded / allPages * 100)"

definition row_percent :: "manga_chapter \<Rightarrow> int option" where
  "row_percent c = (if row_pageCount c > 0 then Some (page_percent (row_downloadedPages c) (row_pageCount c)) else None)"

definition hasFiles :: "manga_chapter \<Rightarrow> bool" where
  "hasFiles c = (row_isDownloaded c \<or> row_downloadedPages c > 0)"

section \<open>The badge\<close>

datatype badge =
    Badge_Removing
  | Badge_Deleting
  | Badge_Pulling "int option" string
  | Badge_Downloaded string
  | Badge_None

record badge_props =
  bp_isPulling :: bool
  bp_isDeletingFiles :: bool
  bp_isRemoving :: bool
  bp_isDownloaded :: bool
  bp_isPartiallyDownloaded :: bool
  bp_downloadedPages :: "rat option"
  bp_pageCount :: "rat option"
  bp_percent :: "int option"

definition int_str :: "int \<Rightarrow> string" where
  "int_str i = num_str (of_int i)"

definition computedPercent :: "badge_props \<Rightarrow> int option" where
  "computedPercent p =
     (case bp_percent p of
        Some q \<Rightarrow> Some q
      | None \<Rightarrow>
          (case (bp_pageCount p, bp_downloadedPages p) of
             (Some allPages, Some n) \<Rightarrow> if allPages > 0 \<and> n > 0 then Some (page_percent n allPages) else None
           | _ \<Rightarrow> None))"

definition ChapterDownloadBadge :: "badge_props \<Rightarrow> badge" where
  "ChapterDownloadBadge p =
     (if bp_isRemoving p then Badge_Removing
      else if bp_isDeletingFiles p then Badge_Deleting
      else if bp_isPulling p \<or> bp_isPartiallyDownloaded p then
        (case computedPercent p of
           Some q \<Rightarrow>
             if q > 0 then
               Badge_Pulling (Some q)
                 (''Pulling: '' @ int_str q @ ''% ('' @ num_str (num_or [bp_downloadedPages p] 0) @ ''/'' @
                  (if truthy_num (bp_pageCount p) then num_str (the (bp_pageCount p)) else ''?'') @ '' pages)'')
             else Badge_Pulling None ''Pulling chapter...''
         | None \<Rightarrow> Badge_Pulling None ''Pulling chapter...'')
      else if bp_isDownloaded p then
        Badge_Downloaded
          (case bp_downloadedPages p of
             Some n \<Rightarrow>
               if n > 0 then ''Downloaded ('' @ num_str n @ ''/'' @ num_str (num_or [bp_pageCount p] n) @ '' pages)''
               else ''Downloaded (Local storage)''
           | None \<Rightarrow> ''Downloaded (Local storage)'')
      else Badge_None)"

section \<open>The row\<close>

record row_props =
  rw_mangaId :: string
  rw_providerId :: "string option"
  rw_remoteId :: "string option"
  rw_isInLibrary :: bool
  rw_isSelectionMode :: bool
  rw_isProcessing :: bool
  rw_isPulling :: bool
  rw_isDeletingFiles :: bool
  rw_isRemoving :: bool
  rw_onPullChapter :: bool
  rw_onDeleteFiles :: bool
  rw_onRemoveChapter :: bool

definition row_badge :: "row_props \<Rightarrow> manga_chapter \<Rightarrow> badge" where
  "row_badge p c =
     ChapterDownloadBadge
       \<lparr>bp_isPulling = rw_isPulling p, bp_isDeletingFiles = rw_isDeletingFiles p, bp_isRemoving = rw_isRemoving p,
        bp_isDownloaded = row_isDownloaded c, bp_isPartiallyDownloaded = row_isPartial c,
        bp_downloadedPages = Some (row_downloadedPages c), bp_pageCount = Some (row_pageCount c),
        bp_percent = row_percent c\<rparr>"

text \<open>The link of the title; in selection mode the row is a checkbox and has none.\<close>

definition row_link :: "row_props \<Rightarrow> manga_chapter \<Rightarrow> details_target option" where
  "row_link p c =
     (let pg = (if row_isInProgress c then Some (row_lastReadPage c) else None)
      in if rw_isSelectionMode p then None
         else if \<not> rw_isInLibrary p \<and> truthy_str (rw_providerId p) \<and> truthy_str (rw_remoteId p)
         then Some (To_Provider_Reader (the (rw_providerId p)) (the (rw_remoteId p)) (c_id c) pg)
         else Some (To_Reader (rw_mangaId p) (c_id c) pg))"

text \<open>A click or a key on the row: the chapter to select or deselect.\<close>

definition row_toggle :: "row_props \<Rightarrow> manga_chapter \<Rightarrow> string option \<Rightarrow> string option" where
  "row_toggle p c key =
     (if rw_isSelectionMode p \<and> \<not> rw_isProcessing p \<and> (case key of None \<Rightarrow> True | Some k \<Rightarrow> k = '' '' \<or> k = ''Enter'')
      then Some (c_id c) else None)"

datatype row_action = Pull_Files string string | Delete_Files string string | Remove_Chapter string "string option"

definition showChapterMenu :: "row_props \<Rightarrow> manga_chapter \<Rightarrow> bool" where
  "showChapterMenu p c =
     (rw_isInLibrary p \<and>
      (rw_onRemoveChapter p \<or> (rw_onDeleteFiles p \<and> row_chapterProviderId c \<noteq> [] \<and> hasFiles c) \<or> rw_onPullChapter p))"

definition row_menu :: "row_props \<Rightarrow> manga_chapter \<Rightarrow> row_action list" where
  "row_menu p c =
     (if \<not> rw_isSelectionMode p \<and> showChapterMenu p c \<and> \<not> rw_isRemoving p then
        (if rw_onPullChapter p \<and> row_chapterProviderId c \<noteq> [] then [Pull_Files (c_id c) (row_chapterProviderId c)] else []) @
        (if rw_onDeleteFiles p \<and> row_chapterProviderId c \<noteq> [] \<and> hasFiles c
         then [Delete_Files (c_id c) (row_chapterProviderId c)] else []) @
        (if rw_onRemoveChapter p
         then [Remove_Chapter (c_id c) (if row_chapterProviderId c \<noteq> [] then Some (row_chapterProviderId c) else None)] else [])
      else [])"

text \<open>The items of the menu are disabled while the chapter is being processed.\<close>

definition menu_click :: "row_props \<Rightarrow> manga_chapter \<Rightarrow> row_action \<Rightarrow> row_action option" where
  "menu_click p c a = (if a \<in> set (row_menu p c) \<and> \<not> rw_isProcessing p then Some a else None)"

section \<open>The list and the page around it\<close>

record list_props =
  lp_mangaId :: string
  lp_providerId :: "string option"
  lp_remoteId :: "string option"
  lp_isInLibrary :: bool
  lp_onPullChapter :: bool
  lp_onDeleteFiles :: bool
  lp_onRemoveChapter :: bool
  lp_onBatch :: bool
  lp_pulling :: "string list"
  lp_deleting :: "string list"
  lp_removing :: "string list"

definition row_props_of :: "list_props \<Rightarrow> bool \<Rightarrow> manga_chapter \<Rightarrow> row_props" where
  "row_props_of l isSelectionMode c =
     (let isPulling = c_id c \<in> set (lp_pulling l); isDeletingFiles = c_id c \<in> set (lp_deleting l);
          isRemoving = c_id c \<in> set (lp_removing l)
      in \<lparr>rw_mangaId = lp_mangaId l, rw_providerId = lp_providerId l, rw_remoteId = lp_remoteId l,
          rw_isInLibrary = lp_isInLibrary l, rw_isSelectionMode = isSelectionMode,
          rw_isProcessing = (isPulling \<or> isDeletingFiles \<or> isRemoving), rw_isPulling = isPulling,
          rw_isDeletingFiles = isDeletingFiles, rw_isRemoving = isRemoving, rw_onPullChapter = lp_onPullChapter l,
          rw_onDeleteFiles = lp_onDeleteFiles l, rw_onRemoveChapter = lp_onRemoveChapter l\<rparr>)"

text \<open>The chapters a batch handler of the list passes on; the deletion of files asks for downloaded ones.\<close>

definition list_batch :: "bool \<Rightarrow> selection_state \<Rightarrow> string list option" where
  "list_batch callback s = (if length (sel_ids s) = 0 \<or> \<not> callback then None else Some (sel_ids s))"

definition list_batch_delete :: "bool \<Rightarrow> manga_chapter list \<Rightarrow> selection_state \<Rightarrow> string list option" where
  "list_batch_delete callback chapters s =
     (if length (sel_ids s) = 0 \<or> \<not> callback \<or> \<not> hasDownloadedInSelection chapters s then None else Some (sel_ids s))"

text \<open>What \<open>DetailsPage\<close> passes to the list; the list is shown once the manga is there.\<close>

definition details_list ::
    "details_route \<Rightarrow> details_data \<Rightarrow> string list \<Rightarrow> string list \<Rightarrow> string list \<Rightarrow> list_props option" where
  "details_list r d pulling deleting removing =
     (case details_manga r d of
        None \<Rightarrow> None
      | Some m \<Rightarrow> Some
          \<lparr>lp_mangaId = m_id m,
           lp_providerId = (if isRemoteRoute r then Some (providerIdParam r) else None),
           lp_remoteId = (if isRemoteRoute r then Some (remoteIdParam r) else None),
           lp_isInLibrary = isInLibrary r d, lp_onPullChapter = isInLibrary r d, lp_onDeleteFiles = isInLibrary r d,
           lp_onRemoveChapter = isInLibrary r d,
           lp_onBatch = (isInLibrary r d \<and> truthy_str (activeContentProviderId r d)),
           lp_pulling = pulling, lp_deleting = deleting, lp_removing = removing\<rparr>)"

text \<open>The chapter and the provider of which a removal is requested.\<close>

definition details_onRemoveChapter :: "row_action \<Rightarrow> (string \<times> string) option" where
  "details_onRemoveChapter a =
     (case a of Remove_Chapter i p \<Rightarrow> if truthy_str p then Some (i, the p) else None | _ \<Rightarrow> None)"

section \<open>The library card\<close>

definition card_isRead :: "manga_chapter \<Rightarrow> bool" where
  "card_isRead c = truthy_bool (coalesce [Option.bind (c_meta c) cm_is_read, c_is_read c])"

definition card_unreadCount :: "nat option \<Rightarrow> manga_chapter list \<Rightarrow> nat" where
  "card_unreadCount unreadCountProp chapters =
     (case unreadCountProp of
        Some n \<Rightarrow> n
      | None \<Rightarrow> if length chapters = 0 then 0 else length chapters - length (filter card_isRead chapters))"

section \<open>Actions of a row\<close>

lemma menu_click_safe:
  assumes "menu_click p c a = Some b"
  shows "b = a \<and> rw_isInLibrary p \<and> \<not> rw_isSelectionMode p \<and> \<not> rw_isProcessing p \<and>
    (case a of
       Pull_Files i q \<Rightarrow> i = c_id c \<and> q = row_chapterProviderId c \<and> q \<noteq> []
     | Delete_Files i q \<Rightarrow> i = c_id c \<and> q = row_chapterProviderId c \<and> q \<noteq> [] \<and> hasFiles c
     | Remove_Chapter i q \<Rightarrow> i = c_id c \<and> q \<noteq> Some [])"
  using assms by (auto simp: menu_click_def row_menu_def showChapterMenu_def split: if_splits)

lemmas row_defs = row_props_of_def details_list_def Let_def

text \<open>
  What a row lets through. On the details page an action of a row's menu reaches the page only for a manga of the
  library, outside selection mode and while nothing runs on the chapter; it names that chapter; files are pulled or
  deleted only for a known provider, and deleted only where there are some. A row is either a link or, in selection mode, a
  checkbox, and it can be checked only while nothing runs on the chapter.
\<close>

theorem row_actions_safe:
  assumes "details_list r d pulling deleting removing = Some l"
  shows "let p = row_props_of l sel c in
    (\<forall>a b. menu_click p c a = Some b \<longrightarrow> b = a \<and> isInLibrary r d \<and> \<not> sel \<and>
       c_id c \<notin> set pulling \<union> set deleting \<union> set removing \<and>
       (case a of
          Pull_Files i q \<Rightarrow> i = c_id c \<and> q = row_chapterProviderId c \<and> q \<noteq> []
        | Delete_Files i q \<Rightarrow> i = c_id c \<and> q = row_chapterProviderId c \<and> q \<noteq> [] \<and> hasFiles c
        | Remove_Chapter i q \<Rightarrow> i = c_id c \<and> q \<noteq> Some [])) \<and>
    (row_link p c = None \<longleftrightarrow> sel) \<and>
    (\<forall>key i. row_toggle p c key = Some i \<longrightarrow> sel \<and> i = c_id c \<and> c_id c \<notin> set pulling \<union> set deleting \<union> set removing)"
proof -
  let ?p = "row_props_of l sel c"
  have p: "rw_isSelectionMode ?p = sel"
      "rw_isProcessing ?p \<longleftrightarrow> c_id c \<in> set pulling \<union> set deleting \<union> set removing"
      "rw_isInLibrary ?p = isInLibrary r d"
    using assms by (auto simp: row_defs split: option.splits)
  have act: "b = a \<and> isInLibrary r d \<and> \<not> sel \<and> c_id c \<notin> set pulling \<union> set deleting \<union> set removing \<and>
       (case a of
          Pull_Files i q \<Rightarrow> i = c_id c \<and> q = row_chapterProviderId c \<and> q \<noteq> []
        | Delete_Files i q \<Rightarrow> i = c_id c \<and> q = row_chapterProviderId c \<and> q \<noteq> [] \<and> hasFiles c
        | Remove_Chapter i q \<Rightarrow> i = c_id c \<and> q \<noteq> Some [])" if "menu_click ?p c a = Some b" for a b
    using menu_click_safe [OF that] unfolding p by blast
  have lnk: "row_link ?p c = None \<longleftrightarrow> sel" using p(1) by (simp add: row_link_def Let_def)
  have tog: "sel \<and> i = c_id c \<and> c_id c \<notin> set pulling \<union> set deleting \<union> set removing" if "row_toggle ?p c key = Some i" for key i
    using that p(1,2) by (simp add: row_toggle_def split: if_splits)
  show ?thesis unfolding Let_def using act lnk tog by blast
qed

definition sample_row_route :: details_route where
  "sample_row_route = \<lparr>dr_pathname = ''/manga/m1'', dr_mangaId = Some ''m1'', dr_providerId = None, dr_remoteId = None\<rparr>"

definition sample_row_data :: "manga_chapter list \<Rightarrow> details_data" where
  "sample_row_data cs =
     \<lparr>dd_library = [blank_manga ''m1''], dd_remote = Some ((blank_manga ''r1'')\<lparr>m_libraryMangaId := Some ''m1''\<rparr>),
      dd_local = Some (blank_manga ''m1''), dd_provider = None, dd_sources = [],
      dd_localChapters = Some \<lparr>clr_chapters = cs\<rparr>, dd_remoteChapters = None, dd_jobs = [],
      dd_localLoading = False, dd_remoteLoading = False\<rparr>"

theorem row_actions_safe_witness:
  "\<exists>l. details_list sample_row_route (sample_row_data []) [''c2''] [] [] = Some l \<and>
     (\<forall>a. menu_click (row_props_of l False (blank_manga_chapter ''c2'')) (blank_manga_chapter ''c2'') a = None)"
proof -
  obtain l where e: "details_list sample_row_route (sample_row_data []) [''c2''] [] [] = Some l"
    by (simp add: details_list_def details_manga_def sample_row_data_def sample_row_route_def isRemoteRoute_def
        js_startsWith_def)
  let ?c = "blank_manga_chapter ''c2''"
  have "menu_click (row_props_of l False ?c) ?c a = None" for a
  proof (cases "menu_click (row_props_of l False ?c) ?c a")
    case (Some b)
    with row_actions_safe [OF e, of False ?c] have "c_id ?c \<notin> set [''c2''] \<union> set [] \<union> set []"
      unfolding Let_def by blast
    then show ?thesis by simp
  qed
  with e show ?thesis by blast
qed

text \<open>The menu offers to remove a chapter without a provider, and choosing that does nothing.\<close>

lemma removal_without_provider:
  assumes "rw_isInLibrary p" "\<not> rw_isSelectionMode p" "rw_onRemoveChapter p" "\<not> rw_isProcessing p" "\<not> rw_isRemoving p"
    and "row_chapterProviderId c = []"
  shows "menu_click p c (Remove_Chapter (c_id c) None) = Some (Remove_Chapter (c_id c) None) \<and>
    details_onRemoveChapter (Remove_Chapter (c_id c) None) = None"
  using assms by (simp add: menu_click_def row_menu_def showChapterMenu_def details_onRemoveChapter_def)

section \<open>The badge of a row\<close>

lemma percent_bounds:
  assumes "0 \<le> n" "n \<le> m" "0 < m"
  shows "0 \<le> page_percent n m \<and> page_percent n m \<le> 100"
proof -
  have "0 \<le> n / m * 100" "n / m * 100 \<le> 100" using assms by (simp_all add: divide_le_eq)
  then show ?thesis unfolding page_percent_def js_round_def by linarith
qed

text \<open>
  The badge of a row. A chapter is marked as downloaded exactly when it is and nothing runs on it; it has no badge
  exactly when nothing runs and no page of it is stored; and the percentage shown lies between 1 and 100 when no more
  pages are stored than there are. The spinner is also shown, without anything running, for
  a chapter of which only a part is stored.
\<close>

theorem row_badge_spec:
  assumes "rw_isProcessing p = (rw_isPulling p \<or> rw_isDeletingFiles p \<or> rw_isRemoving p)"
    and "0 \<le> row_downloadedPages c" "row_downloadedPages c \<le> row_pageCount c"
  shows "((\<exists>t. row_badge p c = Badge_Downloaded t) \<longleftrightarrow> \<not> rw_isProcessing p \<and> row_isDownloaded c) \<and>
    (row_badge p c = Badge_None \<longleftrightarrow> \<not> rw_isProcessing p \<and> \<not> hasFiles c) \<and>
    (row_badge p c = Badge_Pulling (Some q) t \<longrightarrow> 1 \<le> q \<and> q \<le> 100) \<and>
    (row_isPartial c \<and> \<not> rw_isProcessing p \<longrightarrow> (\<exists>q t. row_badge p c = Badge_Pulling q t))"
proof (rule conjI4; (intro impI)?)
  show "(\<exists>t. row_badge p c = Badge_Downloaded t) \<longleftrightarrow> \<not> rw_isProcessing p \<and> row_isDownloaded c"
    using assms(1) by (auto simp: row_badge_def ChapterDownloadBadge_def row_isPartial_def split: option.split)
  show "row_badge p c = Badge_None \<longleftrightarrow> \<not> rw_isProcessing p \<and> \<not> hasFiles c"
    using assms(1) by (auto simp: row_badge_def ChapterDownloadBadge_def row_isPartial_def hasFiles_def split: option.split)
  show "1 \<le> q \<and> q \<le> 100" if "row_badge p c = Badge_Pulling (Some q) t"
  proof -
    have q: "0 < q" "row_percent c = Some q \<or> row_percent c = None \<and> 0 < row_pageCount c"
      using that by (auto simp: row_badge_def ChapterDownloadBadge_def computedPercent_def split: if_splits option.splits)
    then have "0 < row_pageCount c \<and> q = page_percent (row_downloadedPages c) (row_pageCount c)"
      by (auto simp: row_percent_def split: if_splits)
    with percent_bounds [OF assms(2,3)] q(1) show ?thesis by simp
  qed
  show "\<exists>q t. row_badge p c = Badge_Pulling q t" if "row_isPartial c \<and> \<not> rw_isProcessing p"
    using that assms(1) by (auto simp: row_badge_def ChapterDownloadBadge_def split: option.split)
qed

definition half_chapter :: manga_chapter where
  "half_chapter = (blank_manga_chapter ''c1'')\<lparr>c_downloaded_pages := Some 5, c_page_count := Some 8\<rparr>"

definition idle_row :: row_props where
  "idle_row =
     \<lparr>rw_mangaId = ''m1'', rw_providerId = None, rw_remoteId = None, rw_isInLibrary = True, rw_isSelectionMode = False,
      rw_isProcessing = False, rw_isPulling = False, rw_isDeletingFiles = False, rw_isRemoving = False,
      rw_onPullChapter = True, rw_onDeleteFiles = True, rw_onRemoveChapter = True\<rparr>"

theorem row_badge_spec_witness:
  "\<exists>q t. row_badge idle_row half_chapter = Badge_Pulling q t"
proof -
  have pages: "row_downloadedPages half_chapter = 5" "row_pageCount half_chapter = 8"
    by (simp_all add: half_chapter_def row_downloadedPages_def row_pageCount_def)
  have "row_isPartial half_chapter \<and> \<not> rw_isProcessing idle_row"
    by (simp add: row_isPartial_def pages idle_row_def) (simp add: row_isDownloaded_def half_chapter_def)
  then show ?thesis
    using row_badge_spec [of idle_row half_chapter] by (simp add: pages) (simp add: idle_row_def)
qed

section \<open>One read status, four rules\<close>

text \<open>
  Whether a chapter counts as read. The row, the button of the details page, the reader and the library card agree when the
  flags a chapter carries do not contradict each other and one of those the reader knows is among them; then the reader also has the
  page of the row. When the nested flag says unread and the flat one read, the button skips the
  chapter as read while the row, the reader and the card show it as unread.
\<close>

theorem read_status_agrees:
  assumes "\<forall>f \<in> set [c_is_read c, c_isRead c, Option.bind (c_meta c) cm_is_read]. f = None \<or> f = Some b"
    and "c_is_read c \<noteq> None \<or> Option.bind (c_meta c) cm_is_read \<noteq> None"
  shows "row_isRead c = b \<and> getIsRead c = b \<and> isChapterRead (Some c) = b \<and> card_isRead c = b"
  using assms
  by (cases "c_is_read c"; cases "Option.bind (c_meta c) cm_is_read"; cases "c_isRead c")
    (simp_all add: row_isRead_def getIsRead_def isChapterRead_def card_isRead_def)

theorem read_status_agrees_witness:
  "row_isRead ((blank_manga_chapter ''c1'')\<lparr>c_is_read := Some True\<rparr>) = True"
  by (rule conjunct1 [OF read_status_agrees]) simp_all

lemma read_status_differs:
  assumes "Option.bind (c_meta c) cm_is_read = Some False" "c_is_read c = Some True"
  shows "getIsRead c \<and> \<not> row_isRead c \<and> \<not> isChapterRead (Some c) \<and> \<not> card_isRead c"
  using assms by (simp add: row_isRead_def getIsRead_def isChapterRead_def card_isRead_def)

lemma unread_count_bounds: "card_unreadCount None cs = length (filter (\<lambda>c. \<not> card_isRead c) cs)"
proof -
  have "length (filter card_isRead cs) + length (filter (\<lambda>c. \<not> card_isRead c) cs) = length cs"
    by (rule sum_length_filter_compl)
  then show ?thesis by (auto simp: card_unreadCount_def)
qed

section \<open>The rows of a provider's page\<close>

text \<open>
  C37: On the page of a provider, for a manga that is in the library, the chapters shown are those of the library entry and the
  button leads to its reader, but every row leads to a reader of a manga with the provider's id. When the two ids differ, no
  row leads where the button leads.
\<close>

theorem provider_page_rows_miss_library:
  assumes "isRemoteRoute r" "libraryEntry r d = Some lib" "lib \<noteq> []" "dd_remote d = Some m" "m_id m \<noteq> lib"
  shows "(\<exists>l. details_list r d pulling deleting removing = Some l \<and>
      (\<forall>c. \<exists>pg. row_link (row_props_of l False c) c = Some (To_Reader (m_id m) (c_id c) pg) \<and>
         handlePrimaryCta r d \<noteq> row_link (row_props_of l False c) c)) \<and>
    (\<forall>t. handlePrimaryCta r d = Some t \<longrightarrow> (\<exists>ch pg. t = To_Reader lib ch pg)) \<and>
    qo_key (dq_localChapters (details_queries_of r d)) = chapters_list lib \<and>
    chaptersData r d = dd_localChapters d"
proof (rule conjI4)
  have lib: "isInLibrary r d" "targetMangaId r d = lib" "\<not> uses_remote_chapters r d"
    using assms(2,3) by (simp_all add: isInLibrary_def targetMangaId_def uses_remote_chapters_def)
  have cta: "\<exists>ch pg. t = To_Reader lib ch pg" if "handlePrimaryCta r d = Some t" for t
    using that lib assms(3) by (auto simp: handlePrimaryCta_def Let_def split: option.splits)
  then show "\<forall>t. handlePrimaryCta r d = Some t \<longrightarrow> (\<exists>ch pg. t = To_Reader lib ch pg)" by blast
  show "qo_key (dq_localChapters (details_queries_of r d)) = chapters_list lib"
    using lib by (simp add: details_queries_of_def Let_def useChapterList_def set_enabled_def)
  show "chaptersData r d = dd_localChapters d" using lib by (simp add: chaptersData_def)
  have m: "details_manga r d = Some m" using assms(1,4) by (simp add: details_manga_def)
  let ?l = "the (details_list r d pulling deleting removing)"
  have l: "details_list r d pulling deleting removing = Some ?l" by (simp add: details_list_def m)
  have lnk: "\<exists>pg. row_link (row_props_of ?l False c) c = Some (To_Reader (m_id m) (c_id c) pg)" for c
    by (simp add: row_link_def row_props_of_def details_list_def m lib Let_def)
  have "handlePrimaryCta r d \<noteq> row_link (row_props_of ?l False c) c" for c
    using lnk [of c] cta assms(5) by auto
  with l lnk show "\<exists>l. details_list r d pulling deleting removing = Some l \<and>
      (\<forall>c. \<exists>pg. row_link (row_props_of l False c) c = Some (To_Reader (m_id m) (c_id c) pg) \<and>
         handlePrimaryCta r d \<noteq> row_link (row_props_of l False c) c)" by blast
qed

definition provider_route :: details_route where
  "provider_route =
     \<lparr>dr_pathname = ''/providers/mdex/manga/r1'', dr_mangaId = None, dr_providerId = Some ''mdex'', dr_remoteId = Some ''r1''\<rparr>"

theorem provider_page_rows_miss_library_witness:
  "\<exists>l. details_list provider_route (sample_row_data [half_chapter]) [] [] [] = Some l \<and>
     (\<exists>pg. row_link (row_props_of l False half_chapter) half_chapter = Some (To_Reader ''r1'' ''c1'' pg)) \<and>
     qo_key (dq_localChapters (details_queries_of provider_route (sample_row_data [half_chapter]))) = chapters_list ''m1''"
proof -
  let ?d = "sample_row_data [half_chapter]" and ?m = "(blank_manga ''r1'')\<lparr>m_libraryMangaId := Some ''m1''\<rparr>"
  have h: "isRemoteRoute provider_route" "libraryEntry provider_route ?d = Some ''m1''" "''m1'' \<noteq> []"
      "dd_remote ?d = Some ?m" "m_id ?m \<noteq> ''m1''"
    by (simp_all add: isRemoteRoute_def provider_route_def libraryEntry_def sample_row_data_def)
  have i: "m_id ?m = ''r1''" "c_id half_chapter = ''c1''" by (simp_all add: half_chapter_def)
  show ?thesis using provider_page_rows_miss_library [OF h, of "[]" "[]" "[]"] unfolding i by (metis i(2))
qed

end
