(* ===== verification/Plugin_Settings.thy ===== *)
theory Plugin_Settings
  imports Jobs_Manager "HOL-Library.AList"
begin

text \<open>
  The settings dialog of a plugin, \<open>components/plugins/ScopedSettingsModal.tsx\<close>, opened by
  \<open>settings/SettingsPluginsTab.tsx\<close>; the choice between colliding providers,
  \<open>plugins/CollisionResolutionAlert.tsx\<close>; the log view, \<open>plugins/DiagnosticLogsModal.tsx\<close>; and the
  reload button. An object used as a dictionary is an association list, \<open>AList.update\<close> its assignment
  (\<open>{...o, [k]: v}\<close> keeps the place of \<open>k\<close>). The error texts are those of \<open>job_failure\<close>, which the source
  repeats in each handler.
\<close>

section \<open>The values of the form\<close>

type_synonym config = "(string \<times> string) list"

definition schema_keys :: "plugin_setting_spec list option \<Rightarrow> string set" where
  "schema_keys specs = (case specs of None \<Rightarrow> {} | Some ss \<Rightarrow> ps_key ` set ss)"

text \<open>\<open>config?.[s.key] ?? s.defaultValue ?? ''\<close>.\<close>

definition initial_value :: "config option \<Rightarrow> plugin_setting_spec \<Rightarrow> string" where
  "initial_value cfg s = coalesce_or [Option.bind cfg (\<lambda>m. map_of m (ps_key s)), ps_defaultValue s] []"

definition setting_values :: "config option \<Rightarrow> plugin_setting_spec list option \<Rightarrow> config" where
  "setting_values cfg specs =
     (case specs of
        None \<Rightarrow> []
      | Some ss \<Rightarrow> foldl (\<lambda>vals s. AList.update (ps_key s) (initial_value cfg s) vals) [] ss)"

definition initial_globals :: "plugin_item \<Rightarrow> config" where
  "initial_globals plugin = setting_values (pi_globalConfig plugin) (pi_pluginSettingsSchema plugin)"

definition initial_providers :: "plugin_item \<Rightarrow> (string \<times> config) list" where
  "initial_providers plugin =
     foldl (\<lambda>vals prov. AList.update (pd_id prov)
         (setting_values (Option.bind (pi_providerConfigs plugin) (\<lambda>m. map_of m (pd_id prov))) (pd_settingsSchema prov)) vals)
       [] (pi_providers plugin)"

section \<open>The dialog\<close>

record settings_modal =
  sm_plugin :: "plugin_item option"
  sm_globalValues :: config
  sm_providerValues :: "(string \<times> config) list"
  sm_showSecrets :: "(string \<times> bool) list"
  sm_isSaving :: bool
  sm_errorOpen :: bool
  sm_errorTitle :: string
  sm_errorMessage :: string
  sm_errorDetails :: string

definition closed_settings :: settings_modal where
  "closed_settings =
     \<lparr>sm_plugin = None, sm_globalValues = [], sm_providerValues = [], sm_showSecrets = [], sm_isSaving = False,
      sm_errorOpen = False, sm_errorTitle = [], sm_errorMessage = [], sm_errorDetails = []\<rparr>"

text \<open>The effect on \<open>[plugin, open]\<close>; the dialog is open exactly while a plugin is selected.\<close>

definition sync_settings :: "plugin_item option \<Rightarrow> settings_modal \<Rightarrow> settings_modal" where
  "sync_settings plugin s =
     (case plugin of
        None \<Rightarrow> s\<lparr>sm_plugin := None\<rparr>
      | Some p \<Rightarrow> s\<lparr>sm_plugin := Some p, sm_globalValues := initial_globals p,
                   sm_providerValues := initial_providers p, sm_showSecrets := []\<rparr>)"

definition hasGlobalSchema :: "plugin_item \<Rightarrow> bool" where
  "hasGlobalSchema p = (case pi_pluginSettingsSchema p of None \<Rightarrow> False | Some ss \<Rightarrow> 0 < length ss)"

definition providersWithSchema :: "plugin_item \<Rightarrow> plugin_provider_descriptor list" where
  "providersWithSchema p =
     filter (\<lambda>d. case pd_settingsSchema d of None \<Rightarrow> False | Some ss \<Rightarrow> 0 < length ss) (pi_providers p)"

definition hasAnySettings :: "plugin_item \<Rightarrow> bool" where
  "hasAnySettings p = (hasGlobalSchema p \<or> 0 < length (providersWithSchema p))"

definition defaultTab :: "plugin_item \<Rightarrow> string" where
  "defaultTab p =
     (if hasGlobalSchema p then ''global''
      else case providersWithSchema p of [] \<Rightarrow> ''global'' | d # _ \<Rightarrow> pd_id d)"

definition toggleSecret :: "string \<Rightarrow> settings_modal \<Rightarrow> settings_modal" where
  "toggleSecret key s =
     s\<lparr>sm_showSecrets := AList.update key (\<not> truthy_bool (map_of (sm_showSecrets s) key)) (sm_showSecrets s)\<rparr>"

definition handleGlobalChange :: "string \<Rightarrow> string \<Rightarrow> settings_modal \<Rightarrow> settings_modal" where
  "handleGlobalChange key val s = s\<lparr>sm_globalValues := AList.update key val (sm_globalValues s)\<rparr>"

definition handleProviderChange :: "string \<Rightarrow> string \<Rightarrow> string \<Rightarrow> settings_modal \<Rightarrow> settings_modal" where
  "handleProviderChange providerId key val s =
     s\<lparr>sm_providerValues := AList.update providerId
         (AList.update key val (coalesce_or [map_of (sm_providerValues s) providerId] [])) (sm_providerValues s)\<rparr>"

text \<open>Saving: the request, then one of the two outcomes; \<open>finally\<close> belongs to both.\<close>

datatype settings_output = Config_Request request | Settings_Notice notice | Settings_Invalidate "query_key list"

definition values_json :: "config \<Rightarrow> json" where
  "values_json vs = JObj (map (\<lambda>(k, v). (k, JStr v)) vs)"

definition config_body :: "settings_modal \<Rightarrow> json" where
  "config_body s =
     JObj [(''globalConfig'', values_json (sm_globalValues s)),
           (''providerConfigs'', JObj (map (\<lambda>(p, vs). (p, values_json vs)) (sm_providerValues s)))]"

definition save_request :: "plugin_item \<Rightarrow> settings_modal \<Rightarrow> settings_modal \<times> settings_output list" where
  "save_request p s = (s\<lparr>sm_isSaving := True\<rparr>, [Config_Request (api_updatePluginConfig (pi_pluginId p) (config_body s))])"

definition save_success :: "plugin_item \<Rightarrow> settings_modal \<Rightarrow> settings_modal \<times> settings_output list" where
  "save_success p s =
     ((sync_settings None s)\<lparr>sm_isSaving := False\<rparr>,
      [Settings_Notice (success_notice (''Saved settings for '' @ pi_pluginName p)),
       Settings_Invalidate [plugins_all], Settings_Invalidate [sources_all]])"

definition save_failure ::
    "(json \<Rightarrow> string) \<Rightarrow> plugin_item \<Rightarrow> shown_error \<Rightarrow> settings_modal \<Rightarrow> settings_modal \<times> settings_output list" where
  "save_failure stringify p e s =
     (s\<lparr>sm_isSaving := False, sm_errorOpen := True, sm_errorTitle := ''Failed to configure '' @ pi_pluginName p,
        sm_errorMessage := str_or [se_message e] ''Failed to update plugin configuration'',
        sm_errorDetails := job_error_detail stringify e\<rparr>,
      [Settings_Notice (job_failure stringify ''Failed to update plugin configuration'' e)])"

datatype settings_edit =
    Edit_Global string string
  | Edit_Provider string string string
  | Edit_Secret string

definition edit_step :: "settings_modal \<Rightarrow> settings_edit \<Rightarrow> settings_modal" where
  "edit_step s e =
     (case e of
        Edit_Global k v \<Rightarrow> handleGlobalChange k v s
      | Edit_Provider p k v \<Rightarrow> handleProviderChange p k v s
      | Edit_Secret k \<Rightarrow> toggleSecret k s)"

text \<open>The events of the dialog; the answer belongs to the plugin whose settings were sent.\<close>

datatype settings_event =
    Select_Plugin "plugin_item option"
  | Settings_Edit settings_edit
  | Save_Click
  | Save_Answer plugin_item "shown_error option"

definition settings_step ::
    "(json \<Rightarrow> string) \<Rightarrow> settings_modal \<Rightarrow> settings_event \<Rightarrow> settings_modal \<times> settings_output list" where
  "settings_step stringify s e =
     (case e of
        Select_Plugin p \<Rightarrow> (sync_settings p s, [])
      | Settings_Edit d \<Rightarrow> (edit_step s d, [])
      | Save_Click \<Rightarrow>
          (case sm_plugin s of
             Some p \<Rightarrow> if hasAnySettings p \<and> \<not> sm_isSaving s then save_request p s else (s, [])
           | None \<Rightarrow> (s, []))
      | Save_Answer p None \<Rightarrow> save_success p s
      | Save_Answer p (Some err) \<Rightarrow> save_failure stringify p err s)"

text \<open>\<open>renderSettingField\<close>: which control a setting has, and what the control does.\<close>

datatype setting_field =
    Secret_Field string bool string
  | Switch_Field bool
  | Select_Field string "string list"
  | Number_Field string string
  | Text_Field string string

definition renderSettingField :: "settings_modal \<Rightarrow> plugin_setting_spec \<Rightarrow> string \<Rightarrow> string \<Rightarrow> setting_field" where
  "renderSettingField s setting val fieldId =
     (let placeholder = str_or [ps_defaultValue setting] (''Enter '' @ str_or [Some (ps_label setting)] (ps_key setting) @ ''...'')
      in if ps_type setting = ''secret'' then
           Secret_Field val (truthy_bool (map_of (sm_showSecrets s) fieldId)) (str_or [ps_defaultValue setting] ''Enter secret...'')
         else if ps_type setting = ''boolean'' then Switch_Field (val = ''true'')
         else if ps_type setting = ''select'' then
           Select_Field (str_or [Some val, ps_defaultValue setting] []) (coalesce_or [ps_options setting] [])
         else if ps_type setting = ''number'' then Number_Field val placeholder else Text_Field val placeholder)"

definition switch_click :: "string \<Rightarrow> string" where
  "switch_click val = (if val = ''true'' then ''false'' else ''true'')"

text \<open>The fields of the two kinds of tabs, with their ids.\<close>

definition global_field :: "settings_modal \<Rightarrow> plugin_setting_spec \<Rightarrow> setting_field" where
  "global_field s spec =
     renderSettingField s spec (coalesce_or [map_of (sm_globalValues s) (ps_key spec)] []) (''global-'' @ ps_key spec)"

definition provider_field_id :: "string \<Rightarrow> string \<Rightarrow> string" where
  "provider_field_id p k = ''prov-'' @ p @ ''-'' @ k"

definition provider_field :: "settings_modal \<Rightarrow> string \<Rightarrow> plugin_setting_spec \<Rightarrow> setting_field" where
  "provider_field s p spec =
     renderSettingField s spec
       (coalesce_or [Option.bind (map_of (sm_providerValues s) p) (\<lambda>m. map_of m (ps_key spec))] [])
       (provider_field_id p (ps_key spec))"

section \<open>The form as a map of fields\<close>

type_synonym form = "(string \<Rightarrow> string option) \<times> (string \<Rightarrow> string \<Rightarrow> string option)"

definition form_of :: "settings_modal \<Rightarrow> form" where
  "form_of s =
     (map_of (sm_globalValues s), \<lambda>p k. Option.bind (map_of (sm_providerValues s) p) (\<lambda>m. map_of m k))"

definition form_step :: "form \<Rightarrow> settings_edit \<Rightarrow> form" where
  "form_step f e =
     (case e of
        Edit_Global k v \<Rightarrow> ((fst f)(k \<mapsto> v), snd f)
      | Edit_Provider p k v \<Rightarrow> (fst f, (snd f)(p := (snd f p)(k \<mapsto> v)))
      | Edit_Secret k \<Rightarrow> f)"

lemma form_edit: "form_of (edit_step s e) = form_step (form_of s) e"
proof (cases e)
  case (Edit_Provider p k v)
  show ?thesis
    by (cases "map_of (sm_providerValues s) p")
      (auto simp: Edit_Provider form_of_def form_step_def edit_step_def handleProviderChange_def update_conv' fun_eq_iff)
qed (simp_all add: form_of_def form_step_def edit_step_def handleGlobalChange_def toggleSecret_def update_conv')

interpretation settings_form: refinement edit_step closed_settings "\<lambda>s. True" form_of form_step
  by unfold_locales (simp_all add: form_edit)

section \<open>Opening, saving and opening again\<close>

lemma map_of_foldl_update:
  "map_of (foldl (\<lambda>m x. AList.update (f x) (g x) m) acc xs) k =
     (case List.find (\<lambda>x. f x = k) (rev xs) of None \<Rightarrow> map_of acc k | Some x \<Rightarrow> Some (g x))"
proof (induction xs rule: rev_induct)
  case (snoc x xs)
  then show ?case by (simp add: update_conv')
qed simp

lemma find_by_key: "distinct (map f xs) \<Longrightarrow> x \<in> set xs \<Longrightarrow> List.find (\<lambda>y. f y = f x) xs = Some x"
  by (induction xs) auto

lemma find_key_None: "List.find (\<lambda>y. f y = k) xs = None \<longleftrightarrow> k \<notin> f ` set xs"
  by (auto simp: find_None_iff)

lemma dom_setting_values: "dom (map_of (setting_values cfg specs)) = schema_keys specs"
proof (cases specs)
  case (Some ss)
  have "map_of (setting_values cfg specs) k = None \<longleftrightarrow> k \<notin> schema_keys specs" for k
    using find_key_None [of ps_key k "rev ss"]
    by (cases "List.find (\<lambda>x. ps_key x = k) (rev ss)")
      (simp_all add: Some setting_values_def schema_keys_def map_of_foldl_update)
  then show ?thesis by (simp add: set_eq_iff domIff)
qed (simp add: setting_values_def schema_keys_def)

lemma setting_value_kept:
  assumes "k \<in> schema_keys specs" "map_of m k = Some v"
  shows "map_of (setting_values (Some m) specs) k = Some v"
proof -
  obtain ss where ss: "specs = Some ss" using assms(1) by (cases specs) (simp_all add: schema_keys_def)
  obtain s where s: "List.find (\<lambda>x. ps_key x = k) (rev ss) = Some s"
    using assms(1) find_key_None [of ps_key k "rev ss"] by (auto simp: ss schema_keys_def)
  then have "ps_key s = k" by (auto simp: find_Some_iff)
  with s assms(2) show ?thesis by (simp add: ss setting_values_def map_of_foldl_update initial_value_def)
qed

lemma setting_value_initial:
  "distinct (map ps_key ss) \<Longrightarrow> s \<in> set ss \<Longrightarrow>
     map_of (setting_values cfg (Some ss)) (ps_key s) = Some (initial_value cfg s)"
  by (simp add: setting_values_def map_of_foldl_update find_by_key rev_map [symmetric])

lemma initial_provider:
  assumes "distinct (map pd_id (pi_providers pl))" "d \<in> set (pi_providers pl)"
  shows "map_of (initial_providers pl) (pd_id d) =
    Some (setting_values (Option.bind (pi_providerConfigs pl) (\<lambda>m. map_of m (pd_id d))) (pd_settingsSchema d))"
  using assms by (simp add: initial_providers_def map_of_foldl_update find_by_key rev_map [symmetric])

lemma no_initial_provider: "p \<notin> pd_id ` set (pi_providers pl) \<Longrightarrow> map_of (initial_providers pl) p = None"
  using find_key_None [of pd_id p "rev (pi_providers pl)"]
  by (simp add: initial_providers_def map_of_foldl_update)

text \<open>The fields the dialog shows, and a form that has exactly those.\<close>

definition edit_ok :: "plugin_item \<Rightarrow> settings_edit \<Rightarrow> bool" where
  "edit_ok pl e =
     (case e of
        Edit_Global k v \<Rightarrow> k \<in> schema_keys (pi_pluginSettingsSchema pl)
      | Edit_Provider p k v \<Rightarrow> list_ex (\<lambda>d. pd_id d = p \<and> k \<in> schema_keys (pd_settingsSchema d)) (pi_providers pl)
      | Edit_Secret k \<Rightarrow> True)"

definition form_fits :: "plugin_item \<Rightarrow> form \<Rightarrow> bool" where
  "form_fits pl f =
     (dom (fst f) = schema_keys (pi_pluginSettingsSchema pl) \<and>
      (\<forall>d \<in> set (pi_providers pl). dom (snd f (pd_id d)) = schema_keys (pd_settingsSchema d)) \<and>
      (\<forall>p. p \<notin> pd_id ` set (pi_providers pl) \<longrightarrow> dom (snd f p) = {}))"

lemma fits_opened: "distinct (map pd_id (pi_providers pl)) \<Longrightarrow> form_fits pl (form_of (sync_settings (Some pl) s))"
  by (auto simp: form_fits_def form_of_def sync_settings_def initial_globals_def dom_setting_values initial_provider
      no_initial_provider)

lemma fits_step:
  assumes "distinct (map pd_id (pi_providers pl))" "form_fits pl f" "edit_ok pl e"
  shows "form_fits pl (form_step f e)"
proof (cases e)
  case (Edit_Global k v)
  with assms(2,3) show ?thesis by (simp add: form_fits_def form_step_def edit_ok_def insert_absorb)
next
  case (Edit_Provider p k v)
  then obtain d where d: "d \<in> set (pi_providers pl)" "pd_id d = p" "k \<in> schema_keys (pd_settingsSchema d)"
    using assms(3) by (auto simp: edit_ok_def list_ex_iff)
  have same: "d' = d" if "d' \<in> set (pi_providers pl)" "pd_id d' = p" for d'
    using that d(1,2) assms(1) by (simp add: distinct_map inj_on_def)
  have p: "p \<in> pd_id ` set (pi_providers pl)" using d by blast
  have dom_p: "dom (snd f p) = schema_keys (pd_settingsSchema d)" using assms(2) d unfolding form_fits_def by blast
  show ?thesis
    unfolding form_fits_def Edit_Provider form_step_def settings_edit.case fst_conv snd_conv
  proof (intro conjI ballI allI impI)
    show "dom (fst f) = schema_keys (pi_pluginSettingsSchema pl)" using assms(2) by (simp add: form_fits_def)
    show "dom (((snd f)(p := (snd f p)(k \<mapsto> v))) (pd_id d')) = schema_keys (pd_settingsSchema d')"
      if "d' \<in> set (pi_providers pl)" for d'
    proof (cases "pd_id d' = p")
      case True
      with same that dom_p d(3) show ?thesis by (simp add: insert_absorb)
    next
      case False
      with that assms(2) show ?thesis by (simp add: form_fits_def)
    qed
    show "dom (((snd f)(p := (snd f p)(k \<mapsto> v))) q) = {}" if "q \<notin> pd_id ` set (pi_providers pl)" for q
      using that p assms(2) unfolding form_fits_def by (metis fun_upd_other)
  qed
next
  case (Edit_Secret k)
  with assms(2) show ?thesis by (simp add: form_step_def)
qed

lemma fits_run:
  "distinct (map pd_id (pi_providers pl)) \<Longrightarrow> list_all (edit_ok pl) es \<Longrightarrow> form_fits pl f \<Longrightarrow>
     form_fits pl (run_events form_step f es)"
  by (induction es arbitrary: f) (simp_all add: fits_step)

text \<open>The plugin as the server describes it once it has stored what the dialog sent.\<close>

definition stored_plugin :: "plugin_item \<Rightarrow> settings_modal \<Rightarrow> plugin_item" where
  "stored_plugin pl s = pl\<lparr>pi_globalConfig := Some (sm_globalValues s), pi_providerConfigs := Some (sm_providerValues s)\<rparr>"

lemma reopened_values:
  assumes "dom (map_of m) = schema_keys specs"
  shows "map_of (setting_values (Some m) specs) = map_of m"
proof
  fix k
  show "map_of (setting_values (Some m) specs) k = map_of m k"
  proof (cases "k \<in> schema_keys specs")
    case True
    with assms obtain v where "map_of m k = Some v" by auto
    with True show ?thesis by (simp add: setting_value_kept)
  next
    case False
    with assms dom_setting_values [of "Some m" specs] show ?thesis by (metis domIff)
  qed
qed

lemma mget_values: "mget (map (\<lambda>(k, v). (k, JStr v)) vs) k = (case map_of vs k of None \<Rightarrow> JUndef | Some v \<Rightarrow> JStr v)"
  by (induction vs) (auto simp: mget_Cons split: prod.split)

lemma mget_providers:
  "mget (map (\<lambda>(p, vs). (p, values_json vs)) ps) p = (case map_of ps p of None \<Rightarrow> JUndef | Some vs \<Rightarrow> values_json vs)"
  by (induction ps) (auto simp: mget_Cons split: prod.split)

definition field_json :: "string option \<Rightarrow> json" where
  "field_json v = (case v of None \<Rightarrow> JUndef | Some t \<Rightarrow> JStr t)"

lemma body_global: "jget (jget (config_body s) ''globalConfig'') k = field_json (fst (form_of s) k)"
  by (simp add: config_body_def jget_def mget_Cons values_json_def mget_values form_of_def field_json_def)

lemma body_provider: "jget (jget (jget (config_body s) ''providerConfigs'') p) k = field_json (snd (form_of s) p k)"
proof -
  have "jget (jget (config_body s) ''providerConfigs'') p =
      (case map_of (sm_providerValues s) p of None \<Rightarrow> JUndef | Some vs \<Rightarrow> values_json vs)"
    by (simp add: config_body_def jget_def mget_Cons mget_providers)
  then show ?thesis
    by (cases "map_of (sm_providerValues s) p")
      (simp_all add: form_of_def field_json_def jget_def members_def values_json_def mget_values)
qed

text \<open>
  C40: The settings of a plugin survive saving. The form refines a map from fields to texts: after any edits of the fields
  it shows, it holds exactly what the same edits make of the map. The request carries the text of every
  field, and a plugin that comes back with what was sent opens with the same form, defaults and
  emptied fields included.
\<close>

theorem settings_roundtrip:
  assumes "list_all (edit_ok pl) es" "distinct (map pd_id (pi_providers pl))"
  shows "let s = run_events edit_step (sync_settings (Some pl) s0) es
     in form_of s = run_events form_step (form_of (sync_settings (Some pl) s0)) es \<and>
        jget (jget (config_body s) ''globalConfig'') k = field_json (fst (form_of s) k) \<and>
        jget (jget (jget (config_body s) ''providerConfigs'') p) k = field_json (snd (form_of s) p k) \<and>
        form_of (sync_settings (Some (stored_plugin pl s)) t) = form_of s"
proof -
  let ?s = "run_events edit_step (sync_settings (Some pl) s0) es"
  have abs: "form_of ?s = run_events form_step (form_of (sync_settings (Some pl) s0)) es"
    by (rule settings_form.abs_run_from) simp
  have fits: "form_fits pl (form_of ?s)"
    unfolding abs by (rule fits_run [OF assms(2,1) fits_opened [OF assms(2)]])
  have pl': "distinct (map pd_id (pi_providers (stored_plugin pl ?s)))" using assms(2) by (simp add: stored_plugin_def)
  let ?o = "sync_settings (Some (stored_plugin pl ?s)) t"
  have g: "map_of (sm_globalValues ?o) = map_of (sm_globalValues ?s)"
    using fits by (simp add: sync_settings_def initial_globals_def stored_plugin_def form_fits_def form_of_def reopened_values)
  have "snd (form_of ?o) q = snd (form_of ?s) q" for q
  proof (cases "q \<in> pd_id ` set (pi_providers pl)")
    case True
    then obtain d where d: "d \<in> set (pi_providers pl)" "q = pd_id d" by blast
    then have dom: "dom (snd (form_of ?s) q) = schema_keys (pd_settingsSchema d)" using fits by (simp add: form_fits_def)
    have o: "map_of (sm_providerValues ?o) q =
        Some (setting_values (map_of (sm_providerValues ?s) q) (pd_settingsSchema d))"
      using initial_provider [OF pl', of d] d by (simp add: sync_settings_def stored_plugin_def)
    show ?thesis
    proof (cases "map_of (sm_providerValues ?s) q")
      case None
      then have "schema_keys (pd_settingsSchema d) = {}" using dom by (simp add: form_of_def)
      then have "map_of (setting_values None (pd_settingsSchema d)) = Map.empty"
        using dom_setting_values [of None "pd_settingsSchema d"] by simp
      with o None show ?thesis by (simp add: form_of_def)
    next
      case (Some m)
      then have "dom (map_of m) = schema_keys (pd_settingsSchema d)" using dom by (simp add: form_of_def)
      with o Some show ?thesis by (simp add: form_of_def reopened_values)
    qed
  next
    case False
    then have "map_of (sm_providerValues ?o) q = None"
      using no_initial_provider [of q "stored_plugin pl ?s"] by (simp add: sync_settings_def stored_plugin_def)
    moreover have "snd (form_of ?s) q = Map.empty" using False fits by (simp add: form_fits_def)
    ultimately show ?thesis by (simp add: form_of_def)
  qed
  with g have "form_of ?o = form_of ?s" by (simp add: form_of_def fun_eq_iff)
  with abs show ?thesis unfolding Let_def by (simp add: body_global body_provider)
qed

text \<open>\<open>settings_roundtrip\<close> for a plugin with a global secret and a provider with a switch.\<close>

definition sample_spec :: "string \<Rightarrow> string \<Rightarrow> string option \<Rightarrow> plugin_setting_spec" where
  "sample_spec k ty d =
     \<lparr>ps_key = k, ps_label = k, ps_description = None, ps_type = ty, ps_defaultValue = d, ps_options = None\<rparr>"

definition sample_plugin :: plugin_item where
  "sample_plugin =
     \<lparr>pi_pluginId = ''p1'', pi_pluginName = ''Plugin'', pi_pluginVersion = ''1'', pi_sdkVersion = ''1'',
      pi_sdkCompatible = True, pi_executablePath = [], pi_pid = 1, pi_state = ''running'', pi_errorMessage = None,
      pi_loadedAt = [],
      pi_providers = [\<lparr>pd_id = ''mdex'', pd_name = ''Mdex'', pd_description = None, pd_capabilities = [],
        pd_settingsSchema = Some [sample_spec ''saver'' ''boolean'' (Some ''false'')], pd_defaultRateLimit = None\<rparr>],
      pi_pluginSettingsSchema = Some [sample_spec ''token'' ''secret'' None],
      pi_globalConfig = Some [(''token'', ''abc'')], pi_providerConfigs = None\<rparr>"

theorem settings_roundtrip_witness:
  "let s = run_events edit_step (sync_settings (Some sample_plugin) closed_settings) [Edit_Provider ''mdex'' ''saver'' ''true'']
   in fst (form_of s) ''token'' = Some ''abc'' \<and> snd (form_of s) ''mdex'' ''saver'' = Some ''true'' \<and>
      form_of (sync_settings (Some (stored_plugin sample_plugin s)) closed_settings) = form_of s"
proof -
  let ?es = "[Edit_Provider ''mdex'' ''saver'' ''true'']"
  have h: "list_all (edit_ok sample_plugin) ?es"
    by (simp add: edit_ok_def sample_plugin_def sample_spec_def schema_keys_def)
  have d: "distinct (map pd_id (pi_providers sample_plugin))" by (simp add: sample_plugin_def)
  have v: "let s = run_events edit_step (sync_settings (Some sample_plugin) closed_settings) ?es
     in fst (form_of s) ''token'' = Some ''abc'' \<and> snd (form_of s) ''mdex'' ''saver'' = Some ''true''"
    by code_simp
  show ?thesis using settings_roundtrip [OF h d, of closed_settings] v unfolding Let_def by blast
qed

text \<open>
  What an answer to a save does. A success closes the dialog and makes the list of plugins, their logs and the
  sources be fetched again; a failure keeps the plugin selected and every text of the form, and shows the error in
  a toast and in the error dialog. Either way the button can be used again. While a save is under
  way a second click sends nothing, and a plugin without settings never sends a request.
\<close>

theorem save_outcome:
  assumes "sm_plugin s = Some p"
  shows "(let (s', os) = settings_step stringify s (Save_Answer p None)
      in sm_plugin s' = None \<and> \<not> sm_isSaving s' \<and>
         (\<forall>q \<in> {plugins_all, plugins_logs i, sources_all}. \<exists>ks. Settings_Invalidate ks \<in> set os \<and> covers ks q)) \<and>
    (let (s', os) = settings_step stringify s (Save_Answer p (Some e))
      in sm_plugin s' = Some p \<and> form_of s' = form_of s \<and> \<not> sm_isSaving s' \<and> sm_errorOpen s' \<and>
         (\<exists>m ty. os = [Settings_Notice (m, ty, Some (sm_errorDetails s'))] \<and> m = sm_errorMessage s' \<and> ty = Toast_Error \<and> m \<noteq> [])) \<and>
    (sm_isSaving s \<or> \<not> hasAnySettings p \<longrightarrow> settings_step stringify s Save_Click = (s, [])) \<and>
    (\<not> sm_isSaving s \<and> hasAnySettings p \<longrightarrow>
      settings_step stringify (fst (settings_step stringify s Save_Click)) Save_Click =
        (fst (settings_step stringify s Save_Click), []))"
proof (rule conjI4; (intro impI)?)
  show "let (s', os) = settings_step stringify s (Save_Answer p None)
      in sm_plugin s' = None \<and> \<not> sm_isSaving s' \<and>
         (\<forall>q \<in> {plugins_all, plugins_logs i, sources_all}. \<exists>ks. Settings_Invalidate ks \<in> set os \<and> covers ks q)"
  proof -
    have "covers [plugins_all] plugins_all" "covers [plugins_all] (plugins_logs i)" "covers [sources_all] sources_all"
      by (simp_all add: plugins_logs_def)
    then show ?thesis by (auto simp: settings_step_def save_success_def sync_settings_def simp del: covers_Cons)
  qed
  show "let (s', os) = settings_step stringify s (Save_Answer p (Some e))
      in sm_plugin s' = Some p \<and> form_of s' = form_of s \<and> \<not> sm_isSaving s' \<and> sm_errorOpen s' \<and>
         (\<exists>m ty. os = [Settings_Notice (m, ty, Some (sm_errorDetails s'))] \<and> m = sm_errorMessage s' \<and> ty = Toast_Error \<and> m \<noteq> [])"
    using assms
    by (cases "se_message e") (simp_all add: settings_step_def save_failure_def form_of_def job_failure_def)
  show "settings_step stringify s Save_Click = (s, [])" if "sm_isSaving s \<or> \<not> hasAnySettings p"
    using that assms by (auto simp: settings_step_def)
  show "settings_step stringify (fst (settings_step stringify s Save_Click)) Save_Click =
        (fst (settings_step stringify s Save_Click), [])" if "\<not> sm_isSaving s \<and> hasAnySettings p"
    using that assms by (simp add: settings_step_def save_request_def)
qed

theorem save_outcome_witness:
  "settings_step (\<lambda>j. []) (fst (settings_step (\<lambda>j. []) (sync_settings (Some sample_plugin) closed_settings) Save_Click)) Save_Click =
    (fst (settings_step (\<lambda>j. []) (sync_settings (Some sample_plugin) closed_settings) Save_Click), [])"
proof -
  have h: "sm_plugin (sync_settings (Some sample_plugin) closed_settings) = Some sample_plugin"
    by (simp add: sync_settings_def)
  have c: "\<not> sm_isSaving (sync_settings (Some sample_plugin) closed_settings) \<and> hasAnySettings sample_plugin"
    by code_simp
  show ?thesis using save_outcome [OF h, of "\<lambda>j. []"] c by blast
qed

lemma edits_keep:
  "sm_plugin (run_events edit_step u es) = sm_plugin u \<and> sm_isSaving (run_events edit_step u es) = sm_isSaving u"
  by (induction es arbitrary: u)
    (simp_all add: edit_step_def handleGlobalChange_def handleProviderChange_def toggleSecret_def split: settings_edit.split)

lemma waiting_dialog:
  "sm_plugin u = Some q \<Longrightarrow> sm_isSaving u \<Longrightarrow>
     settings_step stringify u Save_Click = (u, []) \<and> sm_plugin (fst (settings_step stringify u (Save_Answer p None))) = None"
  by (simp add: settings_step_def save_success_def sync_settings_def)

text \<open>
  An answer that comes late. The dialog of plugin \<open>p\<close> is cancelled while its settings are being saved and the dialog of
  another plugin is opened: the new dialog cannot save, because the button still waits for the first
  answer; and when that answer is a success it closes the new dialog, whatever was typed there.
\<close>

theorem late_answer_closes_other:
  assumes "hasAnySettings p" "sm_plugin s = Some p" "\<not> sm_isSaving s"
  shows "let s1 = fst (settings_step stringify s Save_Click);
             s2 = fst (settings_step stringify (fst (settings_step stringify s1 (Select_Plugin None))) (Select_Plugin (Some q)));
             s3 = run_events edit_step s2 es
     in settings_step stringify s3 Save_Click = (s3, []) \<and> sm_plugin s3 = Some q \<and>
        sm_plugin (fst (settings_step stringify s3 (Save_Answer p None))) = None"
proof -
  let ?s1 = "fst (settings_step stringify s Save_Click)"
  let ?s2 = "fst (settings_step stringify (fst (settings_step stringify ?s1 (Select_Plugin None))) (Select_Plugin (Some q)))"
  have "sm_isSaving ?s1" using assms by (simp add: settings_step_def save_request_def)
  then have "sm_plugin ?s2 = Some q \<and> sm_isSaving ?s2" by (simp add: settings_step_def sync_settings_def)
  with edits_keep [of ?s2 es] waiting_dialog [of "run_events edit_step ?s2 es" q stringify p]
  show ?thesis unfolding Let_def by simp
qed

theorem late_answer_closes_other_witness:
  "let s1 = fst (settings_step (\<lambda>j. []) (sync_settings (Some sample_plugin) closed_settings) Save_Click);
       s2 = fst (settings_step (\<lambda>j. []) (fst (settings_step (\<lambda>j. []) s1 (Select_Plugin None)))
              (Select_Plugin (Some (sample_plugin\<lparr>pi_pluginId := ''p2''\<rparr>))));
       s3 = run_events edit_step s2 []
   in sm_plugin (fst (settings_step (\<lambda>j. []) s3 (Save_Answer sample_plugin None))) = None"
proof -
  have c: "hasAnySettings sample_plugin" by code_simp
  have h: "sm_plugin (sync_settings (Some sample_plugin) closed_settings) = Some sample_plugin"
      "\<not> sm_isSaving (sync_settings (Some sample_plugin) closed_settings)"
    by (simp_all add: sync_settings_def closed_settings_def)
  show ?thesis
    using late_answer_closes_other [OF c h, where stringify = "\<lambda>j. []" and q = "sample_plugin\<lparr>pi_pluginId := ''p2''\<rparr>" and es = "[]"]
    unfolding Let_def by blast
qed

text \<open>Two settings of two providers can share the id under which their secrets are shown.\<close>

lemma secret_ids_collide:
  "provider_field_id ''a'' ''b-c'' = provider_field_id ''a-b'' ''c'' \<and>
   (let s = edit_step (closed_settings\<lparr>sm_showSecrets := []\<rparr>) (Edit_Secret (provider_field_id ''a'' ''b-c''))
    in provider_field s ''a-b'' (sample_spec ''c'' ''secret'' None) = Secret_Field [] True ''Enter secret...'')"
  by code_simp

lemma secret_ids_differ: "''global-'' @ k \<noteq> provider_field_id p k'"
  by (simp add: provider_field_id_def)

end
