(* ===== verification/Settings_Tabs.thy ===== *)
theory Settings_Tabs
  imports Plugin_Settings
begin

text \<open>
  The rest of the settings page: the choice between colliding providers
  (\<open>plugins/CollisionResolutionAlert.tsx\<close>), the log view of a plugin (\<open>plugins/DiagnosticLogsModal.tsx\<close>), the
  reload of the plugins (\<open>settings/SettingsPluginsTab.tsx\<close>) and the two caches
  (\<open>settings/SettingsCacheTab.tsx\<close>). \<open>dump\<close> is \<open>JSON.stringify(o)\<close>, \<open>stringify\<close> the indented one, and
  \<open>isoDate\<close> is \<open>new Date(s).toISOString()\<close>, which throws (\<open>None\<close>) when the text is no date.
\<close>

section \<open>Colliding providers\<close>

definition valueKey :: "provider_candidate \<Rightarrow> string" where
  "valueKey cand = (if pc_isBuiltIn cand then ''builtin'' else pc_pluginId cand)"

definition selected_label :: "provider_collision \<Rightarrow> string" where
  "selected_label item =
     (case List.find (\<lambda>cand. valueKey cand = pcol_selected item) (pcol_candidates item) of
        None \<Rightarrow> pcol_selected item
      | Some c \<Rightarrow> if pc_isBuiltIn c then ''Built-in (v'' @ pc_version c @ '')''
                  else ''Plugin: '' @ pc_pluginId c @ '' (v'' @ pc_version c @ '')'')"

definition candidate_label :: "provider_candidate \<Rightarrow> string" where
  "candidate_label cand =
     (if pc_isBuiltIn cand then ''Built-in (in-process direct v'' @ pc_version cand @ '')''
      else ''Plugin: '' @ pc_pluginId cand @ '' (v'' @ pc_version cand @ '')'')"

text \<open>The alert keeps the id of the provider whose preference is being changed.\<close>

definition choose_candidate :: "provider_collision \<Rightarrow> string \<Rightarrow> string option \<Rightarrow> string option \<times> request option" where
  "choose_candidate item val updatingId =
     (if updatingId = Some (pcol_providerId item) \<or> val = [] then (updatingId, None)
      else (Some (pcol_providerId item), Some (api_setPluginPreference (pcol_providerId item) val)))"

definition preference_success :: "string \<Rightarrow> string \<Rightarrow> string option \<times> notice \<times> query_key list" where
  "preference_success providerId preference =
     (None,
      success_notice (''Switched active '' @ providerId @ '' provider to '' @
        (if preference = ''builtin'' then ''Built-in'' else preference)),
      [collisions_all, plugins_all, sources_all])"

definition preference_failure :: "shown_error \<Rightarrow> string option \<times> notice" where
  "preference_failure e =
     (None, (str_or [se_message e] ''Failed to update provider preference'', Toast_Error, se_stack e))"

section \<open>Reloading the plugins\<close>

definition reload_success :: "reload_plugins_response \<Rightarrow> notice \<times> query_key list" where
  "reload_success data =
     (success_notice (str_or [Some (rp_message data)]
        (''Reloaded '' @ num_str (of_nat (length (rp_reloadedPlugins data))) @ '' plugin(s)'')),
      [plugins_all, collisions_all])"

definition reload_failure :: "(json \<Rightarrow> string) \<Rightarrow> shown_error \<Rightarrow> notice" where
  "reload_failure stringify e = job_failure stringify ''Failed to reload plugins'' e"

section \<open>The logs of a plugin\<close>

record log_entry =
  le_timestamp :: string
  le_level :: string
  le_message :: string
  le_fields :: "((string \<times> json) list) option"
  le_raw :: "string option"

definition entry_level :: "log_entry \<Rightarrow> string" where
  "entry_level l = js_upper (str_or [Some (le_level l)] ''INFO'')"

definition keep_log :: "(json \<Rightarrow> string) \<Rightarrow> string \<Rightarrow> string \<Rightarrow> log_entry \<Rightarrow> bool" where
  "keep_log dump selectedLevel filterQuery l =
     (if selectedLevel \<noteq> ''ALL'' \<and> entry_level l \<noteq> selectedLevel then False
      else if js_trim filterQuery \<noteq> [] then
        let q = js_lower filterQuery;
            msg = js_lower (le_message l);
            raw = js_lower (str_or [le_raw l] []);
            fieldsStr = (case le_fields l of None \<Rightarrow> [] | Some ms \<Rightarrow> js_lower (dump (JObj ms)))
        in js_includes msg q \<or> js_includes raw q \<or> js_includes fieldsStr q
      else True)"

definition filteredLogs :: "(json \<Rightarrow> string) \<Rightarrow> log_entry list \<Rightarrow> string \<Rightarrow> string \<Rightarrow> log_entry list" where
  "filteredLogs dump logs selectedLevel filterQuery = filter (keep_log dump selectedLevel filterQuery) logs"

definition logs_refetchInterval :: "bool \<Rightarrow> bool \<Rightarrow> nat option" where
  "logs_refetchInterval isOpen autoRefresh = (if isOpen \<and> autoRefresh then Some 2000 else None)"

definition logs_query :: "bool \<Rightarrow> plugin_item option \<Rightarrow> query_opts" where
  "logs_query isOpen plugin =
     (let pluginId = str_or [map_option pi_pluginId plugin] []
      in set_enabled (Some (isOpen \<and> pluginId \<noteq> [])) (pluginLogsQueryOptions pluginId))"

text \<open>The text of a copied entry; \<open>None\<close> when the timestamp cannot be printed.\<close>

definition log_line :: "(json \<Rightarrow> string) \<Rightarrow> (string \<Rightarrow> string option) \<Rightarrow> log_entry \<Rightarrow> string option" where
  "log_line dump isoDate l =
     (case (if le_timestamp l \<noteq> [] then isoDate (le_timestamp l) else Some []) of
        None \<Rightarrow> None
      | Some ts \<Rightarrow>
          let fields = (case le_fields l of None \<Rightarrow> [] | Some ms \<Rightarrow> if ms \<noteq> [] then '' | '' @ dump (JObj ms) else [])
          in Some (''['' @ ts @ ''] ['' @ str_or [Some (le_level l)] ''INFO'' @ ''] '' @
                   str_or [Some (le_message l), le_raw l] [] @ fields))"

fun all_lines :: "string option list \<Rightarrow> string list option" where
  "all_lines [] = Some []"
| "all_lines (None # ls) = None"
| "all_lines (Some l # ls) = map_option ((#) l) (all_lines ls)"

fun join_lines :: "string list \<Rightarrow> string" where
  "join_lines [] = []"
| "join_lines [l] = l"
| "join_lines (l # ls) = l @ CHR 0x0A # join_lines ls"

text \<open>\<open>handleCopyLogs\<close>: nothing to copy, an exception before the clipboard is asked, or the text for it.\<close>

datatype copy_result = Copy_Nothing | Copy_Throws | Copy_Text string

definition handleCopyLogs :: "(json \<Rightarrow> string) \<Rightarrow> (string \<Rightarrow> string option) \<Rightarrow> log_entry list \<Rightarrow> copy_result" where
  "handleCopyLogs dump isoDate logs =
     (if length logs = 0 then Copy_Nothing
      else case all_lines (map (log_line dump isoDate) logs) of
             None \<Rightarrow> Copy_Throws
           | Some ls \<Rightarrow> Copy_Text (join_lines ls))"

section \<open>The caches\<close>

definition clearCacheMutation :: mutation where
  "clearCacheMutation = \<lparr>mu_request = api_clearCache, mu_invalidates = [system_cache]\<rparr>"

definition clear_cache_disabled :: "bool \<Rightarrow> bool \<Rightarrow> cache_stats option \<Rightarrow> bool" where
  "clear_cache_disabled isLoading isPending cacheStats =
     (isLoading \<or> isPending \<or>
      map_option cst_item_count cacheStats = Some 0 \<and> map_option cst_size_bytes cacheStats = Some 0)"

record cache_tab =
  ct_confirmCache :: bool
  ct_confirmOffline :: bool
  ct_clearing :: bool
  ct_clearingOffline :: bool
  ct_errorOpen :: bool
  ct_errorMessage :: string
  ct_errorDetails :: string

datatype cache_event =
    Ask_Cache bool
  | Ask_Offline bool
  | Confirm_Cache
  | Cache_Answer "shown_error option"
  | Confirm_Offline
  | Offline_Answer "shown_error option"

datatype cache_output = Clear_Request mutation | Clear_Persisted | Cache_Notice notice

definition clear_cache_failure :: "(json \<Rightarrow> string) \<Rightarrow> shown_error \<Rightarrow> notice" where
  "clear_cache_failure stringify e = job_failure stringify ''Failed to clear cache'' e"

definition cache_step :: "(json \<Rightarrow> string) \<Rightarrow> cache_tab \<Rightarrow> cache_event \<Rightarrow> cache_tab \<times> cache_output list" where
  "cache_step stringify s e =
     (case e of
        Ask_Cache b \<Rightarrow> (s\<lparr>ct_confirmCache := b\<rparr>, [])
      | Ask_Offline b \<Rightarrow> (s\<lparr>ct_confirmOffline := b\<rparr>, [])
      | Confirm_Cache \<Rightarrow>
          if ct_confirmCache s \<and> \<not> ct_clearing s
          then (s\<lparr>ct_confirmCache := False, ct_clearing := True\<rparr>, [Clear_Request clearCacheMutation]) else (s, [])
      | Cache_Answer None \<Rightarrow> (s\<lparr>ct_clearing := False\<rparr>, [Cache_Notice (success_notice ''Image cache cleared successfully'')])
      | Cache_Answer (Some err) \<Rightarrow>
          (s\<lparr>ct_clearing := False, ct_errorOpen := True, ct_errorMessage := str_or [se_message err] ''Failed to clear cache'',
             ct_errorDetails := job_error_detail stringify err\<rparr>,
           [Cache_Notice (clear_cache_failure stringify err)])
      | Confirm_Offline \<Rightarrow>
          if ct_confirmOffline s \<and> \<not> ct_clearingOffline s
          then (s\<lparr>ct_clearingOffline := True\<rparr>, [Clear_Persisted]) else (s, [])
      | Offline_Answer r \<Rightarrow>
          (s\<lparr>ct_clearingOffline := False, ct_confirmOffline := False\<rparr>,
           [Cache_Notice (case r of
              None \<Rightarrow> success_notice ''Offline query cache cleared successfully''
            | Some err \<Rightarrow> (''Failed to clear offline cache'', Toast_Error, se_message err))]))"

section \<open>Properties\<close>

text \<open>
  The choice between colliding providers. When the candidates have different keys, the label shown for the selected
  one is that of the candidate with the key; choosing a candidate sends the key it is listed under, once, for that
  provider; and a change reaches the alert, the plugins and the sources. A reload of the plugins reaches
  the first two but not the sources.
\<close>

theorem collision_choice:
  assumes "distinct (map valueKey (pcol_candidates item))" "cand \<in> set (pcol_candidates item)" "valueKey cand \<noteq> []"
    and "updatingId \<noteq> Some (pcol_providerId item)"
  shows "(pcol_selected item = valueKey cand \<longrightarrow> selected_label item =
      (if pc_isBuiltIn cand then ''Built-in (v'' @ pc_version cand @ '')''
       else ''Plugin: '' @ pc_pluginId cand @ '' (v'' @ pc_version cand @ '')'')) \<and>
    (let (u, r) = choose_candidate item (valueKey cand) updatingId
     in r = Some (api_setPluginPreference (pcol_providerId item) (valueKey cand)) \<and>
        (\<forall>val. choose_candidate item val u = (u, None))) \<and>
    (\<forall>q \<in> set [collisions_all, plugins_all, plugins_logs i, sources_all].
       covers (snd (snd (preference_success (pcol_providerId item) (valueKey cand)))) q) \<and>
    (covers (snd (reload_success data)) plugins_all \<and> covers (snd (reload_success data)) collisions_all \<and>
       \<not> covers (snd (reload_success data)) sources_all)"
proof (rule conjI4; (intro impI)?)
  show "selected_label item = (if pc_isBuiltIn cand then ''Built-in (v'' @ pc_version cand @ '')''
       else ''Plugin: '' @ pc_pluginId cand @ '' (v'' @ pc_version cand @ '')'')" if "pcol_selected item = valueKey cand"
    using find_by_key [OF assms(1,2)] that by (simp add: selected_label_def)
  show "let (u, r) = choose_candidate item (valueKey cand) updatingId
     in r = Some (api_setPluginPreference (pcol_providerId item) (valueKey cand)) \<and>
        (\<forall>val. choose_candidate item val u = (u, None))"
    using assms(3,4) by (simp add: choose_candidate_def)
  have k: "\<not> prefix plugins_all sources_all" "\<not> prefix collisions_all sources_all" "prefix plugins_all (plugins_logs i)"
    by (simp_all add: plugins_all_def collisions_all_def sources_all_def plugins_logs_def)
  then show "covers (snd (reload_success data)) plugins_all \<and> covers (snd (reload_success data)) collisions_all \<and>
       \<not> covers (snd (reload_success data)) sources_all"
    by (simp add: reload_success_def)
  show "\<forall>q \<in> set [collisions_all, plugins_all, plugins_logs i, sources_all].
       covers (snd (snd (preference_success (pcol_providerId item) (valueKey cand)))) q"
    using k(3) by (simp add: preference_success_def)
qed

definition sample_collision :: provider_collision where
  "sample_collision =
     \<lparr>pcol_providerId = ''mdex'', pcol_selected = ''builtin'',
      pcol_candidates =
        [\<lparr>pc_pluginId = ''p1'', pc_version = ''2'', pc_isBuiltIn = False, pc_selected = False\<rparr>,
         \<lparr>pc_pluginId = [], pc_version = ''1'', pc_isBuiltIn = True, pc_selected = True\<rparr>]\<rparr>"

theorem collision_choice_witness:
  "selected_label sample_collision = ''Built-in (v1)''"
proof -
  let ?c = "\<lparr>pc_pluginId = [], pc_version = ''1'', pc_isBuiltIn = True, pc_selected = True\<rparr>"
  have h: "distinct (map valueKey (pcol_candidates sample_collision))" "?c \<in> set (pcol_candidates sample_collision)"
    by (simp_all add: sample_collision_def valueKey_def)
  have k: "valueKey ?c \<noteq> []" "None \<noteq> Some (pcol_providerId sample_collision)" by (simp_all add: valueKey_def)
  have "pcol_selected sample_collision = valueKey ?c" by (simp add: sample_collision_def valueKey_def)
  with collision_choice [OF h k] show ?thesis by simp
qed

text \<open>
  The log filter keeps the order, and a stricter level or a longer text only takes entries away. The text is not
  trimmed, so one that is typed with a blank at its end can miss the entries it found before.
\<close>

lemma sublist_lower: "sublist p q \<Longrightarrow> sublist (js_lower p) (js_lower q)"
  unfolding js_lower_def by (rule map_mono_sublist)

lemma filteredLogs_narrow:
  assumes "sublist p q" "js_trim p \<noteq> []" "js_trim q \<noteq> []"
  shows "filteredLogs dump logs lv q = filter (keep_log dump lv q) (filteredLogs dump logs ''ALL'' p)"
proof -
  have inc: "js_includes t (js_lower q) \<Longrightarrow> js_includes t (js_lower p)" for t
    using sublist_order.order.trans [OF sublist_lower [OF assms(1)]] by (simp add: js_includes_sublist)
  have "keep_log dump lv q l \<Longrightarrow> keep_log dump ''ALL'' p l" for l
    using assms(2,3) inc by (auto simp: keep_log_def Let_def split: if_splits)
  then show ?thesis by (auto simp: filteredLogs_def intro: filter_cong)
qed

lemma trailing_blank_misses:
  "let l = \<lparr>le_timestamp = [], le_level = ''info'', le_message = ''Plugin ready'', le_fields = None, le_raw = None\<rparr>
   in filteredLogs dump [l] ''INFO'' ''Ready'' = [l] \<and> filteredLogs dump [l] ''ALL'' ''Ready '' = []"
  by code_simp

lemma all_lines_conv: "all_lines ls = (if None \<in> set ls then None else Some (map the ls))"
  by (induction ls rule: all_lines.induct) auto

text \<open>
  The log view. The entries shown are those of the chosen level (in any letter case, \<open>INFO\<close> when an entry has none)
  whose message, raw line or fields contain the text, letter case ignored; they keep their order, and without
  a level and a text all are shown. The copy holds every entry, whatever is filtered, one line each; it is made exactly
  when every timestamp can be printed, and one that cannot makes it fail without a message.
\<close>

theorem log_view_spec:
  "(set (filteredLogs dump logs lv q) =
     {l \<in> set logs. (lv = ''ALL'' \<or> entry_level l = lv) \<and>
       (js_trim q = [] \<or> sublist (js_lower q) (js_lower (le_message l)) \<or>
        sublist (js_lower q) (js_lower (str_or [le_raw l] [])) \<or>
        sublist (js_lower q) (case le_fields l of None \<Rightarrow> [] | Some ms \<Rightarrow> js_lower (dump (JObj ms))))}) \<and>
   subseq (filteredLogs dump logs lv q) logs \<and>
   (filteredLogs dump logs ''ALL'' [] = logs) \<and>
   (handleCopyLogs dump isoDate logs = Copy_Throws \<longleftrightarrow>
      (\<exists>l \<in> set logs. le_timestamp l \<noteq> [] \<and> isoDate (le_timestamp l) = None)) \<and>
   (handleCopyLogs dump isoDate logs = Copy_Nothing \<longleftrightarrow> logs = []) \<and>
   (\<forall>t. handleCopyLogs dump isoDate logs = Copy_Text t \<longrightarrow> t = join_lines (map (the \<circ> log_line dump isoDate) logs))"
proof (rule conjI6; (intro allI impI)?)
  show "set (filteredLogs dump logs lv q) =
     {l \<in> set logs. (lv = ''ALL'' \<or> entry_level l = lv) \<and>
       (js_trim q = [] \<or> sublist (js_lower q) (js_lower (le_message l)) \<or>
        sublist (js_lower q) (js_lower (str_or [le_raw l] [])) \<or>
        sublist (js_lower q) (case le_fields l of None \<Rightarrow> [] | Some ms \<Rightarrow> js_lower (dump (JObj ms))))}"
    unfolding filteredLogs_def set_filter keep_log_def js_includes_sublist Let_def by (rule Collect_cong) simp
  show "subseq (filteredLogs dump logs lv q) logs" by (simp add: filteredLogs_def subseq_filter_left)
  show "filteredLogs dump logs ''ALL'' [] = logs" by (simp add: filteredLogs_def keep_log_def)
  have line: "log_line dump isoDate l = None \<longleftrightarrow> le_timestamp l \<noteq> [] \<and> isoDate (le_timestamp l) = None" for l
    by (simp add: log_line_def Let_def split: option.split)
  have none: "None \<in> set (map (log_line dump isoDate) logs) \<longleftrightarrow>
      (\<exists>l \<in> set logs. le_timestamp l \<noteq> [] \<and> isoDate (le_timestamp l) = None)"
    using line by force
  show "handleCopyLogs dump isoDate logs = Copy_Throws \<longleftrightarrow>
      (\<exists>l \<in> set logs. le_timestamp l \<noteq> [] \<and> isoDate (le_timestamp l) = None)"
    using none by (cases logs) (auto simp: handleCopyLogs_def all_lines_conv)
  show "handleCopyLogs dump isoDate logs = Copy_Nothing \<longleftrightarrow> logs = []"
    by (simp add: handleCopyLogs_def split: option.split)
  show "t = join_lines (map (the \<circ> log_line dump isoDate) logs)" if "handleCopyLogs dump isoDate logs = Copy_Text t" for t
    using that by (auto simp: handleCopyLogs_def all_lines_conv split: if_splits)
qed

definition sample_log :: log_entry where
  "sample_log =
     \<lparr>le_timestamp = ''now'', le_level = ''info'', le_message = ''Plugin ready'', le_fields = None, le_raw = None\<rparr>"

theorem log_view_spec_witness:
  "handleCopyLogs (\<lambda>j. []) (\<lambda>s. None) [sample_log] = Copy_Throws \<and>
   join_lines (map (the \<circ> log_line (\<lambda>j. []) Some) [sample_log]) = ''[now] [info] Plugin ready''"
proof -
  have "\<exists>l \<in> set [sample_log]. le_timestamp l \<noteq> [] \<and> (\<lambda>s. None :: string option) (le_timestamp l) = None"
    by (simp add: sample_log_def)
  then have 1: "handleCopyLogs (\<lambda>j. []) (\<lambda>s. None) [sample_log] = Copy_Throws"
    using log_view_spec [of "\<lambda>j. []" "[sample_log]" "''ALL''" "[]" "\<lambda>s. None"] by blast
  have "handleCopyLogs (\<lambda>j. []) Some [sample_log] = Copy_Text ''[now] [info] Plugin ready''" by code_simp
  then have "''[now] [info] Plugin ready'' = join_lines (map (the \<circ> log_line (\<lambda>j. []) Some) [sample_log])"
    using log_view_spec [of "\<lambda>j. []" "[sample_log]" "''ALL''" "[]" Some] by blast
  with 1 show ?thesis by simp
qed

text \<open>
  The two confirmations of the cache tab: a request leaves only after the question was asked and confirmed, and the offline
  cache is not cleared a second time while the first clearing runs.
\<close>

lemma clearing_is_confirmed:
  "(Clear_Request m \<in> set (snd (cache_step st s e)) \<longrightarrow> e = Confirm_Cache \<and> ct_confirmCache s \<and> \<not> ct_clearing s \<and> m = clearCacheMutation \<and>
      covers (mu_invalidates m) (qo_key cacheStatsQueryOptions)) \<and>
   (Clear_Persisted \<in> set (snd (cache_step st s e)) \<longrightarrow> e = Confirm_Offline \<and> ct_confirmOffline s \<and> \<not> ct_clearingOffline s \<and>
      ct_clearingOffline (fst (cache_step st s e))) \<and>
   (e = Offline_Answer r \<longrightarrow> \<not> ct_clearingOffline (fst (cache_step st s e)) \<and> \<not> ct_confirmOffline (fst (cache_step st s e)))"
  by (cases e) (auto simp: cache_step_def clearCacheMutation_def cacheStatsQueryOptions_def split: option.splits if_splits)

end
