(* ===== verification/Tag_Input.thy ===== *)
theory Tag_Input
  imports Json
begin

text \<open>
  The chip editor \<open>components/ui/tag-input.tsx\<close> of the edit dialog: text that is typed or pasted is cut at
  the commas, Enter and leaving the field take the rest, Backspace in the empty field removes the
  last tag. The list belongs to the caller, who keeps what \<open>onChange\<close> passes (in the edit dialog
  \<open>onChange\<close> is the setter of the value). The set \<open>seen\<close> is only asked for its members.
\<close>

section \<open>The handlers\<close>

record tag_props =
  tg_onChange :: bool
  tg_disabled :: bool
  tg_allowDuplicates :: bool

record tag_state =
  tt_value :: "string list"
  tt_inputValue :: string

definition add_token :: "bool \<Rightarrow> string set \<times> string list \<Rightarrow> string \<Rightarrow> string set \<times> string list" where
  "add_token allowDuplicates acc token =
     (let seen = fst acc; newItems = snd acc; trimmed = js_trim token
      in if trimmed = [] then acc
         else if allowDuplicates \<or> js_lower trimmed \<notin> seen
              then (insert (js_lower trimmed) seen, newItems @ [trimmed]) else acc)"

definition new_items :: "bool \<Rightarrow> string list \<Rightarrow> string list \<Rightarrow> string list" where
  "new_items allowDuplicates currentList tokens =
     snd (foldl (add_token allowDuplicates) (set (map js_lower currentList), []) tokens)"

definition addTags :: "tag_props \<Rightarrow> string list \<Rightarrow> tag_state \<Rightarrow> tag_state" where
  "addTags p tokens s =
     (if \<not> tg_onChange p then s
      else
        let currentList = tt_value s; newItems = new_items (tg_allowDuplicates p) currentList tokens
        in if 0 < length newItems then s\<lparr>tt_value := currentList @ newItems\<rparr> else s)"

definition removeTag :: "tag_props \<Rightarrow> nat \<Rightarrow> tag_state \<Rightarrow> tag_state" where
  "removeTag p index s =
     (if \<not> tg_onChange p \<or> tg_disabled p then s
      else s\<lparr>tt_value := map snd (filter (\<lambda>(i, _). i \<noteq> index) (enumerate 0 (tt_value s)))\<rparr>)"

definition handleInputChange :: "tag_props \<Rightarrow> string \<Rightarrow> tag_state \<Rightarrow> tag_state" where
  "handleInputChange p val s =
     (if CHR '','' \<in> set val then
        let parts = js_split (CHR '','') val; toAdd = butlast parts
        in (addTags p toAdd s)\<lparr>tt_inputValue := last parts\<rparr>
      else s\<lparr>tt_inputValue := val\<rparr>)"

definition take_input :: "tag_props \<Rightarrow> tag_state \<Rightarrow> tag_state" where
  "take_input p s =
     (if js_trim (tt_inputValue s) \<noteq> [] then (addTags p [tt_inputValue s] s)\<lparr>tt_inputValue := []\<rparr> else s)"

definition tag_handleKeyDown :: "tag_props \<Rightarrow> string \<Rightarrow> tag_state \<Rightarrow> tag_state" where
  "tag_handleKeyDown p key s =
     (if key = ''Enter'' \<or> key = '','' then take_input p s
      else if key = ''Backspace'' \<and> tt_inputValue s = [] \<and> 0 < length (tt_value s)
           then removeTag p (length (tt_value s) - 1) s else s)"

definition handleBlur :: "tag_props \<Rightarrow> tag_state \<Rightarrow> tag_state" where
  "handleBlur p s = take_input p s"

datatype tag_event = Tag_Change string | Tag_Key string | Tag_Blur | Tag_Remove nat

definition tag_step :: "tag_props \<Rightarrow> tag_state \<Rightarrow> tag_event \<Rightarrow> tag_state" where
  "tag_step p s e =
     (case e of
        Tag_Change val \<Rightarrow> handleInputChange p val s
      | Tag_Key key \<Rightarrow> tag_handleKeyDown p key s
      | Tag_Blur \<Rightarrow> handleBlur p s
      | Tag_Remove i \<Rightarrow> removeTag p i s)"

section \<open>What the loop adds\<close>

text \<open>A tag: not blank, no blanks around it, no comma.\<close>

definition is_tag :: "string \<Rightarrow> bool" where
  "is_tag t = (t \<noteq> [] \<and> js_trim t = t \<and> CHR '','' \<notin> set t)"

definition tags_ok :: "bool \<Rightarrow> string list \<Rightarrow> bool" where
  "tags_ok dup ts = (list_all is_tag ts \<and> (dup \<or> distinct (map js_lower ts)))"

lemma trim_subset: "set (js_trim s) \<subseteq> set s"
  unfolding js_trim_def by (metis set_dropWhileD set_rev subsetI)

lemma trimmed_is_tag: "CHR '','' \<notin> set s \<Longrightarrow> js_trim s \<noteq> [] \<Longrightarrow> is_tag (js_trim s)"
  using trim_subset [of s] by (auto simp: is_tag_def)

lemma add_tokens_ok:
  assumes "list_all (\<lambda>t. CHR '','' \<notin> set t) tokens" "tags_ok dup (base @ items)"
    "seen = js_lower ` set (base @ items)"
  shows "tags_ok dup (base @ snd (foldl (add_token dup) (seen, items) tokens))"
  using assms
proof (induction tokens arbitrary: seen items)
  case (Cons t ts)
  let ?t = "js_trim t"
  show ?case
  proof (cases "?t \<noteq> [] \<and> (dup \<or> js_lower ?t \<notin> seen)")
    case True
    then have st: "add_token dup (seen, items) t = (insert (js_lower ?t) seen, items @ [?t])"
      by (simp add: add_token_def Let_def)
    have "is_tag ?t" using True Cons.prems(1) by (simp add: trimmed_is_tag)
    with True Cons.prems(2,3) have "tags_ok dup (base @ (items @ [?t]))" by (auto simp: tags_ok_def)
    with Cons.IH [of "items @ [?t]" "insert (js_lower ?t) seen"] Cons.prems(1,3) st show ?thesis by simp
  next
    case False
    then have "add_token dup (seen, items) t = (seen, items)" by (auto simp: add_token_def Let_def)
    with Cons show ?thesis by simp
  qed
qed simp

lemma new_items_ok:
  "list_all (\<lambda>t. CHR '','' \<notin> set t) tokens \<Longrightarrow> tags_ok dup value \<Longrightarrow> tags_ok dup (value @ new_items dup value tokens)"
  using add_tokens_ok [of tokens dup "value" "[]" "js_lower ` set value"] by (simp add: new_items_def)

lemma add_fresh_tokens:
  assumes "list_all is_tag tokens" "dup \<or> distinct (map js_lower tokens) \<and> js_lower ` set tokens \<inter> seen = {}"
  shows "snd (foldl (add_token dup) (seen, items) tokens) = items @ tokens"
  using assms
proof (induction tokens arbitrary: seen items)
  case (Cons t ts)
  have t: "js_trim t = t" "t \<noteq> []" using Cons.prems(1) by (simp_all add: is_tag_def)
  then have st: "add_token dup (seen, items) t = (insert (js_lower t) seen, items @ [t])"
    using Cons.prems(2) by (auto simp: add_token_def)
  show ?case using Cons.IH [of "insert (js_lower t) seen" "items @ [t]"] Cons.prems st by auto
qed simp

lemma new_items_fresh:
  "tags_ok dup (value @ tags) \<Longrightarrow> new_items dup value tags = tags"
  unfolding new_items_def
  by (subst add_fresh_tokens) (auto simp: tags_ok_def)

section \<open>The list stays well formed\<close>

lemma split_no_comma: "list_all (\<lambda>t. d \<notin> set t) (js_split d s)"
  by (induction s) (auto split: list.split)

definition tag_inv :: "tag_props \<Rightarrow> tag_state \<Rightarrow> bool" where
  "tag_inv p s = (tags_ok (tg_allowDuplicates p) (tt_value s) \<and> CHR '','' \<notin> set (tt_inputValue s))"

lemma addTags_sel [simp]: "tt_inputValue (addTags p ts s) = tt_inputValue s"
  by (simp add: addTags_def Let_def)

lemma addTags_value: "tt_value (addTags p ts s) =
    (if tg_onChange p then tt_value s @ new_items (tg_allowDuplicates p) (tt_value s) ts else tt_value s)"
  by (simp add: addTags_def Let_def)

lemma addTags_ok:
  "list_all (\<lambda>t. CHR '','' \<notin> set t) ts \<Longrightarrow> tags_ok (tg_allowDuplicates p) (tt_value s) \<Longrightarrow>
     tags_ok (tg_allowDuplicates p) (tt_value (addTags p ts s))"
  by (simp add: addTags_value new_items_ok)

lemma list_all_butlast: "list_all P xs \<Longrightarrow> list_all P (butlast xs)"
  by (auto simp: list_all_iff dest: in_set_butlastD)

lemma inv_change: "tag_inv p s \<Longrightarrow> tag_inv p (handleInputChange p val s)"
proof -
  assume i: "tag_inv p s"
  note sp = split_no_comma [of "CHR '',''" val]
  have "CHR '','' \<notin> set (last (js_split (CHR '','') val))" using sp by (simp add: list_all_iff)
  moreover have "tags_ok (tg_allowDuplicates p) (tt_value (addTags p (butlast (js_split (CHR '','') val)) s))"
    by (rule addTags_ok [OF list_all_butlast [OF sp]]) (use i in \<open>simp add: tag_inv_def\<close>)
  ultimately show ?thesis using i by (simp add: tag_inv_def handleInputChange_def Let_def)
qed

lemma inv_take: "tag_inv p s \<Longrightarrow> tag_inv p (take_input p s)"
  using addTags_ok [of "[tt_inputValue s]" p s] by (simp add: tag_inv_def take_input_def)

lemma removed_value: "map snd (filter (\<lambda>(i, _). i \<noteq> k) (enumerate n xs)) = nths xs {i. i + n \<noteq> k}"
proof (induction xs arbitrary: n)
  case (Cons x xs)
  have "{j. Suc j + n \<noteq> k} = {j. j + Suc n \<noteq> k}" by auto
  with Cons [of "Suc n"] show ?case by (cases "n = k") (auto simp: nths_Cons)
qed simp

lemma inv_remove: "tag_inv p s \<Longrightarrow> tag_inv p (removeTag p i s)"
  by (auto simp: tag_inv_def removeTag_def tags_ok_def removed_value nths_map [symmetric] distinct_nthsI
      list_all_iff dest: in_set_nthsD)

lemma inv_tag_step: "tag_inv p s \<Longrightarrow> tag_inv p (tag_step p s e)"
  by (cases e) (simp_all add: tag_step_def inv_change tag_handleKeyDown_def handleBlur_def inv_take inv_remove)

interpretation tags: machine "tag_step p" "\<lparr>tt_value = [], tt_inputValue = []\<rparr>" "tag_inv p" for p
  by unfold_locales (simp add: tag_inv_def tags_ok_def, rule inv_tag_step)

text \<open>
  The chip editor keeps a proper list. Whatever is typed, pasted, removed or left, the list keeps only
  non-blank entries with no blanks around them and no comma, no two of which differ only in letter case (unless
  duplicates are allowed), and the field never holds a comma, so Enter adds at most one entry.
\<close>

theorem tags_stay_proper:
  assumes "tags_ok (tg_allowDuplicates p) (tt_value s)" "CHR '','' \<notin> set (tt_inputValue s)"
  shows "let s' = run_events (tag_step p) s es
     in (\<forall>t \<in> set (tt_value s'). t \<noteq> [] \<and> js_trim t = t \<and> CHR '','' \<notin> set t) \<and>
        (tg_allowDuplicates p \<or> distinct (map js_lower (tt_value s'))) \<and>
        CHR '','' \<notin> set (tt_inputValue s') \<and>
        length (tt_value (tag_handleKeyDown p ''Enter'' s')) \<le> length (tt_value s') + 1"
proof -
  let ?s = "run_events (tag_step p) s es"
  have i: "tag_inv p ?s" by (rule tags.inv_run_from) (use assms in \<open>simp add: tag_inv_def\<close>)
  have "length (tt_value (tag_handleKeyDown p ''Enter'' ?s)) \<le> length (tt_value ?s) + 1"
    by (simp add: tag_handleKeyDown_def take_input_def addTags_value new_items_def add_token_def Let_def)
  with i show ?thesis unfolding Let_def by (auto simp: tag_inv_def tags_ok_def is_tag_def list_all_iff)
qed

theorem tags_stay_proper_witness:
  "let p = \<lparr>tg_onChange = True, tg_disabled = False, tg_allowDuplicates = False\<rparr>;
       s' = run_events (tag_step p) \<lparr>tt_value = [''Drama''], tt_inputValue = []\<rparr>
              [Tag_Change ''drama, Action ,x'', Tag_Key ''Enter'', Tag_Remove 0]
   in tt_value s' = [''Action'', ''x''] \<and> distinct (map js_lower (tt_value s'))"
proof -
  let ?p = "\<lparr>tg_onChange = True, tg_disabled = False, tg_allowDuplicates = False\<rparr>"
  let ?s = "\<lparr>tt_value = [''Drama''], tt_inputValue = []\<rparr>"
  let ?es = "[Tag_Change ''drama, Action ,x'', Tag_Key ''Enter'', Tag_Remove 0]"
  have v: "tt_value (run_events (tag_step ?p) ?s ?es) = [''Action'', ''x'']" by code_simp
  have h: "tags_ok (tg_allowDuplicates ?p) (tt_value ?s)" "CHR '','' \<notin> set (tt_inputValue ?s)"
    by code_simp+
  show ?thesis using tags_stay_proper [OF h, of ?es] v unfolding Let_def by simp
qed

section \<open>Typing a list and taking it back\<close>

lemma split_joined:
  "list_all is_tag tags \<Longrightarrow> tags \<noteq> [] \<Longrightarrow> js_split (CHR '','') (join_comma tags @ '','') = tags @ [[]]"
proof (induction tags rule: join_comma.induct)
  case (2 s)
  then show ?case using js_split_append [of "CHR '',''" s "[]"] by (simp add: is_tag_def)
next
  case (3 s t ts)
  then have "CHR '','' \<notin> set s" by (simp add: is_tag_def)
  from js_split_append [OF this, of "join_comma (t # ts) @ '',''"] 3 show ?case by simp
qed simp

lemma backspace_removes_last:
  assumes "tg_onChange p" "\<not> tg_disabled p"
  shows "tag_step p \<lparr>tt_value = ts @ [t], tt_inputValue = []\<rparr> (Tag_Key ''Backspace'') = \<lparr>tt_value = ts, tt_inputValue = []\<rparr>"
proof -
  have "filter (\<lambda>(i, _). i \<noteq> length ts) (enumerate 0 ts) = enumerate 0 ts"
    by (rule filter_True) (auto simp: in_set_enumerate_eq)
  then show ?thesis using assms by (simp add: tag_step_def tag_handleKeyDown_def removeTag_def enumerate_append_eq)
qed

lemma backspaces:
  assumes "tg_onChange p" "\<not> tg_disabled p"
  shows "run_events (tag_step p) \<lparr>tt_value = us @ ts, tt_inputValue = []\<rparr> (replicate (length ts) (Tag_Key ''Backspace'')) =
    \<lparr>tt_value = us, tt_inputValue = []\<rparr>"
proof (induction ts rule: rev_induct)
  case (snoc t ts)
  then show ?case using backspace_removes_last [OF assms, of "us @ ts" t] by simp
qed simp

text \<open>
  Typing a list and taking it back. A comma-separated list of new tags, typed or pasted with a closing comma
  into the empty field, adds exactly those tags in their order and leaves the field empty; as many strokes of
  Backspace restore the list as it was.
\<close>

theorem typed_list_roundtrip:
  assumes "tg_onChange p" "\<not> tg_disabled p" "tags \<noteq> []"
    and "tags_ok (tg_allowDuplicates p) (value @ tags)"
  shows "run_events (tag_step p) \<lparr>tt_value = value, tt_inputValue = []\<rparr> [Tag_Change (join_comma tags @ '','')] =
      \<lparr>tt_value = value @ tags, tt_inputValue = []\<rparr> \<and>
    run_events (tag_step p) \<lparr>tt_value = value, tt_inputValue = []\<rparr>
      (Tag_Change (join_comma tags @ '','') # replicate (length tags) (Tag_Key ''Backspace'')) =
      \<lparr>tt_value = value, tt_inputValue = []\<rparr>"
proof -
  have "list_all is_tag tags" using assms(4) by (simp add: tags_ok_def)
  from split_joined [OF this assms(3)]
  have "tag_step p \<lparr>tt_value = value, tt_inputValue = []\<rparr> (Tag_Change (join_comma tags @ '','')) =
      \<lparr>tt_value = value @ tags, tt_inputValue = []\<rparr>"
    using assms(1,3) by (simp add: tag_step_def handleInputChange_def Let_def addTags_def new_items_fresh [OF assms(4)])
  then show ?thesis using backspaces [OF assms(1,2), of "value" tags] by simp
qed

theorem typed_list_roundtrip_witness:
  "let p = \<lparr>tg_onChange = True, tg_disabled = False, tg_allowDuplicates = False\<rparr>
   in run_events (tag_step p) \<lparr>tt_value = [''Drama''], tt_inputValue = []\<rparr> [Tag_Change (join_comma [''Action'', ''Slice of Life''] @ '','')] =
      \<lparr>tt_value = [''Drama''] @ [''Action'', ''Slice of Life''], tt_inputValue = []\<rparr>"
  unfolding Let_def by (rule conjunct1 [OF typed_list_roundtrip]) (simp_all, code_simp)

text \<open>Case decides nothing: a tag that only differs in letter case is not added again.\<close>

lemma same_tag_not_added:
  "js_lower (js_trim t) \<in> js_lower ` set value \<Longrightarrow> new_items False value [t] = []"
  by (simp add: new_items_def add_token_def Let_def)

end
