(* ===== verification/Compare_View.thy ===== *)
theory Compare_View
  imports Metadata_Comparison Lib_Utils
begin

text \<open>
  The comparison step of the import and merge dialogs, \<open>components/import-metadata/steps/MetadataCompareStep.tsx\<close>
  with the fields of \<open>components/import-metadata/fields\<close>: which parts are shown, what they show and what their buttons
  do. The step works on the state of \<open>useMetadataComparison.ts\<close> (\<open>Metadata_Comparison\<close>). A text that is \<open>None\<close> is
  displayed as a dash.
\<close>

section \<open>What is shown\<close>

datatype compare_part =
    Cover_Part | Title_Part | Aliases_Part | Tags_Part | Description_Part | Authors_Part | Artists_Part | Publishers_Part
  | Links_Part | Providers_Part | Year_Part | Start_Part | End_Part | Rating_Part | Country_Part | Mode_Part

text \<open>The props: what the hook returns and the provider chosen in the search step.\<close>

record compare_view =
  vw_mode :: compare_mode
  vw_diffOnly :: bool
  vw_current :: metadata_values
  vw_incoming :: metadata_values
  vw_sel :: comparison
  vw_tagInput :: string
  vw_aliasInput :: string
  vw_manga :: manga
  vw_remote :: "manga option"
  vw_provider :: "source option"
  vw_importing :: bool

definition view_diffs :: "compare_view \<Rightarrow> metadata_diffs" where
  "view_diffs v = diffs (vw_mode v) (vw_current v) (vw_incoming v)"

fun part_diff :: "metadata_diffs \<Rightarrow> compare_part \<Rightarrow> bool" where
  "part_diff d Cover_Part = df_cover d"
| "part_diff d Title_Part = df_title d"
| "part_diff d Description_Part = df_description d"
| "part_diff d Authors_Part = df_authors d"
| "part_diff d Artists_Part = df_artists d"
| "part_diff d Publishers_Part = df_publishers d"
| "part_diff d Tags_Part = df_tags d"
| "part_diff d Aliases_Part = df_aliases d"
| "part_diff d Links_Part = df_externalLinks d"
| "part_diff d Providers_Part = df_providers d"
| "part_diff d Year_Part = df_releaseYear d"
| "part_diff d Start_Part = df_startDate d"
| "part_diff d End_Part = df_endDate d"
| "part_diff d Rating_Part = df_contentRating d"
| "part_diff d Country_Part = df_country d"
| "part_diff d Mode_Part = df_readingMode d"

definition attribute_parts :: "compare_part list" where
  "attribute_parts = [Year_Part, Start_Part, End_Part, Rating_Part, Country_Part, Mode_Part]"

definition hasAnyAttributesDiff :: "compare_view \<Rightarrow> bool" where
  "hasAnyAttributesDiff v = list_ex (part_diff (view_diffs v)) attribute_parts"

definition hasAnyDiff :: "compare_view \<Rightarrow> bool" where
  "hasAnyDiff v =
     (list_ex (part_diff (view_diffs v))
        [Cover_Part, Title_Part, Description_Part, Authors_Part, Artists_Part, Publishers_Part, Tags_Part, Aliases_Part,
         Links_Part, Providers_Part] \<or>
      hasAnyAttributesDiff v)"

text \<open>\<open>show...Section\<close>; a row of the attributes is shown within their section.\<close>

fun shows_part :: "compare_view \<Rightarrow> compare_part \<Rightarrow> bool" where
  "shows_part v Cover_Part = (mv_coverUrl (vw_incoming v) \<noteq> [] \<and> (\<not> vw_diffOnly v \<or> df_cover (view_diffs v)))"
| "shows_part v Title_Part = (mv_title (vw_incoming v) \<noteq> [] \<and> (\<not> vw_diffOnly v \<or> df_title (view_diffs v)))"
| "shows_part v Description_Part =
     (mv_description (vw_incoming v) \<noteq> [] \<and> (\<not> vw_diffOnly v \<or> df_description (view_diffs v)))"
| "shows_part v Authors_Part = (mv_authors (vw_incoming v) \<noteq> [] \<and> (\<not> vw_diffOnly v \<or> df_authors (view_diffs v)))"
| "shows_part v Artists_Part = (mv_artists (vw_incoming v) \<noteq> [] \<and> (\<not> vw_diffOnly v \<or> df_artists (view_diffs v)))"
| "shows_part v Publishers_Part =
     (mv_publishers (vw_incoming v) \<noteq> [] \<and> (\<not> vw_diffOnly v \<or> df_publishers (view_diffs v)))"
| "shows_part v Tags_Part = (mv_tags (vw_incoming v) \<noteq> [] \<and> (\<not> vw_diffOnly v \<or> df_tags (view_diffs v)))"
| "shows_part v Aliases_Part =
     (mv_aliases (vw_current v) \<noteq> [] \<or> mv_aliases (vw_incoming v) \<noteq> [] \<or> mc_aliases (vw_sel v) \<noteq> [] \<or> \<not> vw_diffOnly v)"
| "shows_part v Links_Part =
     ((mv_externalLinks (vw_incoming v) \<noteq> [] \<or> mv_externalLinks (vw_current v) \<noteq> []) \<and>
      (\<not> vw_diffOnly v \<or> df_externalLinks (view_diffs v)))"
| "shows_part v Providers_Part =
     (vw_mode v = Merge_Mode \<and> (mv_providers (vw_incoming v) \<noteq> [] \<or> mv_providers (vw_current v) \<noteq> []) \<and>
      (\<not> vw_diffOnly v \<or> df_providers (view_diffs v)))"
| "shows_part v p = (\<not> vw_diffOnly v \<or> hasAnyAttributesDiff v)"

definition showNothingInDiff :: "compare_view \<Rightarrow> bool" where
  "showNothingInDiff v = (vw_diffOnly v \<and> \<not> hasAnyDiff v)"

text \<open>\<open>MetadataFieldRow\<close>: a value and how it is displayed; the app passes no \<open>formatDisplay\<close>.\<close>

datatype field_value = Text_Value string | Number_Value rat

definition format_field :: "(field_value \<Rightarrow> string) option \<Rightarrow> field_value \<Rightarrow> string option" where
  "format_field formatDisplay val =
     (case formatDisplay of
        Some f \<Rightarrow> Some (f val)
      | None \<Rightarrow>
          (case val of
             Number_Value n \<Rightarrow> if n > 0 then Some (num_str n) else None
           | Text_Value s \<Rightarrow> if js_trim s \<noteq> [] then Some (js_trim s) else None))"

definition truthy_field :: "field_value \<Rightarrow> bool" where
  "truthy_field val = (case val of Number_Value n \<Rightarrow> n > 0 | Text_Value s \<Rightarrow> s \<noteq> [])"

text \<open>A column of a choice: what is clicked, what it displays, whether it is highlighted.\<close>

record 'c choice_card =
  card_choice :: 'c
  card_text :: "string option"
  card_selected :: bool

definition dash_if_empty :: "string \<Rightarrow> string option" where
  "dash_if_empty s = (if s \<noteq> [] then Some s else None)"

definition two_cards :: "string option \<Rightarrow> string option \<Rightarrow> choice \<Rightarrow> choice choice_card list" where
  "two_cards cur inc c =
     [\<lparr>card_choice = Current, card_text = cur, card_selected = (c = Current)\<rparr>,
      \<lparr>card_choice = Incoming, card_text = inc, card_selected = (c = Incoming)\<rparr>]"

text \<open>The attribute rows in their order: part, label, the two values, the choice.\<close>

definition attribute_fields ::
    "compare_view \<Rightarrow> (compare_part \<times> string \<times> field_value \<times> field_value \<times> choice) list" where
  "attribute_fields v =
     (let cur = vw_current v; inc = vw_incoming v; s = vw_sel v
      in [(Year_Part, ''Release Year'', Number_Value (mv_releaseYear cur), Number_Value (mv_releaseYear inc), mc_releaseYear s),
          (Start_Part, ''Start Date'', Text_Value (mv_startDate cur), Text_Value (mv_startDate inc), mc_startDate s),
          (End_Part, ''End Date'', Text_Value (mv_endDate cur), Text_Value (mv_endDate inc), mc_endDate s),
          (Rating_Part, ''Content Rating'', Text_Value (mv_contentRating cur), Text_Value (mv_contentRating inc),
           mc_contentRating s),
          (Country_Part, ''Country'', Text_Value (mv_country cur), Text_Value (mv_country inc), mc_country s),
          (Mode_Part, ''Reading Mode'', Text_Value (mv_readingMode cur), Text_Value (mv_readingMode inc), mc_readingMode s)])"

definition shown_fields ::
    "compare_view \<Rightarrow> (compare_part \<times> string \<times> field_value \<times> field_value \<times> choice) list" where
  "shown_fields v = filter (\<lambda>(p, label, cur, inc, c). truthy_field inc \<or> \<not> vw_diffOnly v) (attribute_fields v)"

definition attribute_rows :: "compare_view \<Rightarrow> (compare_part \<times> string \<times> choice choice_card list) list" where
  "attribute_rows v =
     map (\<lambda>(p, label, cur, inc, c). (p, label, two_cards (format_field None cur) (format_field None inc) c)) (shown_fields v)"

text \<open>\<open>MetadataMultiChoiceField\<close> of strings: the items of each choice, joined for display.\<close>

definition choice_items :: "multi_choice \<Rightarrow> string list \<Rightarrow> string list \<Rightarrow> string list" where
  "choice_items c cur inc =
     (case c of Multi_Current \<Rightarrow> cur | Multi_Incoming \<Rightarrow> inc | Multi_Merged \<Rightarrow> mergeStringArrays [Some cur, Some inc])"

definition three_cards :: "string list \<Rightarrow> string list \<Rightarrow> multi_choice \<Rightarrow> multi_choice choice_card list" where
  "three_cards cur inc c =
     map (\<lambda>k. \<lparr>card_choice = k, card_text = dash_if_empty (js_join '', '' (choice_items k cur inc)),
                card_selected = (c = k)\<rparr>) [Multi_Current, Multi_Incoming, Multi_Merged]"

text \<open>The same for links: the labels of the pills with their number.\<close>

definition choice_links :: "multi_choice \<Rightarrow> external_link list \<Rightarrow> external_link list \<Rightarrow> external_link list" where
  "choice_links c cur inc =
     (case c of
        Multi_Current \<Rightarrow> cur | Multi_Incoming \<Rightarrow> inc | Multi_Merged \<Rightarrow> mergeExternalLinkArrays [Some cur, Some inc])"

definition link_pill :: "external_link \<Rightarrow> string" where
  "link_pill l = str_or [Some (el_label l), Some (el_provider l)] (el_url l)"

definition link_cards ::
    "external_link list \<Rightarrow> external_link list \<Rightarrow> multi_choice \<Rightarrow> (multi_choice \<times> nat \<times> string list \<times> bool) list" where
  "link_cards cur inc c =
     map (\<lambda>k. (k, length (choice_links k cur inc), map link_pill (choice_links k cur inc), c = k))
       [Multi_Current, Multi_Incoming, Multi_Merged]"

text \<open>The provider bindings of a merge: the two columns with their numbers and pills.\<close>

definition same_binding :: "provider_ref \<Rightarrow> provider_ref \<Rightarrow> bool" where
  "same_binding a b = (pr_provider_id a = pr_provider_id b \<and> pr_provider_manga_id a = pr_provider_manga_id b)"

definition provider_pill :: "provider_ref \<Rightarrow> string" where
  "provider_pill r = str_or [pr_manga_title r] (pr_provider_manga_id r)"

definition merged_providers :: "provider_ref list \<Rightarrow> provider_ref list \<Rightarrow> provider_ref list" where
  "merged_providers cur inc = cur @ filter (\<lambda>ip. \<not> list_ex (\<lambda>cp. same_binding cp ip) cur) inc"

definition provider_columns :: "provider_ref list \<Rightarrow> provider_ref list \<Rightarrow> (nat \<times> string list) list" where
  "provider_columns cur inc =
     [(length cur, map provider_pill cur),
      (length inc + length cur, map provider_pill (merged_providers cur inc))]"

text \<open>The button that adds the other title to the aliases, \<open>MetadataCoverCompare\<close>'s images, the labels of the buttons.\<close>

definition targetTitleAlias :: "compare_view \<Rightarrow> string" where
  "targetTitleAlias v =
     js_trim (if mc_title (vw_sel v) = Current then mv_title (vw_incoming v) else mv_title (vw_current v))"

definition showAddTitleToAliases :: "compare_view \<Rightarrow> bool" where
  "showAddTitleToAliases v =
     (df_title (view_diffs v) \<and> targetTitleAlias v \<noteq> [] \<and>
      \<not> list_ex (\<lambda>a. js_lower a = js_lower (targetTitleAlias v)) (mc_aliases (vw_sel v)))"

definition cover_images :: "compare_view \<Rightarrow> string option \<times> string option" where
  "cover_images v =
     (let cur = mv_coverUrl (vw_current v); inc = mv_coverUrl (vw_incoming v); m = vw_manga v
      in (if truthy_str (m_coverAssetUrl m) then m_coverAssetUrl m
          else if cur \<noteq> [] then Some (getProxyImageUrl (Some cur) (m_url m)) else None,
          if inc \<noteq> [] then Some (getProxyImageUrl (Some inc) (Option.bind (vw_remote v) m_url)) else None))"

definition compare_heading :: "compare_view \<Rightarrow> string \<times> string option" where
  "compare_heading v =
     (if vw_mode v = Merge_Mode then ''Merge Metadata'' else ''Compare & Import Metadata'',
      case vw_provider v of None \<Rightarrow> None | Some s \<Rightarrow> if src_name s \<noteq> [] then Some (src_name s) else None)"

definition footer_labels :: "compare_view \<Rightarrow> string \<times> string" where
  "footer_labels v =
     (if vw_mode v = Merge_Mode then (''Cancel'', ''Merge'') else (''Back'', ''Import & Bind Provider''))"

text \<open>The body of the dialog, from top to bottom.\<close>

datatype compare_section =
    No_Differences
  | Cover_Section "string option \<times> string option" choice
  | Title_Section "choice choice_card list" "string option"
  | Aliases_Section "string list" "string list" string
  | Tags_Section "string list" "string list" string
  | Description_Section "choice choice_card list"
  | Strings_Section string "multi_choice choice_card list"
  | Links_Section "(multi_choice \<times> nat \<times> string list \<times> bool) list"
  | Providers_Section "(nat \<times> string list) list"
  | Attributes_Section "(compare_part \<times> string \<times> choice choice_card list) list"

definition section_if :: "bool \<Rightarrow> 'a \<Rightarrow> 'a list" where
  "section_if b x = (if b then [x] else [])"

definition compare_body :: "compare_view \<Rightarrow> compare_section list" where
  "compare_body v =
     (let cur = vw_current v; inc = vw_incoming v; s = vw_sel v
      in if showNothingInDiff v then [No_Differences]
         else
           section_if (shows_part v Cover_Part) (Cover_Section (cover_images v) (mc_cover s)) @
           section_if (shows_part v Title_Part)
             (Title_Section (two_cards (dash_if_empty (mv_title cur)) (dash_if_empty (mv_title inc)) (mc_title s))
                (if showAddTitleToAliases v
                 then Some (if mc_title s = Current then ''Add Incoming to Aliases'' else ''Add Current to Aliases'')
                 else None)) @
           section_if (shows_part v Aliases_Part)
             (Aliases_Section (mc_aliases s) (unselected (allAvailableAliases cur inc) (mc_aliases s)) (vw_aliasInput v)) @
           section_if (shows_part v Tags_Part)
             (Tags_Section (mc_tags s) (unselected (allAvailableTags cur inc) (mc_tags s)) (vw_tagInput v)) @
           section_if (shows_part v Description_Part)
             (Description_Section
               (two_cards (dash_if_empty (mv_description cur)) (dash_if_empty (mv_description inc)) (mc_description s))) @
           section_if (shows_part v Authors_Part)
             (Strings_Section ''Authors'' (three_cards (mv_authors cur) (mv_authors inc) (mc_authors s))) @
           section_if (shows_part v Artists_Part)
             (Strings_Section ''Artists'' (three_cards (mv_artists cur) (mv_artists inc) (mc_artists s))) @
           section_if (shows_part v Publishers_Part)
             (Strings_Section ''Publishers'' (three_cards (mv_publishers cur) (mv_publishers inc) (mc_publishers s))) @
           section_if (shows_part v Links_Part)
             (Links_Section (link_cards (mv_externalLinks cur) (mv_externalLinks inc) (mc_externalLinks s))) @
           section_if (shows_part v Providers_Part)
             (Providers_Section (provider_columns (mv_providers cur) (mv_providers inc))) @
           section_if (\<not> vw_diffOnly v \<or> hasAnyAttributesDiff v) (Attributes_Section (attribute_rows v)))"

text \<open>The parts the user sees.\<close>

definition sees_part :: "compare_view \<Rightarrow> compare_part \<Rightarrow> bool" where
  "sees_part v p =
     (\<not> showNothingInDiff v \<and> shows_part v p \<and> (p \<in> set attribute_parts \<longrightarrow> p \<in> set (map fst (attribute_rows v))))"

section \<open>What the buttons do\<close>

record compare_state =
  co_sel :: comparison
  co_diffOnly :: bool
  co_tagInput :: string
  co_aliasInput :: string

datatype compare_click =
    Pick compare_part choice
  | Pick_Mode compare_part multi_choice
  | Tags_Merge | Tags_Current | Tags_Incoming | Tags_Clear
  | Tag_Add string | Tag_Remove string | Tag_Type string | Tag_Enter
  | Alias_Add string | Alias_Remove string | Alias_Type string | Alias_Enter
  | Title_To_Aliases
  | Keep_Current_Click | Accept_Incoming_Click
  | Set_DiffOnly bool

fun pick :: "compare_part \<Rightarrow> choice \<Rightarrow> comparison \<Rightarrow> comparison" where
  "pick Cover_Part c s = s\<lparr>mc_cover := c\<rparr>"
| "pick Title_Part c s = s\<lparr>mc_title := c\<rparr>"
| "pick Description_Part c s = s\<lparr>mc_description := c\<rparr>"
| "pick Year_Part c s = s\<lparr>mc_releaseYear := c\<rparr>"
| "pick Start_Part c s = s\<lparr>mc_startDate := c\<rparr>"
| "pick End_Part c s = s\<lparr>mc_endDate := c\<rparr>"
| "pick Rating_Part c s = s\<lparr>mc_contentRating := c\<rparr>"
| "pick Country_Part c s = s\<lparr>mc_country := c\<rparr>"
| "pick Mode_Part c s = s\<lparr>mc_readingMode := c\<rparr>"
| "pick p c s = s"

fun pick_mode :: "compare_part \<Rightarrow> multi_choice \<Rightarrow> comparison \<Rightarrow> comparison" where
  "pick_mode Authors_Part c s = s\<lparr>mc_authors := c\<rparr>"
| "pick_mode Artists_Part c s = s\<lparr>mc_artists := c\<rparr>"
| "pick_mode Publishers_Part c s = s\<lparr>mc_publishers := c\<rparr>"
| "pick_mode Links_Part c s = s\<lparr>mc_externalLinks := c\<rparr>"
| "pick_mode p c s = s"

text \<open>The props for a state of the hook; a click acts when its button is there.\<close>

definition view_of :: "compare_view \<Rightarrow> compare_state \<Rightarrow> compare_view" where
  "view_of v s =
     v\<lparr>vw_diffOnly := co_diffOnly s, vw_sel := co_sel s, vw_tagInput := co_tagInput s, vw_aliasInput := co_aliasInput s\<rparr>"

definition click_part :: "compare_click \<Rightarrow> compare_part option" where
  "click_part e =
     (case e of
        Pick p _ \<Rightarrow> Some p
      | Pick_Mode p _ \<Rightarrow> Some p
      | Tags_Merge \<Rightarrow> Some Tags_Part
      | Tags_Current \<Rightarrow> Some Tags_Part
      | Tags_Incoming \<Rightarrow> Some Tags_Part
      | Tags_Clear \<Rightarrow> Some Tags_Part
      | Tag_Add _ \<Rightarrow> Some Tags_Part
      | Tag_Remove _ \<Rightarrow> Some Tags_Part
      | Tag_Type _ \<Rightarrow> Some Tags_Part
      | Tag_Enter \<Rightarrow> Some Tags_Part
      | Alias_Add _ \<Rightarrow> Some Aliases_Part
      | Alias_Remove _ \<Rightarrow> Some Aliases_Part
      | Alias_Type _ \<Rightarrow> Some Aliases_Part
      | Alias_Enter \<Rightarrow> Some Aliases_Part
      | Title_To_Aliases \<Rightarrow> Some Title_Part
      | _ \<Rightarrow> None)"

definition clickable :: "compare_view \<Rightarrow> compare_click \<Rightarrow> bool" where
  "clickable v e =
     ((case click_part e of Some p \<Rightarrow> sees_part v p | None \<Rightarrow> True) \<and>
      (e = Title_To_Aliases \<longrightarrow> showAddTitleToAliases v) \<and>
      (case e of
         Tag_Add t \<Rightarrow> t \<in> set (unselected (allAvailableTags (vw_current v) (vw_incoming v)) (mc_tags (vw_sel v)))
       | Tag_Remove t \<Rightarrow> t \<in> set (mc_tags (vw_sel v))
       | Alias_Add a \<Rightarrow> a \<in> set (unselected (allAvailableAliases (vw_current v) (vw_incoming v)) (mc_aliases (vw_sel v)))
       | Alias_Remove a \<Rightarrow> a \<in> set (mc_aliases (vw_sel v))
       | _ \<Rightarrow> True))"

definition set_tags :: "string list \<Rightarrow> compare_state \<Rightarrow> compare_state" where
  "set_tags ts s = s\<lparr>co_sel := (co_sel s)\<lparr>mc_tags := ts\<rparr>\<rparr>"

definition set_aliases :: "string list \<Rightarrow> compare_state \<Rightarrow> compare_state" where
  "set_aliases as s = s\<lparr>co_sel := (co_sel s)\<lparr>mc_aliases := as\<rparr>\<rparr>"

definition do_click :: "compare_view \<Rightarrow> compare_state \<Rightarrow> compare_click \<Rightarrow> compare_state" where
  "do_click v s e =
     (let cur = vw_current v; inc = vw_incoming v; tags = mc_tags (co_sel s); aliases = mc_aliases (co_sel s)
      in case e of
           Pick p c \<Rightarrow> s\<lparr>co_sel := pick p c (co_sel s)\<rparr>
         | Pick_Mode p c \<Rightarrow> s\<lparr>co_sel := pick_mode p c (co_sel s)\<rparr>
         | Tags_Merge \<Rightarrow> set_tags (mergeStringArrays [Some (mv_tags cur), Some (mv_tags inc)]) s
         | Tags_Current \<Rightarrow> set_tags (mv_tags cur) s
         | Tags_Incoming \<Rightarrow> set_tags (mv_tags inc) s
         | Tags_Clear \<Rightarrow> set_tags [] s
         | Tag_Add t \<Rightarrow> set_tags (add_item tags t tags) s
         | Tag_Remove t \<Rightarrow> set_tags (remove_item t tags) s
         | Tag_Type val \<Rightarrow> (set_tags (fst (input_change val tags)) s)\<lparr>co_tagInput := snd (input_change val tags)\<rparr>
         | Tag_Enter \<Rightarrow>
             (set_tags (fst (input_enter (co_tagInput s) tags)) s)\<lparr>co_tagInput := snd (input_enter (co_tagInput s) tags)\<rparr>
         | Alias_Add a \<Rightarrow> set_aliases (add_item aliases a aliases) s
         | Alias_Remove a \<Rightarrow> set_aliases (remove_item a aliases) s
         | Alias_Type val \<Rightarrow> (set_aliases (fst (input_change val aliases)) s)\<lparr>co_aliasInput := snd (input_change val aliases)\<rparr>
         | Alias_Enter \<Rightarrow>
             (set_aliases (fst (input_enter (co_aliasInput s) aliases)) s)
               \<lparr>co_aliasInput := snd (input_enter (co_aliasInput s) aliases)\<rparr>
         | Title_To_Aliases \<Rightarrow> set_aliases (add_item aliases (targetTitleAlias (view_of v s)) aliases) s
         | Keep_Current_Click \<Rightarrow> s\<lparr>co_sel := handleKeepCurrent cur\<rparr>
         | Accept_Incoming_Click \<Rightarrow> if vw_remote v = None then s else s\<lparr>co_sel := handleAcceptIncoming cur inc\<rparr>
         | Set_DiffOnly b \<Rightarrow> s\<lparr>co_diffOnly := b\<rparr>)"

definition compare_step :: "compare_view \<Rightarrow> compare_state \<Rightarrow> compare_click \<Rightarrow> compare_state" where
  "compare_step v s e = (if clickable (view_of v s) e then do_click v s e else s)"

section \<open>What is imported is shown\<close>

text \<open>The part of the dialog that stands for a member of the request, and what counts as no change of it.\<close>

definition key_part :: "string \<Rightarrow> compare_part option" where
  "key_part = map_of
     [(''title'', Title_Part), (''cover_url'', Cover_Part), (''description'', Description_Part), (''authors'', Authors_Part),
      (''artists'', Artists_Part), (''publishers'', Publishers_Part), (''tags'', Tags_Part), (''aliases'', Aliases_Part),
      (''release_year'', Year_Part), (''start_date'', Start_Part), (''end_date'', End_Part),
      (''content_rating'', Rating_Part), (''country'', Country_Part), (''external_links'', Links_Part)]"

definition json_strings :: "json list \<Rightarrow> string list" where
  "json_strings js = List.map_filter (\<lambda>j. case j of JStr s \<Rightarrow> Some s | _ \<Rightarrow> None) js"

fun unchanged_member :: "metadata_values \<Rightarrow> compare_part \<Rightarrow> json \<Rightarrow> bool" where
  "unchanged_member cur Title_Part (JStr t) = (js_lower t = js_lower (mv_title cur))"
| "unchanged_member cur Description_Part (JStr t) = (js_trim t = js_trim (mv_description cur))"
| "unchanged_member cur Tags_Part (JArr js) = areArraySetsEqual (Some (mv_tags cur)) (Some (json_strings js))"
| "unchanged_member cur Aliases_Part (JArr js) = areArraySetsEqual (Some (mv_aliases cur)) (Some (json_strings js))"
| "unchanged_member cur Year_Part (JNum q) = (q = mv_releaseYear cur \<or> q < 0)"
| "unchanged_member cur Start_Part (JStr t) = (js_lower t = js_lower (mv_startDate cur))"
| "unchanged_member cur End_Part (JStr t) = (js_lower t = js_lower (mv_endDate cur))"
| "unchanged_member cur Rating_Part (JStr t) = (js_lower t = js_lower (mv_contentRating cur))"
| "unchanged_member cur Country_Part (JStr t) = (js_lower t = js_lower (mv_country cur))"
| "unchanged_member cur p j = False"

lemma json_strings_strs [simp]: "json_strings (map JStr xs) = xs"
  by (induction xs) (simp_all add: json_strings_def map_filter_simps)

lemma strings_equal_iff: "areArraySetsEqual a b \<longleftrightarrow> set (normalizeSet a) = set (normalizeSet b)"
  using areArraySetsEqual_iff [THEN conjunct1] by (simp add: set_normalizeSet)

text \<open>Merging a list that is empty or names the same changes nothing.\<close>

lemma merge_unchanged:
  assumes "\<not> list_diff cur inc"
  shows "areArraySetsEqual (Some cur) (Some (mergeStringArrays [Some cur, Some inc]))"
proof -
  have "set (normalizeSet (Some inc)) \<subseteq> set (normalizeSet (Some cur))"
    using assms by (cases inc) (auto simp: list_diff_def strings_equal_iff set_normalizeSet)
  then show ?thesis
    by (auto simp: strings_equal_iff normalizeSet_merge) (auto simp: set_normalizeSet)
qed

lemma row_shown:
  assumes "(p, l, cur, inc, c) \<in> set (attribute_fields v)" "truthy_field inc \<or> \<not> vw_diffOnly v"
  shows "p \<in> set (map fst (attribute_rows v))"
proof -
  have "(p, l, cur, inc, c) \<in> set (shown_fields v)" using assms by (simp add: shown_fields_def)
  then show ?thesis by (force simp: attribute_rows_def)
qed

lemma attribute_field:
  assumes "p \<in> set attribute_parts"
  obtains l cur inc c where "(p, l, cur, inc, c) \<in> set (attribute_fields v)"
    "part_diff (view_diffs v) p \<Longrightarrow> truthy_field inc"
proof -
  have at: "(map_of (attribute_fields v) p = Some (l, cur, inc, c)) \<Longrightarrow> (p, l, cur, inc, c) \<in> set (attribute_fields v)"
    for l cur inc c by (rule map_of_SomeD)
  from assms consider "p = Year_Part" | "p = Start_Part" | "p = End_Part" | "p = Rating_Part" | "p = Country_Part" | "p = Mode_Part"
    by (auto simp: attribute_parts_def)
  then show thesis
  proof cases
  qed (rule that, rule at, simp add: attribute_fields_def Let_def,
      simp add: truthy_field_def view_diffs_def diffs_def text_diff_def)+
qed

text \<open>Every difference is shown.\<close>

lemma difference_shows_part: "part_diff (view_diffs v) p \<Longrightarrow> shows_part v p"
  by (cases p)
    (simp_all add: view_diffs_def diffs_def text_diff_def list_diff_def hasAnyAttributesDiff_def attribute_parts_def)

lemma difference_is_seen:
  assumes "part_diff (view_diffs v) p"
  shows "sees_part v p"
proof -
  have "\<not> showNothingInDiff v"
    using assms by (cases p) (simp_all add: showNothingInDiff_def hasAnyDiff_def hasAnyAttributesDiff_def attribute_parts_def)
  moreover have "p \<in> set (map fst (attribute_rows v))" if "p \<in> set attribute_parts"
    using attribute_field [OF that] row_shown assms by metis
  ultimately show ?thesis using difference_shows_part [OF assms] by (simp add: sees_part_def)
qed

lemma field_if_mem: "(k, j) \<in> set (field_if c k' j') \<longleftrightarrow> c \<and> k = k' \<and> j = j'"
  by (auto simp: field_if_def)

lemma strings_field_mem:
  "(k, j) \<in> set (strings_field k' c cur inc) \<longleftrightarrow> c \<noteq> Multi_Current \<and> k = k' \<and> j = strs_json (choice_items c cur inc)"
  by (simp add: strings_field_def choice_items_def split: multi_choice.split)

lemma links_field_mem:
  "(k, j) \<in> set (links_field c cur inc) \<longleftrightarrow>
     c \<noteq> Multi_Current \<and> k = ''external_links'' \<and> j = links_json (choice_links c cur inc)"
  by (simp add: links_field_def choice_links_def split: multi_choice.split)

lemmas patch_mem = fieldsToPatch_def set_append Un_iff field_if_mem strings_field_mem links_field_mem

lemma key_partD:
  "key_part k = Some p \<Longrightarrow>
     (k, p) \<in> {(''title'', Title_Part), (''cover_url'', Cover_Part), (''description'', Description_Part), (''authors'', Authors_Part),
      (''artists'', Artists_Part), (''publishers'', Publishers_Part), (''tags'', Tags_Part), (''aliases'', Aliases_Part),
      (''release_year'', Year_Part), (''start_date'', Start_Part), (''end_date'', End_Part),
      (''content_rating'', Rating_Part), (''country'', Country_Part), (''external_links'', Links_Part)}"
  unfolding key_part_def by (drule map_of_SomeD) (simp only: list.set)

lemma choice_list_diff: "choice_list cur inc \<noteq> Multi_Current \<longleftrightarrow> list_diff cur inc"
  by (simp add: choice_list_def list_diff_def)

lemma initial_member:
  assumes j: "(k, j) \<in> set (fieldsToPatch cur inc (initComparisonState cur inc s0))" and "key_part k = Some p"
    and d: "\<not> part_diff (diffs Import_Mode cur inc) p"
  shows "unchanged_member cur p j"
  using key_partD [OF assms(2)] j d
  by (elim insertE emptyE Pair_inject)
    (simp add: patch_mem initComparisonState_def diffs_def text_diff_def choice_list_diff merge_unchanged
      strs_json_def split: if_splits; linarith?)+


text \<open>\<open>nothing_imported_unseen\<close> for a title in another case.\<close>

definition sample_compare_view :: compare_view where
  "sample_compare_view =
     \<lparr>vw_mode = Import_Mode, vw_diffOnly = True, vw_current = no_values\<lparr>mv_title := ''ab''\<rparr>,
      vw_incoming = no_values\<lparr>mv_title := ''AB''\<rparr>,
      vw_sel = initComparisonState (no_values\<lparr>mv_title := ''ab''\<rparr>) (no_values\<lparr>mv_title := ''AB''\<rparr>) (handleKeepCurrent no_values),
      vw_tagInput = [], vw_aliasInput = [], vw_manga = blank_manga ''m'', vw_remote = Some (blank_manga ''r''),
      vw_provider = None, vw_importing = False\<rparr>"


section \<open>What a choice displays is what it sends\<close>

text \<open>
  A choice of authors, artists, publishers or links sends what its card displays: "current" sends nothing, so that
  what is displayed stays, and the other two send the items, or links, their card shows; the card of the chosen mode, and
  only that one, is highlighted; and the number on a card is the number of its pills.
\<close>

theorem cards_show_what_is_sent:
  "(strings_field k c cur inc = (if c = Multi_Current then [] else [(k, strs_json (choice_items c cur inc))])) \<and>
   (links_field d lcur linc = (if d = Multi_Current then [] else [(''external_links'', links_json (choice_links d lcur linc))])) \<and>
   (map card_text (filter card_selected (three_cards cur inc c)) = [dash_if_empty (js_join '', '' (choice_items c cur inc))]) \<and>
   (filter (\<lambda>(_, _, _, sel). sel) (link_cards lcur linc d) =
      [(d, length (choice_links d lcur linc), map link_pill (choice_links d lcur linc), True)]) \<and>
   (\<forall>(m, n, pills, sel) \<in> set (link_cards lcur linc d). n = length pills)"
proof (rule conjI5)
  show "strings_field k c cur inc = (if c = Multi_Current then [] else [(k, strs_json (choice_items c cur inc))])"
    by (simp add: strings_field_def choice_items_def split: multi_choice.split)
  show "links_field d lcur linc = (if d = Multi_Current then [] else [(''external_links'', links_json (choice_links d lcur linc))])"
    by (simp add: links_field_def choice_links_def split: multi_choice.split)
  show "map card_text (filter card_selected (three_cards cur inc c)) = [dash_if_empty (js_join '', '' (choice_items c cur inc))]"
    by (cases c) (simp_all add: three_cards_def)
  show "filter (\<lambda>(_, _, _, sel). sel) (link_cards lcur linc d) =
      [(d, length (choice_links d lcur linc), map link_pill (choice_links d lcur linc), True)]"
    by (cases d) (simp_all add: link_cards_def)
  show "\<forall>(m, n, pills, sel) \<in> set (link_cards lcur linc d). n = length pills"
    by (simp add: link_cards_def)
qed

theorem cards_show_what_is_sent_witness:
  "\<forall>(m, n, pills, sel) \<in> set (link_cards [\<lparr>el_provider = ''p'', el_label = [], el_url = ''u''\<rparr>] [] Multi_Merged).
     n = length pills"
  using cards_show_what_is_sent by blast

text \<open>
  The bindings of a merge: the number shown with the merged bindings is the number of the bindings only when the two
  manga share none; otherwise it is too high.
\<close>

lemma merged_count:
  "length (merged_providers cur inc) \<le> length inc + length cur \<and>
   (length (merged_providers cur inc) = length inc + length cur \<longleftrightarrow>
      (\<forall>ip \<in> set inc. \<forall>cp \<in> set cur. \<not> same_binding cp ip))"
proof -
  let ?P = "\<lambda>ip. \<not> list_ex (\<lambda>cp. same_binding cp ip) cur"
  have "length (filter ?P inc) = length inc \<longleftrightarrow> (\<forall>ip \<in> set inc. ?P ip)"
    by (metis filter_True length_filter_less order_less_irrefl)
  then show ?thesis by (simp add: merged_providers_def list_ex_iff)
qed

section \<open>A click changes its own part only\<close>

text \<open>The part whose member a click may change; the bulk buttons may change all.\<close>

definition changed_part :: "compare_click \<Rightarrow> compare_part option" where
  "changed_part e = (if e = Title_To_Aliases then Some Aliases_Part else click_part e)"

definition is_bulk :: "compare_click \<Rightarrow> bool" where
  "is_bulk e = (e = Keep_Current_Click \<or> e = Accept_Incoming_Click)"

lemma co_sel_set [simp]:
  "co_sel (set_tags ts s) = (co_sel s)\<lparr>mc_tags := ts\<rparr>" "co_sel (set_aliases as s) = (co_sel s)\<lparr>mc_aliases := as\<rparr>"
  by (simp_all add: set_tags_def set_aliases_def)

text \<open>The members of a selection that stand for one part.\<close>

fun part_value :: "comparison \<Rightarrow> compare_part \<Rightarrow> choice + multi_choice + string list" where
  "part_value s Cover_Part = Inl (mc_cover s)"
| "part_value s Title_Part = Inl (mc_title s)"
| "part_value s Description_Part = Inl (mc_description s)"
| "part_value s Year_Part = Inl (mc_releaseYear s)"
| "part_value s Start_Part = Inl (mc_startDate s)"
| "part_value s End_Part = Inl (mc_endDate s)"
| "part_value s Rating_Part = Inl (mc_contentRating s)"
| "part_value s Country_Part = Inl (mc_country s)"
| "part_value s Mode_Part = Inl (mc_readingMode s)"
| "part_value s Authors_Part = Inr (Inl (mc_authors s))"
| "part_value s Artists_Part = Inr (Inl (mc_artists s))"
| "part_value s Publishers_Part = Inr (Inl (mc_publishers s))"
| "part_value s Links_Part = Inr (Inl (mc_externalLinks s))"
| "part_value s Providers_Part = Inr (Inl (mc_providers s))"
| "part_value s Tags_Part = Inr (Inr (mc_tags s))"
| "part_value s Aliases_Part = Inr (Inr (mc_aliases s))"

lemma pick_part_value: "q \<noteq> p \<Longrightarrow> part_value (pick p c s) q = part_value s q"
  by (cases p; cases q) simp_all

lemma pick_mode_part_value: "q \<noteq> p \<Longrightarrow> part_value (pick_mode p c s) q = part_value s q"
  by (cases p; cases q) simp_all

lemma tags_part_value: "q \<noteq> Tags_Part \<Longrightarrow> part_value (s\<lparr>mc_tags := ts\<rparr>) q = part_value s q"
  by (cases q) simp_all

lemma aliases_part_value: "q \<noteq> Aliases_Part \<Longrightarrow> part_value (s\<lparr>mc_aliases := as\<rparr>) q = part_value s q"
  by (cases q) simp_all

lemmas part_value_frame = pick_part_value pick_mode_part_value tags_part_value aliases_part_value

lemma click_frame:
  assumes "\<not> is_bulk e" "changed_part e \<noteq> Some q"
  shows "part_value (co_sel (compare_step v s e)) q = part_value (co_sel s) q"
  using assms
  by (cases e) (simp_all add: compare_step_def do_click_def Let_def is_bulk_def changed_part_def click_part_def part_value_frame)

lemma clicks_frame:
  "\<forall>e \<in> set es. \<not> is_bulk e \<and> changed_part e \<noteq> Some q \<Longrightarrow>
   part_value (co_sel (run_events (compare_step v) s es)) q = part_value (co_sel s) q"
  by (induction es arbitrary: s) (simp_all add: click_frame)

text \<open>What of a selection the request of a merge depends on.\<close>

definition merged_parts :: "compare_part list" where
  "merged_parts = [Title_Part, Description_Part, Year_Part, Cover_Part]"

lemma merge_plan_view:
  assumes "\<And>p. p \<in> set merged_parts \<Longrightarrow> part_value s p = part_value s' p"
  shows "merge_plan m i ids s = merge_plan m i ids s'"
  using assms [of Title_Part] assms [of Description_Part] assms [of Year_Part] assms [of Cover_Part]
  by (simp add: merge_plan_def merged_parts_def split: option.split)

text \<open>
  The choices of a merge that do not matter. The request of a merge is determined by the choices of title, description, year and
  cover: whatever is clicked on the other parts, which are offered in the same way (authors, artists, publishers, links, tags,
  aliases, dates, rating, country, reading mode), the request is the same.
\<close>

theorem merge_ignores_other_choices:
  assumes "\<forall>e \<in> set es. \<not> is_bulk e \<and> (\<forall>p \<in> set merged_parts. changed_part e \<noteq> Some p)"
  shows "import_plan Merge_Mode m pid sel im ids cur inc (co_sel (run_events (compare_step v) s es)) =
    import_plan Merge_Mode m pid sel im ids cur inc (co_sel s)"
proof -
  have "merge_plan m i ids (co_sel (run_events (compare_step v) s es)) = merge_plan m i ids (co_sel s)" for i
    by (rule merge_plan_view, rule clicks_frame) (use assms in blast)
  then show ?thesis by (simp add: import_plan_def)
qed

text \<open>\<open>merge_ignores_other_choices\<close> for a click on the authors of the manga to be kept, which is offered and selects them.\<close>

definition sample_merge_view :: compare_view where
  "sample_merge_view =
     sample_compare_view\<lparr>vw_mode := Merge_Mode, vw_current := no_values\<lparr>mv_authors := [''a'']\<rparr>,
       vw_incoming := no_values\<lparr>mv_authors := [''b'']\<rparr>\<rparr>"

definition sample_merge_state :: compare_state where
  "sample_merge_state =
     \<lparr>co_sel = initComparisonState (vw_current sample_merge_view) (vw_incoming sample_merge_view) (handleKeepCurrent no_values),
      co_diffOnly = True, co_tagInput = [], co_aliasInput = []\<rparr>"

theorem merge_ignores_other_choices_witness:
  "clickable (view_of sample_merge_view sample_merge_state) (Pick_Mode Authors_Part Multi_Current) \<and>
   mc_authors (co_sel sample_merge_state) = Multi_Incoming \<and>
   mc_authors (co_sel (compare_step sample_merge_view sample_merge_state (Pick_Mode Authors_Part Multi_Current))) = Multi_Current \<and>
   import_plan Merge_Mode (blank_manga ''m'') [] (Some (blank_manga ''r'')) None None no_values no_values
     (co_sel (compare_step sample_merge_view sample_merge_state (Pick_Mode Authors_Part Multi_Current))) =
   import_plan Merge_Mode (blank_manga ''m'') [] (Some (blank_manga ''r'')) None None no_values no_values
     (co_sel sample_merge_state)"
proof (rule conjI4)
  show "clickable (view_of sample_merge_view sample_merge_state) (Pick_Mode Authors_Part Multi_Current)" by code_simp
  show "mc_authors (co_sel sample_merge_state) = Multi_Incoming" by code_simp
  show "mc_authors (co_sel (compare_step sample_merge_view sample_merge_state (Pick_Mode Authors_Part Multi_Current))) =
      Multi_Current" by code_simp
  show "import_plan Merge_Mode (blank_manga ''m'') [] (Some (blank_manga ''r'')) None None no_values no_values
     (co_sel (compare_step sample_merge_view sample_merge_state (Pick_Mode Authors_Part Multi_Current))) =
   import_plan Merge_Mode (blank_manga ''m'') [] (Some (blank_manga ''r'')) None None no_values no_values
     (co_sel sample_merge_state)"
    using merge_ignores_other_choices [of "[Pick_Mode Authors_Part Multi_Current]"]
    by (simp add: is_bulk_def changed_part_def click_part_def merged_parts_def)
qed

section \<open>The other title\<close>

text \<open>
  The button beside the title. It is offered when the titles differ and the one not chosen is no alias; it adds that title to the
  aliases, trimmed, and leaves everything else as it is; then it is gone.
\<close>

lemma title_to_aliases:
  assumes "clickable (view_of v s) Title_To_Aliases"
  shows "(mc_aliases (co_sel (compare_step v s Title_To_Aliases)) = mc_aliases (co_sel s) @ [targetTitleAlias (view_of v s)]) \<and>
    (\<forall>q. q \<noteq> Aliases_Part \<longrightarrow> part_value (co_sel (compare_step v s Title_To_Aliases)) q = part_value (co_sel s) q) \<and>
    \<not> clickable (view_of v (compare_step v s Title_To_Aliases)) Title_To_Aliases"
proof (rule conjI3)
  let ?t = "targetTitleAlias (view_of v s)" and ?s = "compare_step v s Title_To_Aliases"
  have offered: "showAddTitleToAliases (view_of v s)" using assms by (simp add: clickable_def)
  then have t: "js_trim ?t = ?t" "?t \<noteq> []"
    by (simp_all add: showAddTitleToAliases_def targetTitleAlias_def)
  have "\<not> list_ex (\<lambda>a. same_ci a ?t) (mc_aliases (co_sel s))"
    using offered by (simp add: showAddTitleToAliases_def same_ci_def view_of_def)
  then show al: "mc_aliases (co_sel ?s) = mc_aliases (co_sel s) @ [?t]"
    using assms t by (simp add: compare_step_def do_click_def add_item_def Let_def)
  show "\<forall>q. q \<noteq> Aliases_Part \<longrightarrow> part_value (co_sel ?s) q = part_value (co_sel s) q"
    by (simp add: click_frame is_bulk_def changed_part_def)
  have "mc_title (co_sel ?s) = mc_title (co_sel s)"
    using click_frame [of Title_To_Aliases Title_Part v s] by (simp add: is_bulk_def changed_part_def)
  then have "targetTitleAlias (view_of v ?s) = ?t" by (simp add: targetTitleAlias_def view_of_def)
  then show "\<not> clickable (view_of v ?s) Title_To_Aliases"
    using al by (simp add: clickable_def showAddTitleToAliases_def) (simp add: view_of_def)
qed

end
