(* ===== verification/Import_Dialog.thy ===== *)
theory Import_Dialog
  imports Compare_View Metadata_Search Toasts
begin

text \<open>
  The dialog that imports metadata, \<open>components/import-metadata/ImportMetadataDialog.tsx\<close>: its two steps over the hooks
  \<open>useMetadataSearch.ts\<close> (\<open>Metadata_Search\<close>) and \<open>useMetadataComparison.ts\<close> (\<open>Metadata_Comparison\<close>), the search step
  (\<open>steps/MetadataSearchStep.tsx\<close>), its search box (\<open>AliasCombobox.tsx\<close>) and the comparison step (\<open>Compare_View\<close>). A request is
  pending until its answer, which is an event of its own; the callbacks are those of the latest rendering.
\<close>

section \<open>The state\<close>

datatype dialog_step = Search_Step | Compare_Step

datatype search_mode = Keyword_Mode | Direct_Mode

datatype pending_request =
    Pending_Details string string "manga option"
  | Pending_Search string string
  | Pending_Lookup string string

text \<open>\<open>id_searching\<close> and \<open>id_lookingUp\<close> are the latest search and lookup while they are pending.\<close>

record import_dialog =
  id_open :: bool
  id_step :: dialog_step
  id_mode :: search_mode
  id_search :: metadata_search
  id_remote :: "manga option"
  id_compare :: compare_state
  id_pending :: "(nat \<times> pending_request) list"
  id_searching :: "nat option"
  id_lookingUp :: "nat option"
  id_importing :: bool
  id_next :: nat

text \<open>
  The props; \<open>io_current\<close> are the current values of the manga (\<open>current_values\<close>), without which the dialog does not render.
\<close>

record import_opts = search_opts +
  io_current :: metadata_values

abbreviation sopts :: "import_opts \<Rightarrow> search_opts" where
  "sopts o' \<equiv> search_opts.truncate o'"

definition selectedProvider :: "import_opts \<Rightarrow> import_dialog \<Rightarrow> source option" where
  "selectedProvider o' s = List.find (\<lambda>p. src_id p = ms_provider (id_search s)) (so_sources o')"

definition import_incoming :: "import_opts \<Rightarrow> import_dialog \<Rightarrow> metadata_values" where
  "import_incoming o' s = incoming_values (so_sources o') (ms_provider (id_search s)) (id_remote s)"

definition dialog_view :: "import_opts \<Rightarrow> import_dialog \<Rightarrow> compare_view" where
  "dialog_view o' s =
     \<lparr>vw_mode = Import_Mode, vw_diffOnly = co_diffOnly (id_compare s), vw_current = io_current o',
      vw_incoming = import_incoming o' s, vw_sel = co_sel (id_compare s), vw_tagInput = co_tagInput (id_compare s),
      vw_aliasInput = co_aliasInput (id_compare s), vw_manga = so_manga o', vw_remote = id_remote s,
      vw_provider = selectedProvider o' s, vw_importing = id_importing s\<rparr>"

text \<open>What the dialog shows.\<close>

datatype dialog_screen = Closed_Screen | Loading_Screen string | Search_Screen | Compare_Screen

definition import_screen :: "import_opts \<Rightarrow> import_dialog \<Rightarrow> dialog_screen" where
  "import_screen o' s =
     (if \<not> id_open s then Closed_Screen
      else if ms_loading (id_search s) \<and> id_remote s = None
      then Loading_Screen (str_or [map_option src_name (selectedProvider o' s)] (ms_provider (id_search s)))
      else if id_step s = Search_Step then Search_Screen else Compare_Screen)"

section \<open>The search step\<close>

definition bound_label :: "import_opts \<Rightarrow> source \<Rightarrow> string option" where
  "bound_label o' src =
     (let n = length (filter (\<lambda>p. pr_provider_id p = src_id src) (boundProviders (sopts o')))
      in if n = 0 then None else if n = 1 then Some ''Bound'' else Some (''Bound '' @ [CHR 0xD7] @ nat_str n))"

definition search_disabled :: "import_dialog \<Rightarrow> bool" where
  "search_disabled s = (js_trim (ms_query (id_search s)) = [] \<or> id_searching s \<noteq> None)"

definition lookup_disabled :: "import_dialog \<Rightarrow> bool" where
  "lookup_disabled s = (js_trim (ms_direct (id_search s)) = [] \<or> id_lookingUp s \<noteq> None)"

text \<open>A row of the results: title, authors, up to three tags.\<close>

definition result_authors :: "manga \<Rightarrow> string" where
  "result_authors m =
     str_or [m_author m, Some (case m_authors m of None \<Rightarrow> [] | Some as \<Rightarrow> js_join '', '' as)] ''Unknown author''"

definition result_tags :: "manga \<Rightarrow> string list" where
  "result_tags m =
     take 3 (filter (\<lambda>t. js_trim t \<noteq> []) (nonempty_or (m_tags m) (coalesce_or [m_genres m] [])))"

datatype result_list =
    No_List
  | Searching_List string
  | Empty_List string
  | Row_List "(manga \<times> string option \<times> string \<times> string list) list"

definition result_view :: "import_opts \<Rightarrow> import_dialog \<Rightarrow> result_list" where
  "result_view o' s =
     (let m = id_search s; name = (case selectedProvider o' s of None \<Rightarrow> [] | Some p \<Rightarrow> src_name p)
      in if id_mode s \<noteq> Keyword_Mode then No_List
         else if ms_loading m \<or> id_searching s \<noteq> None then Searching_List (''Searching '' @ name @ ''...'')
         else if ms_results m = [] then
           Empty_List (if js_trim (ms_query m) \<noteq> [] then ''No results found. Try typing a different search query.''
                       else ''Type a title or select an alias above to search '' @ name @ ''.'')
         else Row_List (map (\<lambda>r. (r, m_title r, result_authors r, result_tags r)) (ms_results m)))"

definition shown_results :: "import_opts \<Rightarrow> import_dialog \<Rightarrow> manga list" where
  "shown_results o' s = (case result_view o' s of Row_List rows \<Rightarrow> map fst rows | _ \<Rightarrow> [])"

section \<open>Events\<close>

datatype import_output = Import_Request request | Import_Plan import_plan | Import_Notice notice

datatype import_event =
    Open_Dialog
  | Close_Dialog
  | Choose_Provider string
  | Choose_Search_Mode search_mode
  | Type_Query string
  | Type_Direct string
  | Press_Search
  | Press_Lookup
  | Press_Enter
  | Press_Result manga
  | Details_Answer nat "string option + manga"
  | Search_Results nat "string option + manga list option"
  | Url_Answer nat "string option + manga list option"
  | Id_Answer nat "string option + manga"
  | Compare_Click compare_click
  | Press_Back
  | Press_Import
  | Import_Answer "string option"

definition update_search :: "(metadata_search \<Rightarrow> metadata_search) \<Rightarrow> import_dialog \<Rightarrow> import_dialog" where
  "update_search f s = s\<lparr>id_search := f (id_search s)\<rparr>"

text \<open>\<open>onSelectRemoteManga\<close> and \<open>onErrorFallbackToSearch\<close>.\<close>

definition select_remote :: "import_opts \<Rightarrow> manga \<Rightarrow> import_dialog \<Rightarrow> import_dialog" where
  "select_remote o' r s =
     (let inc = incoming_values (so_sources o') (ms_provider (id_search s)) (Some r)
      in s\<lparr>id_remote := Some r,
           id_compare := (id_compare s)\<lparr>co_sel := initComparisonState (io_current o') inc (co_sel (id_compare s))\<rparr>,
           id_step := Compare_Step\<rparr>)"

definition add_pending :: "pending_request \<Rightarrow> import_dialog \<Rightarrow> import_dialog" where
  "add_pending p s = s\<lparr>id_pending := id_pending s @ [(id_next s, p)], id_next := id_next s + 1\<rparr>"

definition end_pending :: "nat \<Rightarrow> import_dialog \<Rightarrow> import_dialog" where
  "end_pending i s =
     s\<lparr>id_pending := filter (\<lambda>(j, _). j \<noteq> i) (id_pending s),
       id_searching := (if id_searching s = Some i then None else id_searching s),
       id_lookingUp := (if id_lookingUp s = Some i then None else id_lookingUp s)\<rparr>"

text \<open>The outputs of the search hook, carried out; \<open>fb\<close> is the fallback of a load of details.\<close>

definition search_result ::
    "import_opts \<Rightarrow> manga option \<Rightarrow> metadata_search \<times> search_output list \<Rightarrow> import_dialog \<Rightarrow> import_dialog \<times> import_output list" where
  "search_result o' fb r s =
     (let s1 = s\<lparr>id_search := fst r\<rparr>
      in case snd r of
           Ask_Details p q # _ \<Rightarrow> (add_pending (Pending_Details p q fb) s1, [Import_Request (api_getProviderMangaDetails_req p q)])
         | Ask_Search p q # _ \<Rightarrow> (s1, [])
         | Select_Remote m # _ \<Rightarrow> (select_remote o' m s1, [])
         | Fallback_To_Search # _ \<Rightarrow> (s1\<lparr>id_step := Search_Step\<rparr>, [])
         | [] \<Rightarrow> (s1, []))"

text \<open>\<open>searchMutation.mutate(q)\<close>, and \<open>directLookupMutation.mutate(v)\<close>.\<close>

definition press_search :: "import_opts \<Rightarrow> import_dialog \<Rightarrow> import_dialog \<times> import_output list" where
  "press_search o' s =
     (let r = handleSearch (id_search s); s1 = s\<lparr>id_search := fst r\<rparr>
      in case snd r of
           Ask_Search p q # _ \<Rightarrow>
             ((add_pending (Pending_Search p q) s1)\<lparr>id_searching := Some (id_next s)\<rparr>,
              [Import_Request (api_searchManga p q None)])
         | _ \<Rightarrow> (s1, []))"

definition press_lookup :: "import_opts \<Rightarrow> import_dialog \<Rightarrow> import_dialog \<times> import_output list" where
  "press_lookup o' s =
     (let r = handleDirectLookup (id_search s); s1 = s\<lparr>id_search := fst r\<rparr>
      in case snd r of
           Ask_Search p v # _ \<Rightarrow>
             ((add_pending (Pending_Lookup p v) s1)\<lparr>id_lookingUp := Some (id_next s)\<rparr>,
              [Import_Request (api_searchManga p v None)])
         | Ask_Details p v # _ \<Rightarrow>
             ((add_pending (Pending_Lookup p v) s1)\<lparr>id_lookingUp := Some (id_next s)\<rparr>,
              [Import_Request (api_getProviderMangaDetails_req p v)])
         | _ \<Rightarrow> (s1, []))"

definition resetSearchState :: "metadata_search \<Rightarrow> metadata_search" where
  "resetSearchState m = m\<lparr>ms_results := [], ms_error := None\<rparr>"

definition resetComparisonState :: "import_dialog \<Rightarrow> import_dialog" where
  "resetComparisonState s =
     s\<lparr>id_remote := None, id_compare := (id_compare s)\<lparr>co_diffOnly := True, co_tagInput := [], co_aliasInput := []\<rparr>\<rparr>"

definition handleClose :: "import_dialog \<Rightarrow> import_dialog" where
  "handleClose s =
     (resetComparisonState (update_search resetSearchState (s\<lparr>id_step := Search_Step\<rparr>)))\<lparr>id_open := False\<rparr>"

text \<open>The effects when the dialog opens.\<close>

definition open_dialog :: "import_opts \<Rightarrow> import_dialog \<Rightarrow> import_dialog \<times> import_output list" where
  "open_dialog o' s =
     (let (s1, os) = search_result o' None (open_search (sopts o') (id_search s)) (s\<lparr>id_open := True\<rparr>)
      in (if truthy_str (so_initialProviderId o') \<and> truthy_str (so_initialRemoteId o') then s1 else s1\<lparr>id_step := Search_Step\<rparr>,
          os))"

definition imported_notice :: "import_opts \<Rightarrow> import_dialog \<Rightarrow> notice" where
  "imported_notice o' s =
     success_notice (''Metadata imported from \"'' @ str_or [map_option src_name (selectedProvider o' s)] ''Provider'' @ ''\"'')"

text \<open>
  Pressing the import button: without a selection the mutation fails at once, else its requests are sent
  one after the other.
\<close>

definition current_plan :: "import_opts \<Rightarrow> import_dialog \<Rightarrow> import_plan" where
  "current_plan o' s =
     import_plan Import_Mode (so_manga o') (ms_provider (id_search s)) (id_remote s) None None (io_current o')
       (import_incoming o' s) (co_sel (id_compare s))"

definition press_import :: "import_opts \<Rightarrow> import_dialog \<Rightarrow> import_dialog \<times> import_output list" where
  "press_import o' s =
     (case current_plan o' s of
        Plan_Error msg \<Rightarrow> (s, [Import_Notice (''Failed to import: '' @ msg, Toast_Error, None)])
      | Plan_Requests rs \<Rightarrow> (s\<lparr>id_importing := True\<rparr>, [Import_Plan (Plan_Requests rs)]))"

definition import_answer :: "import_opts \<Rightarrow> string option \<Rightarrow> import_dialog \<Rightarrow> import_dialog \<times> import_output list" where
  "import_answer o' failure s =
     (let s1 = s\<lparr>id_importing := False\<rparr>
      in case failure of
           None \<Rightarrow> (handleClose s1, [Import_Notice (imported_notice o' s)])
         | Some msg \<Rightarrow> (s1, [Import_Notice (''Failed to import: '' @ msg, Toast_Error, None)]))"

text \<open>One event; what is not on the screen cannot be clicked, an answer without a pending request does not come.\<close>

definition import_step :: "import_opts \<Rightarrow> import_dialog \<Rightarrow> import_event \<Rightarrow> import_dialog \<times> import_output list" where
  "import_step o' s e =
     (let on_search = (import_screen o' s = Search_Screen); on_compare = (import_screen o' s = Compare_Screen)
      in case e of
           Open_Dialog \<Rightarrow> open_dialog o' s
         | Close_Dialog \<Rightarrow> (handleClose s, [])
         | Choose_Provider p \<Rightarrow>
             (if on_search \<and> p \<noteq> [] \<and> known_source (sopts o') p
              then update_search (\<lambda>m. m\<lparr>ms_provider := p\<rparr>) s else s, [])
         | Choose_Search_Mode m \<Rightarrow> (if on_search then s\<lparr>id_mode := m\<rparr> else s, [])
         | Type_Query q \<Rightarrow>
             (if on_search \<and> id_mode s = Keyword_Mode then update_search (\<lambda>m. m\<lparr>ms_query := q\<rparr>) s else s, [])
         | Type_Direct v \<Rightarrow>
             (if on_search \<and> id_mode s = Direct_Mode then update_search (\<lambda>m. m\<lparr>ms_direct := v\<rparr>) s else s, [])
         | Press_Search \<Rightarrow>
             if on_search \<and> id_mode s = Keyword_Mode \<and> \<not> search_disabled s then press_search o' s else (s, [])
         | Press_Lookup \<Rightarrow>
             if on_search \<and> id_mode s = Direct_Mode \<and> \<not> lookup_disabled s then press_lookup o' s else (s, [])
         | Press_Enter \<Rightarrow> if on_search \<and> id_mode s = Direct_Mode then press_lookup o' s else (s, [])
         | Press_Result m \<Rightarrow>
             if on_search \<and> m \<in> set (shown_results o' s)
             then search_result o' (Some m) (handleSelectSearchResult m (id_search s)) s else (s, [])
         | Details_Answer i outcome \<Rightarrow>
             (case map_of (id_pending s) i of
                Some (Pending_Details p q fb) \<Rightarrow>
                  search_result o' None (details_loaded fb outcome (id_search s)) (end_pending i s)
              | _ \<Rightarrow> (s, []))
         | Search_Results i outcome \<Rightarrow>
             (case map_of (id_pending s) i of
                Some (Pending_Search p q) \<Rightarrow> (update_search (searched outcome) (end_pending i s), [])
              | _ \<Rightarrow> (s, []))
         | Url_Answer i outcome \<Rightarrow>
             (case map_of (id_pending s) i of
                Some (Pending_Lookup p v) \<Rightarrow>
                  if looks_like_url v then search_result o' None (url_looked_up outcome (id_search s)) (end_pending i s)
                  else (s, [])
              | _ \<Rightarrow> (s, []))
         | Id_Answer i outcome \<Rightarrow>
             (case map_of (id_pending s) i of
                Some (Pending_Lookup p v) \<Rightarrow>
                  if looks_like_url v then (s, [])
                  else search_result o' None (id_looked_up outcome (id_search s)) (end_pending i s)
              | _ \<Rightarrow> (s, []))
         | Compare_Click c \<Rightarrow>
             (if on_compare then s\<lparr>id_compare := compare_step (dialog_view o' s) (id_compare s) c\<rparr> else s, [])
         | Press_Back \<Rightarrow> (if on_compare then s\<lparr>id_step := Search_Step\<rparr> else s, [])
         | Press_Import \<Rightarrow> if on_compare \<and> \<not> id_importing s then press_import o' s else (s, [])
         | Import_Answer failure \<Rightarrow> if id_importing s then import_answer o' failure s else (s, []))"

definition initial_comparison :: comparison where
  "initial_comparison =
     \<lparr>mc_title = Incoming, mc_cover = Incoming, mc_description = Incoming, mc_authors = Multi_Incoming,
      mc_artists = Multi_Incoming, mc_publishers = Multi_Incoming, mc_externalLinks = Multi_Incoming, mc_tags = [],
      mc_aliases = [], mc_publisher = Incoming, mc_releaseYear = Incoming, mc_startDate = Incoming, mc_endDate = Incoming,
      mc_contentRating = Incoming, mc_country = Incoming, mc_readingMode = Incoming, mc_providers = Multi_Merged\<rparr>"

definition initial_import :: "import_opts \<Rightarrow> import_dialog" where
  "initial_import o' =
     \<lparr>id_open = False, id_step = Search_Step, id_mode = Keyword_Mode,
      id_search = \<lparr>ms_provider = defaultProviderId (sopts o'), ms_query = start_query (sopts o'),
        ms_direct = str_or [so_initialRemoteId o'] [], ms_results = [], ms_error = None, ms_loading = False\<rparr>,
      id_remote = None,
      id_compare = \<lparr>co_sel = initial_comparison, co_diffOnly = True, co_tagInput = [], co_aliasInput = []\<rparr>,
      id_pending = [], id_searching = None, id_lookingUp = None, id_importing = False, id_next = 0\<rparr>"

section \<open>Nobody waits for ever\<close>

text \<open>While something is shown as being fetched, a request for it is pending; requests have numbers of their own.\<close>

definition is_details :: "pending_request \<Rightarrow> bool" where
  "is_details r = (case r of Pending_Details _ _ _ \<Rightarrow> True | _ \<Rightarrow> False)"

definition pending_ok :: "import_dialog \<Rightarrow> bool" where
  "pending_ok s =
     (distinct (map fst (id_pending s)) \<and> (\<forall>i \<in> set (map fst (id_pending s)). i < id_next s) \<and>
      (\<forall>i. id_searching s = Some i \<longrightarrow> (\<exists>p q. map_of (id_pending s) i = Some (Pending_Search p q))) \<and>
      (\<forall>i. id_lookingUp s = Some i \<longrightarrow> (\<exists>p v. map_of (id_pending s) i = Some (Pending_Lookup p v))))"

definition import_inv :: "import_dialog \<Rightarrow> bool" where
  "import_inv s = (pending_ok s \<and> (ms_loading (id_search s) \<longrightarrow> (\<exists>r \<in> set (id_pending s). is_details (snd r))))"

lemma pending_ok_cong:
  "id_pending s = id_pending t \<Longrightarrow> id_next s = id_next t \<Longrightarrow> id_searching s = id_searching t \<Longrightarrow>
   id_lookingUp s = id_lookingUp t \<Longrightarrow> pending_ok s \<longleftrightarrow> pending_ok t"
  by (simp add: pending_ok_def)

lemma select_remote_simps [simp]:
  "id_pending (select_remote o' r s) = id_pending s" "id_next (select_remote o' r s) = id_next s"
  "id_searching (select_remote o' r s) = id_searching s" "id_lookingUp (select_remote o' r s) = id_lookingUp s"
  "id_search (select_remote o' r s) = id_search s" "id_remote (select_remote o' r s) = Some r"
  "id_step (select_remote o' r s) = Compare_Step" "id_open (select_remote o' r s) = id_open s"
  by (simp_all add: select_remote_def Let_def)

lemma pending_ok_fields [simp]:
  "pending_ok (s\<lparr>id_search := m\<rparr>) = pending_ok s" "pending_ok (s\<lparr>id_open := b\<rparr>) = pending_ok s"
  "pending_ok (s\<lparr>id_step := st\<rparr>) = pending_ok s" "pending_ok (select_remote o' r s) = pending_ok s"
  by (rule pending_ok_cong; simp add: select_remote_def Let_def)+

lemma map_of_add_pending:
  "pending_ok s \<Longrightarrow> map_of (id_pending s @ [(id_next s, p)]) k = (if k = id_next s then Some p else map_of (id_pending s) k)"
proof -
  assume "pending_ok s"
  then have "map_of (id_pending s) (id_next s) = None" by (auto simp: pending_ok_def map_of_eq_None_iff)
  then show ?thesis by (auto simp: map_add_def split: option.split)
qed

lemma pending_ok_next: "pending_ok s \<Longrightarrow> id_searching s \<noteq> Some (id_next s) \<and> id_lookingUp s \<noteq> Some (id_next s)"
  by (force simp: pending_ok_def dest: map_of_SomeD)

lemma pending_ok_numbers:
  "pending_ok s \<Longrightarrow> distinct (map fst (id_pending s @ [(id_next s, p)])) \<and>
     (\<forall>i \<in> set (map fst (id_pending s @ [(id_next s, p)])). i < Suc (id_next s))"
  by (auto simp: pending_ok_def)

lemma pending_ok_add: "pending_ok s \<Longrightarrow> pending_ok (add_pending p s)"
  using pending_ok_numbers [of s p] pending_ok_next [of s]
  by (simp add: pending_ok_def [of "add_pending p s"] add_pending_def map_of_add_pending del: map_of_append map_append)
    (auto simp: pending_ok_def)

lemma pending_ok_add_latest:
  "pending_ok s \<Longrightarrow> pending_ok ((add_pending (Pending_Search p q) s)\<lparr>id_searching := Some (id_next s)\<rparr>)"
  "pending_ok s \<Longrightarrow> pending_ok ((add_pending (Pending_Lookup p q) s)\<lparr>id_lookingUp := Some (id_next s)\<rparr>)"
proof -
  assume ok: "pending_ok s"
  show "pending_ok ((add_pending (Pending_Search p q) s)\<lparr>id_searching := Some (id_next s)\<rparr>)"
    using ok pending_ok_numbers [OF ok] pending_ok_next [OF ok] unfolding pending_ok_def [of "_\<lparr>id_searching := _\<rparr>"]
    by (simp add: add_pending_def map_of_add_pending del: map_of_append map_append) (auto simp: pending_ok_def)
  show "pending_ok ((add_pending (Pending_Lookup p q) s)\<lparr>id_lookingUp := Some (id_next s)\<rparr>)"
    using ok pending_ok_numbers [OF ok] pending_ok_next [OF ok] unfolding pending_ok_def [of "_\<lparr>id_lookingUp := _\<rparr>"]
    by (simp add: add_pending_def map_of_add_pending del: map_of_append map_append) (auto simp: pending_ok_def)
qed

lemma end_pending_numbers: "map fst (id_pending (end_pending i s)) = filter (\<lambda>j. j \<noteq> i) (map fst (id_pending s))"
  by (simp add: end_pending_def filter_map comp_def case_prod_unfold)

lemma map_of_without: "map_of (filter (\<lambda>(j, _). j \<noteq> i) xs) k = (if k = i then None else map_of xs k)"
  by (induction xs) auto

lemma pending_ok_end: "pending_ok s \<Longrightarrow> pending_ok (end_pending i s)"
  unfolding pending_ok_def end_pending_numbers by (auto simp: end_pending_def map_of_without)

lemma end_keeps_details:
  assumes "pending_ok s" "map_of (id_pending s) i = Some p" "\<not> is_details p"
    and "r \<in> set (id_pending s)" "is_details (snd r)"
  shows "r \<in> set (id_pending (end_pending i s))"
proof -
  have "fst r \<noteq> i"
  proof
    assume i: "fst r = i"
    have "map_of (id_pending s) (fst r) = Some (snd r)"
      by (rule map_of_is_SomeI) (use assms(1,4) in \<open>simp_all add: pending_ok_def\<close>)
    with assms(2,3,5) i show False by simp
  qed
  with assms(4) show ?thesis by (auto simp: end_pending_def)
qed

text \<open>The search hook: what it asks for, and when it is loading.\<close>

lemma end_pending_simps [simp]:
  "id_search (end_pending i s) = id_search s" "id_remote (end_pending i s) = id_remote s"
  "id_open (end_pending i s) = id_open s" "id_next (end_pending i s) = id_next s"
  by (simp_all add: end_pending_def)

lemma add_pending_simps [simp]:
  "id_search (add_pending p s) = id_search s" "id_remote (add_pending p s) = id_remote s"
  "id_pending (add_pending p s) = id_pending s @ [(id_next s, p)]"
  by (simp_all add: add_pending_def)

text \<open>
  An output of the search hook: its loading flag is off, or as it was, or it asks for details.
\<close>

lemma search_result_inv:
  assumes "pending_ok s"
    and "ms_loading (fst r) \<Longrightarrow>
      (\<exists>p q. snd r = [Ask_Details p q]) \<or> (\<exists>x \<in> set (id_pending s). is_details (snd x))"
  shows "import_inv (fst (search_result o' fb r s))"
proof (cases "snd r")
  case Nil
  with assms show ?thesis
    by (auto simp: search_result_def import_inv_def Let_def)
next
  case (Cons x xs)
  show ?thesis
  proof (cases x)
    case (Ask_Details p q)
    have "pending_ok (s\<lparr>id_search := fst r\<rparr>)" using assms(1) by simp
    from pending_ok_add [OF this] Cons Ask_Details show ?thesis
      by (simp add: search_result_def import_inv_def Let_def is_details_def)
  qed (use assms Cons in \<open>auto simp: search_result_def import_inv_def Let_def\<close>)
qed

lemma import_inv_cong:
  assumes "import_inv s" "id_pending t = id_pending s" "id_next t = id_next s" "id_searching t = id_searching s"
    "id_lookingUp t = id_lookingUp s" "ms_loading (id_search t) \<Longrightarrow> ms_loading (id_search s)"
  shows "import_inv t"
  using assms pending_ok_cong [of t s] by (auto simp: import_inv_def)

lemma open_dialog_inv: "import_inv s \<Longrightarrow> import_inv (fst (open_dialog o' s))"
proof -
  assume inv: "import_inv s"
  let ?r = "open_search (sopts o') (id_search s)"
  have l: "ms_loading (fst ?r) \<Longrightarrow> (\<exists>p q. snd ?r = [Ask_Details p q]) \<or> ms_loading (id_search s)"
    by (auto simp: open_search_def Let_def loadMangaDetails_def)
  have "import_inv (fst (search_result o' None ?r (s\<lparr>id_open := True\<rparr>)))"
    by (rule search_result_inv) (use inv l in \<open>auto simp: import_inv_def\<close>)
  then show ?thesis
    by (auto simp: open_dialog_def Let_def split_beta intro: import_inv_cong)
qed

lemma press_search_inv: "import_inv s \<Longrightarrow> import_inv (fst (press_search o' s))"
proof -
  assume inv: "import_inv s"
  let ?s = "s\<lparr>id_search := fst (handleSearch (id_search s))\<rparr>"
  have l: "ms_loading (fst (handleSearch (id_search s))) = ms_loading (id_search s)"
    by (simp add: handleSearch_def search_failed_def Let_def)
  have ok: "pending_ok ?s" using inv by (simp add: import_inv_def)
  have s: "import_inv ?s" using inv l by (auto intro: import_inv_cong)
  show ?thesis
    using s l inv pending_ok_add_latest(1) [OF ok]
    by (auto simp: press_search_def Let_def import_inv_def split: list.split search_output.split)
qed

lemma press_lookup_inv: "import_inv s \<Longrightarrow> import_inv (fst (press_lookup o' s))"
proof -
  assume inv: "import_inv s"
  let ?s = "s\<lparr>id_search := fst (handleDirectLookup (id_search s))\<rparr>"
  have l: "ms_loading (fst (handleDirectLookup (id_search s))) = ms_loading (id_search s)"
    by (simp add: handleDirectLookup_def lookup_failed_def Let_def)
  have ok: "pending_ok ?s" using inv by (simp add: import_inv_def)
  have s: "import_inv ?s" using inv l by (auto intro: import_inv_cong)
  show ?thesis
    using s l inv pending_ok_add_latest(2) [OF ok]
    by (auto simp: press_lookup_def Let_def import_inv_def split: list.split search_output.split)
qed

lemma answer_inv:
  assumes "import_inv s" "map_of (id_pending s) i = Some p" "ms_loading (fst r) \<Longrightarrow> ms_loading (id_search s) \<and> \<not> is_details p"
  shows "import_inv (fst (search_result o' fb r (end_pending i s)))"
proof (rule search_result_inv)
  show "pending_ok (end_pending i s)" using assms(1) by (simp add: import_inv_def pending_ok_end)
  assume "ms_loading (fst r)"
  with assms obtain x where x: "x \<in> set (id_pending s)" "is_details (snd x)" by (auto simp: import_inv_def)
  then have "x \<in> set (id_pending (end_pending i s))"
    using end_keeps_details [of s i p x] assms \<open>ms_loading (fst r)\<close> by (simp add: import_inv_def)
  with x show "(\<exists>p q. snd r = [Ask_Details p q]) \<or> (\<exists>x \<in> set (id_pending (end_pending i s)). is_details (snd x))" by blast
qed

lemma loading_flags:
  "\<not> ms_loading (fst (details_loaded fb outcome m))"
  "ms_loading (fst (url_looked_up url_outcome m)) = ms_loading m"
  "ms_loading (fst (id_looked_up outcome m)) = ms_loading m"
  "ms_loading (searched results m) = ms_loading m"
  by (auto simp: details_loaded_def url_looked_up_def id_looked_up_def lookup_failed_def searched_def search_failed_def Let_def
      split: sum.split option.split list.split)

lemma select_result_loading:
  "ms_loading (fst (handleSelectSearchResult m ms)) \<Longrightarrow>
     (\<exists>p q. snd (handleSelectSearchResult m ms) = [Ask_Details p q]) \<or> ms_loading ms"
  by (auto simp: handleSelectSearchResult_def loadMangaDetails_def Let_def split: if_splits)

lemma import_step_inv:
  assumes "import_inv s"
  shows "import_inv (fst (import_step o' s e))"
proof (cases e)
  case Open_Dialog
  with assms show ?thesis by (simp add: import_step_def open_dialog_inv)
next
  case Press_Search
  with assms show ?thesis by (simp add: import_step_def press_search_inv)
next
  case Press_Lookup
  with assms show ?thesis by (simp add: import_step_def press_lookup_inv)
next
  case Press_Enter
  with assms show ?thesis by (simp add: import_step_def press_lookup_inv)
next
  case (Press_Result m)
  have "import_inv (fst (search_result o' (Some m) (handleSelectSearchResult m (id_search s)) s))"
    by (rule search_result_inv) (use assms select_result_loading in \<open>auto simp: import_inv_def\<close>)
  with Press_Result assms show ?thesis by (simp add: import_step_def)
next
  case (Details_Answer i outcome)
  then show ?thesis
    using assms answer_inv [of s i _ "details_loaded _ outcome (id_search s)"] loading_flags(1)
    by (auto simp: import_step_def split: option.split pending_request.split)
next
  case (Search_Results i outcome)
  show ?thesis
  proof (cases "\<exists>p q. map_of (id_pending s) i = Some (Pending_Search p q)")
    case True
    then obtain p q where p: "map_of (id_pending s) i = Some (Pending_Search p q)" by blast
    have "import_inv (fst (search_result o' None (searched outcome (id_search s), []) (end_pending i s)))"
      by (rule answer_inv [OF assms p]) (simp add: loading_flags is_details_def)
    then show ?thesis using Search_Results p
      by (simp add: import_step_def search_result_def update_search_def)
  next
    case False
    then show ?thesis using Search_Results assms
      by (auto simp: import_step_def split: option.split pending_request.split)
  qed
next
  case (Url_Answer i outcome)
  then show ?thesis
    using assms answer_inv [of s i _ "url_looked_up outcome (id_search s)"]
    by (auto simp: import_step_def loading_flags is_details_def split: option.split pending_request.split)
next
  case (Id_Answer i outcome)
  then show ?thesis
    using assms answer_inv [of s i _ "id_looked_up outcome (id_search s)"]
    by (auto simp: import_step_def loading_flags is_details_def split: option.split pending_request.split)
qed (use assms in \<open>auto simp: import_step_def handleClose_def resetComparisonState_def update_search_def resetSearchState_def
    press_import_def import_answer_def Let_def elim!: import_inv_cong split: import_plan.split option.split\<close>)

interpretation import_machine: machine "\<lambda>s e. fst (import_step o' s e)" "initial_import o'" import_inv for o'
proof unfold_locales
  show "import_inv (initial_import o')" by (simp add: import_inv_def pending_ok_def initial_import_def)
qed (rule import_step_inv)



text \<open>\<open>import_waits_end\<close> when the details asked for on opening are awaited.\<close>

definition sample_import_opts :: import_opts where
  "sample_import_opts =
     \<lparr>so_manga = blank_manga ''m'', so_sources = [sample_source ''a'', sample_source ''b''], so_initialProviderId = Some ''a'',
      so_initialRemoteId = Some ''x'', io_current = no_values\<rparr>"


section \<open>What is bound\<close>

text \<open>
  \<open>orig p r\<close>: provider \<open>p\<close> returned the manga \<open>r\<close>. An answer comes from the provider that was asked. The provider is not
  changed while something of another one is held.
\<close>

fun request_provider :: "pending_request \<Rightarrow> string" where
  "request_provider (Pending_Details p q fb) = p"
| "request_provider (Pending_Search p q) = p"
| "request_provider (Pending_Lookup p v) = p"

definition asked_of :: "import_dialog \<Rightarrow> nat \<Rightarrow> (string \<Rightarrow> bool) \<Rightarrow> bool" where
  "asked_of s i P = (case map_of (id_pending s) i of None \<Rightarrow> True | Some x \<Rightarrow> P (request_provider x))"

definition honest_answer :: "(string \<Rightarrow> manga \<Rightarrow> bool) \<Rightarrow> import_dialog \<Rightarrow> import_event \<Rightarrow> bool" where
  "honest_answer orig s e =
     (case e of
        Details_Answer i (Inr r) \<Rightarrow> asked_of s i (\<lambda>p. orig p r)
      | Id_Answer i (Inr r) \<Rightarrow> asked_of s i (\<lambda>p. orig p r)
      | Search_Results i (Inr (Some rs)) \<Rightarrow> asked_of s i (\<lambda>p. list_all (orig p) rs)
      | Url_Answer i (Inr (Some rs)) \<Rightarrow> asked_of s i (\<lambda>p. list_all (orig p) rs)
      | _ \<Rightarrow> True)"

definition holds_results :: "import_dialog \<Rightarrow> bool" where
  "holds_results s = (id_pending s \<noteq> [] \<or> ms_results (id_search s) \<noteq> [] \<or> id_remote s \<noteq> None)"

definition keeps_provider :: "import_opts \<Rightarrow> import_dialog \<Rightarrow> import_event \<Rightarrow> bool" where
  "keeps_provider o' s e =
     (case e of
        Choose_Provider p \<Rightarrow> p = ms_provider (id_search s) \<or> \<not> holds_results s
      | Open_Dialog \<Rightarrow> ms_provider (id_search s) = defaultProviderId (sopts o') \<or> id_pending s = [] \<and> id_remote s = None
      | _ \<Rightarrow> True)"

inductive import_reach ::
    "import_opts \<Rightarrow> (string \<Rightarrow> manga \<Rightarrow> bool) \<Rightarrow> import_dialog \<Rightarrow> import_output list \<Rightarrow> bool"
  for o' :: import_opts and orig :: "string \<Rightarrow> manga \<Rightarrow> bool" where
  start: "import_reach o' orig (initial_import o') []"
| step: "import_reach o' orig s os \<Longrightarrow> honest_answer orig s e \<Longrightarrow> keeps_provider o' s e \<Longrightarrow>
    import_reach o' orig (fst (import_step o' s e)) (os @ snd (import_step o' s e))"

text \<open>All that is held comes from the provider chosen.\<close>

definition owned :: "(string \<Rightarrow> manga \<Rightarrow> bool) \<Rightarrow> import_dialog \<Rightarrow> bool" where
  "owned orig s =
     (let p = ms_provider (id_search s)
      in (\<forall>r \<in> set (ms_results (id_search s)). orig p r) \<and> (\<forall>r. id_remote s = Some r \<longrightarrow> orig p r) \<and>
         (\<forall>x \<in> set (id_pending s). request_provider (snd x) = p \<and>
            (\<forall>q i fb. snd x = Pending_Details q i (Some fb) \<longrightarrow> orig p fb)))"

definition output_from :: "(string \<Rightarrow> manga \<Rightarrow> bool) \<Rightarrow> string \<Rightarrow> manga option \<Rightarrow> search_output list \<Rightarrow> bool" where
  "output_from orig p fb out =
     (case out of
        Ask_Details q i # _ \<Rightarrow> q = p \<and> (\<forall>r. fb = Some r \<longrightarrow> orig p r)
      | Select_Remote r # _ \<Rightarrow> orig p r
      | _ \<Rightarrow> True)"

lemma owned_search_result:
  assumes "owned orig s" "ms_provider (fst r) = ms_provider (id_search s)"
    and "set (ms_results (fst r)) \<subseteq> set (ms_results (id_search s))"
    and "output_from orig (ms_provider (id_search s)) fb (snd r)"
  shows "owned orig (fst (search_result o' fb r s))"
proof (cases "snd r")
  case (Cons x xs)
  show ?thesis using assms Cons
    by (cases x) (auto simp: search_result_def owned_def output_from_def Let_def select_remote_def add_pending_def)
qed (use assms in \<open>auto simp: search_result_def owned_def Let_def\<close>)

lemma owned_cong:
  assumes "owned orig s" "ms_provider (id_search t) = ms_provider (id_search s)"
    and "set (ms_results (id_search t)) \<subseteq> set (ms_results (id_search s))" "id_remote t = id_remote s \<or> id_remote t = None"
    and "set (id_pending t) \<subseteq> set (id_pending s)"
  shows "owned orig t"
  using assms unfolding owned_def Let_def by (auto 4 3)

lemma owned_end: "owned orig s \<Longrightarrow> owned orig (end_pending i s)"
  by (rule owned_cong) (auto simp: end_pending_def)

lemma owned_asked: "owned orig s \<Longrightarrow> map_of (id_pending s) i = Some x \<Longrightarrow> request_provider x = ms_provider (id_search s)"
  by (auto simp: owned_def Let_def dest!: map_of_SomeD)

lemma owned_fallback:
  "owned orig s \<Longrightarrow> map_of (id_pending s) i = Some (Pending_Details p q (Some fb)) \<Longrightarrow> orig (ms_provider (id_search s)) fb"
  by (auto simp: owned_def Let_def dest!: map_of_SomeD)

lemma search_keeps:
  "ms_provider (fst (details_loaded fb outcome m)) = ms_provider m" "ms_results (fst (details_loaded fb outcome m)) = ms_results m"
  "ms_provider (fst (url_looked_up url m)) = ms_provider m" "ms_results (fst (url_looked_up url m)) = ms_results m"
  "ms_provider (fst (id_looked_up outcome m)) = ms_provider m" "ms_results (fst (id_looked_up outcome m)) = ms_results m"
  "ms_provider (fst (handleSelectSearchResult r m)) = ms_provider m" "ms_results (fst (handleSelectSearchResult r m)) = ms_results m"
  "ms_provider (fst (handleSearch m)) = ms_provider m" "set (ms_results (fst (handleSearch m))) \<subseteq> set (ms_results m)"
  "ms_provider (fst (handleDirectLookup m)) = ms_provider m" "ms_results (fst (handleDirectLookup m)) = ms_results m"
  by (auto simp: details_loaded_def url_looked_up_def id_looked_up_def lookup_failed_def handleSelectSearchResult_def
      loadMangaDetails_def handleSearch_def search_failed_def handleDirectLookup_def Let_def
      split: sum.split option.split list.split)

lemma handleSearch_cases:
  "snd (handleSearch m) = [] \<or> (\<exists>q. handleSearch m = (m, [Ask_Search (ms_provider m) q]))"
  by (simp add: handleSearch_def Let_def)

lemma handleDirectLookup_cases:
  "snd (handleDirectLookup m) = [] \<or>
   (\<exists>v. handleDirectLookup m = (m, [Ask_Search (ms_provider m) v]) \<or> handleDirectLookup m = (m, [Ask_Details (ms_provider m) v]))"
  by (simp add: handleDirectLookup_def Let_def)

lemma owned_asking:
  assumes "owned orig s" "request_provider x = ms_provider (id_search s)" "\<not> is_details x"
  shows "owned orig ((add_pending x s)\<lparr>id_searching := i\<rparr>)" "owned orig ((add_pending x s)\<lparr>id_lookingUp := i\<rparr>)"
  using assms unfolding owned_def Let_def add_pending_def is_details_def by auto

lemma owned_pressed: "owned orig s \<Longrightarrow> ms_provider m = ms_provider (id_search s) \<Longrightarrow>
    set (ms_results m) \<subseteq> set (ms_results (id_search s)) \<Longrightarrow> owned orig (s\<lparr>id_search := m\<rparr>)"
  by (erule owned_cong; simp)

lemma owned_press_search: "owned orig s \<Longrightarrow> owned orig (fst (press_search o' s))"
  using handleSearch_cases [of "id_search s"]
  by (elim disjE exE) (simp_all add: press_search_def owned_pressed search_keeps owned_asking is_details_def)

lemma owned_press_lookup: "owned orig s \<Longrightarrow> owned orig (fst (press_lookup o' s))"
  using handleDirectLookup_cases [of "id_search s"]
  by (elim disjE exE) (simp_all add: press_lookup_def owned_pressed search_keeps owned_asking is_details_def)

definition opens_known :: "import_opts \<Rightarrow> bool" where
  "opens_known o' =
     (truthy_str (so_initialProviderId o') \<and> truthy_str (so_initialRemoteId o') \<longrightarrow> initial_known (sopts o'))"

lemma sopts_simps [simp]:
  "so_initialProviderId (sopts o') = so_initialProviderId o'" "so_initialRemoteId (sopts o') = so_initialRemoteId o'"
  "so_manga (sopts o') = so_manga o'" "so_sources (sopts o') = so_sources o'"
  by (simp_all add: search_opts.truncate_def)

lemma owned_open:
  assumes "owned orig s" "keeps_provider o' s Open_Dialog" "opens_known o'"
  shows "owned orig (fst (open_dialog o' s))"
proof -
  let ?r = "open_search (sopts o') (id_search s)"
  let ?s = "s\<lparr>id_open := True, id_search := (id_search s)\<lparr>ms_provider := defaultProviderId (sopts o'), ms_results := []\<rparr>\<rparr>"
  have p: "ms_provider (fst ?r) = defaultProviderId (sopts o')" "ms_results (fst ?r) = []"
    by (simp_all add: open_search_def Let_def loadMangaDetails_def defaultProviderId_def)
  have o: "output_from orig (defaultProviderId (sopts o')) None (snd ?r)"
    using assms(3)
    by (auto simp: open_search_def Let_def loadMangaDetails_def output_from_def opens_known_def defaultProviderId_def)
  have s: "owned orig ?s"
    using assms(1,2) by (auto simp: owned_def keeps_provider_def Let_def)
  have "fst (search_result o' None ?r (s\<lparr>id_open := True\<rparr>)) = fst (search_result o' None ?r ?s)"
    by (simp add: search_result_def Let_def)
  moreover have "owned orig (fst (search_result o' None ?r ?s))"
    by (rule owned_search_result [OF s]) (simp_all add: p o)
  ultimately show ?thesis
    by (auto simp: open_dialog_def Let_def split_beta intro: owned_cong)
qed

lemma owned_details_answer:
  assumes "owned orig s" "map_of (id_pending s) i = Some (Pending_Details p q fb)" "honest_answer orig s (Details_Answer i outcome)"
  shows "owned orig (fst (search_result o' None (details_loaded fb outcome (id_search s)) (end_pending i s)))"
proof (rule owned_search_result [OF owned_end [OF assms(1)]]; simp add: search_keeps)
  show "output_from orig (ms_provider (id_search s)) None (snd (details_loaded fb outcome (id_search s)))"
    using assms owned_asked [OF assms(1,2)] owned_fallback [of orig s i p q]
    by (cases outcome; cases fb) (simp_all add: details_loaded_def output_from_def honest_answer_def asked_of_def Let_def)
qed

lemma owned_url_answer:
  assumes "owned orig s" "map_of (id_pending s) i = Some (Pending_Lookup p v)" "honest_answer orig s (Url_Answer i outcome)"
  shows "owned orig (fst (search_result o' None (url_looked_up outcome (id_search s)) (end_pending i s)))"
proof (rule owned_search_result [OF owned_end [OF assms(1)]]; simp add: search_keeps)
  show "output_from orig (ms_provider (id_search s)) None (snd (url_looked_up outcome (id_search s)))"
    using assms owned_asked [OF assms(1,2)]
    by (auto simp: url_looked_up_def output_from_def honest_answer_def asked_of_def split: sum.split option.split list.split)
qed

lemma owned_id_answer:
  assumes "owned orig s" "map_of (id_pending s) i = Some (Pending_Lookup p v)" "honest_answer orig s (Id_Answer i outcome)"
  shows "owned orig (fst (search_result o' None (id_looked_up outcome (id_search s)) (end_pending i s)))"
proof (rule owned_search_result [OF owned_end [OF assms(1)]]; simp add: search_keeps)
  show "output_from orig (ms_provider (id_search s)) None (snd (id_looked_up outcome (id_search s)))"
    using assms owned_asked [OF assms(1,2)]
    by (auto simp: id_looked_up_def output_from_def honest_answer_def asked_of_def split: sum.split)
qed

lemma owned_search_answer:
  assumes "owned orig s" "map_of (id_pending s) i = Some (Pending_Search p q)" "honest_answer orig s (Search_Results i outcome)"
  shows "owned orig (update_search (searched outcome) (end_pending i s))"
  using assms owned_asked [OF assms(1,2)] owned_end [OF assms(1), of i]
  by (cases outcome) (auto simp: owned_def Let_def update_search_def searched_def search_failed_def honest_answer_def asked_of_def list_all_iff
      split: option.splits)

lemma shown_results_held: "m \<in> set (shown_results o' s) \<Longrightarrow> m \<in> set (ms_results (id_search s))"
  by (auto simp: shown_results_def result_view_def Let_def split: if_splits)

lemma owned_result:
  assumes "owned orig s" "m \<in> set (shown_results o' s)"
  shows "owned orig (fst (search_result o' (Some m) (handleSelectSearchResult m (id_search s)) s))"
proof -
  have "orig (ms_provider (id_search s)) m" using assms shown_results_held [of m o' s] by (auto simp: owned_def Let_def)
  then have out: "output_from orig (ms_provider (id_search s)) (Some m) (snd (handleSelectSearchResult m (id_search s)))"
    by (simp add: handleSelectSearchResult_def loadMangaDetails_def output_from_def Let_def)
  show ?thesis by (rule owned_search_result [OF assms(1) _ _ out]) (simp_all add: search_keeps)
qed

lemma owned_step:
  assumes "owned orig s" "honest_answer orig s e" "keeps_provider o' s e" "opens_known o'"
  shows "owned orig (fst (import_step o' s e))"
proof (cases e)
  case Open_Dialog
  with assms show ?thesis by (simp add: import_step_def owned_open)
next
  case (Choose_Provider p)
  then show ?thesis using assms
    by (auto simp: import_step_def update_search_def keeps_provider_def holds_results_def owned_def Let_def)
next
  case (Press_Result m)
  with assms show ?thesis by (simp add: import_step_def owned_result)
next
  case (Details_Answer i outcome)
  then show ?thesis
    using assms(1,2) by (auto simp: import_step_def owned_details_answer split: option.split pending_request.split)
next
  case (Search_Results i outcome)
  then show ?thesis
    using assms(1,2) by (auto simp: import_step_def owned_search_answer split: option.split pending_request.split)
next
  case (Url_Answer i outcome)
  then show ?thesis
    using assms(1,2) by (auto simp: import_step_def owned_url_answer split: option.split pending_request.split)
next
  case (Id_Answer i outcome)
  then show ?thesis
    using assms(1,2) by (auto simp: import_step_def owned_id_answer split: option.split pending_request.split)
qed (use assms(1) in \<open>auto simp: import_step_def owned_press_search owned_press_lookup handleClose_def resetComparisonState_def
    update_search_def resetSearchState_def press_import_def import_answer_def Let_def elim!: owned_cong
    split: import_plan.split option.split\<close>)

definition remote_ref :: "string \<Rightarrow> manga \<Rightarrow> string \<Rightarrow> provider_ref" where
  "remote_ref p r title =
     \<lparr>pr_provider_id = p, pr_provider_manga_id = str_or [Some (m_id r), m_contentRemoteId r, m_url r] [],
      pr_manga_title = Some (str_or [m_title r] title)\<rparr>"

lemma reach_owned: "import_reach o' orig s os \<Longrightarrow> opens_known o' \<Longrightarrow> owned orig s"
proof (induction rule: import_reach.induct)
  case start
  show ?case by (simp add: owned_def initial_import_def)
qed (rule owned_step)

lemma plan_requests:
  assumes "import_plan Import_Mode m p sel im ids cur inc c = Plan_Requests rs"
  obtains r where "sel = Some r" "p \<noteq> []"
    "last rs = api_addBinding (m_id m) (remote_ref p r (mv_title inc)) None"
    "\<And>q. q \<in> set rs \<Longrightarrow> (\<exists>b. q = api_patchLibraryMangaMetadata (m_id m) b) \<or>
       (\<exists>md. q = api_setActiveContentSource (m_id m) p (pr_provider_manga_id (remote_ref p r (mv_title inc))) md) \<or> q = last rs"
proof -
  obtain r where r: "sel = Some r" "p \<noteq> []" using assms by (auto simp: import_plan_def split: option.splits if_splits)
  let ?ref = "remote_ref p r (mv_title inc)"
  define A where "A = (if fieldsToPatch cur inc c \<noteq> [] then [api_patchLibraryMangaMetadata (m_id m) (JObj (fieldsToPatch cur inc c))] else [])"
  define B where "B = (if mc_readingMode c = Incoming \<and> mv_readingMode inc \<noteq> [] \<and>
       js_lower (mv_readingMode inc) \<noteq> js_lower (mv_readingMode cur)
     then [api_setActiveContentSource (m_id m) p (pr_provider_manga_id ?ref) (Some (mv_readingMode inc))] else [])"
  have "A @ B @ [api_addBinding (m_id m) ?ref None] = rs"
    using assms unfolding A_def B_def import_plan_def r(1) remote_ref_def Let_def
    by (simp only: compare_mode.case option.case r(2) if_False import_plan.inject provider_ref.select_convs)
  note rs = this [symmetric]
  have q: "q \<in> set rs \<longleftrightarrow> q \<in> set A \<or> q \<in> set B \<or> q = last rs" for q unfolding rs by auto
  have A: "q \<in> set A \<Longrightarrow> \<exists>b. q = api_patchLibraryMangaMetadata (m_id m) b" for q
    unfolding A_def by (simp split: if_splits) blast
  have B: "q \<in> set B \<Longrightarrow> \<exists>md. q = api_setActiveContentSource (m_id m) p (pr_provider_manga_id ?ref) md" for q
    unfolding B_def by (simp split: if_splits) blast
  have "last rs = api_addBinding (m_id m) ?ref None" unfolding rs by simp
  with q A B show thesis by (intro that [OF r]) blast+
qed

lemma no_plan:
  "Import_Plan x \<notin> set (snd (search_result o' fb r t))" "Import_Plan x \<notin> set (snd (open_dialog o' s))"
  "Import_Plan x \<notin> set (snd (press_search o' s))" "Import_Plan x \<notin> set (snd (press_lookup o' s))"
  "Import_Plan x \<notin> set (snd (import_answer o' failure s))"
proof -
  show r: "Import_Plan x \<notin> set (snd (search_result o' fb r t))" for fb r t
    by (simp add: search_result_def Let_def split: list.split search_output.split)
  then show "Import_Plan x \<notin> set (snd (open_dialog o' s))" by (simp add: open_dialog_def Let_def split_beta)
  show "Import_Plan x \<notin> set (snd (press_search o' s))" "Import_Plan x \<notin> set (snd (press_lookup o' s))"
    by (simp_all add: press_search_def press_lookup_def Let_def split: list.split search_output.split)
  show "Import_Plan x \<notin> set (snd (import_answer o' failure s))" by (simp add: import_answer_def Let_def split: option.split)
qed

lemma step_plan:
  assumes "Import_Plan (Plan_Requests rs) \<in> set (snd (import_step o' s e))"
  shows "current_plan o' s = Plan_Requests rs"
proof -
  have "e = Press_Import"
    using assms by (cases e) (simp_all add: import_step_def Let_def no_plan split: if_splits option.splits pending_request.splits)
  then show ?thesis
    using assms by (auto simp: import_step_def press_import_def split: if_splits import_plan.splits)
qed

definition is_sent :: "import_output \<Rightarrow> bool" where
  "is_sent x = (case x of Import_Plan (Plan_Requests rs) \<Rightarrow> True | _ \<Rightarrow> False)"

lemma is_sentD: "is_sent x \<Longrightarrow> \<exists>rs. x = Import_Plan (Plan_Requests rs)"
  by (cases x) (auto simp: is_sent_def split: import_plan.splits)


text \<open>\<open>import_binds_own\<close> for a lookup by id.\<close>

definition sample_lookup_opts :: import_opts where
  "sample_lookup_opts = sample_import_opts\<lparr>so_initialProviderId := None, so_initialRemoteId := None\<rparr>"

definition sample_lookup_run :: "import_event list" where
  "sample_lookup_run =
     [Open_Dialog, Choose_Search_Mode Direct_Mode, Type_Direct ''x'', Press_Enter, Id_Answer 0 (Inr (blank_manga ''x'')),
      Press_Import]"

fun run_outputs :: "import_opts \<Rightarrow> import_dialog \<Rightarrow> import_event list \<Rightarrow> import_output list" where
  "run_outputs o' s [] = []"
| "run_outputs o' s (e # es) = snd (import_step o' s e) @ run_outputs o' (fst (import_step o' s e)) es"

fun proper_run :: "import_opts \<Rightarrow> (string \<Rightarrow> manga \<Rightarrow> bool) \<Rightarrow> import_dialog \<Rightarrow> import_event list \<Rightarrow> bool" where
  "proper_run o' orig s [] = True"
| "proper_run o' orig s (e # es) =
     (honest_answer orig s e \<and> keeps_provider o' s e \<and> proper_run o' orig (fst (import_step o' s e)) es)"

lemma reach_run:
  "import_reach o' orig s os \<Longrightarrow> proper_run o' orig s es \<Longrightarrow>
   import_reach o' orig (run_events (\<lambda>s e. fst (import_step o' s e)) s es) (os @ run_outputs o' s es)"
proof (induction es arbitrary: s os)
  case (Cons e es)
  have "import_reach o' orig (fst (import_step o' s e)) (os @ snd (import_step o' s e))"
    by (rule import_reach.step [OF Cons.prems(1)]) (use Cons.prems(2) in simp_all)
  from Cons.IH [OF this] Cons.prems(2) show ?case by simp
qed simp


text \<open>
  C39: Results outlive their provider. In any state the dialog can reach in which it lists results, choosing another provider keeps
  them on the screen. A click on one then asks the new provider for the id of the old one; when that request fails, the
  result itself is taken, and the import binds the new provider to an id of the old provider.
\<close>

theorem stale_result_binds_other:
  assumes "s = run_events (\<lambda>s e. fst (import_step o' s e)) (initial_import o') es"
    and "import_screen o' s = Search_Screen" "m \<in> set (shown_results o' s)" "m_id m \<noteq> []" "\<not> id_importing s"
    and "p \<noteq> []" "known_source (sopts o') p"
  shows "let u = run_events (\<lambda>s e. fst (import_step o' s e)) s
               [Choose_Provider p, Press_Result m, Details_Answer (id_next s) (Inl failure)]
    in import_screen o' u = Compare_Screen \<and>
       (\<exists>rs title. snd (import_step o' u Press_Import) = [Import_Plan (Plan_Requests rs)] \<and>
          last rs = api_addBinding (m_id (so_manga o')) (remote_ref p m title) None \<and>
          pr_provider_manga_id (remote_ref p m title) = m_id m)"
proof -
  have inv: "import_inv s" unfolding assms(1) by (rule import_machine.inv_run)
  then have ok: "pending_ok s" by (simp add: import_inv_def)
  define s1 where "s1 = update_search (\<lambda>ms. ms\<lparr>ms_provider := p\<rparr>) s"
  have e1: "fst (import_step o' s (Choose_Provider p)) = s1"
    using assms by (simp add: import_step_def s1_def)
  have on: "id_open s" using assms(2) by (simp add: import_screen_def split: if_splits)
  have scr: "import_screen o' s1 = Search_Screen" "m \<in> set (shown_results o' s1)" "id_open s1" "ms_provider (id_search s1) = p"
    "id_next s1 = id_next s" "id_pending s1 = id_pending s" "id_importing s1 = id_importing s"
    using assms(2,3) on
    by (auto simp: s1_def update_search_def import_screen_def shown_results_def result_view_def Let_def comp_def split: if_splits)
  define s2 where "s2 = add_pending (Pending_Details p (m_id m) (Some m))
    (s1\<lparr>id_search := (id_search s1)\<lparr>ms_loading := True, ms_error := None\<rparr>\<rparr>)"
  have e2: "fst (import_step o' s1 (Press_Result m)) = s2"
    using scr assms(4,6)
    by (simp add: import_step_def handleSelectSearchResult_def loadMangaDetails_def search_result_def s2_def Let_def)
  have ok1: "pending_ok s1" using ok by (simp add: s1_def update_search_def)
  have pend: "map_of (id_pending s2) (id_next s) = Some (Pending_Details p (m_id m) (Some m))"
    using map_of_add_pending [OF ok1, of "Pending_Details p (m_id m) (Some m)" "id_next s"] scr
    by (simp add: s2_def add_pending_def del: map_of_append)
  define s3 where "s3 = fst (import_step o' s2 (Details_Answer (id_next s) (Inl failure)))"
  have s3: "id_remote s3 = Some m" "ms_provider (id_search s3) = p" "import_screen o' s3 = Compare_Screen" "\<not> id_importing s3"
    using pend scr assms(5)
    by (simp_all add: s3_def import_step_def details_loaded_def search_result_def Let_def import_screen_def select_remote_def
        end_pending_def s2_def add_pending_def)
  obtain rs where rs: "current_plan o' s3 = Plan_Requests rs"
    using s3 assms(6) by (simp add: current_plan_def import_plan_def Let_def)
  obtain r where "id_remote s3 = Some r" "last rs = api_addBinding (m_id (so_manga o')) (remote_ref (ms_provider (id_search s3)) r
      (mv_title (import_incoming o' s3))) None"
    by (rule plan_requests [OF rs [unfolded current_plan_def]]) blast
  then have "last rs = api_addBinding (m_id (so_manga o')) (remote_ref p m (mv_title (import_incoming o' s3))) None"
    using s3 by simp
  moreover have "snd (import_step o' s3 Press_Import) = [Import_Plan (Plan_Requests rs)]"
    using s3 rs by (simp add: import_step_def press_import_def)
  moreover have "pr_provider_manga_id (remote_ref p m title) = m_id m" for title
    using assms(4) by (simp add: remote_ref_def)
  moreover have "run_events (\<lambda>s e. fst (import_step o' s e)) s
      [Choose_Provider p, Press_Result m, Details_Answer (id_next s) (Inl failure)] = s3"
    by (simp add: e1 e2 s3_def)
  ultimately show ?thesis using s3(3) by (simp add: Let_def) metis
qed

text \<open>\<open>stale_result_binds_other\<close> for a result of provider "a" and the provider "b".\<close>

definition sample_stale_run :: "import_event list" where
  "sample_stale_run = [Open_Dialog, Type_Query ''t'', Press_Search, Search_Results 0 (Inr (Some [blank_manga ''x'']))]"

theorem stale_result_binds_other_witness:
  "\<exists>u rs title. id_remote u = Some (blank_manga ''x'') \<and> snd (import_step sample_lookup_opts u Press_Import) = [Import_Plan (Plan_Requests rs)] \<and>
     last rs = api_addBinding ''m'' (remote_ref ''b'' (blank_manga ''x'') title) None"
proof -
  let ?o = sample_lookup_opts
  define s where "s = run_events (\<lambda>s e. fst (import_step ?o s e)) (initial_import ?o) sample_stale_run"
  have a: "import_screen ?o s = Search_Screen" unfolding s_def by code_simp
  have r: "result_view ?o s = Row_List [(blank_manga ''x'', None, ''Unknown author'', [])]" unfolding s_def by code_simp
  then have b: "blank_manga ''x'' \<in> set (shown_results ?o s)" by (simp add: shown_results_def)
  have c: "\<not> id_importing s" unfolding s_def by code_simp
  have n: "id_next s = 1" unfolding s_def by code_simp
  have k: "known_source (sopts ?o) ''b''" by code_simp
  let ?u = "run_events (\<lambda>s e. fst (import_step ?o s e)) s
      [Choose_Provider ''b'', Press_Result (blank_manga ''x''), Details_Answer (id_next s) (Inl None)]"
  have "id_remote ?u = Some (blank_manga ''x'')" unfolding n unfolding s_def by code_simp
  moreover have "m_id (so_manga ?o) = ''m''" by (simp add: sample_lookup_opts_def sample_import_opts_def)
  ultimately show ?thesis
    using stale_result_binds_other [OF s_def a b _ c _ k, of None] by (simp only: Let_def) fastforce
qed

section \<open>The search box\<close>

text \<open>
  \<open>AliasCombobox.tsx\<close>: a text field with a list of presets. Pressing the mouse takes the focus from the field, on the button or
  outside; \<open>mousedown\<close> on a preset is stopped before it does.
\<close>

record alias_box =
  ab_open :: bool
  ab_focused :: bool
  ab_value :: string

datatype box_event = Box_Type string | Box_Click_Field | Box_Press_Chevron | Box_Press_Outside | Box_Choose string

definition box_presets :: "string \<Rightarrow> string list \<Rightarrow> string list" where
  "box_presets defaultValue suggestions = defaultValue # filter (\<lambda>a. a \<noteq> defaultValue) suggestions"

text \<open>\<open>focus()\<close> calls \<open>onFocus\<close> when the field has not got the focus.\<close>

definition focus_field :: "alias_box \<Rightarrow> alias_box" where
  "focus_field b = (if ab_focused b then b else b\<lparr>ab_focused := True, ab_open := True\<rparr>)"

definition box_step :: "string list \<Rightarrow> alias_box \<Rightarrow> box_event \<Rightarrow> alias_box" where
  "box_step presets b e =
     (case e of
        Box_Type v \<Rightarrow> if ab_focused b then b\<lparr>ab_value := v\<rparr> else b
      | Box_Click_Field \<Rightarrow> focus_field b
      | Box_Press_Chevron \<Rightarrow>
          (let b1 = focus_field (b\<lparr>ab_focused := False\<rparr>) in b1\<lparr>ab_open := \<not> ab_open b1\<rparr>)
      | Box_Press_Outside \<Rightarrow> b\<lparr>ab_open := False, ab_focused := False\<rparr>
      | Box_Choose label \<Rightarrow> if ab_open b \<and> label \<in> set presets then b\<lparr>ab_value := label, ab_open := False\<rparr> else b)"

text \<open>
  The title comes first among the presets and once, every other alias follows in order, a preset is taken as it is; but
  the arrow button never opens the list: focusing the field opens it and the click closes it at once.
\<close>

lemma search_box_spec:
  "(set (box_presets d as) = insert d (set as) \<and> hd (box_presets d as) = d \<and> d \<notin> set (tl (box_presets d as))) \<and>
   (ab_open b \<and> label \<in> set presets \<longrightarrow>
      ab_value (box_step presets b (Box_Choose label)) = label \<and> \<not> ab_open (box_step presets b (Box_Choose label))) \<and>
   \<not> ab_open (box_step presets b Box_Press_Chevron) \<and>
   (\<not> ab_focused b \<longrightarrow> ab_open (box_step presets b Box_Click_Field))"
  by (auto simp: box_presets_def box_step_def focus_field_def Let_def)

end
