(* ===== verification/Merge_Dialog.thy ===== *)
theory Merge_Dialog
  imports Import_Dialog Library_Filters
begin

text \<open>
  The dialog that merges two manga of the library, \<open>components/merge-manga/MergeMangaDialog.tsx\<close>: the picker over
  \<open>useMergeFlow.ts\<close> (\<open>Library_Filters\<close>), then \<open>ImportMetadataDialog.tsx\<close> in its merge mode, which is the comparison step
  alone (\<open>Compare_View\<close>). The library and the details of the manga to keep are queries; their data can change at any time.
\<close>

section \<open>The state\<close>

datatype merge_phase = Pick_Phase | Compare_Phase

record merge_dialog =
  md_open :: bool
  md_phase :: merge_phase
  md_source :: "string option"
  md_query :: string
  md_library :: "manga list option"
  md_keep :: "manga option"
  md_compare :: compare_state
  md_remote :: "manga option"
  md_shown :: "string option"
  md_merging :: "nat option"
  md_pending :: "nat list"
  md_next :: nat

text \<open>
  \<open>md_shown\<close> is the id of the incoming manga the comparison was initialised for while it is mounted, \<open>md_pending\<close> are the merges
  not answered yet and \<open>md_merging\<close> the one the mounted comparison waits for.
\<close>

text \<open>The picker: the search, the titles and the button.\<close>

definition filteredSources :: "string \<Rightarrow> manga list \<Rightarrow> manga list" where
  "filteredSources query sources =
     (let q = js_lower (js_trim query)
      in if q = [] then sources
         else filter (\<lambda>m. js_includes (js_lower (str_or [m_title m] [])) q) sources)"

definition keepMangaTitle :: "merge_dialog \<Rightarrow> string" where
  "keepMangaTitle s = coalesce_or [Option.bind (md_keep s) m_title] ''this manga''"

definition keepMangaCover :: "merge_dialog \<Rightarrow> string" where
  "keepMangaCover s =
     str_or [Option.bind (md_keep s) m_coverUrl, Option.bind (md_keep s) m_cover,
       Option.bind (Option.bind (md_keep s) m_metadata) md_cover_url] []"

definition merge_source :: "string \<Rightarrow> merge_dialog \<Rightarrow> manga option" where
  "merge_source keepId s = sourceManga (md_library s) keepId (md_source s)"

datatype merge_screen =
    Merge_Closed
  | Merge_Picker "(manga \<times> bool) list" bool
  | Merge_Compare manga manga

definition merge_screen_of :: "string \<Rightarrow> merge_dialog \<Rightarrow> merge_screen" where
  "merge_screen_of keepId s =
     (if \<not> md_open s then Merge_Closed
      else
        case (md_phase s, merge_source keepId s, md_keep s) of
          (Compare_Phase, Some src, Some k) \<Rightarrow> Merge_Compare k src
        | _ \<Rightarrow>
            Merge_Picker
              (map (\<lambda>m. (m, md_source s = Some (m_id m))) (filteredSources (md_query s) (availableSources (md_library s) keepId)))
              (\<not> truthy_str (md_source s)))"

text \<open>
  The comparison of the embedded dialog: no provider, no sources, the source manga as the incoming one. \<open>values_of k\<close> are
  the current values of \<open>k\<close> (\<open>current_values\<close>).
\<close>

definition merge_incoming :: "manga \<Rightarrow> metadata_values" where
  "merge_incoming src = incoming_values [] [] (Some src)"

definition merge_view :: "(manga \<Rightarrow> metadata_values) \<Rightarrow> manga \<Rightarrow> merge_dialog \<Rightarrow> compare_view" where
  "merge_view values_of k s =
     \<lparr>vw_mode = Merge_Mode, vw_diffOnly = co_diffOnly (md_compare s), vw_current = values_of k,
      vw_incoming = incoming_values [] [] (md_remote s), vw_sel = co_sel (md_compare s),
      vw_tagInput = co_tagInput (md_compare s), vw_aliasInput = co_aliasInput (md_compare s), vw_manga = k,
      vw_remote = md_remote s, vw_provider = None, vw_importing = (md_merging s \<noteq> None)\<rparr>"

definition fresh_compare :: compare_state where
  "fresh_compare = \<lparr>co_sel = initial_comparison, co_diffOnly = True, co_tagInput = [], co_aliasInput = []\<rparr>"

text \<open>
  When the comparison appears its state is fresh; its effect, run on appearing and when the id of the incoming manga changes,
  initialises the choices. The text of the picker is lost when the picker goes away.
\<close>

definition merge_effects :: "(manga \<Rightarrow> metadata_values) \<Rightarrow> string \<Rightarrow> merge_dialog \<Rightarrow> merge_dialog" where
  "merge_effects values_of keepId s =
     (case merge_screen_of keepId s of
        Merge_Compare k src \<Rightarrow>
          if md_shown s = Some (m_id src) then s
          else
            let c = (if md_shown s = None then fresh_compare else md_compare s);
                sel = (initComparisonState (values_of k) (merge_incoming src) (co_sel c))\<lparr>mc_providers := Multi_Merged\<rparr>
            in s\<lparr>md_query := [], md_remote := Some src, md_compare := c\<lparr>co_sel := sel\<rparr>, md_shown := Some (m_id src)\<rparr>
      | Merge_Picker _ _ \<Rightarrow> s\<lparr>md_remote := None, md_shown := None, md_merging := None\<rparr>
      | Merge_Closed \<Rightarrow> s\<lparr>md_query := [], md_remote := None, md_shown := None, md_merging := None\<rparr>)"

text \<open>\<open>handleClose\<close>, which the embedded dialog calls too, and the effect that resets a closed dialog.\<close>

definition close_merge :: "merge_dialog \<Rightarrow> merge_dialog" where
  "close_merge s = s\<lparr>md_phase := Pick_Phase, md_source := None, md_open := False\<rparr>"

definition handleCompare :: "merge_dialog \<Rightarrow> merge_dialog" where
  "handleCompare s = (if truthy_str (md_source s) then s\<lparr>md_phase := Compare_Phase\<rparr> else s)"

section \<open>Events\<close>

datatype merge_event =
    Merge_Opened
  | Merge_Dismissed
  | Merge_Search string
  | Merge_Pick string
  | Press_Compare
  | Merge_Click compare_click
  | Press_Merge
  | Merge_Answer nat "string option"
  | Library_Data "manga list option"
  | Keep_Data "manga option"

definition merge_plan_of :: "(manga \<Rightarrow> metadata_values) \<Rightarrow> manga \<Rightarrow> manga \<Rightarrow> merge_dialog \<Rightarrow> import_plan" where
  "merge_plan_of values_of k src s =
     import_plan Merge_Mode k [] (md_remote s) (Some src) (Some [m_id src]) (values_of k)
       (incoming_values [] [] (md_remote s)) (co_sel (md_compare s))"

definition merge_answer :: "nat \<Rightarrow> string option \<Rightarrow> merge_dialog \<Rightarrow> merge_dialog \<times> import_output list" where
  "merge_answer i failure s =
     (let s1 = s\<lparr>md_pending := filter (\<lambda>j. j \<noteq> i) (md_pending s),
                  md_merging := (if md_merging s = Some i then None else md_merging s)\<rparr>
      in case failure of
           None \<Rightarrow> (close_merge s1, [Import_Notice (success_notice ''Manga merged successfully'')])
         | Some msg \<Rightarrow> (s1, [Import_Notice (''Failed to merge: '' @ msg, Toast_Error, None)]))"

definition merge_handler ::
    "(manga \<Rightarrow> metadata_values) \<Rightarrow> string \<Rightarrow> merge_dialog \<Rightarrow> merge_event \<Rightarrow> merge_dialog \<times> import_output list" where
  "merge_handler values_of keepId s e =
     (case e of
        Merge_Opened \<Rightarrow> (s\<lparr>md_open := True\<rparr>, [])
      | Merge_Dismissed \<Rightarrow> (close_merge s, [])
      | Merge_Search q \<Rightarrow>
          (case merge_screen_of keepId s of Merge_Picker _ _ \<Rightarrow> (s\<lparr>md_query := q\<rparr>, []) | _ \<Rightarrow> (s, []))
      | Merge_Pick i \<Rightarrow>
          (case merge_screen_of keepId s of
             Merge_Picker rows _ \<Rightarrow> (if i \<in> set (map (\<lambda>r. m_id (fst r)) rows) then s\<lparr>md_source := Some i\<rparr> else s, [])
           | _ \<Rightarrow> (s, []))
      | Press_Compare \<Rightarrow>
          (case merge_screen_of keepId s of
             Merge_Picker rows disabled \<Rightarrow> (if disabled then s else handleCompare s, []) | _ \<Rightarrow> (s, []))
      | Merge_Click c \<Rightarrow>
          (case merge_screen_of keepId s of
             Merge_Compare k src \<Rightarrow> (s\<lparr>md_compare := compare_step (merge_view values_of k s) (md_compare s) c\<rparr>, [])
           | _ \<Rightarrow> (s, []))
      | Press_Merge \<Rightarrow>
          (case merge_screen_of keepId s of
             Merge_Compare k src \<Rightarrow>
               if md_merging s \<noteq> None then (s, [])
               else (s\<lparr>md_merging := Some (md_next s), md_pending := md_pending s @ [md_next s], md_next := md_next s + 1\<rparr>,
                     [Import_Plan (merge_plan_of values_of k src s)])
           | _ \<Rightarrow> (s, []))
      | Merge_Answer i failure \<Rightarrow> if i \<in> set (md_pending s) then merge_answer i failure s else (s, [])
      | Library_Data l \<Rightarrow> (s\<lparr>md_library := l\<rparr>, [])
      | Keep_Data k \<Rightarrow> (s\<lparr>md_keep := k\<rparr>, []))"

definition merge_step ::
    "(manga \<Rightarrow> metadata_values) \<Rightarrow> string \<Rightarrow> merge_dialog \<Rightarrow> merge_event \<Rightarrow> merge_dialog \<times> import_output list" where
  "merge_step values_of keepId s e =
     (let (s1, os) = merge_handler values_of keepId s e in (merge_effects values_of keepId s1, os))"

definition initial_merge :: merge_dialog where
  "initial_merge =
     \<lparr>md_open = False, md_phase = Pick_Phase, md_source = None, md_query = [], md_library = None, md_keep = None,
      md_compare = fresh_compare, md_remote = None, md_shown = None, md_merging = None, md_pending = [], md_next = 0\<rparr>"

abbreviation merge_next :: "(manga \<Rightarrow> metadata_values) \<Rightarrow> string \<Rightarrow> merge_dialog \<Rightarrow> merge_event \<Rightarrow> merge_dialog" where
  "merge_next values_of keepId s e \<equiv> fst (merge_step values_of keepId s e)"

section \<open>Properties\<close>

text \<open>A closed dialog has no choice; the comparison shown is initialised for the source chosen.\<close>

definition merge_inv :: "string \<Rightarrow> merge_dialog \<Rightarrow> bool" where
  "merge_inv keepId s =
     ((\<not> md_open s \<longrightarrow> md_phase s = Pick_Phase \<and> md_source s = None) \<and>
      (case merge_screen_of keepId s of
         Merge_Compare k src \<Rightarrow> md_shown s = Some (m_id src) \<and> map_option m_id (md_remote s) = Some (m_id src)
       | _ \<Rightarrow> md_shown s = None \<and> md_remote s = None \<and> md_merging s = None))"

text \<open>What the screen depends on.\<close>

definition same_screen :: "merge_dialog \<Rightarrow> merge_dialog \<Rightarrow> bool" where
  "same_screen s t \<longleftrightarrow>
     md_open s = md_open t \<and> md_phase s = md_phase t \<and> md_source s = md_source t \<and> md_library s = md_library t \<and>
     md_keep s = md_keep t"

lemma screen_compare_iff:
  "merge_screen_of keepId s = Merge_Compare k src \<longleftrightarrow>
     md_open s \<and> md_phase s = Compare_Phase \<and> merge_source keepId s = Some src \<and> md_keep s = Some k"
  by (auto simp: merge_screen_of_def split: option.split merge_phase.split)

lemma screen_cases:
  "(\<exists>k src. merge_screen_of keepId s = Merge_Compare k src) \<or> (\<exists>rows d. merge_screen_of keepId s = Merge_Picker rows d) \<or>
   merge_screen_of keepId s = Merge_Closed"
  by (cases "merge_screen_of keepId s") auto

lemma compare_screen_same:
  "same_screen s t \<Longrightarrow> merge_screen_of keepId s = Merge_Compare k src \<longleftrightarrow> merge_screen_of keepId t = Merge_Compare k src"
  by (simp add: screen_compare_iff same_screen_def merge_source_def)

lemma merge_effects_same: "same_screen (merge_effects values_of keepId s) s"
  by (simp add: merge_effects_def same_screen_def Let_def split: merge_screen.split)

text \<open>The effects establish the invariant.\<close>

lemma merge_effects_inv:
  assumes "\<not> md_open s \<Longrightarrow> md_phase s = Pick_Phase \<and> md_source s = None"
    and "\<And>h. md_shown s = Some h \<Longrightarrow> map_option m_id (md_remote s) = Some h"
  shows "merge_inv keepId (merge_effects values_of keepId s)"
proof -
  let ?t = "merge_effects values_of keepId s"
  have same: "same_screen ?t s" by (rule merge_effects_same)
  have "case merge_screen_of keepId ?t of
         Merge_Compare k src \<Rightarrow> md_shown ?t = Some (m_id src) \<and> map_option m_id (md_remote ?t) = Some (m_id src)
       | _ \<Rightarrow> md_shown ?t = None \<and> md_remote ?t = None \<and> md_merging ?t = None"
  proof (cases "merge_screen_of keepId s")
    case (Merge_Compare k src)
    then have t: "merge_screen_of keepId ?t = Merge_Compare k src" using compare_screen_same [OF same] by simp
    show ?thesis unfolding t using Merge_Compare assms(2) by (auto simp: merge_effects_def Let_def)
  next
    case Merge_Closed
    then have "merge_screen_of keepId ?t \<noteq> Merge_Compare k src" for k src using compare_screen_same [OF same] by simp
    with Merge_Closed show ?thesis by (auto simp: merge_effects_def split: merge_screen.split)
  next
    case (Merge_Picker rows d)
    then have "merge_screen_of keepId ?t \<noteq> Merge_Compare k src" for k src using compare_screen_same [OF same] by simp
    with Merge_Picker show ?thesis by (auto simp: merge_effects_def split: merge_screen.split)
  qed
  with assms(1) same show ?thesis by (auto simp: merge_inv_def same_screen_def)
qed

lemma inv_shown: "merge_inv keepId s \<Longrightarrow> md_shown s = Some h \<Longrightarrow> map_option m_id (md_remote s) = Some h"
  by (auto simp: merge_inv_def split: merge_screen.splits)

lemma merge_next_inv:
  assumes "merge_inv keepId s"
  shows "merge_inv keepId (merge_next values_of keepId s e)"
proof -
  let ?t = "fst (merge_handler values_of keepId s e)"
  have "md_shown ?t = md_shown s" "md_remote ?t = md_remote s"
    by (cases e; simp add: merge_handler_def close_merge_def handleCompare_def merge_answer_def Let_def
        split: merge_screen.split option.split)+
  moreover have "\<not> md_open ?t \<longrightarrow> md_phase ?t = Pick_Phase \<and> md_source ?t = None"
    using assms
    by (cases e) (auto simp: merge_handler_def close_merge_def handleCompare_def merge_answer_def Let_def merge_inv_def
        merge_screen_of_def split: merge_screen.split option.split if_splits)
  ultimately show ?thesis
    using merge_effects_inv [of ?t keepId values_of] inv_shown [OF assms] by (simp add: merge_step_def split_beta)
qed

interpretation merge_machine: machine "merge_next values_of keepId" initial_merge "merge_inv keepId" for values_of keepId
proof unfold_locales
  show "merge_inv keepId initial_merge" by (simp add: merge_inv_def initial_merge_def merge_screen_of_def)
qed (rule merge_next_inv)

text \<open>
  C24: A merge removes the manga that was picked. In every state the dialog can reach, if the details shown are those of the manga to
  keep, the only thing that sends a merge is the button of the comparison: it keeps that manga, merges the one that was
  picked, which is listed in the library and is another one, and takes title, description, year and cover as chosen; no second
  merge can be sent from there before the answer. The manga to keep is never offered, and closing forgets the pick.
\<close>

theorem merge_request_sound:
  assumes "s = run_events (merge_next values_of keepId) initial_merge es" "\<forall>k. md_keep s = Some k \<longrightarrow> m_id k = keepId"
  shows "(Import_Plan p \<in> set (snd (merge_step values_of keepId s e)) \<longrightarrow>
      (\<exists>src sel. e = Press_Merge \<and> md_source s = Some (m_id src) \<and> src \<in> set (coalesce_or [md_library s] []) \<and>
         m_id src \<noteq> keepId \<and> sel = co_sel (md_compare s) \<and>
         p = Plan_Requests [api_mergeLibraryManga
           \<lparr>mp_keep_manga_id = keepId, mp_source_manga_ids = [m_id src], mp_content_provider = None,
            mp_title = merge_choice (m_id src) (mc_title sel), mp_description = merge_choice (m_id src) (mc_description sel),
            mp_release_year = merge_choice (m_id src) (mc_releaseYear sel), mp_cover_url = merge_choice (m_id src) (mc_cover sel)\<rparr>] \<and>
         snd (merge_step values_of keepId (merge_next values_of keepId s e) Press_Merge) = [])) \<and>
    (merge_screen_of keepId s = Merge_Picker rows disabled \<longrightarrow> keepId \<notin> set (map (\<lambda>r. m_id (fst r)) rows)) \<and>
    (md_source (merge_next values_of keepId s Merge_Dismissed) = None)"
proof (rule conjI3; (intro impI)?)
  have inv: "merge_inv keepId s" unfolding assms(1) by (rule merge_machine.inv_run)
  assume p: "Import_Plan p \<in> set (snd (merge_step values_of keepId s e))"
  then have e: "e = Press_Merge"
    by (cases e) (auto simp: merge_step_def split_beta merge_handler_def merge_answer_def Let_def
        split: merge_screen.splits option.splits if_splits)
  with p obtain k src where c: "merge_screen_of keepId s = Merge_Compare k src" "md_merging s = None"
    and plan: "p = merge_plan_of values_of k src s"
    by (auto simp: merge_step_def split_beta merge_handler_def split: merge_screen.splits if_splits)
  have k: "m_id k = keepId" using assms(2) c(1) by (simp add: screen_compare_iff)
  obtain r where r: "md_remote s = Some r" "m_id r = m_id src" using inv c(1) by (auto simp: merge_inv_def)
  have src: "m_id src \<noteq> keepId" "md_source s = Some (m_id src)" "src \<in> set (coalesce_or [md_library s] [])"
    using c(1) sourceManga_sound [of "md_library s" keepId "md_source s" src]
    by (simp_all add: screen_compare_iff merge_source_def)
  let ?t = "merge_next values_of keepId s Press_Merge"
  define u where "u = s\<lparr>md_merging := Some (md_next s), md_pending := md_pending s @ [md_next s], md_next := md_next s + 1\<rparr>"
  have u: "merge_screen_of keepId u = Merge_Compare k src" "md_shown u = Some (m_id src)" "md_merging u \<noteq> None"
    using inv c(1) by (simp_all add: merge_inv_def u_def) (simp add: screen_compare_iff merge_source_def)
  have "fst (merge_handler values_of keepId s Press_Merge) = u" using c by (simp add: merge_handler_def u_def)
  moreover have "merge_effects values_of keepId u = u" using u by (simp add: merge_effects_def)
  ultimately have "?t = u" by (simp add: merge_step_def split_beta)
  with u have "md_merging ?t \<noteq> None \<and> merge_screen_of keepId ?t = Merge_Compare k src" by simp
  then have "snd (merge_step values_of keepId ?t Press_Merge) = []"
    by (auto simp: merge_step_def merge_handler_def split_beta)
  then show "\<exists>src sel. e = Press_Merge \<and> md_source s = Some (m_id src) \<and> src \<in> set (coalesce_or [md_library s] []) \<and>
         m_id src \<noteq> keepId \<and> sel = co_sel (md_compare s) \<and>
         p = Plan_Requests [api_mergeLibraryManga
           \<lparr>mp_keep_manga_id = keepId, mp_source_manga_ids = [m_id src], mp_content_provider = None,
            mp_title = merge_choice (m_id src) (mc_title sel), mp_description = merge_choice (m_id src) (mc_description sel),
            mp_release_year = merge_choice (m_id src) (mc_releaseYear sel), mp_cover_url = merge_choice (m_id src) (mc_cover sel)\<rparr>] \<and>
         snd (merge_step values_of keepId (merge_next values_of keepId s e) Press_Merge) = []"
    using e k r src plan
    by (intro exI [of _ src] exI [of _ "co_sel (md_compare s)"])
      (simp add: merge_plan_of_def import_plan_def merge_plan_def nonempty_or_def)
next
  assume "merge_screen_of keepId s = Merge_Picker rows disabled"
  then have "set (map fst rows) \<subseteq> set (availableSources (md_library s) keepId)"
    by (auto simp: merge_screen_of_def filteredSources_def Let_def split: if_splits option.splits merge_phase.splits)
  then show "keepId \<notin> set (map (\<lambda>r. m_id (fst r)) rows)" by (auto simp: availableSources_def)
next
  show "md_source (merge_next values_of keepId s Merge_Dismissed) = None"
    using merge_effects_same [of values_of keepId "close_merge s"]
    by (simp add: merge_step_def merge_handler_def same_screen_def close_merge_def)
qed

text \<open>\<open>merge_request_sound\<close> for a library of two manga.\<close>

definition sample_merge_run :: "merge_event list" where
  "sample_merge_run =
     [Merge_Opened, Library_Data (Some [blank_manga ''k'', blank_manga ''s'']), Keep_Data (Some (blank_manga ''k'')),
      Merge_Pick ''s'', Press_Compare]"

theorem merge_request_sound_witness:
  "\<exists>p src. snd (merge_step (\<lambda>m. no_values) ''k'' (run_events (merge_next (\<lambda>m. no_values) ''k'') initial_merge sample_merge_run) Press_Merge) =
     [Import_Plan p] \<and> m_id src \<noteq> ''k'' \<and> src \<in> set [blank_manga ''k'', blank_manga ''s'']"
proof -
  define s where "s = run_events (merge_next (\<lambda>m. no_values) ''k'') initial_merge sample_merge_run"
  have keep: "md_keep s = Some (blank_manga ''k'')" unfolding s_def by code_simp
  then have k: "\<forall>k. md_keep s = Some k \<longrightarrow> m_id k = ''k''" by simp
  have lib: "md_library s = Some [blank_manga ''k'', blank_manga ''s'']" unfolding s_def by code_simp
  have c: "merge_screen_of ''k'' s = Merge_Compare (blank_manga ''k'') (blank_manga ''s'')" "md_merging s = None"
    unfolding s_def by code_simp+
  let ?p = "merge_plan_of (\<lambda>m. no_values) (blank_manga ''k'') (blank_manga ''s'') s"
  have "snd (merge_step (\<lambda>m. no_values) ''k'' s Press_Merge) = [Import_Plan ?p]"
    using c by (simp add: merge_step_def merge_handler_def)
  then show ?thesis
    using merge_request_sound [OF s_def k, THEN conjunct1, of ?p Press_Merge] lib
    unfolding s_def [symmetric] by auto
qed

text \<open>
  A merge that is answered after the dialog was closed and opened again closes it, and forgets what was picked
  meanwhile.
\<close>

lemma late_merge_closes:
  "i \<in> set (md_pending s) \<Longrightarrow>
   \<not> md_open (merge_next values_of keepId s (Merge_Answer i None)) \<and>
   md_source (merge_next values_of keepId s (Merge_Answer i None)) = None"
  using merge_effects_same [of values_of keepId "fst (merge_answer i None s)"]
  by (simp add: merge_step_def merge_handler_def merge_answer_def close_merge_def same_screen_def Let_def)

text \<open>
  When the library no longer lists the source, the dialog is back on the picker, where nothing is selected but the button is
  enabled, and pressing it does nothing.
\<close>

lemma vanished_source:
  assumes "md_open s" "md_phase s = Compare_Phase" "md_source s = Some i" "i \<noteq> []"
    and "i \<notin> set (map m_id (availableSources l keepId))"
  shows "\<exists>rows. merge_screen_of keepId (merge_next values_of keepId s (Library_Data l)) = Merge_Picker rows False \<and>
    list_all (\<lambda>r. \<not> snd r) rows \<and>
    merge_screen_of keepId (merge_next values_of keepId (merge_next values_of keepId s (Library_Data l)) Press_Compare) =
      Merge_Picker rows False"
proof -
  let ?u = "s\<lparr>md_library := l\<rparr>"
  have none: "merge_source keepId ?u = None"
    using assms(3,5) by (auto simp: merge_source_def sourceManga_def find_None_iff)
  define rows where "rows = map (\<lambda>m. (m, md_source ?u = Some (m_id m))) (filteredSources (md_query ?u) (availableSources l keepId))"
  have u: "merge_screen_of keepId ?u = Merge_Picker rows False"
    using assms(1-4) none by (simp add: merge_screen_of_def rows_def)
  define t where "t = merge_effects values_of keepId ?u"
  have t: "t = ?u\<lparr>md_remote := None, md_shown := None, md_merging := None\<rparr>"
    using u by (simp add: t_def merge_effects_def)
  have st: "merge_screen_of keepId t = Merge_Picker rows False"
  proof -
    have "merge_source keepId t = None" using none by (simp add: t merge_source_def)
    then show ?thesis using assms(1-4) by (simp add: merge_screen_of_def rows_def t)
  qed
  have "list_all (\<lambda>r. \<not> snd r) rows"
    using assms(3,5) by (auto simp: rows_def list_all_iff filteredSources_def Let_def split: if_splits)
  moreover have "merge_next values_of keepId s (Library_Data l) = t" by (simp add: merge_step_def merge_handler_def t_def)
  moreover have "handleCompare t = t" using assms(2-4) by (simp add: handleCompare_def t)
  then have "merge_next values_of keepId t Press_Compare = merge_effects values_of keepId t"
    using st by (simp add: merge_step_def merge_handler_def)
  moreover have "merge_effects values_of keepId t = t" using st by (simp add: merge_effects_def t)
  ultimately show ?thesis using st by simp
qed

end
