(* ===== verification/Cover_Image.thy ===== *)
theory Cover_Image
  imports Lib_Utils
begin

text \<open>
  The cover of a manga, \<open>components/CoverImage.tsx\<close>, with the cards that show it (\<open>LibraryMangaCard.tsx\<close>, \<open>MangaCard.tsx\<close>,
  \<open>details/DetailsHeroCard.tsx\<close>). \<open>resolve u\<close> is the absolute address the browser makes of \<open>u\<close> (the \<open>src\<close> of the image element);
  \<open>ok u\<close> says whether the image at \<open>u\<close> loads.
\<close>

section \<open>The state\<close>

record cover_props =
  cp_src :: "string option"
  cp_fallbackSrc :: "string option"
  cp_noShimmer :: bool

text \<open>\<open>ci_effect\<close> is the \<open>src\<close> the effect ran for last.\<close>

record cover_image =
  ci_loaded :: bool
  ci_errored :: bool
  ci_currentSrc :: "string option"
  ci_attempted :: "string option"
  ci_effect :: "string option option"

definition src_effect :: "cover_props \<Rightarrow> cover_image \<Rightarrow> cover_image" where
  "src_effect p s =
     (if ci_effect s = Some (cp_src p) then s
      else s\<lparr>ci_loaded := False, ci_errored := False, ci_currentSrc := cp_src p, ci_attempted := None,
             ci_effect := Some (cp_src p)\<rparr>)"

definition mount_cover :: "cover_props \<Rightarrow> cover_image" where
  "mount_cover p =
     src_effect p
       \<lparr>ci_loaded = False, ci_errored = False, ci_currentSrc = cp_src p, ci_attempted = None, ci_effect = None\<rparr>"

definition showShimmer :: "cover_props \<Rightarrow> cover_image \<Rightarrow> bool" where
  "showShimmer p s = (truthy_str (ci_currentSrc s) \<and> \<not> ci_loaded s \<and> \<not> ci_errored s \<and> \<not> cp_noShimmer p)"

text \<open>The image element: its address, whether it is visible and hidden for good.\<close>

definition image_element :: "cover_image \<Rightarrow> (string \<times> bool \<times> bool) option" where
  "image_element s =
     (case ci_currentSrc s of
        Some u \<Rightarrow> if u \<noteq> [] then Some (u, ci_loaded s, ci_errored s) else None
      | None \<Rightarrow> None)"

text \<open>\<open>handleError\<close>: the new state, and whether the caller is told.\<close>

definition handleError :: "(string \<Rightarrow> string) \<Rightarrow> cover_props \<Rightarrow> cover_image \<Rightarrow> cover_image \<times> bool" where
  "handleError resolve p s =
     (if truthy_str (cp_fallbackSrc p) \<and> ci_attempted s \<noteq> cp_fallbackSrc p \<and>
         map_option resolve (ci_currentSrc s) \<noteq> cp_fallbackSrc p
      then (s\<lparr>ci_attempted := cp_fallbackSrc p, ci_currentSrc := cp_fallbackSrc p\<rparr>, False)
      else (s\<lparr>ci_errored := True\<rparr>, True))"

section \<open>Loading\<close>

text \<open>A second request is made only when the fallback was not tried before.\<close>

definition untried :: "cover_props \<Rightarrow> cover_image \<Rightarrow> nat" where
  "untried p s = (if ci_attempted s = cp_fallbackSrc p then 0 else 1)"

lemma handleError_untried:
  "\<not> ci_errored s \<Longrightarrow> \<not> ci_errored (fst (handleError resolve p s)) \<Longrightarrow> untried p (fst (handleError resolve p s)) < untried p s"
  by (auto simp: handleError_def untried_def split: if_splits)

text \<open>
  With props that stay: the browser requests the address of the image; on success the image is loaded, on failure
  \<open>handleError\<close> decides. A new address is a new element (its key), hence a new request; the same address is not
  requested again. The result is the final state and the addresses requested.
\<close>

function cover_cascade ::
    "(string \<Rightarrow> string) \<Rightarrow> (string \<Rightarrow> bool) \<Rightarrow> cover_props \<Rightarrow> cover_image \<Rightarrow> cover_image \<times> string list" where
  "cover_cascade resolve ok p s =
     (case image_element s of
        None \<Rightarrow> (s, [])
      | Some (u, loaded, errored) \<Rightarrow>
          if loaded \<or> errored then (s, [])
          else if ok u then (s\<lparr>ci_loaded := True\<rparr>, [u])
          else
            let t = fst (handleError resolve p s)
            in if ci_errored t \<or> ci_currentSrc t = ci_currentSrc s then (t, [u])
               else (fst (cover_cascade resolve ok p t), u # snd (cover_cascade resolve ok p t)))"
  by pat_completeness auto

termination
  by (relation "measure (\<lambda>(resolve, ok, p, s). untried p s)")
    (auto simp: image_element_def intro!: handleError_untried split: option.splits if_splits)

declare cover_cascade.simps [simp del]

lemma cascade_rest: "image_element s = None \<or> image_element s = Some (u, l, r) \<and> (l \<or> r) \<Longrightarrow> cover_cascade resolve ok p s = (s, [])"
  by (subst cover_cascade.simps) auto

lemma cascade_loads: "image_element s = Some (u, False, False) \<Longrightarrow> ok u \<Longrightarrow> cover_cascade resolve ok p s = (s\<lparr>ci_loaded := True\<rparr>, [u])"
  by (subst cover_cascade.simps) simp

lemma cascade_stops:
  "image_element s = Some (u, False, False) \<Longrightarrow> \<not> ok u \<Longrightarrow> t = fst (handleError resolve p s) \<Longrightarrow>
   ci_errored t \<or> ci_currentSrc t = ci_currentSrc s \<Longrightarrow> cover_cascade resolve ok p s = (t, [u])"
  by (subst cover_cascade.simps) (simp add: Let_def)

lemma cascade_retries:
  "image_element s = Some (u, False, False) \<Longrightarrow> \<not> ok u \<Longrightarrow> t = fst (handleError resolve p s) \<Longrightarrow>
   \<not> ci_errored t \<Longrightarrow> ci_currentSrc t \<noteq> ci_currentSrc s \<Longrightarrow>
   cover_cascade resolve ok p s = (fst (cover_cascade resolve ok p t), u # snd (cover_cascade resolve ok p t))"
  by (subst cover_cascade.simps) (simp add: Let_def)

lemma element_errored: "image_element s = Some (u, l, r) \<Longrightarrow> ci_errored s = r"
  by (auto simp: image_element_def split: option.splits if_splits)

lemma cascade_length: "length (snd (cover_cascade resolve ok p s)) \<le> untried p s + 1"
proof (induction "untried p s" arbitrary: s rule: less_induct)
  case less
  let ?t = "fst (handleError resolve p s)"
  show ?case
  proof (cases "image_element s")
    case None
    then show ?thesis by (simp add: cascade_rest)
  next
    case (Some e)
    obtain u l r where e: "e = (u, l, r)" by (cases e)
    with Some have el: "image_element s = Some (u, l, r)" by simp
    consider "l \<or> r" | "\<not> l" "\<not> r" "ok u" | "\<not> l" "\<not> r" "\<not> ok u" "ci_errored ?t \<or> ci_currentSrc ?t = ci_currentSrc s"
      | "\<not> l" "\<not> r" "\<not> ok u" "\<not> ci_errored ?t" "ci_currentSrc ?t \<noteq> ci_currentSrc s" by blast
    then show ?thesis
    proof cases
      case 1
      then have "cover_cascade resolve ok p s = (s, [])" using el by (intro cascade_rest) blast
      then show ?thesis by simp
    next
      case 2
      then have "cover_cascade resolve ok p s = (s\<lparr>ci_loaded := True\<rparr>, [u])" using el by (intro cascade_loads) auto
      then show ?thesis by simp
    next
      case 3
      then have "cover_cascade resolve ok p s = (?t, [u])" using el by (intro cascade_stops) auto
      then show ?thesis by simp
    next
      case 4
      then have "cover_cascade resolve ok p s = (fst (cover_cascade resolve ok p ?t), u # snd (cover_cascade resolve ok p ?t))"
        using el by (intro cascade_retries) auto
      moreover have lt: "untried p ?t < untried p s" using 4 element_errored [OF el] by (intro handleError_untried) auto
      ultimately show ?thesis using less [OF lt] by simp
    qed
  qed
qed

lemma mount_cover_simps [simp]:
  "ci_loaded (mount_cover p) = False" "ci_errored (mount_cover p) = False" "ci_currentSrc (mount_cover p) = cp_src p"
  "ci_attempted (mount_cover p) = None"
  by (simp_all add: mount_cover_def src_effect_def)

lemma mount_element: "cp_src p = Some u \<Longrightarrow> u \<noteq> [] \<Longrightarrow> image_element (mount_cover p) = Some (u, False, False)"
  by (simp add: image_element_def)

text \<open>
  C14: Loading a cover ends. For every cover, whichever images load, at most two addresses are requested, the cover and then the
  fallback. A cover that loads is shown; one that fails gives way to a fallback of another address, which is
  shown or given up; without a fallback, or when the address that failed is the fallback as an absolute address, the placeholder stays for good.
  Only when the fallback is written like the cover itself but resolves to something else does a failure leave the
  cover neither loaded nor given up, with the placeholder pulsing.
\<close>

theorem cover_loading_ends:
  assumes "cp_src p = Some u" "u \<noteq> []"
  shows "let (s, us) = cover_cascade resolve ok p (mount_cover p)
    in length us \<le> 2 \<and>
       (ok u \<longrightarrow> ci_loaded s \<and> us = [u]) \<and>
       (\<not> ok u \<longrightarrow>
          (if \<not> truthy_str (cp_fallbackSrc p) \<or> cp_fallbackSrc p = Some (resolve u) then ci_errored s \<and> us = [u]
           else if cp_fallbackSrc p = Some u then \<not> ci_errored s \<and> \<not> ci_loaded s \<and> us = [u] \<and> showShimmer p s = (\<not> cp_noShimmer p)
           else us = [u, the (cp_fallbackSrc p)] \<and> ci_loaded s = ok (the (cp_fallbackSrc p)) \<and>
             ci_errored s = (\<not> ok (the (cp_fallbackSrc p)))))"
proof -
  let ?s = "mount_cover p" and ?f = "cp_fallbackSrc p"
  note el = mount_element [OF assms]
  consider (loads) "ok u"
    | (none) "\<not> ok u" "\<not> truthy_str ?f \<or> ?f = Some (resolve u)"
    | (same) "\<not> ok u" "?f = Some u" "resolve u \<noteq> u" "truthy_str ?f"
    | (other) f where "\<not> ok u" "?f = Some f" "f \<noteq> []" "f \<noteq> resolve u" "f \<noteq> u"
    by (cases ?f; fastforce)
  then show ?thesis
  proof cases
    case loads
    then show ?thesis using cascade_loads [of ?s u ok resolve p, OF el] by simp
  next
    case none
    then have "fst (handleError resolve p ?s) = ?s\<lparr>ci_errored := True\<rparr>" using assms by (auto simp: handleError_def)
    then show ?thesis using none cascade_stops [of ?s u ok _ resolve p, OF el none(1) refl] by simp
  next
    case same
    then have "fst (handleError resolve p ?s) = ?s\<lparr>ci_attempted := Some u, ci_currentSrc := Some u\<rparr>"
      using assms by (auto simp: handleError_def)
    then show ?thesis
      using same assms cascade_stops [of ?s u ok _ resolve p, OF el same(1) refl] by (simp add: showShimmer_def)
  next
    case other
    let ?t = "?s\<lparr>ci_attempted := Some f, ci_currentSrc := Some f\<rparr>"
    have t: "fst (handleError resolve p ?s) = ?t" using other assms by (simp add: handleError_def)
    have e: "image_element ?t = Some (f, False, False)" using other(3) by (simp add: image_element_def)
    have u: "fst (handleError resolve p ?t) = ?t\<lparr>ci_errored := True\<rparr>" using other(2) by (simp add: handleError_def)
    have "cover_cascade resolve ok p ?t = (if ok f then ?t\<lparr>ci_loaded := True\<rparr> else ?t\<lparr>ci_errored := True\<rparr>, [f])"
      using cascade_loads [OF e, of ok resolve p] cascade_stops [OF e, of ok _ resolve p, OF _ refl] u by simp
    moreover have "cover_cascade resolve ok p ?s = (fst (cover_cascade resolve ok p ?t), u # snd (cover_cascade resolve ok p ?t))"
      using cascade_retries [of ?s u ok ?t resolve p, OF el other(1)] other(5) assms t by simp
    ultimately have "cover_cascade resolve ok p ?s =
        (if ok f then ?t\<lparr>ci_loaded := True\<rparr> else ?t\<lparr>ci_errored := True\<rparr>, [u, f])" by simp
    then show ?thesis using other by simp
  qed
qed

text \<open>\<open>cover_loading_ends\<close> for a cover whose fallback is its own path.\<close>

theorem cover_loading_ends_witness:
  "let (s, us) = cover_cascade (\<lambda>u. ''http://h'' @ u) (\<lambda>u. False) \<lparr>cp_src = Some ''/c'', cp_fallbackSrc = Some ''/c'', cp_noShimmer = False\<rparr>
       (mount_cover \<lparr>cp_src = Some ''/c'', cp_fallbackSrc = Some ''/c'', cp_noShimmer = False\<rparr>)
   in \<not> ci_errored s \<and> us = [''/c'']"
  using cover_loading_ends [of "\<lparr>cp_src = Some ''/c'', cp_fallbackSrc = Some ''/c'', cp_noShimmer = False\<rparr>" "''/c''"
      "\<lambda>u. ''http://h'' @ u" "\<lambda>u. False"] by (auto simp: Let_def split: prod.splits)

text \<open>
  A change of the fallback alone does not restart: a cover that was given up stays given up, even when the new fallback
  would load; a change of the cover itself starts afresh.
\<close>

lemma new_fallback_ignored:
  "ci_effect s = Some (cp_src p) \<Longrightarrow> ci_errored s \<Longrightarrow>
   cover_cascade resolve ok (p\<lparr>cp_fallbackSrc := f\<rparr>) (src_effect (p\<lparr>cp_fallbackSrc := f\<rparr>) s) = (s, [])"
  by (subst cover_cascade.simps) (auto simp: src_effect_def image_element_def split: option.split)

lemma new_source_restarts:
  "ci_effect s \<noteq> Some (cp_src p) \<Longrightarrow> src_effect p s = (mount_cover p)"
  by (cases s) (simp add: src_effect_def mount_cover_def)

section \<open>The covers of the cards\<close>

text \<open>Cover and fallback as the cards and the hero card compute them.\<close>

definition cover_pair :: "string option \<Rightarrow> string \<Rightarrow> string option \<times> string option" where
  "cover_pair asset proxied =
     (Some (str_or [asset] proxied), if truthy_str asset then Some proxied else None)"

definition library_cover :: "manga \<Rightarrow> string option \<times> string option" where
  "library_cover m =
     cover_pair (m_coverAssetUrl m)
       (getProxyImageUrl
          (coalesce [Option.bind (m_metadata m) md_cover_url, Option.bind (m_metadata m) md_coverUrl, m_coverUrl m, m_cover m])
          (m_url m))"

definition explore_cover :: "manga \<Rightarrow> string option \<times> string option" where
  "explore_cover m =
     cover_pair (m_coverAssetUrl m)
       (getProxyImageUrl (if truthy_str (m_coverUrl m) then m_coverUrl m else m_cover m) (m_url m))"

definition card_props :: "string option \<times> string option \<Rightarrow> cover_props" where
  "card_props c = \<lparr>cp_src = fst c, cp_fallbackSrc = snd c, cp_noShimmer = False\<rparr>"

text \<open>
  The cards of a manga with a stored cover and another cover address request the stored one first and the proxied one
  when it fails; with one address for both, a failing cover pulses for ever, as that address is a path.
\<close>

lemma card_cover_settles:
  assumes "m_coverAssetUrl m = Some a" "a \<noteq> []" "proxied \<noteq> []" "resolve a \<noteq> proxied" "\<not> ok a"
  shows "let (s, us) = cover_cascade resolve ok (card_props (cover_pair (m_coverAssetUrl m) proxied))
            (mount_cover (card_props (cover_pair (m_coverAssetUrl m) proxied)))
    in if proxied = a then \<not> ci_errored s \<and> \<not> ci_loaded s \<and> us = [a] else us = [a, proxied] \<and> ci_loaded s = ok proxied"
proof -
  let ?p = "card_props (cover_pair (m_coverAssetUrl m) proxied)" and ?s = "mount_cover (card_props (cover_pair (m_coverAssetUrl m) proxied))"
  have p: "cp_src ?p = Some a" "cp_fallbackSrc ?p = Some proxied"
    using assms(1,2) by (simp_all add: card_props_def cover_pair_def)
  note el = mount_element [OF p(1) assms(2)]
  let ?t = "?s\<lparr>ci_attempted := Some proxied, ci_currentSrc := Some proxied\<rparr>"
  have t: "fst (handleError resolve ?p ?s) = ?t" using assms(3,4) p by (simp add: handleError_def)
  have e: "image_element ?t = Some (proxied, False, False)" using assms(3) by (simp add: image_element_def)
  have "proxied = a \<Longrightarrow> cover_cascade resolve ok ?p ?s = (?t, [a])"
    by (rule cascade_stops [of ?s a ok ?t resolve ?p, OF el assms(5) t [symmetric]]) (use p(1) in simp)
  moreover have "proxied \<noteq> a \<Longrightarrow> cover_cascade resolve ok ?p ?s = (fst (cover_cascade resolve ok ?p ?t), a # snd (cover_cascade resolve ok ?p ?t))"
    by (rule cascade_retries [of ?s a ok ?t resolve ?p, OF el assms(5) t [symmetric]]) (use p(1) in simp_all)
  moreover have "cover_cascade resolve ok ?p ?t = (if ok proxied then ?t\<lparr>ci_loaded := True\<rparr> else ?t\<lparr>ci_errored := True\<rparr>, [proxied])"
    using cascade_loads [OF e, of ok resolve ?p] cascade_stops [OF e, of ok _ resolve ?p, OF _ refl] p
    by (simp add: handleError_def)
  ultimately show ?thesis by (cases "proxied = a") simp_all
qed

end
