(* ===== verification/Details_Card.thy ===== *)
theory Details_Card
  imports Details_Manga Reader_Page Cover_Image
begin

text \<open>
  What the details page shows above its chapters: \<open>components/details/DetailsHeroCard.tsx\<close>,
  \<open>components/details/DetailsActionBar.tsx\<close> and \<open>components/ProviderList.tsx\<close> with \<open>CapabilityBadge.tsx\<close>, as the values their markup is
  made of. A string that is rendered only when it is not empty is an option.
\<close>

section \<open>The hero card\<close>

text \<open>\<open>manga?.metadata?.x\<close>.\<close>

abbreviation of_metadata :: "manga option \<Rightarrow> (manga_metadata \<Rightarrow> 'a option) \<Rightarrow> 'a option" where
  "of_metadata m f \<equiv> Option.bind (Option.bind m m_metadata) f"

definition some_nonempty :: "string \<Rightarrow> string option" where
  "some_nonempty s = (if s \<noteq> [] then Some s else None)"

definition hero_cover :: "manga option \<Rightarrow> string option \<times> string option" where
  "hero_cover m =
     cover_pair (Option.bind m m_coverAssetUrl)
       (getProxyImageUrl
          (coalesce [of_metadata m md_cover_url, of_metadata m md_coverUrl, Option.bind m m_coverUrl, Option.bind m m_cover])
          (Option.bind m m_url))"

definition shown_title :: "manga option \<Rightarrow> string option" where
  "shown_title m = coalesce [of_metadata m md_title, Option.bind m m_title]"

definition hero_title :: "bool \<Rightarrow> manga option \<Rightarrow> string" where
  "hero_title isMangaLoading m =
     (if isMangaLoading then ''Loading Manga...'' else coalesce_or [shown_title m] ''Untitled Manga'')"

definition filteredAliases :: "manga option \<Rightarrow> string list" where
  "filteredAliases m =
     filter (\<lambda>a. js_trim (js_lower a) \<noteq> js_trim (js_lower (coalesce_or [shown_title m] [])))
       (coalesce_or [of_metadata m md_aliases, Option.bind m m_aliases] [])"

text \<open>The first list that is not empty, then the single value.\<close>

definition credit_list :: "string list option \<Rightarrow> string list option \<Rightarrow> string option \<Rightarrow> string list" where
  "credit_list own joined single =
     nonempty_or own (nonempty_or joined (case single of Some s \<Rightarrow> if s \<noteq> [] then [s] else [] | None \<Rightarrow> []))"

definition authorsJoined :: "manga option \<Rightarrow> string" where
  "authorsJoined m =
     js_join '', '' (credit_list (of_metadata m md_authors) (Option.bind m m_authors) (Option.bind m m_author))"

definition artistsJoined :: "manga option \<Rightarrow> string" where
  "artistsJoined m =
     js_join '', '' (credit_list (of_metadata m md_artists) (Option.bind m m_artists) (Option.bind m m_artist))"

definition areAuthorsAndArtistsSame :: "manga option \<Rightarrow> bool" where
  "areAuthorsAndArtistsSame m =
     (authorsJoined m \<noteq> [] \<and> artistsJoined m \<noteq> [] \<and>
      js_trim (js_lower (authorsJoined m)) = js_trim (js_lower (artistsJoined m)))"

datatype hero_credits = Same_Credits string | Own_Credits "string option" "string option"

definition hero_credits_of :: "manga option \<Rightarrow> hero_credits" where
  "hero_credits_of m =
     (if areAuthorsAndArtistsSame m then Same_Credits (authorsJoined m)
      else Own_Credits (some_nonempty (authorsJoined m)) (some_nonempty (artistsJoined m)))"

definition publishersList :: "manga option \<Rightarrow> string list" where
  "publishersList m = credit_list (of_metadata m md_publishers) (Option.bind m m_publishers) (Option.bind m m_publisher)"

definition releaseYearVal :: "manga option \<Rightarrow> rat option" where
  "releaseYearVal m =
     coalesce [of_metadata m md_releaseYear, of_metadata m md_release_year, Option.bind m m_releaseYear,
       Option.bind m m_release_year]"

definition startDateVal :: "manga option \<Rightarrow> string option" where
  "startDateVal m =
     coalesce [of_metadata m md_startDate, of_metadata m md_start_date, Option.bind m m_startDate, Option.bind m m_start_date]"

definition endDateVal :: "manga option \<Rightarrow> string option" where
  "endDateVal m =
     coalesce [of_metadata m md_endDate, of_metadata m md_end_date, Option.bind m m_endDate, Option.bind m m_end_date]"

definition countryVal :: "manga option \<Rightarrow> string option" where
  "countryVal m = coalesce [of_metadata m md_country, Option.bind m m_country]"

definition READING_MODE_LABELS :: "string \<Rightarrow> string option" where
  "READING_MODE_LABELS = map_of
     [(''rtl'', ''Right to Left (Manga)''), (''ltr'', ''Left to Right (Comic)''), (''vertical'', ''Vertical (Gapped)''),
      (''longstrip'', ''Longstrip (Webtoon)'')]"

text \<open>\<open>manga?.bindings?.content?.reading_mode\<close>, and the members read after it.\<close>

definition binding_mode :: "manga option \<Rightarrow> string option" where
  "binding_mode m = Option.bind (Option.bind (Option.bind m m_bindings) mb_content) cs_reading_mode"

definition joined_mode :: "manga option \<Rightarrow> string option" where
  "joined_mode m =
     coalesce [Option.bind (Option.bind m m_content) cs_reading_mode, Option.bind m m_readingMode,
       Option.bind m m_reading_mode, Option.bind m m_readingDirection]"

definition readingModeKey :: "manga option \<Rightarrow> string" where
  "readingModeKey m = js_lower (coalesce_or [binding_mode m, joined_mode m] ''rtl'')"

definition reading_mode_label :: "string \<Rightarrow> string" where
  "reading_mode_label key = str_or [READING_MODE_LABELS key] key"

definition extLinks :: "manga option \<Rightarrow> external_link list" where
  "extLinks m = nonempty_or (of_metadata m md_externalLinks) (nonempty_or (Option.bind m m_externalLinks) [])"

text \<open>
  The detailed metadata: rows of a label and a text, the links, and a number that stands alone, which React renders
  where \<open>releaseYearVal && ...\<close> is the number 0.
\<close>

datatype grid_item = Grid_Row string string | Grid_Number rat | Grid_Links "(string \<times> string) list"

definition row_if :: "string \<Rightarrow> string option \<Rightarrow> grid_item list" where
  "row_if label v = (case v of Some t \<Rightarrow> if t \<noteq> [] then [Grid_Row label t] else [] | None \<Rightarrow> [])"

definition detailed_metadata :: "manga option \<Rightarrow> grid_item list" where
  "detailed_metadata m =
     [Grid_Row ''Reading Mode'' (reading_mode_label (readingModeKey m)),
      Grid_Row ''Content Rating''
        (coalesce_or [of_metadata m md_content_rating, of_metadata m md_contentRating, Option.bind m m_contentRating,
           Option.bind (Option.bind m m_meta) mm_content_rating] ''safe'')] @
     row_if (if length (publishersList m) > 1 then ''Publishers'' else ''Publisher'') (Some (js_join '', '' (publishersList m))) @
     (case releaseYearVal m of
        None \<Rightarrow> []
      | Some y \<Rightarrow> if y = 0 then [Grid_Number 0] else [Grid_Row ''Release Year'' (num_str y)]) @
     row_if ''Start Date'' (startDateVal m) @ row_if ''End Date'' (endDateVal m) @ row_if ''Country'' (countryVal m) @
     (if extLinks m \<noteq> []
      then [Grid_Links (map (\<lambda>l. (el_url l, str_or [Some (el_label l), Some (el_provider l)] (el_url l))) (extLinks m))]
      else [])"

text \<open>The pills: \<open>None\<close> when their row is not rendered.\<close>

definition hero_tags :: "manga option \<Rightarrow> string list option" where
  "hero_tags m =
     (if nonempty_or (Option.bind m m_tags) [] \<noteq> [] \<or> nonempty_or (Option.bind m m_genres) [] \<noteq> [] \<or>
         nonempty_or (of_metadata m md_tags) [] \<noteq> []
      then Some (coalesce_or [of_metadata m md_tags, Option.bind m m_tags, Option.bind m m_genres,
             Option.bind (Option.bind m m_meta) mm_tags] [])
      else None)"

definition hero_description :: "manga option \<Rightarrow> string" where
  "hero_description m =
     coalesce_or [of_metadata m md_description, Option.bind m m_description, Option.bind (Option.bind m m_meta) mm_description]
       ''No description available for this series.''"

record hero_card =
  hc_cover :: "string option \<times> string option"
  hc_alt :: string
  hc_title :: string
  hc_provider :: "string option"
  hc_aliases :: "string option"
  hc_credits :: hero_credits
  hc_grid :: "grid_item list option"
  hc_tags :: "string list option"
  hc_description :: string

text \<open>\<open>showDetails\<close> is the state of the card, toggled by its button.\<close>

definition hero_view :: "bool \<Rightarrow> bool \<Rightarrow> string option \<Rightarrow> manga option \<Rightarrow> hero_card" where
  "hero_view showDetails isMangaLoading providerName m =
     \<lparr>hc_cover = hero_cover m, hc_alt = coalesce_or [shown_title m] ''Manga Cover'', hc_title = hero_title isMangaLoading m,
      hc_provider = (if truthy_str providerName then providerName else None),
      hc_aliases = (if filteredAliases m \<noteq> [] then Some (js_join '', '' (filteredAliases m)) else None),
      hc_credits = hero_credits_of m, hc_grid = (if showDetails then Some (detailed_metadata m) else None),
      hc_tags = hero_tags m, hc_description = hero_description m\<rparr>"

section \<open>The action bar\<close>

datatype details_link = Link_Provider string | Link_Library | Link_Manga string

datatype bar_menu_item = Menu_Import | Menu_Edit | Menu_Merge bool | Menu_Remove

datatype bar_button =
    View_In_Library string
  | Add_To_Library string bool
  | Cta_Button string
  | Options_Menu "bar_menu_item list"

definition keepMangaId :: "string \<Rightarrow> manga option \<Rightarrow> string" where
  "keepMangaId target m = str_or [Some target, map_option m_id m] []"

definition back_link :: "details_route \<Rightarrow> details_link" where
  "back_link r = (if isRemoteRoute r then Link_Provider (str_or [Some (providerIdParam r)] ''mangafox'') else Link_Library)"

text \<open>The bar as the details page sets it up (every callback is passed); \<open>adding\<close> is \<open>addToLibraryMutation.isPending\<close>.\<close>

definition bar_menu :: "bool \<Rightarrow> details_route \<Rightarrow> details_data \<Rightarrow> bar_menu_item list" where
  "bar_menu adding r d =
     [Menu_Import, Menu_Edit] @
     (if \<not> isRemoteRoute r \<and> keepMangaId (targetMangaId r d) (details_manga r d) \<noteq> [] then [Menu_Merge adding] else []) @
     [Menu_Remove]"

definition bar_buttons :: "bool \<Rightarrow> details_route \<Rightarrow> details_data \<Rightarrow> bar_button list" where
  "bar_buttons adding r d =
     (if isRemoteRoute r then
        if isInLibrary r d then [View_In_Library (targetMangaId r d)]
        else [Add_To_Library (if adding then ''Adding...'' else ''Add to Library'')
                (adding \<or> details_manga r d = None \<or> hasZeroChapters r d \<or> isUnavailable r d)]
      else
        (if details_manga r d \<noteq> None \<and> \<not> isUnavailable r d \<and> details_chapters r d \<noteq> []
         then map (\<lambda>info. Cta_Button (cta_label info)) (option_list (readingCta r d)) else []) @
        (if isInLibrary r d \<and> details_manga r d \<noteq> None then [Options_Menu (bar_menu adding r d)] else []))"

section \<open>The provider list\<close>

text \<open>\<open>a || b || c\<close> where the last value is taken as it is.\<close>

fun or_opt :: "string option list \<Rightarrow> string option" where
  "or_opt [] = None"
| "or_opt [x] = x"
| "or_opt (x # xs) = (if truthy_str x then x else or_opt xs)"

definition bound_providers :: "manga \<Rightarrow> provider_ref list" where
  "bound_providers m =
     coalesce_or [Option.bind (m_bindings m) mb_providers, Option.bind (m_meta m) mm_providers] []"

definition bound_content_provider :: "manga \<Rightarrow> string option" where
  "bound_content_provider m =
     or_opt [map_option cs_provider_id (Option.bind (m_bindings m) mb_content), m_contentProviderId m, m_sourceId m,
       map_option cs_provider_id (Option.bind (m_meta m) mm_content)]"

definition bound_content_manga :: "manga \<Rightarrow> string option" where
  "bound_content_manga m =
     or_opt [Option.bind (Option.bind (m_bindings m) mb_content) cs_provider_manga_id, m_contentRemoteId m,
       Option.bind (Option.bind (m_meta m) mm_content) cs_provider_manga_id]"

definition find_source :: "source list \<Rightarrow> string \<Rightarrow> source option" where
  "find_source sources pid = List.find (\<lambda>s. src_id s = pid) sources"

definition getSourceName :: "source list \<Rightarrow> string \<Rightarrow> string" where
  "getSourceName sources pid = str_or [map_option src_name (find_source sources pid)] pid"

definition getSourceIcon :: "source list \<Rightarrow> string \<Rightarrow> string option" where
  "getSourceIcon sources pid =
     (let icon = Option.bind (find_source sources pid) src_icon in if truthy_str icon then icon else None)"

definition has_capability :: "source list \<Rightarrow> string \<Rightarrow> string \<Rightarrow> bool" where
  "has_capability sources cap pid =
     (case Option.bind (find_source sources pid) src_capabilities of Some cs \<Rightarrow> cap \<in> set cs | None \<Rightarrow> False)"

definition isActiveContentProvider :: "manga \<Rightarrow> provider_ref \<Rightarrow> bool" where
  "isActiveContentProvider m p =
     (Some (pr_provider_id p) = bound_content_provider m \<and> Some (pr_provider_manga_id p) = bound_content_manga m)"

definition canRemoveProvider :: "source list \<Rightarrow> manga \<Rightarrow> provider_ref \<Rightarrow> bool" where
  "canRemoveProvider sources m p =
     (if \<not> has_capability sources ''content'' (pr_provider_id p) then True
      else length (filter (\<lambda>q. has_capability sources ''content'' (pr_provider_id q)) (bound_providers m)) > 1)"

text \<open>\<open>CapabilityBadge\<close>: its label and whether it is marked as active or as unavailable.\<close>

datatype badge_mark = Plain_Mark | Active_Mark | Unavailable_Mark

definition CapabilityBadge :: "string \<Rightarrow> bool \<Rightarrow> bool \<Rightarrow> (string \<times> badge_mark) option" where
  "CapabilityBadge capability active unavailable =
     map_option (\<lambda>label. (label, if active \<and> \<not> unavailable then Active_Mark
                                  else if unavailable then Unavailable_Mark else Plain_Mark))
       (map_of [(''content'', ''Content''), (''metadata'', ''Metadata''), (''tracking'', ''Tracking'')] capability)"

datatype provider_action = Import_From | Switch_To | Remove_Binding bool

record provider_row =
  pv_icon :: "string option"
  pv_name :: string
  pv_title :: "string option"
  pv_badges :: "(string \<times> badge_mark) list"
  pv_menu :: "provider_action list"

definition provider_row_of :: "source list \<Rightarrow> bool \<Rightarrow> bool \<Rightarrow> manga \<Rightarrow> provider_ref \<Rightarrow> provider_row" where
  "provider_row_of sources isRemoving isContentUnavailable m p =
     (let active = isActiveContentProvider m p; pid = pr_provider_id p
      in \<lparr>pv_icon = getSourceIcon sources pid, pv_name = getSourceName sources pid,
          pv_title = (if truthy_str (pr_manga_title p) then pr_manga_title p else None),
          pv_badges =
            (if has_capability sources ''content'' pid
             then option_list (CapabilityBadge ''content'' active (active \<and> isContentUnavailable)) else []) @
            (if has_capability sources ''metadata'' pid then option_list (CapabilityBadge ''metadata'' False False) else []),
          pv_menu =
            [Import_From] @ (if \<not> active \<and> has_capability sources ''content'' pid then [Switch_To] else []) @
            [Remove_Binding (\<not> canRemoveProvider sources m p \<or> isRemoving)]\<rparr>)"

text \<open>The rows; an empty list is replaced by a notice.\<close>

definition ProviderList :: "source list \<Rightarrow> bool \<Rightarrow> bool \<Rightarrow> manga \<Rightarrow> provider_row list option" where
  "ProviderList sources isRemoving isContentUnavailable m =
     (if bound_providers m = [] then None
      else Some (map (provider_row_of sources isRemoving isContentUnavailable m) (bound_providers m)))"

section \<open>Properties\<close>

text \<open>The cover and the title are those of the card in the library.\<close>

lemma hero_cover_library: "hero_cover (Some m) = library_cover m"
  by (simp add: hero_cover_def library_cover_def)

definition known_modes :: "string set" where
  "known_modes = set [''rtl'', ''ltr'', ''vertical'', ''longstrip'']"

lemma known_modes_plain: "k \<in> known_modes \<Longrightarrow> js_lower k = k \<and> js_trim k = k \<and> k \<noteq> []"
proof -
  have "list_all (\<lambda>k. js_lower k = k \<and> js_trim k = k \<and> k \<noteq> []) [''rtl'', ''ltr'', ''vertical'', ''longstrip'']" by code_simp
  then show "k \<in> known_modes \<Longrightarrow> js_lower k = k \<and> js_trim k = k \<and> k \<noteq> []" by (auto simp: known_modes_def list_all_iff)
qed

lemma coalesce_str_or:
  "coalesce xs = Some t \<Longrightarrow> t \<noteq> [] \<Longrightarrow> str_or xs d = t"
  "coalesce xs = None \<Longrightarrow> str_or xs d = d"
  by (induction xs rule: coalesce.induct) auto

text \<open>
  The reading mode that is shown and the one that is read. Take a manga without a mode in its \<open>meta\<close>. When no mode is
  stored with the content binding and the joined members give none, or one of the four modes, the details page names the mode the reader
  opens in. When a mode is stored with the binding and nowhere else, the details page names it whatever it is, and
  the reader opens right to left.
\<close>

theorem hero_mode_vs_reader:
  assumes "Option.bind (meta_content m) cs_reading_mode = None" "Option.bind (m_meta m) mm_reading_direction = None"
  shows "(binding_mode (Some m) = None \<and> (\<forall>k. joined_mode (Some m) = Some k \<longrightarrow> k \<in> known_modes) \<longrightarrow>
      Grid_Row ''Reading Mode'' (reading_mode_label (readingMode (Some m))) \<in> set (detailed_metadata (Some m))) \<and>
    (binding_mode (Some m) = Some k \<and> joined_mode (Some m) = None \<longrightarrow>
      Grid_Row ''Reading Mode'' (reading_mode_label (js_lower k)) \<in> set (detailed_metadata (Some m)) \<and>
      readingMode (Some m) = ''rtl'')"
proof -
  let ?old = "joined_mode (Some m)"
  have raw: "rawReadingMode (Some m) = js_lower (js_trim (str_or [?old] []))" if "?old \<noteq> Some []"
    using that assms
    by (simp add: rawReadingMode_def joined_mode_def)
      (cases "Option.bind (m_content m) cs_reading_mode"; cases "m_readingMode m"; cases "m_reading_mode m";
        cases "m_readingDirection m"; simp)
  have none: "readingMode (Some m) = ''rtl''" if "?old = None"
    using raw that by (simp add: readingMode_def js_lower_def)
  have same: "readingMode (Some m) = k" if "?old = Some k" "k \<in> known_modes" for k
    using raw that known_modes_plain [OF that(2)] by (simp add: readingMode_def known_modes_def)
  have row: "Grid_Row ''Reading Mode'' (reading_mode_label (readingModeKey (Some m))) \<in> set (detailed_metadata (Some m))"
    by (simp add: detailed_metadata_def)
  have "readingModeKey (Some m) = readingMode (Some m)"
    if "binding_mode (Some m) = None" "\<forall>k. ?old = Some k \<longrightarrow> k \<in> known_modes"
  proof (cases ?old)
    case None
    then show ?thesis using that none by (simp add: readingModeKey_def js_lower_def lower_char_def)
  next
    case (Some k)
    then show ?thesis using that same [OF Some] known_modes_plain by (simp add: readingModeKey_def)
  qed
  with row none show ?thesis by (auto simp: readingModeKey_def)
qed

text \<open>\<open>hero_mode_vs_reader\<close> for a long strip whose mode is stored with its binding.\<close>

definition strip_manga :: manga where
  "strip_manga =
     (blank_manga ''m'')\<lparr>m_bindings := Some \<lparr>mb_providers = None,
        mb_content = Some \<lparr>cs_provider_id = ''p'', cs_provider_manga_id = None, cs_chapter_ref = None,
          cs_last_synced_at = None, cs_reading_mode = Some ''longstrip''\<rparr>\<rparr>\<rparr>"

theorem hero_mode_vs_reader_witness:
  "Grid_Row ''Reading Mode'' (reading_mode_label (js_lower ''longstrip'')) \<in> set (detailed_metadata (Some strip_manga)) \<and>
   reading_mode_label (js_lower ''longstrip'') = ''Longstrip (Webtoon)'' \<and> readingMode (Some strip_manga) = ''rtl''"
proof -
  have "reading_mode_label (js_lower ''longstrip'') = ''Longstrip (Webtoon)''" by code_simp
  with hero_mode_vs_reader [of strip_manga "''longstrip''"] show ?thesis
    by (simp add: strip_manga_def meta_content_def binding_mode_def joined_mode_def)
qed

text \<open>
  Two things the card shows that it should not: an empty row of pills when the metadata have an empty list of tags and the
  joined manga or its genres do not, and a bare 0 for the year 0.
\<close>

lemma empty_pills:
  "of_metadata m md_tags = Some [] \<Longrightarrow> Option.bind m m_genres = Some (g # gs) \<Longrightarrow> hero_tags m = Some []"
  by (simp add: hero_tags_def nonempty_or_def)

lemma bare_zero: "Grid_Number y \<in> set (detailed_metadata m) \<longleftrightarrow> releaseYearVal m = Some 0 \<and> y = 0"
  by (auto simp: detailed_metadata_def row_if_def split: option.splits if_splits)

text \<open>
  The row of the active provider and the page name the same content provider, unless a member that comes before is an empty
  string.
\<close>

lemma content_provider_agrees:
  assumes "\<not> isRemoteRoute r" "details_manga r d = Some m"
    and "Some [] \<notin> set [map_option cs_provider_id (Option.bind (m_bindings m) mb_content), m_contentProviderId m, m_sourceId m]"
  shows "bound_content_provider m = activeContentProviderId r d"
  using assms
  by (simp add: bound_content_provider_def activeContentProviderId_def Let_def)
    (cases "Option.bind (m_bindings m) mb_content"; cases "m_contentProviderId m"; cases "m_sourceId m";
      cases "Option.bind (m_meta m) mm_content"; auto)

end
