(* ===== verification/Details_Page.thy ===== *)
theory Details_Page
  imports Details_Card Import_Dialog
begin

text \<open>
  The state of \<open>routes/DetailsPage.tsx\<close> and of the parts above its chapters, as a machine: what the queries deliver is an event,
  so is every click and every answer. A click on something that is not rendered or is disabled does nothing; \<open>confirm\<close> is an output
  with the question, its answer a parameter of the click.
\<close>

section \<open>State and events\<close>

text \<open>\<open>dp_removing\<close> is the provider whose removal is pending (\<open>removeProviderMutation.isPending\<close>).\<close>

record details_page =
  dp_data :: details_data
  dp_edit :: bool
  dp_addProvider :: bool
  dp_import :: bool
  dp_importProvider :: "string option"
  dp_importRemote :: "string option"
  dp_collapsed :: bool
  dp_merge :: bool
  dp_showDetails :: bool
  dp_adding :: bool
  dp_removing :: "provider_ref option"
  dp_deleting :: bool

datatype page_dialog = Edit_Dialog | Add_Provider_Dialog | Import_Metadata_Dialog | Merge_With_Dialog

datatype page_event =
    New_Data details_data
  | Click_Add
  | Add_Answer "shown_error option"
  | Click_View_In_Library
  | Click_Cta
  | Click_Menu bar_menu_item bool
  | Delete_Answer bool
  | Toggle_Details
  | Toggle_Providers
  | Open_Add_Provider
  | Provider_Import provider_ref
  | Provider_Remove provider_ref bool
  | Remove_Answer "shown_error option"
  | Provider_Switch provider_ref bool
  | Close_Page_Dialog page_dialog

datatype question = Ask_Remove_Manga string | Ask_Remove_Provider string | Ask_Switch string

datatype page_output =
    Go_To details_target
  | Go_Link details_link
  | Send_Operation operation
  | Send_Mutation mutation
  | Failed_Without_Request string
  | Ask question
  | Show_Notice notice

definition page_manga :: "details_route \<Rightarrow> details_page \<Rightarrow> manga option" where
  "page_manga r s = details_manga r (dp_data s)"

text \<open>What is rendered: the menu of the bar, the user metadata, and the rows of the providers.\<close>

definition shown_menu :: "details_route \<Rightarrow> details_page \<Rightarrow> bar_menu_item list" where
  "shown_menu r s =
     concat (map (\<lambda>b. case b of Options_Menu items \<Rightarrow> items | _ \<Rightarrow> []) (bar_buttons (dp_adding s) r (dp_data s)))"

definition in_library_page :: "details_route \<Rightarrow> details_page \<Rightarrow> bool" where
  "in_library_page r s = (\<not> isRemoteRoute r \<and> isInLibrary r (dp_data s) \<and> page_manga r s \<noteq> None)"

definition shown_providers :: "details_route \<Rightarrow> details_page \<Rightarrow> (provider_ref \<times> provider_row) list" where
  "shown_providers r s =
     (case page_manga r s of
        None \<Rightarrow> []
      | Some m \<Rightarrow>
          if in_library_page r s \<and> \<not> dp_collapsed s
          then map (\<lambda>p. (p, provider_row_of (dd_sources (dp_data s)) (dp_removing s \<noteq> None) (isUnavailable r (dp_data s)) m p))
                 (bound_providers m)
          else [])"

definition row_offers :: "details_route \<Rightarrow> details_page \<Rightarrow> provider_ref \<Rightarrow> provider_action \<Rightarrow> bool" where
  "row_offers r s p a = list_ex (\<lambda>(q, row). q = p \<and> a \<in> set (pv_menu row)) (shown_providers r s)"

section \<open>Handlers\<close>

definition binding_label :: "provider_ref \<Rightarrow> string" where
  "binding_label p = str_or [pr_manga_title p] (pr_provider_id p)"

text \<open>The menu of the bar; \<open>yes\<close> answers the question it may ask.\<close>

definition click_menu ::
    "details_route \<Rightarrow> bool \<Rightarrow> bar_menu_item \<Rightarrow> details_page \<Rightarrow> details_page \<times> page_output list" where
  "click_menu r yes item s =
     (case item of
        Menu_Import \<Rightarrow> (s\<lparr>dp_importProvider := None, dp_importRemote := None, dp_import := True\<rparr>, [])
      | Menu_Edit \<Rightarrow> (s\<lparr>dp_edit := True\<rparr>, [])
      | Menu_Merge disabled \<Rightarrow> (if disabled then s else s\<lparr>dp_merge := True\<rparr>, [])
      | Menu_Remove \<Rightarrow>
          (let q = Ask (Ask_Remove_Manga (str_or [Option.bind (page_manga r s) m_title] ''this series''))
           in case handleConfirmRemoveFromLibrary yes r (dp_data s) of
                None \<Rightarrow> (s, [q])
              | Some mu \<Rightarrow> (s\<lparr>dp_deleting := True\<rparr>, [q, Send_Mutation mu])))"

text \<open>\<open>removeProviderMutation.mutate\<close> and \<open>switchToMutation.mutate\<close>, after the question.\<close>

definition remove_provider ::
    "details_route \<Rightarrow> bool \<Rightarrow> provider_ref \<Rightarrow> details_page \<Rightarrow> details_page \<times> page_output list" where
  "remove_provider r yes p s =
     (let q = Ask (Ask_Remove_Provider (binding_label p))
      in if \<not> yes then (s, [q])
         else case removeProviderMutation (targetMangaId r (dp_data s)) p of
                Inl msg \<Rightarrow> (s, [q, Failed_Without_Request msg])
              | Inr op \<Rightarrow> (s\<lparr>dp_removing := Some p\<rparr>, [q, Send_Operation op]))"

definition switch_provider ::
    "details_route \<Rightarrow> bool \<Rightarrow> provider_ref \<Rightarrow> details_page \<Rightarrow> details_page \<times> page_output list" where
  "switch_provider r yes p s =
     (let q = Ask (Ask_Switch (binding_label p))
      in if \<not> yes then (s, [q])
         else case switchToMutation (targetMangaId r (dp_data s)) p of
                Inl msg \<Rightarrow> (s, [q, Failed_Without_Request msg])
              | Inr op \<Rightarrow> (s, [q, Send_Operation op]))"

definition remove_answer ::
    "(json \<Rightarrow> string) \<Rightarrow> shown_error option \<Rightarrow> details_page \<Rightarrow> details_page \<times> page_output list" where
  "remove_answer stringify failure s =
     (s\<lparr>dp_removing := None\<rparr>,
      [Show_Notice (case failure of None \<Rightarrow> success_notice ''Provider removed''
                    | Some e \<Rightarrow> op_failure stringify Op_Remove_Provider e)])"

definition add_to_library :: "details_route \<Rightarrow> details_page \<Rightarrow> details_page \<times> page_output list" where
  "add_to_library r s =
     (s\<lparr>dp_adding := True\<rparr>,
      [Send_Operation (addToLibraryMutation (providerIdParam r) (remoteIdParam r) (page_manga r s))])"

definition add_answer ::
    "(json \<Rightarrow> string) \<Rightarrow> shown_error option \<Rightarrow> details_page \<Rightarrow> details_page \<times> page_output list" where
  "add_answer stringify failure s =
     (s\<lparr>dp_adding := False\<rparr>,
      [Show_Notice (case failure of None \<Rightarrow> success_notice ''Series added to library''
                    | Some e \<Rightarrow> op_failure stringify Op_Add e)])"

definition close_dialog :: "page_dialog \<Rightarrow> details_page \<Rightarrow> details_page" where
  "close_dialog d s =
     (case d of
        Edit_Dialog \<Rightarrow> s\<lparr>dp_edit := False\<rparr>
      | Add_Provider_Dialog \<Rightarrow> s\<lparr>dp_addProvider := False\<rparr>
      | Import_Metadata_Dialog \<Rightarrow> s\<lparr>dp_import := False, dp_importProvider := None, dp_importRemote := None\<rparr>
      | Merge_With_Dialog \<Rightarrow> s\<lparr>dp_merge := False\<rparr>)"

definition page_step ::
    "(json \<Rightarrow> string) \<Rightarrow> details_route \<Rightarrow> details_page \<Rightarrow> page_event \<Rightarrow> details_page \<times> page_output list" where
  "page_step stringify r s e =
     (let bar = bar_buttons (dp_adding s) r (dp_data s)
      in case e of
           New_Data d \<Rightarrow> (s\<lparr>dp_data := d\<rparr>, [])
         | Click_Add \<Rightarrow> if Add_To_Library ''Add to Library'' False \<in> set bar then add_to_library r s else (s, [])
         | Add_Answer failure \<Rightarrow> if dp_adding s then add_answer stringify failure s else (s, [])
         | Click_View_In_Library \<Rightarrow>
             (s, concat (map (\<lambda>b. case b of View_In_Library i \<Rightarrow> [Go_Link (Link_Manga i)] | _ \<Rightarrow> []) bar))
         | Click_Cta \<Rightarrow>
             (s, if list_ex (\<lambda>b. case b of Cta_Button _ \<Rightarrow> True | _ \<Rightarrow> False) bar
                 then map Go_To (option_list (handlePrimaryCta r (dp_data s))) else [])
         | Click_Menu item yes \<Rightarrow> if item \<in> set (shown_menu r s) then click_menu r yes item s else (s, [])
         | Delete_Answer succeeded \<Rightarrow>
             if dp_deleting s then (s\<lparr>dp_deleting := False\<rparr>, if succeeded then [Go_Link Link_Library] else []) else (s, [])
         | Toggle_Details \<Rightarrow> (s\<lparr>dp_showDetails := \<not> dp_showDetails s\<rparr>, [])
         | Toggle_Providers \<Rightarrow> (if in_library_page r s then s\<lparr>dp_collapsed := \<not> dp_collapsed s\<rparr> else s, [])
         | Open_Add_Provider \<Rightarrow> (if in_library_page r s then s\<lparr>dp_addProvider := True\<rparr> else s, [])
         | Provider_Import p \<Rightarrow>
             (if row_offers r s p Import_From
              then s\<lparr>dp_importProvider := Some (pr_provider_id p), dp_importRemote := Some (pr_provider_manga_id p),
                     dp_import := True\<rparr>
              else s, [])
         | Provider_Remove p yes \<Rightarrow>
             if row_offers r s p (Remove_Binding False) then remove_provider r yes p s else (s, [])
         | Remove_Answer failure \<Rightarrow> if dp_removing s \<noteq> None then remove_answer stringify failure s else (s, [])
         | Provider_Switch p yes \<Rightarrow> if row_offers r s p Switch_To then switch_provider r yes p s else (s, [])
         | Close_Page_Dialog d \<Rightarrow> (close_dialog d s, []))"

definition initial_page :: "details_data \<Rightarrow> details_page" where
  "initial_page d =
     \<lparr>dp_data = d, dp_edit = False, dp_addProvider = False, dp_import = False, dp_importProvider = None,
      dp_importRemote = None, dp_collapsed = True, dp_merge = False, dp_showDetails = False, dp_adding = False,
      dp_removing = None, dp_deleting = False\<rparr>"

text \<open>The props of the import dialog.\<close>

definition page_import_opts :: "(manga \<Rightarrow> metadata_values) \<Rightarrow> details_page \<Rightarrow> manga \<Rightarrow> import_opts" where
  "page_import_opts values_of s m =
     \<lparr>so_manga = m, so_sources = dd_sources (dp_data s), so_initialProviderId = dp_importProvider s,
      so_initialRemoteId = dp_importRemote s, io_current = values_of m\<rparr>"

section \<open>No request without its conditions\<close>

lemma shown_provider_row:
  assumes "(p, row) \<in> set (shown_providers r s)"
  obtains m where "page_manga r s = Some m" "in_library_page r s" "p \<in> set (bound_providers m)"
    "row = provider_row_of (dd_sources (dp_data s)) (dp_removing s \<noteq> None) (isUnavailable r (dp_data s)) m p"
proof (cases "page_manga r s")
  case (Some m)
  with assms that [OF Some] show thesis by (auto simp: shown_providers_def split: if_splits)
qed (use assms in \<open>simp add: shown_providers_def\<close>)

lemma row_offers_remove:
  assumes "row_offers r s p (Remove_Binding False)"
  obtains m where "page_manga r s = Some m" "in_library_page r s" "p \<in> set (bound_providers m)"
    "canRemoveProvider (dd_sources (dp_data s)) m p" "dp_removing s = None"
proof -
  from assms obtain row where row: "(p, row) \<in> set (shown_providers r s)" "Remove_Binding False \<in> set (pv_menu row)"
    by (auto simp: row_offers_def list_ex_iff)
  from row(1) show thesis
  proof (rule shown_provider_row)
    fix m assume *: "page_manga r s = Some m" "in_library_page r s" "p \<in> set (bound_providers m)"
      "row = provider_row_of (dd_sources (dp_data s)) (dp_removing s \<noteq> None) (isUnavailable r (dp_data s)) m p"
    from row(2) have "canRemoveProvider (dd_sources (dp_data s)) m p \<and> dp_removing s = None"
      unfolding *(4) by (simp add: provider_row_of_def Let_def split: if_splits)
    with * that show thesis by blast
  qed
qed

lemma row_offers_switch:
  assumes "row_offers r s p Switch_To"
  obtains m where "page_manga r s = Some m" "in_library_page r s" "p \<in> set (bound_providers m)"
    "\<not> isActiveContentProvider m p" "has_capability (dd_sources (dp_data s)) ''content'' (pr_provider_id p)"
proof -
  from assms obtain row where row: "(p, row) \<in> set (shown_providers r s)" "Switch_To \<in> set (pv_menu row)"
    by (auto simp: row_offers_def list_ex_iff)
  from row(1) show thesis
  proof (rule shown_provider_row)
    fix m assume *: "page_manga r s = Some m" "in_library_page r s" "p \<in> set (bound_providers m)"
      "row = provider_row_of (dd_sources (dp_data s)) (dp_removing s \<noteq> None) (isUnavailable r (dp_data s)) m p"
    from row(2) have "\<not> isActiveContentProvider m p \<and> has_capability (dd_sources (dp_data s)) ''content'' (pr_provider_id p)"
      unfolding *(4) by (simp add: provider_row_of_def Let_def split: if_splits)
    with * that show thesis by blast
  qed
qed

lemma add_button:
  "Add_To_Library ''Add to Library'' False \<in> set (bar_buttons adding r d) \<longleftrightarrow>
     isRemoteRoute r \<and> \<not> isInLibrary r d \<and> \<not> adding \<and> details_manga r d \<noteq> None \<and> \<not> hasZeroChapters r d \<and> \<not> isUnavailable r d"
  by (auto simp: bar_buttons_def)

lemma menu_shown:
  assumes "item \<in> set (shown_menu r s)"
  shows "in_library_page r s \<and> item \<in> set (bar_menu (dp_adding s) r (dp_data s))"
proof -
  from assms obtain items where items: "Options_Menu items \<in> set (bar_buttons (dp_adding s) r (dp_data s))" "item \<in> set items"
    by (auto simp: shown_menu_def split: bar_button.splits)
  then show ?thesis
    by (auto simp: bar_buttons_def in_library_page_def page_manga_def split: if_splits)
qed

text \<open>
  C6: The details page sends nothing unasked. An operation is sent only in three cases: a provider's manga that is not in the library,
  is loaded and available, has chapters and is not being added already, is added; a provider that is bound to the shown library
  manga, with no removal pending, is removed after the question was answered with yes, and it is not the last binding that can deliver chapters; or
  the content is switched, after the question, to a bound provider that can deliver chapters and is not the active one. The
  only other mutation is the removal of the shown manga from the library, after its question.
\<close>

theorem page_requests_guarded:
  "(Send_Operation op \<in> set (snd (page_step stringify r s e)) \<longrightarrow>
      (e = Click_Add \<and> isRemoteRoute r \<and> \<not> isInLibrary r (dp_data s) \<and> page_manga r s \<noteq> None \<and> \<not> dp_adding s \<and>
         \<not> isUnavailable r (dp_data s) \<and> \<not> hasZeroChapters r (dp_data s) \<and>
         op = addToLibraryMutation (providerIdParam r) (remoteIdParam r) (page_manga r s)) \<or>
      (\<exists>p m. page_manga r s = Some m \<and> in_library_page r s \<and> p \<in> set (bound_providers m) \<and>
         (e = Provider_Remove p True \<and> dp_removing s = None \<and> canRemoveProvider (dd_sources (dp_data s)) m p \<and>
            removeProviderMutation (targetMangaId r (dp_data s)) p = Inr op \<or>
          e = Provider_Switch p True \<and> \<not> isActiveContentProvider m p \<and>
            has_capability (dd_sources (dp_data s)) ''content'' (pr_provider_id p) \<and>
            switchToMutation (targetMangaId r (dp_data s)) p = Inr op))) \<and>
   (Send_Mutation mu \<in> set (snd (page_step stringify r s e)) \<longrightarrow>
      e = Click_Menu Menu_Remove True \<and> in_library_page r s \<and> mu = useDeleteLibraryMangaMutation (targetMangaId r (dp_data s)))"
proof (rule conjI2; intro impI)
  assume op: "Send_Operation op \<in> set (snd (page_step stringify r s e))"
  consider "e = Click_Add" | p yes where "e = Provider_Remove p yes" | p yes where "e = Provider_Switch p yes"
    using op
    by (cases e) (auto simp: page_step_def Let_def click_menu_def remove_answer_def add_answer_def
        split: if_splits bar_menu_item.splits option.splits bar_button.splits)
  then show "(e = Click_Add \<and> isRemoteRoute r \<and> \<not> isInLibrary r (dp_data s) \<and> page_manga r s \<noteq> None \<and> \<not> dp_adding s \<and>
         \<not> isUnavailable r (dp_data s) \<and> \<not> hasZeroChapters r (dp_data s) \<and>
         op = addToLibraryMutation (providerIdParam r) (remoteIdParam r) (page_manga r s)) \<or>
      (\<exists>p m. page_manga r s = Some m \<and> in_library_page r s \<and> p \<in> set (bound_providers m) \<and>
         (e = Provider_Remove p True \<and> dp_removing s = None \<and> canRemoveProvider (dd_sources (dp_data s)) m p \<and>
            removeProviderMutation (targetMangaId r (dp_data s)) p = Inr op \<or>
          e = Provider_Switch p True \<and> \<not> isActiveContentProvider m p \<and>
            has_capability (dd_sources (dp_data s)) ''content'' (pr_provider_id p) \<and>
            switchToMutation (targetMangaId r (dp_data s)) p = Inr op))"
  proof cases
    case 1
    with op show ?thesis
      by (simp add: page_step_def Let_def add_button add_to_library_def page_manga_def split: if_splits)
  next
    case (2 p yes)
    then have "row_offers r s p (Remove_Binding False)" "yes" "removeProviderMutation (targetMangaId r (dp_data s)) p = Inr op"
      using op by (auto simp: page_step_def Let_def remove_provider_def split: if_splits sum.splits)
    with 2 show ?thesis by (metis row_offers_remove)
  next
    case (3 p yes)
    then have "row_offers r s p Switch_To" "yes" "switchToMutation (targetMangaId r (dp_data s)) p = Inr op"
      using op by (auto simp: page_step_def Let_def switch_provider_def split: if_splits sum.splits)
    with 3 show ?thesis by (metis row_offers_switch)
  qed
next
  assume mu: "Send_Mutation mu \<in> set (snd (page_step stringify r s e))"
  then obtain yes where e: "e = Click_Menu Menu_Remove yes" "Menu_Remove \<in> set (shown_menu r s)"
    by (cases e) (auto simp: page_step_def Let_def click_menu_def remove_answer_def add_answer_def add_to_library_def
        remove_provider_def switch_provider_def
        split: if_splits bar_menu_item.splits option.splits bar_button.splits sum.splits)
  with mu have "handleConfirmRemoveFromLibrary yes r (dp_data s) = Some mu"
    by (auto simp: page_step_def Let_def click_menu_def split: option.splits)
  with e menu_shown [OF e(2)] show "e = Click_Menu Menu_Remove True \<and> in_library_page r s \<and>
      mu = useDeleteLibraryMangaMutation (targetMangaId r (dp_data s))"
    by (simp add: handleConfirmRemoveFromLibrary_def split: if_splits)
qed

section \<open>The last provider of chapters\<close>

text \<open>
  The page beside its server: \<open>sv_bindings\<close> are the bindings the server holds, \<open>sv_todo\<close> is the removal it was asked for and has not
  carried out. Data that arrive are those of the server, an answer follows what it reports, and the user asks for the removal of a provider
  only while the page shows the bindings of the server; any other event is one of the page.
\<close>

record served =
  sv_page :: details_page
  sv_bindings :: "provider_ref list"
  sv_todo :: "provider_ref option"

datatype served_event = Page_Event page_event | Server_Removes

definition can_deliver :: "source list \<Rightarrow> provider_ref \<Rightarrow> bool" where
  "can_deliver sources p = has_capability sources ''content'' (pr_provider_id p)"

definition shows_bindings :: "details_route \<Rightarrow> source list \<Rightarrow> provider_ref list \<Rightarrow> details_data \<Rightarrow> bool" where
  "shows_bindings r sources b d =
     (dd_sources d = sources \<and> (case details_manga r d of None \<Rightarrow> True | Some m \<Rightarrow> bound_providers m = b))"

definition prudent :: "details_route \<Rightarrow> source list \<Rightarrow> served \<Rightarrow> page_event \<Rightarrow> bool" where
  "prudent r sources v e =
     (case e of
        New_Data d \<Rightarrow> shows_bindings r sources (sv_bindings v) d
      | Provider_Remove p _ \<Rightarrow> shows_bindings r sources (sv_bindings v) (dp_data (sv_page v))
      | Remove_Answer failure \<Rightarrow> failure = None \<longrightarrow> sv_todo v = None
      | _ \<Rightarrow> True)"

definition served_step ::
    "(json \<Rightarrow> string) \<Rightarrow> details_route \<Rightarrow> source list \<Rightarrow> served \<Rightarrow> served_event \<Rightarrow> served" where
  "served_step stringify r sources v e =
     (case e of
        Server_Removes \<Rightarrow>
          (case sv_todo v of
             Some p \<Rightarrow> v\<lparr>sv_bindings := filter (\<lambda>q. q \<noteq> p) (sv_bindings v), sv_todo := None\<rparr> | None \<Rightarrow> v)
      | Page_Event e' \<Rightarrow>
          if prudent r sources v e' then
            let s' = fst (page_step stringify r (sv_page v) e')
            in v\<lparr>sv_page := s',
                 sv_todo := (if dp_removing s' = None then None
                             else if dp_removing (sv_page v) = None then dp_removing s' else sv_todo v)\<rparr>
          else v)"

definition served_ok :: "source list \<Rightarrow> served \<Rightarrow> bool" where
  "served_ok sources v =
     (dd_sources (dp_data (sv_page v)) = sources \<and> distinct (sv_bindings v) \<and>
      (sv_todo v \<noteq> None \<longrightarrow> dp_removing (sv_page v) \<noteq> None) \<and>
      (\<exists>q \<in> set (sv_bindings v). can_deliver sources q \<and> Some q \<noteq> sv_todo v))"

text \<open>What an event of the page does to the data and to the pending removal.\<close>

lemma step_data: "dp_data (fst (page_step stringify r s e)) = (case e of New_Data d \<Rightarrow> d | _ \<Rightarrow> dp_data s)"
  by (cases e)
    (auto simp: page_step_def Let_def add_to_library_def add_answer_def click_menu_def remove_provider_def remove_answer_def
      switch_provider_def close_dialog_def split: bar_menu_item.split option.split sum.split page_dialog.split)

lemma step_removing:
  assumes "dp_removing (fst (page_step stringify r s e)) = Some p" "dp_removing s = None"
  shows "e = Provider_Remove p True \<and> row_offers r s p (Remove_Binding False)"
  using assms
  by (cases e)
    (auto simp: page_step_def Let_def add_to_library_def add_answer_def click_menu_def remove_provider_def remove_answer_def
      switch_provider_def close_dialog_def
      split: bar_menu_item.splits option.splits sum.splits page_dialog.splits if_splits)

text \<open>A provider that may be removed is not the last one that can deliver chapters.\<close>

lemma another_deliverer:
  assumes "canRemoveProvider sources m p" "distinct (bound_providers m)" "q \<in> set (bound_providers m)" "can_deliver sources q"
  shows "\<exists>q' \<in> set (bound_providers m). can_deliver sources q' \<and> q' \<noteq> p"
proof (cases "can_deliver sources p")
  case True
  let ?cs = "filter (can_deliver sources) (bound_providers m)"
  have "1 < length ?cs"
    using True assms(1) unfolding canRemoveProvider_def can_deliver_def [abs_def] by simp
  moreover have "distinct ?cs" using assms(2) by simp
  ultimately have "1 < card (set ?cs)" by (simp only: distinct_card)
  moreover have "card (set ?cs) \<le> 1" if "set ?cs \<subseteq> {p}" using card_mono [OF _ that] by simp
  ultimately have "\<not> set ?cs \<subseteq> {p}" by linarith
  then show ?thesis by auto
qed (use assms in blast)

lemma served_ok_step:
  assumes ok: "served_ok sources v"
  shows "served_ok sources (served_step stringify r sources v e)"
proof (cases e)
  case Server_Removes
  with ok show ?thesis by (auto simp: served_step_def served_ok_def split: option.split)
next
  case (Page_Event e')
  let ?s = "sv_page v" and ?s' = "fst (page_step stringify r (sv_page v) e')"
  show ?thesis
  proof (cases "prudent r sources v e'")
    case False
    with Page_Event ok show ?thesis by (simp add: served_step_def)
  next
    case True
    have src: "dd_sources (dp_data ?s') = sources"
      using ok True by (auto simp: step_data served_ok_def prudent_def shows_bindings_def split: page_event.splits)
    obtain q where q: "q \<in> set (sv_bindings v)" "can_deliver sources q" "Some q \<noteq> sv_todo v"
      using ok by (auto simp: served_ok_def)
    show ?thesis
    proof (cases "dp_removing ?s = None \<and> dp_removing ?s' \<noteq> None")
      case False
      then show ?thesis
        using Page_Event True ok src q by (auto simp: served_step_def served_ok_def Let_def)
    next
      case new: True
      then obtain p where p: "dp_removing ?s' = Some p" by blast
      from step_removing [OF p] new have e': "e' = Provider_Remove p True" "row_offers r ?s p (Remove_Binding False)" by auto
      from e'(2) obtain m where m: "page_manga r ?s = Some m" "canRemoveProvider (dd_sources (dp_data ?s)) m p"
        by (rule row_offers_remove)
      have b: "bound_providers m = sv_bindings v" "dd_sources (dp_data ?s) = sources"
        using True m(1) unfolding e'(1) by (simp_all add: prudent_def shows_bindings_def page_manga_def)
      have "distinct (sv_bindings v)" using ok by (simp add: served_ok_def)
      with another_deliverer [of sources m p q] m(2) b q
      obtain q' where "q' \<in> set (sv_bindings v)" "can_deliver sources q'" "q' \<noteq> p" by auto
      then show ?thesis using Page_Event True ok src new p by (auto simp: served_step_def served_ok_def Let_def)
    qed
  qed
qed

definition served_init :: "provider_ref list \<Rightarrow> details_data \<Rightarrow> served" where
  "served_init b d = \<lparr>sv_page = initial_page d, sv_bindings = b, sv_todo = None\<rparr>"

interpretation served_machine: machine "served_step stringify r sources" "served_init b d"
  "\<lambda>v. served_ok sources (served_init b d) \<longrightarrow> served_ok sources v" for stringify r sources b d
  by unfold_locales (auto intro: served_ok_step)


text \<open>\<open>provider_of_chapters_kept\<close> for two providers that can deliver chapters, of which one is removed.\<close>

definition chapter_source :: "string \<Rightarrow> source" where
  "chapter_source i = (sample_source i)\<lparr>src_capabilities := Some [''content'']\<rparr>"

definition sample_ref :: "string \<Rightarrow> provider_ref" where
  "sample_ref p = \<lparr>pr_provider_id = p, pr_provider_manga_id = ''x'', pr_manga_title = None\<rparr>"

definition sample_page_route :: details_route where
  "sample_page_route =
     \<lparr>dr_pathname = ''/manga/m'', dr_mangaId = Some ''m'', dr_providerId = None, dr_remoteId = None\<rparr>"

definition bound_manga :: "provider_ref list \<Rightarrow> manga" where
  "bound_manga b = (blank_manga ''m'')\<lparr>m_bindings := Some \<lparr>mb_providers = Some b, mb_content = None\<rparr>\<rparr>"

definition sample_page_data :: "provider_ref list \<Rightarrow> details_data" where
  "sample_page_data b =
     \<lparr>dd_library = [blank_manga ''m''], dd_remote = None, dd_local = Some (bound_manga b), dd_provider = None,
      dd_sources = [chapter_source ''a'', chapter_source ''b''], dd_localChapters = None, dd_remoteChapters = None, dd_jobs = [],
      dd_localLoading = False, dd_remoteLoading = False\<rparr>"


text \<open>
  Without waiting the last provider of chapters can be removed. When the removal of one provider has been answered, and the page
  still shows the bindings as they were before, every other provider whose removal was offered before is still offered, and
  confirming it sends the second removal: a page that shows two providers lets both be removed.
\<close>

theorem stale_list_removes_last:
  assumes "row_offers r s p (Remove_Binding False)" "row_offers r s q (Remove_Binding False)" "targetMangaId r (dp_data s) = t" "t \<noteq> []"
    and "u = run_events (\<lambda>s e. fst (page_step stringify r s e)) s [Provider_Remove p True, Remove_Answer None]"
  shows "(\<exists>op. Send_Operation op \<in> set (snd (page_step stringify r s (Provider_Remove p True))) \<and>
        op_request op = Some (api_removeBinding t (pr_provider_id p) (pr_provider_manga_id p))) \<and>
    (\<exists>op. Send_Operation op \<in> set (snd (page_step stringify r u (Provider_Remove q True))) \<and>
        op_request op = Some (api_removeBinding t (pr_provider_id q) (pr_provider_manga_id q)))"
proof -
  have none: "dp_removing s = None" using assms(1) by (rule row_offers_remove)
  have u: "u = s"
    using assms(1,3,4) none
    by (simp add: assms(5) page_step_def remove_provider_def removeProviderMutation_def with_manga_id_def remove_answer_def)
  show ?thesis
    unfolding u using assms(1-4) by (simp add: page_step_def remove_provider_def removeProviderMutation_def with_manga_id_def)
qed

text \<open>\<open>stale_list_removes_last\<close> for a manga with two providers.\<close>

theorem stale_list_removes_last_witness:
  "\<exists>s u op. map fst (shown_providers sample_page_route s) = [sample_ref ''a'', sample_ref ''b''] \<and>
     u = run_events (\<lambda>s e. fst (page_step (\<lambda>j. []) sample_page_route s e)) s [Provider_Remove (sample_ref ''a'') True, Remove_Answer None] \<and>
     op_request op = Some (api_removeBinding ''m'' ''b'' ''x'') \<and>
     Send_Operation op \<in> set (snd (page_step (\<lambda>j. []) sample_page_route u (Provider_Remove (sample_ref ''b'') True)))"
proof -
  define s where "s = (initial_page (sample_page_data [sample_ref ''a'', sample_ref ''b'']))\<lparr>dp_collapsed := False\<rparr>"
  have a: "row_offers sample_page_route s (sample_ref ''a'') (Remove_Binding False)" unfolding s_def by code_simp
  have b: "row_offers sample_page_route s (sample_ref ''b'') (Remove_Binding False)" unfolding s_def by code_simp
  have l: "map fst (shown_providers sample_page_route s) = [sample_ref ''a'', sample_ref ''b'']" unfolding s_def by code_simp
  have t: "targetMangaId sample_page_route (dp_data s) = ''m''" unfolding s_def by code_simp
  define u where "u = run_events (\<lambda>s e. fst (page_step (\<lambda>j. []) sample_page_route s e)) s
      [Provider_Remove (sample_ref ''a'') True, Remove_Answer None]"
  from stale_list_removes_last [OF a b t _ u_def]
  obtain op where "Send_Operation op \<in> set (snd (page_step (\<lambda>j. []) sample_page_route u (Provider_Remove (sample_ref ''b'') True)))"
    "op_request op = Some (api_removeBinding ''m'' (pr_provider_id (sample_ref ''b'')) (pr_provider_manga_id (sample_ref ''b'')))"
    by blast
  moreover have "pr_provider_id (sample_ref ''b'') = ''b''" "pr_provider_manga_id (sample_ref ''b'') = ''x''"
    by (simp_all add: sample_ref_def)
  ultimately show ?thesis using l u_def by metis
qed

section \<open>Importing from a row\<close>

text \<open>The import dialog when it opens with ids, when the details arrive, and when the import is sent.\<close>

lemma open_with_ids:
  assumes "so_initialProviderId o' = Some p" "so_initialRemoteId o' = Some q" "p \<noteq> []" "q \<noteq> []" "known_source (sopts o') p"
  shows "import_step o' t Open_Dialog =
    (add_pending (Pending_Details p q None)
       (t\<lparr>id_open := True,
          id_search := (id_search t)\<lparr>ms_provider := p, ms_query := start_query (sopts o'), ms_direct := q, ms_results := [],
            ms_loading := True, ms_error := None\<rparr>\<rparr>),
     [Import_Request (api_getProviderMangaDetails_req p q)])"
  using assms
  by (simp add: import_step_def open_dialog_def open_search_def loadMangaDetails_def search_result_def initial_known_def
      search_opts.defs Let_def)

lemma details_arrive:
  assumes "map_of (id_pending t) i = Some (Pending_Details p q fb)" "id_open t"
  shows "let u = fst (import_step o' t (Details_Answer i (Inr x)))
    in import_screen o' u = Compare_Screen \<and> id_remote u = Some x \<and> ms_provider (id_search u) = ms_provider (id_search t) \<and>
       id_importing u = id_importing t"
  using assms
  by (simp add: import_step_def details_loaded_def search_result_def select_remote_def end_pending_def import_screen_def Let_def)

lemma import_sends:
  assumes "import_screen o' u = Compare_Screen" "id_remote u = Some x" "\<not> id_importing u" "ms_provider (id_search u) \<noteq> []"
  obtains rs title where "snd (import_step o' u Press_Import) = [Import_Plan (Plan_Requests rs)]"
    "last rs = api_addBinding (m_id (so_manga o')) (remote_ref (ms_provider (id_search u)) x title) None"
proof -
  obtain rs where rs: "current_plan o' u = Plan_Requests rs"
    using assms by (simp add: current_plan_def import_plan_def Let_def)
  from plan_requests [OF rs [unfolded current_plan_def]] assms(2)
  have "last rs = api_addBinding (m_id (so_manga o')) (remote_ref (ms_provider (id_search u)) x (mv_title (import_incoming o' u))) None"
    by auto
  moreover have "snd (import_step o' u Press_Import) = [Import_Plan (Plan_Requests rs)]"
    using assms rs by (simp add: import_step_def press_import_def)
  ultimately show thesis using that by blast
qed

text \<open>
  Importing from the row of a provider. The menu of the row opens the import dialog on the binding of that row: if its
  provider is installed, the dialog asks it for the very manga that is bound, shows that it is loading, then compares what it
  answers, and the import binds this provider to the manga it answered with. The menu of the bar opens
  the same dialog on the search, and nothing is asked.
\<close>

theorem row_import_asks_own:
  assumes "row_offers r s p Import_From" "page_manga r s = Some m"
    and "pr_provider_id p \<noteq> []" "pr_provider_manga_id p \<noteq> []" "find_source (dd_sources (dp_data s)) (pr_provider_id p) \<noteq> None"
    and "s1 = fst (page_step stringify r s (Provider_Import p))" "o' = page_import_opts values_of s1 m"
    and "t = fst (import_step o' (initial_import o') Open_Dialog)" "u = fst (import_step o' t (Details_Answer (id_next (initial_import o')) (Inr x)))"
  shows "dp_import s1 \<and>
    (snd (import_step o' (initial_import o') Open_Dialog) =
       [Import_Request (api_getProviderMangaDetails_req (pr_provider_id p) (pr_provider_manga_id p))]) \<and>
    (\<exists>name. import_screen o' t = Loading_Screen name) \<and>
    (import_screen o' u = Compare_Screen \<and>
       (\<exists>rs title. snd (import_step o' u Press_Import) = [Import_Plan (Plan_Requests rs)] \<and>
          last rs = api_addBinding (m_id m) (remote_ref (pr_provider_id p) x title) None)) \<and>
    (Menu_Import \<in> set (shown_menu r s) \<longrightarrow>
       (let o'' = page_import_opts values_of (fst (page_step stringify r s (Click_Menu Menu_Import yes))) m
        in snd (import_step o'' (initial_import o'') Open_Dialog) = [] \<and>
           import_screen o'' (fst (import_step o'' (initial_import o'') Open_Dialog)) = Search_Screen))"
proof (rule conjI5)
  have s1: "s1 = s\<lparr>dp_importProvider := Some (pr_provider_id p), dp_importRemote := Some (pr_provider_manga_id p), dp_import := True\<rparr>"
    using assms(1) by (simp add: assms(6) page_step_def)
  then show "dp_import s1" by simp
  have o': "so_initialProviderId o' = Some (pr_provider_id p)" "so_initialRemoteId o' = Some (pr_provider_manga_id p)"
    "so_manga o' = m" "so_sources o' = dd_sources (dp_data s)"
    by (simp_all add: assms(7) page_import_opts_def s1)
  have known: "known_source (sopts o') (pr_provider_id p)"
    using assms(5) o'(4)
    by (auto simp: known_source_def find_source_def find_None_iff list_ex_iff search_opts.defs)
  note opened = open_with_ids [OF o'(1,2) assms(3,4) known, of "initial_import o'"]
  then show "snd (import_step o' (initial_import o') Open_Dialog) =
       [Import_Request (api_getProviderMangaDetails_req (pr_provider_id p) (pr_provider_manga_id p))]" by simp
  show "\<exists>name. import_screen o' t = Loading_Screen name"
    unfolding assms(8) opened by (simp add: import_screen_def add_pending_def initial_import_def)
  have "map_of (id_pending t) (id_next (initial_import o')) = Some (Pending_Details (pr_provider_id p) (pr_provider_manga_id p) None)"
    "id_open t" "\<not> id_importing t" "ms_provider (id_search t) = pr_provider_id p"
    unfolding assms(8) opened by (simp_all add: add_pending_def initial_import_def)
  with details_arrive [of t "id_next (initial_import o')" _ _ _ o' x]
  have u: "import_screen o' u = Compare_Screen" "id_remote u = Some x" "\<not> id_importing u" "ms_provider (id_search u) = pr_provider_id p"
    by (simp_all add: assms(9) Let_def)
  with import_sends [OF u(1-3)] assms(3) o'(3)
  show "import_screen o' u = Compare_Screen \<and>
       (\<exists>rs title. snd (import_step o' u Press_Import) = [Import_Plan (Plan_Requests rs)] \<and>
          last rs = api_addBinding (m_id m) (remote_ref (pr_provider_id p) x title) None)" by metis
next
  show "Menu_Import \<in> set (shown_menu r s) \<longrightarrow>
       (let o'' = page_import_opts values_of (fst (page_step stringify r s (Click_Menu Menu_Import yes))) m
        in snd (import_step o'' (initial_import o'') Open_Dialog) = [] \<and>
           import_screen o'' (fst (import_step o'' (initial_import o'') Open_Dialog)) = Search_Screen)"
    by (simp add: page_step_def click_menu_def Let_def import_step_def open_dialog_def open_search_def search_result_def
        page_import_opts_def initial_import_def import_screen_def search_opts.defs)
qed

text \<open>\<open>row_import_asks_own\<close> for the first of two providers.\<close>

definition sample_open_page :: details_page where
  "sample_open_page = (initial_page (sample_page_data [sample_ref ''a'', sample_ref ''b'']))\<lparr>dp_collapsed := False\<rparr>"

text \<open>\<open>page_requests_guarded\<close> for the removal of the first of two providers.\<close>

theorem page_requests_guarded_witness:
  "\<exists>op p m. Send_Operation op \<in> set (snd (page_step (\<lambda>j. []) sample_page_route sample_open_page (Provider_Remove (sample_ref ''a'') True))) \<and>
     Provider_Remove p True = Provider_Remove (sample_ref ''a'') True \<and>
     page_manga sample_page_route sample_open_page = Some m \<and> canRemoveProvider (dd_sources (dp_data sample_open_page)) m p"
proof -
  let ?e = "Provider_Remove (sample_ref ''a'') True"
  have "list_ex (\<lambda>out. case out of Send_Operation op \<Rightarrow> True | _ \<Rightarrow> False)
      (snd (page_step (\<lambda>j. []) sample_page_route sample_open_page ?e))" by code_simp
  then obtain out where out: "out \<in> set (snd (page_step (\<lambda>j. []) sample_page_route sample_open_page ?e))"
    "case out of Send_Operation op \<Rightarrow> True | _ \<Rightarrow> False" unfolding list_ex_iff by blast
  from out(2) obtain op where "out = Send_Operation op" by (cases out) simp_all
  with out(1) have op: "Send_Operation op \<in> set (snd (page_step (\<lambda>j. []) sample_page_route sample_open_page ?e))" by blast
  from mp [OF conjunct1 [OF page_requests_guarded] op] op show ?thesis by auto
qed

theorem row_import_asks_own_witness:
  "\<exists>o'. so_initialProviderId o' = Some ''a'' \<and>
     snd (import_step o' (initial_import o') Open_Dialog) = [Import_Request (api_getProviderMangaDetails_req ''a'' ''x'')]"
proof -
  let ?r = sample_page_route and ?s = sample_open_page
  have a: "row_offers ?r ?s (sample_ref ''a'') Import_From" by code_simp
  have m: "page_manga ?r ?s = Some (bound_manga [sample_ref ''a'', sample_ref ''b''])"
    by (simp add: page_manga_def details_manga_def sample_open_page_def initial_page_def sample_page_data_def isRemoteRoute_def
        sample_page_route_def js_startsWith_def)
  have i: "pr_provider_id (sample_ref ''a'') = ''a''" "pr_provider_manga_id (sample_ref ''a'') = ''x''" by (simp_all add: sample_ref_def)
  have f: "find_source (dd_sources (dp_data ?s)) ''a'' \<noteq> None" by code_simp
  define o' where "o' = page_import_opts (\<lambda>m. no_values) (fst (page_step (\<lambda>j. []) ?r ?s (Provider_Import (sample_ref ''a''))))
    (bound_manga [sample_ref ''a'', sample_ref ''b''])"
  have "so_initialProviderId o' = Some ''a''"
    using a i by (simp add: o'_def page_import_opts_def page_step_def)
  moreover have "snd (import_step o' (initial_import o') Open_Dialog) = [Import_Request (api_getProviderMangaDetails_req ''a'' ''x'')]"
    using row_import_asks_own [OF a m _ _ _ refl o'_def refl refl] i f by simp
  ultimately show ?thesis by blast
qed

text \<open>
  Details that come late. The details of one row are asked for, the dialog is closed, and it is opened from the row of another
  installed provider; when the first answer arrives before the second, or instead of it, the dialog stops loading and compares the
  manga of the first provider under the name of the second, and its import binds the second provider to it.
\<close>

theorem late_details_bind_other:
  assumes "o1 = (o'\<lparr>so_initialProviderId := Some p, so_initialRemoteId := Some x\<rparr>)"
    and "o2 = (o'\<lparr>so_initialProviderId := Some q, so_initialRemoteId := Some y\<rparr>)"
    and "p \<noteq> []" "x \<noteq> []" "q \<noteq> []" "y \<noteq> []" "known_source (sopts o') p" "known_source (sopts o') q"
    and "t1 = run_events (\<lambda>t e. fst (import_step o1 t e)) (initial_import o1) [Open_Dialog, Close_Dialog]"
    and "t2 = run_events (\<lambda>t e. fst (import_step o2 t e)) t1 [Open_Dialog, Details_Answer (id_next (initial_import o1)) (Inr r)]"
  shows "import_screen o2 t2 = Compare_Screen \<and> id_remote t2 = Some r \<and>
    (\<exists>s. selectedProvider o2 t2 = Some s \<and> src_id s = q) \<and>
    (\<exists>rs title. snd (import_step o2 t2 Press_Import) = [Import_Plan (Plan_Requests rs)] \<and>
       last rs = api_addBinding (m_id (so_manga o')) (remote_ref q r title) None)"
proof -
  have known: "known_source (sopts o1) p" "known_source (sopts o2) q"
    using assms(7,8) by (simp_all add: assms(1,2) known_source_def search_opts.defs)
  have ids: "so_initialProviderId o1 = Some p" "so_initialRemoteId o1 = Some x" "so_initialProviderId o2 = Some q"
    "so_initialRemoteId o2 = Some y" by (simp_all add: assms(1,2))
  note open1 = open_with_ids [OF ids(1,2) assms(3,4) known(1), of "initial_import o1"]
  have close: "fst (import_step o1 t Close_Dialog) = handleClose t" for t by (simp add: import_step_def Let_def)
  have t1: "id_pending t1 = [(0, Pending_Details p x None)]" "\<not> id_importing t1" "id_next t1 = 1"
    using open1 by (simp_all add: assms(9) close handleClose_def resetComparisonState_def update_search_def add_pending_def
        initial_import_def)
  define u where "u = fst (import_step o2 t1 Open_Dialog)"
  have u: "id_pending u = [(0, Pending_Details p x None), (1, Pending_Details q y None)]" "id_open u" "\<not> id_importing u"
    "ms_provider (id_search u) = q"
    unfolding u_def using open_with_ids [OF ids(3,4) assms(5,6) known(2), of t1] t1
    by (simp_all add: add_pending_def)
  have t2: "t2 = fst (import_step o2 u (Details_Answer 0 (Inr r)))"
    by (simp add: assms(10) u_def initial_import_def)
  have c: "import_screen o2 t2 = Compare_Screen" "id_remote t2 = Some r" "ms_provider (id_search t2) = q" "\<not> id_importing t2"
    using details_arrive [of u 0 p x None o2 r] u by (simp_all add: t2 Let_def)
  moreover have "\<exists>s. selectedProvider o2 t2 = Some s \<and> src_id s = q"
  proof (cases "selectedProvider o2 t2")
    case None
    with known(2) c(3) show ?thesis
      by (auto simp: selectedProvider_def find_None_iff known_source_def list_ex_iff search_opts.defs)
  qed (use c(3) in \<open>auto simp: selectedProvider_def find_Some_iff\<close>)
  moreover have "so_manga o2 = so_manga o'" by (simp add: assms(2))
  ultimately show ?thesis using import_sends [OF c(1,2,4)] assms(5) by metis
qed

text \<open>\<open>late_details_bind_other\<close> for the rows of "a" and "b".\<close>

theorem late_details_bind_other_witness:
  "\<exists>o2 t rs title. snd (import_step o2 t Press_Import) = [Import_Plan (Plan_Requests rs)] \<and> id_remote t = Some (blank_manga ''from a'') \<and>
     last rs = api_addBinding ''m'' (remote_ref ''b'' (blank_manga ''from a'') title) None"
proof -
  have k: "known_source (sopts sample_import_opts) ''a''" "known_source (sopts sample_import_opts) ''b''" by code_simp+
  have "m_id (so_manga sample_import_opts) = ''m''" by (simp add: sample_import_opts_def)
  with late_details_bind_other [OF refl refl _ _ _ _ k refl refl, of "''x''" "''y''" "blank_manga ''from a''"]
  show ?thesis by auto
qed

end
