(* ===== verification/User_Metadata.thy ===== *)
theory User_Metadata
  imports Chapter_Operations Library_Filters
begin

text \<open>
  The card of the reader's own data on the details page, \<open>components/details/DetailsUserMetadata.tsx\<close>: status, rating,
  favourite and notes, with \<open>handleUserMetadataChange\<close> (\<open>Chapter_Operations\<close>), and the part of the server's handler that takes
  its requests, \<open>patchLibraryManga\<close> in \<open>internal/api/library_handler.go\<close>.
\<close>

section \<open>The values\<close>

definition STATUS_OPTIONS :: "(string \<times> string) list" where
  "STATUS_OPTIONS =
     [(''reading'', ''Reading''), (''plan_to_read'', ''Plan to Read''), (''completed'', ''Completed''), (''on_hold'', ''On Hold''),
      (''dropped'', ''Dropped''), (''unread'', ''Unread'')]"

definition capitalized :: "string \<Rightarrow> string" where
  "capitalized w = js_upper (take 1 w) @ drop 1 w"

definition formatStatus :: "string option \<Rightarrow> string" where
  "formatStatus status =
     (case status of
        None \<Rightarrow> ''Unread''
      | Some s \<Rightarrow>
          if s = [] then ''Unread''
          else case map_of STATUS_OPTIONS s of
                 Some label \<Rightarrow> label
               | None \<Rightarrow> js_join '' '' (map capitalized (js_split (CHR ''_'') s)))"

definition isFavorite :: "manga \<Rightarrow> bool" where
  "isFavorite m =
     truthy_bool (coalesce [Option.bind (m_user_state m) us_favorite, m_userFavorite m, m_user_favorite m,
       Option.bind (m_meta m) mm_user_favorite])"

definition userStatus :: "manga \<Rightarrow> string" where
  "userStatus m =
     coalesce_or [Option.bind (m_user_state m) us_status, m_userStatus m, m_user_status m,
       Option.bind (m_meta m) mm_user_status] ''reading''"

definition userRating :: "manga \<Rightarrow> rat" where
  "userRating m =
     coalesce_or [Option.bind (m_user_state m) us_rating, m_userRating m, m_user_rating m,
       Option.bind (m_meta m) mm_user_rating] 0"

definition userNotes :: "manga \<Rightarrow> string" where
  "userNotes m =
     coalesce_or [Option.bind (m_user_state m) us_notes, m_userNotes m, m_user_notes m,
       Option.bind (m_meta m) mm_user_notes] []"

section \<open>The card\<close>

text \<open>\<open>um_effect\<close> are the dependencies the effect ran with last.\<close>

record user_card =
  um_manga :: manga
  um_updating :: bool
  um_local :: string
  um_editing :: bool
  um_hover :: "rat option"
  um_effect :: "(string \<times> bool) option"

definition notes_effect :: "user_card \<Rightarrow> user_card" where
  "notes_effect s =
     (let deps = (userNotes (um_manga s), um_editing s)
      in if um_effect s = Some deps then s
         else s\<lparr>um_effect := Some deps, um_local := (if \<not> um_editing s then userNotes (um_manga s) else um_local s)\<rparr>)"

definition starValue :: "nat \<Rightarrow> rat" where
  "starValue idx = of_nat ((idx + 1) * 2)"

definition activeValue :: "user_card \<Rightarrow> rat" where
  "activeValue s = (case um_hover s of Some h \<Rightarrow> h | None \<Rightarrow> userRating (um_manga s))"

text \<open>What is displayed: the status, the rating with its stars, the favourite, the notes or their editor.\<close>

record user_view =
  uv_status :: string
  uv_rating :: string
  uv_clear :: bool
  uv_stars :: "bool list"
  uv_favorite :: string
  uv_edit :: "string option"
  uv_editor :: "string option"
  uv_notes :: string

definition user_view_of :: "user_card \<Rightarrow> user_view" where
  "user_view_of s =
     (let m = um_manga s
      in \<lparr>uv_status = formatStatus (Some (userStatus m)),
          uv_rating = (if activeValue s > 0 then num_str (activeValue s) @ ''/10'' else ''Unrated''),
          uv_clear = (userRating m > 0),
          uv_stars = map (\<lambda>idx. activeValue s \<ge> starValue idx) [0..<5],
          uv_favorite = (if isFavorite m then ''Remove from Favorites'' else ''Add to Favorites''),
          uv_edit = (if um_editing s then None else Some (if userNotes m \<noteq> [] then ''Edit'' else ''+ Add Note'')),
          uv_editor = (if um_editing s then Some (um_local s) else None),
          uv_notes = (if userNotes m \<noteq> [] then userNotes m else ''No notes added yet.'')\<rparr>)"

datatype user_event =
    Card_Data manga
  | Card_Pending bool
  | Choose_Status string
  | Clear_Rating
  | Hover_Star nat
  | Leave_Stars
  | Click_Star nat
  | Click_Favorite
  | Edit_Notes
  | Type_Notes string
  | Cancel_Notes
  | Save_Notes

text \<open>The handlers; the fields are those of \<open>onUpdate\<close>. A control that is disabled while an update is pending does nothing.\<close>

definition user_handler :: "user_card \<Rightarrow> user_event \<Rightarrow> user_card \<times> (string \<times> json) list option" where
  "user_handler s e =
     (let m = um_manga s; free = (\<not> um_updating s)
      in case e of
           Card_Data m' \<Rightarrow> (s\<lparr>um_manga := m'\<rparr>, None)
         | Card_Pending b \<Rightarrow> (s\<lparr>um_updating := b\<rparr>, None)
         | Choose_Status v \<Rightarrow>
             (s, if free \<and> v \<in> set (map fst STATUS_OPTIONS)
                 then Some [(''user_status'', if v \<noteq> [] then JStr v else JUndef)] else None)
         | Clear_Rating \<Rightarrow> (s, if free \<and> userRating m > 0 then Some [(''user_rating'', JNum 0)] else None)
         | Hover_Star idx \<Rightarrow> (if idx < 5 then s\<lparr>um_hover := Some (starValue idx)\<rparr> else s, None)
         | Leave_Stars \<Rightarrow> (s\<lparr>um_hover := None\<rparr>, None)
         | Click_Star idx \<Rightarrow>
             (s, if free \<and> idx < 5
                 then Some [(''user_rating'', JNum (if userRating m = starValue idx then 0 else starValue idx))] else None)
         | Click_Favorite \<Rightarrow> (s, if free then Some [(''user_favorite'', JBool (\<not> isFavorite m))] else None)
         | Edit_Notes \<Rightarrow> (if um_editing s then s else s\<lparr>um_editing := True\<rparr>, None)
         | Type_Notes t \<Rightarrow> (if um_editing s \<and> free then s\<lparr>um_local := t\<rparr> else s, None)
         | Cancel_Notes \<Rightarrow> (if um_editing s \<and> free then s\<lparr>um_local := userNotes m, um_editing := False\<rparr> else s, None)
         | Save_Notes \<Rightarrow>
             if um_editing s \<and> free
             then (s\<lparr>um_editing := False\<rparr>,
                   Some [(''user_notes'', if um_local s \<noteq> [] then JStr (um_local s) else JUndef)])
             else (s, None))"

definition user_step :: "user_card \<Rightarrow> user_event \<Rightarrow> user_card \<times> (string \<times> json) list option" where
  "user_step s e = (notes_effect (fst (user_handler s e)), snd (user_handler s e))"

definition initial_user_card :: "manga \<Rightarrow> bool \<Rightarrow> user_card" where
  "initial_user_card m isUpdating =
     notes_effect \<lparr>um_manga = m, um_updating = isUpdating, um_local = [], um_editing = False, um_hover = None, um_effect = None\<rparr>"

abbreviation user_next :: "user_card \<Rightarrow> user_event \<Rightarrow> user_card" where
  "user_next s e \<equiv> fst (user_step s e)"

section \<open>The server\<close>

text \<open>
  The stored state of the user, without the times, and what \<open>patchLibraryManga\<close> makes of a body without the members
  \<open>metadata\<close>, \<open>user_state\<close> and \<open>bindings\<close>: \<open>None\<close> is the answer 400. A member of another type does not bind, an absent one or \<open>null\<close> is the
  zero value of a string and the nil of a pointer.
\<close>

record server_state =
  ss_status :: string
  ss_rating :: rat
  ss_favorite :: bool
  ss_notes :: string

definition IsValidUserStatus :: "string \<Rightarrow> bool" where
  "IsValidUserStatus s = (s \<in> set [''unread'', ''reading'', ''completed'', ''on_hold'', ''dropped'', ''plan_to_read''])"

definition bind_string :: "json \<Rightarrow> string option" where
  "bind_string j = (case j of JStr s \<Rightarrow> Some s | JUndef \<Rightarrow> Some [] | JNull \<Rightarrow> Some [] | _ \<Rightarrow> None)"

definition bind_float :: "json \<Rightarrow> rat option option" where
  "bind_float j = (case j of JNum q \<Rightarrow> Some (Some q) | JUndef \<Rightarrow> Some None | JNull \<Rightarrow> Some None | _ \<Rightarrow> None)"

definition bind_bool :: "json \<Rightarrow> bool option option" where
  "bind_bool j = (case j of JBool b \<Rightarrow> Some (Some b) | JUndef \<Rightarrow> Some None | JNull \<Rightarrow> Some None | _ \<Rightarrow> None)"

definition patch_state :: "json \<Rightarrow> server_state \<Rightarrow> server_state option" where
  "patch_state body st =
     (case (bind_string (jget body ''user_status''), bind_float (jget body ''user_rating''),
            bind_bool (jget body ''user_favorite''), bind_string (jget body ''user_notes'')) of
        (Some status, Some rating, Some fav, Some notes) \<Rightarrow>
          if status = [] \<and> rating = None \<and> fav = None \<and> notes = [] then Some st
          else
            let st1 = st\<lparr>ss_status := (if status \<noteq> [] then status else ss_status st),
                         ss_rating := (case rating of Some q \<Rightarrow> q | None \<Rightarrow> ss_rating st),
                         ss_favorite := (case fav of Some b \<Rightarrow> b | None \<Rightarrow> ss_favorite st),
                         ss_notes := (if notes \<noteq> [] then notes else ss_notes st)\<rparr>
            in if ss_status st1 \<noteq> [] \<and> \<not> IsValidUserStatus (ss_status st1) then None else Some st1
      | _ \<Rightarrow> None)"

text \<open>The manga as the server answers it: the four members are always there.\<close>

definition blank_user_state :: manga_user_state where
  "blank_user_state =
     \<lparr>us_status = None, us_rating = None, us_favorite = None, us_notes = None, us_last_read_chapter_id = None,
      us_lastReadChapterId = None, us_last_read_at = None, us_lastReadAt = None, us_added_at = None, us_addedAt = None,
      us_updated_at = None, us_updatedAt = None\<rparr>"

definition served_manga :: "server_state \<Rightarrow> manga \<Rightarrow> manga" where
  "served_manga st m =
     m\<lparr>m_user_state := Some ((case m_user_state m of Some u \<Rightarrow> u | None \<Rightarrow> blank_user_state)
         \<lparr>us_status := Some (ss_status st), us_rating := Some (ss_rating st), us_favorite := Some (ss_favorite st),
          us_notes := Some (ss_notes st)\<rparr>)\<rparr>"

lemma served_values [simp]:
  "userStatus (served_manga st m) = ss_status st" "userRating (served_manga st m) = ss_rating st"
  "isFavorite (served_manga st m) = ss_favorite st" "userNotes (served_manga st m) = ss_notes st"
  by (simp_all add: userStatus_def userRating_def isFavorite_def userNotes_def served_manga_def)

section \<open>A click does what it says\<close>

text \<open>What a control is meant to do to the stored state.\<close>

definition intended :: "user_event \<Rightarrow> string \<Rightarrow> server_state \<Rightarrow> server_state" where
  "intended e draft st =
     (case e of
        Choose_Status v \<Rightarrow> st\<lparr>ss_status := v\<rparr>
      | Clear_Rating \<Rightarrow> st\<lparr>ss_rating := 0\<rparr>
      | Click_Star idx \<Rightarrow> st\<lparr>ss_rating := (if ss_rating st = starValue idx then 0 else starValue idx)\<rparr>
      | Click_Favorite \<Rightarrow> st\<lparr>ss_favorite := \<not> ss_favorite st\<rparr>
      | Save_Notes \<Rightarrow> st\<lparr>ss_notes := draft\<rparr>
      | _ \<Rightarrow> st)"

lemma options_valid: "v \<in> set (map fst STATUS_OPTIONS) \<Longrightarrow> IsValidUserStatus v \<and> v \<noteq> []"
  by (auto simp: STATUS_OPTIONS_def IsValidUserStatus_def)

text \<open>The body of a request with one field.\<close>

lemma one_field_body:
  assumes "k \<in> {''user_status'', ''user_rating'', ''user_favorite'', ''user_notes''}"
  shows "rq_body (api_patchLibraryManga i [(k, v)]) = Some (wire (JObj [(k, v)]))"
proof -
  from assms have "k \<noteq> ''userStatus''" "k \<noteq> ''userFavorite''" "k \<noteq> ''isFavorite''" "k \<noteq> ''userRating''" "k \<noteq> ''userNotes''"
    by (elim insertE emptyE; simp)+
  then have "patch_payload [(k, v)] = [(k, v)]" by (simp add: patch_payload_def alias_key_def mhas_def)
  then show ?thesis by (simp add: api_patchLibraryManga_def json_req_def)
qed

lemma user_fields_cases:
  assumes "snd (user_step s e) = Some flds"
  obtains (status) v where "e = Choose_Status v" "v \<in> set (map fst STATUS_OPTIONS)" "flds = [(''user_status'', JStr v)]"
  | (clear) "e = Clear_Rating" "flds = [(''user_rating'', JNum 0)]"
  | (star) idx where "e = Click_Star idx"
      "flds = [(''user_rating'', JNum (if userRating (um_manga s) = starValue idx then 0 else starValue idx))]"
  | (fav) "e = Click_Favorite" "flds = [(''user_favorite'', JBool (\<not> isFavorite (um_manga s)))]"
  | (save) "e = Save_Notes" "flds = [(''user_notes'', if um_local s \<noteq> [] then JStr (um_local s) else JUndef)]"
  using assms options_valid
  by (cases e) (auto simp: user_step_def user_handler_def Let_def split: if_splits)

text \<open>
  C28: The card changes what its control says, end to end. When a control of the card sends something, the request is a PATCH of the
  shown manga, and a server with the state that is shown accepts it and stores what the control says: the chosen status, no
  rating, the clicked star or none when it was the rating already, the other favourite, the text typed if there is any; nothing else
  of the state changes, and the manga it answers with afterwards displays that state.
\<close>

theorem user_card_roundtrip:
  assumes "snd (user_step s e) = Some flds" "i \<noteq> []" "um_manga s = served_manga st m"
    and "ss_status st = [] \<or> IsValidUserStatus (ss_status st)" "e = Save_Notes \<longrightarrow> um_local s \<noteq> []"
  shows "\<exists>mu b. handleUserMetadataChange i flds = Some mu \<and> mu_request mu = api_patchLibraryManga i flds \<and>
    rq_body (mu_request mu) = Some b \<and> patch_state b st = Some (intended e (um_local s) st) \<and>
    (let c = user_next (user_next s e) (Card_Data (served_manga (intended e (um_local s) st) m))
     in userStatus (um_manga c) = ss_status (intended e (um_local s) st) \<and> userRating (um_manga c) = ss_rating (intended e (um_local s) st) \<and>
        isFavorite (um_manga c) = ss_favorite (intended e (um_local s) st) \<and> userNotes (um_manga c) = ss_notes (intended e (um_local s) st))"
proof -
  let ?t = "intended e (um_local s) st"
  have mu: "handleUserMetadataChange i flds = Some (useUpdateLibraryMangaMutation i flds)"
    "mu_request (useUpdateLibraryMangaMutation i flds) = api_patchLibraryManga i flds"
    using assms(2) by (simp_all add: handleUserMetadataChange_def useUpdateLibraryMangaMutation_def)
  have shown: "um_manga (user_next c (Card_Data m')) = m'" for c m'
    by (simp add: user_step_def user_handler_def notes_effect_def Let_def)
  from assms(1) have "\<exists>b. rq_body (api_patchLibraryManga i flds) = Some b \<and> patch_state b st = Some ?t"
  proof (cases rule: user_fields_cases)
    case (status v)
    with options_valid [of v] show ?thesis
      by (simp add: one_field_body patch_state_def jget_def members_def mget_Cons mget_def bind_string_def bind_float_def
          bind_bool_def intended_def)
  next
    case clear
    with assms(4) show ?thesis
      by (simp add: one_field_body patch_state_def jget_def members_def mget_Cons mget_def bind_string_def bind_float_def
          bind_bool_def intended_def)
  next
    case (star idx)
    with assms(3,4) show ?thesis
      by (simp add: one_field_body patch_state_def jget_def members_def mget_Cons mget_def bind_string_def bind_float_def
          bind_bool_def intended_def)
  next
    case fav
    with assms(3,4) show ?thesis
      by (simp add: one_field_body patch_state_def jget_def members_def mget_Cons mget_def bind_string_def bind_float_def
          bind_bool_def intended_def)
  next
    case save
    with assms(4,5) show ?thesis
      by (simp add: one_field_body patch_state_def jget_def members_def mget_Cons mget_def bind_string_def bind_float_def
          bind_bool_def intended_def)
  qed
  with mu shown show ?thesis by (auto simp: Let_def)
qed

text \<open>\<open>user_card_roundtrip\<close> for a click on the fourth star.\<close>

definition sample_state :: server_state where
  "sample_state = \<lparr>ss_status = ''reading'', ss_rating = 6, ss_favorite = False, ss_notes = ''old''\<rparr>"

definition sample_card :: user_card where
  "sample_card = initial_user_card (served_manga sample_state (blank_manga ''m'')) False"

theorem user_card_roundtrip_witness:
  "\<exists>b. rq_body (api_patchLibraryManga ''m'' [(''user_rating'', JNum 8)]) = Some b \<and>
     patch_state b sample_state = Some (sample_state\<lparr>ss_rating := 8\<rparr>)"
proof -
  have card: "um_manga sample_card = served_manga sample_state (blank_manga ''m'')" "\<not> um_updating sample_card"
    by (simp_all add: sample_card_def initial_user_card_def notes_effect_def Let_def)
  have "starValue 3 = 8" by (simp add: starValue_def)
  moreover have "ss_rating sample_state = 6" "ss_status sample_state = ''reading''" by (simp_all add: sample_state_def)
  ultimately have "snd (user_step sample_card (Click_Star 3)) = Some [(''user_rating'', JNum 8)]"
    "intended (Click_Star 3) (um_local sample_card) sample_state = sample_state\<lparr>ss_rating := 8\<rparr>"
    using card by (simp_all add: user_step_def user_handler_def intended_def)
  moreover have "IsValidUserStatus (ss_status sample_state)" by code_simp
  ultimately show ?thesis
    using user_card_roundtrip [of sample_card "Click_Star 3" "[(''user_rating'', JNum 8)]" "''m''" sample_state "blank_manga ''m''"] card
    by (auto simp: handleUserMetadataChange_def useUpdateLibraryMangaMutation_def)
qed

section \<open>Notes\<close>

text \<open>What is typed changes by typing only while the editor is open; otherwise the draft is what is stored.\<close>

definition notes_inv :: "user_card \<Rightarrow> bool" where
  "notes_inv s =
     (um_effect s = Some (userNotes (um_manga s), um_editing s) \<and> (\<not> um_editing s \<longrightarrow> um_local s = userNotes (um_manga s)))"

lemma notes_effect_inv:
  "(um_effect s = Some (userNotes (um_manga s), um_editing s) \<Longrightarrow> \<not> um_editing s \<Longrightarrow> um_local s = userNotes (um_manga s)) \<Longrightarrow>
   notes_inv (notes_effect s)"
  by (simp add: notes_inv_def notes_effect_def Let_def)

lemma user_step_inv: "notes_inv s \<Longrightarrow> notes_inv (user_next s e)"
  unfolding user_step_def fst_conv
  by (rule notes_effect_inv)
    (cases e; auto simp: user_handler_def Let_def notes_inv_def split: if_splits)

lemma initial_user_inv: "notes_inv (initial_user_card m b)"
  unfolding initial_user_card_def by (rule notes_effect_inv) simp

interpretation user_machine: machine user_next "initial_user_card m b" notes_inv for m b
  by unfold_locales (rule initial_user_inv, rule user_step_inv)

lemma editing_step:
  assumes "notes_inv s" "um_editing s" "\<forall>t. e \<noteq> Type_Notes t" "e \<noteq> Cancel_Notes" "e \<noteq> Save_Notes"
  shows "um_editing (user_next s e) \<and> um_local (user_next s e) = um_local s"
  using assms
  by (cases e) (auto simp: user_step_def user_handler_def notes_effect_def Let_def)

lemma editing_run:
  assumes "notes_inv s" "um_editing s" "\<forall>e \<in> set es. (\<forall>t. e \<noteq> Type_Notes t) \<and> e \<noteq> Cancel_Notes \<and> e \<noteq> Save_Notes"
  shows "um_editing (run_events user_next s es) \<and> um_local (run_events user_next s es) = um_local s"
  using assms
proof (induction es arbitrary: s)
  case (Cons e es)
  have "um_editing (user_next s e) \<and> um_local (user_next s e) = um_local s"
    using Cons.prems by (intro editing_step) auto
  then show ?case using Cons.IH [of "user_next s e"] Cons.prems user_step_inv by simp
qed simp

text \<open>
  C29: A draft is safe. In every state the card can reach, when the editor is closed the draft is the stored text, so
  that the editor opens on it; while it is open the draft stays as it was typed whatever arrives and whatever else is
  clicked; cancelling gives the stored text back and sends nothing; and saving sends the draft, once.
\<close>

theorem draft_is_safe:
  assumes "s = run_events user_next (initial_user_card m b) es0"
  shows "(\<not> um_editing s \<longrightarrow> um_local s = userNotes (um_manga s) \<and> uv_editor (user_view_of (user_next s Edit_Notes)) = Some (userNotes (um_manga s))) \<and>
    (um_editing s \<and> (\<forall>e \<in> set es. (\<forall>t. e \<noteq> Type_Notes t) \<and> e \<noteq> Cancel_Notes \<and> e \<noteq> Save_Notes) \<longrightarrow>
       uv_editor (user_view_of (run_events user_next s es)) = Some (um_local s)) \<and>
    (\<not> um_updating s \<longrightarrow> um_local (user_next s Cancel_Notes) = userNotes (um_manga s) \<and> snd (user_step s Cancel_Notes) = None \<or> \<not> um_editing s) \<and>
    (um_editing s \<and> \<not> um_updating s \<and> um_local s \<noteq> [] \<longrightarrow>
       snd (user_step s Save_Notes) = Some [(''user_notes'', JStr (um_local s))] \<and> snd (user_step (user_next s Save_Notes) Save_Notes) = None)"
proof (rule conjI4; (intro impI)?)
  have inv: "notes_inv s" unfolding assms by (rule user_machine.inv_run)
  show "um_local s = userNotes (um_manga s) \<and> uv_editor (user_view_of (user_next s Edit_Notes)) = Some (userNotes (um_manga s))"
    if "\<not> um_editing s"
    using inv that by (simp add: notes_inv_def user_step_def user_handler_def notes_effect_def user_view_of_def Let_def)
  show "uv_editor (user_view_of (run_events user_next s es)) = Some (um_local s)"
    if "um_editing s \<and> (\<forall>e \<in> set es. (\<forall>t. e \<noteq> Type_Notes t) \<and> e \<noteq> Cancel_Notes \<and> e \<noteq> Save_Notes)"
    using editing_run [OF inv] that by (simp add: user_view_of_def Let_def)
  show "um_local (user_next s Cancel_Notes) = userNotes (um_manga s) \<and> snd (user_step s Cancel_Notes) = None \<or> \<not> um_editing s"
    if "\<not> um_updating s"
    using that by (auto simp: user_step_def user_handler_def notes_effect_def Let_def)
  show "snd (user_step s Save_Notes) = Some [(''user_notes'', JStr (um_local s))] \<and> snd (user_step (user_next s Save_Notes) Save_Notes) = None"
    if "um_editing s \<and> \<not> um_updating s \<and> um_local s \<noteq> []"
    using that by (simp add: user_step_def user_handler_def notes_effect_def Let_def)
qed

text \<open>\<open>draft_is_safe\<close> for new data while a note is being typed.\<close>

theorem draft_is_safe_witness:
  "uv_editor (user_view_of (run_events user_next sample_card
      [Edit_Notes, Type_Notes ''new'', Card_Data (served_manga (sample_state\<lparr>ss_notes := ''other''\<rparr>) (blank_manga ''m''))])) = Some ''new''"
proof -
  define s where "s = run_events user_next sample_card [Edit_Notes, Type_Notes ''new'']"
  have "um_editing s" "um_local s = ''new''" unfolding s_def by code_simp+
  with draft_is_safe [OF s_def [unfolded sample_card_def],
      of "[Card_Data (served_manga (sample_state\<lparr>ss_notes := ''other''\<rparr>) (blank_manga ''m''))]"]
  show ?thesis by (simp add: s_def)
qed

text \<open>
  Notes cannot be cleared. Saving an empty note sends a request without any member: the server accepts it and changes
  nothing, so that the note is shown again.
\<close>

theorem notes_not_cleared:
  assumes "um_editing s" "\<not> um_updating s" "um_local s = []" "i \<noteq> []" "um_manga s = served_manga st m"
  shows "\<exists>flds. snd (user_step s Save_Notes) = Some flds \<and> rq_body (api_patchLibraryManga i flds) = Some (JObj []) \<and>
    patch_state (JObj []) st = Some st \<and>
    uv_notes (user_view_of (user_next (user_next s Save_Notes) (Card_Data (served_manga st m)))) = uv_notes (user_view_of s)"
  using assms
  by (simp add: user_step_def user_handler_def one_field_body patch_state_def jget_def members_def mget_def bind_string_def
      bind_float_def bind_bool_def notes_effect_def user_view_of_def Let_def)

text \<open>\<open>notes_not_cleared\<close> for the note "old".\<close>

theorem notes_not_cleared_witness:
  "\<exists>s. um_local s = [] \<and> uv_notes (user_view_of (user_next (user_next s Save_Notes)
      (Card_Data (served_manga sample_state (blank_manga ''m''))))) = ''old''"
proof -
  define s where "s = run_events user_next sample_card [Edit_Notes, Type_Notes []]"
  have "um_editing s" "\<not> um_updating s" "um_local s = []" "uv_notes (user_view_of s) = ''old''" unfolding s_def by code_simp+
  moreover have "um_manga s = served_manga sample_state (blank_manga ''m'')"
    by (simp add: s_def sample_card_def initial_user_card_def user_step_def user_handler_def notes_effect_def Let_def)
  ultimately show ?thesis using notes_not_cleared [of s "''m''" sample_state "blank_manga ''m''"] by auto
qed

text \<open>
  A manga without a status has three: the card shows "Reading", the library counts it as unread, and with a state
  whose status is empty the card shows "Unread".
\<close>

lemma status_defaults_differ:
  "m_user_state m = None \<Longrightarrow> m_userStatus m = None \<Longrightarrow> m_user_status m = None \<Longrightarrow> Option.bind (m_meta m) mm_user_status = None \<Longrightarrow>
   formatStatus (Some (userStatus m)) = ''Reading'' \<and> manga_status m = ''unread'' \<and>
   formatStatus (Some (userStatus (served_manga (st\<lparr>ss_status := []\<rparr>) m))) = ''Unread''"
  by (simp add: manga_status_def userStatus_def formatStatus_def STATUS_OPTIONS_def served_manga_def)

text \<open>The stars that are filled: as many as two points each fit into the rating.\<close>

lemma filled_stars: "idx < 5 \<Longrightarrow> uv_stars (user_view_of s) ! idx \<longleftrightarrow> 2 * (of_nat idx + 1) \<le> activeValue s"
  by (simp add: user_view_of_def Let_def starValue_def algebra_simps)

end
