(* ===== verification/Manga_Pages.thy ===== *)
theory Manga_Pages
  imports Details_Page User_Metadata Chapter_Row Routing
begin

text \<open>
  The pages that list manga: \<open>routes/LibraryPage.tsx\<close> with its filters (\<open>components/library\<close>, \<open>components/LibraryShelfFilters.tsx\<close>)
  and cards (\<open>components/LibraryMangaCard.tsx\<close>), and the list of \<open>routes/ExplorePage.tsx\<close> with \<open>components/MangaCard.tsx\<close>.
\<close>

section \<open>The card of the library\<close>

definition authorDisplay :: "manga \<Rightarrow> string" where
  "authorDisplay m =
     js_join '', '' (take 2
       (coalesce_or [Option.bind (m_metadata m) md_authors, m_authors m]
          (if truthy_str (m_author m) then [the (m_author m)] else [])))"

definition card_status :: "manga \<Rightarrow> string option" where
  "card_status m =
     coalesce [Option.bind (m_user_state m) us_status, m_userStatus m, m_user_status m, Option.bind (m_meta m) mm_user_status]"

definition card_rating :: "manga \<Rightarrow> rat option" where
  "card_rating m =
     coalesce [Option.bind (m_user_state m) us_rating, m_userRating m, m_user_rating m, Option.bind (m_meta m) mm_user_rating]"

definition card_provider :: "manga \<Rightarrow> string option" where
  "card_provider m =
     coalesce [map_option cs_provider_id (Option.bind (m_bindings m) mb_content), m_sourceId m, m_contentProviderId m,
       map_option cs_provider_id (Option.bind (m_meta m) mm_content)]"

definition card_title :: "manga \<Rightarrow> string option" where
  "card_title m = coalesce [Option.bind (m_metadata m) md_title, m_title m]"

text \<open>The badge at the bottom of the cover.\<close>

datatype cover_badge = Completed_Badge | Unread_Badge nat

definition hasBadgeSection :: "nat option \<Rightarrow> manga_chapter list \<Rightarrow> manga \<Rightarrow> bool" where
  "hasBadgeSection unreadCountProp chapters m =
     (case unreadCountProp of
        Some n \<Rightarrow> n > 0 \<or> card_status m = Some ''completed''
      | None \<Rightarrow> length chapters > 0)"

definition card_badge :: "nat option \<Rightarrow> manga_chapter list \<Rightarrow> manga \<Rightarrow> cover_badge option" where
  "card_badge unreadCountProp chapters m =
     (if \<not> hasBadgeSection unreadCountProp chapters m then None
      else if card_status m = Some ''completed'' then Some Completed_Badge
      else if card_unreadCount unreadCountProp chapters > 0 then Some (Unread_Badge (card_unreadCount unreadCountProp chapters))
      else None)"

record library_card =
  lc_id :: string
  lc_cover :: "string option \<times> string option"
  lc_title :: "string option"
  lc_provider :: "string option"
  lc_badge :: "cover_badge option"
  lc_heart :: bool
  lc_authors :: "string option"
  lc_status :: "string option"
  lc_rating :: "rat option"
  lc_shelf :: "string option"

definition library_card_of :: "nat option \<Rightarrow> manga_chapter list \<Rightarrow> manga \<Rightarrow> library_card" where
  "library_card_of unreadCountProp chapters m =
     \<lparr>lc_id = m_id m, lc_cover = library_cover m, lc_title = card_title m,
      lc_provider = (if truthy_str (card_provider m) then card_provider m else None),
      lc_badge = card_badge unreadCountProp chapters m, lc_heart = isFavorite m,
      lc_authors = some_nonempty (authorDisplay m),
      lc_status =
        (if truthy_str (card_status m)
         then map_option (map (\<lambda>c. if c = CHR ''_'' then CHR '' '' else c)) (card_status m) else None),
      lc_rating = (case card_rating m of Some q \<Rightarrow> if q > 0 then Some q else None | None \<Rightarrow> None),
      lc_shelf = (case m_shelves m of Some (s # _) \<Rightarrow> Some s | _ \<Rightarrow> None)\<rparr>"

section \<open>The filters of the library\<close>

definition count_or_zero :: "counts \<Rightarrow> shelf_item \<Rightarrow> nat" where
  "count_or_zero cs s = (case cs (sh_id s) of Some n \<Rightarrow> n | None \<Rightarrow> 0)"

text \<open>\<open>LibraryShelfFilters\<close>: the tabs that are shown, with their numbers, and the button that shows the empty ones.\<close>

definition hasEmptyFilters :: "counts \<Rightarrow> shelf_item list \<Rightarrow> bool" where
  "hasEmptyFilters cs shelves = list_ex (\<lambda>s. sh_id s \<noteq> ''all'' \<and> count_or_zero cs s = 0) shelves"

definition visibleShelves :: "bool \<Rightarrow> counts \<Rightarrow> string \<Rightarrow> shelf_item list \<Rightarrow> shelf_item list" where
  "visibleShelves showEmptyFilters cs activeShelf shelves =
     filter (\<lambda>s. sh_id s = ''all'' \<or> showEmptyFilters \<or> count_or_zero cs s > 0 \<or> sh_id s = activeShelf) shelves"

definition shelf_tabs :: "bool \<Rightarrow> counts \<Rightarrow> string \<Rightarrow> shelf_item list \<Rightarrow> (string \<times> string \<times> nat option) list" where
  "shelf_tabs showEmptyFilters cs activeShelf shelves =
     map (\<lambda>s. (sh_id s, sh_label s, if count_or_zero cs s > 0 then Some (count_or_zero cs s) else None))
       (visibleShelves showEmptyFilters cs activeShelf shelves)"

definition LIBRARY_SORT_OPTIONS :: "(string \<times> string) list" where
  "LIBRARY_SORT_OPTIONS =
     [(''title_asc'', ''Title (A to Z)''), (''title_desc'', ''Title (Z to A)''), (''rating_desc'', ''Rating (Highest)''),
      (''rating_asc'', ''Rating (Lowest)''), (''added_desc'', ''Recently Added''), (''updated_desc'', ''Recently Updated'')]"

definition sort_label :: "string \<Rightarrow> string" where
  "sort_label sortBy = str_or [map_of LIBRARY_SORT_OPTIONS sortBy] sortBy"

text \<open>The tags to choose from: the select of the desktop has a value for "all" among the tags, the sheet a button of its own.\<close>

definition desktop_tag :: "string \<Rightarrow> string" where
  "desktop_tag val = (if val = [] \<or> val = ''all_tags'' then [] else val)"

definition desktop_tag_values :: "string list \<Rightarrow> string list" where
  "desktop_tag_values tags = (if tags \<noteq> [] then ''all_tags'' # tags else [])"

definition sheet_shelves :: "counts \<Rightarrow> string \<Rightarrow> shelf_item list \<Rightarrow> (string \<times> string \<times> nat \<times> bool) list" where
  "sheet_shelves cs activeShelf shelves =
     map (\<lambda>s. (sh_id s, sh_label s, count_or_zero cs s, activeShelf = sh_id s)) shelves"

section \<open>The library page\<close>

record library_page =
  lp_manga :: "manga list"
  lp_loading :: bool
  lp_filters :: library_filters
  lp_showEmpty :: bool
  lp_deletion :: bool

datatype library_body =
    Library_Skeletons nat
  | Library_Notice string string
  | Library_Cards "manga list"

definition library_body_of ::
    "(string \<Rightarrow> string \<Rightarrow> rat) \<Rightarrow> (string \<Rightarrow> rat) \<Rightarrow> library_page \<Rightarrow> library_body" where
  "library_body_of collate time s =
     (let shown = shown_manga collate time (lp_manga s) (lp_filters s)
      in if lp_loading s then Library_Skeletons 8
         else if shown = [] then
           (if lp_manga s = [] then Library_Notice ''Your library is empty'' ''Start Exploring''
            else Library_Notice ''No matching manga found'' ''Clear Filters'')
         else Library_Cards shown)"

datatype library_event =
    Library_Arrives "manga list"
  | Select_Tab string
  | Select_Sheet_Shelf string
  | Choose_Sort string
  | Choose_Desktop_Tag string
  | Choose_Sheet_Tag string
  | Clear_Tag
  | Type_Filter string
  | Toggle_Empty_Shelves
  | Press_Clear_Filters
  | Delete_Card string bool
  | Deletion_Answer

datatype library_output = Delete_Manga mutation | Ask_Delete string

definition update_filters :: "(library_filters \<Rightarrow> library_filters) \<Rightarrow> library_page \<Rightarrow> library_page" where
  "update_filters f s = s\<lparr>lp_filters := f (lp_filters s)\<rparr>"

text \<open>A click acts on what is there.\<close>

definition library_step ::
    "(string \<Rightarrow> string \<Rightarrow> rat) \<Rightarrow> (string \<Rightarrow> rat) \<Rightarrow> library_page \<Rightarrow> library_event \<Rightarrow> library_page \<times> library_output list" where
  "library_step collate time s e =
     (let f = lp_filters s; shelves = allShelves (lp_manga s); cs = counts (lp_manga s); tags = allTags (lp_manga s)
      in case e of
           Library_Arrives ms \<Rightarrow> (s\<lparr>lp_manga := ms, lp_loading := False\<rparr>, [])
         | Select_Tab i \<Rightarrow>
             (if lp_manga s \<noteq> [] \<and> i \<in> set (map fst (shelf_tabs (lp_showEmpty s) cs (lf_activeShelf f) shelves))
              then update_filters (\<lambda>f. f\<lparr>lf_activeShelf := i\<rparr>) s else s, [])
         | Select_Sheet_Shelf i \<Rightarrow>
             (if lp_manga s \<noteq> [] \<and> i \<in> set (map fst (sheet_shelves cs (lf_activeShelf f) shelves))
              then update_filters (\<lambda>f. f\<lparr>lf_activeShelf := i\<rparr>) s else s, [])
         | Choose_Sort v \<Rightarrow>
             (if v \<in> set (map fst LIBRARY_SORT_OPTIONS) then update_filters (\<lambda>f. f\<lparr>lf_sortBy := v\<rparr>) s else s, [])
         | Choose_Desktop_Tag v \<Rightarrow>
             (if v \<in> set (desktop_tag_values tags) then update_filters (\<lambda>f. f\<lparr>lf_selectedTag := desktop_tag v\<rparr>) s else s, [])
         | Choose_Sheet_Tag v \<Rightarrow>
             (if tags \<noteq> [] \<and> (v = [] \<or> v \<in> set tags) then update_filters (\<lambda>f. f\<lparr>lf_selectedTag := v\<rparr>) s else s, [])
         | Clear_Tag \<Rightarrow>
             (if lf_selectedTag f \<noteq> [] then update_filters (\<lambda>f. f\<lparr>lf_selectedTag := []\<rparr>) s else s, [])
         | Type_Filter t \<Rightarrow> (update_filters (\<lambda>f. f\<lparr>lf_filterSearch := t\<rparr>) s, [])
         | Toggle_Empty_Shelves \<Rightarrow>
             (if lp_manga s \<noteq> [] \<and> hasEmptyFilters cs shelves then s\<lparr>lp_showEmpty := \<not> lp_showEmpty s\<rparr> else s, [])
         | Press_Clear_Filters \<Rightarrow>
             (if library_body_of collate time s = Library_Notice ''No matching manga found'' ''Clear Filters''
              then update_filters clearFilters s else s, [])
         | Delete_Card i yes \<Rightarrow>
             (case library_body_of collate time s of
                Library_Cards ms \<Rightarrow>
                  (case List.find (\<lambda>m. m_id m = i) ms of
                     Some m \<Rightarrow>
                       if lp_deletion s then (s, [])
                       else if yes
                       then (s\<lparr>lp_deletion := True\<rparr>,
                             [Ask_Delete (coalesce_or [card_title m] ''undefined''), Delete_Manga (useDeleteLibraryMangaMutation i)])
                       else (s, [Ask_Delete (coalesce_or [card_title m] ''undefined'')])
                   | None \<Rightarrow> (s, []))
              | _ \<Rightarrow> (s, []))
         | Deletion_Answer \<Rightarrow> (s\<lparr>lp_deletion := False\<rparr>, []))"

definition initial_library_page :: library_page where
  "initial_library_page =
     \<lparr>lp_manga = [], lp_loading = True, lp_filters = initial_library_filters None None None None, lp_showEmpty = False,
      lp_deletion = False\<rparr>"

section \<open>The card of a provider's manga\<close>

definition mc_providerId :: "manga \<Rightarrow> string" where
  "mc_providerId m = str_or [m_sourceId m, m_contentProviderId m] []"

definition mc_remoteId :: "manga \<Rightarrow> string" where
  "mc_remoteId m = str_or [m_contentRemoteId m, Some (m_id m)] []"

datatype card_link = To_Provider_Manga string string | To_Library_Manga string

definition card_link_of :: "manga \<Rightarrow> card_link" where
  "card_link_of m =
     (if (truthy_str (m_sourceId m) \<or> truthy_str (m_contentProviderId m)) \<and> mc_providerId m \<noteq> [] \<and> mc_remoteId m \<noteq> []
      then To_Provider_Manga (mc_providerId m) (mc_remoteId m)
      else To_Library_Manga (m_id m))"

record manga_card =
  ka_link :: card_link
  ka_cover :: "string option \<times> string option"
  ka_provider :: "string option"
  ka_unavailable :: bool
  ka_status :: "(string \<times> bool) option"
  ka_title :: "string option"
  ka_authors :: "string option"

text \<open>The status comes with whether it is highlighted, as an ongoing one is.\<close>

definition manga_card_of :: "manga \<Rightarrow> manga_card" where
  "manga_card_of m =
     \<lparr>ka_link = card_link_of m, ka_cover = explore_cover m,
      ka_provider = (case card_link_of m of To_Provider_Manga p _ \<Rightarrow> Some p | _ \<Rightarrow> None),
      ka_unavailable = (m_availability m = Some Unavailable),
      ka_status =
        (case m_status m of Some st \<Rightarrow> if st \<noteq> [] then Some (st, js_lower st = ''ongoing'') else None | None \<Rightarrow> None),
      ka_title = m_title m,
      ka_authors =
        (if truthy_str (m_author m) then m_author m
         else case m_authors m of Some (a # as) \<Rightarrow> Some (js_join '', '' (a # as)) | _ \<Rightarrow> None)\<rparr>"

text \<open>The list of the explore page: every manga counts as one of the active provider.\<close>

datatype catalog_body = Catalog_Skeletons nat | Catalog_Error | Catalog_Empty | Catalog_Cards "manga_card list"

definition activeProviderId :: "string \<Rightarrow> source list \<Rightarrow> string" where
  "activeProviderId providerId sources =
     str_or [Some providerId, (case sources of s # _ \<Rightarrow> Some (src_id s) | [] \<Rightarrow> None)] []"

definition catalog_body_of :: "string \<Rightarrow> bool \<Rightarrow> bool \<Rightarrow> manga list option \<Rightarrow> catalog_body" where
  "catalog_body_of provider isLoading isError data =
     (let mangas = coalesce_or [data] []
      in if isLoading then Catalog_Skeletons 12
         else if isError then Catalog_Error
         else if mangas = [] then Catalog_Empty
         else Catalog_Cards (map (\<lambda>m. manga_card_of (m\<lparr>m_sourceId := Some provider\<rparr>)) mangas))"

definition source_label :: "source \<Rightarrow> string" where
  "source_label s =
     src_name s @ '' '' @
     (let lang = str_or [src_language s, src_lang s] [] in if lang \<noteq> [] then ''('' @ lang @ '')'' else [])"

text \<open>The route a card leads to; \<open>enc\<close> is the encoding of the router.\<close>

definition library_card_route :: "(string \<Rightarrow> string) \<Rightarrow> library_card \<Rightarrow> details_route" where
  "library_card_route enc c =
     \<lparr>dr_pathname = ''/manga/'' @ enc (lc_id c), dr_mangaId = Some (lc_id c), dr_providerId = None, dr_remoteId = None\<rparr>"

definition card_route :: "(string \<Rightarrow> string) \<Rightarrow> card_link \<Rightarrow> details_route" where
  "card_route enc l =
     (case l of
        To_Provider_Manga p q \<Rightarrow>
          \<lparr>dr_pathname = ''/providers/'' @ enc p @ ''/manga/'' @ enc q, dr_mangaId = None, dr_providerId = Some p,
           dr_remoteId = Some q\<rparr>
      | To_Library_Manga i \<Rightarrow>
          \<lparr>dr_pathname = ''/manga/'' @ enc i, dr_mangaId = Some i, dr_providerId = None, dr_remoteId = None\<rparr>)"

section \<open>Shelves, numbers and the list\<close>

lemma count_or_zero_count_of: "count_or_zero cs sh = count_of cs (sh_id sh)"
  by (simp add: count_or_zero_def count_of_def)

lemma body_of_shelf:
  assumes "\<not> lp_loading s" "lp_manga s = lib" "lib \<noteq> []" "lp_filters s = f" "lf_selectedTag f = []" "lf_filterSearch f = []"
  shows "library_body_of collate time s =
    (let ms = filteredManga collate time lib (lf_activeShelf f) [] [] (lf_sortBy f)
     in if ms = [] then Library_Notice ''No matching manga found'' ''Clear Filters'' else Library_Cards ms)"
  using assms by (simp add: library_body_of_def shown_manga_def Let_def)

text \<open>
  C33: The tabs of the library say what is behind them. With no tag and no search text, selecting a tab that shows a number shows
  that many cards; selecting one without a number says that nothing matches; and a shelf whose tab the bar leaves out has no
  manga. This needs of the library that no manga names a shelf twice and no status is one of the reserved names.
\<close>

theorem tabs_say_what_is_behind:
  assumes "\<forall>m \<in> set lib. distinct (manga_shelves m) \<and> manga_status m \<notin> {''all'', ''favorites''} \<and>
      \<not> prefix ''custom:'' (manga_status m)"
    and "\<not> lp_loading s" "lp_manga s = lib" "lib \<noteq> []" "lf_selectedTag (lp_filters s) = []" "lf_filterSearch (lp_filters s) = []"
    and "tabs = shelf_tabs (lp_showEmpty s) (counts lib) (lf_activeShelf (lp_filters s)) (allShelves lib)"
  shows "(\<forall>i l n. (i, l, Some n) \<in> set tabs \<longrightarrow>
      (\<exists>ms. library_body_of collate time (fst (library_step collate time s (Select_Tab i))) = Library_Cards ms \<and> length ms = n)) \<and>
    (\<forall>i l. (i, l, None) \<in> set tabs \<longrightarrow>
      library_body_of collate time (fst (library_step collate time s (Select_Tab i))) =
        Library_Notice ''No matching manga found'' ''Clear Filters'') \<and>
    (\<forall>sh \<in> set (allShelves lib). sh_id sh \<notin> fst ` set tabs \<longrightarrow> filteredManga collate time lib (sh_id sh) [] [] sortBy = [])"
proof (rule conjI3; (intro allI ballI impI)?)
  note count = counts_are_lengths [OF assms(1), of _ collate time]
  have tab: "\<exists>sh \<in> set (allShelves lib). i = sh_id sh \<and>
      k = (if count_of (counts lib) i > 0 then Some (count_of (counts lib) i) else None)"
    if "(i, l, k) \<in> set tabs" for i l k
    using that by (auto simp: assms(7) shelf_tabs_def visibleShelves_def count_or_zero_count_of)
  have select: "library_body_of collate time (fst (library_step collate time s (Select_Tab i))) =
      (let ms = filteredManga collate time lib i [] [] (lf_sortBy (lp_filters s))
       in if ms = [] then Library_Notice ''No matching manga found'' ''Clear Filters'' else Library_Cards ms)"
    if "(i, l, k) \<in> set tabs" for i l k
  proof -
    have "i \<in> set (map fst tabs)" using that by force
    then have "fst (library_step collate time s (Select_Tab i)) = update_filters (\<lambda>f. f\<lparr>lf_activeShelf := i\<rparr>) s"
      using assms(3,4) by (simp add: library_step_def assms(7))
    then show ?thesis
      using body_of_shelf [of "update_filters (\<lambda>f. f\<lparr>lf_activeShelf := i\<rparr>) s" lib _ collate time] assms(2-6)
      by (simp add: update_filters_def)
  qed
  show "\<exists>ms. library_body_of collate time (fst (library_step collate time s (Select_Tab i))) = Library_Cards ms \<and> length ms = n"
    if "(i, l, Some n) \<in> set tabs" for i l n
    using tab [OF that] select [OF that] count [of _ "lf_sortBy (lp_filters s)"] by (auto simp: Let_def split: if_splits)
  show "library_body_of collate time (fst (library_step collate time s (Select_Tab i))) =
      Library_Notice ''No matching manga found'' ''Clear Filters''" if "(i, l, None) \<in> set tabs" for i l
    using tab [OF that] select [OF that] count [of _ "lf_sortBy (lp_filters s)"] by (auto simp: Let_def split: if_splits)
  show "filteredManga collate time lib (sh_id sh) [] [] sortBy = []"
    if "sh \<in> set (allShelves lib)" "sh_id sh \<notin> fst ` set tabs" for sh
  proof -
    have "\<not> count_of (counts lib) (sh_id sh) > 0"
      using that by (force simp: assms(7) shelf_tabs_def visibleShelves_def count_or_zero_count_of)
    then show ?thesis using count [OF that(1), of sortBy] by simp
  qed
qed

text \<open>\<open>tabs_say_what_is_behind\<close> for two manga, of which one is being read.\<close>

definition sample_library_page :: library_page where
  "sample_library_page = initial_library_page\<lparr>lp_manga := sample_library, lp_loading := False\<rparr>"

theorem tabs_say_what_is_behind_witness:
  "\<exists>ms. library_body_of (\<lambda>a b. 0) (\<lambda>s. 0)
       (fst (library_step (\<lambda>a b. 0) (\<lambda>s. 0) sample_library_page (Select_Tab ''reading''))) = Library_Cards ms \<and> length ms = 1"
proof -
  have h: "\<forall>m \<in> set sample_library. distinct (manga_shelves m) \<and> manga_status m \<notin> {''all'', ''favorites''} \<and>
      \<not> prefix ''custom:'' (manga_status m)"
    by (simp add: sample_library_def sample_simps)
  have "(''reading'', ''Reading'', Some 1) \<in> set (shelf_tabs False (counts sample_library) ''all'' (allShelves sample_library))"
    by code_simp
  with tabs_say_what_is_behind [OF h _ _ _ _ _ refl, of sample_library_page "\<lambda>a b. 0" "\<lambda>s. 0"] show ?thesis
    by (simp add: sample_library_page_def initial_library_page_def initial_library_filters_def sample_library_def)
qed

text \<open>
  The list of the library is never a dead end, and nothing is removed from it by chance. Where the page says that nothing matches, the
  button it offers shows every manga of the library, in the chosen order; a removal is requested only by a confirmed deletion
  of a manga that is on the screen, with no other deletion pending, for the id of that manga and after its title was asked about.
\<close>

theorem library_no_dead_end:
  "(library_body_of collate time s = Library_Notice ''No matching manga found'' b \<longrightarrow>
      (\<exists>ms. library_body_of collate time (fst (library_step collate time s Press_Clear_Filters)) = Library_Cards ms \<and>
         mset ms = mset (lp_manga s) \<and> ms \<noteq> []) \<and>
      lf_sortBy (lp_filters (fst (library_step collate time s Press_Clear_Filters))) = lf_sortBy (lp_filters s)) \<and>
   (Delete_Manga mu \<in> set (snd (library_step collate time s e)) \<longrightarrow>
      (\<exists>ms m. library_body_of collate time s = Library_Cards ms \<and> m \<in> set ms \<and> m \<in> set (lp_manga s) \<and>
         e = Delete_Card (m_id m) True \<and> \<not> lp_deletion s \<and> mu = useDeleteLibraryMangaMutation (m_id m) \<and>
         snd (library_step collate time s e) = [Ask_Delete (coalesce_or [card_title m] ''undefined''), Delete_Manga mu]))"
proof (rule conjI2; intro impI)
  assume b: "library_body_of collate time s = Library_Notice ''No matching manga found'' b"
  then have l: "\<not> lp_loading s" "lp_manga s \<noteq> []" "b = ''Clear Filters''"
    by (auto simp: library_body_of_def Let_def split: if_splits)
  let ?s = "fst (library_step collate time s Press_Clear_Filters)"
  let ?ms = "shown_manga collate time (lp_manga s) (clearFilters (lp_filters s))"
  have s: "?s = s\<lparr>lp_filters := clearFilters (lp_filters s)\<rparr>"
    using b l(3) by (simp add: library_step_def update_filters_def Let_def)
  have m: "mset ?ms = mset (lp_manga s)" by (rule clearFilters_shows_all)
  with l(2) have "?ms \<noteq> []" by (metis mset_zero_iff)
  then show "(\<exists>ms. library_body_of collate time ?s = Library_Cards ms \<and> mset ms = mset (lp_manga s) \<and> ms \<noteq> []) \<and>
      lf_sortBy (lp_filters ?s) = lf_sortBy (lp_filters s)"
    using m l(1) by (simp add: s library_body_of_def Let_def clearFilters_def)
next
  assume del: "Delete_Manga mu \<in> set (snd (library_step collate time s e))"
  then obtain i yes where e: "e = Delete_Card i yes"
    by (cases e) (auto simp: library_step_def Let_def split: if_splits)
  from del obtain ms m where m: "library_body_of collate time s = Library_Cards ms" "List.find (\<lambda>m. m_id m = i) ms = Some m"
      "\<not> lp_deletion s" "yes" "mu = useDeleteLibraryMangaMutation i"
    unfolding e by (auto simp: library_step_def Let_def split: if_splits library_body.splits option.splits)
  from find_Some_mem [OF m(2)] have mem: "m \<in> set ms" "m_id m = i" by auto
  have "set ms \<subseteq> set (lp_manga s)"
    using m(1) by (auto simp: library_body_of_def Let_def shown_manga_def set_filteredManga split: if_splits)
  with m mem show "\<exists>ms m. library_body_of collate time s = Library_Cards ms \<and> m \<in> set ms \<and> m \<in> set (lp_manga s) \<and>
         e = Delete_Card (m_id m) True \<and> \<not> lp_deletion s \<and> mu = useDeleteLibraryMangaMutation (m_id m) \<and>
         snd (library_step collate time s e) = [Ask_Delete (coalesce_or [card_title m] ''undefined''), Delete_Manga mu]"
    by (intro exI [of _ ms] exI [of _ m]) (auto simp: e library_step_def Let_def)
qed

theorem library_no_dead_end_witness:
  "\<exists>ms. library_body_of (\<lambda>a b. 0) (\<lambda>s. 0) (fst (library_step (\<lambda>a b. 0) (\<lambda>s. 0)
       (update_filters (\<lambda>f. f\<lparr>lf_filterSearch := ''zz''\<rparr>) sample_library_page) Press_Clear_Filters)) = Library_Cards ms \<and>
     mset ms = mset sample_library"
proof -
  let ?s = "update_filters (\<lambda>f. f\<lparr>lf_filterSearch := ''zz''\<rparr>) sample_library_page"
  have b: "library_body_of (\<lambda>a b. 0) (\<lambda>s. 0) ?s = Library_Notice ''No matching manga found'' ''Clear Filters''" by code_simp
  have l: "lp_manga ?s = sample_library" by (simp add: update_filters_def sample_library_page_def)
  from conjunct1 [OF mp [OF conjunct1 [OF library_no_dead_end] b]] l show ?thesis by auto
qed

section \<open>Where the cards lead\<close>

text \<open>
  A card opens its manga. The link of a card of the library leads to the details page of that manga, which shows a library
  manga and asks for its details alone; the link of a card of a provider's list leads to the details page which asks that provider for
  the manga, under its remote id or else its id, and asks for nothing of the library but what the answer names.
\<close>

theorem card_opens_its_manga:
  assumes "m_id m \<noteq> []" "p \<noteq> []"
    and "lr = library_card_route enc (library_card_of n chs m)"
    and "catalog_body_of p False False (Some [m]) = Catalog_Cards [c]" "er = card_route enc (ka_link c)"
    and "rid = mc_remoteId m" "rid \<noteq> []"
  shows "(\<not> isRemoteRoute lr \<and> targetMangaId lr d = m_id m \<and>
      qo_enabled (dq_local (details_queries_of lr d)) \<and> qo_request (dq_local (details_queries_of lr d)) = api_getMangaDetails (m_id m) \<and>
      \<not> qo_enabled (dq_remote (details_queries_of lr d))) \<and>
    (isRemoteRoute er \<and> qo_enabled (dq_remote (details_queries_of er d)) \<and>
      qo_request (dq_remote (details_queries_of er d)) = api_getProviderMangaDetails_req p rid \<and>
      \<not> qo_enabled (dq_local (details_queries_of er d)) \<and> (dd_remote d = None \<longrightarrow> \<not> isInLibrary er d))"
proof (rule conjI2)
  have lr: "lr = \<lparr>dr_pathname = ''/manga/'' @ enc (m_id m), dr_mangaId = Some (m_id m), dr_providerId = None, dr_remoteId = None\<rparr>"
    by (simp add: assms(3) library_card_route_def library_card_of_def)
  have nr: "\<not> isRemoteRoute lr" by (simp add: lr isRemoteRoute_def js_startsWith_def)
  have t: "targetMangaId lr d = m_id m"
    using libraryEntry_local [OF nr, of d] assms(1)
    by (cases "libraryEntry lr d") (auto simp: targetMangaId_def lr)
  show "\<not> isRemoteRoute lr \<and> targetMangaId lr d = m_id m \<and>
      qo_enabled (dq_local (details_queries_of lr d)) \<and> qo_request (dq_local (details_queries_of lr d)) = api_getMangaDetails (m_id m) \<and>
      \<not> qo_enabled (dq_remote (details_queries_of lr d))"
    using nr t assms(1)
    by (simp add: details_queries_of_def Let_def useMangaDetails_def useProviderMangaDetails_def set_enabled_def mangaDetailsQueryOptions_def)
next
  have c: "ka_link c = To_Provider_Manga p rid"
    using assms(2,4,7) unfolding assms(6)
    by (auto simp: catalog_body_of_def manga_card_of_def card_link_of_def mc_providerId_def mc_remoteId_def truthy_str_def)
  have er: "er = \<lparr>dr_pathname = ''/providers/'' @ enc p @ ''/manga/'' @ enc rid, dr_mangaId = None, dr_providerId = Some p,
      dr_remoteId = Some rid\<rparr>"
    by (simp add: assms(5) c card_route_def)
  have r: "isRemoteRoute er" "providerIdParam er = p" "remoteIdParam er = rid"
    using assms(2,7) by (simp_all add: er isRemoteRoute_def js_startsWith_def providerIdParam_def remoteIdParam_def)
  then show "isRemoteRoute er \<and> qo_enabled (dq_remote (details_queries_of er d)) \<and>
      qo_request (dq_remote (details_queries_of er d)) = api_getProviderMangaDetails_req p rid \<and>
      \<not> qo_enabled (dq_local (details_queries_of er d)) \<and> (dd_remote d = None \<longrightarrow> \<not> isInLibrary er d)"
    using assms(2,7)
    by (simp add: details_queries_of_def Let_def useMangaDetails_def useProviderMangaDetails_def set_enabled_def
        providerMangaDetailsQueryOptions_def isInLibrary_def libraryEntry_def)
qed

theorem card_opens_its_manga_witness:
  "\<exists>er. isRemoteRoute er \<and> qo_request (dq_remote (details_queries_of er (sample_page_data []))) = api_getProviderMangaDetails_req ''mdex'' ''r1''"
proof -
  define m where "m = (blank_manga ''a'')\<lparr>m_contentRemoteId := Some ''r1''\<rparr>"
  obtain c where c: "catalog_body_of ''mdex'' False False (Some [m]) = Catalog_Cards [c]"
    by (simp add: catalog_body_of_def)
  have i: "m_id m \<noteq> []" "mc_remoteId m = ''r1''" by (simp_all add: m_def mc_remoteId_def)
  from card_opens_its_manga [OF i(1) _ refl c refl i(2) [symmetric], where enc = "\<lambda>s. s" and d = "sample_page_data []"]
  show ?thesis by auto
qed

text \<open>In the select of the desktop a tag that is named like its value for "all" cannot be chosen.\<close>

lemma tag_named_all_tags:
  assumes "''all_tags'' \<in> set (allTags (lp_manga s))"
  shows "lf_selectedTag (lp_filters (fst (library_step collate time s (Choose_Desktop_Tag ''all_tags'')))) = [] \<and>
    lf_selectedTag (lp_filters (fst (library_step collate time s (Choose_Sheet_Tag ''all_tags'')))) = ''all_tags''"
proof -
  have "allTags (lp_manga s) \<noteq> []" using assms by auto
  with assms show ?thesis
    by (simp add: library_step_def update_filters_def desktop_tag_def desktop_tag_values_def Let_def)
qed

end
