(* ===== verification/App_Routes.thy ===== *)
theory App_Routes
  imports Manga_Pages Jobs_Manager
begin

text \<open>
  The table of routes of \<open>router.tsx\<close>: patterns, loaders with what they fetch ahead, redirects and pages; and what depends on
  the address alone, \<open>components/Header.tsx\<close>, \<open>components/MobileBottomNav.tsx\<close> and the tab of \<open>routes/SettingsPage.tsx\<close>. Matching an address
  against the patterns and encoding a parameter in an address (\<open>enc\<close>) are the router's.
\<close>

section \<open>The routes\<close>

datatype app_route =
    Index_Route
  | Explore_Landing_Route
  | Provider_Catalog_Route string explore_search
  | Provider_Details_Route string string
  | Provider_Reader_Route string string string
  | Local_Details_Route string
  | Local_Reader_Route string string
  | Explore_Provider_Route string explore_search
  | Explore_Details_Route string string
  | Reader_Route string
  | Settings_Route
  | Settings_Tab_Route string
  | Plugins_Route

datatype app_page = Library_Page | Explore_Page | Details_Page_Of details_route | Reader_Page_Of reader_route | Settings_Page string

text \<open>The address of a route: the segments of its pattern with the parameters.\<close>

fun route_segments :: "(string \<Rightarrow> string) \<Rightarrow> app_route \<Rightarrow> string list" where
  "route_segments enc Index_Route = [[]]"
| "route_segments enc Explore_Landing_Route = [''explore'']"
| "route_segments enc (Provider_Catalog_Route p s) = [''providers'', enc p]"
| "route_segments enc (Provider_Details_Route p q) = [''providers'', enc p, ''manga'', enc q]"
| "route_segments enc (Provider_Reader_Route p q c) = [''providers'', enc p, ''manga'', enc q, ''chapter'', enc c]"
| "route_segments enc (Local_Details_Route m) = [''manga'', enc m]"
| "route_segments enc (Local_Reader_Route m c) = [''manga'', enc m, ''chapter'', enc c]"
| "route_segments enc (Explore_Provider_Route p s) = [''explore'', enc p]"
| "route_segments enc (Explore_Details_Route p q) = [''explore'', enc p, enc q]"
| "route_segments enc (Reader_Route c) = [''reader'', enc c]"
| "route_segments enc Settings_Route = [''settings'']"
| "route_segments enc (Settings_Tab_Route t) = [''settings'', enc t]"
| "route_segments enc Plugins_Route = [''plugins'']"

definition route_path :: "(string \<Rightarrow> string) \<Rightarrow> app_route \<Rightarrow> string" where
  "route_path enc r = concat (map (\<lambda>s. CHR ''/'' # s) (route_segments enc r))"

text \<open>The loaders. A query that is fetched ahead and fails is ignored.\<close>

datatype loader = Fetches_Ahead query_opts | Fetches_Nothing | Redirects app_route

definition route_loader :: "source list option \<Rightarrow> explore_search \<Rightarrow> app_route \<Rightarrow> loader" where
  "route_loader sources search r =
     (case r of
        Index_Route \<Rightarrow> Fetches_Ahead libraryMangasQueryOptions
      | Explore_Landing_Route \<Rightarrow> Redirects (Provider_Catalog_Route (landing_provider sources) search)
      | Provider_Catalog_Route p s \<Rightarrow>
          Fetches_Ahead (exploreCatalogQueryOptions p (str_or [Some (es_mode s)] ''popular'') (es_q s) (Some (es_page s)))
      | Provider_Details_Route p q \<Rightarrow> Fetches_Ahead (providerMangaDetailsQueryOptions p q)
      | Local_Details_Route m \<Rightarrow> Fetches_Ahead (mangaDetailsQueryOptions m)
      | Settings_Route \<Rightarrow> Redirects (Settings_Tab_Route ''plugins'')
      | Plugins_Route \<Rightarrow> Redirects (Settings_Tab_Route ''plugins'')
      | Settings_Tab_Route t \<Rightarrow>
          (case settings_tab t of
             Tab_Redirect t' \<Rightarrow> Redirects (Settings_Tab_Route t')
           | Tab_Loads t' \<Rightarrow>
               if t' = ''plugins'' then Fetches_Ahead pluginsQueryOptions
               else if t' = ''cache'' then Fetches_Ahead cacheStatsQueryOptions
               else if t' = ''jobs'' then Fetches_Ahead (jobsQueryOptions None)
               else if t' = ''about'' then Fetches_Ahead infoQueryOptions
               else Fetches_Nothing)
      | _ \<Rightarrow> Fetches_Nothing)"

text \<open>The page of a route with the parameters its hooks read, and the tab the settings page shows.\<close>

definition currentTab :: "string \<Rightarrow> string" where
  "currentTab tab = (if tab \<noteq> [] \<and> tab \<in> set [''plugins'', ''cache'', ''jobs'', ''about''] then tab else ''plugins'')"

definition route_page :: "(string \<Rightarrow> string) \<Rightarrow> app_route \<Rightarrow> app_page option" where
  "route_page enc r =
     (let details = (\<lambda>m p q. Details_Page_Of
            \<lparr>dr_pathname = route_path enc r, dr_mangaId = m, dr_providerId = p, dr_remoteId = q\<rparr>);
          reader = (\<lambda>c m p q. Reader_Page_Of
            \<lparr>rr_chapterId = Some c, rr_mangaId = m, rr_providerId = p, rr_remoteId = q, rr_searchMangaId = None\<rparr>)
      in case r of
           Index_Route \<Rightarrow> Some Library_Page
         | Provider_Catalog_Route p s \<Rightarrow> Some Explore_Page
         | Explore_Provider_Route p s \<Rightarrow> Some Explore_Page
         | Provider_Details_Route p q \<Rightarrow> Some (details None (Some p) (Some q))
         | Explore_Details_Route p q \<Rightarrow> Some (details None (Some p) (Some q))
         | Local_Details_Route m \<Rightarrow> Some (details (Some m) None None)
         | Provider_Reader_Route p q c \<Rightarrow> Some (reader c None (Some p) (Some q))
         | Local_Reader_Route m c \<Rightarrow> Some (reader c (Some m) None None)
         | Reader_Route c \<Rightarrow> Some (reader c None None None)
         | Settings_Tab_Route t \<Rightarrow> Some (Settings_Page (currentTab t))
         | _ \<Rightarrow> None)"

section \<open>What depends on the address\<close>

definition isReaderPage :: "string \<Rightarrow> bool" where
  "isReaderPage pathname = (js_startsWith pathname ''/reader/'' \<or> js_includes pathname ''/chapter/'')"

definition isExploreActive :: "string \<Rightarrow> bool" where
  "isExploreActive pathname = (js_startsWith pathname ''/explore'' \<or> js_startsWith pathname ''/providers'')"

definition isSettingsActive :: "string \<Rightarrow> bool" where
  "isSettingsActive pathname = (js_startsWith pathname ''/settings'' \<or> js_startsWith pathname ''/plugins'')"

text \<open>The header: nothing in the reader, otherwise which of its three links are highlighted.\<close>

definition header_links :: "string \<Rightarrow> (string \<times> bool) list option" where
  "header_links pathname =
     (if isReaderPage pathname then None
      else Some [(''Library'', pathname = ''/''), (''Explore'', isExploreActive pathname), (''Settings'', isSettingsActive pathname)])"

section \<open>Segments of an address\<close>

lemma prefix_segment:
  assumes "c \<notin> set w" "c \<notin> set s" "rest = [] \<or> hd rest = c"
  shows "prefix (w @ [c]) (s @ rest) \<longleftrightarrow> s = w \<and> rest \<noteq> []"
  using assms
proof (induction w arbitrary: s)
  case Nil
  then show ?case by (cases s; cases rest) auto
next
  case (Cons a w)
  then show ?case by (cases s; cases rest) auto
qed

lemma sublist_after_segment:
  assumes "c \<notin> set s"
  shows "sublist (c # w) (s @ rest) \<longleftrightarrow> sublist (c # w) rest"
  using assms by (induction s) (auto simp: sublist_Cons_right)

lemma segment_included:
  assumes "c \<notin> set w" "\<forall>s \<in> set segs. c \<notin> set s"
  shows "sublist (c # w @ [c]) (concat (map (\<lambda>s. c # s) segs)) \<longleftrightarrow> w \<in> set (butlast segs)"
  using assms(2)
proof (induction segs)
  case (Cons s segs)
  let ?rest = "concat (map (\<lambda>s. c # s) segs)"
  have rest: "?rest = [] \<or> hd ?rest = c" by (cases segs) auto
  have "sublist (c # w @ [c]) (c # s @ ?rest) \<longleftrightarrow> prefix (w @ [c]) (s @ ?rest) \<or> sublist (c # w @ [c]) (s @ ?rest)"
    by (simp add: sublist_Cons_right)
  also have "\<dots> \<longleftrightarrow> (s = w \<and> segs \<noteq> []) \<or> sublist (c # w @ [c]) ?rest"
    using prefix_segment [OF assms(1) _ rest, of s] sublist_after_segment [of c s] Cons.prems by auto
  finally show ?case using Cons by auto
qed simp

lemma prefix_first_segment:
  assumes "c \<notin> set w" "\<forall>s \<in> set segs. c \<notin> set s"
  shows "prefix (c # w @ [c]) (concat (map (\<lambda>s. c # s) segs)) \<longleftrightarrow> (\<exists>s segs'. segs = w # s # segs')"
proof (cases segs)
  case (Cons s segs')
  let ?rest = "concat (map (\<lambda>s. c # s) segs')"
  have "?rest = [] \<or> hd ?rest = c" by (cases segs') auto
  with prefix_segment [OF assms(1) _ this, of s] assms(2) Cons show ?thesis by (cases segs') auto
qed simp

definition is_reader_route :: "app_route \<Rightarrow> bool" where
  "is_reader_route r =
     (case r of Provider_Reader_Route p q c \<Rightarrow> True | Local_Reader_Route m c \<Rightarrow> True | Reader_Route c \<Rightarrow> True | _ \<Rightarrow> False)"

lemma reader_route_page: "(\<exists>rr. route_page enc r = Some (Reader_Page_Of rr)) \<longleftrightarrow> is_reader_route r"
  by (cases r) (simp_all add: route_page_def is_reader_route_def)

text \<open>
  C34: The header and the navigation bar are hidden exactly on the pages of the reader. For every route, if the encoding of
  a parameter has no slash, they are hidden if and only if the page of the route is a reader page, with one
  exception: a provider with the id \<open>chapter\<close>, whose manga (and, under \<open>/explore\<close>, whose pages) have no navigation. On
  the other pages at most one link is highlighted, and one is on every page but those of a library manga.
\<close>

theorem navigation_hidden_in_reader:
  assumes "\<And>s. CHR ''/'' \<notin> set (enc s)" "\<And>s. enc s = ''chapter'' \<longleftrightarrow> s = ''chapter''"
  shows "(header_links (route_path enc r) = None \<longleftrightarrow>
      (\<exists>rr. route_page enc r = Some (Reader_Page_Of rr)) \<or>
      (\<exists>q. r = Provider_Details_Route ''chapter'' q \<or> r = Explore_Details_Route ''chapter'' q)) \<and>
    (\<forall>ls. header_links (route_path enc r) = Some ls \<longrightarrow>
      length (filter snd ls) = (if \<exists>m. r = Local_Details_Route m then 0 else 1))"
proof -
  have chp: "''chapter'' = enc s \<longleftrightarrow> s = ''chapter''" for s using assms(2) [of s] by auto
  have seg: "CHR ''/'' \<notin> set s" if "s \<in> set (route_segments enc r)" for s
    using that assms(1) by (cases r) auto
  have "isReaderPage (route_path enc r) \<longleftrightarrow>
      (\<exists>s segs'. route_segments enc r = ''reader'' # s # segs') \<or> ''chapter'' \<in> set (butlast (route_segments enc r))"
    using segment_included [of "CHR ''/''" "''chapter''" "route_segments enc r"] seg
      prefix_first_segment [of "CHR ''/''" "''reader''" "route_segments enc r"]
    by (simp add: isReaderPage_def route_path_def js_startsWith_def js_includes_sublist)
  also have "\<dots> \<longleftrightarrow> is_reader_route r \<or> (\<exists>q. r = Provider_Details_Route ''chapter'' q \<or> r = Explore_Details_Route ''chapter'' q)"
    using chp by (cases r) (simp_all add: is_reader_route_def)
  finally have reader: "isReaderPage (route_path enc r) \<longleftrightarrow> \<dots>" .
  have "length (filter snd [(''Library'', route_path enc r = ''/''), (''Explore'', isExploreActive (route_path enc r)),
      (''Settings'', isSettingsActive (route_path enc r))]) = (if \<exists>m. r = Local_Details_Route m then 0 else 1)"
    if "\<not> is_reader_route r"
    using that
    by (cases r) (simp_all add: isExploreActive_def isSettingsActive_def js_startsWith_def route_path_def is_reader_route_def)
  then show ?thesis
    unfolding header_links_def reader reader_route_page by (simp del: filter.simps)
qed


text \<open>\<open>navigation_hidden_in_reader\<close> for parameters encoded by \<open>encodeURIComponent\<close>.\<close>

theorem navigation_hidden_in_reader_witness:
  "header_links (route_path encodeURIComponent (Provider_Details_Route ''chapter'' ''x'')) = None \<and>
   header_links (route_path encodeURIComponent (Provider_Details_Route ''mdex'' ''a/chapter/b'')) \<noteq> None"
proof -
  have slash: "CHR ''/'' \<notin> set (encodeURIComponent s)" for s
    using encodeURIComponent_no_delim [of "CHR ''/''" s] by auto
  have "encodeURIComponent ''chapter'' = ''chapter''" by code_simp
  then have c: "encodeURIComponent s = ''chapter'' \<longleftrightarrow> s = ''chapter''" for s
    by (metis encodeURIComponent_inj)
  note h = conjunct1 [OF navigation_hidden_in_reader [of encodeURIComponent, OF slash c]]
  show ?thesis unfolding h reader_route_page by (simp add: is_reader_route_def)
qed

section \<open>What the loaders are for\<close>

text \<open>The queries the page of a route makes when it is first shown: hooks of the pages and of the tabs.\<close>

definition page_queries :: "(string \<Rightarrow> string) \<Rightarrow> source list \<Rightarrow> details_data \<Rightarrow> app_route \<Rightarrow> query_opts list" where
  "page_queries enc sources d r =
     (case r of
        Provider_Catalog_Route p s \<Rightarrow>
          (let a = activeProviderId p sources
           in [sourcesQueryOptions, useExploreCatalog a (es_mode s) (coalesce_or [es_q s] []) (es_page s) (Some (a \<noteq> []))])
      | _ \<Rightarrow>
          (case route_page enc r of
             Some Library_Page \<Rightarrow> [libraryMangasQueryOptions]
           | Some (Details_Page_Of dr) \<Rightarrow>
               (let q = details_queries_of dr d
                in [sourcesQueryOptions, libraryMangasQueryOptions, dq_remote q, dq_local q, dq_provider q, dq_jobs q, dq_localChapters q,
                    dq_remoteChapters q])
           | Some (Settings_Page t) \<Rightarrow>
               (if t = ''plugins'' then [pluginsQueryOptions, collisionsQueryOptions]
                else if t = ''cache'' then [cacheStatsQueryOptions]
                else if t = ''jobs'' then [jobs_query Hierarchical None]
                else [infoQueryOptions])
           | _ \<Rightarrow> []))"

text \<open>
  What a loader fetches ahead is what its page asks for. Whenever the loader of a route fetches a query that is enabled, the page of
  this route makes an enabled query with the same key and the same request, so that it finds the data in the cache; and a
  redirect leads, in one step, to a route whose loader fetches ahead.
\<close>

theorem loaders_warm_pages:
  "(route_loader sources search r = Fetches_Ahead q \<and> qo_enabled q \<longrightarrow>
      (\<exists>q' \<in> set (page_queries enc srcs d r). qo_enabled q' \<and> qo_key q' = qo_key q \<and> qo_request q' = qo_request q)) \<and>
   (route_loader sources search r = Redirects r' \<longrightarrow> (\<exists>q'. route_loader sources' search' r' = Fetches_Ahead q'))"
proof (rule conjI2; intro impI)
  assume "route_loader sources search r = Redirects r'"
  then show "\<exists>q'. route_loader sources' search' r' = Fetches_Ahead q'"
    by (cases r) (auto simp: route_loader_def settings_tab_def split: tab_load.splits if_splits)
next
  assume q: "route_loader sources search r = Fetches_Ahead q \<and> qo_enabled q"
  then consider "r = Index_Route" "q = libraryMangasQueryOptions"
    | (catalog) p s where "r = Provider_Catalog_Route p s" "p \<noteq> []"
        "q = exploreCatalogQueryOptions p (str_or [Some (es_mode s)] ''popular'') (es_q s) (Some (es_page s))"
    | (remote) p x where "r = Provider_Details_Route p x" "q = providerMangaDetailsQueryOptions p x" "p \<noteq> []" "x \<noteq> []"
    | (local) m where "r = Local_Details_Route m" "q = mangaDetailsQueryOptions m" "m \<noteq> []"
    | (tab) t where "r = Settings_Tab_Route t" "t \<in> {''plugins'', ''cache'', ''jobs'', ''about''}"
        "q = (if t = ''plugins'' then pluginsQueryOptions else if t = ''cache'' then cacheStatsQueryOptions
              else if t = ''jobs'' then jobsQueryOptions None else infoQueryOptions)"
    by (cases r) (auto simp: route_loader_def settings_tab_def exploreCatalogQueryOptions_def providerMangaDetailsQueryOptions_def
        mangaDetailsQueryOptions_def Let_def split: tab_load.splits if_splits)
  then show "\<exists>q' \<in> set (page_queries enc srcs d r). qo_enabled q' \<and> qo_key q' = qo_key q \<and> qo_request q' = qo_request q"
  proof cases
    case 1
    then show ?thesis using q by (simp add: page_queries_def route_page_def)
  next
    case catalog
    then have "activeProviderId p srcs = p" by (simp add: activeProviderId_def)
    then show ?thesis
      using catalog
      by (cases "es_q s") (auto simp: page_queries_def useExploreCatalog_def exploreCatalogQueryOptions_def set_enabled_def Let_def)
  next
    case remote
    let ?dr = "\<lparr>dr_pathname = route_path enc r, dr_mangaId = None, dr_providerId = Some p, dr_remoteId = Some x\<rparr>"
    have "dq_remote (details_queries_of ?dr d) \<in> set (page_queries enc srcs d r)"
      using remote by (simp add: page_queries_def route_page_def Let_def)
    moreover have "qo_enabled (dq_remote (details_queries_of ?dr d)) \<and> qo_key (dq_remote (details_queries_of ?dr d)) = qo_key q \<and>
        qo_request (dq_remote (details_queries_of ?dr d)) = qo_request q"
      using remote
      by (simp add: details_queries_of_def useProviderMangaDetails_def set_enabled_def providerMangaDetailsQueryOptions_def
          isRemoteRoute_def providerIdParam_def remoteIdParam_def Let_def)
    ultimately show ?thesis by blast
  next
    case local
    let ?dr = "\<lparr>dr_pathname = route_path enc r, dr_mangaId = Some m, dr_providerId = None, dr_remoteId = None\<rparr>"
    have nr: "\<not> isRemoteRoute ?dr" using local by (simp add: isRemoteRoute_def route_path_def js_startsWith_def)
    then have t: "targetMangaId ?dr d = m"
      using libraryEntry_local [OF nr, of d] local(3) by (cases "libraryEntry ?dr d") (auto simp: targetMangaId_def)
    have "dq_local (details_queries_of ?dr d) \<in> set (page_queries enc srcs d r)"
      using local by (simp add: page_queries_def route_page_def Let_def)
    moreover have "qo_enabled (dq_local (details_queries_of ?dr d)) \<and> qo_key (dq_local (details_queries_of ?dr d)) = qo_key q \<and>
        qo_request (dq_local (details_queries_of ?dr d)) = qo_request q"
      using local nr t
      by (simp add: details_queries_of_def useMangaDetails_def set_enabled_def mangaDetailsQueryOptions_def Let_def)
    ultimately show ?thesis by blast
  next
    case tab
    then have "currentTab t = t" by (auto simp: currentTab_def)
    then show ?thesis
      using tab
      by (auto simp: page_queries_def route_page_def jobs_query_def jobFilter_def set_enabled_def pluginsQueryOptions_def
          cacheStatsQueryOptions_def infoQueryOptions_def jobsQueryOptions_def)
  qed
qed

theorem loaders_warm_pages_witness:
  "\<exists>q'. qo_key q' = qo_key (mangaDetailsQueryOptions ''m'') \<and> qo_enabled q' \<and>
     q' \<in> set (page_queries encodeURIComponent [] (sample_page_data []) (Local_Details_Route ''m''))"
proof -
  have "route_loader None \<lparr>es_mode = [], es_q = None, es_page = 1\<rparr> (Local_Details_Route ''m'') = Fetches_Ahead (mangaDetailsQueryOptions ''m'') \<and>
      qo_enabled (mangaDetailsQueryOptions ''m'')"
    by (simp add: route_loader_def mangaDetailsQueryOptions_def)
  from mp [OF conjunct1 [OF loaders_warm_pages] this, of encodeURIComponent "[]" "sample_page_data []"] show ?thesis by auto
qed

end
