(* ===== verification/App_Shell.thy ===== *)
theory App_Shell
  imports Settings_Tabs
begin

text \<open>
  What surrounds the pages: \<open>context/ThemeContext.tsx\<close> with the theme menu of \<open>components/Header.tsx\<close>, \<open>hooks/usePWAInstall.ts\<close> with
  \<open>components/settings/SettingsAboutTab.tsx\<close>, \<open>lib/pwa.ts\<close>, \<open>components/ToastContainer.tsx\<close> and \<open>components/ErrorDetailsModal.tsx\<close>. What the browser
  reports (media queries, installation prompts and their answers, the service worker) are events. A dash that stands for a missing
  value is \<open>None\<close>.
\<close>

section \<open>The theme\<close>

text \<open>\<open>th_rootDark\<close> and \<open>th_scheme\<close> are the class and the style of the document, \<open>th_listener\<close> is the theme the listener of the media query has closed over.\<close>

record theme_state =
  th_theme :: string
  th_isDark :: bool
  th_rootDark :: bool
  th_scheme :: string
  th_saved :: "string option"
  th_media :: bool
  th_listener :: "string option"
  th_effect :: "string option"

definition effectiveDark :: "string \<Rightarrow> bool \<Rightarrow> bool" where
  "effectiveDark theme matches = (theme = ''dark'' \<or> theme = ''system'' \<and> matches)"

definition applyTheme :: "string \<Rightarrow> theme_state \<Rightarrow> theme_state" where
  "applyTheme theme s =
     (let dark = effectiveDark theme (th_media s)
      in s\<lparr>th_isDark := dark, th_rootDark := dark, th_scheme := (if dark then ''dark'' else ''light'')\<rparr>)"

definition theme_effect :: "theme_state \<Rightarrow> theme_state" where
  "theme_effect s =
     (if th_effect s = Some (th_theme s) then s
      else (applyTheme (th_theme s) s)
             \<lparr>th_saved := Some (th_theme s), th_listener := Some (th_theme s), th_effect := Some (th_theme s)\<rparr>)"

datatype theme_event = Set_Theme string | Media_Change bool

definition theme_step :: "theme_state \<Rightarrow> theme_event \<Rightarrow> theme_state" where
  "theme_step s e =
     (case e of
        Set_Theme t \<Rightarrow> theme_effect (s\<lparr>th_theme := t\<rparr>)
      | Media_Change b \<Rightarrow>
          (let s' = s\<lparr>th_media := b\<rparr> in if th_listener s = Some ''system'' then applyTheme ''system'' s' else s'))"

text \<open>The provider is mounted with what the storage holds, on a document in any state.\<close>

definition initial_theme :: "string option \<Rightarrow> bool \<Rightarrow> bool \<Rightarrow> string \<Rightarrow> theme_state" where
  "initial_theme saved media rootDark scheme =
     theme_effect
       \<lparr>th_theme = str_or [saved] ''system'', th_isDark = False, th_rootDark = rootDark, th_scheme = scheme, th_saved = saved,
        th_media = media, th_listener = None, th_effect = None\<rparr>"

definition theme_menu :: "theme_state \<Rightarrow> (string \<times> string \<times> bool) list" where
  "theme_menu s = map (\<lambda>(t, l). (t, l, th_theme s = t)) [(''light'', ''Light''), (''dark'', ''Dark''), (''system'', ''System'')]"

definition theme_ok :: "theme_state \<Rightarrow> bool" where
  "theme_ok s =
     (th_isDark s = effectiveDark (th_theme s) (th_media s) \<and> th_rootDark s = th_isDark s \<and>
      th_scheme s = (if th_isDark s then ''dark'' else ''light'') \<and> th_saved s = Some (th_theme s) \<and>
      th_listener s = Some (th_theme s) \<and> th_effect s = Some (th_theme s))"

lemma theme_ok_effect: "theme_ok (theme_effect s)" if "th_effect s = Some (th_theme s) \<longrightarrow> theme_ok s"
  using that by (simp add: theme_effect_def theme_ok_def applyTheme_def Let_def)

lemma theme_ok_step: "theme_ok s \<Longrightarrow> theme_ok (theme_step s e)"
proof (cases e)
  case (Set_Theme t)
  assume ok: "theme_ok s"
  have "theme_ok (s\<lparr>th_theme := t\<rparr>)" if "th_effect s = Some t"
    using ok that by (simp add: theme_ok_def)
  then show ?thesis using theme_ok_effect [of "s\<lparr>th_theme := t\<rparr>"] by (simp add: Set_Theme theme_step_def)
qed (auto simp: theme_step_def theme_ok_def applyTheme_def effectiveDark_def Let_def)

interpretation theme_machine: machine theme_step "initial_theme saved media rootDark scheme" theme_ok
  for saved media rootDark scheme
  by unfold_locales (auto intro: theme_ok_step theme_ok_effect simp: initial_theme_def)

text \<open>
  C30: The document wears the chosen theme. Whatever the storage held and however the document looked, after any choices and any changes of the
  device's preference the page, its class and its colour scheme are dark exactly if dark was chosen, or the device prefers dark and
  the choice is neither dark nor light but the device's; the menu marks exactly the chosen entry; the choice is stored, and mounting the application again,
  in whatever document, shows the same.
\<close>

theorem theme_is_worn:
  assumes "s = run_events theme_step (initial_theme saved media rootDark scheme) es" "th_theme s \<noteq> []"
  shows "(th_rootDark s \<longleftrightarrow> th_theme s = ''dark'' \<or> th_theme s = ''system'' \<and> th_media s) \<and>
    th_isDark s = th_rootDark s \<and> th_scheme s = (if th_rootDark s then ''dark'' else ''light'') \<and>
    (\<forall>t l b. (t, l, b) \<in> set (theme_menu s) \<longrightarrow> b = (t = th_theme s)) \<and>
    initial_theme (th_saved s) (th_media s) rootDark' scheme' = s"
proof -
  have ok: "theme_ok s" unfolding assms(1) by (rule theme_machine.inv_run)
  have "initial_theme (th_saved s) (th_media s) rootDark' scheme' = s"
    using ok assms(2)
    by (cases s) (auto simp: theme_ok_def initial_theme_def theme_effect_def applyTheme_def Let_def)
  with ok show ?thesis by (auto simp: theme_ok_def effectiveDark_def theme_menu_def)
qed

theorem theme_is_worn_witness:
  "th_rootDark (initial_theme (Some ''system'') True False ''light'')"
proof -
  let ?s = "run_events theme_step (initial_theme None False False ''light'') [Set_Theme ''dark'', Media_Change True, Set_Theme ''system'']"
  have s: "th_theme ?s = ''system''" "th_saved ?s = Some ''system''" "th_media ?s" by code_simp+
  from theme_is_worn [OF refl, of None False False "''light''" "[Set_Theme ''dark'', Media_Change True, Set_Theme ''system'']" False "''light''"] s
  show ?thesis by simp
qed

section \<open>Installation\<close>

text \<open>A prompt of the browser is a number; \<open>in_calls\<close> are the calls of \<open>install\<close> that wait, for the prompt or for the choice of the user.\<close>

datatype install_call = Await_Prompt nat | Await_Choice nat

record install_state =
  in_deferred :: "nat option"
  in_installed :: bool
  in_calls :: "(nat \<times> install_call) list"
  in_next :: nat

datatype install_event =
    Browser_Prompt nat
  | App_Installed
  | Press_Install
  | Prompt_Settles nat bool
  | Choice_Settles nat "bool option"

datatype install_output = Show_Prompt nat | Install_Result bool

definition isInstallable :: "install_state \<Rightarrow> bool" where
  "isInstallable s = (in_deferred s \<noteq> None \<and> \<not> in_installed s)"

definition install :: "install_state \<Rightarrow> install_state \<times> install_output list" where
  "install s =
     (case in_deferred s of
        None \<Rightarrow> (s, [Install_Result False])
      | Some n \<Rightarrow> (s\<lparr>in_calls := in_calls s @ [(in_next s, Await_Prompt n)], in_next := in_next s + 1\<rparr>, [Show_Prompt n]))"

definition end_call :: "nat \<Rightarrow> install_state \<Rightarrow> install_state" where
  "end_call k s = s\<lparr>in_calls := filter (\<lambda>p. fst p \<noteq> k) (in_calls s)\<rparr>"

text \<open>The button is there only while the application can be installed.\<close>

definition install_step :: "install_state \<Rightarrow> install_event \<Rightarrow> install_state \<times> install_output list" where
  "install_step s e =
     (case e of
        Browser_Prompt n \<Rightarrow> (s\<lparr>in_deferred := Some n\<rparr>, [])
      | App_Installed \<Rightarrow> (s\<lparr>in_deferred := None, in_installed := True\<rparr>, [])
      | Press_Install \<Rightarrow> if isInstallable s then install s else (s, [])
      | Prompt_Settles k ok \<Rightarrow>
          (case map_of (in_calls s) k of
             Some (Await_Prompt n) \<Rightarrow>
               if ok then (s\<lparr>in_calls := map (\<lambda>p. if fst p = k then (k, Await_Choice n) else p) (in_calls s)\<rparr>, [])
               else (end_call k s, [Install_Result False])
           | _ \<Rightarrow> (s, []))
      | Choice_Settles k choice \<Rightarrow>
          (case map_of (in_calls s) k of
             Some (Await_Choice n) \<Rightarrow>
               (case choice of
                  Some True \<Rightarrow> ((end_call k s)\<lparr>in_installed := True, in_deferred := None\<rparr>, [Install_Result True])
                | Some False \<Rightarrow> ((end_call k s)\<lparr>in_deferred := None\<rparr>, [Install_Result False])
                | None \<Rightarrow> (end_call k s, [Install_Result False]))
           | _ \<Rightarrow> (s, [])))"

definition initial_install :: "bool \<Rightarrow> bool \<Rightarrow> install_state" where
  "initial_install displayMode standalone =
     \<lparr>in_deferred = None, in_installed = (displayMode \<or> standalone), in_calls = [], in_next = 0\<rparr>"

text \<open>The tab: its badge, its line on the mode, its control, its rows, and the notice of an installation.\<close>

datatype about_control = Installed_Mark | Install_Button | Browser_Mark

definition about_badge :: "install_state \<Rightarrow> string option" where
  "about_badge s =
     (if in_installed s then Some ''Installed App'' else if isInstallable s then Some ''Installable PWA'' else None)"

definition application_mode :: "install_state \<Rightarrow> string" where
  "application_mode s =
     (if in_installed s then ''Running as standalone installed application''
      else if isInstallable s then ''Ready to install on this device'' else ''Running in web browser'')"

definition about_control_of :: "install_state \<Rightarrow> about_control" where
  "about_control_of s = (if in_installed s then Installed_Mark else if isInstallable s then Install_Button else Browser_Mark)"

definition about_title :: "app_info option \<Rightarrow> string" where
  "about_title info = coalesce_or [map_option ai_app info] ''Kiyomi''"

definition about_rows :: "app_info option \<Rightarrow> (string \<times> string option) list" where
  "about_rows info =
     [(''Version'', map_option ai_version info), (''Commit'', map_option ai_commit info),
      (''Build time'', map_option ai_build_time info), (''Go version'', map_option ai_go_version info)]"

definition install_notice :: "install_output \<Rightarrow> notice list" where
  "install_notice out = (if out = Install_Result True then [success_notice ''Kiyomi installed successfully!''] else [])"

record about_tab =
  ab_confirm :: bool
  ab_clearing :: bool

datatype about_event = Ask_Clear bool | Press_Clear | Clear_Answer "shown_error option"

definition about_step :: "about_tab \<Rightarrow> about_event \<Rightarrow> about_tab \<times> cache_output list" where
  "about_step s e =
     (case e of
        Ask_Clear b \<Rightarrow> (if b \<and> ab_clearing s then s else s\<lparr>ab_confirm := b\<rparr>, [])
      | Press_Clear \<Rightarrow>
          if ab_confirm s \<and> \<not> ab_clearing s then (s\<lparr>ab_clearing := True\<rparr>, [Clear_Persisted]) else (s, [])
      | Clear_Answer r \<Rightarrow>
          (s\<lparr>ab_clearing := False, ab_confirm := False\<rparr>,
           [Cache_Notice (case r of
              None \<Rightarrow> success_notice ''Offline query cache cleared successfully''
            | Some err \<Rightarrow> (''Failed to clear offline cache'', Toast_Error, se_message err))]))"

subsection \<open>What the tab says of the installation is true\<close>

definition install_next :: "install_state \<Rightarrow> install_event \<Rightarrow> install_state" where
  "install_next s e = fst (install_step s e)"

text \<open>Every call that waits has its own number.\<close>

definition calls_known :: "install_state \<Rightarrow> bool" where
  "calls_known s = (distinct (map fst (in_calls s)) \<and> list_all (\<lambda>i. i < in_next s) (map fst (in_calls s)))"

lemma map_fst_settle: "map fst (map (\<lambda>p. if fst p = k then (k, d) else p) cs) = map fst cs"
  by (induction cs) auto

lemma map_fst_end: "map fst (filter (\<lambda>p. fst p \<noteq> k) cs) = filter (\<lambda>i. i \<noteq> k) (map fst cs)"
  by (induction cs) auto

lemma calls_known_step: "calls_known s \<Longrightarrow> calls_known (install_next s e)"
proof (cases e)
  case Press_Install
  assume "calls_known s"
  then have "in_next s \<notin> set (map fst (in_calls s))" "\<forall>i \<in> set (map fst (in_calls s)). i < in_next s + 1"
    by (auto simp: calls_known_def list_all_iff simp del: set_map)
  with \<open>calls_known s\<close> show ?thesis
    by (auto simp: Press_Install install_next_def install_step_def install_def calls_known_def list_all_iff split: option.split)
qed (auto simp: install_next_def install_step_def calls_known_def end_call_def list_all_iff map_fst_settle map_fst_end
      simp del: map_map set_map split: option.splits install_call.splits bool.splits)

interpretation install_machine: machine install_next "initial_install m st" calls_known for m st
  by unfold_locales (simp_all add: calls_known_step, simp add: initial_install_def calls_known_def)

lemma installed_stays: "in_installed s \<Longrightarrow> in_installed (install_next s e)"
  by (auto simp: install_next_def install_step_def install_def end_call_def
      split: install_event.split option.splits install_call.splits bool.splits)

interpretation installed_machine: machine install_next s "\<lambda>u. in_installed s \<longrightarrow> in_installed u" for s
  by unfold_locales (auto intro: installed_stays)

text \<open>The results of one call, over a run.\<close>

fun call_results :: "nat \<Rightarrow> install_state \<Rightarrow> install_event list \<Rightarrow> bool list" where
  "call_results k s [] = []"
| "call_results k s (e # es) =
     (let here = (case e of Prompt_Settles i ok \<Rightarrow> i = k | Choice_Settles i c \<Rightarrow> i = k | _ \<Rightarrow> False)
      in (if here then concat (map (\<lambda>out. case out of Install_Result b \<Rightarrow> [b] | _ \<Rightarrow> []) (snd (install_step s e))) else []) @
         call_results k (install_next s e) es)"

text \<open>A call that has ended has no further result.\<close>

definition call_over :: "nat \<Rightarrow> install_state \<Rightarrow> bool" where
  "call_over k s = (k < in_next s \<and> k \<notin> set (map fst (in_calls s)))"

lemma call_over_step:
  assumes "call_over k s"
  shows "call_over k (install_next s e)"
    and "e = Prompt_Settles k ok \<or> e = Choice_Settles k c \<Longrightarrow> snd (install_step s e) = []"
proof -
  show "call_over k (install_next s e)"
    using assms
    by (cases e) (auto simp: call_over_def install_next_def install_step_def install_def end_call_def map_fst_settle map_fst_end
        simp del: map_map set_map split: option.splits install_call.splits bool.splits)
  have "map_of (in_calls s) k = None" using assms by (simp add: call_over_def map_of_eq_None_iff)
  then show "snd (install_step s e) = []" if "e = Prompt_Settles k ok \<or> e = Choice_Settles k c"
    using that by (auto simp: install_step_def)
qed

lemma no_result_after: "call_over k s \<Longrightarrow> call_results k s es = []"
proof (induction es arbitrary: s)
  case (Cons e es)
  from Cons.IH [OF call_over_step(1) [OF Cons.prems]] call_over_step(2) [OF Cons.prems, of e]
  show ?case by (auto simp: Let_def split: install_event.split)
qed simp

lemma call_ends:
  assumes "calls_known s" "k \<in> set (map fst (in_calls s))" "e = Prompt_Settles k ok \<or> e = Choice_Settles k c"
  shows "snd (install_step s e) = [] \<or> (\<exists>b. snd (install_step s e) = [Install_Result b]) \<and> call_over k (install_next s e)"
proof -
  from assms(1,2) have "k < in_next s" by (auto simp: calls_known_def list_all_iff simp del: set_map)
  then show ?thesis
    using assms(3)
    by (cases ok) (auto simp: install_step_def install_next_def call_over_def end_call_def map_fst_end simp del: set_map
        split: option.splits install_call.splits bool.splits)
qed

lemma call_stays_or_over:
  assumes "calls_known s" "k \<in> set (map fst (in_calls s))"
  shows "k \<in> set (map fst (in_calls (install_next s e))) \<or> call_over k (install_next s e)"
proof -
  from assms have "k < in_next s" by (auto simp: calls_known_def list_all_iff simp del: set_map)
  then show ?thesis
    using assms(2)
    by (cases e) (auto simp: call_over_def install_next_def install_step_def install_def end_call_def map_fst_settle map_fst_end
        simp del: map_map set_map split: option.splits install_call.splits bool.splits)
qed

lemma one_result:
  assumes "calls_known s" "k \<in> set (map fst (in_calls s))"
  shows "length (call_results k s es) \<le> 1"
  using assms
proof (induction es arbitrary: s)
  case (Cons e es)
  note known = calls_known_step [OF Cons.prems(1), of e]
  have rest: "length (call_results k (install_next s e) es) \<le> 1"
    using call_stays_or_over [OF Cons.prems, of e] Cons.IH [OF known] no_result_after by auto
  show ?case
  proof (cases "\<exists>ok c. e = Prompt_Settles k ok \<or> e = Choice_Settles k c")
    case True
    then obtain ok c where e: "e = Prompt_Settles k ok \<or> e = Choice_Settles k c" by blast
    from call_ends [OF Cons.prems e] rest no_result_after [of k "install_next s e" es] e
    show ?thesis by (auto simp: Let_def)
  next
    case False
    with rest show ?thesis by (cases e) (auto simp: Let_def)
  qed
qed simp

text \<open>
  What the about tab says of the installation is true. An installation is reported only when the user accepted a prompt of the
  browser that a press of the button had shown, and from then on, as after the browser's own report or in a standalone window, the tab says
  that the application is installed and never offers it again; a press shows the prompt the browser has handed out last, and has at
  most one result.
\<close>

theorem install_report_true:
  assumes "s = run_events install_next (initial_install m st) es"
  shows "(Install_Result True \<in> set (snd (install_step s e)) \<longrightarrow>
      (\<exists>k n. e = Choice_Settles k (Some True) \<and> map_of (in_calls s) k = Some (Await_Choice n)) \<and> in_installed (install_next s e)) \<and>
    (in_installed s \<longrightarrow> about_control_of (run_events install_next s es') = Installed_Mark \<and> \<not> isInstallable (run_events install_next s es')) \<and>
    (about_control_of s = Install_Button \<longrightarrow>
      (\<exists>n. in_deferred s = Some n \<and> snd (install_step s Press_Install) = [Show_Prompt n] \<and>
         length (call_results (in_next s) (install_next s Press_Install) es') \<le> 1))"
proof (rule conjI3; intro impI)
  assume "Install_Result True \<in> set (snd (install_step s e))"
  then show "(\<exists>k n. e = Choice_Settles k (Some True) \<and> map_of (in_calls s) k = Some (Await_Choice n)) \<and> in_installed (install_next s e)"
    by (cases e) (auto simp: install_step_def install_next_def install_def split: option.splits install_call.splits bool.splits if_splits)
next
  assume "in_installed s"
  then have "in_installed (run_events install_next s es')" using installed_machine.inv_run [of s es'] by blast
  then show "about_control_of (run_events install_next s es') = Installed_Mark \<and> \<not> isInstallable (run_events install_next s es')"
    by (simp add: about_control_of_def isInstallable_def)
next
  assume "about_control_of s = Install_Button"
  then have i: "isInstallable s" by (simp add: about_control_of_def split: if_splits)
  then obtain n where n: "in_deferred s = Some n" by (auto simp: isInstallable_def)
  have "calls_known (install_next s Press_Install)"
    unfolding assms by (rule calls_known_step [OF install_machine.inv_run])
  moreover have "in_next s \<in> set (map fst (in_calls (install_next s Press_Install)))"
    using i n by (simp add: install_next_def install_step_def install_def)
  ultimately have "length (call_results (in_next s) (install_next s Press_Install) es') \<le> 1" by (rule one_result)
  with i n show "\<exists>n. in_deferred s = Some n \<and> snd (install_step s Press_Install) = [Show_Prompt n] \<and>
         length (call_results (in_next s) (install_next s Press_Install) es') \<le> 1"
    by (simp add: install_step_def install_def)
qed

theorem install_report_true_witness:
  "about_control_of (run_events install_next (initial_install False False)
     [Browser_Prompt 5, Press_Install, Prompt_Settles 0 True, Choice_Settles 0 (Some True), Browser_Prompt 6]) = Installed_Mark"
proof -
  let ?s = "run_events install_next (initial_install False False)
     [Browser_Prompt 5, Press_Install, Prompt_Settles 0 True, Choice_Settles 0 (Some True)]"
  have "in_installed ?s" by code_simp
  with install_report_true [OF refl, of False False "[Browser_Prompt 5, Press_Install, Prompt_Settles 0 True, Choice_Settles 0 (Some True)]"
      Press_Install "[Browser_Prompt 6]"]
  show ?thesis by simp
qed

text \<open>
  A prompt that fails stays on offer although the browser lets it be shown once; and the answer "no" to one prompt drops the
  one that was handed out since.
\<close>

lemma failed_prompt_stays:
  "isInstallable s \<Longrightarrow> isInstallable (install_next s (Prompt_Settles k False)) \<and>
     in_deferred (install_next s (Prompt_Settles k False)) = in_deferred s"
  by (auto simp: install_next_def install_step_def isInstallable_def end_call_def split: option.split install_call.split)

lemma dismissal_drops_newer:
  "map_of (in_calls s) k = Some (Await_Choice n) \<Longrightarrow>
     \<not> isInstallable (run_events install_next s [Browser_Prompt n', Choice_Settles k (Some False)])"
  by (simp add: install_next_def install_step_def isInstallable_def)

text \<open>The about tab clears the offline cache as the cache tab does, but for a question that is not asked while a clearing runs.\<close>

definition as_about :: "cache_tab \<Rightarrow> about_tab" where
  "as_about s = \<lparr>ab_confirm = ct_confirmOffline s, ab_clearing = ct_clearingOffline s\<rparr>"

lemma about_clears_alike:
  "about_step (as_about s) Press_Clear = (as_about (fst (cache_step st s Confirm_Offline)), snd (cache_step st s Confirm_Offline))"
  "about_step (as_about s) (Clear_Answer r) = (as_about (fst (cache_step st s (Offline_Answer r))), snd (cache_step st s (Offline_Answer r)))"
  "\<not> (b \<and> ct_clearingOffline s) \<Longrightarrow>
    about_step (as_about s) (Ask_Clear b) = (as_about (fst (cache_step st s (Ask_Offline b))), snd (cache_step st s (Ask_Offline b)))"
  by (auto simp: about_step_def cache_step_def as_about_def split: option.split)

end
