(* ===== verification/App_Update.thy ===== *)
theory App_Update
  imports Settings_Tabs
begin

text \<open>
  \<open>lib/pwa.ts\<close>, which offers a new version of the application in a toast, together with \<open>components/ToastContainer.tsx\<close>, which shows the toasts of
  \<open>context/ToastContext.tsx\<close> and the details of errors, and \<open>components/ErrorDetailsModal.tsx\<close>. The service worker and the clipboard
  report as events; the random ids of toasts are parameters of the events that show one.
\<close>

section \<open>The cards of the toasts\<close>

definition toast_isError :: "toast \<Rightarrow> bool" where
  "toast_isError t = (t_type t = Toast_Error \<or> truthy_str (t_details t))"

text \<open>A subtle toast is its text; another has its type, its text, the label of its action and, for an error, the button for the details.\<close>

datatype toast_card = Subtle_Card string | Full_Card toast_type string "string option" bool

definition toast_card_of :: "toast \<Rightarrow> toast_card" where
  "toast_card_of t =
     (if t_mode t = Toast_Subtle then Subtle_Card (t_message t)
      else Full_Card (t_type t) (t_message t) (t_action t) (toast_isError t))"

text \<open>The modal of the details: title, description and text, and what its two buttons copy.\<close>

record error_modal =
  em_title :: string
  em_description :: "string option"
  em_text :: string

definition error_modal_of :: "string option \<Rightarrow> string option \<Rightarrow> string option \<Rightarrow> error_modal" where
  "error_modal_of title message details =
     \<lparr>em_title = str_or [title] ''Error Details'', em_description = (if truthy_str message then message else None),
      em_text = str_or [details, message] []\<rparr>"

definition copied_message :: "string option \<Rightarrow> string option \<Rightarrow> string" where
  "copied_message title message = str_or [message, title] []"

definition error_parts :: "string option \<Rightarrow> string option \<Rightarrow> string option \<Rightarrow> string list" where
  "error_parts title message details =
     (if truthy_str title then [''Title: '' @ the title] else []) @
     (if truthy_str message then [''Message: '' @ the message] else []) @
     (if truthy_str details then [''Details:'' @ [CHR 0x0A] @ the details] else [])"

definition copied_error :: "string option \<Rightarrow> string option \<Rightarrow> string option \<Rightarrow> string" where
  "copied_error title message details =
     (let parts = error_parts title message details
      in if length parts > 0 then js_join [CHR 0x0A, CHR 0x0A] parts else str_or [details, message, title] [])"

text \<open>The mark of a button that has copied: a success shows it and starts a timer of two seconds that takes it back.\<close>

record copy_mark =
  cm_shown :: bool
  cm_timers :: nat

datatype copy_event = Copy_Done bool | Copy_Timer

definition copy_mark_step :: "copy_mark \<Rightarrow> copy_event \<Rightarrow> copy_mark" where
  "copy_mark_step s e =
     (case e of
        Copy_Done ok \<Rightarrow> if ok then s\<lparr>cm_shown := True, cm_timers := cm_timers s + 1\<rparr> else s
      | Copy_Timer \<Rightarrow> if cm_timers s > 0 then s\<lparr>cm_shown := False, cm_timers := cm_timers s - 1\<rparr> else s)"

section \<open>The shell\<close>

definition isE2E :: "string \<Rightarrow> string \<Rightarrow> bool \<Rightarrow> bool \<Rightarrow> bool" where
  "isE2E mode search playwright webdriver = (mode = ''test'' \<or> js_includes search ''e2e=true'' \<or> playwright \<or> webdriver)"

text \<open>
  The variables of the module (\<open>updateSWFn\<close>, \<open>onNeedRefreshHandler\<close> and \<open>pendingReload\<close>, each set or not), the toasts and the toast whose
  details are shown.
\<close>

record shell =
  sl_registered :: bool
  sl_handler :: bool
  sl_pending :: bool
  sl_toasts :: toast_state
  sl_selected :: "toast option"

datatype shell_event =
    Init_Worker bool bool
  | Need_Refresh string
  | Manager_Mounted string
  | Controller_Change
  | Show_Other string string "toast_type option" "string option" "toast_mode option" "rat option"
  | Toast_Runs_Out "string \<times> rat"
  | Click_Toast string
  | Press_Action string
  | Press_Details string
  | Press_Dismiss string
  | Close_Details

datatype shell_output = Register_Worker | Activate_Update | Reload_Window

text \<open>The notice of a new version, with its action.\<close>

definition announce :: "string \<Rightarrow> shell \<Rightarrow> shell" where
  "announce i s =
     s\<lparr>sl_toasts := showToast i ''A new version of Kiyomi is available.'' (Some Toast_Info) None (Some Toast_Default)
          (Some ''Reload'') None (sl_toasts s)\<rparr>"

definition setOnNeedRefreshHandler :: "string \<Rightarrow> shell \<Rightarrow> shell" where
  "setOnNeedRefreshHandler i s =
     (let s' = s\<lparr>sl_handler := True\<rparr> in if sl_pending s then announce i (s'\<lparr>sl_pending := False\<rparr>) else s')"

definition initServiceWorker :: "bool \<Rightarrow> bool \<Rightarrow> shell \<Rightarrow> shell \<times> shell_output list" where
  "initServiceWorker e2e supported s = (if e2e \<or> \<not> supported then (s, []) else (s\<lparr>sl_registered := True\<rparr>, [Register_Worker]))"

definition onNeedRefresh :: "string \<Rightarrow> shell \<Rightarrow> shell" where
  "onNeedRefresh i s = (if sl_handler s then announce i s else s\<lparr>sl_pending := True\<rparr>)"

definition triggerReload :: "shell \<Rightarrow> shell_output list" where
  "triggerReload s = (if sl_registered s then [Activate_Update] else [])"

definition find_toast :: "string \<Rightarrow> shell \<Rightarrow> toast option" where
  "find_toast i s = List.find (\<lambda>t. t_id t = i \<and> t_mode t \<noteq> Toast_Subtle) (ts_toasts (sl_toasts s))"

definition select_toast :: "string \<Rightarrow> shell \<Rightarrow> shell" where
  "select_toast i s =
     (case find_toast i s of Some t \<Rightarrow> if toast_isError t then s\<lparr>sl_selected := Some t\<rparr> else s | None \<Rightarrow> s)"

text \<open>The worker reports only when it is registered; the notice is the only toast of the client that has an action.\<close>

definition shell_step :: "shell \<Rightarrow> shell_event \<Rightarrow> shell \<times> shell_output list" where
  "shell_step s e =
     (case e of
        Init_Worker e2e supported \<Rightarrow> initServiceWorker e2e supported s
      | Need_Refresh i \<Rightarrow> (if sl_registered s then onNeedRefresh i s else s, [])
      | Manager_Mounted i \<Rightarrow> (setOnNeedRefreshHandler i s, [])
      | Controller_Change \<Rightarrow> (s, if sl_registered s then [Reload_Window] else [])
      | Show_Other i message ty details mode d \<Rightarrow>
          (s\<lparr>sl_toasts := showToast i message ty details mode None d (sl_toasts s)\<rparr>, [])
      | Toast_Runs_Out t \<Rightarrow> (s\<lparr>sl_toasts := toast_step (sl_toasts s) (Toast_Timer t)\<rparr>, [])
      | Click_Toast i \<Rightarrow> (select_toast i s, [])
      | Press_Details i \<Rightarrow> (select_toast i s, [])
      | Press_Action i \<Rightarrow>
          (case find_toast i s of
             Some t \<Rightarrow>
               if t_action t \<noteq> None then (s\<lparr>sl_toasts := removeToast i (sl_toasts s)\<rparr>, triggerReload s) else (s, [])
           | None \<Rightarrow> (s, []))
      | Press_Dismiss i \<Rightarrow>
          (case find_toast i s of Some t \<Rightarrow> (s\<lparr>sl_toasts := removeToast i (sl_toasts s)\<rparr>, []) | None \<Rightarrow> (s, []))
      | Close_Details \<Rightarrow> (s\<lparr>sl_selected := None\<rparr>, []))"

definition initial_shell :: shell where
  "initial_shell = \<lparr>sl_registered = False, sl_handler = False, sl_pending = False, sl_toasts = no_toasts, sl_selected = None\<rparr>"

text \<open>What the container renders: nothing, or the cards and the modal of the selected toast.\<close>

definition container_view :: "shell \<Rightarrow> (toast_card list \<times> error_modal option) option" where
  "container_view s =
     (if ts_toasts (sl_toasts s) = [] \<and> sl_selected s = None then None
      else Some (map toast_card_of (ts_toasts (sl_toasts s)),
                 map_option (\<lambda>t. error_modal_of (Some ''Error Details'') (Some (t_message t)) (t_details t)) (sl_selected s)))"

section \<open>A new version is offered, once\<close>

definition shell_next :: "shell \<Rightarrow> shell_event \<Rightarrow> shell" where
  "shell_next s e = fst (shell_step s e)"

text \<open>An update that waits for the handler is known to come from a worker, and is not kept back when there is a handler.\<close>

definition shell_ok :: "shell \<Rightarrow> bool" where
  "shell_ok s = (sl_pending s \<longrightarrow> sl_registered s \<and> \<not> sl_handler s)"

lemma shell_ok_step: "shell_ok s \<Longrightarrow> shell_ok (shell_next s e)"
  by (cases e)
    (auto simp: shell_next_def shell_step_def shell_ok_def initServiceWorker_def onNeedRefresh_def setOnNeedRefreshHandler_def
      announce_def select_toast_def Let_def split: option.splits)

interpretation shell_machine: machine shell_next initial_shell shell_ok
  by unfold_locales (simp_all add: shell_ok_step, simp add: shell_ok_def initial_shell_def)

definition offers :: "string \<Rightarrow> shell \<Rightarrow> bool" where
  "offers i s = list_ex (\<lambda>t. t_id t = i \<and> toast_card_of t = Full_Card Toast_Info ''A new version of Kiyomi is available.'' (Some ''Reload'') False)
     (ts_toasts (sl_toasts s))"

lemma offers_announce: "offers i (announce i s)"
  by (simp add: offers_def announce_def showToast_def toast_card_of_def toast_isError_def truthy_str_def)

text \<open>Without a handler an update keeps waiting.\<close>

lemma waits_for_handler:
  assumes "sl_pending s" "\<forall>e \<in> set es. \<forall>i. e \<noteq> Manager_Mounted i"
  shows "sl_pending (run_events shell_next s es)"
  using assms
proof (induction es arbitrary: s)
  case (Cons e es)
  then have "sl_pending (shell_next s e)"
    by (cases e) (auto simp: shell_next_def shell_step_def initServiceWorker_def onNeedRefresh_def announce_def select_toast_def
        split: option.split)
  with Cons show ?case by simp
qed simp

lemma find_toast_id: "find_toast i s = Some t \<Longrightarrow> t_id t = i"
  by (auto simp: find_toast_def find_Some_iff)

lemma offers_found: "offers i s \<Longrightarrow> find_toast i s \<noteq> None"
  by (auto simp: offers_def find_toast_def find_None_iff list_ex_iff toast_card_of_def split: if_splits)

text \<open>
  C18: A new version is offered. A worker that reports a new version is answered with a toast at once, if the application is mounted, or
  when it is mounted, whatever happens in between; an update is never kept back while there is a handler. If the toast is the only
  one with its id, its button activates the update and takes the toast away. But it is offered once: when the timer of the toast has run, no
  offer is left, and mounting the application does not make another.
\<close>

theorem update_is_offered:
  assumes "s = run_events shell_next initial_shell es" "sl_registered s" "u = shell_next s (Need_Refresh i)"
  shows "(sl_handler s \<longrightarrow> offers i u) \<and>
    (\<not> sl_handler s \<and> (\<forall>e \<in> set es'. \<forall>j. e \<noteq> Manager_Mounted j) \<longrightarrow>
      offers j (shell_next (run_events shell_next u es') (Manager_Mounted j))) \<and>
    (offers i s \<and> filter (\<lambda>t. t_id t = i) (ts_toasts (sl_toasts s)) = [t] \<longrightarrow>
      snd (shell_step s (Press_Action i)) = [Activate_Update] \<and> \<not> offers i (shell_next s (Press_Action i))) \<and>
    (sl_handler s \<longrightarrow> \<not> offers i (run_events shell_next u [Toast_Runs_Out (i, 10000), Manager_Mounted j]))"
proof (rule conjI4; (intro impI)?)
  have ok: "shell_ok s" unfolding assms(1) by (rule shell_machine.inv_run)
  show "offers i u" if "sl_handler s"
    using that assms(2) by (simp add: assms(3) shell_next_def shell_step_def onNeedRefresh_def offers_announce)
  show "offers j (shell_next (run_events shell_next u es') (Manager_Mounted j))"
    if "\<not> sl_handler s \<and> (\<forall>e \<in> set es'. \<forall>j. e \<noteq> Manager_Mounted j)"
  proof -
    have "sl_pending u" using that assms(2) by (simp add: assms(3) shell_next_def shell_step_def onNeedRefresh_def)
    with that have "sl_pending (run_events shell_next u es')" by (intro waits_for_handler) auto
    then show ?thesis by (simp add: shell_next_def shell_step_def setOnNeedRefreshHandler_def offers_announce)
  qed
  show "snd (shell_step s (Press_Action i)) = [Activate_Update] \<and> \<not> offers i (shell_next s (Press_Action i))"
    if *: "offers i s \<and> filter (\<lambda>t. t_id t = i) (ts_toasts (sl_toasts s)) = [t]"
  proof -
    obtain t' where t': "find_toast i s = Some t'" using * offers_found by blast
    have "t' \<in> set (filter (\<lambda>t. t_id t = i) (ts_toasts (sl_toasts s)))"
      using find_Some_mem [OF t' [unfolded find_toast_def]] by simp
    then have "t' = t" using * by simp
    moreover have "t_action t \<noteq> None"
    proof -
      obtain x where x: "x \<in> set (ts_toasts (sl_toasts s))" "t_id x = i" "t_action x = Some ''Reload''"
        using * by (auto simp: offers_def list_ex_iff toast_card_of_def split: if_splits)
      then have "x \<in> set (filter (\<lambda>t. t_id t = i) (ts_toasts (sl_toasts s)))" by simp
      with * x show ?thesis by auto
    qed
    ultimately show ?thesis
      using t' assms(2)
      by (auto simp: shell_step_def shell_next_def triggerReload_def offers_def removeToast_def list_ex_iff)
  qed
  show "\<not> offers i (run_events shell_next u [Toast_Runs_Out (i, 10000), Manager_Mounted j])" if h: "sl_handler s"
  proof -
    have np: "\<not> sl_pending s" using ok h by (auto simp: shell_ok_def)
    let ?v = "shell_next u (Toast_Runs_Out (i, 10000))"
    have v: "\<not> sl_pending ?v" "\<not> offers i ?v"
      using h np assms(2)
      by (simp_all add: assms(3) shell_next_def shell_step_def onNeedRefresh_def announce_def showToast_def toast_step_def toast_timer_def
          removeToast_def offers_def list_ex_iff)
    have "shell_next ?v (Manager_Mounted j) = ?v\<lparr>sl_handler := True\<rparr>"
      using v(1) by (simp add: shell_next_def [of ?v] shell_step_def setOnNeedRefreshHandler_def Let_def)
    with v(2) show ?thesis by (simp add: offers_def)
  qed
qed

text \<open>\<open>update_is_offered\<close> for a worker that reports before the application is mounted.\<close>

theorem update_is_offered_witness:
  "offers ''b'' (shell_next (run_events shell_next (shell_next (shell_next initial_shell (Init_Worker False True)) (Need_Refresh ''a''))
     [Show_Other ''x'' ''hello'' None None None None]) (Manager_Mounted ''b''))"
proof -
  have "sl_registered (run_events shell_next initial_shell [Init_Worker False True])" "\<not> sl_handler (run_events shell_next initial_shell [Init_Worker False True])"
    by code_simp+
  with update_is_offered [OF refl _ refl, of "[Init_Worker False True]" "''a''" "[Show_Other ''x'' ''hello'' None None None None]" "''b''"]
  show ?thesis by simp
qed

section \<open>The details of an error\<close>

text \<open>
  The details of an error stay on the screen when its toast goes away, until they are closed; the copied text holds the title, the
  message and the details.
\<close>

lemma details_stay:
  assumes "find_toast i s = Some t" "toast_isError t" "\<forall>e \<in> set es. e \<noteq> Close_Details \<and> (\<forall>j. e \<noteq> Click_Toast j \<and> e \<noteq> Press_Details j)"
  shows "sl_selected (run_events shell_next (shell_next s (Press_Details i)) es) = Some t"
proof -
  have "sl_selected (run_events shell_next u es) = sl_selected u" for u
    using assms(3)
  proof (induction es arbitrary: u)
    case (Cons e es)
    then have "sl_selected (shell_next u e) = sl_selected u"
      by (cases e) (auto simp: shell_next_def shell_step_def initServiceWorker_def onNeedRefresh_def announce_def setOnNeedRefreshHandler_def
          Let_def split: option.split)
    with Cons show ?case by simp
  qed simp
  then show ?thesis using assms(1,2) by (simp add: shell_next_def [of s] shell_step_def select_toast_def)
qed

lemma sublist_pre: "sublist x z \<Longrightarrow> sublist x (w @ z)"
  unfolding sublist_def by (metis append_assoc)

lemma sublist_join: "x \<in> set xs \<Longrightarrow> sublist x (js_join sep xs)"
proof (induction xs rule: induct_list012)
  case (3 a b xs)
  then show ?case
    using sublist_pre [of x "js_join sep (b # xs)" "a @ sep"] by (auto simp: sublist_append_rightI)
qed simp_all

lemma copied_error_complete:
  "x \<in> set (error_parts title message details) \<Longrightarrow> sublist x (copied_error title message details)"
  using sublist_join [of x "error_parts title message details"] by (auto simp: copied_error_def Let_def)

end
