(* ===== verification/Chapter_List.thy ===== *)
theory Chapter_List
  imports Chapter_Row
begin

text \<open>
  \<open>components/ChapterList.tsx\<close> as a machine over its two hooks, with \<open>chapter-list/ChapterListHeader.tsx\<close>,
  \<open>chapter-list/BatchActionBar.tsx\<close>, \<open>chapter-list/BatchRemoveDialog.tsx\<close> and \<open>components/Pagination.tsx\<close>. What the page passes is part of
  the state and changes by an event; a click on something that is not rendered or is disabled does nothing. The
  details page passes all batch callbacks or none.
\<close>

section \<open>Pages\<close>

text \<open>\<open>Pagination\<close>: whether the first button is disabled, the text, whether the second is.\<close>

definition canGoNext :: "int \<Rightarrow> bool option \<Rightarrow> int option \<Rightarrow> bool" where
  "canGoNext currentPage hasNextPage pages =
     (case pages of Some t \<Rightarrow> currentPage < t | None \<Rightarrow> truthy_bool hasNextPage)"

definition pagination_view :: "int \<Rightarrow> bool option \<Rightarrow> int option \<Rightarrow> bool \<times> string \<times> bool" where
  "pagination_view currentPage hasNextPage pages =
     (currentPage \<le> 1,
      (case pages of Some t \<Rightarrow> ''Page '' @ int_str currentPage @ '' of '' @ int_str t | None \<Rightarrow> ''Page '' @ int_str currentPage),
      \<not> canGoNext currentPage hasNextPage pages)"

definition page_click :: "int \<Rightarrow> bool option \<Rightarrow> int option \<Rightarrow> bool \<Rightarrow> int option" where
  "page_click currentPage hasNextPage pages forward =
     (if forward then (if canGoNext currentPage hasNextPage pages then Some (currentPage + 1) else None)
      else if currentPage \<le> 1 then None else Some (currentPage - 1))"

section \<open>The list\<close>

datatype batch_kind = Batch_Read bool | Batch_Refresh | Batch_Pull | Batch_Delete_Files | Batch_Remove

text \<open>\<open>cl_busy\<close> are the batch mutations that are pending; marking read and unread are one mutation.\<close>

record chapter_list =
  cl_props :: list_props
  cl_chapters :: "manga_chapter list"
  cl_loading :: bool
  cl_error :: bool
  cl_unavailable :: bool
  cl_noProvider :: bool
  cl_providerName :: "string option"
  cl_contentProviderName :: "string option"
  cl_refreshing :: bool
  cl_busy :: "batch_kind list"
  cl_filters :: chapter_filters
  cl_selection :: selection_state
  cl_openMenu :: "string option"

definition PAGE_SIZE :: nat where
  "PAGE_SIZE = 50"

definition cl_filtered :: "(string \<Rightarrow> string \<Rightarrow> rat) \<Rightarrow> chapter_list \<Rightarrow> manga_chapter list" where
  "cl_filtered collate s =
     (let f = cl_filters s in filteredChapters collate (cl_chapters s) (cf_filterQuery f) (cf_sortBy f) (cf_order f))"

definition cl_page :: "(string \<Rightarrow> string \<Rightarrow> rat) \<Rightarrow> chapter_list \<Rightarrow> int" where
  "cl_page collate s = safePage PAGE_SIZE (length (cl_filtered collate s)) (cf_page (cl_filters s))"

definition cl_pages :: "(string \<Rightarrow> string \<Rightarrow> rat) \<Rightarrow> chapter_list \<Rightarrow> int" where
  "cl_pages collate s = totalPages PAGE_SIZE (length (cl_filtered collate s))"

definition cl_shown :: "(string \<Rightarrow> string \<Rightarrow> rat) \<Rightarrow> chapter_list \<Rightarrow> manga_chapter list" where
  "cl_shown collate s = shown_chapters collate PAGE_SIZE (cl_chapters s) (cl_filters s)"

text \<open>A pending marking disables both of its buttons.\<close>

definition batch_busy :: "chapter_list \<Rightarrow> batch_kind \<Rightarrow> bool" where
  "batch_busy s k =
     list_ex (\<lambda>b. case (b, k) of (Batch_Read _, Batch_Read _) \<Rightarrow> True | _ \<Rightarrow> b = k) (cl_busy s)"

text \<open>\<open>BatchActionBar\<close>: its buttons, and whether each is disabled.\<close>

datatype bar_item = Bar_Done | Bar_All | Bar_None | Bar_Invert | Bar_Batch batch_kind

definition batch_bar :: "chapter_list \<Rightarrow> (bar_item \<times> bool) list" where
  "batch_bar s =
     (let n = length (sel_ids (cl_selection s)); b = lp_onBatch (cl_props s);
          disabled = (\<lambda>k. n = 0 \<or> batch_busy s k)
      in if \<not> sel_mode (cl_selection s) then []
         else [(Bar_Done, False), (Bar_All, False), (Bar_None, n = 0), (Bar_Invert, False)] @
           (if b then
              [(Bar_Batch (Batch_Read True), disabled (Batch_Read True)), (Bar_Batch (Batch_Read False), disabled (Batch_Read False)),
               (Bar_Batch Batch_Refresh, disabled Batch_Refresh), (Bar_Batch Batch_Pull, disabled Batch_Pull),
               (Bar_Batch Batch_Delete_Files,
                disabled Batch_Delete_Files \<or> \<not> hasDownloadedInSelection (cl_chapters s) (cl_selection s)),
               (Bar_Batch Batch_Remove, disabled Batch_Remove)]
            else []))"

text \<open>\<open>BatchRemoveDialog\<close>: the number it names, and whether its buttons are disabled.\<close>

definition remove_dialog :: "chapter_list \<Rightarrow> (nat \<times> bool) option" where
  "remove_dialog s =
     (if sel_confirm (cl_selection s) then Some (length (sel_ids (cl_selection s)), batch_busy s Batch_Remove) else None)"

text \<open>\<open>ChapterListHeader\<close>; the refresh button is given by the page for a manga of the library.\<close>

record list_header =
  lh_count :: nat
  lh_downloaded :: "(nat \<times> nat) option"
  lh_provider :: "string option"
  lh_refresh :: "bool option"
  lh_select :: bool
  lh_sort :: string
  lh_descending :: bool

definition SORT_OPTIONS :: "(string \<times> string) list" where
  "SORT_OPTIONS = [(''source'', ''Source Order''), (''number'', ''Chapter Number''), (''date'', ''Upload Date'')]"

definition list_header_of :: "chapter_list \<Rightarrow> list_header" where
  "list_header_of s =
     (let n = length (cl_chapters s); d = downloadedCount (cl_chapters s); lib = lp_isInLibrary (cl_props s)
      in \<lparr>lh_count = n, lh_downloaded = (if lib \<and> n > 0 \<and> d > 0 then Some (d, n) else None),
          lh_provider = (if truthy_str (cl_contentProviderName s) then cl_contentProviderName s else None),
          lh_refresh = (if lib then Some (cl_refreshing s) else None),
          lh_select = (lib \<and> n > 0 \<and> \<not> sel_mode (cl_selection s)),
          lh_sort = str_or [map_of SORT_OPTIONS (cf_sortBy (cl_filters s))] (cf_sortBy (cl_filters s)),
          lh_descending = (cf_order (cl_filters s) = ''desc'')\<rparr>)"

datatype list_rows =
    List_Skeletons nat
  | List_Failed
  | List_Empty string
  | List_Rows "(manga_chapter \<times> row_props \<times> bool) list"

datatype list_view =
    No_Provider_Linked
  | Content_Unavailable string
  | List_View "(bar_item \<times> bool) list" list_header list_rows "(bool \<times> string \<times> bool) option" "(nat \<times> bool) option"

definition list_rows_of :: "(string \<Rightarrow> string \<Rightarrow> rat) \<Rightarrow> chapter_list \<Rightarrow> list_rows" where
  "list_rows_of collate s =
     (if cl_loading s then List_Skeletons 6
      else if cl_error s then List_Failed
      else if cl_filtered collate s = [] then
        List_Empty (if cf_filterQuery (cl_filters s) \<noteq> [] then ''No matching chapters found.'' else ''No chapters found.'')
      else List_Rows
        (map (\<lambda>c. (c, row_props_of (cl_props s) (sel_mode (cl_selection s)) c, c_id c \<in> set (sel_ids (cl_selection s))))
          (cl_shown collate s)))"

definition list_view_of :: "(string \<Rightarrow> string \<Rightarrow> rat) \<Rightarrow> chapter_list \<Rightarrow> list_view" where
  "list_view_of collate s =
     (if cl_noProvider s then No_Provider_Linked
      else if cl_unavailable s then Content_Unavailable (str_or [cl_providerName s, cl_contentProviderName s] ''Provider'')
      else List_View (batch_bar s) (list_header_of s) (list_rows_of collate s)
        (if cl_pages collate s > 1 then Some (pagination_view (cl_page collate s) None (Some (cl_pages collate s))) else None)
        (remove_dialog s))"

section \<open>Events\<close>

text \<open>
  \<open>New_List\<close> is a rendering with new props, given as a change of the state; the hook of the selection resets when the manga
  has changed. A row that is clicked has the key that was pressed, if any, and whether shift was.
\<close>

datatype list_event =
    New_List list_props "manga_chapter list" bool bool bool bool
  | Batch_Pending "batch_kind list"
  | Type_Query string
  | Choose_Order string
  | Toggle_Order
  | Press_Refresh
  | Press_Select
  | Press_Bar bar_item
  | Click_Row string "string option" bool
  | Open_Row_Menu "string option"
  | Click_Row_Menu string row_action
  | Click_Page bool
  | Dialog_Open bool
  | Dialog_Remove

datatype list_output = Run_Batch batch_kind "string list" | Run_Row row_action | Run_Refresh

definition on_selection :: "(selection_state \<Rightarrow> selection_state) \<Rightarrow> chapter_list \<Rightarrow> chapter_list" where
  "on_selection f s = s\<lparr>cl_selection := f (cl_selection s)\<rparr>"

definition on_filters :: "chapter_filter_event \<Rightarrow> chapter_list \<Rightarrow> chapter_list" where
  "on_filters e s = s\<lparr>cl_filters := chapter_filter_step (cl_filters s) e\<rparr>"

text \<open>The buttons of the bar; the removal opens the dialog.\<close>

definition press_bar :: "(string \<Rightarrow> string \<Rightarrow> rat) \<Rightarrow> bar_item \<Rightarrow> chapter_list \<Rightarrow> chapter_list \<times> list_output list" where
  "press_bar collate b s =
     (let b_given = lp_onBatch (cl_props s); sel = cl_selection s
      in case b of
           Bar_Done \<Rightarrow> (on_selection handleExitSelectionMode s, [])
         | Bar_All \<Rightarrow> (on_selection (handleSelectAll (cl_filtered collate s)) s, [])
         | Bar_None \<Rightarrow> (on_selection handleSelectNone s, [])
         | Bar_Invert \<Rightarrow> (on_selection (handleInvertSelection (cl_filtered collate s)) s, [])
         | Bar_Batch Batch_Remove \<Rightarrow> (on_selection (\<lambda>t. t\<lparr>sel_confirm := True\<rparr>) s, [])
         | Bar_Batch Batch_Delete_Files \<Rightarrow>
             (s, map (Run_Batch Batch_Delete_Files) (option_list (list_batch_delete b_given (cl_chapters s) sel)))
         | Bar_Batch k \<Rightarrow> (s, map (Run_Batch k) (option_list (list_batch b_given sel))))"

definition find_row :: "(string \<Rightarrow> string \<Rightarrow> rat) \<Rightarrow> chapter_list \<Rightarrow> string \<Rightarrow> (manga_chapter \<times> row_props \<times> bool) option" where
  "find_row collate s i =
     (case list_view_of collate s of
        List_View _ _ (List_Rows rows) _ _ \<Rightarrow> List.find (\<lambda>r. c_id (fst r) = i) rows
      | _ \<Rightarrow> None)"

definition list_shown :: "chapter_list \<Rightarrow> bool" where
  "list_shown s = (\<not> cl_noProvider s \<and> \<not> cl_unavailable s)"

definition list_step ::
    "(string \<Rightarrow> string \<Rightarrow> rat) \<Rightarrow> chapter_list \<Rightarrow> list_event \<Rightarrow> chapter_list \<times> list_output list" where
  "list_step collate s e =
     (case e of
        New_List p cs loading err unavailable noProvider \<Rightarrow>
          (let s' = s\<lparr>cl_props := p, cl_chapters := cs, cl_loading := loading, cl_error := err, cl_unavailable := unavailable,
                     cl_noProvider := noProvider\<rparr>
           in if lp_mangaId p \<noteq> lp_mangaId (cl_props s)
              then on_selection (\<lambda>t. selection_step t ([], Manga_Changed)) s' else s', [])
      | Batch_Pending ks \<Rightarrow> (s\<lparr>cl_busy := ks\<rparr>, [])
      | Type_Query q \<Rightarrow> (if list_shown s then on_filters (Set_Query q) s else s, [])
      | Choose_Order v \<Rightarrow>
          (if list_shown s \<and> v \<in> set (map fst SORT_OPTIONS) then on_filters (Set_Order v (cf_order (cl_filters s))) s else s, [])
      | Toggle_Order \<Rightarrow>
          (if list_shown s
           then on_filters (Set_Order (cf_sortBy (cl_filters s)) (if cf_order (cl_filters s) = ''desc'' then ''asc'' else ''desc'')) s
           else s, [])
      | Press_Refresh \<Rightarrow> (s, if list_shown s \<and> lh_refresh (list_header_of s) = Some False then [Run_Refresh] else [])
      | Press_Select \<Rightarrow>
          (if list_shown s \<and> lh_select (list_header_of s) then on_selection (\<lambda>t. t\<lparr>sel_mode := True\<rparr>) s else s, [])
      | Press_Bar b \<Rightarrow> if list_shown s \<and> (b, False) \<in> set (batch_bar s) then press_bar collate b s else (s, [])
      | Click_Row i key shift \<Rightarrow>
          (case find_row collate s i of
             Some (c, p, _) \<Rightarrow>
               (case row_toggle p c key of
                  Some j \<Rightarrow> (on_selection (handleToggleRow (cl_filtered collate s) j shift) s, [])
                | None \<Rightarrow> (s, []))
           | None \<Rightarrow> (s, []))
      | Open_Row_Menu i \<Rightarrow> (s\<lparr>cl_openMenu := i\<rparr>, [])
      | Click_Row_Menu i a \<Rightarrow>
          (case find_row collate s i of
             Some (c, p, _) \<Rightarrow>
               if cl_openMenu s = Some i then (s\<lparr>cl_openMenu := None\<rparr>, map Run_Row (option_list (menu_click p c a))) else (s, [])
           | None \<Rightarrow> (s, []))
      | Click_Page forward \<Rightarrow>
          (if list_shown s \<and> cl_pages collate s > 1
           then (case page_click (cl_page collate s) None (Some (cl_pages collate s)) forward of
                   Some p \<Rightarrow> on_filters (Set_Page p) s | None \<Rightarrow> s)
           else s, [])
      | Dialog_Open b \<Rightarrow>
          (if list_shown s \<and> sel_confirm (cl_selection s) \<and> \<not> b then on_selection (\<lambda>t. t\<lparr>sel_confirm := False\<rparr>) s else s, [])
      | Dialog_Remove \<Rightarrow>
          if list_shown s \<and> remove_dialog s = Some (length (sel_ids (cl_selection s)), False)
          then (let (t, ids) = handleConfirmRemove (lp_onBatch (cl_props s)) (cl_selection s)
                in (s\<lparr>cl_selection := t\<rparr>, map (Run_Batch Batch_Remove) (option_list ids)))
          else (s, []))"

definition initial_list :: "list_props \<Rightarrow> chapter_list" where
  "initial_list p =
     \<lparr>cl_props = p, cl_chapters = [], cl_loading = True, cl_error = False, cl_unavailable = False, cl_noProvider = False,
      cl_providerName = None, cl_contentProviderName = None, cl_refreshing = False, cl_busy = [],
      cl_filters = initial_chapter_filters ''source'' ''desc'', cl_selection = initial_selection, cl_openMenu = None\<rparr>"

section \<open>Rows and pages\<close>

lemma map_id_source_order: "map c_id (with_source_order cs) = map c_id cs"
proof -
  have "map c_id (map (\<lambda>(i, c). c\<lparr>c_sourceOrder := f i c\<rparr>) (enumerate n cs)) = map c_id cs" for n f
    by (induction cs arbitrary: n) auto
  then show ?thesis by (simp add: with_source_order_def)
qed

lemma shown_ids: "c_id ` set (cl_shown collate s) \<subseteq> c_id ` set (cl_chapters s)"
proof -
  have "set (cl_shown collate s) \<subseteq> set (cl_filtered collate s)"
    by (auto simp: cl_shown_def shown_chapters_def paginatedChapters_def cl_filtered_def js_slice_def Let_def
        dest!: in_set_takeD in_set_dropD)
  moreover have "set (cl_filtered collate s) \<subseteq> set (with_source_order (cl_chapters s))"
    by (auto simp: cl_filtered_def filteredChapters_def Let_def)
  moreover have "c_id ` set (with_source_order (cl_chapters s)) = c_id ` set (cl_chapters s)"
    by (metis map_id_source_order list.set_map)
  ultimately show ?thesis by blast
qed

section \<open>Batch actions\<close>

definition list_next :: "(string \<Rightarrow> string \<Rightarrow> rat) \<Rightarrow> chapter_list \<Rightarrow> list_event \<Rightarrow> chapter_list" where
  "list_next collate s e = fst (list_step collate s e)"

lemma page_selection [simp]:
  "cl_selection (on_filters e s) = cl_selection s"
  "cl_selection (on_selection f s) = f (cl_selection s)"
  by (simp_all add: on_filters_def on_selection_def)

text \<open>Every event changes the selection by handlers of its hook.\<close>

lemma selection_by_hook:
  "\<exists>evs. cl_selection (list_next collate s e) = run_events selection_step (cl_selection s) evs"
proof -
  have one: "\<exists>evs. t = run_events selection_step (cl_selection s) evs" if "t = selection_step (cl_selection s) (f, ev)" for t f ev
    using that by (intro exI [of _ "[(f, ev)]"]) simp
  have none: "\<exists>evs. cl_selection s = run_events selection_step (cl_selection s) evs" by (rule exI [of _ "[]"]) simp
  show ?thesis
  proof (cases e)
    case (Press_Bar b)
    show ?thesis
    proof (cases b)
      case (Bar_Batch k)
      then show ?thesis
        using none one [of _ "[]" "Open_Confirm True"]
        by (cases k) (auto simp: Press_Bar list_next_def list_step_def press_bar_def Let_def)
    qed (use none one [of _ "[]" Exit_Selection_Mode] one [of _ "cl_filtered collate s" Select_All] one [of _ "[]" Select_None]
          one [of _ "cl_filtered collate s" Invert_Selection]
        in \<open>auto simp: Press_Bar list_next_def list_step_def press_bar_def Let_def\<close>)
  next
    case (Click_Row i key shift)
    then show ?thesis
      using none one [of _ "cl_filtered collate s" "Toggle_Row j shift" for j]
      by (auto simp: list_next_def list_step_def split: option.split)
  next
    case (Dialog_Open b)
    then show ?thesis
      using none one [of _ "[]" "Open_Confirm False"] by (auto simp: list_next_def list_step_def)
  next
    case Dialog_Remove
    then show ?thesis
      using none one [of _ "[]" "Confirm_Remove (lp_onBatch (cl_props s))"]
      by (auto simp: list_next_def list_step_def split: prod.split)
  next
    case Press_Select
    then show ?thesis
      using none one [of _ "[]" "Set_Selection_Mode True"] by (auto simp: list_next_def list_step_def)
  next
    case (New_List p cs l err u n)
    then show ?thesis
      using none one [of _ "[]" Manga_Changed] by (auto simp: list_next_def list_step_def Let_def)
  qed (use none in \<open>auto simp: list_next_def list_step_def Let_def split: option.split\<close>)
qed

lemma distinct_selection_from:
  "distinct (sel_ids t) \<Longrightarrow> distinct (sel_ids (run_events selection_step t evs))"
  by (rule selection.inv_run_from)

interpretation list_machine: machine "list_next collate" "initial_list p" "\<lambda>s. distinct (sel_ids (cl_selection s))" for collate p
proof
  show "distinct (sel_ids (cl_selection (initial_list p)))" by (simp add: initial_list_def initial_selection_def)
  show "distinct (sel_ids (cl_selection (list_next collate s e)))" if "distinct (sel_ids (cl_selection s))" for s e
    using selection_by_hook [of collate s e] distinct_selection_from that by metis
qed

text \<open>The operation of the details page for a batch.\<close>

definition batch_operation :: "details_route \<Rightarrow> details_data \<Rightarrow> batch_kind \<Rightarrow> string list \<Rightarrow> batch_op option" where
  "batch_operation r d k ids =
     (let t = targetMangaId r d; p = activeContentProviderId r d
      in case k of
           Batch_Read b \<Rightarrow> handleBatchUpdateProgress t p ids (Some b) (Some 0)
         | Batch_Refresh \<Rightarrow> handleBatchRefresh t p ids
         | Batch_Pull \<Rightarrow> handleBatchPull_op t p ids
         | Batch_Delete_Files \<Rightarrow> handleBatchDeleteFiles t p ids
         | Batch_Remove \<Rightarrow> handleBatchRemove t p ids)"

lemma details_list_batch:
  "details_list r d pulling deleting removing = Some p \<Longrightarrow> lp_onBatch p \<longleftrightarrow> isInLibrary r d \<and> truthy_str (activeContentProviderId r d)"
  by (auto simp: details_list_def split: option.splits)

lemma batch_output:
  assumes "Run_Batch k ids \<in> set (snd (list_step collate s e))"
  shows "ids = sel_ids (cl_selection s) \<and> lp_onBatch (cl_props s) \<and> \<not> batch_busy s k \<and>
    (if k = Batch_Remove then e = Dialog_Remove \<and> remove_dialog s = Some (length ids, False)
     else e = Press_Bar (Bar_Batch k) \<and> ids \<noteq> [] \<and> (Bar_Batch k, False) \<in> set (batch_bar s))"
proof (cases e)
  case (Press_Bar b)
  show ?thesis
  proof (cases b)
    case (Bar_Batch k')
    then show ?thesis
      using assms
      by (cases k') (auto simp: Press_Bar list_step_def press_bar_def list_batch_def list_batch_delete_def batch_bar_def Let_def
          split: if_splits)
  qed (use assms in \<open>auto simp: Press_Bar list_step_def press_bar_def Let_def split: if_splits\<close>)
next
  case Dialog_Remove
  then show ?thesis
    using assms
    by (auto simp: list_step_def handleConfirmRemove_def remove_dialog_def split: if_splits)
qed (use assms in \<open>auto simp: list_step_def Let_def split: if_splits option.splits\<close>)


text \<open>Two chapters of a manga in the library, in selection mode.\<close>

definition sample_list_props :: list_props where
  "sample_list_props =
     \<lparr>lp_mangaId = ''m'', lp_providerId = None, lp_remoteId = None, lp_isInLibrary = True, lp_onPullChapter = True,
      lp_onDeleteFiles = True, lp_onRemoveChapter = True, lp_onBatch = True, lp_pulling = [], lp_deleting = [], lp_removing = []\<rparr>"

definition sample_list_events :: "list_event list" where
  "sample_list_events =
     [New_List sample_list_props [blank_manga_chapter ''a'', blank_manga_chapter ''b''] False False False False, Press_Select,
      Click_Row ''a'' None False]"

definition sample_list_mode :: chapter_list where
  "sample_list_mode = run_events (list_next (\<lambda>a b. 0)) (initial_list sample_list_props) (butlast sample_list_events)"

definition sample_list_state :: chapter_list where
  "sample_list_state = run_events (list_next (\<lambda>a b. 0)) (initial_list sample_list_props) sample_list_events"

lemma sample_list_facts:
  "(case find_row (\<lambda>a b. 0) sample_list_mode ''a'' of
      Some (c, pr, sel) \<Rightarrow> rw_isSelectionMode pr \<and> \<not> rw_isProcessing pr | None \<Rightarrow> False) \<and>
   sel_last (cl_selection sample_list_mode) = None \<and> ''a'' \<notin> set (sel_ids (cl_selection sample_list_mode)) \<and>
   lp_onBatch (cl_props sample_list_mode) \<and> \<not> batch_busy sample_list_mode (Batch_Read True) \<and>
   snd (list_step (\<lambda>a b. 0) sample_list_state (Press_Bar (Bar_Batch Batch_Pull))) = [Run_Batch Batch_Pull [''a'']] \<and>
   list_shown sample_list_state \<and> \<not> cl_loading sample_list_state \<and> \<not> cl_error sample_list_state \<and>
   list_ex (\<lambda>c. c_id c = ''b'') (cl_filtered (\<lambda>a b. 0) sample_list_state)"
  by code_simp


text \<open>
  A chapter that is gone stays selected. When a chapter is selected and the list is then refreshed without it, no row shows it any
  more, but the bar still counts it and the next batch action, say to mark as read, is requested for it too.
\<close>

theorem vanished_stays_selected:
  assumes "find_row collate s i = Some (c, pr, sel)" "rw_isSelectionMode pr" "\<not> rw_isProcessing pr" "sel_last (cl_selection s) = None"
    and "i \<notin> set (sel_ids (cl_selection s))" "i \<notin> c_id ` set cs" "lp_onBatch (cl_props s)" "\<not> batch_busy s (Batch_Read b)"
    and "u = run_events (list_next collate) s [Click_Row i None False, New_List (cl_props s) cs False False False False]"
  shows "find_row collate u i = None \<and>
    (\<exists>ids. snd (list_step collate u (Press_Bar (Bar_Batch (Batch_Read b)))) = [Run_Batch (Batch_Read b) ids] \<and> i \<in> set ids)"
proof -
  have id: "c_id c = i"
    using assms(1) find_Some_mem by (fastforce simp: find_row_def split: list_view.splits list_rows.splits)
  have "(c, pr, sel) \<in> set (map (\<lambda>c. (c, row_props_of (cl_props s) (sel_mode (cl_selection s)) c, c_id c \<in> set (sel_ids (cl_selection s))))
          (cl_shown collate s))"
    using assms(1) find_Some_mem
    by (fastforce simp: find_row_def list_view_of_def list_rows_of_def split: list_view.splits list_rows.splits if_splits)
  then have mode: "sel_mode (cl_selection s)" using assms(2) by (auto simp: row_props_of_def Let_def)
  define v where "v = on_selection (toggle_one i) s"
  have v: "list_next collate s (Click_Row i None False) = v"
    using assms(1-4) id by (simp add: list_next_def list_step_def row_toggle_def handleToggleRow_def on_selection_def v_def)
  have u: "u = v\<lparr>cl_chapters := cs, cl_loading := False, cl_error := False, cl_unavailable := False, cl_noProvider := False\<rparr>"
    using v by (simp add: assms(9)) (simp add: list_next_def list_step_def v_def on_selection_def Let_def)
  have ids: "i \<in> set (sel_ids (cl_selection u))" "sel_mode (cl_selection u)"
    using assms(5) mode by (simp_all add: u v_def set_toggle_one) (simp add: toggle_one_def)
  have "c_id ` set (cl_shown collate u) \<subseteq> c_id ` set cs"
    using shown_ids [of collate u] by (simp add: u)
  then have "i \<notin> c_id ` set (cl_shown collate u)" using assms(6) by blast
  then have "find_row collate u i = None"
    by (auto simp: find_row_def list_view_of_def list_rows_of_def find_None_iff split: list_view.split list_rows.split)
  moreover have props: "cl_props u = cl_props s" "list_shown u" "\<not> batch_busy u (Batch_Read b)"
    using assms(8) by (simp_all add: u v_def on_selection_def list_shown_def batch_busy_def)
  have "snd (list_step collate u (Press_Bar (Bar_Batch (Batch_Read b)))) = [Run_Batch (Batch_Read b) (sel_ids (cl_selection u))]"
    using ids assms(7) props
    by (cases b) (auto simp: list_step_def batch_bar_def press_bar_def list_batch_def option_list_def Let_def)
  with calculation show ?thesis using ids(1) by blast
qed

text \<open>The buttons of the pages, as long as there is more than one page.\<close>

lemma click_page:
  assumes "list_shown s" "cl_pages collate s > 1" "p = cl_page collate s"
  shows "p < cl_pages collate s \<Longrightarrow> list_next collate s (Click_Page True) = on_filters (Set_Page (p + 1)) s"
    and "1 < p \<Longrightarrow> list_next collate s (Click_Page False) = on_filters (Set_Page (p - 1)) s"
  using assms by (simp_all add: list_next_def list_step_def page_click_def canGoNext_def)

lemma set_page:
  assumes "1 \<le> q" "q \<le> cl_pages collate s"
  shows "cl_page collate (on_filters (Set_Page q) s) = q" "cl_pages collate (on_filters (Set_Page q) s) = cl_pages collate s"
    "cl_filtered collate (on_filters (Set_Page q) s) = cl_filtered collate s" "list_shown (on_filters (Set_Page q) s) = list_shown s"
  using assms by (simp_all add: cl_page_def cl_pages_def cl_filtered_def on_filters_def list_shown_def safePage_id PAGE_SIZE_def Let_def)

lemma pages_reachable:
  assumes "list_shown s" "1 < cl_pages collate s" "1 \<le> q" "q \<le> cl_pages collate s"
  shows "\<exists>es. set es \<subseteq> {Click_Page True, Click_Page False} \<and>
    (\<exists>q'. run_events (list_next collate) s es = s \<or> run_events (list_next collate) s es = on_filters (Set_Page q') s) \<and>
    cl_page collate (run_events (list_next collate) s es) = q"
  using assms
proof (induction "nat \<bar>q - cl_page collate s\<bar>" arbitrary: s)
  case 0
  then show ?case by (intro exI [of _ "[]"]) simp
next
  case (Suc n)
  let ?p = "cl_page collate s"
  have range: "1 \<le> ?p" "?p \<le> cl_pages collate s"
    using safePage_range [of PAGE_SIZE "length (cl_filtered collate s)" "cf_page (cl_filters s)"] Suc.prems(2)
    by (auto simp: cl_page_def cl_pages_def PAGE_SIZE_def)
  define e where "e = Click_Page (?p < q)"
  define r where "r = (if ?p < q then ?p + 1 else ?p - 1)"
  have r: "1 \<le> r" "r \<le> cl_pages collate s" "n = nat \<bar>q - r\<bar>" using Suc.hyps(2) Suc.prems(3,4) range by (auto simp: r_def)
  have step: "list_next collate s e = on_filters (Set_Page r) s"
    using click_page [OF Suc.prems(1,2) refl] Suc.hyps(2) Suc.prems(3,4) by (auto simp: e_def r_def)
  note sp = set_page [OF r(1,2)]
  have "\<exists>es. set es \<subseteq> {Click_Page True, Click_Page False} \<and>
    (\<exists>q'. run_events (list_next collate) (on_filters (Set_Page r) s) es = on_filters (Set_Page r) s \<or>
       run_events (list_next collate) (on_filters (Set_Page r) s) es = on_filters (Set_Page q') (on_filters (Set_Page r) s)) \<and>
    cl_page collate (run_events (list_next collate) (on_filters (Set_Page r) s) es) = q"
    using Suc.hyps(1) [of "on_filters (Set_Page r) s"] r(3) sp Suc.prems by simp
  then obtain es q' where es: "set es \<subseteq> {Click_Page True, Click_Page False}"
    "run_events (list_next collate) (on_filters (Set_Page r) s) es = on_filters (Set_Page r) s \<or>
       run_events (list_next collate) (on_filters (Set_Page r) s) es = on_filters (Set_Page q') (on_filters (Set_Page r) s)"
    "cl_page collate (run_events (list_next collate) (on_filters (Set_Page r) s) es) = q" by blast
  have "on_filters (Set_Page q') (on_filters (Set_Page r) s) = on_filters (Set_Page q') s" by (simp add: on_filters_def)
  with es step show ?case by (intro exI [of _ "e # es"]) (auto simp: e_def)
qed

lemma shown_of_page: "cl_shown collate s = paginatedChapters PAGE_SIZE (cl_page collate s) (cl_filtered collate s)"
proof -
  have "paginatedChapters ps (safePage ps (length xs) p) xs = paginatedChapters ps p xs" if "0 < ps" for ps p and xs :: "manga_chapter list"
    using safePage_range [OF that, of "length xs" p] totalPages_pos [OF that, of "length xs"] safePage_id [OF that]
    by (cases "xs = []") (auto simp: paginatedChapters_def Let_def js_slice_def)
  then show ?thesis
    by (simp add: cl_shown_def shown_chapters_def cl_page_def cl_filtered_def PAGE_SIZE_def Let_def)
qed

lemma in_some_page:
  assumes "c \<in> set (cl_filtered collate s)"
  obtains q where "1 \<le> q" "q \<le> cl_pages collate s" "c \<in> set (paginatedChapters PAGE_SIZE q (cl_filtered collate s))"
proof -
  let ?xs = "cl_filtered collate s"
  have "c \<in> set (concat (map (\<lambda>i. paginatedChapters PAGE_SIZE (int i + 1) ?xs) [0..<nat (totalPages PAGE_SIZE (length ?xs))]))"
    using assms by (subst concat_pages) (simp_all add: PAGE_SIZE_def)
  then obtain i where "i < nat (totalPages PAGE_SIZE (length ?xs))" "c \<in> set (paginatedChapters PAGE_SIZE (int i + 1) ?xs)" by auto
  then show thesis by (intro that [of "int i + 1"]) (auto simp: cl_pages_def)
qed

text \<open>
  C11: Every chapter that matches can be brought to the screen. In every state in which the list shows rows, for every chapter that passes the filter
  there are clicks on the buttons of the pages, and nothing else, after which its row is shown; they change neither the
  filter nor the selection.
\<close>

theorem every_chapter_reached:
  assumes "list_shown s" "\<not> cl_loading s" "\<not> cl_error s" "c \<in> set (cl_filtered collate s)"
  shows "\<exists>es. set es \<subseteq> {Click_Page True, Click_Page False} \<and> find_row collate (run_events (list_next collate) s es) (c_id c) \<noteq> None \<and>
    cl_filtered collate (run_events (list_next collate) s es) = cl_filtered collate s \<and>
    cl_selection (run_events (list_next collate) s es) = cl_selection s"
proof -
  obtain q where q: "1 \<le> q" "q \<le> cl_pages collate s" "c \<in> set (paginatedChapters PAGE_SIZE q (cl_filtered collate s))"
    using assms(4) by (rule in_some_page)
  have "\<exists>es q'. set es \<subseteq> {Click_Page True, Click_Page False} \<and>
    (run_events (list_next collate) s es = s \<or> run_events (list_next collate) s es = on_filters (Set_Page q') s) \<and>
    cl_page collate (run_events (list_next collate) s es) = q"
  proof (cases "1 < cl_pages collate s")
    case True
    from pages_reachable [OF assms(1) this q(1,2)] show ?thesis by blast
  next
    case False
    have "cl_page collate s = q"
      using safePage_range [of PAGE_SIZE "length (cl_filtered collate s)" "cf_page (cl_filters s)"] False q
      by (auto simp: cl_page_def cl_pages_def PAGE_SIZE_def)
    then show ?thesis by (intro exI [of _ "[]"]) simp
  qed
  then obtain es q' where es: "set es \<subseteq> {Click_Page True, Click_Page False}"
    "run_events (list_next collate) s es = s \<or> run_events (list_next collate) s es = on_filters (Set_Page q') s"
    "cl_page collate (run_events (list_next collate) s es) = q" by blast
  let ?u = "run_events (list_next collate) s es"
  have same: "cl_filtered collate ?u = cl_filtered collate s" "cl_selection ?u = cl_selection s" "list_shown ?u" "\<not> cl_loading ?u" "\<not> cl_error ?u"
    using es(2) assms(1-3) by (auto simp: on_filters_def cl_filtered_def list_shown_def Let_def)
  have "c \<in> set (cl_shown collate ?u)" using q(3) by (simp add: shown_of_page es(3) same(1))
  moreover have "cl_filtered collate s \<noteq> []" using assms(4) by auto
  ultimately have "find_row collate ?u (c_id c) \<noteq> None"
    using same by (auto simp: find_row_def list_view_of_def list_rows_of_def list_shown_def find_None_iff)
  with es(1) same show ?thesis by blast
qed

theorem every_chapter_reached_witness:
  "\<exists>es. find_row (\<lambda>a b. 0) (run_events (list_next (\<lambda>a b. 0)) sample_list_state es) ''b'' \<noteq> None"
proof -
  have s: "list_shown sample_list_state" "\<not> cl_loading sample_list_state" "\<not> cl_error sample_list_state"
    using sample_list_facts by blast+
  obtain c where c: "c \<in> set (cl_filtered (\<lambda>a b. 0) sample_list_state)" "c_id c = ''b''"
    using sample_list_facts unfolding list_ex_iff by blast
  from every_chapter_reached [OF s c(1)] c(2) show ?thesis by auto
qed

theorem vanished_stays_selected_witness:
  "\<exists>u ids. find_row (\<lambda>a b. 0) u ''a'' = None \<and>
     snd (list_step (\<lambda>a b. 0) u (Press_Bar (Bar_Batch (Batch_Read True)))) = [Run_Batch (Batch_Read True) ids] \<and> ''a'' \<in> set ids"
proof -
  obtain c pr sel where r: "find_row (\<lambda>a b. 0) sample_list_mode ''a'' = Some (c, pr, sel)" "rw_isSelectionMode pr" "\<not> rw_isProcessing pr"
    using conjunct1 [OF sample_list_facts] by (auto split: option.splits prod.splits)
  have s: "sel_last (cl_selection sample_list_mode) = None" "''a'' \<notin> set (sel_ids (cl_selection sample_list_mode))"
    "lp_onBatch (cl_props sample_list_mode)" "\<not> batch_busy sample_list_mode (Batch_Read True)"
    using sample_list_facts by blast+
  from vanished_stays_selected [OF r s(1,2) _ s(3,4) refl, of "[blank_manga_chapter ''b'']"] show ?thesis by auto
qed

end
