(* ===== verification/Job_Rows.thy ===== *)
theory Job_Rows
  imports Jobs_Manager
begin

text \<open>
  The table of jobs: \<open>components/settings/SettingsJobsTab.tsx\<close> over \<open>useJobsManager.ts\<close>, and \<open>components/settings/JobRow.tsx\<close>, a component that
  renders itself for the sub-jobs of a row that is expanded. A row is known by its path, the ids from the list down to
  the job; which rows are expanded and which show their error is state of each row, kept here for all of them. \<open>format\<close> is the formatting of dates;
  a dash that stands for a missing value is \<open>None\<close>.
\<close>

section \<open>A row\<close>

type_synonym job_path = "string list"

record jobs_tab =
  jb_mode :: view_mode
  jb_status :: string
  jb_type :: string
  jb_loading :: bool
  jb_jobs :: "job list"
  jb_children :: "(string \<times> job list) list"
  jb_expanded :: "job_path list"
  jb_errors :: "job_path list"
  jb_cancelling :: "string option"
  jb_deleting :: "string option"
  jb_cleaning :: bool

definition has_children :: "job \<Rightarrow> bool" where
  "has_children j = (case j_child_count j of Some n \<Rightarrow> n > 0 | None \<Rightarrow> False)"

text \<open>The query for the sub-jobs of a row.\<close>

definition children_query :: "bool \<Rightarrow> job \<Rightarrow> query_opts" where
  "children_query expanded j =
     (jobsQueryOptions (Some [(''parent_id'', JStr (j_id j))]))\<lparr>qo_enabled := expanded \<and> has_children j\<rparr>"

definition status_badge :: "job_status \<Rightarrow> string" where
  "status_badge st =
     (case st of Job_Running \<Rightarrow> ''Running'' | Job_Pending \<Rightarrow> ''Pending'' | Job_Completed \<Rightarrow> ''Completed'' | Job_Failed \<Rightarrow> ''Failed'')"

definition shows_job_error :: "job \<Rightarrow> bool" where
  "shows_job_error j = (j_status j = Job_Failed \<and> truthy_str (j_error j))"

text \<open>The buttons of a row: its error, cancelling and removal, the last two with whether they are disabled.\<close>

datatype job_button = Toggle_Error_Button bool | Cancel_Button bool | Remove_Button bool

definition job_buttons :: "bool \<Rightarrow> bool \<Rightarrow> bool \<Rightarrow> job \<Rightarrow> job_button list" where
  "job_buttons showError isCancelling isDeleting j =
     (if shows_job_error j then [Toggle_Error_Button showError] else []) @
     (if j_status j = Job_Pending \<or> j_status j = Job_Running then [Cancel_Button isCancelling] else []) @
     (if j_status j = Job_Completed \<or> j_status j = Job_Failed then [Remove_Button isDeleting] else [])"

text \<open>The cells: the sub-jobs button with whether it is open and its number, the group, the metadata, the status, the retries and the dates.\<close>

record job_cells =
  jc_id :: string
  jc_type :: string
  jc_subJobs :: "(bool \<times> rat) option"
  jc_group :: "string option"
  jc_metadata :: "(string list) option"
  jc_status :: string
  jc_retries :: string
  jc_created :: "string option"
  jc_started :: "string option"
  jc_ended :: "string option"

definition formatDate :: "(string \<Rightarrow> string) \<Rightarrow> string option \<Rightarrow> string option" where
  "formatDate format d = (if truthy_str d then map_option format d else None)"

definition job_cells_of :: "(string \<Rightarrow> string) \<Rightarrow> bool \<Rightarrow> job \<Rightarrow> job_cells" where
  "job_cells_of format expanded j =
     \<lparr>jc_id = j_id j, jc_type = j_type j,
      jc_subJobs = (if has_children j then map_option (Pair expanded) (j_child_count j) else None),
      jc_group = (if truthy_str (j_concurrency_group j) then j_concurrency_group j else None),
      jc_metadata =
        (case j_metadata j of
           Some kvs \<Rightarrow> if kvs \<noteq> [] then Some (map (\<lambda>(k, v). k @ ''='' @ v) kvs) else None
         | None \<Rightarrow> None),
      jc_status = status_badge (j_status j),
      jc_retries = num_str (j_retries j) @ '' / '' @ num_str (j_max_retries j),
      jc_created = formatDate format (Some (j_created_at j)), jc_started = formatDate format (j_started_at j),
      jc_ended = formatDate format (j_completed_at j)\<rparr>"

section \<open>The lines of the table\<close>

text \<open>
  A job gives its row, its error if it is shown, and if it is expanded the heading of its sub-jobs and what is known of them. The two flags of the
  mutations go down to the sub-jobs unchanged. A row below the deepest expanded one is not expanded, so the recursion ends.
\<close>

datatype job_line =
    Job_Line job_path job bool bool
  | Error_Line job_path string
  | Heading_Line job_path string
  | Loading_Line job_path
  | Empty_Line job_path

definition deepest :: "jobs_tab \<Rightarrow> nat" where
  "deepest s = fold max (map length (jb_expanded s)) 0"

lemma fold_max_ge: "x \<in> set xs \<or> x \<le> a \<Longrightarrow> x \<le> fold max xs (a :: nat)"
  by (induction xs arbitrary: a) (auto simp: le_max_iff_disj)

lemma expanded_deepest: "p \<in> set (jb_expanded s) \<Longrightarrow> length p \<le> deepest s"
  unfolding deepest_def by (rule fold_max_ge) auto

definition heading :: "job \<Rightarrow> string" where
  "heading j =
     ''Sub-jobs of '' @ j_type j @ '' ('' @ take 8 (j_id j) @ '') '' @ num_str (num_or [j_child_count j] 0) @ '' sub-job'' @
     (if j_child_count j = Some 1 then [] else ''s'')"

function job_lines :: "jobs_tab \<Rightarrow> bool \<Rightarrow> bool \<Rightarrow> job_path \<Rightarrow> job \<Rightarrow> job_line list" where
  "job_lines s isCancelling isDeleting parent j =
     (let path = parent @ [j_id j]
      in [Job_Line path j isCancelling isDeleting] @
         (if path \<in> set (jb_errors s) \<and> shows_job_error j then [Error_Line path (the (j_error j))] else []) @
         (if path \<in> set (jb_expanded s) \<and> has_children j
          then [Heading_Line path (heading j)] @
               (case map_of (jb_children s) (j_id j) of
                  None \<Rightarrow> [Loading_Line path]
                | Some [] \<Rightarrow> [Empty_Line path]
                | Some (c # cs) \<Rightarrow> concat (map (job_lines s isCancelling isDeleting path) (c # cs)))
          else []))"
  by (pat_completeness, elim Pair_inject, hypsubst, rule refl)

termination
  by (relation "measure (\<lambda>(s, c, d, parent, j). Suc (deepest s) - length parent)")
    (auto dest: expanded_deepest)

declare job_lines.simps [simp del]

section \<open>The tab\<close>

definition job_table :: "(string \<Rightarrow> rat option) \<Rightarrow> jobs_tab \<Rightarrow> job_line list" where
  "job_table time s =
     concat (map (\<lambda>j. job_lines s (jb_cancelling s = Some (j_id j)) (jb_deleting s = Some (j_id j)) [] j)
       (filteredJobs time (jb_jobs s) (jb_status s) (jb_type s)))"

definition mode_label :: "view_mode \<Rightarrow> string" where
  "mode_label v = (if v = Flat then ''Flat (All jobs)'' else ''Hierarchical (Default)'')"

definition STATUS_FILTERS :: "(string \<times> string) list" where
  "STATUS_FILTERS =
     [(''all'', ''All Statuses''), (''pending'', ''Pending''), (''running'', ''Running''), (''completed'', ''Completed''),
      (''failed'', ''Failed'')]"

definition status_filter_label :: "string \<Rightarrow> string" where
  "status_filter_label v =
     (if v = ''pending'' then ''Pending'' else if v = ''running'' then ''Running'' else if v = ''completed'' then ''Completed''
      else if v = ''failed'' then ''Failed'' else ''All Statuses'')"

datatype jobs_body = Jobs_Loading | No_Jobs | Jobs_Table "job_line list"

definition jobs_body_of :: "(string \<Rightarrow> rat option) \<Rightarrow> jobs_tab \<Rightarrow> jobs_body" where
  "jobs_body_of time s =
     (if jb_loading s then Jobs_Loading
      else if filteredJobs time (jb_jobs s) (jb_status s) (jb_type s) = [] then No_Jobs
      else Jobs_Table (job_table time s))"

definition clear_completed_disabled :: "jobs_tab \<Rightarrow> bool" where
  "clear_completed_disabled s = (js_completed (stats (jb_jobs s)) = 0 \<or> jb_cleaning s)"

datatype jobs_event =
    Jobs_Data bool "job list"
  | Children_Data string "job list"
  | Choose_Mode view_mode
  | Choose_Status string
  | Type_Job_Filter string
  | Press_Clear_Completed
  | Press_Refresh_Jobs
  | Toggle_Sub_Jobs job_path
  | Toggle_Job_Error job_path
  | Press_Cancel job_path
  | Press_Remove job_path
  | Cancel_Answer string "shown_error option"
  | Remove_Job_Answer string "shown_error option"
  | Cleanup_Answer "shown_error + rat"

datatype jobs_output = Send_Job mutation | Refetch query_key | Jobs_Notice notice

definition shown_row :: "(string \<Rightarrow> rat option) \<Rightarrow> jobs_tab \<Rightarrow> job_path \<Rightarrow> (job \<times> bool \<times> bool) option" where
  "shown_row time s p =
     (case jobs_body_of time s of
        Jobs_Table ls \<Rightarrow>
          (case List.find (\<lambda>l. case l of Job_Line q j c d \<Rightarrow> q = p | _ \<Rightarrow> False) ls of
             Some (Job_Line q j c d) \<Rightarrow> Some (j, c, d) | _ \<Rightarrow> None)
      | _ \<Rightarrow> None)"

definition toggle_path :: "job_path \<Rightarrow> job_path list \<Rightarrow> job_path list" where
  "toggle_path p ps = (if p \<in> set ps then filter (\<lambda>q. q \<noteq> p) ps else p # ps)"

definition settle_job :: "string \<Rightarrow> string option \<Rightarrow> string option" where
  "settle_job i pending = (if pending = Some i then None else pending)"

definition job_answer :: "(json \<Rightarrow> string) \<Rightarrow> string \<Rightarrow> string \<Rightarrow> shown_error option \<Rightarrow> jobs_output list" where
  "job_answer stringify success failure r =
     (case r of
        None \<Rightarrow> [Jobs_Notice (success_notice success), Refetch jobs_all]
      | Some e \<Rightarrow> [Jobs_Notice (job_failure stringify failure e)])"

text \<open>A row is reached by a click only if it is shown; a button only if the row has it and it is not disabled.\<close>

definition jobs_step ::
    "(json \<Rightarrow> string) \<Rightarrow> (string \<Rightarrow> rat option) \<Rightarrow> jobs_tab \<Rightarrow> jobs_event \<Rightarrow> jobs_tab \<times> jobs_output list" where
  "jobs_step stringify time s e =
     (case e of
        Jobs_Data loading js \<Rightarrow> (s\<lparr>jb_loading := loading, jb_jobs := js\<rparr>, [])
      | Children_Data i js \<Rightarrow> (s\<lparr>jb_children := (i, js) # jb_children s\<rparr>, [])
      | Choose_Mode v \<Rightarrow> (s\<lparr>jb_mode := v\<rparr>, [])
      | Choose_Status v \<Rightarrow> (if v \<in> set (map fst STATUS_FILTERS) then s\<lparr>jb_status := str_or [Some v] ''all''\<rparr> else s, [])
      | Type_Job_Filter t \<Rightarrow> (s\<lparr>jb_type := t\<rparr>, [])
      | Press_Clear_Completed \<Rightarrow>
          if clear_completed_disabled s then (s, [])
          else (s\<lparr>jb_cleaning := True\<rparr>, [Send_Job (cleanupJobsMutation ''completed'')])
      | Press_Refresh_Jobs \<Rightarrow> (s, if jb_loading s then [] else [Refetch jobs_all])
      | Toggle_Sub_Jobs p \<Rightarrow>
          (case shown_row time s p of
             Some (j, _, _) \<Rightarrow> if has_children j then s\<lparr>jb_expanded := toggle_path p (jb_expanded s)\<rparr> else s
           | None \<Rightarrow> s, [])
      | Toggle_Job_Error p \<Rightarrow>
          (case shown_row time s p of
             Some (j, _, _) \<Rightarrow> if shows_job_error j then s\<lparr>jb_errors := toggle_path p (jb_errors s)\<rparr> else s
           | None \<Rightarrow> s, [])
      | Press_Cancel p \<Rightarrow>
          (case shown_row time s p of
             Some (j, c, d) \<Rightarrow>
               if Cancel_Button False \<in> set (job_buttons False c d j)
               then (s\<lparr>jb_cancelling := Some (j_id j)\<rparr>, [Send_Job (cancelJobMutation (j_id j))]) else (s, [])
           | None \<Rightarrow> (s, []))
      | Press_Remove p \<Rightarrow>
          (case shown_row time s p of
             Some (j, c, d) \<Rightarrow>
               if Remove_Button False \<in> set (job_buttons False c d j)
               then (s\<lparr>jb_deleting := Some (j_id j)\<rparr>, [Send_Job (deleteJobMutation (j_id j))]) else (s, [])
           | None \<Rightarrow> (s, []))
      | Cancel_Answer i r \<Rightarrow>
          (s\<lparr>jb_cancelling := settle_job i (jb_cancelling s)\<rparr>,
           job_answer stringify ''Job cancelled successfully'' ''Failed to cancel job'' r)
      | Remove_Job_Answer i r \<Rightarrow>
          (s\<lparr>jb_deleting := settle_job i (jb_deleting s)\<rparr>,
           job_answer stringify ''Job removed successfully'' ''Failed to remove job'' r)
      | Cleanup_Answer r \<Rightarrow>
          (s\<lparr>jb_cleaning := False\<rparr>,
           case r of
             Inr n \<Rightarrow> [Jobs_Notice (cleanup_notice n), Refetch jobs_all]
           | Inl err \<Rightarrow> [Jobs_Notice (job_failure stringify ''Failed to clean up jobs'' err)]))"

definition initial_jobs_tab :: jobs_tab where
  "initial_jobs_tab =
     \<lparr>jb_mode = Hierarchical, jb_status = ''all'', jb_type = [], jb_loading = True, jb_jobs = [], jb_children = [],
      jb_expanded = [], jb_errors = [], jb_cancelling = None, jb_deleting = None, jb_cleaning = False\<rparr>"

section \<open>The lines\<close>

text \<open>The flags of every row under a job are those of that job's row, and its path begins there.\<close>

lemma job_lines_flags:
  "Job_Line q k c' d' \<in> set (job_lines s c d parent j) \<Longrightarrow> c' = c \<and> d' = d \<and> prefix (parent @ [j_id j]) q \<and> last q = j_id k"
proof (induction s c d parent j rule: job_lines.induct)
  case (1 s c d parent j)
  let ?p = "parent @ [j_id j]"
  from 1(2) consider "q = ?p" "k = j" "c' = c" "d' = d"
    | x xs y where "?p \<in> set (jb_expanded s) \<and> has_children j" "map_of (jb_children s) (j_id j) = Some (x # xs)" "y \<in> set (x # xs)"
        "Job_Line q k c' d' \<in> set (job_lines s c d ?p y)"
    by (subst (asm) job_lines.simps) (auto simp: Let_def split: if_splits option.splits list.splits)
  then show ?case
  proof cases
    case 2
    from 1(1) [OF refl 2(1,2) refl 2(3,4)] show ?thesis by (auto simp: prefix_def)
  qed simp
qed

text \<open>The flags that go down to the sub-jobs are those of the row of the list, whose id the path begins with.\<close>

definition flagged :: "jobs_tab \<Rightarrow> job_line \<Rightarrow> job_line" where
  "flagged s l =
     (case l of Job_Line q k _ _ \<Rightarrow> Job_Line q k (jb_cancelling s = Some (hd q)) (jb_deleting s = Some (hd q)) | _ \<Rightarrow> l)"

lemma job_lines_of_root:
  "job_lines (s\<lparr>jb_cancelling := x, jb_deleting := y, jb_cleaning := w\<rparr>) c' d' parent j =
   map (\<lambda>l. case l of Job_Line q k _ _ \<Rightarrow> Job_Line q k c' d' | _ \<Rightarrow> l) (job_lines s c d parent j)"
proof (induction s c d parent j rule: job_lines.induct)
  case (1 s c d parent j)
  show ?case
    apply (subst (1 2) job_lines.simps)
    using 1 by (auto simp: Let_def map_concat comp_def cong: map_cong split: option.splits list.splits)
qed

lemma hd_prefix: "prefix (a # xs) q \<Longrightarrow> hd q = a"
  by (auto simp: prefix_def)

lemma job_lines_flagged:
  "job_lines (s\<lparr>jb_cancelling := x, jb_deleting := y, jb_cleaning := w\<rparr>) (x = Some (j_id j)) (y = Some (j_id j)) [] j =
   map (flagged (s\<lparr>jb_cancelling := x, jb_deleting := y, jb_cleaning := w\<rparr>)) (job_lines s c d [] j)"
proof -
  have "(case l of Job_Line q k _ _ \<Rightarrow> Job_Line q k (x = Some (j_id j)) (y = Some (j_id j)) | _ \<Rightarrow> l) =
      flagged (s\<lparr>jb_cancelling := x, jb_deleting := y, jb_cleaning := w\<rparr>) l" if "l \<in> set (job_lines s c d [] j)" for l
    by (cases l) (use that in \<open>auto simp: flagged_def dest!: job_lines_flags hd_prefix\<close>)
  then show ?thesis
    by (simp add: job_lines_of_root [where c = c and d = d])
qed

lemma job_table_flagged:
  "job_table time (s\<lparr>jb_cancelling := x, jb_deleting := y, jb_cleaning := w\<rparr>) =
   map (flagged (s\<lparr>jb_cancelling := x, jb_deleting := y, jb_cleaning := w\<rparr>)) (job_table time s)"
proof -
  let ?s = "s\<lparr>jb_cancelling := x, jb_deleting := y, jb_cleaning := w\<rparr>"
  have "job_lines ?s (x = Some (j_id j)) (y = Some (j_id j)) [] j =
      map (flagged ?s) (job_lines s (jb_cancelling s = Some (j_id j)) (jb_deleting s = Some (j_id j)) [] j)" for j
    by (rule job_lines_flagged)
  then show ?thesis by (simp add: job_table_def map_concat comp_def)
qed

definition row_at :: "job_path \<Rightarrow> job_line \<Rightarrow> bool" where
  "row_at p l = (case l of Job_Line q j c d \<Rightarrow> q = p | _ \<Rightarrow> False)"

lemma find_flagged: "List.find (row_at p) (map (flagged s) ls) = map_option (flagged s) (List.find (row_at p) ls)"
  by (induction ls) (auto simp: row_at_def flagged_def split: job_line.splits)

lemma find_row_at: "List.find (row_at p) ls = Some l \<Longrightarrow> \<exists>k c d. l = Job_Line p k c d \<and> l \<in> set ls"
  by (induction ls) (auto simp: row_at_def split: if_splits job_line.splits)

lemma shown_row_alt:
  "shown_row time s p =
     (case jobs_body_of time s of
        Jobs_Table ls \<Rightarrow> (case List.find (row_at p) ls of Some (Job_Line q j c d) \<Rightarrow> Some (j, c, d) | _ \<Rightarrow> None)
      | _ \<Rightarrow> None)"
  unfolding shown_row_def row_at_def by (rule refl)

text \<open>A mutation in flight changes the two flags of the rows and nothing else of them.\<close>

lemma shown_row_flagged:
  "shown_row time (s\<lparr>jb_cancelling := x, jb_deleting := y, jb_cleaning := w\<rparr>) p =
   map_option (\<lambda>(j, _, _). (j, x = Some (hd p), y = Some (hd p))) (shown_row time s p)"
  by (auto simp: shown_row_alt jobs_body_of_def job_table_flagged find_flagged flagged_def dest!: find_row_at
      split: option.splits job_line.splits)

lemma shown_row_flags: "shown_row time s p = Some (j, c, d) \<Longrightarrow> c = (jb_cancelling s = Some (hd p)) \<and> d = (jb_deleting s = Some (hd p))"
  using shown_row_flagged [where time = time and s = s and p = p and x = "jb_cancelling s" and y = "jb_deleting s"
      and w = "jb_cleaning s"] by auto

lemma cancel_offered: "Cancel_Button x \<in> set (job_buttons e c d j) \<longleftrightarrow> x = c \<and> j_status j \<in> {Job_Pending, Job_Running}"
  by (auto simp: job_buttons_def)

lemma remove_offered: "Remove_Button x \<in> set (job_buttons e c d j) \<longleftrightarrow> x = d \<and> j_status j \<in> {Job_Completed, Job_Failed}"
  by (auto simp: job_buttons_def)

section \<open>Properties\<close>

lemma find_shown_row:
  assumes "shown_row time s p = Some (j, c, d)"
  shows "Job_Line p j c d \<in> set (job_table time s) \<and> jb_loading s = False"
  using assms
  by (auto simp: shown_row_alt jobs_body_of_def dest!: find_row_at split: option.splits job_line.splits if_splits)

text \<open>
  C16: (safety) what the tab asks of the server is what its table offers: a cancellation goes out only for a row that is shown and waits or runs,
  and not while that row of the list is being cancelled; a removal only for one that is finished, likewise; and the clearing of the
  completed jobs only if the list holds one and no clearing is under way. Each names the job of the row it was pressed on.
\<close>

theorem job_requests_sound:
  assumes "Send_Job m \<in> set (snd (jobs_step stringify time s e))"
  shows "(\<exists>p j c d. Job_Line p j c d \<in> set (job_table time s) \<and> jb_loading s = False \<and>
            ((e = Press_Cancel p \<and> m = cancelJobMutation (j_id j) \<and> j_status j \<in> {Job_Pending, Job_Running} \<and>
              jb_cancelling s \<noteq> Some (hd p)) \<or>
             (e = Press_Remove p \<and> m = deleteJobMutation (j_id j) \<and> j_status j \<in> {Job_Completed, Job_Failed} \<and>
              jb_deleting s \<noteq> Some (hd p)))) \<or>
         (e = Press_Clear_Completed \<and> m = cleanupJobsMutation ''completed'' \<and> jb_cleaning s = False \<and>
          (\<exists>j \<in> set (jb_jobs s). j_status j = Job_Completed))"
proof (cases e)
  case Press_Clear_Completed
  have "js_completed (stats (jb_jobs s)) = length (filter (\<lambda>j. j_status j = Job_Completed) (jb_jobs s))"
    using status_count_stats [of "jb_jobs s" Job_Completed] by (simp add: status_count_def)
  with assms Press_Clear_Completed show ?thesis
    by (auto simp: jobs_step_def clear_completed_disabled_def filter_empty_conv split: if_splits)
next
  case (Press_Cancel p)
  with assms obtain j c d where "shown_row time s p = Some (j, c, d)" "Cancel_Button False \<in> set (job_buttons False c d j)"
      "m = cancelJobMutation (j_id j)"
    by (auto simp: jobs_step_def split: option.splits if_splits)
  with Press_Cancel show ?thesis
    using find_shown_row [of time s p j c d] shown_row_flags [of time s p j c d] by (auto simp: cancel_offered)
next
  case (Press_Remove p)
  with assms obtain j c d where "shown_row time s p = Some (j, c, d)" "Remove_Button False \<in> set (job_buttons False c d j)"
      "m = deleteJobMutation (j_id j)"
    by (auto simp: jobs_step_def split: option.splits if_splits)
  with Press_Remove show ?thesis
    using find_shown_row [of time s p j c d] shown_row_flags [of time s p j c d] by (auto simp: remove_offered)
qed (use assms in \<open>auto simp: jobs_step_def job_answer_def split: option.splits sum.splits if_splits\<close>)

text \<open>
  (error) the flag that keeps a cancellation from being sent twice is that of the row of the list: the row of a sub-job gets it from the
  row above. A sub-job whose cancellation is on its way shows an enabled button, and pressing it again asks again; a row of the list does not.
\<close>

theorem sub_job_cancelled_twice:
  assumes "shown_row time s p = Some (j, c, d)" and "j_status j = Job_Running" and "jb_cancelling s = None"
  shows "snd (jobs_step stringify time s (Press_Cancel p)) = [Send_Job (cancelJobMutation (j_id j))] \<and>
         snd (jobs_step stringify time (fst (jobs_step stringify time s (Press_Cancel p))) (Press_Cancel p)) =
         (if j_id j = hd p then [] else [Send_Job (cancelJobMutation (j_id j))])"
proof -
  have first: "jobs_step stringify time s (Press_Cancel p) =
      (s\<lparr>jb_cancelling := Some (j_id j)\<rparr>, [Send_Job (cancelJobMutation (j_id j))])"
    using assms shown_row_flags [OF assms(1)] by (simp add: jobs_step_def cancel_offered)
  have "s\<lparr>jb_cancelling := Some (j_id j)\<rparr> =
      s\<lparr>jb_cancelling := Some (j_id j), jb_deleting := jb_deleting s, jb_cleaning := jb_cleaning s\<rparr>" by simp
  then have again: "shown_row time (s\<lparr>jb_cancelling := Some (j_id j)\<rparr>) p =
      Some (j, j_id j = hd p, jb_deleting s = Some (hd p))"
    using shown_row_flagged [where time = time and s = s and p = p and x = "Some (j_id j)" and y = "jb_deleting s"
        and w = "jb_cleaning s"] assms(1) by simp
  show ?thesis
    unfolding first by (simp add: jobs_step_def again cancel_offered assms(2))
qed

text \<open>A running job with a running sub-job, its row expanded, and the tab after each is pressed.\<close>

definition sample_row_job :: "string \<Rightarrow> rat option \<Rightarrow> job" where
  "sample_row_job i n =
     \<lparr>j_id = i, j_parent_id = None, j_type = ''sync'', j_payload = None, j_status = Job_Running, j_retries = 0, j_max_retries = 3,
      j_concurrency_group = None, j_error = None, j_created_at = ''2024-01-01'', j_updated_at = ''2024-01-01'',
      j_started_at = None, j_completed_at = None, j_metadata = None, j_child_count = n\<rparr>"

definition sample_jobs_tab :: jobs_tab where
  "sample_jobs_tab =
     initial_jobs_tab\<lparr>jb_loading := False, jb_jobs := [sample_row_job ''a'' (Some 1)],
       jb_children := [(''a'', [sample_row_job ''b'' None])], jb_expanded := [[''a'']]\<rparr>"

lemma sample_rows:
  "shown_row (\<lambda>_. None) sample_jobs_tab [''a''] = Some (sample_row_job ''a'' (Some 1), False, False) \<and>
   shown_row (\<lambda>_. None) sample_jobs_tab [''a'', ''b''] = Some (sample_row_job ''b'' None, False, False)"
  by code_simp

theorem job_requests_sound_witness:
  "\<exists>j c d. Job_Line [''a''] j c d \<in> set (job_table (\<lambda>_. None) sample_jobs_tab) \<and>
     cancelJobMutation ''a'' = cancelJobMutation (j_id j) \<and> j_status j \<in> {Job_Pending, Job_Running}"
proof -
  have "Send_Job (cancelJobMutation ''a'') \<in> set (snd (jobs_step (\<lambda>_. []) (\<lambda>_. None) sample_jobs_tab (Press_Cancel [''a''])))"
    by (simp add: jobs_step_def conjunct1 [OF sample_rows] cancel_offered) (simp add: sample_row_job_def)
  from job_requests_sound [OF this] show ?thesis by auto
qed

theorem sub_job_cancelled_twice_witness:
  "snd (jobs_step (\<lambda>_. []) (\<lambda>_. None)
     (fst (jobs_step (\<lambda>_. []) (\<lambda>_. None) sample_jobs_tab (Press_Cancel [''a'', ''b'']))) (Press_Cancel [''a'', ''b''])) =
   [Send_Job (cancelJobMutation ''b'')]"
proof -
  have "j_status (sample_row_job ''b'' None) = Job_Running" "jb_cancelling sample_jobs_tab = None" "j_id (sample_row_job ''b'' None) = ''b''"
    by (simp_all add: sample_row_job_def sample_jobs_tab_def initial_jobs_tab_def)
  with sub_job_cancelled_twice [OF conjunct2 [OF sample_rows], of "\<lambda>_. []"] show ?thesis by simp
qed

end
