(* ===== verification/Plugin_Cards.thy ===== *)
theory Plugin_Cards
  imports Settings_Tabs
begin

text \<open>
  The plugins tab as it is put together: \<open>settings/SettingsPluginsTab.tsx\<close> with its cards (\<open>plugins/PluginCard.tsx\<close>), the alert of the
  collisions, the dialog of the settings (\<open>Plugin_Settings\<close>) and what \<open>plugins/DiagnosticLogsModal.tsx\<close> renders.
  \<open>dump\<close>, \<open>stringify\<close> and \<open>isoDate\<close> are those of \<open>Settings_Tabs\<close>. A component that throws while it renders is
  replaced by the error page of the router: the state of such a tab is \<open>None\<close>.
\<close>

section \<open>A card\<close>

datatype cap_style = Content_Style | Tracking_Style | Other_Style

definition capabilityStyle :: "string \<Rightarrow> cap_style" where
  "capabilityStyle cap =
     (if cap = ''content'' then Content_Style else if cap = ''tracking'' then Tracking_Style else Other_Style)"

definition rate_badge :: "plugin_provider_descriptor \<Rightarrow> string option" where
  "rate_badge p =
     (case Option.bind (pd_defaultRateLimit p) rl_requestsPerSecond of
        None \<Rightarrow> None
      | Some n \<Rightarrow> if n = 0 then None else Some (num_str n @ '' req/s''))"

record provider_box =
  pb_heading :: "(string \<times> string) option"
  pb_rate :: "string option"
  pb_description :: "string option"
  pb_capabilities :: "(string \<times> cap_style) list"

definition provider_box_of :: "bool \<Rightarrow> plugin_provider_descriptor \<Rightarrow> provider_box" where
  "provider_box_of named p =
     \<lparr>pb_heading = (if named then Some (str_or [Some (pd_name p)] (pd_id p), pd_id p) else None), pb_rate = rate_badge p,
      pb_description = (if truthy_str (pd_description p) then pd_description p else None),
      pb_capabilities = map (\<lambda>c. (c, capabilityStyle c)) (pd_capabilities p)\<rparr>"

datatype provider_section = One_Provider provider_box | Many_Providers nat "provider_box list" | No_Providers

definition provider_section_of :: "plugin_item \<Rightarrow> provider_section" where
  "provider_section_of plugin =
     (case pi_providers plugin of
        [] \<Rightarrow> No_Providers
      | [p] \<Rightarrow> One_Provider (provider_box_of False p)
      | ps \<Rightarrow> Many_Providers (length ps) (map (provider_box_of True) ps))"

datatype state_colour = Running_Colour | Error_Colour | Idle_Colour

definition colour_of_state :: "plugin_item \<Rightarrow> state_colour" where
  "colour_of_state plugin =
     (if pi_state plugin = ''running'' then Running_Colour else if pi_state plugin = ''error'' then Error_Colour else Idle_Colour)"

definition sdk_badge :: "plugin_item \<Rightarrow> string" where
  "sdk_badge plugin = (if pi_sdkCompatible plugin then ''SDK v'' @ pi_sdkVersion plugin else ''Incompatible SDK'')"

definition pid_text :: "plugin_item \<Rightarrow> string option" where
  "pid_text plugin = (if pi_pid plugin > 0 then Some (''PID: '' @ num_str (pi_pid plugin)) else None)"

record plugin_card =
  pk_title :: string
  pk_version :: string
  pk_id :: string
  pk_colour :: state_colour
  pk_state :: string
  pk_sdk :: string
  pk_providers :: provider_section
  pk_details :: "(string option \<times> string) option"
  pk_toggle :: string

definition plugin_card_of :: "bool \<Rightarrow> plugin_item \<Rightarrow> plugin_card" where
  "plugin_card_of showDetails plugin =
     \<lparr>pk_title = str_or [Some (pi_pluginName plugin)] (pi_pluginId plugin), pk_version = CHR ''v'' # pi_pluginVersion plugin,
      pk_id = pi_pluginId plugin, pk_colour = colour_of_state plugin, pk_state = str_or [Some (pi_state plugin)] ''stopped'',
      pk_sdk = sdk_badge plugin, pk_providers = provider_section_of plugin,
      pk_details = (if showDetails then Some (pid_text plugin, pi_executablePath plugin) else None),
      pk_toggle = (if showDetails then ''Hide details'' else ''Show details'')\<rparr>"

section \<open>The log view\<close>

datatype level_colour = Amber_Level | Rose_Level | Sky_Level | Emerald_Level

definition colour_of_level :: "string \<Rightarrow> level_colour" where
  "colour_of_level level =
     (if level = ''WARN'' then Amber_Level else if level = ''ERROR'' then Rose_Level
      else if level = ''DEBUG'' then Sky_Level else Emerald_Level)"

record log_row =
  lr_time :: string
  lr_level :: string
  lr_colour :: level_colour
  lr_text :: string
  lr_fields :: "string option"

text \<open>\<open>None\<close> when \<open>toISOString\<close> throws.\<close>

definition log_row_of :: "(json \<Rightarrow> string) \<Rightarrow> (string \<Rightarrow> string option) \<Rightarrow> log_entry \<Rightarrow> log_row option" where
  "log_row_of dump isoDate entry =
     (case (if le_timestamp entry \<noteq> [] then map_option (js_slice 11 23) (isoDate (le_timestamp entry)) else Some ''--:--:--.---'') of
        None \<Rightarrow> None
      | Some ts \<Rightarrow>
          Some \<lparr>lr_time = ts, lr_level = entry_level entry, lr_colour = colour_of_level (entry_level entry),
            lr_text = str_or [Some (le_message entry), le_raw entry] [],
            lr_fields = (case le_fields entry of None \<Rightarrow> None | Some ms \<Rightarrow> if ms \<noteq> [] then Some (dump (JObj ms)) else None)\<rparr>)"

datatype logs_body = Logs_Empty string | Logs_Rows "log_row list"

definition logs_body_of ::
    "(json \<Rightarrow> string) \<Rightarrow> (string \<Rightarrow> string option) \<Rightarrow> log_entry list \<Rightarrow> string \<Rightarrow> string \<Rightarrow> logs_body option" where
  "logs_body_of dump isoDate logs level q =
     (if filteredLogs dump logs level q = [] then
        Some (Logs_Empty (if logs = [] then ''No diagnostic logs captured for this plugin subprocess yet.''
                          else ''No logs match your current search/level filter.''))
      else map_option Logs_Rows (those (map (log_row_of dump isoDate) (filteredLogs dump logs level q))))"

definition LOG_LEVELS :: "string list" where
  "LOG_LEVELS = [''ALL'', ''INFO'', ''WARN'', ''ERROR'', ''DEBUG'']"

text \<open>The filter and the switches outlive the dialog, which is mounted as long as the tab is.\<close>

record log_view =
  lv_plugin :: "plugin_item option"
  lv_logs :: "(string \<times> log_entry list) list"
  lv_fetching :: bool
  lv_level :: string
  lv_filter :: string
  lv_auto :: bool
  lv_copied :: bool
  lv_timers :: nat

definition initial_log_view :: log_view where
  "initial_log_view =
     \<lparr>lv_plugin = None, lv_logs = [], lv_fetching = False, lv_level = ''ALL'', lv_filter = [], lv_auto = True, lv_copied = False,
      lv_timers = 0\<rparr>"

definition logs_of :: "log_view \<Rightarrow> log_entry list" where
  "logs_of v = coalesce_or [Option.bind (lv_plugin v) (\<lambda>p. map_of (lv_logs v) (pi_pluginId p))] []"

record log_dialog =
  ld_title :: string
  ld_running :: bool
  ld_state :: string
  ld_sdk :: string
  ld_id :: string
  ld_pid :: "string option"
  ld_path :: string
  ld_auto :: string
  ld_refreshDisabled :: bool
  ld_levels :: "(string \<times> bool) list"
  ld_body :: logs_body
  ld_counts :: "nat \<times> nat"
  ld_copy :: "bool \<times> string"

datatype render = Renders_Nothing | Renders log_dialog | Render_Throws

definition log_dialog_of :: "(json \<Rightarrow> string) \<Rightarrow> (string \<Rightarrow> string option) \<Rightarrow> log_view \<Rightarrow> render" where
  "log_dialog_of dump isoDate v =
     (case lv_plugin v of
        None \<Rightarrow> Renders_Nothing
      | Some p \<Rightarrow>
          (case logs_body_of dump isoDate (logs_of v) (lv_level v) (lv_filter v) of
             None \<Rightarrow> Render_Throws
           | Some body \<Rightarrow>
               Renders \<lparr>ld_title = pi_pluginName p @ '' Diagnostics'', ld_running = (pi_state p = ''running''),
                 ld_state = str_or [Some (pi_state p)] ''stopped'', ld_sdk = sdk_badge p, ld_id = pi_pluginId p, ld_pid = pid_text p,
                 ld_path = pi_executablePath p, ld_auto = ''Auto-refresh: '' @ (if lv_auto v then ''ON'' else ''OFF''),
                 ld_refreshDisabled = lv_fetching v, ld_levels = map (\<lambda>l. (l, lv_level v = l)) LOG_LEVELS, ld_body = body,
                 ld_counts = (length (filteredLogs dump (logs_of v) (lv_level v) (lv_filter v)), length (logs_of v)),
                 ld_copy = (logs_of v = [], if lv_copied v then ''Copied!'' else ''Copy All Logs'')\<rparr>))"

datatype log_event =
    Open_Logs plugin_item
  | Close_Logs
  | Logs_Arrive string "log_entry list"
  | Logs_Fetching bool
  | Press_Level string
  | Type_Log_Filter string
  | Press_Auto
  | Press_Refresh
  | Press_Copy
  | Copy_Written bool
  | Copied_Over

datatype log_output = Refetch_Logs query_key | Clipboard string | Log_Timer nat

definition log_step ::
    "(json \<Rightarrow> string) \<Rightarrow> (string \<Rightarrow> string option) \<Rightarrow> log_view \<Rightarrow> log_event \<Rightarrow> log_view \<times> log_output list" where
  "log_step dump isoDate v e =
     (case e of
        Open_Logs p \<Rightarrow> (v\<lparr>lv_plugin := Some p\<rparr>, [])
      | Close_Logs \<Rightarrow> (v\<lparr>lv_plugin := None\<rparr>, [])
      | Logs_Arrive i logs \<Rightarrow> (v\<lparr>lv_logs := AList.update i logs (lv_logs v)\<rparr>, [])
      | Logs_Fetching b \<Rightarrow> (v\<lparr>lv_fetching := b\<rparr>, [])
      | Press_Level l \<Rightarrow> (if lv_plugin v \<noteq> None \<and> l \<in> set LOG_LEVELS then v\<lparr>lv_level := l\<rparr> else v, [])
      | Type_Log_Filter t \<Rightarrow> (if lv_plugin v \<noteq> None then v\<lparr>lv_filter := t\<rparr> else v, [])
      | Press_Auto \<Rightarrow> (if lv_plugin v \<noteq> None then v\<lparr>lv_auto := \<not> lv_auto v\<rparr> else v, [])
      | Press_Refresh \<Rightarrow>
          (v, case lv_plugin v of
                Some p \<Rightarrow> if lv_fetching v then [] else [Refetch_Logs (plugins_logs (pi_pluginId p))]
              | None \<Rightarrow> [])
      | Press_Copy \<Rightarrow>
          (v, if lv_plugin v = None then []
              else (case handleCopyLogs dump isoDate (logs_of v) of Copy_Text t \<Rightarrow> [Clipboard t] | _ \<Rightarrow> []))
      | Copy_Written ok \<Rightarrow>
          (if ok then (v\<lparr>lv_copied := True, lv_timers := lv_timers v + 1\<rparr>, [Log_Timer 2000]) else (v, []))
      | Copied_Over \<Rightarrow>
          (if lv_timers v > 0 then v\<lparr>lv_copied := False, lv_timers := lv_timers v - 1\<rparr> else v, []))"

section \<open>The tab\<close>

record plugins_tab =
  pt_loading :: bool
  pt_plugins :: "plugin_item list"
  pt_collisions :: "provider_collision list"
  pt_updating :: "string option"
  pt_reloading :: bool
  pt_error :: "(string \<times> string \<times> string) option"
  pt_details :: "string list"
  pt_settings :: settings_modal
  pt_logs :: log_view

definition initial_plugins_tab :: plugins_tab where
  "initial_plugins_tab =
     \<lparr>pt_loading = True, pt_plugins = [], pt_collisions = [], pt_updating = None, pt_reloading = False, pt_error = None,
      pt_details = [], pt_settings = closed_settings, pt_logs = initial_log_view\<rparr>"

datatype plugin_grid = Grid_Loading nat | No_Plugins | Grid "plugin_card list"

definition plugin_grid_of :: "plugins_tab \<Rightarrow> plugin_grid" where
  "plugin_grid_of s =
     (if pt_loading s then Grid_Loading 2
      else if pt_plugins s = [] then No_Plugins
      else Grid (map (\<lambda>p. plugin_card_of (pi_pluginId p \<in> set (pt_details s)) p) (pt_plugins s)))"

text \<open>The badge counts all plugins; the button, with whether it is disabled.\<close>

definition plugin_count :: "plugins_tab \<Rightarrow> string" where
  "plugin_count s = num_str (of_nat (length (pt_plugins s))) @ '' active''"

definition reload_button :: "plugins_tab \<Rightarrow> bool \<times> string" where
  "reload_button s = (pt_reloading s, if pt_reloading s then ''Reloading...'' else ''Reload'')"

definition carded :: "plugins_tab \<Rightarrow> plugin_item list" where
  "carded s = (if pt_loading s then [] else pt_plugins s)"

text \<open>The alert: how many conflicts, and for each the provider, how many candidates, the label of the choice, its options and whether it is busy.\<close>

definition collision_rows :: "plugins_tab \<Rightarrow> (string \<times> nat \<times> string \<times> (string \<times> string) list \<times> bool) list" where
  "collision_rows s =
     map (\<lambda>item. (pcol_providerId item, length (pcol_candidates item), selected_label item,
         map (\<lambda>c. (valueKey c, candidate_label c)) (pcol_candidates item), pt_updating s = Some (pcol_providerId item)))
       (pt_collisions s)"

definition collision_title :: "plugins_tab \<Rightarrow> string option" where
  "collision_title s =
     (if length (pt_collisions s) > 0
      then Some (num_str (of_nat (length (pt_collisions s))) @ (if length (pt_collisions s) = 1 then '' conflict'' else '' conflicts''))
      else None)"

datatype plugins_event =
    Plugins_Data bool "plugin_item list"
  | Collisions_Data "provider_collision list"
  | Press_Reload
  | Reload_Answer "shown_error + reload_plugins_response"
  | Choose_Provider string string
  | Preference_Answer string string "shown_error option"
  | Press_Details string
  | Press_Settings string
  | Close_Settings
  | In_Settings settings_event
  | Press_Logs string
  | In_Logs log_event
  | Close_Error

datatype plugins_output =
    Plugins_Request request
  | Plugins_Notice notice
  | Plugins_Invalidate "query_key list"
  | From_Settings settings_output
  | From_Logs log_output

definition card_of :: "plugins_tab \<Rightarrow> string \<Rightarrow> plugin_item option" where
  "card_of s i = List.find (\<lambda>p. pi_pluginId p = i) (carded s)"

text \<open>What a dialog does by itself leaves which plugin it is open for to the tab.\<close>

definition settings_own :: "settings_event \<Rightarrow> bool" where
  "settings_own e = (case e of Select_Plugin _ \<Rightarrow> False | _ \<Rightarrow> True)"

definition logs_own :: "log_event \<Rightarrow> bool" where
  "logs_own e = (case e of Open_Logs _ \<Rightarrow> False | _ \<Rightarrow> True)"

definition plugins_step ::
    "(json \<Rightarrow> string) \<Rightarrow> (json \<Rightarrow> string) \<Rightarrow> (string \<Rightarrow> string option) \<Rightarrow> plugins_tab \<Rightarrow> plugins_event \<Rightarrow>
     plugins_tab \<times> plugins_output list" where
  "plugins_step dump stringify isoDate s e =
     (case e of
        Plugins_Data loading ps \<Rightarrow>
          (s\<lparr>pt_loading := loading, pt_plugins := ps,
             pt_details := filter (\<lambda>i. \<not> loading \<and> i \<in> set (map pi_pluginId ps)) (pt_details s)\<rparr>, [])
      | Collisions_Data cs \<Rightarrow> (s\<lparr>pt_collisions := cs\<rparr>, [])
      | Press_Reload \<Rightarrow>
          if pt_reloading s then (s, []) else (s\<lparr>pt_reloading := True\<rparr>, [Plugins_Request api_reloadPlugins])
      | Reload_Answer (Inr data) \<Rightarrow>
          (s\<lparr>pt_reloading := False\<rparr>,
           [Plugins_Notice (fst (reload_success data)), Plugins_Invalidate (snd (reload_success data))])
      | Reload_Answer (Inl err) \<Rightarrow>
          (s\<lparr>pt_reloading := False,
             pt_error := Some (''Failed to reload plugins'', str_or [se_message err] ''Failed to reload plugins'',
               job_error_detail stringify err)\<rparr>,
           [Plugins_Notice (reload_failure stringify err)])
      | Choose_Provider i val \<Rightarrow>
          (case List.find (\<lambda>item. pcol_providerId item = i) (pt_collisions s) of
             None \<Rightarrow> (s, [])
           | Some item \<Rightarrow>
               if val \<in> set (map valueKey (pcol_candidates item))
               then (case choose_candidate item val (pt_updating s) of
                       (u, r) \<Rightarrow> (s\<lparr>pt_updating := u\<rparr>, map Plugins_Request (option_list r)))
               else (s, []))
      | Preference_Answer i val None \<Rightarrow>
          (s\<lparr>pt_updating := fst (preference_success i val)\<rparr>,
           [Plugins_Notice (fst (snd (preference_success i val))), Plugins_Invalidate (snd (snd (preference_success i val)))])
      | Preference_Answer i val (Some err) \<Rightarrow>
          (s\<lparr>pt_updating := fst (preference_failure err)\<rparr>, [Plugins_Notice (snd (preference_failure err))])
      | Press_Details i \<Rightarrow>
          (if i \<in> set (map pi_pluginId (carded s))
           then s\<lparr>pt_details := (if i \<in> set (pt_details s) then filter (\<lambda>j. j \<noteq> i) (pt_details s) else i # pt_details s)\<rparr>
           else s, [])
      | Press_Settings i \<Rightarrow>
          (case card_of s i of
             Some p \<Rightarrow> s\<lparr>pt_settings := fst (settings_step stringify (pt_settings s) (Select_Plugin (Some p)))\<rparr>
           | None \<Rightarrow> s, [])
      | Close_Settings \<Rightarrow> (s\<lparr>pt_settings := fst (settings_step stringify (pt_settings s) (Select_Plugin None))\<rparr>, [])
      | In_Settings d \<Rightarrow>
          if settings_own d
          then (s\<lparr>pt_settings := fst (settings_step stringify (pt_settings s) d)\<rparr>,
                map From_Settings (snd (settings_step stringify (pt_settings s) d)))
          else (s, [])
      | Press_Logs i \<Rightarrow>
          (case card_of s i of
             Some p \<Rightarrow> s\<lparr>pt_logs := fst (log_step dump isoDate (pt_logs s) (Open_Logs p))\<rparr>
           | None \<Rightarrow> s, [])
      | In_Logs l \<Rightarrow>
          if logs_own l
          then (s\<lparr>pt_logs := fst (log_step dump isoDate (pt_logs s) l)\<rparr>,
                map From_Logs (snd (log_step dump isoDate (pt_logs s) l)))
          else (s, [])
      | Close_Error \<Rightarrow> (s\<lparr>pt_error := None\<rparr>, []))"

text \<open>The tab on the page: an event changes the state and the new state is rendered.\<close>

definition tab_step ::
    "(json \<Rightarrow> string) \<Rightarrow> (json \<Rightarrow> string) \<Rightarrow> (string \<Rightarrow> string option) \<Rightarrow> plugins_tab option \<Rightarrow> plugins_event \<Rightarrow>
     plugins_tab option" where
  "tab_step dump stringify isoDate t e =
     (case t of
        None \<Rightarrow> None
      | Some s \<Rightarrow>
          (let s' = fst (plugins_step dump stringify isoDate s e)
           in if log_dialog_of dump isoDate (pt_logs s') = Render_Throws then None else Some s'))"

section \<open>Properties\<close>

lemma those_None: "those xs = None \<longleftrightarrow> None \<in> set xs"
  by (induction xs) (auto split: option.split)

lemma log_row_None: "log_row_of dump isoDate l = None \<longleftrightarrow> le_timestamp l \<noteq> [] \<and> isoDate (le_timestamp l) = None"
  by (auto simp: log_row_of_def split: option.splits)

lemma logs_body_None:
  "logs_body_of dump isoDate logs level q = None \<longleftrightarrow>
   (\<exists>l \<in> set (filteredLogs dump logs level q). le_timestamp l \<noteq> [] \<and> isoDate (le_timestamp l) = None)"
proof -
  have "None \<in> set (map f ls) \<longleftrightarrow> (\<exists>l \<in> set ls. f l = None)" for f :: "log_entry \<Rightarrow> log_row option" and ls
    by (auto simp: image_iff eq_commute [of None])
  then show ?thesis by (simp add: logs_body_of_def those_None log_row_None)
qed

lemma log_dialog_throws:
  "log_dialog_of dump isoDate v = Render_Throws \<longleftrightarrow>
   (\<exists>p. lv_plugin v = Some p) \<and> logs_body_of dump isoDate (logs_of v) (lv_level v) (lv_filter v) = None"
  by (auto simp: log_dialog_of_def split: option.splits)

text \<open>
  C31: (error) the log view polls while it is shown. When its entries arrive, the tab survives exactly if the timestamp of every entry that the
  level and the text let through can be printed: one that is no date throws while the view renders and takes the page with it, and no later event
  brings it back.
\<close>

theorem bad_timestamp_breaks_tab:
  assumes "lv_plugin (pt_logs s) = Some p"
  shows "(tab_step dump stringify isoDate (Some s) (In_Logs (Logs_Arrive (pi_pluginId p) logs)) = None \<longleftrightarrow>
           (\<exists>l \<in> set (filteredLogs dump logs (lv_level (pt_logs s)) (lv_filter (pt_logs s))).
              le_timestamp l \<noteq> [] \<and> isoDate (le_timestamp l) = None)) \<and>
         foldl (tab_step dump stringify isoDate) None es = None"
proof
  have "logs_of ((pt_logs s)\<lparr>lv_logs := AList.update (pi_pluginId p) logs (lv_logs (pt_logs s))\<rparr>) = logs"
    using assms by (simp add: logs_of_def update_conv')
  then show "tab_step dump stringify isoDate (Some s) (In_Logs (Logs_Arrive (pi_pluginId p) logs)) = None \<longleftrightarrow>
      (\<exists>l \<in> set (filteredLogs dump logs (lv_level (pt_logs s)) (lv_filter (pt_logs s))).
         le_timestamp l \<noteq> [] \<and> isoDate (le_timestamp l) = None)"
    using assms by (simp add: tab_step_def plugins_step_def logs_own_def log_step_def log_dialog_throws logs_body_None Let_def)
  show "foldl (tab_step dump stringify isoDate) None es = None"
    by (induction es) (simp_all add: tab_step_def)
qed

definition sample_tab :: plugins_tab where
  "sample_tab = initial_plugins_tab\<lparr>pt_logs := initial_log_view\<lparr>lv_plugin := Some sample_plugin\<rparr>\<rparr>"

theorem bad_timestamp_breaks_tab_witness:
  "tab_step (\<lambda>j. []) (\<lambda>j. []) (\<lambda>s. None) (Some sample_tab) (In_Logs (Logs_Arrive (pi_pluginId sample_plugin) [sample_log])) = None"
proof -
  have "lv_plugin (pt_logs sample_tab) = Some sample_plugin" by (simp add: sample_tab_def)
  moreover have "sample_log \<in> set (filteredLogs (\<lambda>j. []) [sample_log] (lv_level (pt_logs sample_tab)) (lv_filter (pt_logs sample_tab)))"
    by (simp add: filteredLogs_def keep_log_def sample_tab_def initial_log_view_def)
  moreover have "le_timestamp sample_log \<noteq> []" by (simp add: sample_log_def)
  ultimately show ?thesis
    using bad_timestamp_breaks_tab [of sample_tab sample_plugin "\<lambda>j. []" "\<lambda>j. []" "\<lambda>s. None" "[sample_log]" "[]"] by blast
qed

text \<open>Which plugins the lists have held, and that a dialog is open only for one of them.\<close>

definition delivered :: "plugins_event list \<Rightarrow> plugin_item set" where
  "delivered es = (\<Union>e \<in> set es. case e of Plugins_Data _ ps \<Rightarrow> set ps | _ \<Rightarrow> {})"

definition tab_after ::
    "(json \<Rightarrow> string) \<Rightarrow> (json \<Rightarrow> string) \<Rightarrow> (string \<Rightarrow> string option) \<Rightarrow> plugins_event list \<Rightarrow> plugins_tab" where
  "tab_after dump stringify isoDate es = foldl (\<lambda>s e. fst (plugins_step dump stringify isoDate s e)) initial_plugins_tab es"

lemma settings_keep_plugin:
  "settings_own d \<Longrightarrow> sm_plugin (fst (settings_step stringify m d)) \<in> {sm_plugin m, None}"
  by (auto simp: settings_own_def settings_step_def edit_step_def handleGlobalChange_def handleProviderChange_def toggleSecret_def
      save_request_def save_success_def save_failure_def sync_settings_def split: settings_event.splits settings_edit.splits option.splits)

lemma settings_select: "fst (settings_step stringify m (Select_Plugin p)) = sync_settings p m"
  by (simp add: settings_step_def)

lemma sync_plugin: "sm_plugin (sync_settings p m) = p"
  by (simp add: sync_settings_def split: option.split)

lemma card_of_set: "card_of s i = Some p \<Longrightarrow> p \<in> set (pt_plugins s) \<and> pi_pluginId p = i"
  by (auto simp: card_of_def carded_def find_Some_iff split: if_splits)

lemma plugins_step_lists:
  "pt_plugins (fst (plugins_step dump stringify isoDate s e)) = (case e of Plugins_Data _ ps \<Rightarrow> ps | _ \<Rightarrow> pt_plugins s)"
  by (auto simp: plugins_step_def split: plugins_event.split option.split sum.split prod.split)

lemma plugins_step_settings:
  "sm_plugin (pt_settings (fst (plugins_step dump stringify isoDate s e))) = Some p \<Longrightarrow>
   sm_plugin (pt_settings s) = Some p \<or> p \<in> set (pt_plugins s)"
  using settings_keep_plugin [of _ stringify "pt_settings s"]
  by (fastforce simp: plugins_step_def settings_select sync_plugin dest: card_of_set
      split: plugins_event.splits option.splits sum.splits prod.splits if_splits)

lemma settings_delivered:
  "(set (pt_plugins (tab_after dump stringify isoDate es)) \<subseteq> delivered es) \<and>
   (\<forall>p. sm_plugin (pt_settings (tab_after dump stringify isoDate es)) = Some p \<longrightarrow> p \<in> delivered es)"
proof (induction es rule: rev_induct)
  case Nil
  show ?case by (simp add: tab_after_def initial_plugins_tab_def closed_settings_def)
next
  case (snoc e es)
  have "delivered (es @ [e]) = (case e of Plugins_Data _ ps \<Rightarrow> set ps | _ \<Rightarrow> {}) \<union> delivered es"
    by (auto simp: delivered_def)
  with snoc plugins_step_settings [of dump stringify isoDate "tab_after dump stringify isoDate es" e] show ?case
    by (auto simp: tab_after_def plugins_step_lists split: plugins_event.splits)
qed

lemma settings_requests:
  "Config_Request r \<in> set (snd (settings_step stringify m d)) \<Longrightarrow>
   d = Save_Click \<and> sm_isSaving m = False \<and>
   (\<exists>p. sm_plugin m = Some p \<and> hasAnySettings p \<and> r = api_updatePluginConfig (pi_pluginId p) (config_body m))"
  by (auto simp: settings_step_def save_request_def save_success_def save_failure_def
      split: settings_event.splits option.splits if_splits)

lemma find_collision:
  "List.find (\<lambda>item. pcol_providerId item = i) items = Some x \<Longrightarrow> x \<in> set items \<and> pcol_providerId x = i"
  by (auto simp: find_Some_iff)

lemma tab_requests:
  assumes "Plugins_Request r \<in> set (snd (plugins_step dump stringify isoDate s e))"
  shows "(e = Press_Reload \<and> r = api_reloadPlugins \<and> pt_reloading s = False) \<or>
        (\<exists>item \<in> set (pt_collisions s). \<exists>c \<in> set (pcol_candidates item).
           e = Choose_Provider (pcol_providerId item) (valueKey c) \<and> pt_updating s \<noteq> Some (pcol_providerId item) \<and>
           r = api_setPluginPreference (pcol_providerId item) (valueKey c))"
proof (cases e)
  case (Choose_Provider i val)
  with assms obtain item where find: "List.find (\<lambda>item. pcol_providerId item = i) (pt_collisions s) = Some item"
      and val: "val \<in> set (map valueKey (pcol_candidates item))"
      and req: "snd (choose_candidate item val (pt_updating s)) = Some r"
    by (auto simp: plugins_step_def split: option.splits if_splits prod.splits)
  from find_collision [OF find] val req Choose_Provider show ?thesis
    by (auto simp: choose_candidate_def split: if_splits)
qed (use assms in \<open>auto simp: plugins_step_def split: option.splits sum.splits if_splits\<close>)


text \<open>
  (error) the alert remembers one provider that is being changed. Choosing for a second one while the first is under way makes it forget the
  first, and the answer for the first makes it forget the second: the choice of the second is enabled and sends again while its change is on its way.
\<close>

theorem busy_mark_is_lost:
  assumes "List.find (\<lambda>item. pcol_providerId item = i) (pt_collisions s) = Some x" "a \<in> set (map valueKey (pcol_candidates x))"
    and "List.find (\<lambda>item. pcol_providerId item = j) (pt_collisions s) = Some y" "b \<in> set (map valueKey (pcol_candidates y))"
    and "i \<noteq> j" "a \<noteq> []" "b \<noteq> []" "pt_updating s = None"
  shows "map Plugins_Request [api_setPluginPreference i a, api_setPluginPreference j b, api_setPluginPreference j b] =
    (let step = plugins_step dump stringify isoDate;
         s1 = step s (Choose_Provider i a); s2 = step (fst s1) (Choose_Provider j b);
         s3 = step (fst s2) (Preference_Answer i a None); s4 = step (fst s3) (Choose_Provider j b)
     in snd s1 @ snd s2 @ snd s4)"
proof -
  have "pcol_providerId x = i" "pcol_providerId y = j" using assms(1,3) by (auto simp: find_Some_iff)
  with assms show ?thesis
    by (simp add: plugins_step_def choose_candidate_def preference_success_def option_list_def Let_def)
qed

definition sample_tab_events :: "plugins_event list" where
  "sample_tab_events =
     [Plugins_Data False [sample_plugin], Collisions_Data [sample_collision, sample_collision\<lparr>pcol_providerId := ''other''\<rparr>],
      Press_Settings (pi_pluginId sample_plugin)]"

definition sample_tab_state :: plugins_tab where
  "sample_tab_state = tab_after (\<lambda>j. []) (\<lambda>j. []) Some sample_tab_events"

lemma sample_tab_select:
  "sm_plugin (pt_settings sample_tab_state) = Some sample_plugin \<and> pt_updating sample_tab_state = None \<and>
   pt_collisions sample_tab_state = [sample_collision, sample_collision\<lparr>pcol_providerId := ''other''\<rparr>] \<and>
   sm_isSaving (pt_settings sample_tab_state) = False"
  by (simp add: sample_tab_state_def tab_after_def sample_tab_events_def plugins_step_def initial_plugins_tab_def carded_def card_of_def
      settings_select sync_settings_def closed_settings_def)


theorem busy_mark_is_lost_witness:
  "let step = plugins_step (\<lambda>j. []) (\<lambda>j. []) Some;
       s1 = step sample_tab_state (Choose_Provider ''mdex'' ''p1''); s2 = step (fst s1) (Choose_Provider ''other'' ''p1'');
       s3 = step (fst s2) (Preference_Answer ''mdex'' ''p1'' None); s4 = step (fst s3) (Choose_Provider ''other'' ''p1'')
   in length (snd s1 @ snd s2 @ snd s4) = 3"
proof -
  have c: "List.find (\<lambda>item. pcol_providerId item = ''mdex'') (pt_collisions sample_tab_state) = Some sample_collision"
    "List.find (\<lambda>item. pcol_providerId item = ''other'') (pt_collisions sample_tab_state) =
       Some (sample_collision\<lparr>pcol_providerId := ''other''\<rparr>)"
    using sample_tab_select by (simp_all add: sample_collision_def)
  have v: "''p1'' \<in> set (map valueKey (pcol_candidates sample_collision))"
    "''p1'' \<in> set (map valueKey (pcol_candidates (sample_collision\<lparr>pcol_providerId := ''other''\<rparr>)))"
    by (simp_all add: sample_collision_def valueKey_def)
  have u: "''mdex'' \<noteq> ''other''" "''p1'' \<noteq> []" "pt_updating sample_tab_state = None" using sample_tab_select by simp_all
  have "length (map Plugins_Request [api_setPluginPreference ''mdex'' ''p1'', api_setPluginPreference ''other'' ''p1'',
      api_setPluginPreference ''other'' ''p1'']) = 3" by simp
  then show ?thesis
    unfolding busy_mark_is_lost [OF c(1) v(1) c(2) v(2) u(1,2,2,3), of "\<lambda>j. []" "\<lambda>j. []" Some] by (simp only: Let_def)
qed

end
