(* ===== verification/Edit_Dialog.thy ===== *)
theory Edit_Dialog
  imports Edit_Form Tag_Input
begin

text \<open>
  \<open>components/EditMetadataDialog.tsx\<close>: the dialog that shows the form of \<open>useEditMetadataForm.ts\<close> (\<open>Edit_Form\<close>), with a chip editor
  (\<open>Tag_Input\<close>) for each list. The texts that are typed into the chip editors and not yet taken are state of those
  fields; they go when the dialog closes, and stay when the form is filled anew.
\<close>

section \<open>The fields\<close>

datatype tag_field = F_Aliases | F_Authors | F_Artists | F_Publishers | F_Tags | F_Shelves

definition tag_fields :: "tag_field list" where
  "tag_fields = [F_Aliases, F_Authors, F_Artists, F_Publishers, F_Tags, F_Shelves]"

definition field_tags :: "tag_field \<Rightarrow> edit_form \<Rightarrow> string list" where
  "field_tags t f =
     (case t of F_Aliases \<Rightarrow> ef_aliases f | F_Authors \<Rightarrow> ef_authors f | F_Artists \<Rightarrow> ef_artists f
      | F_Publishers \<Rightarrow> ef_publishers f | F_Tags \<Rightarrow> ef_tags f | F_Shelves \<Rightarrow> ef_shelves f)"

definition set_field_tags :: "tag_field \<Rightarrow> string list \<Rightarrow> edit_form \<Rightarrow> edit_form" where
  "set_field_tags t xs f =
     (case t of F_Aliases \<Rightarrow> f\<lparr>ef_aliases := xs\<rparr> | F_Authors \<Rightarrow> f\<lparr>ef_authors := xs\<rparr> | F_Artists \<Rightarrow> f\<lparr>ef_artists := xs\<rparr>
      | F_Publishers \<Rightarrow> f\<lparr>ef_publishers := xs\<rparr> | F_Tags \<Rightarrow> f\<lparr>ef_tags := xs\<rparr> | F_Shelves \<Rightarrow> f\<lparr>ef_shelves := xs\<rparr>)"

text \<open>The props all the chip editors of the dialog have.\<close>

definition field_props :: tag_props where
  "field_props = \<lparr>tg_onChange = True, tg_disabled = False, tg_allowDuplicates = False\<rparr>"

definition READING_MODE_OPTIONS :: "(string \<times> string) list" where
  "READING_MODE_OPTIONS =
     [(''rtl'', ''Right to Left (Manga)''), (''ltr'', ''Left to Right (Comic)''), (''vertical'', ''Vertical (Gapped)''),
      (''longstrip'', ''Longstrip (Webtoon)'')]"

definition CONTENT_RATING_OPTIONS :: "(string \<times> string) list" where
  "CONTENT_RATING_OPTIONS = [(''safe'', ''Safe''), (''suggestive'', ''Suggestive''), (''mature'', ''Mature''), (''erotica'', ''Erotica'')]"

definition EXTERNAL_LINK_PROVIDER_OPTIONS :: "(string \<times> string) list" where
  "EXTERNAL_LINK_PROVIDER_OPTIONS =
     [(''custom'', ''Custom''), (''anilist'', ''AniList''), (''myanimelist'', ''MyAnimeList''), (''kitsu'', ''Kitsu''),
      (''mangadex'', ''MangaDex''), (''mangaupdates'', ''MangaUpdates''), (''animeplanet'', ''Anime-Planet''), (''amazon'', ''Amazon''),
      (''ebookjapan'', ''eBookJapan''), (''cdjapan'', ''CDJapan'')]"

definition select_text :: "(string \<times> string) list \<Rightarrow> string \<Rightarrow> string" where
  "select_text options v = str_or [map_of options v] v"

text \<open>\<open>parseInt(e.target.value) || 0\<close> on the text of a number field: a sign and the digits it begins with.\<close>

definition digit_value :: "char \<Rightarrow> nat option" where
  "digit_value c = (let n = of_char c in if 48 \<le> n \<and> n \<le> 57 then Some (n - 48) else None)"

definition leading_digits :: "string \<Rightarrow> nat list" where
  "leading_digits s = map (the \<circ> digit_value) (takeWhile (\<lambda>c. digit_value c \<noteq> None) s)"

definition digits_value :: "nat list \<Rightarrow> rat" where
  "digits_value ds = foldl (\<lambda>n d. 10 * n + of_nat d) 0 ds"

definition year_of_text :: "string \<Rightarrow> rat" where
  "year_of_text s =
     (case s of
        CHR ''-'' # t \<Rightarrow> - digits_value (leading_digits t)
      | CHR ''+'' # t \<Rightarrow> digits_value (leading_digits t)
      | _ \<Rightarrow> digits_value (leading_digits s))"

definition year_text :: "rat \<Rightarrow> string" where
  "year_text y = (if y = 0 then [] else num_str y)"

section \<open>The dialog\<close>

record edit_dialog =
  ed_manga :: manga
  ed_open :: bool
  ed_form :: edit_form
  ed_typed :: "tag_field \<Rightarrow> string"
  ed_pending :: bool

record edit_view =
  ev_title :: string
  ev_tags :: "(tag_field \<times> string list \<times> string) list"
  ev_description :: string
  ev_readingMode :: string
  ev_contentRating :: string
  ev_year :: string
  ev_dates :: "string \<times> string"
  ev_country :: string
  ev_links :: "(string \<times> string \<times> string) list + string"
  ev_save :: "bool \<times> string"

definition edit_view_of :: "edit_dialog \<Rightarrow> edit_view option" where
  "edit_view_of s =
     (if \<not> ed_open s then None
      else
        let f = ed_form s
        in Some \<lparr>ev_title = ef_title f, ev_tags = map (\<lambda>t. (t, field_tags t f, ed_typed s t)) tag_fields,
             ev_description = ef_description f, ev_readingMode = select_text READING_MODE_OPTIONS (ef_readingMode f),
             ev_contentRating = select_text CONTENT_RATING_OPTIONS (ef_contentRating f), ev_year = year_text (ef_releaseYear f),
             ev_dates = (ef_startDate f, ef_endDate f), ev_country = ef_country f,
             ev_links = (if ef_externalLinks f = [] then Inr ''No external links linked.''
                         else Inl (map (\<lambda>l. (select_text EXTERNAL_LINK_PROVIDER_OPTIONS (el_provider l), el_label l, el_url l))
                                (ef_externalLinks f))),
             ev_save = (ed_pending s, if ed_pending s then ''Saving...'' else ''Save Changes'')\<rparr>)"

datatype edit_field = E_Title | E_Description | E_StartDate | E_EndDate | E_Country

definition set_edit_field :: "edit_field \<Rightarrow> string \<Rightarrow> edit_form \<Rightarrow> edit_form" where
  "set_edit_field k v f =
     (case k of E_Title \<Rightarrow> f\<lparr>ef_title := v\<rparr> | E_Description \<Rightarrow> f\<lparr>ef_description := v\<rparr> | E_StartDate \<Rightarrow> f\<lparr>ef_startDate := v\<rparr>
      | E_EndDate \<Rightarrow> f\<lparr>ef_endDate := v\<rparr> | E_Country \<Rightarrow> f\<lparr>ef_country := v\<rparr>)"

datatype edit_event =
    Ed_Open
  | Ed_Cancel
  | Ed_Manga manga
  | Ed_Text edit_field string
  | Ed_Tag tag_field tag_event
  | Ed_Mode string
  | Ed_Rating string
  | Ed_Year string
  | Ed_Add_Link
  | Ed_Remove_Link nat
  | Ed_Link_Provider nat string
  | Ed_Link_Label nat string
  | Ed_Link_Url nat string
  | Ed_Submit
  | Ed_Answer bool

text \<open>An event of a chip editor works on the list of the form and the text of the field.\<close>

definition tag_field_step :: "tag_field \<Rightarrow> tag_event \<Rightarrow> edit_dialog \<Rightarrow> edit_dialog" where
  "tag_field_step t e s =
     (let r = tag_step field_props \<lparr>tt_value = field_tags t (ed_form s), tt_inputValue = ed_typed s t\<rparr> e
      in s\<lparr>ed_form := set_field_tags t (tt_value r) (ed_form s), ed_typed := (ed_typed s)(t := tt_inputValue r)\<rparr>)"

text \<open>\<open>handleLinkChange\<close> for a row that is shown.\<close>

definition change_link :: "nat \<Rightarrow> link_member \<Rightarrow> string \<Rightarrow> edit_form \<Rightarrow> edit_form" where
  "change_link i k v f = coalesce_or [handleLinkChange i k v f] f"

definition edit_form_step :: "edit_form \<Rightarrow> edit_event \<Rightarrow> edit_form" where
  "edit_form_step f e =
     (case e of
        Ed_Text k v \<Rightarrow> set_edit_field k v f
      | Ed_Mode v \<Rightarrow> if v \<in> set (map fst READING_MODE_OPTIONS) then f\<lparr>ef_readingMode := v\<rparr> else f
      | Ed_Rating v \<Rightarrow> if v \<in> set (map fst CONTENT_RATING_OPTIONS) then f\<lparr>ef_contentRating := v\<rparr> else f
      | Ed_Year v \<Rightarrow> f\<lparr>ef_releaseYear := year_of_text v\<rparr>
      | Ed_Add_Link \<Rightarrow> handleAddLink f
      | Ed_Remove_Link i \<Rightarrow> if i < length (ef_externalLinks f) then handleRemoveLink i f else f
      | Ed_Link_Provider i v \<Rightarrow>
          if v \<in> set (map fst EXTERNAL_LINK_PROVIDER_OPTIONS) then change_link i Link_Provider (str_or [Some v] ''custom'') f else f
      | Ed_Link_Label i v \<Rightarrow> change_link i Link_Label v f
      | Ed_Link_Url i v \<Rightarrow> change_link i Link_Url v f
      | _ \<Rightarrow> f)"

text \<open>
  The dialog. The browser does not submit a form whose required title is empty, nor one whose button is disabled; an answer that fails leaves the
  dialog as it is.
\<close>

definition edit_dialog_step :: "edit_dialog \<Rightarrow> edit_event \<Rightarrow> edit_dialog \<times> mutation option" where
  "edit_dialog_step s e =
     (case e of
        Ed_Open \<Rightarrow>
          (if ed_open s then s
           else s\<lparr>ed_open := True, ed_form := open_effect True (ed_manga s) (ed_form s), ed_typed := \<lambda>_. []\<rparr>, None)
      | Ed_Cancel \<Rightarrow> (s\<lparr>ed_open := False\<rparr>, None)
      | Ed_Manga m \<Rightarrow>
          (if m = ed_manga s then s else s\<lparr>ed_manga := m, ed_form := open_effect (ed_open s) m (ed_form s)\<rparr>, None)
      | Ed_Tag t d \<Rightarrow> (if ed_open s then tag_field_step t d s else s, None)
      | Ed_Submit \<Rightarrow>
          if ed_open s \<and> \<not> ed_pending s \<and> ef_title (ed_form s) \<noteq> []
          then (s\<lparr>ed_pending := True\<rparr>, Some (handleSubmit (ed_manga s) (ed_form s))) else (s, None)
      | Ed_Answer ok \<Rightarrow> (s\<lparr>ed_pending := False, ed_open := ed_open s \<and> \<not> ok\<rparr>, None)
      | _ \<Rightarrow> (if ed_open s then s\<lparr>ed_form := edit_form_step (ed_form s) e\<rparr> else s, None))"

definition initial_edit_dialog :: "manga \<Rightarrow> edit_dialog" where
  "initial_edit_dialog m =
     \<lparr>ed_manga = m, ed_open = False, ed_form = initial_form m, ed_typed = \<lambda>_. [], ed_pending = False\<rparr>"

definition edit_next :: "edit_dialog \<Rightarrow> edit_event \<Rightarrow> edit_dialog" where
  "edit_next s e = fst (edit_dialog_step s e)"

section \<open>The form stays proper\<close>

text \<open>The lists hold proper tags, the choices are ones that the selects offer or the manga came with, and the links are known by their url.\<close>

definition proper_tags :: "edit_form \<Rightarrow> bool" where
  "proper_tags f = list_all (\<lambda>t. tags_ok False (field_tags t f)) tag_fields"

lemma tag_fields_all: "set tag_fields = UNIV"
  using tag_field.exhaust by (auto simp: tag_fields_def)

lemma proper_field: "proper_tags f \<longleftrightarrow> (\<forall>t. tags_ok False (field_tags t f))"
  by (simp add: proper_tags_def list_all_iff tag_fields_all)

lemma field_tags_set: "field_tags u (set_field_tags t xs f) = (if u = t then xs else field_tags u f)"
  by (cases t; cases u) (simp_all add: field_tags_def set_field_tags_def)

definition choices_of :: "manga set \<Rightarrow> edit_form \<Rightarrow> bool" where
  "choices_of ms f =
     ((ef_readingMode f \<in> set (map fst READING_MODE_OPTIONS) \<or> ef_readingMode f \<in> getInitialReadingMode ` ms) \<and>
      (ef_contentRating f \<in> set (map fst CONTENT_RATING_OPTIONS) \<or>
       ef_contentRating f \<in> (\<lambda>m. ef_contentRating (initial_form m)) ` ms))"

definition edit_inv :: "manga set \<Rightarrow> edit_dialog \<Rightarrow> bool" where
  "edit_inv ms s =
     (ed_manga s \<in> ms \<and> proper_tags (ed_form s) \<and> (\<forall>t. CHR '','' \<notin> set (ed_typed s t)) \<and> choices_of ms (ed_form s))"

lemma set_fields_keep:
  "field_tags t (edit_form_step f e) = field_tags t f"
  by (cases t; cases e) (simp_all add: field_tags_def edit_form_step_def set_edit_field_def handleAddLink_def handleRemoveLink_def
      change_link_def handleLinkChange_def split: edit_field.split)

lemma form_step_choices: "choices_of ms f \<Longrightarrow> choices_of ms (edit_form_step f e)"
  by (cases e) (auto simp: choices_of_def edit_form_step_def set_edit_field_def handleAddLink_def handleRemoveLink_def
      change_link_def handleLinkChange_def split: edit_field.split)

lemma initial_choices: "m \<in> ms \<Longrightarrow> choices_of ms (initial_form m)"
  by (auto simp: choices_of_def initial_form_def)

lemma tag_field_inv:
  assumes "edit_inv ms s"
  shows "edit_inv ms (tag_field_step t d s)"
proof -
  let ?s = "\<lparr>tt_value = field_tags t (ed_form s), tt_inputValue = ed_typed s t\<rparr>"
  have "tag_inv field_props ?s"
    using assms by (simp add: edit_inv_def proper_field tag_inv_def field_props_def)
  then have "tag_inv field_props (tag_step field_props ?s d)" by (rule inv_tag_step)
  moreover have "choices_of ms (set_field_tags t xs f) = choices_of ms f" for xs f
    by (cases t) (simp_all add: choices_of_def set_field_tags_def)
  ultimately show ?thesis
    using assms by (auto simp: edit_inv_def proper_field tag_field_step_def Let_def field_tags_set tag_inv_def field_props_def)
qed

definition edit_event_ok :: "manga set \<Rightarrow> edit_event \<Rightarrow> bool" where
  "edit_event_ok ms e = (case e of Ed_Manga m \<Rightarrow> m \<in> ms | _ \<Rightarrow> True)"

lemma edit_inv_form:
  "edit_inv ms s \<Longrightarrow> proper_tags f \<Longrightarrow> choices_of ms f \<Longrightarrow> m \<in> ms \<Longrightarrow> edit_inv ms (s\<lparr>ed_manga := m, ed_form := f\<rparr>)"
  by (simp add: edit_inv_def)

lemma edit_inv_cong:
  "ed_manga s' = ed_manga s \<Longrightarrow> ed_form s' = ed_form s \<Longrightarrow> ed_typed s' = ed_typed s \<Longrightarrow> edit_inv ms s \<Longrightarrow> edit_inv ms s'"
  by (simp add: edit_inv_def)

lemma edit_inv_step:
  assumes "edit_inv ms s" "edit_event_ok ms e" "\<forall>m \<in> ms. proper_tags (initial_form m)"
  shows "edit_inv ms (edit_next s e)"
proof -
  have m: "ed_manga s \<in> ms" using assms(1) by (simp add: edit_inv_def)
  have plain: "edit_inv ms (s\<lparr>ed_form := edit_form_step (ed_form s) e\<rparr>)"
    using assms(1) form_step_choices [of ms "ed_form s" e] by (simp add: edit_inv_def proper_field set_fields_keep)
  show ?thesis
  proof (cases e)
    case Ed_Open
    with assms m initial_choices [of "ed_manga s" ms] show ?thesis
      by (auto simp: edit_next_def edit_dialog_step_def open_effect_def edit_inv_def)
  next
    case (Ed_Manga m')
    with assms initial_choices [of m' ms] show ?thesis
      by (auto simp: edit_next_def edit_dialog_step_def open_effect_def edit_inv_def edit_event_ok_def)
  next
    case (Ed_Tag t d)
    with tag_field_inv [OF assms(1), of t d] assms(1) show ?thesis
      by (simp add: edit_next_def edit_dialog_step_def)
  qed (use plain assms(1) in \<open>auto simp: edit_next_def edit_dialog_step_def intro: edit_inv_cong\<close>)
qed

lemma edit_inv_run:
  assumes "list_all (edit_event_ok ms) es" "edit_inv ms s" "\<forall>m \<in> ms. proper_tags (initial_form m)"
  shows "edit_inv ms (run_events edit_next s es)"
  using assms(1,2) by (induction es arbitrary: s) (simp_all add: edit_inv_step assms(3))

section \<open>Properties\<close>

text \<open>
  C27: (invariant) whatever is typed, pasted, chosen and reloaded, a save sends the form the dialog shows, with a title: the lists hold
  trimmed tags without commas, none twice up to letter case, if those of the manga do, and the reading mode and the rating are ones the selects offer
  or the manga came with.
\<close>

theorem saved_form_is_proper:
  assumes "m \<in> ms" "\<forall>m \<in> ms. proper_tags (initial_form m)" "list_all (edit_event_ok ms) es"
    and "s = run_events edit_next (initial_edit_dialog m) es"
    and "snd (edit_dialog_step s e) = Some mu"
  shows "mu = handleSubmit (ed_manga s) (ed_form s) \<and> ed_open s \<and> ed_manga s \<in> ms \<and> ef_title (ed_form s) \<noteq> [] \<and>
    choices_of ms (ed_form s) \<and>
    (\<forall>t. (\<forall>x \<in> set (field_tags t (ed_form s)). x \<noteq> [] \<and> js_trim x = x \<and> CHR '','' \<notin> set x) \<and>
         distinct (map js_lower (field_tags t (ed_form s))))"
proof -
  have "edit_inv ms (initial_edit_dialog m)"
    using assms(1,2) initial_choices [of m ms] by (simp add: edit_inv_def initial_edit_dialog_def)
  then have inv: "edit_inv ms s" using edit_inv_run [OF assms(3) _ assms(2)] assms(4) by simp
  have "mu = handleSubmit (ed_manga s) (ed_form s) \<and> ed_open s \<and> ef_title (ed_form s) \<noteq> []"
    using assms(5) by (cases e) (simp_all add: edit_dialog_step_def split: if_splits)
  with inv show ?thesis
    by (auto simp: edit_inv_def proper_field tags_ok_def list_all_iff is_tag_def)
qed

definition save_answer :: "edit_event \<Rightarrow> bool" where
  "save_answer e = (case e of Ed_Answer _ \<Rightarrow> True | _ \<Rightarrow> False)"

text \<open>
  (error) a save that is under way owns the dialog: until its answer comes nothing can be sent, also after the dialog was cancelled and opened
  again, and a good answer closes the dialog that is open then, so that opening it once more starts from the manga, without what was edited in between.
\<close>

theorem late_save_closes_dialog:
  assumes "ed_pending s" "list_all (\<lambda>e. \<not> save_answer e) es"
  shows "(\<forall>e. snd (edit_dialog_step (run_events edit_next s es) e) = None) \<and>
    (let s' = edit_next (run_events edit_next s es) (Ed_Answer True)
     in edit_view_of s' = None \<and> ed_form (edit_next s' Ed_Open) = initial_form (ed_manga s'))"
proof -
  have step: "ed_pending (edit_next s e)" if "ed_pending s" "\<not> save_answer e" for s e
    using that by (cases e) (simp_all add: save_answer_def edit_next_def edit_dialog_step_def tag_field_step_def Let_def)
  have p: "ed_pending (run_events edit_next s es)"
    using assms by (induction es arbitrary: s) (simp_all add: step)
  have "snd (edit_dialog_step (run_events edit_next s es) e) = None" for e
    by (cases e) (simp_all add: edit_dialog_step_def p)
  then show ?thesis
    by (simp add: edit_next_def edit_dialog_step_def edit_view_of_def open_effect_def)
qed

text \<open>
  A manga that is loaded again while its dialog is open, with anything changed, fills the form anew: two dialogs that differ in all that was edited
  become the same form.
\<close>

lemma reload_discards_edits:
  assumes "ed_open s" "m \<noteq> ed_manga s"
  shows "ed_form (edit_next s (Ed_Manga m)) = initial_form m \<and> ed_typed (edit_next s (Ed_Manga m)) = ed_typed s"
  using assms by (simp add: edit_next_def edit_dialog_step_def open_effect_def)

lemma blank_title_is_sent:
  "ed_open s \<Longrightarrow> \<not> ed_pending s \<Longrightarrow> ef_title (ed_form s) = '' '' \<Longrightarrow>
   snd (edit_dialog_step s Ed_Submit) = Some (handleSubmit (ed_manga s) (ed_form s))"
  by (simp add: edit_dialog_step_def)

definition sample_edited :: manga where
  "sample_edited = (blank_manga ''m'')\<lparr>m_metadata := Some sample_metadata, m_title := Some ''T''\<rparr>"

lemma sample_edited_proper: "proper_tags (initial_form sample_edited)"
  by code_simp

definition sample_edit_events :: "edit_event list" where
  "sample_edit_events = [Ed_Open, Ed_Tag F_Tags (Tag_Change ''Drama, g ,'')]"

definition sample_edit_state :: edit_dialog where
  "sample_edit_state = run_events edit_next (initial_edit_dialog sample_edited) sample_edit_events"

lemma sample_edit_form:
  "field_tags F_Tags (ed_form sample_edit_state) = [''G'', ''Drama''] \<and> ef_title (ed_form sample_edit_state) = ''T'' \<and>
   ed_open sample_edit_state \<and> \<not> ed_pending sample_edit_state"
  by code_simp

theorem saved_form_is_proper_witness:
  "field_tags F_Tags (ed_form sample_edit_state) = [''G'', ''Drama''] \<and>
   distinct (map js_lower (field_tags F_Tags (ed_form sample_edit_state)))"
proof -
  have ok: "list_all (edit_event_ok {sample_edited}) sample_edit_events"
    by (simp add: edit_event_ok_def sample_edit_events_def)
  have sent: "snd (edit_dialog_step sample_edit_state Ed_Submit) =
      Some (handleSubmit (ed_manga sample_edit_state) (ed_form sample_edit_state))"
    by (simp add: edit_dialog_step_def sample_edit_form)
  show ?thesis
    using saved_form_is_proper [OF _ _ ok sample_edit_state_def sent] sample_edited_proper sample_edit_form by blast
qed

theorem late_save_closes_dialog_witness:
  "let s = run_events edit_next (initial_edit_dialog sample_edited)
       [Ed_Open, Ed_Submit, Ed_Cancel, Ed_Open, Ed_Text E_Title ''New'', Ed_Answer True]
   in edit_view_of s = None"
proof -
  let ?s = "run_events edit_next (initial_edit_dialog sample_edited) [Ed_Open, Ed_Submit]"
  have p: "ed_pending ?s" by code_simp
  have "list_all (\<lambda>e. \<not> save_answer e) [Ed_Cancel, Ed_Open, Ed_Text E_Title ''New'']" by (simp add: save_answer_def)
  from late_save_closes_dialog [OF p this] show ?thesis by (simp only: Let_def run_events.simps)
qed

end
