(* ===== verification/Reader_View.thy ===== *)
theory Reader_View
  imports Reader_Page Reader_Hint
begin

text \<open>
  What the reader renders: \<open>routes/ReaderPage.tsx\<close> with \<open>ReaderTopBar.tsx\<close>, \<open>reader/ReaderPagedView.tsx\<close>, \<open>reader/ReaderContinuousView.tsx\<close>,
  \<open>reader/ChapterBoundaryCard.tsx\<close>, \<open>ReaderFooter.tsx\<close>, \<open>ReaderFitModeSelector.tsx\<close>, \<open>ReaderHint.tsx\<close> and \<open>CompletionPromptDialog.tsx\<close>.
  \<open>resolve u\<close> is the absolute address the browser makes of \<open>u\<close>, \<open>localDate\<close> is \<open>toLocaleDateString\<close> of the date of a text.
\<close>

section \<open>The image of a page\<close>

record page_source =
  ps_mangaId :: "string option"
  ps_chapterId :: string
  ps_providerId :: string
  ps_mangaUrl :: "string option"

record page_image =
  pim_src :: string
  pim_alt :: string
  pim_class :: string
  pim_fallback :: string

definition page_image_of :: "page_source \<Rightarrow> fit_mode \<Rightarrow> string \<Rightarrow> page \<Rightarrow> rat \<Rightarrow> page_image" where
  "page_image_of src fit base p pageNum =
     \<lparr>pim_src = getPageImageUrl (Some p) (ps_mangaId src) (Some (ps_chapterId src)) (Some (ps_providerId src)) (ps_mangaUrl src),
      pim_alt = ''Page '' @ num_str pageNum, pim_class = getFitModeClasses fit base,
      pim_fallback = getProxyImageUrl (Some (pg_url p)) (ps_mangaUrl src)\<rparr>"

text \<open>The element: its address and whether it is hidden. The handler compares the resolved address with the text of the fallback.\<close>

record img_element =
  im_src :: string
  im_hidden :: bool

definition page_onError :: "(string \<Rightarrow> string) \<Rightarrow> string \<Rightarrow> img_element \<Rightarrow> img_element" where
  "page_onError resolve fallbackUrl el =
     (if fallbackUrl \<noteq> [] \<and> resolve (im_src el) \<noteq> fallbackUrl then el\<lparr>im_src := fallbackUrl\<rparr> else el\<lparr>im_hidden := True\<rparr>)"

text \<open>The first \<open>n\<close> addresses the browser loads; an address that loads, or an element that is hidden, ends it.\<close>

fun page_loads :: "(string \<Rightarrow> string) \<Rightarrow> (string \<Rightarrow> bool) \<Rightarrow> string \<Rightarrow> nat \<Rightarrow> img_element \<Rightarrow> img_element \<times> string list" where
  "page_loads resolve ok fallbackUrl 0 el = (el, [])"
| "page_loads resolve ok fallbackUrl (Suc n) el =
     (if im_hidden el then (el, [])
      else if ok (im_src el) then (el, [im_src el])
      else let (el', us) = page_loads resolve ok fallbackUrl n (page_onError resolve fallbackUrl el)
           in (el', im_src el # us))"

section \<open>The cards of the neighbouring chapters\<close>

record boundary_card =
  bc_prev :: bool
  bc_label :: string
  bc_subtitle :: string
  bc_book :: bool

definition chapterIdent :: "manga_chapter option \<Rightarrow> string" where
  "chapterIdent target =
     (case target of
        None \<Rightarrow> []
      | Some c \<Rightarrow> (case c_number c of Some n \<Rightarrow> num_str n | None \<Rightarrow> str_or [c_name c, c_title c] []))"

definition boundary_card_of :: "bool \<Rightarrow> bool \<Rightarrow> manga_chapter option \<Rightarrow> boundary_card" where
  "boundary_card_of isPrev hasChapter target =
     \<lparr>bc_prev = isPrev,
      bc_label =
        (if isPrev then
           if hasChapter \<and> target \<noteq> None then ''Previous chapter ('' @ chapterIdent target @ '')'' else ''No previous chapter''
         else if hasChapter \<and> target \<noteq> None then ''Next chapter ('' @ chapterIdent target @ '')'' else ''No next chapter''),
      bc_subtitle =
        (if hasChapter then
           if isPrev then ''Swipe or click to read previous chapter'' else ''Swipe or click to continue to next chapter''
         else if isPrev then ''You are at the beginning of the manga'' else ''You have reached the latest chapter''),
      bc_book = hasChapter\<rparr>"

section \<open>The two views\<close>

datatype slot_node = Node_Image page_image | Node_Card boundary_card | Node_None

definition slot_node_of ::
    "page_source \<Rightarrow> fit_mode \<Rightarrow> page list \<Rightarrow> manga_chapter option \<Rightarrow> manga_chapter option \<Rightarrow> slot \<Rightarrow> slot_node" where
  "slot_node_of src fit pages prev next s =
     (case s of
        Slot_Page n \<Rightarrow>
          (case js_at pages (n - 1) of
             Some p \<Rightarrow> Node_Image (page_image_of src fit ''rounded-sm shadow-md select-none pointer-events-none'' p n)
           | None \<Rightarrow> Node_None)
      | Slot_Prev_Boundary \<Rightarrow> Node_Card (boundary_card_of True (prev \<noteq> None) prev)
      | Slot_Next_Boundary \<Rightarrow> Node_Card (boundary_card_of False (next \<noteq> None) next)
      | Slot_Empty \<Rightarrow> Node_None)"

record paged_view =
  pv_left :: slot_node
  pv_center :: slot_node
  pv_right :: slot_node
  pv_zones :: "string \<times> string \<times> string"

definition paged_view_of ::
    "page_source \<Rightarrow> fit_mode \<Rightarrow> string \<Rightarrow> page list \<Rightarrow> rat \<Rightarrow> manga_chapter option \<Rightarrow> manga_chapter option \<Rightarrow> paged_view" where
  "paged_view_of src fit mode pages currentPage prev next =
     \<lparr>pv_left = slot_node_of src fit pages prev next (left_slot mode pages currentPage),
      pv_center = slot_node_of src fit pages prev next (center_slot pages currentPage),
      pv_right = slot_node_of src fit pages prev next (right_slot mode pages currentPage),
      pv_zones = (if mode = ''rtl'' then (''Next Page'', ''Toggle Overlays'', ''Previous Page'')
                  else (''Previous Page'', ''Toggle Overlays'', ''Next Page''))\<rparr>"

text \<open>In the continuous view a page has a place in \<open>pageRefs\<close>, an image and, outside the long strip, a label.\<close>

datatype strip_node = Strip_Card boundary_card | Strip_Page rat page_image "string option"

definition strip_page :: "page_source \<Rightarrow> fit_mode \<Rightarrow> bool \<Rightarrow> page \<Rightarrow> strip_node" where
  "strip_page src fit isLongstrip p =
     (let originalIndex = pg_index p; pageNum = originalIndex + 1
      in if isLongstrip then
           Strip_Page originalIndex (page_image_of src fit ''block transition-opacity duration-300 min-h-[100px]'' p pageNum) None
         else
           Strip_Page originalIndex
             (page_image_of src fit ''rounded-sm shadow-md transition-opacity duration-300 min-h-[300px]'' p pageNum)
             (Some (''p.'' @ num_str pageNum)))"

definition strip_view_of ::
    "page_source \<Rightarrow> fit_mode \<Rightarrow> string \<Rightarrow> page list \<Rightarrow> manga_chapter option \<Rightarrow> manga_chapter option \<Rightarrow> strip_node list" where
  "strip_view_of src fit mode pages prev next =
     [Strip_Card (boundary_card_of True (prev \<noteq> None) prev)] @ map (strip_page src fit (mode = ''longstrip'')) pages @
     [Strip_Card (boundary_card_of False (next \<noteq> None) next)]"

text \<open>
  The array of the elements once they are mounted: an assignment beyond its end leaves holes. An element is
  represented by its top.
\<close>

definition js_assign :: "'a option list \<Rightarrow> nat \<Rightarrow> 'a \<Rightarrow> 'a option list" where
  "js_assign xs i v = (if i < length xs then xs[i := Some v] else xs @ replicate (i - length xs) None @ [Some v])"

definition page_refs :: "strip_node list \<Rightarrow> rat list \<Rightarrow> rat option list" where
  "page_refs nodes tops =
     foldl (\<lambda>refs (n, top). case n of Strip_Page i _ _ \<Rightarrow> js_assign refs (nat \<lfloor>i\<rfloor>) top | Strip_Card _ \<Rightarrow> refs) [] (zip nodes tops)"

section \<open>The bars\<close>

datatype close_route = Close_Manga string | Close_Provider string string | Close_Home

definition reader_handleClose :: "reader_route \<Rightarrow> close_route" where
  "reader_handleClose r =
     (if truthy_str (route_mangaId r) then Close_Manga (the (route_mangaId r))
      else if truthy_str (route_providerId r) \<and> truthy_str (rr_remoteId r)
      then Close_Provider (the (route_providerId r)) (the (rr_remoteId r))
      else Close_Home)"

datatype chapter_button = Next_Button | Prev_Button

record top_bar =
  tb_title :: string
  tb_chapter :: string
  tb_drawer :: "(string \<times> string \<times> bool \<times> string option) list"
  tb_buttons :: "(chapter_button \<times> bool) list"

definition drawer_entry :: "(string \<Rightarrow> string) \<Rightarrow> string \<Rightarrow> manga_chapter \<Rightarrow> string \<times> string \<times> bool \<times> string option" where
  "drawer_entry localDate current c =
     (let dateVal = str_or [c_uploadDate c, c_uploadedAt c] []
      in (c_id c, str_or [c_title c, c_name c] (''Chapter '' @ template_num (c_number c)), c_id c = current,
          if dateVal \<noteq> [] then Some (localDate dateVal) else None))"

definition top_bar_of ::
    "(string \<Rightarrow> string) \<Rightarrow> manga option \<Rightarrow> manga_chapter list \<Rightarrow> string \<Rightarrow> rat \<Rightarrow> nat \<Rightarrow> string \<Rightarrow> top_bar" where
  "top_bar_of localDate m chapters chapterId currentPage pageCount mode =
     (let current = map_option ((!) chapters) (currentChapterIndex chapters chapterId);
          chTitle = str_or [Option.bind current c_title, Option.bind current c_name] ''Chapter View'';
          chNum = coalesce [Option.bind current c_number, Option.bind (Option.bind current c_meta) cm_number];
          nextB = (Next_Button, nextChapter chapters chapterId = None);
          prevB = (Prev_Button, prevChapter chapters chapterId = None)
      in \<lparr>tb_title = coalesce_or [Option.bind m m_title] ''Manga'',
          tb_chapter = formatChapterTitleWithPage (Some chTitle) (Some currentPage) (Some (of_nat pageCount)) chNum,
          tb_drawer = map (drawer_entry localDate chapterId) chapters,
          tb_buttons = (if mode = ''rtl'' then [nextB, prevB] else [prevB, nextB])\<rparr>)"

definition READING_MODES :: "(string \<times> string \<times> string) list" where
  "READING_MODES =
     [(''rtl'', ''RTL'', ''Right-to-Left''), (''ltr'', ''LTR'', ''Left-to-Right''), (''vertical'', ''V'', ''Vertical''),
      (''longstrip'', ''LS'', ''Long Strip'')]"

definition FIT_MODE_OPTIONS :: "(fit_mode \<times> string) list" where
  "FIT_MODE_OPTIONS = [(Fit_Width, ''Fit Width''), (Fit_Height, ''Fit Height''), (Fit_Original, ''Original'')]"

text \<open>The menu of the settings, while it is open: each choice with whether it is the current one.\<close>

definition settings_menu :: "bool \<Rightarrow> fit_mode \<Rightarrow> string \<Rightarrow> ((fit_mode \<times> string \<times> bool) list \<times> (string \<times> string \<times> string \<times> bool) list) option" where
  "settings_menu isOpen fit mode =
     (if isOpen then
        Some (map (\<lambda>(f, l). (f, l, fit = f)) FIT_MODE_OPTIONS, map (\<lambda>(m, badge, l). (m, badge, l, mode = m)) READING_MODES)
      else None)"

record reader_footer =
  rf_indicator :: string
  rf_slider :: "rat \<times> rat"
  rf_menu :: "((fit_mode \<times> string \<times> bool) list \<times> (string \<times> string \<times> string \<times> bool) list) option"
  rf_jump :: string

definition reader_footer_of :: "bool \<Rightarrow> fit_mode \<Rightarrow> string \<Rightarrow> rat \<Rightarrow> nat \<Rightarrow> reader_footer" where
  "reader_footer_of menuOpen fit mode currentPage pageCount =
     \<lparr>rf_indicator = num_str currentPage @ '' / '' @ num_str (of_nat pageCount),
      rf_slider = (slider_value currentPage, slider_max (of_nat pageCount)), rf_menu = settings_menu menuOpen fit mode,
      rf_jump = scroll_label mode\<rparr>"

section \<open>The hint and the dialog of the end\<close>

definition MODE_LABELS :: "(string \<times> string) list" where
  "MODE_LABELS =
     [(''rtl'', ''Right-to-Left''), (''ltr'', ''Left-to-Right''), (''vertical'', ''Vertical Scroll''), (''longstrip'', ''Long Strip'')]"

datatype arrow = Arrow_Left | Arrow_Right | Arrow_Up | Arrow_Down

record hint_view =
  hv_label :: string
  hv_arrows :: "(arrow \<times> string) list"
  hv_message :: string

definition hint_view_of :: "reading_hint \<Rightarrow> hint_view" where
  "hint_view_of h =
     (let mode = rh_readingMode h
      in \<lparr>hv_label = str_or [map_of MODE_LABELS mode] mode,
          hv_arrows =
            (if mode = ''rtl'' then [(Arrow_Left, ''Next''), (Arrow_Right, ''Prev'')]
             else if mode = ''ltr'' then [(Arrow_Left, ''Prev''), (Arrow_Right, ''Next'')]
             else if mode = ''vertical'' \<or> mode = ''longstrip'' then [(Arrow_Up, ''Prev''), (Arrow_Down, ''Next'')]
             else []),
          hv_message = rh_message h\<rparr>)"

record completion_dialog =
  cd_text :: string
  cd_mark :: "bool \<times> string"

definition completion_dialog_of :: "bool \<Rightarrow> bool \<Rightarrow> string option \<Rightarrow> completion_dialog option" where
  "completion_dialog_of isOpen isPending mangaTitle =
     (if isOpen then
        Some \<lparr>cd_text =
            (if truthy_str mangaTitle
             then CHR 0x22 # the mangaTitle @ CHR 0x22 # '' is now complete. Would you like to mark it as completed?''
             else ''Would you like to mark this manga as completed?''),
          cd_mark = (isPending, if isPending then ''Saving...'' else ''Mark Completed'')\<rparr>
      else None)"

definition handleMarkCompleted :: "string \<Rightarrow> mutation" where
  "handleMarkCompleted mangaId =
     useUpdateLibraryMangaMutation mangaId
       [(''user_status'', JStr ''completed''), (''meta'', JObj [(''user_status'', JStr ''completed'')])]"

section \<open>The page\<close>

datatype reader_body =
    Body_Loading "(string \<times> string option) option"
  | Body_Error
  | Body_No_Pages
  | Body_Paged paged_view
  | Body_Strip "strip_node list"

definition loading_text :: "manga_chapter option \<Rightarrow> (string \<times> string option) option" where
  "loading_text current =
     map_option (\<lambda>c.
       (let num = coalesce [Option.bind (c_meta c) cm_number, c_number c]; title = coalesce [Option.bind (c_meta c) cm_title, c_title c]
        in (case num of Some n \<Rightarrow> num_str n | None \<Rightarrow> [], if truthy_str title then title else None))) current"

record reader_data =
  rv_manga :: "manga option"
  rv_chapters :: "manga_chapter list"
  rv_pages :: "page list"
  rv_loading :: bool
  rv_failed :: bool

record reader_ui =
  ru_overlays :: bool
  ru_menu :: bool
  ru_fit :: fit_mode
  ru_page :: rat
  ru_hint :: "reading_hint option"
  ru_completion :: bool
  ru_marking :: bool

definition page_source_of :: "reader_route \<Rightarrow> manga list \<Rightarrow> manga option \<Rightarrow> page_source" where
  "page_source_of r library m =
     \<lparr>ps_mangaId = effectiveMangaId r library, ps_chapterId = route_chapterId r, ps_providerId = chapterProviderId r m,
      ps_mangaUrl = Option.bind m m_url\<rparr>"

definition reader_body_of :: "reader_route \<Rightarrow> manga list \<Rightarrow> reader_data \<Rightarrow> reader_ui \<Rightarrow> reader_body" where
  "reader_body_of r library d u =
     (let src = page_source_of r library (rv_manga d); mode = readingMode (rv_manga d); ch = route_chapterId r;
          prev = prevChapter (rv_chapters d) ch; next = nextChapter (rv_chapters d) ch
      in if rv_loading d
         then Body_Loading (loading_text (map_option ((!) (rv_chapters d)) (currentChapterIndex (rv_chapters d) ch)))
         else if rv_failed d then Body_Error
         else if rv_pages d = [] then Body_No_Pages
         else if isPaged mode then Body_Paged (paged_view_of src (ru_fit u) mode (rv_pages d) (ru_page u) prev next)
         else Body_Strip (strip_view_of src (ru_fit u) mode (rv_pages d) prev next))"

record reader_view =
  rw_overlays :: bool
  rw_top :: top_bar
  rw_body :: reader_body
  rw_footer :: "reader_footer option"
  rw_hint :: "hint_view option"
  rw_completion :: "completion_dialog option"

definition reader_view_of ::
    "(string \<Rightarrow> string) \<Rightarrow> reader_route \<Rightarrow> manga list \<Rightarrow> reader_data \<Rightarrow> reader_ui \<Rightarrow> reader_view" where
  "reader_view_of localDate r library d u =
     (let mode = readingMode (rv_manga d)
      in \<lparr>rw_overlays = ru_overlays u,
          rw_top = top_bar_of localDate (rv_manga d) (rv_chapters d) (route_chapterId r) (ru_page u) (length (rv_pages d)) mode,
          rw_body = reader_body_of r library d u,
          rw_footer =
            (if length (rv_pages d) > 0
             then Some (reader_footer_of (ru_menu u) (ru_fit u) mode (ru_page u) (length (rv_pages d))) else None),
          rw_hint = map_option hint_view_of (ru_hint u),
          rw_completion = completion_dialog_of (ru_completion u) (ru_marking u) (Option.bind (rv_manga d) m_title)\<rparr>)"

section \<open>What is pressed\<close>

datatype reader_press =
    Press_Overlays
  | Press_Menu
  | Press_Outside
  | Press_Fit fit_mode
  | Press_Mode string
  | Press_Chapter string
  | Press_Prev_Chapter
  | Press_Next_Chapter
  | Press_Close
  | Prompt_Completion
  | Press_Not_Now
  | Press_Mark_Completed
  | Mark_Answer

datatype reader_effect =
    Store_Fit fit_mode
  | Dismiss_Hint
  | Reader_Mutation mutation
  | Reader_Nav nav_output
  | Reader_Close close_route

definition reader_press_step ::
    "reader_opts \<Rightarrow> reader_route \<Rightarrow> manga list \<Rightarrow> reader_ui \<Rightarrow> reader_press \<Rightarrow> reader_ui \<times> reader_effect list" where
  "reader_press_step o' r library u e =
     (case e of
        Press_Overlays \<Rightarrow> (u\<lparr>ru_overlays := \<not> ru_overlays u\<rparr>, [])
      | Press_Menu \<Rightarrow> (u\<lparr>ru_menu := \<not> ru_menu u\<rparr>, [])
      | Press_Outside \<Rightarrow> (u\<lparr>ru_menu := False\<rparr>, [])
      | Press_Fit f \<Rightarrow> if ru_menu u then (u\<lparr>ru_fit := f\<rparr>, [Store_Fit f]) else (u, [])
      | Press_Mode m \<Rightarrow>
          if ru_menu u \<and> m \<in> set (map fst READING_MODES)
          then (u, Dismiss_Hint # map Reader_Mutation (option_list (handleReadingModeChange (effectiveMangaId r library) m)))
          else (u, [])
      | Press_Chapter i \<Rightarrow> (u, [Reader_Nav (Out_Chapter i None)])
      | Press_Prev_Chapter \<Rightarrow> (u, map Reader_Nav (handlePrevChapter o'))
      | Press_Next_Chapter \<Rightarrow> (u, if ro_next o' = None then [] else map Reader_Nav (handleNextChapter o'))
      | Press_Close \<Rightarrow> (u, [Reader_Close (reader_handleClose r)])
      | Prompt_Completion \<Rightarrow> (u\<lparr>ru_completion := True\<rparr>, [])
      | Press_Not_Now \<Rightarrow> (u\<lparr>ru_completion := False\<rparr>, [])
      | Press_Mark_Completed \<Rightarrow>
          if ru_completion u \<and> \<not> ru_marking u
          then (u\<lparr>ru_completion := False, ru_marking := True\<rparr>,
                [Reader_Mutation (handleMarkCompleted (str_or [effectiveMangaId r library] []))])
          else (u, [])
      | Mark_Answer \<Rightarrow> (u\<lparr>ru_marking := False\<rparr>, []))"

section \<open>Properties\<close>

lemma page_loads_hidden: "im_hidden el \<Longrightarrow> page_loads resolve ok f n el = (el, [])"
  by (cases n) simp_all

lemma page_loads_forever:
  assumes "\<forall>u. \<not> ok u" "f \<noteq> []" "resolve f \<noteq> f" "\<not> h"
  shows "page_loads resolve ok f n \<lparr>im_src = f, im_hidden = h\<rparr> = (\<lparr>im_src = f, im_hidden = h\<rparr>, replicate n f)"
  using assms by (induction n) (simp_all add: page_onError_def)

text \<open>
  C15: (error) the image of a page that cannot be loaded is taken away only if the fallback is its own absolute address: the handler compares the
  resolved address with the text of the fallback. With a fallback on this host, which is a path, every failure sets it anew, so the browser asks for it
  again and again and the broken image stays; else two addresses are asked for at most and the image is hidden.
\<close>

theorem broken_page_is_asked_forever:
  assumes "\<forall>u. \<not> ok u" and "f \<noteq> []" and "resolve u \<noteq> f"
  shows "page_loads resolve ok f (Suc (Suc n)) \<lparr>im_src = u, im_hidden = False\<rparr> =
    (if resolve f \<noteq> f then (\<lparr>im_src = f, im_hidden = False\<rparr>, u # replicate (Suc n) f)
     else (\<lparr>im_src = f, im_hidden = True\<rparr>, [u, f]))"
  using assms page_loads_forever [of ok f resolve False "n"] by (simp add: page_onError_def page_loads_hidden)

definition sample_host :: "string \<Rightarrow> string" where
  "sample_host u = (if js_startsWith u ''/'' then ''http://kiyomi'' @ u else u)"

theorem broken_page_is_asked_forever_witness:
  "let f = getProxyImageUrl (Some ''https://x/1.jpg'') None
   in snd (page_loads sample_host (\<lambda>_. False) f 5 \<lparr>im_src = ''/api/v1/p'', im_hidden = False\<rparr>) = [''/api/v1/p'', f, f, f, f]"
proof -
  let ?f = "getProxyImageUrl (Some ''https://x/1.jpg'') None"
  have h: "?f \<noteq> []" "sample_host ''/api/v1/p'' \<noteq> ?f" "sample_host ?f \<noteq> ?f"
    by code_simp+
  show ?thesis
    using broken_page_is_asked_forever [of "\<lambda>_. False" ?f sample_host "''/api/v1/p''" 3] h
    by (simp only: Let_def) (simp add: eval_nat_numeral del: page_loads.simps)
qed

subsection \<open>The numbers of the pages in the continuous view\<close>

lemma js_assign_next: "js_assign xs (length xs + k) v = xs @ replicate k None @ [Some v]"
  by (simp add: js_assign_def)

lemma page_refs_consecutive:
  assumes "map pg_index pages = map of_nat [k..<k + length pages]" "length tops = length pages"
  shows "foldl (\<lambda>refs (n, top). case n of Strip_Page i _ _ \<Rightarrow> js_assign refs (nat \<lfloor>i\<rfloor>) top | Strip_Card _ \<Rightarrow> refs) []
      (zip (map (strip_page src fit ls) pages) tops) = (if pages = [] then [] else replicate k None @ map Some tops)"
  using assms
proof (induction pages arbitrary: tops rule: rev_induct)
  case (snoc p pages)
  from snoc.prems(2) obtain ts t where tops: "tops = ts @ [t]" and len: "length ts = length pages"
    by (cases tops rule: rev_cases) auto
  from snoc.prems(1) have idx: "pg_index p = of_nat (k + length pages)" and rest: "map pg_index pages = map of_nat [k..<k + length pages]"
    by simp_all
  have node: "\<exists>img l. strip_page src fit ls p = Strip_Page (of_nat (k + length pages)) img l"
    by (simp add: strip_page_def Let_def idx)
  have place: "nat \<lfloor>of_nat (k + length pages) :: rat\<rfloor> = k + length pages"
    by (metis floor_of_nat nat_int)
  have "js_assign (if pages = [] then [] else replicate k None @ map Some ts) (k + length pages) t = replicate k None @ map Some ts @ [Some t]"
    using len js_assign_next [of "replicate k None @ map Some ts" 0 t] js_assign_next [of "[]" k t] by auto
  with snoc.IH [OF rest len] node place show ?case by (auto simp: tops len)
qed simp

lemma visible_page_shift:
  "visible_page mid (replicate k None @ map Some ts) =
     (if \<exists>t \<in> set ts. t \<le> mid then visible_page mid (map Some ts) + of_nat k else 1)"
proof (induction ts rule: rev_induct)
  case Nil
  have "visible_page mid (replicate k None) = 1"
    by (induction k) (simp_all add: visible_page_def [of mid "[]"] visible_page_snoc replicate_append_same [symmetric])
  then show ?case by simp
next
  case (snoc t ts)
  have "visible_page mid (map Some ts) = 1" if "\<forall>x \<in> set ts. \<not> x \<le> mid"
    using that by (induction ts rule: rev_induct) (simp_all add: visible_page_def [of mid "[]"] visible_page_snoc)
  with snoc visible_page_snoc [of mid "replicate k None @ map Some ts" "Some t"] visible_page_snoc [of mid "map Some ts" "Some t"]
  show ?case by (auto simp: algebra_simps)
qed

lemma strip_view_refs:
  assumes "map pg_index pages = map of_nat [k..<k + length pages]" "length tops = length pages" "pages \<noteq> []"
  shows "page_refs (strip_view_of src fit mode pages prv nxt) (a # tops @ [b]) = replicate k None @ map Some tops"
  using page_refs_consecutive [OF assms(1,2), of src fit "mode = ''longstrip''"] assms(2,3)
  by (simp add: page_refs_def strip_view_of_def)

lemma js_at_nat: "js_at xs (of_nat i) = (if i < length xs then Some (xs ! i) else None)"
  by (simp add: js_at_def)

text \<open>
  C12: (error) the continuous view takes the number of a page in the file of the provider for its place: the plugins of MangaDex and Atsumaru count
  from 1. If the pages count from \<open>k\<close>, the page that is reported while page \<open>q\<close> is in the middle of the window is \<open>q + k\<close>, and going to page
  \<open>q\<close> scrolls to page \<open>q - k\<close>, to none if there is no such page; only a provider that counts from 0 is shown as it is.
\<close>

theorem strip_counts_with_provider:
  assumes "map pg_index pages = map of_nat [k..<k + length pages]" and "length tops = length pages" and "pages \<noteq> []"
    and "refs = page_refs (strip_view_of src fit mode pages prv nxt) (a # tops @ [b])"
  shows "(\<forall>q \<in> {1..length pages}. tops ! (q - 1) \<le> mid \<and> (\<forall>j \<in> {q..<length pages}. \<not> tops ! j \<le> mid) \<longrightarrow>
           visible_page mid refs = of_nat (q + k)) \<and>
         (\<forall>q \<in> {1..length pages}. (case scrollToPage (of_nat q) refs of
             None \<Rightarrow> q \<le> k
           | Some i \<Rightarrow> k < q \<and> refs ! i = Some (tops ! (q - k - 1))))"
proof
  have refs: "refs = replicate k None @ map Some tops" unfolding assms(4) by (rule strip_view_refs [OF assms(1-3)])
  show "\<forall>q \<in> {1..length pages}. tops ! (q - 1) \<le> mid \<and> (\<forall>j \<in> {q..<length pages}. \<not> tops ! j \<le> mid) \<longrightarrow>
      visible_page mid refs = of_nat (q + k)"
  proof (intro ballI impI, elim conjE)
    fix q
    assume q: "q \<in> {1..length pages}" and at: "tops ! (q - 1) \<le> mid" and below: "\<forall>j \<in> {q..<length pages}. \<not> tops ! j \<le> mid"
    have i: "q - 1 < length tops" using q assms(2) by auto
    have "\<forall>j. q - 1 < j \<and> j < length pages \<longrightarrow> \<not> tops ! j \<le> mid" using q below by auto
    then have "visible_page mid (map Some tops) = of_nat (q - 1) + 1"
      using conjunct1 [OF scroll_tracker_spec, of "map Some tops" mid, rule_format, of "q - 1"] i at assms(2) by auto
    moreover have "\<exists>t \<in> set tops. t \<le> mid" using i at nth_mem by blast
    ultimately show "visible_page mid refs = of_nat (q + k)"
      using q by (simp add: refs visible_page_shift of_nat_diff)
  qed
  show "\<forall>q \<in> {1..length pages}. (case scrollToPage (of_nat q) refs of
      None \<Rightarrow> q \<le> k | Some i \<Rightarrow> k < q \<and> refs ! i = Some (tops ! (q - k - 1)))"
  proof
    fix q
    assume q: "q \<in> {1..length pages}"
    obtain i where i: "q = Suc i" using q by (cases q) auto
    have "(of_nat q :: rat) - 1 = of_nat i" by (simp add: i)
    then have "scrollToPage (of_nat q) refs = (if q \<le> k then None else Some (q - 1))"
      using q assms(2) by (simp only: scrollToPage_def js_at_nat) (simp add: refs nth_append i)
    moreover have "refs ! (q - 1) = Some (tops ! (q - k - 1))" if "k < q"
    proof -
      obtain r where "q = k + r + 1" using less_imp_Suc_add [OF \<open>k < q\<close>] by auto
      then show ?thesis using q assms(2) by (simp add: refs nth_append)
    qed
    ultimately show "case scrollToPage (of_nat q) refs of None \<Rightarrow> q \<le> k | Some i \<Rightarrow> k < q \<and> refs ! i = Some (tops ! (q - k - 1))"
      by simp
  qed
qed

theorem strip_counts_with_provider_witness:
  "let pages = [\<lparr>pg_index = 1, pg_url = ''a'', pg_assetUrl = None\<rparr>, \<lparr>pg_index = 2, pg_url = ''b'', pg_assetUrl = None\<rparr>];
       src = \<lparr>ps_mangaId = None, ps_chapterId = ''c'', ps_providerId = [], ps_mangaUrl = None\<rparr>
   in visible_page 400 (page_refs (strip_view_of src Fit_Width ''longstrip'' pages None None) [- 50, 0, 900, 1800]) = 2"
proof -
  let ?pages = "[\<lparr>pg_index = 1, pg_url = ''a'', pg_assetUrl = None\<rparr>, \<lparr>pg_index = 2, pg_url = ''b'', pg_assetUrl = None\<rparr>]"
  let ?src = "\<lparr>ps_mangaId = None, ps_chapterId = ''c'', ps_providerId = [], ps_mangaUrl = None\<rparr>"
  have idx: "map pg_index ?pages = map of_nat [1..<1 + length ?pages]" by (simp add: upt_rec)
  have len: "length [0 :: rat, 900] = length ?pages" by simp
  have "visible_page 400 (page_refs (strip_view_of ?src Fit_Width ''longstrip'' ?pages None None) (- 50 # [0, 900] @ [1800])) = of_nat (1 + 1)"
    using conjunct1 [OF strip_counts_with_provider [OF idx len _ refl, where src = ?src and fit = Fit_Width and mode = "''longstrip''"
        and prv = None and nxt = None and a = "- 50" and b = 1800 and mid = 400], rule_format, of 1] by simp
  then show ?thesis by (simp add: Let_def)
qed

text \<open>The buttons of the top bar lie where the zones of the paged view lie: the way forward is on the left in right-to-left mode only.\<close>

lemma buttons_agree_with_zones:
  "map fst (tb_buttons (top_bar_of localDate m chapters i p n mode)) =
   (if zone_action_of mode Zone_Left = Zone_Next then [Next_Button, Prev_Button] else [Prev_Button, Next_Button])"
  by (simp add: top_bar_of_def zone_action_of_def Let_def)

end
