(* ===== verification/Spec2Isabelle.thy ===== *)
theory Spec2Isabelle
  imports Metadata_Comparison Lib_Utils Edit_Form Library_Filters Chapter_Filters Chapter_Selection Reader_Page
    Reader_Hint Details_Manga Routing Jobs_Manager Add_Provider Metadata_Search Chapter_Row Plugin_Settings Settings_Tabs
    Tag_Input Merge_Dialog Cover_Image App_Routes App_Shell App_Update Chapter_List Job_Rows Plugin_Cards Edit_Dialog Reader_View
begin

text \<open>
  A verification development for the web client of Kiyomi, a manga server with a Go backend and a
  TypeScript and React client under \<open>src/web/src\<close>. Modelled is the logic of the client: its wire types, its
  HTTP client and cache keys, the hooks that hold the state of its pages, and the handlers of the
  pages. The backend (but for the handler of the user state), the plugins and the markup are not.

  The parts and how they work together. The pages read through query hooks and write through mutations (\<open>api\<close>,
  \<open>lib\<close>): a query has a cache key and a request, a mutation a request and the keys it invalidates. The library page filters and counts; the
  details page (\<open>useDetailsManga.ts\<close>, \<open>useChapterOperations.ts\<close>) shows a manga of the library or of a provider, its
  chapters and the button that resumes reading; the reader (\<open>ReaderPage.tsx\<close> with its hooks) turns pages, tracks the
  progress and reports it; dialogs import, edit and merge metadata and bind providers; the explore page
  searches a provider; the settings page lists background jobs, configures plugins and clears caches.

  \<^item> \<open>Kiyomi_Prelude\<close>: strings, numbers, options, lists and sets with the meaning JavaScript gives them; stable
    sorting (\<open>comparator\<close>); event machines (\<open>machine\<close>) and their refinement (\<open>refinement\<close>).
  \<^item> \<open>Types_Api\<close> (\<open>types/api.ts\<close>), \<open>Json\<close> and \<open>Uri\<close> (the standard library's \<open>JSON\<close> values and URI encoding).
  \<^item> \<open>Api_Client\<close> (\<open>api/client.ts\<close>): the request of every method, \<open>fetchAPI\<close>, the envelope of a provider's manga;
    chapter paths decode to their ids, every answer is delivered or rejected as documented.
  \<^item> \<open>Query_Keys\<close> and \<open>Api_Hooks\<close> (\<open>lib/queryKeys.ts\<close>, \<open>lib/queryOptions.ts\<close>, \<open>lib/persister.ts\<close>, \<open>api/hooks.ts\<close>): equal keys mean equal
    requests; what each mutation refreshes.
  \<^item> \<open>Lib_Utils\<close> (\<open>lib/utils.ts\<close>, \<open>utils/image.ts\<close>), \<open>Metadata_Compare\<close> (\<open>utils/metadataCompare.ts\<close>), \<open>Reading_Cta\<close> (\<open>utils/readingCta.ts\<close>):
    the pure helpers; merging keeps one item per key in order, the call to action is sound, complete and goes forward.
  \<^item> \<open>Library_Filters\<close>, \<open>Chapter_Filters\<close>, \<open>Chapter_Selection\<close> (hooks of the library page and of the chapter list, \<open>useMergeFlow.ts\<close>):
    lists are stable sorts of exact filters, counts agree with lists, pages partition, ranges are selected.
  \<^item> \<open>Reader_Gesture\<close> (\<open>useReaderGesture.ts\<close>), \<open>Reader_Input\<close> (keys, zones, slots, slider, scroll tracker), \<open>Reader_Navigation\<close> (route, page
    turns and jumps of \<open>ReaderPage.tsx\<close>), \<open>Reader_Progress\<close> (\<open>useReaderProgressTracker.ts\<close>), \<open>Reader_Page\<close> (queries, reports, toast, title),
    \<open>Reader_Hint\<close> (\<open>useReadingHint.ts\<close>, \<open>ReaderHint.tsx\<close>, fit mode): state machines with their timers. Their lemmas show that animations and
    hints end, that the page stays in the chapter unless a jump interrupts a turn, that at most one save is pending and that it is current.
  \<^item> \<open>Details_Manga\<close> (\<open>useDetailsManga.ts\<close>, handlers of \<open>DetailsPage.tsx\<close>), \<open>Chapter_Operations\<close> (\<open>useChapterOperations.ts\<close>): queries are
    exclusive, the button opens a chapter that is shown, the optimistic pull set refines the pulls awaited.
  \<^item> \<open>Metadata_Comparison\<close>, \<open>Metadata_Search\<close> (\<open>import-metadata\<close>), \<open>Edit_Form\<close> (\<open>useEditMetadataForm.ts\<close>), \<open>Add_Provider\<close> (\<open>useAddProviderSearch.ts\<close>): imports never
    erase, an unchanged form sends back what it got, bindings pair a provider with its own manga as long as the provider is not changed.
  \<^item> \<open>Compare_View\<close> (\<open>MetadataCompareStep.tsx\<close> and its fields), \<open>Import_Dialog\<close> (\<open>ImportMetadataDialog.tsx\<close>,
    \<open>MetadataSearchStep.tsx\<close>, \<open>AliasCombobox.tsx\<close>), \<open>Merge_Dialog\<close> (\<open>MergeMangaDialog.tsx\<close>): the dialogs over these hooks, as event machines with the
    requests under way. What an import changes was shown, a binding pairs a provider with its own manga while the provider is kept, a
    merge removes the manga that was picked, nothing waits for ever.
  \<^item> \<open>Cover_Image\<close> (\<open>CoverImage.tsx\<close>): a cover is loaded or given up after at most two requests.
  \<^item> \<open>Details_Card\<close> (\<open>DetailsHeroCard.tsx\<close>, \<open>DetailsActionBar.tsx\<close>, \<open>ProviderList.tsx\<close>), \<open>Details_Page\<close> (\<open>DetailsPage.tsx\<close>): what the page shows and
    offers, and the page as a machine: a request is sent only under the conditions of its button, a provider of chapters is kept
    while the page shows the bindings as they are, importing from a row asks its provider.
  \<^item> \<open>User_Metadata\<close> (\<open>DetailsUserMetadata.tsx\<close>, the PATCH of the user state in \<open>library_handler.go\<close>): what a control sends is stored and shown
    again, a draft is safe, a note cannot be cleared.
  \<^item> \<open>Manga_Pages\<close> (\<open>LibraryPage.tsx\<close>, \<open>components/library\<close>, \<open>LibraryShelfFilters.tsx\<close>, \<open>LibraryMangaCard.tsx\<close>, \<open>MangaCard.tsx\<close>): shelf tabs say
    what is behind them, the list has no dead end, a card opens its manga.
  \<^item> \<open>App_Routes\<close> (table of routes and loaders of \<open>router.tsx\<close>, \<open>Header.tsx\<close>, \<open>SettingsPage.tsx\<close>): loaders fetch ahead what the pages ask for,
    the navigation is hidden in the reader.
  \<^item> \<open>App_Shell\<close> (\<open>ThemeContext.tsx\<close>, \<open>usePWAInstall.ts\<close>, \<open>SettingsAboutTab.tsx\<close>), \<open>App_Update\<close> (\<open>lib/pwa.ts\<close>, \<open>ToastContainer.tsx\<close>,
    \<open>ErrorDetailsModal.tsx\<close>): the document wears the theme, what is said of the installation is true, a new version is offered once.
  \<^item> \<open>Routing\<close> (search parameters of \<open>router.tsx\<close>, \<open>ExplorePage.tsx\<close>), \<open>Jobs_Manager\<close> (\<open>useJobsManager.ts\<close>), \<open>Toasts\<close> (\<open>ToastContext.tsx\<close>).
  \<^item> \<open>Chapter_Row\<close> (\<open>ChapterRow.tsx\<close>, \<open>ChapterDownloadBadge.tsx\<close>, their set-up in \<open>ChapterList.tsx\<close> and \<open>DetailsPage.tsx\<close>, the unread count of
    \<open>LibraryMangaCard.tsx\<close>): link, menu, checkbox and badge of a row; actions are guarded, the rules for "read" agree on
    consistent flags, and on a provider's page the rows miss the library entry.
  \<^item> \<open>Plugin_Settings\<close> (\<open>ScopedSettingsModal.tsx\<close>) and \<open>Settings_Tabs\<close> (\<open>CollisionResolutionAlert.tsx\<close>, \<open>DiagnosticLogsModal.tsx\<close>,
    \<open>SettingsPluginsTab.tsx\<close>, \<open>SettingsCacheTab.tsx\<close>): the form refines a map of fields and survives saving; what answers
    do, late ones included; the log view.
  \<^item> \<open>Chapter_List\<close> (\<open>ChapterList.tsx\<close>, \<open>ChapterListHeader.tsx\<close>, \<open>BatchActionBar.tsx\<close>, \<open>BatchRemoveDialog.tsx\<close>, \<open>Pagination.tsx\<close>): the list over its hooks
    as a machine; a batch action acts on what is selected, every chapter can be reached, a chapter that is gone stays selected.
  \<^item> \<open>Job_Rows\<close> (\<open>SettingsJobsTab.tsx\<close>, \<open>JobRow.tsx\<close>): the table of nested rows (a recursion that ends below the deepest expanded row) and
    its buttons; what is sent is what a shown button offers, but for sub-jobs, whose buttons follow the row above.
  \<^item> \<open>Plugin_Cards\<close> (\<open>SettingsPluginsTab.tsx\<close>, \<open>PluginCard.tsx\<close>, \<open>DiagnosticLogsModal.tsx\<close>): the plugins tab as a machine over \<open>Plugin_Settings\<close> and
    \<open>Settings_Tabs\<close>, with what it renders; its requests are guarded, a timestamp that cannot be printed breaks the page.
  \<^item> \<open>Edit_Dialog\<close> (\<open>EditMetadataDialog.tsx\<close>): the dialog over \<open>Edit_Form\<close> and \<open>Tag_Input\<close>; what is saved is proper, a late answer closes the
    dialog that is open then.
  \<^item> \<open>Reader_View\<close> (what \<open>ReaderPage.tsx\<close>, \<open>ReaderTopBar.tsx\<close>, the two views, \<open>ReaderFooter.tsx\<close>, \<open>ReaderHint.tsx\<close> and
    \<open>CompletionPromptDialog.tsx\<close> render): a broken page image is asked for again for ever, and the continuous view counts as the provider does.
  \<^item> \<open>Tag_Input\<close> (\<open>ui/tag-input.tsx\<close>): the list of chips stays proper, and a typed list can be taken back.
  \<^item> This theory: reading resumed from the details page in the reader and reported back, the row of a chapter and the
    button leading to the same place, and the reading mode.

  Conventions. A JavaScript number is a rational, \<open>NaN\<close> being \<open>None\<close> where it can occur; a string is a list of
  characters; a value that may be \<open>undefined\<close> or \<open>null\<close> is an option; \<open>??\<close> is \<open>coalesce\<close>, \<open>||\<close> is \<open>str_or\<close> or \<open>num_or\<close>; a set is a list without
  repetitions, in the order of insertion. A hook is a record of its state and refs, one function per handler and effect, and a step function over events;
  an effect compares its dependencies with those of its last run, and runs its cleanup first. A timer is a number
  in a list of pending timers; timers fire as events of their own, in any order, so what is proved does not depend on the delays. The platform and the
  backend are parameters: \<open>fetch\<close>, \<open>localeCompare\<close>, the reading of dates and of numbers, the storage, the answers of searches. The only fuel is the number of loads of a
  page image, which need not end and are counted for every number; every function is total, and the recursion that is not
  structural (printing a number, removing substrings, the attempts to load a cover, the nested rows of jobs) ends by a measure.

  Not modelled: the Go backend (but for the PATCH of the user state), the plugins and their SDK (another language; the client is modelled
  against the answers its types declare); the cache, retries and scheduling of TanStack Query and the router (libraries; only the prefix
  matching of keys and the order of effects is used); markup and styling; the service worker itself. Characters are those up to 255; numbers do not overflow and are exact.
\<close>

section \<open>From the details page to the reader and back\<close>

text \<open>The parameters of the address a target of the details page leads to.\<close>

definition target_route :: "details_target \<Rightarrow> reader_route" where
  "target_route t =
     (case t of
        To_Reader m ch s \<Rightarrow>
          \<lparr>rr_chapterId = Some ch, rr_mangaId = Some m, rr_providerId = None, rr_remoteId = None,
           rr_searchMangaId = None\<rparr>
      | To_Provider_Reader p q ch s \<Rightarrow>
          \<lparr>rr_chapterId = Some ch, rr_mangaId = None, rr_providerId = Some p, rr_remoteId = Some q,
           rr_searchMangaId = None\<rparr>)"

definition target_page :: "details_target \<Rightarrow> search_page" where
  "target_page t =
     rs_page (validateReaderSearch
       (JObj (case (case t of To_Reader m ch s \<Rightarrow> s | To_Provider_Reader p q ch s \<Rightarrow> s) of
                None \<Rightarrow> [] | Some n \<Rightarrow> [(''page'', JNum n)])))"

lemma target_page_number:
  "0 < q \<Longrightarrow> target_page (To_Reader m ch (Some q)) = Page_Number q"
  "target_page (To_Reader m ch None) = Page_Undefined"
  by (simp_all add: target_page_def validateReaderSearch_def jget_def members_def mget_Cons mget_def)

lemma find_by_id:
  "c \<in> set cs \<Longrightarrow> distinct (map c_id cs) \<Longrightarrow> List.find (\<lambda>d. Some (c_id d) = Some (c_id c)) cs = Some c"
  by (induction cs) auto

text \<open>An unread chapter that is the last one read is the one to resume.\<close>

lemma resume_cta:
  assumes "c \<in> set cs" "distinct (map c_id cs)" "\<not> getIsRead c" "1 < getLastPage c"
    and "last_read_id arg = Some (c_id c)" "c_id c \<noteq> []"
  obtains info where "getReadingCtaInfo (Some cs) arg = Some info" "cta_chapterId info = c_id c"
    "cta_page info = getLastPage c"
proof -
  have "last_read_chapter cs arg = Some c"
    using assms find_by_id [OF assms(1,2)] by (simp add: last_read_chapter_def)
  then have "in_progress_chapter (sort_chapters cs) (last_read_chapter cs arg) = Some c"
    using assms(3,4) by (simp add: in_progress_chapter_def in_progress_def)
  moreover have "cs \<noteq> []" using assms(1) by auto
  ultimately show thesis using that assms(4) by (auto simp: getReadingCtaInfo_def Let_def)
qed


text \<open>\<open>resume_where_left\<close> for page 7 of a chapter of 20 pages.\<close>

definition left_chapter :: manga_chapter where
  "left_chapter = (blank_manga_chapter ''c1'')\<lparr>c_last_read_page := Some 7\<rparr>"

definition sample_library_route :: details_route where
  "sample_library_route =
     \<lparr>dr_pathname = ''/manga/m1'', dr_mangaId = Some ''m1'', dr_providerId = None, dr_remoteId = None\<rparr>"

definition sample_library_details :: details_data where
  "sample_library_details =
     \<lparr>dd_library = [blank_manga ''m1''], dd_remote = None,
      dd_local = Some ((blank_manga ''m1'')\<lparr>m_lastReadChapterId := Some ''c1''\<rparr>), dd_provider = None, dd_sources = [],
      dd_localChapters = Some \<lparr>clr_chapters = [left_chapter]\<rparr>, dd_remoteChapters = None, dd_jobs = [],
      dd_localLoading = False, dd_remoteLoading = False\<rparr>"




section \<open>The reading mode\<close>

text \<open>
  The reader does not see a reading mode that is stored with the content binding only. For a manga
  whose binding says \<open>mode\<close> and whose older members say nothing, the edit form starts with \<open>mode\<close> and sends it
  back, but the reader reads right to left. When an older member of the joined manga says the mode, and it is one the
  reader knows, the reader follows it whatever the binding says.
\<close>

theorem reader_ignores_binding_mode:
  assumes "m_bindings m = Some \<lparr>mb_providers = ps, mb_content = Some cs\<rparr>" "cs_reading_mode cs = Some md" "md \<noteq> []"
    and "Option.bind (m_content m) cs_reading_mode = None" "Option.bind (meta_content m) cs_reading_mode = None"
    and "m_reading_mode m = None" "m_readingDirection m = None" "Option.bind (m_meta m) mm_reading_direction = None"
    and "old \<in> set [''rtl'', ''ltr'', ''vertical'', ''longstrip'']"
  shows "(getInitialReadingMode m = md) \<and>
    (m_readingMode m = None \<longrightarrow> readingMode (Some m) = ''rtl'') \<and>
    (m_readingMode m = Some old \<longrightarrow> readingMode (Some m) = old)"
proof (rule conjI3; (intro impI)?)
  show "getInitialReadingMode m = md" using assms(1-3) by (simp add: getInitialReadingMode_def)
  have raw: "rawReadingMode (Some m) = js_lower (js_trim (str_or [m_readingMode m] []))"
    using assms(4-8) by (cases "m_readingMode m") (simp_all add: rawReadingMode_def)
  show "readingMode (Some m) = ''rtl''" if "m_readingMode m = None"
    using that by (simp add: readingMode_def raw js_lower_def)
  have known: "js_lower (js_trim o') = o' \<and> o' \<noteq> []" if "o' \<in> set [''rtl'', ''ltr'', ''vertical'', ''longstrip'']" for o'
  proof -
    have "list_all (\<lambda>o'. js_lower (js_trim o') = o' \<and> o' \<noteq> []) [''rtl'', ''ltr'', ''vertical'', ''longstrip'']" by code_simp
    with that show ?thesis by (auto simp: list_all_iff)
  qed
  show "readingMode (Some m) = old" if "m_readingMode m = Some old"
    using known [OF assms(9)] assms(9) that unfolding readingMode_def raw by simp
qed

text \<open>\<open>reader_ignores_binding_mode\<close> for a long strip.\<close>

definition longstrip_manga :: manga where
  "longstrip_manga =
     (blank_manga ''m'')\<lparr>m_bindings := Some \<lparr>mb_providers = None,
        mb_content = Some \<lparr>cs_provider_id = ''p'', cs_provider_manga_id = None, cs_chapter_ref = None,
          cs_last_synced_at = None, cs_reading_mode = Some ''longstrip''\<rparr>\<rparr>\<rparr>"

theorem reader_ignores_binding_mode_witness:
  "getInitialReadingMode longstrip_manga = ''longstrip'' \<and> readingMode (Some longstrip_manga) = ''rtl''"
  using reader_ignores_binding_mode [of longstrip_manga None
      "\<lparr>cs_provider_id = ''p'', cs_provider_manga_id = None, cs_chapter_ref = None,
        cs_last_synced_at = None, cs_reading_mode = Some ''longstrip''\<rparr>" "''longstrip''" "''ltr''"]
  by (simp add: longstrip_manga_def meta_content_def)

end
